(* ===== verification/Ascon_Prelude.thy ===== *)
theory Ascon_Prelude
  imports Main "HOL-Library.Word"
begin

text \<open>
  Shared material: the names of the machine integer types, the fact collections that
  the component theories fill, byte buffers as lists (reading and writing at an offset,
  xor of two buffers), the little-endian layout of 64-bit words that the C code relies
  on when it accesses one union through \<open>s64\<close>, \<open>s32\<close> and \<open>s8\<close>, and the rotation
  lemmas used by the permutation theories.
\<close>

unbundle bit_operations_syntax

type_synonym u8 = "8 word"
type_synonym u32 = "32 word"
type_synonym u64 = "64 word"

named_theorems layout_simps "byte and word views of one memory area"
named_theorems perm_simps "evaluation of the permutation's loops"

section \<open>Byte buffers\<close>

text \<open>A \<open>memcpy\<close> out of a buffer and into a buffer, at a byte offset.\<close>

definition read_at :: "nat \<Rightarrow> nat \<Rightarrow> 'a list \<Rightarrow> 'a list" where
  "read_at off n xs = take n (drop off xs)"

definition write_at :: "nat \<Rightarrow> 'a list \<Rightarrow> 'a list \<Rightarrow> 'a list" where
  "write_at off bs xs = take off xs @ bs @ drop (off + length bs) xs"

definition xor_bytes :: "u8 list \<Rightarrow> u8 list \<Rightarrow> u8 list" where
  "xor_bytes xs ys = map2 (XOR) xs ys"

lemma xor_right_inj: "x XOR z = y XOR z \<longleftrightarrow> x = (y :: 'a::len word)"
  by (metis xor.assoc xor_self_eq xor.right_neutral)

lemma xor_cancel_left: "x XOR (x XOR y) = (y :: 'a::len word)"
  by (metis xor.assoc xor_self_eq xor.left_neutral)

lemma length_xor_bytes [simp]: "length (xor_bytes xs ys) = min (length xs) (length ys)"
  by (simp add: xor_bytes_def)

lemma xor_bytes_Nil [simp]: "xor_bytes xs [] = []" "xor_bytes [] ys = []"
  by (simp_all add: xor_bytes_def)

lemma xor_bytes_Cons [simp]: "xor_bytes (x # xs) (y # ys) = (x XOR y) # xor_bytes xs ys"
  by (simp add: xor_bytes_def)

lemma xor_bytes_cancel: "length xs = length ys \<Longrightarrow> xor_bytes (xor_bytes xs ys) ys = xs"
  by (induction xs ys rule: list_induct2) (simp_all add: xor.assoc)

lemma xor_bytes_nth: "i < length xs \<Longrightarrow> i < length ys \<Longrightarrow> xor_bytes xs ys ! i = xs ! i XOR ys ! i"
  by (simp add: xor_bytes_def)

lemma take_xor_bytes: "take n (xor_bytes xs ys) = xor_bytes (take n xs) (take n ys)"
  by (simp add: xor_bytes_def take_map take_zip)

lemma map2_take_right: "map2 f (take (length ys) xs) ys = map2 f xs ys"
  by (rule nth_equalityI) simp_all

lemma length_read_at [simp]: "off + n \<le> length xs \<Longrightarrow> length (read_at off n xs) = n"
  by (simp add: read_at_def)

lemma length_write_at [simp]: "off + length bs \<le> length xs \<Longrightarrow> length (write_at off bs xs) = length xs"
  by (simp add: write_at_def)

lemma write_at_Nil [simp]: "write_at off [] xs = xs"
  by (simp add: write_at_def)

lemma nth_write_at:
  assumes "off + length bs \<le> length xs" and "i < length xs"
  shows "write_at off bs xs ! i = (if off \<le> i \<and> i < off + length bs then bs ! (i - off) else xs ! i)"
  using assms by (auto simp: write_at_def nth_append)

lemma write_at_Cons:
  assumes "off + length (b # bs) \<le> length xs"
  shows "write_at off (b # bs) xs = write_at (Suc off) bs (xs[off := b])"
proof (rule nth_equalityI)
  show "length (write_at off (b # bs) xs) = length (write_at (Suc off) bs (xs[off := b]))"
    using assms by simp
next
  fix i
  assume "i < length (write_at off (b # bs) xs)"
  then have i: "i < length xs" using assms by simp
  have "write_at off (b # bs) xs ! i
      = (if off \<le> i \<and> i < off + length (b # bs) then (b # bs) ! (i - off) else xs ! i)"
    using assms i by (rule nth_write_at)
  moreover have "write_at (Suc off) bs (xs[off := b]) ! i
      = (if Suc off \<le> i \<and> i < Suc off + length bs then bs ! (i - Suc off) else xs[off := b] ! i)"
    using assms i by (subst nth_write_at) simp_all
  ultimately show "write_at off (b # bs) xs ! i = write_at (Suc off) bs (xs[off := b]) ! i"
    using assms i by (cases i off rule: linorder_cases) (simp_all add: nth_Cons')
qed

lemma read_write_at:
  assumes "off + length bs \<le> length xs"
  shows "read_at off (length bs) (write_at off bs xs) = bs"
  using assms by (simp add: read_at_def write_at_def)

section \<open>Little-endian words\<close>

definition bytes_of_u64 :: "u64 \<Rightarrow> u8 list" where
  "bytes_of_u64 w = map (\<lambda>i. ucast (drop_bit (8 * i) w)) [0..<8]"

definition u64_of_bytes :: "u8 list \<Rightarrow> u64" where
  "u64_of_bytes bs = foldr (\<lambda>b acc. ucast b OR push_bit 8 acc) bs 0"

lemma length_bytes_of_u64 [simp]: "length (bytes_of_u64 w) = 8"
  by (simp add: bytes_of_u64_def)

lemma nth_bytes_of_u64: "i < 8 \<Longrightarrow> bytes_of_u64 w ! i = ucast (drop_bit (8 * i) w)"
  by (simp add: bytes_of_u64_def)

lemma bit_u64_of_bytes:
  "bit (u64_of_bytes bs) n \<longleftrightarrow> n < 64 \<and> n div 8 < length bs \<and> bit (bs ! (n div 8)) (n mod 8)"
proof (induction bs arbitrary: n)
  case Nil
  then show ?case by (simp add: u64_of_bytes_def)
next
  case (Cons b bs)
  have step: "u64_of_bytes (b # bs) = ucast b OR push_bit 8 (u64_of_bytes bs)"
    by (simp add: u64_of_bytes_def)
  show ?case
  proof (cases "n < 8")
    case True
    then show ?thesis
      by (simp add: step bit_simps)
  next
    case False
    then have "n div 8 = Suc ((n - 8) div 8)" and "n mod 8 = (n - 8) mod 8"
      by (simp_all add: div_if mod_if)
    moreover have "\<not> bit b n"
      using False by (auto dest: bit_imp_le_length)
    ultimately show ?thesis
      using False by (auto simp: step bit_simps Cons.IH)
  qed
qed

lemma u64_of_bytes_of_u64 [layout_simps, simp]: "u64_of_bytes (bytes_of_u64 w) = w"
proof (rule bit_word_eqI)
  fix n
  assume "n < LENGTH(64)"
  then have n: "n < 64" by simp
  then have "n div 8 < 8" by simp
  with n show "bit (u64_of_bytes (bytes_of_u64 w)) n = bit w n"
    by (simp add: bit_u64_of_bytes nth_bytes_of_u64 bit_simps)
qed

lemma bytes_of_u64_of_bytes [layout_simps]:
  assumes "length bs = 8"
  shows "bytes_of_u64 (u64_of_bytes bs) = bs"
proof (rule nth_equalityI)
  show "length (bytes_of_u64 (u64_of_bytes bs)) = length bs" using assms by simp
next
  fix i
  assume "i < length (bytes_of_u64 (u64_of_bytes bs))"
  then have i: "i < 8" by simp
  have "bytes_of_u64 (u64_of_bytes bs) ! i = ucast (drop_bit (8 * i) (u64_of_bytes bs))"
    using i by (rule nth_bytes_of_u64)
  also have "\<dots> = bs ! i"
  proof (rule bit_word_eqI)
    fix n
    assume "n < LENGTH(8)"
    then have "n < 8" by simp
    then have "(8 * i + n) div 8 = i" and "(8 * i + n) mod 8 = n" and "8 * i + n < 64"
      using i by auto
    then show "bit (ucast (drop_bit (8 * i) (u64_of_bytes bs)) :: u8) n = bit (bs ! i) n"
      using assms i \<open>n < 8\<close> by (simp add: bit_simps bit_u64_of_bytes)
  qed
  finally show "bytes_of_u64 (u64_of_bytes bs) ! i = bs ! i" .
qed

lemma u64_of_bytes_inj:
  "length xs = 8 \<Longrightarrow> length ys = 8 \<Longrightarrow> u64_of_bytes xs = u64_of_bytes ys \<longleftrightarrow> xs = ys"
  by (metis bytes_of_u64_of_bytes)

text \<open>Two 32-bit halves of one 64-bit word, the low half first in memory.\<close>

definition join32 :: "u32 \<Rightarrow> u32 \<Rightarrow> u64" where
  "join32 lo hi = ucast lo OR push_bit 32 (ucast hi)"

definition lo32 :: "u64 \<Rightarrow> u32" where "lo32 w = ucast w"

definition hi32 :: "u64 \<Rightarrow> u32" where "hi32 w = ucast (drop_bit 32 w)"

lemma bit_join32: "bit (join32 l h) n \<longleftrightarrow> (if n < 32 then bit l n else n < 64 \<and> bit h (n - 32))"
  by (auto simp: join32_def bit_simps dest: bit_imp_le_length)

lemma join32_lo_hi [layout_simps, simp]: "join32 (lo32 w) (hi32 w) = w"
  by (rule bit_word_eqI) (auto simp: bit_join32 lo32_def hi32_def bit_simps)

lemma lo32_join32 [layout_simps, simp]: "lo32 (join32 l h) = l"
  by (rule bit_word_eqI) (auto simp: bit_join32 lo32_def bit_simps)

lemma hi32_join32 [layout_simps, simp]: "hi32 (join32 l h) = h"
  by (rule bit_word_eqI) (auto simp: bit_join32 hi32_def bit_simps)

section \<open>Rotation\<close>

lemma rotr_as_shifts:
  fixes x :: u64
  assumes "0 < y" and "y < 64"
  shows "drop_bit y x OR push_bit (64 - y) x = word_rotr y x"
proof (rule bit_word_eqI)
  fix n
  assume "n < LENGTH(64)"
  then have n: "n < 64" by simp
  show "bit (drop_bit y x OR push_bit (64 - y) x) n = bit (word_rotr y x) n"
  proof (cases "n + y < 64")
    case True
    then show ?thesis
      using n assms by (auto simp: bit_simps add.commute)
  next
    case False
    then have "(n + y) mod 64 = n - (64 - y)"
      using n assms by (simp add: mod_if)
    moreover have "\<not> bit x (y + n)"
      using False by (auto dest: bit_imp_le_length)
    ultimately show ?thesis
      using n False assms by (auto simp: bit_simps)
  qed
qed

lemma word_rotr_xor: "word_rotr n (x XOR y) = word_rotr n x XOR word_rotr n y"
  by (rule bit_word_eqI) (simp add: bit_word_rotr_iff bit_xor_iff)

lemma word_rotr_rotr: "word_rotr m (word_rotr n x) = word_rotr (m + n) x"
  by (rule bit_word_eqI) (simp add: bit_word_rotr_iff mod_add_right_eq ac_simps)

lemma word_rotr_full: "word_rotr (64 * k) (x :: u64) = x"
  by (rule bit_word_eqI) (simp add: bit_word_rotr_iff)

end
