(* ===== verification/Ascon_State.thy ===== *)
theory Ascon_State
  imports Ascon_Prelude
begin

text \<open>
  The 320-bit sponge state. In C it is one union, \<open>word64 s64[5]\<close>, \<open>word32 s32[10]\<close>
  and \<open>byte s8[40]\<close> over the same memory (\<open>tools/verify_ascon_32bit.c\<close> shows the
  declaration; \<open>ascon.c\<close> takes it from a wolfSSL header), and in the OpenSSL port a
  \<open>uint64_t s[5]\<close> that is cast to bytes. The record holds the five words; \<open>s8\<close> and
  \<open>s32\<close> are the other two readings of the same memory on the little-endian targets the
  code is restricted to (it stops with \<open>#error\<close> on others), \<open>of_s8\<close> and \<open>of_s32\<close>
  store through them. A write to one byte, \<open>a->s8[i] = b\<close>, is a list update of the
  \<open>s8\<close> reading.
\<close>

record AsconState =
  s64_0 :: u64
  s64_1 :: u64
  s64_2 :: u64
  s64_3 :: u64
  s64_4 :: u64

definition zero_state :: AsconState where
  "zero_state = \<lparr>s64_0 = 0, s64_1 = 0, s64_2 = 0, s64_3 = 0, s64_4 = 0\<rparr>"

definition s8 :: "AsconState \<Rightarrow> u8 list" where
  "s8 a = bytes_of_u64 (s64_0 a) @ bytes_of_u64 (s64_1 a) @ bytes_of_u64 (s64_2 a)
        @ bytes_of_u64 (s64_3 a) @ bytes_of_u64 (s64_4 a)"

definition of_s8 :: "u8 list \<Rightarrow> AsconState" where
  "of_s8 bs = \<lparr>s64_0 = u64_of_bytes (read_at 0 8 bs), s64_1 = u64_of_bytes (read_at 8 8 bs),
               s64_2 = u64_of_bytes (read_at 16 8 bs), s64_3 = u64_of_bytes (read_at 24 8 bs),
               s64_4 = u64_of_bytes (read_at 32 8 bs)\<rparr>"

definition s32 :: "AsconState \<Rightarrow> u32 list" where
  "s32 a = [lo32 (s64_0 a), hi32 (s64_0 a), lo32 (s64_1 a), hi32 (s64_1 a),
            lo32 (s64_2 a), hi32 (s64_2 a), lo32 (s64_3 a), hi32 (s64_3 a),
            lo32 (s64_4 a), hi32 (s64_4 a)]"

definition of_s32 :: "u32 list \<Rightarrow> AsconState" where
  "of_s32 ws = \<lparr>s64_0 = join32 (ws ! 0) (ws ! 1), s64_1 = join32 (ws ! 2) (ws ! 3),
                s64_2 = join32 (ws ! 4) (ws ! 5), s64_3 = join32 (ws ! 6) (ws ! 7),
                s64_4 = join32 (ws ! 8) (ws ! 9)\<rparr>"

text \<open>\<open>a->s8[i] ^= b\<close>.\<close>

definition xor_s8 :: "AsconState \<Rightarrow> nat \<Rightarrow> u8 \<Rightarrow> AsconState" where
  "xor_s8 a i b = of_s8 ((s8 a)[i := s8 a ! i XOR b])"

section \<open>The three readings are one memory\<close>

lemma length_s8 [simp]: "length (s8 a) = 40"
  by (simp add: s8_def)

lemma length_s32 [simp]: "length (s32 a) = 10"
  by (simp add: s32_def)

lemma of_s8_s8 [layout_simps, simp]: "of_s8 (s8 a) = a"
  by (simp add: of_s8_def s8_def read_at_def)

lemma split_five:
  assumes "length (bs :: u8 list) = 40"
  shows "read_at 0 8 bs @ read_at 8 8 bs @ read_at 16 8 bs @ read_at 24 8 bs @ read_at 32 8 bs = bs"
proof -
  have *: "take 8 xs @ drop 8 xs = xs" for xs :: "u8 list" by simp
  have "bs = take 8 bs @ take 8 (drop 8 bs) @ take 8 (drop 8 (drop 8 bs))
      @ take 8 (drop 8 (drop 8 (drop 8 bs))) @ drop 8 (drop 8 (drop 8 (drop 8 bs)))"
    by (simp only: *)
  moreover have "drop 8 (drop 8 (drop 8 (drop 8 bs))) = take 8 (drop 32 bs)"
    using assms by simp
  ultimately show ?thesis by (simp add: read_at_def)
qed

lemma s8_of_s8 [layout_simps, simp]:
  assumes "length bs = 40"
  shows "s8 (of_s8 bs) = bs"
proof -
  have "bytes_of_u64 (u64_of_bytes (read_at (8 * k) 8 bs)) = read_at (8 * k) 8 bs" if "k < 5" for k
    using assms that by (intro bytes_of_u64_of_bytes) simp
  from this [of 0] this [of 1] this [of 2] this [of 3] this [of 4] show ?thesis
    using split_five [OF assms] by (simp add: s8_def of_s8_def)
qed

lemma of_s32_s32 [layout_simps, simp]: "of_s32 (s32 a) = a"
  by (simp add: of_s32_def s32_def)

lemma s8_eq_iff: "s8 a = s8 b \<longleftrightarrow> a = b"
  by (metis of_s8_s8)

lemma of_s8_inj: "length xs = 40 \<Longrightarrow> length ys = 40 \<Longrightarrow> of_s8 xs = of_s8 ys \<longleftrightarrow> xs = ys"
  by (metis s8_of_s8)

lemma s8_xor_s8: "i < 40 \<Longrightarrow> s8 (xor_s8 a i b) = (s8 a)[i := s8 a ! i XOR b]"
  by (simp add: xor_s8_def)

lemma xor_s8_cancel: "i < 40 \<Longrightarrow> xor_s8 (xor_s8 a i b) i b = a"
  by (simp add: xor_s8_def xor.assoc)

lemma read_s8_word:
  "read_at 0 8 (s8 a) = bytes_of_u64 (s64_0 a)"
  "read_at 8 8 (s8 a) = bytes_of_u64 (s64_1 a)"
  "read_at 24 16 (s8 a) = bytes_of_u64 (s64_3 a) @ bytes_of_u64 (s64_4 a)"
  by (simp_all add: read_at_def s8_def)

lemma write_key_block:
  assumes "length bs = 16"
  shows "of_s8 (write_at 24 bs (s8 a))
    = a\<lparr>s64_3 := u64_of_bytes (take 8 bs), s64_4 := u64_of_bytes (drop 8 bs)\<rparr>"
proof -
  have *: "write_at 24 bs (s8 a) = bytes_of_u64 (s64_0 a) @ bytes_of_u64 (s64_1 a)
      @ bytes_of_u64 (s64_2 a) @ take 8 bs @ drop 8 bs"
    using assms by (simp add: write_at_def s8_def)
  have "length (take 8 bs) = 8" "length (drop 8 bs) = 8" using assms by simp_all
  then show ?thesis
    unfolding * of_s8_def read_at_def by simp
qed

lemma finite_AsconState: "finite (UNIV :: AsconState set)"
proof -
  have "UNIV \<subseteq> range (\<lambda>(a, b, c, d, e). \<lparr>s64_0 = a, s64_1 = b, s64_2 = c, s64_3 = d, s64_4 = e\<rparr>)"
  proof
    fix s :: AsconState
    show "s \<in> range (\<lambda>(a, b, c, d, e). \<lparr>s64_0 = a, s64_1 = b, s64_2 = c, s64_3 = d, s64_4 = e\<rparr>)"
      by (rule image_eqI [where x = "(s64_0 s, s64_1 s, s64_2 s, s64_3 s, s64_4 s)"]) simp_all
  qed
  then show ?thesis by (rule finite_subset) simp
qed

end
