(* ===== verification/Ascon_Perm.thy ===== *)
theory Ascon_Perm
  imports Ascon_State
begin

text \<open>
  The 64-bit Ascon permutation of \<open>wolfcrypt/src/ascon.c\<close> (\<open>start_index\<close>,
  \<open>ascon_round\<close>, \<open>permutation\<close>) and its unrolled variant, the macros \<open>p\<close>, \<open>p8\<close>,
  \<open>p12\<close>. The round works on the state record one assignment at a time, in the order
  of the C statements.
\<close>

definition MAX_ROUNDS :: nat where [simp]: "MAX_ROUNDS = 12"

definition ascon_round_constants :: "u8 list" where
  "ascon_round_constants =
     [0xf0, 0xe1, 0xd2, 0xc3, 0xb4, 0xa5, 0x96, 0x87, 0x78, 0x69, 0x5a, 0x4b]"

text \<open>
  \<open>rotrFixed64\<close> as \<open>tools/verify_ascon_32bit.c\<close> gives it for "the original code";
  every call has a constant distance between 1 and 63, where both shifts are defined.
\<close>

definition rotrFixed64 :: "u64 \<Rightarrow> nat \<Rightarrow> u64" where
  "rotrFixed64 x y = drop_bit y x OR push_bit (64 - y) x"

definition start_index :: "nat \<Rightarrow> nat" where
  "start_index rounds = (if rounds = 8 then 4 else if rounds = 12 then 0 else MAX_ROUNDS)"

text \<open>One round with the constant \<open>c\<close>: the body shared by \<open>ascon_round\<close> and the macro \<open>p\<close>.\<close>

definition p_round :: "AsconState \<Rightarrow> u64 \<Rightarrow> AsconState" where
  "p_round a c = (let
     a = a\<lparr>s64_2 := s64_2 a XOR c\<rparr>;
     a = a\<lparr>s64_0 := s64_0 a XOR s64_4 a\<rparr>;
     a = a\<lparr>s64_4 := s64_4 a XOR s64_3 a\<rparr>;
     a = a\<lparr>s64_2 := s64_2 a XOR s64_1 a\<rparr>;
     tmp0 = s64_0 a XOR (NOT (s64_1 a) AND s64_2 a);
     tmp2 = s64_2 a XOR (NOT (s64_3 a) AND s64_4 a);
     tmp4 = s64_4 a XOR (NOT (s64_0 a) AND s64_1 a);
     tmp1 = s64_1 a XOR (NOT (s64_2 a) AND s64_3 a);
     tmp3 = s64_3 a XOR (NOT (s64_4 a) AND s64_0 a);
     tmp1 = tmp1 XOR tmp0;
     tmp3 = tmp3 XOR tmp2;
     tmp0 = tmp0 XOR tmp4;
     tmp2 = NOT tmp2;
     a = a\<lparr>s64_4 := tmp4 XOR rotrFixed64 tmp4 7 XOR rotrFixed64 tmp4 41\<rparr>;
     a = a\<lparr>s64_1 := tmp1 XOR rotrFixed64 tmp1 61 XOR rotrFixed64 tmp1 39\<rparr>;
     a = a\<lparr>s64_3 := tmp3 XOR rotrFixed64 tmp3 10 XOR rotrFixed64 tmp3 17\<rparr>;
     a = a\<lparr>s64_0 := tmp0 XOR rotrFixed64 tmp0 19 XOR rotrFixed64 tmp0 28\<rparr>;
     a = a\<lparr>s64_2 := tmp2 XOR rotrFixed64 tmp2 1 XOR rotrFixed64 tmp2 6\<rparr>
   in a)"

definition ascon_round :: "AsconState \<Rightarrow> nat \<Rightarrow> AsconState" where
  "ascon_round a round = p_round a (ucast (ascon_round_constants ! round))"

function permutation_loop :: "AsconState \<Rightarrow> nat \<Rightarrow> AsconState" where
  "permutation_loop a i = (if i < MAX_ROUNDS then permutation_loop (ascon_round a i) (Suc i) else a)"
  by pat_completeness auto
termination
  by (relation "measure (\<lambda>(a, i). MAX_ROUNDS - i)") auto

declare permutation_loop.simps [simp del]

definition permutation :: "AsconState \<Rightarrow> nat \<Rightarrow> AsconState" where
  "permutation a rounds = permutation_loop a (start_index rounds)"

text \<open>The unrolled variant (\<open>WOLFSSL_ASCON_UNROLL\<close>).\<close>

definition p8 :: "AsconState \<Rightarrow> AsconState" where
  "p8 a = (let
     a = p_round a (ucast (ascon_round_constants ! 4));
     a = p_round a (ucast (ascon_round_constants ! 5));
     a = p_round a (ucast (ascon_round_constants ! 6));
     a = p_round a (ucast (ascon_round_constants ! 7));
     a = p_round a (ucast (ascon_round_constants ! 8));
     a = p_round a (ucast (ascon_round_constants ! 9));
     a = p_round a (ucast (ascon_round_constants ! 10));
     a = p_round a (ucast (ascon_round_constants ! 11))
   in a)"

definition p12 :: "AsconState \<Rightarrow> AsconState" where
  "p12 a = (let
     a = p_round a (ucast (ascon_round_constants ! 0));
     a = p_round a (ucast (ascon_round_constants ! 1));
     a = p_round a (ucast (ascon_round_constants ! 2));
     a = p_round a (ucast (ascon_round_constants ! 3))
   in p8 a)"

section \<open>Loops unrolled, rotations as rotations\<close>

lemma permutation_loop_foldl: "permutation_loop a i = foldl ascon_round a [i..<12]"
proof (induction a i rule: permutation_loop.induct)
  case (1 a i)
  show ?case
  proof (cases "i < 12")
    case True
    with 1 show ?thesis
      by (simp add: permutation_loop.simps [of a i] upt_conv_Cons)
  next
    case False
    then show ?thesis
      by (simp add: permutation_loop.simps [of a i])
  qed
qed

lemma permutation_8 [perm_simps]: "permutation a 8 = foldl ascon_round a [4..<12]"
  by (simp add: permutation_def start_index_def permutation_loop_foldl)

lemma permutation_12 [perm_simps]: "permutation a 12 = foldl ascon_round a [0..<12]"
  by (simp add: permutation_def start_index_def permutation_loop_foldl)

lemma permutation_other: "r \<noteq> 8 \<Longrightarrow> r \<noteq> 12 \<Longrightarrow> permutation a r = a"
  by (simp add: permutation_def start_index_def permutation_loop_foldl)

lemma upt_rounds [perm_simps]:
  "[4..<12] = [4, 5, 6, 7, 8, 9, 10, 11]" "[0..<12] = [0, 1, 2, 3, 4, 5, 6, 7, 8, 9, 10, 11::nat]"
  by (simp_all add: upt_rec)

lemma p8_permutation: "p8 a = permutation a 8"
  by (simp only: p8_def Let_def permutation_8 upt_rounds foldl.simps ascon_round_def)

lemma p12_permutation: "p12 a = permutation a 12"
  by (simp only: p12_def p8_def Let_def permutation_12 upt_rounds foldl.simps ascon_round_def)

lemma rotrFixed64_word_rotr: "0 < y \<Longrightarrow> y < 64 \<Longrightarrow> rotrFixed64 x y = word_rotr y x"
  unfolding rotrFixed64_def by (rule rotr_as_shifts)

section \<open>The two layers of a round\<close>

text \<open>
  Mathematical description of a round, the one its injectivity proof uses: the
  substitution layer acts on the five bits of a column, the diffusion layer adds two
  rotations of a word to the word itself.
\<close>

definition sbox_layer :: "u64 \<times> u64 \<times> u64 \<times> u64 \<times> u64 \<Rightarrow> u64 \<times> u64 \<times> u64 \<times> u64 \<times> u64" where
  "sbox_layer x = (case x of (x0, x1, x2, x3, x4) \<Rightarrow>
     let x0 = x0 XOR x4; x4 = x4 XOR x3; x2 = x2 XOR x1;
       t0 = x0 XOR (NOT x1 AND x2); t1 = x1 XOR (NOT x2 AND x3); t2 = x2 XOR (NOT x3 AND x4);
       t3 = x3 XOR (NOT x4 AND x0); t4 = x4 XOR (NOT x0 AND x1)
     in (t0 XOR t4, t1 XOR t0, NOT t2, t3 XOR t2, t4))"

definition diffuse :: "nat \<Rightarrow> nat \<Rightarrow> u64 \<Rightarrow> u64" where
  "diffuse a b x = x XOR word_rotr a x XOR word_rotr b x"

lemma p_round_layers:
  "p_round a c = (case sbox_layer (s64_0 a, s64_1 a, s64_2 a XOR c, s64_3 a, s64_4 a) of
     (t0, t1, t2, t3, t4) \<Rightarrow>
       \<lparr>s64_0 = diffuse 19 28 t0, s64_1 = diffuse 61 39 t1, s64_2 = diffuse 1 6 t2,
        s64_3 = diffuse 10 17 t3, s64_4 = diffuse 7 41 t4\<rparr>)"
  by (cases a) (simp add: p_round_def sbox_layer_def diffuse_def rotrFixed64_word_rotr Let_def)

end
