(* ===== verification/Ascon_Perm32.thy ===== *)
theory Ascon_Perm32
  imports Ascon_Perm
begin

text \<open>
  The 32-bit permutation of \<open>wolfcrypt/src/ascon.c\<close> (\<open>WOLFSSL_ASCON_32BIT\<close>): the
  macros \<open>P32_ROUND\<close>, \<open>P32_8\<close>, \<open>P32_12\<close> on ten 32-bit locals and the function that
  loads them from \<open>s32\<close>, runs the rounds and stores them back. The locals are a record,
  \<open>word32\<close> arithmetic is arithmetic on 32-bit words: the shifts lose the bits that
  leave the word. The lemmas show that reading each pair of lanes as one 64-bit word turns
  every line of the macro into the corresponding line of the 64-bit round.
\<close>

record lanes =
  x0l :: u32
  x0h :: u32
  x1l :: u32
  x1h :: u32
  x2l :: u32
  x2h :: u32
  x3l :: u32
  x3h :: u32
  x4l :: u32
  x4h :: u32

definition P32_ROUND :: "lanes \<Rightarrow> u32 \<Rightarrow> lanes" where
  "P32_ROUND x c = (let
     x = x\<lparr>x2l := x2l x XOR c\<rparr>;
     x = x\<lparr>x0l := x0l x XOR x4l x, x0h := x0h x XOR x4h x\<rparr>;
     x = x\<lparr>x4l := x4l x XOR x3l x, x4h := x4h x XOR x3h x\<rparr>;
     x = x\<lparr>x2l := x2l x XOR x1l x, x2h := x2h x XOR x1h x\<rparr>;
     t0l = x0l x XOR (NOT (x1l x) AND x2l x); t0h = x0h x XOR (NOT (x1h x) AND x2h x);
     t2l = x2l x XOR (NOT (x3l x) AND x4l x); t2h = x2h x XOR (NOT (x3h x) AND x4h x);
     t4l = x4l x XOR (NOT (x0l x) AND x1l x); t4h = x4h x XOR (NOT (x0h x) AND x1h x);
     t1l = x1l x XOR (NOT (x2l x) AND x3l x); t1h = x1h x XOR (NOT (x2h x) AND x3h x);
     t3l = x3l x XOR (NOT (x4l x) AND x0l x); t3h = x3h x XOR (NOT (x4h x) AND x0h x);
     t1l = t1l XOR t0l; t1h = t1h XOR t0h;
     t3l = t3l XOR t2l; t3h = t3h XOR t2h;
     t0l = t0l XOR t4l; t0h = t0h XOR t4h;
     t2l = NOT t2l; t2h = NOT t2h;
     x = x\<lparr>x4l := t4l XOR drop_bit 7 t4l XOR push_bit 25 t4h XOR drop_bit 9 t4h XOR push_bit 23 t4l\<rparr>;
     x = x\<lparr>x4h := t4h XOR drop_bit 7 t4h XOR push_bit 25 t4l XOR drop_bit 9 t4l XOR push_bit 23 t4h\<rparr>;
     x = x\<lparr>x1l := t1l XOR drop_bit 29 t1h XOR push_bit 3 t1l XOR drop_bit 7 t1h XOR push_bit 25 t1l\<rparr>;
     x = x\<lparr>x1h := t1h XOR drop_bit 29 t1l XOR push_bit 3 t1h XOR drop_bit 7 t1l XOR push_bit 25 t1h\<rparr>;
     x = x\<lparr>x3l := t3l XOR drop_bit 10 t3l XOR drop_bit 17 t3l XOR push_bit 22 t3h XOR push_bit 15 t3h\<rparr>;
     x = x\<lparr>x3h := t3h XOR drop_bit 10 t3h XOR drop_bit 17 t3h XOR push_bit 22 t3l XOR push_bit 15 t3l\<rparr>;
     x = x\<lparr>x0l := t0l XOR drop_bit 19 t0l XOR drop_bit 28 t0l XOR push_bit 13 t0h XOR push_bit 4 t0h\<rparr>;
     x = x\<lparr>x0h := t0h XOR drop_bit 19 t0h XOR drop_bit 28 t0h XOR push_bit 13 t0l XOR push_bit 4 t0l\<rparr>;
     x = x\<lparr>x2l := t2l XOR drop_bit 1 t2l XOR drop_bit 6 t2l XOR push_bit 31 t2h XOR push_bit 26 t2h\<rparr>;
     x = x\<lparr>x2h := t2h XOR drop_bit 1 t2h XOR drop_bit 6 t2h XOR push_bit 31 t2l XOR push_bit 26 t2l\<rparr>
   in x)"

definition P32_8 :: "lanes \<Rightarrow> lanes" where
  "P32_8 x = (let
     x = P32_ROUND x (ucast (ascon_round_constants ! 4));
     x = P32_ROUND x (ucast (ascon_round_constants ! 5));
     x = P32_ROUND x (ucast (ascon_round_constants ! 6));
     x = P32_ROUND x (ucast (ascon_round_constants ! 7));
     x = P32_ROUND x (ucast (ascon_round_constants ! 8));
     x = P32_ROUND x (ucast (ascon_round_constants ! 9));
     x = P32_ROUND x (ucast (ascon_round_constants ! 10));
     x = P32_ROUND x (ucast (ascon_round_constants ! 11))
   in x)"

definition P32_12 :: "lanes \<Rightarrow> lanes" where
  "P32_12 x = (let
     x = P32_ROUND x (ucast (ascon_round_constants ! 0));
     x = P32_ROUND x (ucast (ascon_round_constants ! 1));
     x = P32_ROUND x (ucast (ascon_round_constants ! 2));
     x = P32_ROUND x (ucast (ascon_round_constants ! 3))
   in P32_8 x)"

definition permutation_32 :: "AsconState \<Rightarrow> nat \<Rightarrow> AsconState" where
  "permutation_32 a rounds = (let
     x = \<lparr>x0l = s32 a ! 0, x0h = s32 a ! 1, x1l = s32 a ! 2, x1h = s32 a ! 3,
          x2l = s32 a ! 4, x2h = s32 a ! 5, x3l = s32 a ! 6, x3h = s32 a ! 7,
          x4l = s32 a ! 8, x4h = s32 a ! 9\<rparr>;
     x = (if rounds = 12 then P32_12 x else P32_8 x)
   in of_s32 [x0l x, x0h x, x1l x, x1h x, x2l x, x2h x, x3l x, x3h x, x4l x, x4h x])"

section \<open>Two lanes read as one word\<close>

definition lanes_state :: "lanes \<Rightarrow> AsconState" where
  "lanes_state x = \<lparr>s64_0 = join32 (x0l x) (x0h x), s64_1 = join32 (x1l x) (x1h x),
     s64_2 = join32 (x2l x) (x2h x), s64_3 = join32 (x3l x) (x3h x),
     s64_4 = join32 (x4l x) (x4h x)\<rparr>"

lemma join32_xor: "join32 (a XOR b) (c XOR d) = join32 a c XOR join32 b d"
  by (rule bit_word_eqI) (auto simp: bit_join32 bit_simps)

lemma join32_and: "join32 (a AND b) (c AND d) = join32 a c AND join32 b d"
  by (rule bit_word_eqI) (auto simp: bit_join32 bit_simps)

lemma join32_not: "join32 (NOT a) (NOT c) = NOT (join32 a c)"
  by (rule bit_word_eqI) (auto simp: bit_join32 bit_simps)

lemma join32_xor_low: "join32 (a XOR b) c = join32 a c XOR ucast b"
  by (rule bit_word_eqI) (auto simp: bit_join32 bit_simps dest: bit_imp_le_length)

lemma join32_rotr_low:
  assumes "0 < r" and "r < 32"
  shows "join32 (drop_bit r l XOR push_bit (32 - r) h) (drop_bit r h XOR push_bit (32 - r) l)
    = word_rotr r (join32 l h)"
proof (rule bit_word_eqI)
  fix n
  assume "n < LENGTH(64)"
  then have n: "n < 64" by simp
  have out: "\<not> bit l k" "\<not> bit h k" if "32 \<le> k" for k
    using that by (auto dest: bit_imp_le_length)
  consider "n + r < 32" | "n < 32" "32 \<le> n + r" | "32 \<le> n" "n + r < 64" | "64 \<le> n + r"
    by linarith
  then show "bit (join32 (drop_bit r l XOR push_bit (32 - r) h)
      (drop_bit r h XOR push_bit (32 - r) l)) n = bit (word_rotr r (join32 l h)) n"
  proof cases
    case 1
    then have "\<not> 32 - r \<le> n" using assms by arith
    with 1 show ?thesis using n assms by (simp add: bit_join32 bit_simps add.commute)
  next
    case 2
    then have "r + n - 32 = n - (32 - r)" and "32 - r \<le> n" using assms by simp_all
    with 2 show ?thesis using n assms
      by (simp add: bit_join32 bit_simps out add.commute)
  next
    case 3
    then have "n + r - 32 = r + (n - 32)" and "n - 32 < 32" and "\<not> 32 - r \<le> n - 32"
      using n assms by arith+
    with 3 show ?thesis using n assms by (simp add: bit_join32 bit_simps)
  next
    case 4
    then have "(n + r) mod 64 = n + r - 64" using n assms by (simp add: mod_if)
    moreover have "n - 32 - (32 - r) = n + r - 64" and "n - 32 < 32" and "32 - r \<le> n - 32"
        and "n + r - 64 < 32" and "32 \<le> n"
      using 4 n assms by arith+
    ultimately show ?thesis using n assms by (simp add: bit_join32 bit_simps out)
  qed
qed

lemma join32_swap: "join32 h l = word_rotr 32 (join32 l h)"
proof (rule bit_word_eqI)
  fix n
  assume "n < LENGTH(64)"
  then have n: "n < 64" by simp
  then have "(n + 32) mod 64 = (if n < 32 then n + 32 else n - 32)" by (simp add: mod_if)
  moreover have "\<not> n < 32 \<Longrightarrow> n - 32 < 32" using n by arith
  ultimately show "bit (join32 h l) n = bit (word_rotr 32 (join32 l h)) n"
    using n by (simp add: bit_join32 bit_simps)
qed

lemma join32_rotr_high:
  assumes "0 < r" and "r < 32"
  shows "join32 (drop_bit r h XOR push_bit (32 - r) l) (drop_bit r l XOR push_bit (32 - r) h)
    = word_rotr (r + 32) (join32 l h)"
  using join32_rotr_low [OF assms, of h l] by (simp add: join32_swap [of h l] word_rotr_rotr)

lemma join32_xor3:
  "join32 (a XOR b XOR c) (d XOR e XOR f) = join32 a d XOR join32 b e XOR join32 c f"
  by (simp only: join32_xor)

text \<open>One line of the diffusion layer, low and high lane together.\<close>

lemma diffuse_mixed:
  assumes "0 < r" "r < 32" "0 < q" "q < 32"
  shows "join32 (l XOR drop_bit r l XOR push_bit (32 - r) h XOR drop_bit q h XOR push_bit (32 - q) l)
      (h XOR drop_bit r h XOR push_bit (32 - r) l XOR drop_bit q l XOR push_bit (32 - q) h)
    = diffuse r (q + 32) (join32 l h)"
proof -
  have "join32 (l XOR (drop_bit r l XOR push_bit (32 - r) h) XOR (drop_bit q h XOR push_bit (32 - q) l))
      (h XOR (drop_bit r h XOR push_bit (32 - r) l) XOR (drop_bit q l XOR push_bit (32 - q) h))
    = join32 l h XOR word_rotr r (join32 l h) XOR word_rotr (q + 32) (join32 l h)"
    by (simp only: join32_xor3
        join32_rotr_low [OF assms(1,2)] join32_rotr_high [OF assms(3,4)])
  then show ?thesis by (simp add: xor.assoc diffuse_def)
qed

lemma diffuse_low:
  assumes "0 < r" "r < 32" "0 < q" "q < 32"
  shows "join32 (l XOR drop_bit r l XOR drop_bit q l XOR push_bit (32 - r) h XOR push_bit (32 - q) h)
      (h XOR drop_bit r h XOR drop_bit q h XOR push_bit (32 - r) l XOR push_bit (32 - q) l)
    = diffuse r q (join32 l h)"
proof -
  have "join32 (l XOR (drop_bit r l XOR push_bit (32 - r) h) XOR (drop_bit q l XOR push_bit (32 - q) h))
      (h XOR (drop_bit r h XOR push_bit (32 - r) l) XOR (drop_bit q h XOR push_bit (32 - q) l))
    = join32 l h XOR word_rotr r (join32 l h) XOR word_rotr q (join32 l h)"
    by (simp only: join32_xor3
        join32_rotr_low [OF assms(1,2)] join32_rotr_low [OF assms(3,4)])
  then show ?thesis by (simp add: ac_simps diffuse_def)
qed

lemma diffuse_high:
  assumes "0 < r" "r < 32" "0 < q" "q < 32"
  shows "join32 (l XOR drop_bit r h XOR push_bit (32 - r) l XOR drop_bit q h XOR push_bit (32 - q) l)
      (h XOR drop_bit r l XOR push_bit (32 - r) h XOR drop_bit q l XOR push_bit (32 - q) h)
    = diffuse (r + 32) (q + 32) (join32 l h)"
proof -
  have "join32 (l XOR (drop_bit r h XOR push_bit (32 - r) l) XOR (drop_bit q h XOR push_bit (32 - q) l))
      (h XOR (drop_bit r l XOR push_bit (32 - r) h) XOR (drop_bit q l XOR push_bit (32 - q) h))
    = join32 l h XOR word_rotr (r + 32) (join32 l h) XOR word_rotr (q + 32) (join32 l h)"
    by (simp only: join32_xor3
        join32_rotr_high [OF assms(1,2)] join32_rotr_high [OF assms(3,4)])
  then show ?thesis by (simp add: xor.assoc diffuse_def)
qed

text \<open>The ten diffusion lines of the macro with their distances.\<close>

lemmas diffuse_lanes =
  diffuse_mixed [of 7 9, simplified] diffuse_high [of 29 7, simplified]
  diffuse_low [of 10 17, simplified] diffuse_low [of 19 28, simplified]
  diffuse_low [of 1 6, simplified]

text \<open>The macro's last ten lines, from the ten temporaries to the lanes.\<close>

definition diffuse_tail ::
  "u32 \<Rightarrow> u32 \<Rightarrow> u32 \<Rightarrow> u32 \<Rightarrow> u32 \<Rightarrow> u32 \<Rightarrow> u32 \<Rightarrow> u32 \<Rightarrow> u32 \<Rightarrow> u32 \<Rightarrow> lanes" where
  "diffuse_tail t0l t0h t1l t1h t2l t2h t3l t3h t4l t4h =
     \<lparr>x0l = t0l XOR drop_bit 19 t0l XOR drop_bit 28 t0l XOR push_bit 13 t0h XOR push_bit 4 t0h,
      x0h = t0h XOR drop_bit 19 t0h XOR drop_bit 28 t0h XOR push_bit 13 t0l XOR push_bit 4 t0l,
      x1l = t1l XOR drop_bit 29 t1h XOR push_bit 3 t1l XOR drop_bit 7 t1h XOR push_bit 25 t1l,
      x1h = t1h XOR drop_bit 29 t1l XOR push_bit 3 t1h XOR drop_bit 7 t1l XOR push_bit 25 t1h,
      x2l = t2l XOR drop_bit 1 t2l XOR drop_bit 6 t2l XOR push_bit 31 t2h XOR push_bit 26 t2h,
      x2h = t2h XOR drop_bit 1 t2h XOR drop_bit 6 t2h XOR push_bit 31 t2l XOR push_bit 26 t2l,
      x3l = t3l XOR drop_bit 10 t3l XOR drop_bit 17 t3l XOR push_bit 22 t3h XOR push_bit 15 t3h,
      x3h = t3h XOR drop_bit 10 t3h XOR drop_bit 17 t3h XOR push_bit 22 t3l XOR push_bit 15 t3l,
      x4l = t4l XOR drop_bit 7 t4l XOR push_bit 25 t4h XOR drop_bit 9 t4h XOR push_bit 23 t4l,
      x4h = t4h XOR drop_bit 7 t4h XOR push_bit 25 t4l XOR drop_bit 9 t4l XOR push_bit 23 t4h\<rparr>"

lemma diffuse_tail_state:
  "lanes_state (diffuse_tail t0l t0h t1l t1h t2l t2h t3l t3h t4l t4h) =
     \<lparr>s64_0 = diffuse 19 28 (join32 t0l t0h), s64_1 = diffuse 61 39 (join32 t1l t1h),
      s64_2 = diffuse 1 6 (join32 t2l t2h), s64_3 = diffuse 10 17 (join32 t3l t3h),
      s64_4 = diffuse 7 41 (join32 t4l t4h)\<rparr>"
  by (simp add: lanes_state_def diffuse_tail_def diffuse_lanes)

lemma P32_ROUND_tail:
  "P32_ROUND x c = (let
     x2l' = x2l x XOR c;
     x0l' = x0l x XOR x4l x; x0h' = x0h x XOR x4h x;
     x4l' = x4l x XOR x3l x; x4h' = x4h x XOR x3h x;
     x2l' = x2l' XOR x1l x; x2h' = x2h x XOR x1h x;
     t0l = x0l' XOR (NOT (x1l x) AND x2l'); t0h = x0h' XOR (NOT (x1h x) AND x2h');
     t2l = x2l' XOR (NOT (x3l x) AND x4l'); t2h = x2h' XOR (NOT (x3h x) AND x4h');
     t4l = x4l' XOR (NOT x0l' AND x1l x); t4h = x4h' XOR (NOT x0h' AND x1h x);
     t1l = x1l x XOR (NOT x2l' AND x3l x); t1h = x1h x XOR (NOT x2h' AND x3h x);
     t3l = x3l x XOR (NOT x4l' AND x0l'); t3h = x3h x XOR (NOT x4h' AND x0h')
   in diffuse_tail (t0l XOR t4l) (t0h XOR t4h) (t1l XOR t0l) (t1h XOR t0h) (NOT t2l) (NOT t2h)
        (t3l XOR t2l) (t3h XOR t2h) t4l t4h)"
  by (cases x) (simp only: P32_ROUND_def diffuse_tail_def Let_def lanes.simps lanes.update_convs)

lemma lanes_state_sel:
  "s64_0 (lanes_state x) = join32 (x0l x) (x0h x)" "s64_1 (lanes_state x) = join32 (x1l x) (x1h x)"
  "s64_2 (lanes_state x) = join32 (x2l x) (x2h x)" "s64_3 (lanes_state x) = join32 (x3l x) (x3h x)"
  "s64_4 (lanes_state x) = join32 (x4l x) (x4h x)"
  by (simp_all add: lanes_state_def)

lemma P32_ROUND_state: "lanes_state (P32_ROUND x c) = p_round (lanes_state x) (ucast c)"
  by (simp add: P32_ROUND_tail diffuse_tail_state Let_def p_round_layers sbox_layer_def
      lanes_state_sel join32_xor_low [of "x2l x" c "x2h x"] join32_xor join32_not join32_and)


lemma ucast_ucast_constant: "ucast (ucast (b :: u8) :: u32) = (ucast b :: u64)"
  by (rule bit_word_eqI) (auto simp: bit_simps dest: bit_imp_le_length)

lemma P32_8_state: "lanes_state (P32_8 x) = p8 (lanes_state x)"
  by (simp only: P32_8_def p8_def Let_def P32_ROUND_state ucast_ucast_constant)

lemma P32_12_state: "lanes_state (P32_12 x) = p12 (lanes_state x)"
  by (simp only: P32_12_def p12_def Let_def P32_ROUND_state P32_8_state ucast_ucast_constant)

lemma permutation_32_lanes:
  "permutation_32 a rounds = lanes_state (if rounds = 12 then P32_12 x else P32_8 x)"
  if "lanes_state x = a" for x
proof -
  have "of_s32 [x0l y, x0h y, x1l y, x1h y, x2l y, x2h y, x3l y, x3h y, x4l y, x4h y] = lanes_state y" for y
    by (simp add: of_s32_def lanes_state_def)
  moreover have "\<lparr>x0l = s32 a ! 0, x0h = s32 a ! 1, x1l = s32 a ! 2, x1h = s32 a ! 3,
      x2l = s32 a ! 4, x2h = s32 a ! 5, x3l = s32 a ! 6, x3h = s32 a ! 7,
      x4l = s32 a ! 8, x4h = s32 a ! 9\<rparr> = x"
    using that by (simp add: s32_def lanes_state_sel flip: that)
  ultimately show ?thesis by (simp add: permutation_32_def)
qed

lemma permutation_32_eq:
  assumes "rounds = 8 \<or> rounds = 12"
  shows "permutation_32 a rounds = permutation a rounds"
proof -
  define x where "x = \<lparr>x0l = lo32 (s64_0 a), x0h = hi32 (s64_0 a), x1l = lo32 (s64_1 a),
    x1h = hi32 (s64_1 a), x2l = lo32 (s64_2 a), x2h = hi32 (s64_2 a), x3l = lo32 (s64_3 a),
    x3h = hi32 (s64_3 a), x4l = lo32 (s64_4 a), x4h = hi32 (s64_4 a)\<rparr>"
  have "lanes_state x = a" by (simp add: x_def lanes_state_def)
  then show ?thesis
    using assms by (auto simp: permutation_32_lanes P32_8_state P32_12_state p8_permutation p12_permutation)
qed

end
