(* ===== verification/Ascon_Perm_Bij.thy ===== *)
theory Ascon_Perm_Bij
  imports Ascon_Perm32
begin

text \<open>
  The Ascon permutation is a permutation: every round is injective on the 320-bit state,
  hence so are the 8- and 12-round permutations, in the 64-bit and the 32-bit version.
  The substitution layer is injective column by column (32 inputs); a diffusion word
  \<open>x XOR (x >>> a) XOR (x >>> b)\<close> is inverted by repetition: doing it twice doubles both
  distances, so doing it 64 times rotates by multiples of 64 and gives \<open>x\<close> back.
\<close>

section \<open>Substitution layer\<close>

definition column :: "bool \<Rightarrow> bool \<Rightarrow> bool \<Rightarrow> bool \<Rightarrow> bool \<Rightarrow> bool \<times> bool \<times> bool \<times> bool \<times> bool" where
  "column x0 x1 x2 x3 x4 = (let x0 = (x0 \<noteq> x4); x4 = (x4 \<noteq> x3); x2 = (x2 \<noteq> x1);
     t0 = (x0 \<noteq> (\<not> x1 \<and> x2)); t1 = (x1 \<noteq> (\<not> x2 \<and> x3)); t2 = (x2 \<noteq> (\<not> x3 \<and> x4));
     t3 = (x3 \<noteq> (\<not> x4 \<and> x0)); t4 = (x4 \<noteq> (\<not> x0 \<and> x1))
   in ((t0 \<noteq> t4), (t1 \<noteq> t0), \<not> t2, (t3 \<noteq> t2), t4))"

fun column_inverse :: "bool \<Rightarrow> bool \<Rightarrow> bool \<Rightarrow> bool \<Rightarrow> bool \<Rightarrow> bool \<times> bool \<times> bool \<times> bool \<times> bool" where
  "column_inverse False False True False False = (False, False, False, False, False)"
| "column_inverse False True False True True = (False, False, False, False, True)"
| "column_inverse True True True True True = (False, False, False, True, False)"
| "column_inverse True False True False False = (False, False, False, True, True)"
| "column_inverse True True False True False = (False, False, True, False, False)"
| "column_inverse True False True False True = (False, False, True, False, True)"
| "column_inverse False True False False True = (False, False, True, True, False)"
| "column_inverse False False False True False = (False, False, True, True, True)"
| "column_inverse True True False True True = (False, True, False, False, False)"
| "column_inverse False False True False True = (False, True, False, False, True)"
| "column_inverse False True False False False = (False, True, False, True, False)"
| "column_inverse True False False True False = (False, True, False, True, True)"
| "column_inverse True True True False True = (False, True, True, False, False)"
| "column_inverse False False False True True = (False, True, True, False, True)"
| "column_inverse False False True True False = (False, True, True, True, False)"
| "column_inverse True True True False False = (False, True, True, True, True)"
| "column_inverse True True True True False = (True, False, False, False, False)"
| "column_inverse True False False True True = (True, False, False, False, True)"
| "column_inverse False False True True True = (True, False, False, True, False)"
| "column_inverse False True True True False = (True, False, False, True, True)"
| "column_inverse False False False False False = (True, False, True, False, False)"
| "column_inverse False True True False True = (True, False, True, False, True)"
| "column_inverse True False False False True = (True, False, True, True, False)"
| "column_inverse True True False False False = (True, False, True, True, True)"
| "column_inverse True False False False False = (True, True, False, False, False)"
| "column_inverse False True True False False = (True, True, False, False, True)"
| "column_inverse False False False False True = (True, True, False, True, False)"
| "column_inverse True True False False True = (True, True, False, True, True)"
| "column_inverse True False True True False = (True, True, True, False, False)"
| "column_inverse False True False True False = (True, True, True, False, True)"
| "column_inverse False True True True True = (True, True, True, True, False)"
| "column_inverse True False True True True = (True, True, True, True, True)"

lemma column_injective:
  assumes "column a b c d e = column a' b' c' d' e'"
  shows "(a, b, c, d, e) = (a', b', c', d', e')"
proof -
  have "(case column a b c d e of (t0, t1, t2, t3, t4) \<Rightarrow> column_inverse t0 t1 t2 t3 t4) = (a, b, c, d, e)"
    for a b c d e
    by (cases a; cases b; cases c; cases d; cases e) (simp_all add: column_def)
  then show ?thesis by (metis assms)
qed

lemma sbox_layer_column:
  "n < 64 \<Longrightarrow> (case sbox_layer (a, b, c, d, e) of (t0, t1, t2, t3, t4) \<Rightarrow>
     (bit t0 n, bit t1 n, bit t2 n, bit t3 n, bit t4 n))
   = column (bit a n) (bit b n) (bit c n) (bit d n) (bit e n)"
  unfolding sbox_layer_def column_def Let_def prod.case
  by (simp only: bit_xor_iff bit_and_iff bit_not_iff possible_bit_word) simp

lemma sbox_layer_inj:
  assumes "sbox_layer (a, b, c, d, e) = sbox_layer (a', b', c', d', e')"
  shows "(a, b, c, d, e) = (a', b', c', d', e')"
proof -
  have "column (bit a n) (bit b n) (bit c n) (bit d n) (bit e n)
      = column (bit a' n) (bit b' n) (bit c' n) (bit d' n) (bit e' n)" if "n < 64" for n
    using that assms by (simp flip: sbox_layer_column)
  then have "(bit a n, bit b n, bit c n, bit d n, bit e n)
      = (bit a' n, bit b' n, bit c' n, bit d' n, bit e' n)" if "n < 64" for n
    using that column_injective by blast
  then show ?thesis by (auto intro!: bit_word_eqI)
qed

section \<open>Diffusion layer\<close>

lemma diffuse_twice: "diffuse a b (diffuse a b x) = diffuse (a + a) (b + b) x"
proof -
  have cancel: "y XOR (y XOR z) = z" for y z :: u64 by (simp flip: xor.assoc)
  show ?thesis
    unfolding diffuse_def word_rotr_xor word_rotr_rotr
    by (simp add: ac_simps cancel)
qed

lemma diffuse_inj_power: "inj (diffuse (2 ^ k * a) (2 ^ k * b)) \<Longrightarrow> inj (diffuse a b)"
proof (induction k arbitrary: a b)
  case 0
  then show ?case by simp
next
  case (Suc k)
  have "inj (diffuse (2 ^ k * (a + a)) (2 ^ k * (b + b)))"
    using Suc.prems by (simp add: mult_2 distrib_left distrib_right)
  then have "inj (diffuse (a + a) (b + b))" by (rule Suc.IH)
  then show ?case by (metis diffuse_twice injD injI)
qed

lemma diffuse_inj: "inj (diffuse a b)"
proof (rule diffuse_inj_power [of 6])
  have "diffuse (2 ^ 6 * a) (2 ^ 6 * b) x = x" for x
    by (simp add: diffuse_def word_rotr_full)
  then show "inj (diffuse (2 ^ 6 * a) (2 ^ 6 * b))" by (simp add: inj_def)
qed

section \<open>Rounds and the permutation\<close>

lemma p_round_inj: "p_round a c = p_round b c \<Longrightarrow> a = b"
proof -
  assume eq: "p_round a c = p_round b c"
  have "sbox_layer (s64_0 a, s64_1 a, s64_2 a XOR c, s64_3 a, s64_4 a)
      = sbox_layer (s64_0 b, s64_1 b, s64_2 b XOR c, s64_3 b, s64_4 b)"
    using eq by (auto simp: p_round_layers inj_eq [OF diffuse_inj] split: prod.splits)
  from sbox_layer_inj [OF this] have "s64_2 a XOR c = s64_2 b XOR c" and
    "s64_0 a = s64_0 b" "s64_1 a = s64_1 b" "s64_3 a = s64_3 b" "s64_4 a = s64_4 b"
    by simp_all
  then show "a = b" by (simp add: xor_right_inj)
qed

lemma ascon_round_inj: "inj (\<lambda>a. ascon_round a i)"
  by (rule injI) (auto simp: ascon_round_def dest: p_round_inj)

lemma foldl_round_inj: "inj (\<lambda>a. foldl ascon_round a is)"
proof (induction "is")
  case Nil
  then show ?case by (simp add: inj_def)
next
  case (Cons i "is")
  have "(\<lambda>a. foldl ascon_round a (i # is)) = (\<lambda>a. foldl ascon_round a is) \<circ> (\<lambda>a. ascon_round a i)"
    by (simp add: fun_eq_iff)
  then show ?case using Cons.IH ascon_round_inj by (simp add: inj_compose)
qed

lemma permutation_inj: "inj (\<lambda>a. permutation a rounds)"
  unfolding permutation_def permutation_loop_foldl by (rule foldl_round_inj)

lemma permutation_eq_iff [simp]: "permutation a r = permutation b r \<longleftrightarrow> a = b"
  using permutation_inj [of r] by (auto dest: injD)

lemma permutation_bij: "bij (\<lambda>a. permutation a rounds)"
  using permutation_inj [of rounds] finite_UNIV_inj_surj [OF finite_AsconState permutation_inj]
  by (simp add: bij_def)

end
