(* ===== verification/Ascon_Duplex.thy ===== *)
theory Ascon_Duplex
  imports Ascon_Perm_Bij
begin

text \<open>
  The abstract specification that the streaming code is measured against: a machine that
  takes one byte at a time. Its configuration is the sponge state and a position below the
  rate; a byte is combined with the state byte at the position, and when the position
  reaches the rate the permutation runs and the position is 0 again. Absorbing data,
  encrypting and decrypting differ only in the byte that is left in the state (the xor for
  the first two, the ciphertext byte for the third); the byte put out is always the xor.

  Because the machine consumes a list byte by byte, that its result does not depend on how
  the list is cut into calls is the append law of a fold; the component theories show that
  the block-wise C loops compute the same runs. The interfaces are locales: \<open>duplex\<close> for
  one machine, \<open>duplex_mirror\<close> for an encrypting and a decrypting machine over the same
  permutation, \<open>incremental_hash\<close> and \<open>resettable_hash\<close> for a hash interface.
\<close>

fun dx_step :: "(u8 \<Rightarrow> u8 \<Rightarrow> u8) \<Rightarrow> nat \<Rightarrow> (AsconState \<Rightarrow> AsconState) \<Rightarrow> AsconState \<times> nat \<Rightarrow> u8
    \<Rightarrow> (AsconState \<times> nat) \<times> u8" where
  "dx_step new rate P (s, pos) b =
     (let x = s8 s ! pos; s' = of_s8 ((s8 s)[pos := new x b])
      in (if Suc pos = rate then (P s', 0) else (s', Suc pos), x XOR b))"

fun dx_run :: "(u8 \<Rightarrow> u8 \<Rightarrow> u8) \<Rightarrow> nat \<Rightarrow> (AsconState \<Rightarrow> AsconState) \<Rightarrow> AsconState \<times> nat \<Rightarrow> u8 list
    \<Rightarrow> (AsconState \<times> nat) \<times> u8 list" where
  "dx_run new rate P c [] = (c, [])"
| "dx_run new rate P c (b # bs) =
     (let (c', out) = dx_step new rate P c b; (c'', outs) = dx_run new rate P c' bs
      in (c'', out # outs))"

text \<open>The permutation with its two numbers of rounds.\<close>

definition perm8 :: "AsconState \<Rightarrow> AsconState" where "perm8 s = permutation s 8"

definition perm12 :: "AsconState \<Rightarrow> AsconState" where "perm12 s = permutation s 12"

lemma perm_inj [simp]: "perm8 s = perm8 t \<longleftrightarrow> s = t" "perm12 s = perm12 t \<longleftrightarrow> s = t"
  by (simp_all add: perm8_def perm12_def)

text \<open>The two ways to combine a byte with the state byte.\<close>

definition keep_xor :: "u8 \<Rightarrow> u8 \<Rightarrow> u8" where "keep_xor x b = x XOR b"

definition keep_input :: "u8 \<Rightarrow> u8 \<Rightarrow> u8" where "keep_input x b = b"

text \<open>Absorbing ends with the padding bit at the current position.\<close>

definition pad :: "AsconState \<times> nat \<Rightarrow> AsconState" where
  "pad c = xor_s8 (fst c) (snd c) 1"

primrec squeeze :: "nat \<Rightarrow> (AsconState \<Rightarrow> AsconState) \<Rightarrow> AsconState \<Rightarrow> u8 list" where
  "squeeze 0 P s = []"
| "squeeze (Suc k) P s = take 8 (s8 (P s)) @ squeeze k P (P s)"

section \<open>One machine\<close>

locale duplex =
  fixes new :: "u8 \<Rightarrow> u8 \<Rightarrow> u8" and rate :: nat and P :: "AsconState \<Rightarrow> AsconState"
  assumes rate_pos: "0 < rate" and rate_le: "rate \<le> 40"
begin

lemma run_append:
  "dx_run new rate P c (xs @ ys) =
     (let (c', o1) = dx_run new rate P c xs; (c'', o2) = dx_run new rate P c' ys
      in (c'', o1 @ o2))"
  by (induction xs arbitrary: c) (simp_all add: case_prod_unfold Let_def)

lemma run_split:
  "dx_run new rate P c xs =
     (let (c', o1) = dx_run new rate P c (take k xs); (c'', o2) = dx_run new rate P c' (drop k xs)
      in (c'', o1 @ o2))"
  using run_append [of c "take k xs" "drop k xs"] by simp

lemma run_length [simp]: "length (snd (dx_run new rate P c xs)) = length xs"
  by (induction xs arbitrary: c) (simp_all add: case_prod_unfold Let_def)

lemma run_pos:
  assumes "snd c < rate"
  shows "snd (fst (dx_run new rate P c xs)) = (snd c + length xs) mod rate"
  using assms
proof (induction xs arbitrary: c)
  case Nil
  then show ?case by simp
next
  case (Cons x xs)
  obtain s pos where c: "c = (s, pos)" by (cases c)
  show ?case
  proof (cases "Suc pos = rate")
    case True
    then have "snd (fst (dx_run new rate P c (x # xs))) = length xs mod rate"
      using Cons.IH [of "(P _, 0)"] rate_pos by (simp add: c case_prod_unfold Let_def)
    moreover have "(snd c + length (x # xs)) mod rate = (rate + length xs) mod rate"
      using True by (simp add: c flip: True)
    ultimately show ?thesis by simp
  next
    case False
    then have "Suc pos < rate" using Cons.prems by (simp add: c)
    with False show ?thesis
      using Cons.IH [of "(_, Suc pos)"] by (simp add: c case_prod_unfold Let_def)
  qed
qed

lemma run_pos_less: "snd c < rate \<Longrightarrow> snd (fst (dx_run new rate P c xs)) < rate"
  using rate_pos by (simp add: run_pos)

text \<open>
  A piece of input that does not cross a block boundary, as the C code handles it: one
  update of a range of state bytes, then the permutation if the block is complete.
\<close>

lemma run_chunk:
  assumes "pos < rate" and "pos + length d \<le> rate"
  shows "dx_run new rate P (s, pos) d =
    (let s' = of_s8 (write_at pos (map2 new (drop pos (s8 s)) d) (s8 s))
     in (if pos + length d = rate then (P s', 0) else (s', pos + length d),
         xor_bytes (drop pos (s8 s)) d))"
  using assms
proof (induction d arbitrary: s pos)
  case Nil
  then show ?case by simp
next
  case (Cons b d)
  let ?s' = "of_s8 ((s8 s)[pos := new (s8 s ! pos) b])"
  have pos: "pos < 40" using Cons.prems rate_le by simp
  then have dropS: "drop pos (s8 s) = s8 s ! pos # drop (Suc pos) (s8 s)"
    by (simp add: Cons_nth_drop_Suc)
  have len: "pos + length (map2 new (drop pos (s8 s)) (b # d)) \<le> length (s8 s)"
    using Cons.prems rate_le by simp
  have wr: "write_at pos (map2 new (drop pos (s8 s)) (b # d)) (s8 s)
      = write_at (Suc pos) (map2 new (drop (Suc pos) (s8 ?s')) d) (s8 ?s')"
    using len unfolding dropS by (simp add: write_at_Cons)
  show ?case
  proof (cases "Suc pos = rate")
    case True
    then have "d = []" using Cons.prems by (cases d) simp_all
    with True show ?thesis
      using len by (simp add: dropS Let_def write_at_Cons)
  next
    case False
    then have "Suc pos < rate" and "Suc pos + length d \<le> rate" using Cons.prems by simp_all
    from Cons.IH [OF this, of ?s'] False show ?thesis
      by (simp only: wr) (simp add: dropS Let_def)
  qed
qed

end

section \<open>An encrypting and a decrypting machine\<close>

locale duplex_mirror = duplex new rate P for new rate P +
  fixes new' :: "u8 \<Rightarrow> u8 \<Rightarrow> u8"
  assumes mirror: "new' x (x XOR b) = new x b"
    and mirror_back: "new x (x XOR b) = new' x b"
begin

lemma mirror_run:
  "dx_run new' rate P c (snd (dx_run new rate P c xs)) = (fst (dx_run new rate P c xs), xs)"
proof (induction xs arbitrary: c)
  case Nil
  then show ?case by simp
next
  case (Cons x xs)
  obtain s pos where c: "c = (s, pos)" by (cases c)
  show ?case using Cons.IH
    by (simp add: c Let_def case_prod_unfold mirror xor_cancel_left)
qed

text \<open>Conversely, whatever is decrypted encrypts back to the ciphertext.\<close>

lemma mirror_run_back:
  "dx_run new rate P c (snd (dx_run new' rate P c xs)) = (fst (dx_run new' rate P c xs), xs)"
proof (induction xs arbitrary: c)
  case Nil
  then show ?case by simp
next
  case (Cons x xs)
  obtain s pos where c: "c = (s, pos)" by (cases c)
  show ?case using Cons.IH
    by (simp add: c Let_def case_prod_unfold mirror_back xor_cancel_left)
qed

end

section \<open>A hash interface fed in pieces\<close>

locale incremental_hash =
  fixes init :: 'c and upd :: "'c \<Rightarrow> u8 list \<Rightarrow> 'c" and fin :: "'c \<Rightarrow> u8 list"
    and dig :: "u8 list \<Rightarrow> u8 list" and absorbed :: "'c \<Rightarrow> u8 list \<Rightarrow> bool"
  assumes absorbed_init: "absorbed init []"
    and absorbed_upd: "absorbed c m \<Longrightarrow> absorbed (upd c d) (m @ d)"
    and fin_absorbed: "absorbed c m \<Longrightarrow> fin c = dig m"
begin

lemma absorbed_foldl: "absorbed c m \<Longrightarrow> absorbed (foldl upd c ds) (m @ concat ds)"
proof (induction ds arbitrary: c m)
  case Nil
  then show ?case by simp
next
  case (Cons d ds)
  then have "absorbed (foldl upd (upd c d) ds) ((m @ d) @ concat ds)"
    by (intro Cons.IH absorbed_upd)
  then show ?case by simp
qed

lemma fin_foldl: "fin (foldl upd init ds) = dig (concat ds)"
  using absorbed_foldl [OF absorbed_init, of ds] by (simp add: fin_absorbed)

lemma chunking_irrelevant:
  "concat ds = concat es \<Longrightarrow> fin (foldl upd init ds) = fin (foldl upd init es)"
  by (simp add: fin_foldl)

end

locale resettable_hash = incremental_hash init upd fin dig absorbed
  for init :: 'c and upd fin dig absorbed +
  fixes reset :: "'c \<Rightarrow> 'c"
  assumes absorbed_reset: "absorbed c m \<Longrightarrow> absorbed (reset c) []"
begin

text \<open>
  The context can be used again after a digest was taken: the nested hash of an HMAC,
  inner pass, digest, outer pass over the same context.
\<close>

lemma fin_after_reset:
  "fin (foldl upd (reset (foldl upd init ds)) es) = dig (concat es)"
proof -
  have "absorbed (reset (foldl upd init ds)) []"
    using absorbed_foldl [OF absorbed_init, of ds] by (rule absorbed_reset)
  from absorbed_foldl [OF this, of es] show ?thesis by (simp add: fin_absorbed)
qed

lemma nested_digest:
  "(let c = foldl upd init [k, m]; inner = fin c in fin (foldl upd (reset c) [k', inner]))
     = dig (k' @ dig (k @ m))"
  using fin_after_reset [of "[k, m]"] fin_foldl [of "[k, m]"]
  by (simp add: Let_def del: foldl.simps)

end

end
