(* ===== verification/Wc_Misc.thy ===== *)
theory Wc_Misc
  imports Ascon_Duplex
begin

text \<open>
  What \<open>ascon.c\<close> takes from the rest of wolfSSL. Return codes are a datatype (the
  headers that give them numbers are not part of this repository); a pointer argument that
  is only tested for NULL is \<open>ptr\<close>, a pointer to input bytes is an optional list. The
  buffer helpers of wolfSSL's \<open>misc.c\<close> are parameters: the model's operations take a
  record \<open>wc_misc\<close> of them, and \<open>misc_ok\<close> states their documented behaviour on
  the ranges the code uses. \<open>misc_std\<close> is one instance, for closed examples.
\<close>

datatype wc_ret = WC_OK | BAD_FUNC_ARG | BAD_STATE_E | ASCON_AUTH_E

datatype ptr = NULL | PTR

text \<open>The bytes behind an input pointer; a NULL pointer is only ever read for zero bytes.\<close>

definition bytes_at :: "u8 list option \<Rightarrow> u8 list" where
  "bytes_at p = (case p of None \<Rightarrow> [] | Some d \<Rightarrow> d)"

lemma bytes_at_simps [simp]: "bytes_at None = []" "bytes_at (Some d) = d"
  by (simp_all add: bytes_at_def)

record wc_misc =
  min32 :: "nat \<Rightarrow> nat \<Rightarrow> nat"
  xorbuf :: "u8 list \<Rightarrow> u8 list \<Rightarrow> nat \<Rightarrow> u8 list"
  xorbufout :: "u8 list \<Rightarrow> u8 list \<Rightarrow> nat \<Rightarrow> u8 list"
  ConstantCompare :: "u8 list \<Rightarrow> u8 list \<Rightarrow> nat \<Rightarrow> int"

text \<open>
  \<open>min\<close> is the minimum; \<open>xorbuf buf mask n\<close> xors the first \<open>n\<close> bytes of \<open>mask\<close>
  into \<open>buf\<close>; \<open>xorbufout out buf mask n\<close> writes the xor of two buffers;
  \<open>ConstantCompare a b n\<close> is 0 exactly when the first \<open>n\<close> bytes agree.
\<close>

definition misc_ok :: "wc_misc \<Rightarrow> bool" where
  "misc_ok M \<longleftrightarrow>
     (\<forall>a b. min32 M a b = min a b) \<and>
     (\<forall>buf mask n. n \<le> length buf \<longrightarrow> n \<le> length mask \<longrightarrow>
        xorbuf M buf mask n = xor_bytes (take n buf) (take n mask) @ drop n buf) \<and>
     (\<forall>buf mask n. n \<le> length buf \<longrightarrow> n \<le> length mask \<longrightarrow>
        xorbufout M buf mask n = xor_bytes (take n buf) (take n mask)) \<and>
     (\<forall>a b n. n \<le> length a \<longrightarrow> n \<le> length b \<longrightarrow>
        (ConstantCompare M a b n = 0) = (take n a = take n b))"

definition misc_std :: wc_misc where
  "misc_std = \<lparr>min32 = min,
     xorbuf = (\<lambda>buf mask n. xor_bytes (take n buf) (take n mask) @ drop n buf),
     xorbufout = (\<lambda>buf mask n. xor_bytes (take n buf) (take n mask)),
     ConstantCompare = (\<lambda>a b n. if take n a = take n b then 0 else 1)\<rparr>"

lemma misc_ok_std: "misc_ok misc_std"
  by (simp add: misc_ok_def misc_std_def)

text \<open>\<open>xorbuf(buf + off, data, n)\<close> on a buffer kept as a whole.\<close>

definition xorbuf_at :: "wc_misc \<Rightarrow> nat \<Rightarrow> u8 list \<Rightarrow> u8 list \<Rightarrow> nat \<Rightarrow> u8 list" where
  "xorbuf_at M off buf data n = take off buf @ xorbuf M (drop off buf) data n"

lemma min32_eq: "misc_ok M \<Longrightarrow> min32 M a b = min a b"
  by (simp add: misc_ok_def)

lemma xor_bytes_keep_xor: "xor_bytes xs ys = map2 keep_xor xs ys"
  by (simp add: xor_bytes_def keep_xor_def cong: map_cong)

lemma take_xor_map2: "xor_bytes (take n xs) (take n ys) = map2 keep_xor xs (take n ys)"
  by (rule nth_equalityI) (simp_all add: xor_bytes_nth keep_xor_def)

lemma xorbuf_at_write:
  assumes "misc_ok M" and "off + n \<le> length xs" and "n \<le> length d"
  shows "xorbuf_at M off xs d n = write_at off (map2 keep_xor (drop off xs) (take n d)) xs"
proof -
  have "xorbuf M (drop off xs) d n = xor_bytes (take n (drop off xs)) (take n d) @ drop n (drop off xs)"
    using assms by (simp add: misc_ok_def)
  then show ?thesis
    using assms by (simp add: xorbuf_at_def write_at_def take_xor_map2 add.commute)
qed

lemma xorbuf_write:
  assumes "misc_ok M" and "n \<le> length xs" and "n \<le> length d"
  shows "xorbuf M xs d n = write_at 0 (map2 keep_xor xs (take n d)) xs"
  using xorbuf_at_write [of M 0 n xs d] assms by (simp add: xorbuf_at_def)

lemma xorbufout_eq:
  assumes "misc_ok M" and "n \<le> length xs" and "n \<le> length d"
  shows "xorbufout M xs d n = xor_bytes xs (take n d)"
proof -
  have "xorbufout M xs d n = xor_bytes (take n xs) (take n d)" using assms by (simp add: misc_ok_def)
  then show ?thesis by (simp only: take_xor_map2 xor_bytes_keep_xor [of xs])
qed

lemma ConstantCompare_eq:
  assumes "misc_ok M" and "length a = n" and "length b = n"
  shows "ConstantCompare M a b n = 0 \<longleftrightarrow> a = b"
  using assms by (simp add: misc_ok_def)

section \<open>One xorbuf is a piece of a run\<close>

text \<open>
  The C idiom "xor a range of state bytes with the input, copy that range out, permute if
  the block is full" is a run of the xor machine.
\<close>

lemma xorbuf_chunk:
  assumes "duplex rate" and "misc_ok M"
    and "pos < rate" and "pos + n \<le> rate" and "n \<le> length d"
  shows "dx_run keep_xor rate P (s, pos) (take n d) =
    (let s' = of_s8 (xorbuf_at M pos (s8 s) d n)
     in (if pos + n = rate then (P s', 0) else (s', pos + n), read_at pos n (s8 s')))"
proof -
  have n: "pos + n \<le> 40" using duplex.rate_le [OF assms(1)] assms(4) by simp
  let ?w = "map2 keep_xor (drop pos (s8 s)) (take n d)"
  have len: "length ?w = n" using n assms by simp
  have eq: "xorbuf_at M pos (s8 s) d n = write_at pos ?w (s8 s)"
    using assms n by (intro xorbuf_at_write) simp_all
  have "read_at pos (length ?w) (write_at pos ?w (s8 s)) = ?w"
    using n len by (intro read_write_at) simp
  then have "read_at pos n (s8 (of_s8 (write_at pos ?w (s8 s)))) = xor_bytes (drop pos (s8 s)) (take n d)"
    using n len by (simp add: xor_bytes_keep_xor)
  then show ?thesis
    using duplex.run_chunk [OF assms(1), where pos = pos and d = "take n d" and s = s and new = keep_xor and P = P] assms by (simp add: eq Let_def)
qed

lemma xorbuf_block:
  assumes "duplex rate" and "misc_ok M" and "n \<le> rate" and "n \<le> length d"
  shows "dx_run keep_xor rate P (s, 0) (take n d) =
    (let s' = of_s8 (xorbuf M (s8 s) d n)
     in (if n = rate then (P s', 0) else (s', n), read_at 0 n (s8 s')))"
proof -
  have "0 < rate" using assms(1) by (rule duplex.rate_pos)
  then show ?thesis
    using xorbuf_chunk [OF assms(1,2), where pos = 0 and n = n and d = d and s = s and P = P] assms
    by (simp add: xorbuf_at_def Let_def)
qed

end
