(* ===== verification/Mask_Prf.thy ===== *)
theory Mask_Prf
  imports Wc_Misc
begin

text \<open>
  The mask PRF module, \<open>wolfcrypt/src/mask_prf.c\<close> and \<open>mask_prf.h\<close>: the domain
  separator table and its index type, the module's own copy of the permutation
  (\<open>s_start_index\<close>, \<open>s_ascon_round\<close>, \<open>s_permutation\<close>) and \<open>mask_prf_derive\<close>.
  Key, input and output are 16-byte arrays in C; a call gives the return code and the
  bytes written to \<open>out\<close>. \<open>mask_prf_check_bound\<close>, floating-point arithmetic on
  \<open>double\<close>, is in \<open>Dudect_Stats\<close>.
\<close>

definition MASK_PRF_DOMSEP_RNDIMSK :: u64 where "MASK_PRF_DOMSEP_RNDIMSK = 0x524E44494D534B5F"
definition MASK_PRF_DOMSEP_QUPNMSK :: u64 where "MASK_PRF_DOMSEP_QUPNMSK = 0x5155504E4D534B5F"
definition MASK_PRF_DOMSEP_ESPSNW :: u64 where "MASK_PRF_DOMSEP_ESPSNW = 0x455350534E575F5F"
definition MASK_PRF_DOMSEP_OSCORE :: u64 where "MASK_PRF_DOMSEP_OSCORE = 0x4F53434F52455F5F"

definition mask_prf_domsep_table :: "u64 list" where
  "mask_prf_domsep_table = [MASK_PRF_DOMSEP_RNDIMSK, MASK_PRF_DOMSEP_QUPNMSK,
     MASK_PRF_DOMSEP_ESPSNW, MASK_PRF_DOMSEP_OSCORE]"

lemmas domsep_defs = mask_prf_domsep_table_def MASK_PRF_DOMSEP_RNDIMSK_def MASK_PRF_DOMSEP_QUPNMSK_def
  MASK_PRF_DOMSEP_ESPSNW_def MASK_PRF_DOMSEP_OSCORE_def

datatype mask_prf_domsep_idx = MASK_PRF_DTLS | MASK_PRF_QUIC | MASK_PRF_ESP | MASK_PRF_OSCORE

primrec idx_val :: "mask_prf_domsep_idx \<Rightarrow> nat" where
  "idx_val MASK_PRF_DTLS = 0"
| "idx_val MASK_PRF_QUIC = 1"
| "idx_val MASK_PRF_ESP = 2"
| "idx_val MASK_PRF_OSCORE = 3"

text \<open>The constants in the order of their values.\<close>

lemma idx_val_inj [simp]: "idx_val i = idx_val j \<longleftrightarrow> i = j"
  by (cases i; cases j) simp_all

instantiation mask_prf_domsep_idx :: linorder
begin

definition less_eq_mask_prf_domsep_idx :: "mask_prf_domsep_idx \<Rightarrow> mask_prf_domsep_idx \<Rightarrow> bool" where
  "less_eq_mask_prf_domsep_idx i j \<longleftrightarrow> idx_val i \<le> idx_val j"

definition less_mask_prf_domsep_idx :: "mask_prf_domsep_idx \<Rightarrow> mask_prf_domsep_idx \<Rightarrow> bool" where
  "less_mask_prf_domsep_idx i j \<longleftrightarrow> idx_val i < idx_val j"

instance
  by standard (auto simp: less_eq_mask_prf_domsep_idx_def less_mask_prf_domsep_idx_def simp flip: idx_val_inj)

end

definition s_start_index :: "nat \<Rightarrow> nat" where
  "s_start_index rounds = (if rounds = 8 then 4 else 0)"

definition s_ascon_round :: "AsconState \<Rightarrow> nat \<Rightarrow> AsconState" where
  "s_ascon_round a round = (let
     a = a\<lparr>s64_2 := s64_2 a XOR ucast (ascon_round_constants ! round)\<rparr>;
     a = a\<lparr>s64_0 := s64_0 a XOR s64_4 a\<rparr>;
     a = a\<lparr>s64_4 := s64_4 a XOR s64_3 a\<rparr>;
     a = a\<lparr>s64_2 := s64_2 a XOR s64_1 a\<rparr>;
     tmp0 = s64_0 a XOR (NOT (s64_1 a) AND s64_2 a);
     tmp2 = s64_2 a XOR (NOT (s64_3 a) AND s64_4 a);
     tmp4 = s64_4 a XOR (NOT (s64_0 a) AND s64_1 a);
     tmp1 = s64_1 a XOR (NOT (s64_2 a) AND s64_3 a);
     tmp3 = s64_3 a XOR (NOT (s64_4 a) AND s64_0 a);
     tmp1 = tmp1 XOR tmp0;
     tmp3 = tmp3 XOR tmp2;
     tmp0 = tmp0 XOR tmp4;
     tmp2 = NOT tmp2;
     a = a\<lparr>s64_4 := tmp4 XOR rotrFixed64 tmp4 7 XOR rotrFixed64 tmp4 41\<rparr>;
     a = a\<lparr>s64_1 := tmp1 XOR rotrFixed64 tmp1 61 XOR rotrFixed64 tmp1 39\<rparr>;
     a = a\<lparr>s64_3 := tmp3 XOR rotrFixed64 tmp3 10 XOR rotrFixed64 tmp3 17\<rparr>;
     a = a\<lparr>s64_0 := tmp0 XOR rotrFixed64 tmp0 19 XOR rotrFixed64 tmp0 28\<rparr>;
     a = a\<lparr>s64_2 := tmp2 XOR rotrFixed64 tmp2 1 XOR rotrFixed64 tmp2 6\<rparr>
   in a)"

function s_permutation_loop :: "AsconState \<Rightarrow> nat \<Rightarrow> AsconState" where
  "s_permutation_loop a i = (if i < 12 then s_permutation_loop (s_ascon_round a i) (Suc i) else a)"
  by pat_completeness auto
termination
  by (relation "measure (\<lambda>(a, i). 12 - i)") auto

declare s_permutation_loop.simps [simp del]

definition s_permutation :: "AsconState \<Rightarrow> nat \<Rightarrow> AsconState" where
  "s_permutation a rounds = s_permutation_loop a (s_start_index rounds)"

text \<open>The local state is wiped before the return; it is not visible outside.\<close>

definition mask_prf_derive ::
  "u8 list option \<Rightarrow> u8 list option \<Rightarrow> ptr \<Rightarrow> u64 \<Rightarrow> wc_ret \<times> u8 list" where
  "mask_prf_derive keyp xp out domsep =
     (if keyp = None \<or> xp = None \<or> out = NULL then (BAD_FUNC_ARG, [])
      else let
        s = zero_state;
        s = s\<lparr>s64_0 := domsep\<rparr>;
        s = of_s8 (write_at 8 (take 16 (bytes_at keyp)) (s8 s));
        s = of_s8 (write_at 24 (take 16 (bytes_at xp)) (s8 s));
        s = s_permutation s 12
      in (WC_OK, bytes_of_u64 (s64_0 s) @ bytes_of_u64 (s64_1 s)))"

section \<open>The copy of the permutation\<close>

lemma s_ascon_round_eq: "s_ascon_round a i = ascon_round a i"
  by (simp only: s_ascon_round_def ascon_round_def p_round_def)

lemma s_permutation_loop_foldl: "s_permutation_loop a i = foldl ascon_round a [i..<12]"
proof (induction a i rule: s_permutation_loop.induct)
  case (1 a i)
  show ?case
  proof (cases "i < 12")
    case True
    with 1 show ?thesis
      by (simp add: s_permutation_loop.simps [of a i] upt_conv_Cons s_ascon_round_eq)
  next
    case False
    then show ?thesis by (simp add: s_permutation_loop.simps [of a i])
  qed
qed

lemma s_permutation_eq: "r = 8 \<or> r = 12 \<Longrightarrow> s_permutation a r = permutation a r"
  by (auto simp: s_permutation_def s_start_index_def s_permutation_loop_foldl permutation_8 permutation_12)

section \<open>The sponge state of a mask query\<close>

text \<open>The five words a query starts from: separator, key and input.\<close>

definition mask_state :: "u64 \<Rightarrow> u8 list \<Rightarrow> u8 list \<Rightarrow> AsconState" where
  "mask_state domsep key x = \<lparr>s64_0 = domsep,
     s64_1 = u64_of_bytes (take 8 key), s64_2 = u64_of_bytes (drop 8 key),
     s64_3 = u64_of_bytes (take 8 x), s64_4 = u64_of_bytes (drop 8 x)\<rparr>"

lemma write_words_12:
  assumes "length bs = 16"
  shows "of_s8 (write_at 8 bs (s8 a))
    = a\<lparr>s64_1 := u64_of_bytes (take 8 bs), s64_2 := u64_of_bytes (drop 8 bs)\<rparr>"
proof -
  have *: "write_at 8 bs (s8 a) = bytes_of_u64 (s64_0 a) @ take 8 bs @ drop 8 bs
      @ bytes_of_u64 (s64_3 a) @ bytes_of_u64 (s64_4 a)"
    using assms by (simp add: write_at_def s8_def)
  have "length (take 8 bs) = 8" "length (drop 8 bs) = 8" using assms by simp_all
  then show ?thesis
    unfolding * of_s8_def read_at_def by simp
qed

lemma mask_state_inj:
  assumes "length k = 16" "length k' = 16" "length x = 16" "length x' = 16"
  shows "mask_state d k x = mask_state d' k' x' \<longleftrightarrow> d = d' \<and> k = k' \<and> x = x'"
proof -
  have "u64_of_bytes (take 8 v) = u64_of_bytes (take 8 w) \<and> u64_of_bytes (drop 8 v) = u64_of_bytes (drop 8 w)
      \<longleftrightarrow> v = w" if "length v = 16" "length w = 16" for v w
    using that by (simp add: u64_of_bytes_inj) (metis append_take_drop_id)
  from this [OF assms(1,2)] this [OF assms(3,4)] show ?thesis
    by (auto simp: mask_state_def)
qed

lemma mask_prf_derive_eq:
  assumes "length k = 16" and "length x = 16"
  shows "mask_prf_derive (Some k) (Some x) PTR d = (WC_OK, read_at 0 16 (s8 (perm12 (mask_state d k x))))"
proof -
  have "read_at 0 16 (s8 s) = bytes_of_u64 (s64_0 s) @ bytes_of_u64 (s64_1 s)" for s
    by (simp add: read_at_def s8_def)
  then show ?thesis
    using assms by (simp add: mask_prf_derive_def mask_state_def write_words_12 write_key_block
        s_permutation_eq zero_state_def Let_def flip: perm12_def)
qed

end
