(* ===== verification/Wc_Aead.thy ===== *)
theory Wc_Aead
  imports Mask_Prf
begin

text \<open>
  The Ascon-AEAD128 API of \<open>wolfcrypt/src/ascon.c\<close>. The context holds the sponge
  state, the key words, the record layer's IV words that \<open>Init\<close> preserves, three
  progress flags, the direction and the number of bytes pending in the current block.
  Every call gives the return code and the context afterwards, \<open>EncryptUpdate\<close>,
  \<open>DecryptUpdate\<close> and \<open>EncryptFinal\<close> also the bytes written to the output.
\<close>

definition ASCON_AEAD128_ROUNDS_PA :: nat where [simp]: "ASCON_AEAD128_ROUNDS_PA = 12"
definition ASCON_AEAD128_ROUNDS_PB :: nat where [simp]: "ASCON_AEAD128_ROUNDS_PB = 8"
definition ASCON_AEAD128_IV :: u64 where "ASCON_AEAD128_IV = 0x00001000808C0001"
definition ASCON_AEAD128_RATE :: nat where [simp]: "ASCON_AEAD128_RATE = 16"
definition ASCON_AEAD128_KEY_SZ :: nat where [simp]: "ASCON_AEAD128_KEY_SZ = 16"
definition ASCON_AEAD128_NONCE_SZ :: nat where [simp]: "ASCON_AEAD128_NONCE_SZ = 16"
definition ASCON_AEAD128_TAG_SZ :: nat where [simp]: "ASCON_AEAD128_TAG_SZ = 16"

datatype ascon_op = ASCON_AEAD128_NOTSET | ASCON_AEAD128_ENCRYPT | ASCON_AEAD128_DECRYPT

record wc_AsconAEAD128 =
  astate :: AsconState
  key0 :: u64
  key1 :: u64
  iv0 :: u64
  iv1 :: u64
  keySet :: bool
  nonceSet :: bool
  adSet :: bool
  aop :: ascon_op
  alastBlkSz :: nat

definition zero_aead :: wc_AsconAEAD128 where
  "zero_aead = \<lparr>astate = zero_state, key0 = 0, key1 = 0, iv0 = 0, iv1 = 0, keySet = False,
     nonceSet = False, adSet = False, aop = ASCON_AEAD128_NOTSET, alastBlkSz = 0\<rparr>"

definition wc_AsconAEAD128_Init :: "wc_AsconAEAD128 option \<Rightarrow> wc_ret \<times> wc_AsconAEAD128 option" where
  "wc_AsconAEAD128_Init ap = (case ap of
     None \<Rightarrow> (BAD_FUNC_ARG, None)
   | Some a \<Rightarrow> (let
       i0 = iv0 a; i1 = iv1 a;
       a = zero_aead;
       a = a\<lparr>iv0 := i0\<rparr>;
       a = a\<lparr>iv1 := i1\<rparr>;
       a = a\<lparr>astate := (astate a)\<lparr>s64_0 := ASCON_AEAD128_IV\<rparr>\<rparr>
     in (WC_OK, Some a)))"

definition wc_AsconAEAD128_Clear ::
  "(wc_AsconAEAD128 \<Rightarrow> wc_AsconAEAD128) \<Rightarrow> wc_AsconAEAD128 option \<Rightarrow> wc_AsconAEAD128 option" where
  "wc_AsconAEAD128_Clear ForceZero ap = (case ap of None \<Rightarrow> None | Some a \<Rightarrow> Some (ForceZero a))"

definition wc_AsconAEAD128_Free ::
  "(wc_AsconAEAD128 \<Rightarrow> wc_AsconAEAD128) \<Rightarrow> wc_AsconAEAD128 option \<Rightarrow> wc_AsconAEAD128 option" where
  "wc_AsconAEAD128_Free ForceZero ap = (case ap of
     None \<Rightarrow> None | Some a \<Rightarrow> wc_AsconAEAD128_Clear ForceZero (Some a))"

definition wc_AsconAEAD128_New :: "wc_AsconAEAD128 option \<Rightarrow> wc_AsconAEAD128 option" where
  "wc_AsconAEAD128_New ret = (if ret \<noteq> None then
       (case wc_AsconAEAD128_Init ret of (r, a) \<Rightarrow> if r \<noteq> WC_OK then None else a)
     else ret)"

definition wc_AsconAEAD128_SetKey ::
  "wc_AsconAEAD128 option \<Rightarrow> u8 list option \<Rightarrow> wc_ret \<times> wc_AsconAEAD128 option" where
  "wc_AsconAEAD128_SetKey ap keyp = (case ap of
     None \<Rightarrow> (BAD_FUNC_ARG, None)
   | Some a \<Rightarrow>
      if keyp = None then (BAD_FUNC_ARG, Some a)
      else if keySet a then (BAD_STATE_E, Some a)
      else let
        a = a\<lparr>key0 := u64_of_bytes (read_at 0 8 (bytes_at keyp)),
              key1 := u64_of_bytes (read_at 8 8 (bytes_at keyp))\<rparr>;
        a = a\<lparr>astate := (astate a)\<lparr>s64_1 := key0 a\<rparr>\<rparr>;
        a = a\<lparr>astate := (astate a)\<lparr>s64_2 := key1 a\<rparr>\<rparr>;
        a = a\<lparr>keySet := True\<rparr>
      in (WC_OK, Some a))"

definition wc_AsconAEAD128_SetNonce ::
  "wc_AsconAEAD128 option \<Rightarrow> u8 list option \<Rightarrow> wc_ret \<times> wc_AsconAEAD128 option" where
  "wc_AsconAEAD128_SetNonce ap noncep = (case ap of
     None \<Rightarrow> (BAD_FUNC_ARG, None)
   | Some a \<Rightarrow>
      if noncep = None then (BAD_FUNC_ARG, Some a)
      else if nonceSet a then (BAD_STATE_E, Some a)
      else let
        a = a\<lparr>astate := of_s8 (write_at 24 (take ASCON_AEAD128_NONCE_SZ (bytes_at noncep)) (s8 (astate a)))\<rparr>;
        a = a\<lparr>nonceSet := True\<rparr>
      in (WC_OK, Some a))"

text \<open>The block loop of \<open>SetAD\<close>.\<close>

function aead_ad_loop :: "wc_misc \<Rightarrow> AsconState \<Rightarrow> u8 list \<Rightarrow> nat \<Rightarrow> AsconState \<times> u8 list \<times> nat" where
  "aead_ad_loop M s ad adSz =
     (if ASCON_AEAD128_RATE \<le> adSz then
        (let s = of_s8 (xorbuf M (s8 s) ad ASCON_AEAD128_RATE);
             s = permutation s ASCON_AEAD128_ROUNDS_PB
         in aead_ad_loop M s (drop ASCON_AEAD128_RATE ad) (adSz - ASCON_AEAD128_RATE))
      else (s, ad, adSz))"
  by pat_completeness auto
termination
  by (relation "measure (\<lambda>(M, s, ad, adSz). adSz)") auto

declare aead_ad_loop.simps [simp del]

definition wc_AsconAEAD128_SetAD ::
  "wc_misc \<Rightarrow> wc_AsconAEAD128 option \<Rightarrow> u8 list option \<Rightarrow> nat \<Rightarrow> wc_ret \<times> wc_AsconAEAD128 option" where
  "wc_AsconAEAD128_SetAD M ap adp adSz = (case ap of
     None \<Rightarrow> (BAD_FUNC_ARG, None)
   | Some a \<Rightarrow>
      if adp = None \<and> 0 < adSz then (BAD_FUNC_ARG, Some a)
      else if \<not> keySet a \<or> \<not> nonceSet a then (BAD_STATE_E, Some a)
      else let
        s = permutation (astate a) ASCON_AEAD128_ROUNDS_PA;
        s = s\<lparr>s64_3 := s64_3 s XOR key0 a\<rparr>;
        s = s\<lparr>s64_4 := s64_4 s XOR key1 a\<rparr>;
        s = (if 0 < adSz then
               (let (s, ad, adSz) = aead_ad_loop M s (bytes_at adp) adSz;
                    s = of_s8 (xorbuf M (s8 s) ad adSz);
                    s = xor_s8 s adSz 1
                in permutation s ASCON_AEAD128_ROUNDS_PB)
             else s);
        s = s\<lparr>s64_4 := s64_4 s XOR push_bit 63 1\<rparr>
      in (WC_OK, Some (a\<lparr>astate := s, adSet := True\<rparr>)))"

text \<open>The block loop of \<open>EncryptUpdate\<close>: state, rest of the input, its size, output so far.\<close>

function aead_encrypt_loop ::
  "wc_misc \<Rightarrow> AsconState \<Rightarrow> u8 list \<Rightarrow> nat \<Rightarrow> AsconState \<times> u8 list \<times> nat \<times> u8 list" where
  "aead_encrypt_loop M s inp inSz =
     (if ASCON_AEAD128_RATE \<le> inSz then
        (let s = of_s8 (xorbuf M (s8 s) inp ASCON_AEAD128_RATE);
             out = read_at 0 ASCON_AEAD128_RATE (s8 s);
             s = permutation s ASCON_AEAD128_ROUNDS_PB;
             (s', inp', inSz', rest) =
               aead_encrypt_loop M s (drop ASCON_AEAD128_RATE inp) (inSz - ASCON_AEAD128_RATE)
         in (s', inp', inSz', out @ rest))
      else (s, inp, inSz, []))"
  by pat_completeness auto
termination
  by (relation "measure (\<lambda>(M, s, inp, inSz). inSz)") auto

declare aead_encrypt_loop.simps [simp del]

definition aead_encrypt_blocks ::
  "wc_misc \<Rightarrow> wc_AsconAEAD128 \<Rightarrow> u8 list \<Rightarrow> nat \<Rightarrow> wc_AsconAEAD128 \<times> u8 list" where
  "aead_encrypt_blocks M a inp inSz =
     (let (s, inp, inSz, out) = aead_encrypt_loop M (astate a) inp inSz;
          s = of_s8 (xorbuf M (s8 s) inp inSz);
          out = out @ read_at 0 inSz (s8 s)
      in (a\<lparr>astate := s, alastBlkSz := inSz\<rparr>, out))"

definition wc_AsconAEAD128_EncryptUpdate ::
  "wc_misc \<Rightarrow> wc_AsconAEAD128 option \<Rightarrow> u8 list option \<Rightarrow> nat \<Rightarrow> wc_ret \<times> wc_AsconAEAD128 option \<times> u8 list" where
  "wc_AsconAEAD128_EncryptUpdate M ap inp inSz = (case ap of
     None \<Rightarrow> (BAD_FUNC_ARG, None, [])
   | Some a \<Rightarrow>
      if inp = None \<and> 0 < inSz then (BAD_FUNC_ARG, Some a, [])
      else if \<not> keySet a \<or> \<not> nonceSet a \<or> \<not> adSet a then (BAD_STATE_E, Some a, [])
      else if aop a \<noteq> ASCON_AEAD128_NOTSET \<and> aop a \<noteq> ASCON_AEAD128_ENCRYPT then (BAD_STATE_E, Some a, [])
      else let
        a = (if aop a = ASCON_AEAD128_NOTSET then a\<lparr>aop := ASCON_AEAD128_ENCRYPT\<rparr> else a);
        d = bytes_at inp
      in if alastBlkSz a \<noteq> 0 then
          (let toProcess = min32 M (ASCON_AEAD128_RATE - alastBlkSz a) inSz;
               a = a\<lparr>astate := of_s8 (xorbuf_at M (alastBlkSz a) (s8 (astate a)) d toProcess)\<rparr>;
               out = read_at (alastBlkSz a) toProcess (s8 (astate a));
               a = a\<lparr>alastBlkSz := alastBlkSz a + toProcess\<rparr>;
               d = drop toProcess d;
               inSz = inSz - toProcess
           in if alastBlkSz a < ASCON_AEAD128_RATE then (WC_OK, Some a, out)
              else let a = a\<lparr>astate := permutation (astate a) ASCON_AEAD128_ROUNDS_PB\<rparr>;
                       a = a\<lparr>alastBlkSz := 0\<rparr>;
                       (a, rest) = aead_encrypt_blocks M a d inSz
                   in (WC_OK, Some a, out @ rest))
         else let (a, out) = aead_encrypt_blocks M a d inSz in (WC_OK, Some a, out))"

text \<open>
  The part \<open>EncryptFinal\<close> and \<open>DecryptFinal\<close> share: pad the last block, add the key,
  permute, add the key again.
\<close>

definition aead_finalize :: "wc_AsconAEAD128 \<Rightarrow> wc_AsconAEAD128" where
  "aead_finalize a = (let
     s = xor_s8 (astate a) (alastBlkSz a) 1;
     s = s\<lparr>s64_2 := s64_2 s XOR key0 a\<rparr>;
     s = s\<lparr>s64_3 := s64_3 s XOR key1 a\<rparr>;
     s = permutation s ASCON_AEAD128_ROUNDS_PA;
     s = s\<lparr>s64_3 := s64_3 s XOR key0 a\<rparr>;
     s = s\<lparr>s64_4 := s64_4 s XOR key1 a\<rparr>
   in a\<lparr>astate := s\<rparr>)"

definition wc_AsconAEAD128_EncryptFinal ::
  "wc_AsconAEAD128 option \<Rightarrow> ptr \<Rightarrow> wc_ret \<times> wc_AsconAEAD128 option \<times> u8 list" where
  "wc_AsconAEAD128_EncryptFinal ap tag = (case ap of
     None \<Rightarrow> (BAD_FUNC_ARG, None, [])
   | Some a \<Rightarrow>
      if tag = NULL then (BAD_FUNC_ARG, Some a, [])
      else if \<not> keySet a \<or> \<not> nonceSet a \<or> \<not> adSet a then (BAD_STATE_E, Some a, [])
      else if aop a \<noteq> ASCON_AEAD128_ENCRYPT then (BAD_STATE_E, Some a, [])
      else let a = aead_finalize a
        in (WC_OK, Some a, read_at 24 ASCON_AEAD128_TAG_SZ (s8 (astate a))))"

text \<open>The block loop of \<open>DecryptUpdate\<close>; \<open>ct\<close> is the function's local copy of a block.\<close>

function aead_decrypt_loop ::
  "wc_misc \<Rightarrow> AsconState \<Rightarrow> u8 list \<Rightarrow> nat \<Rightarrow> AsconState \<times> u8 list \<times> nat \<times> u8 list" where
  "aead_decrypt_loop M s inp inSz =
     (if ASCON_AEAD128_RATE \<le> inSz then
        (let ct = read_at 0 ASCON_AEAD128_RATE inp;
             out = xorbufout M (s8 s) ct ASCON_AEAD128_RATE;
             s = of_s8 (write_at 0 ct (s8 s));
             s = permutation s ASCON_AEAD128_ROUNDS_PB;
             (s', inp', inSz', rest) =
               aead_decrypt_loop M s (drop ASCON_AEAD128_RATE inp) (inSz - ASCON_AEAD128_RATE)
         in (s', inp', inSz', out @ rest))
      else (s, inp, inSz, []))"
  by pat_completeness auto
termination
  by (relation "measure (\<lambda>(M, s, inp, inSz). inSz)") auto

declare aead_decrypt_loop.simps [simp del]

definition aead_decrypt_blocks ::
  "wc_misc \<Rightarrow> wc_AsconAEAD128 \<Rightarrow> u8 list \<Rightarrow> nat \<Rightarrow> wc_AsconAEAD128 \<times> u8 list" where
  "aead_decrypt_blocks M a inp inSz =
     (let (s, inp, inSz, out) = aead_decrypt_loop M (astate a) inp inSz;
          ct = read_at 0 inSz inp;
          out = out @ xorbufout M (s8 s) ct inSz;
          s = of_s8 (write_at 0 ct (s8 s))
      in (a\<lparr>astate := s, alastBlkSz := inSz\<rparr>, out))"

definition wc_AsconAEAD128_DecryptUpdate ::
  "wc_misc \<Rightarrow> wc_AsconAEAD128 option \<Rightarrow> u8 list option \<Rightarrow> nat \<Rightarrow> wc_ret \<times> wc_AsconAEAD128 option \<times> u8 list" where
  "wc_AsconAEAD128_DecryptUpdate M ap inp inSz = (case ap of
     None \<Rightarrow> (BAD_FUNC_ARG, None, [])
   | Some a \<Rightarrow>
      if inp = None \<and> 0 < inSz then (BAD_FUNC_ARG, Some a, [])
      else if \<not> keySet a \<or> \<not> nonceSet a \<or> \<not> adSet a then (BAD_STATE_E, Some a, [])
      else if aop a \<noteq> ASCON_AEAD128_NOTSET \<and> aop a \<noteq> ASCON_AEAD128_DECRYPT then (BAD_STATE_E, Some a, [])
      else let
        a = (if aop a = ASCON_AEAD128_NOTSET then a\<lparr>aop := ASCON_AEAD128_DECRYPT\<rparr> else a);
        d = bytes_at inp
      in if alastBlkSz a \<noteq> 0 then
          (let toProcess = min32 M (ASCON_AEAD128_RATE - alastBlkSz a) inSz;
               ct = read_at 0 toProcess d;
               out = xorbufout M (drop (alastBlkSz a) (s8 (astate a))) ct toProcess;
               a = a\<lparr>astate := of_s8 (write_at (alastBlkSz a) ct (s8 (astate a)))\<rparr>;
               d = drop toProcess d;
               inSz = inSz - toProcess;
               a = a\<lparr>alastBlkSz := alastBlkSz a + toProcess\<rparr>
           in if alastBlkSz a < ASCON_AEAD128_RATE then (WC_OK, Some a, out)
              else let a = a\<lparr>astate := permutation (astate a) ASCON_AEAD128_ROUNDS_PB\<rparr>;
                       a = a\<lparr>alastBlkSz := 0\<rparr>;
                       (a, rest) = aead_decrypt_blocks M a d inSz
                   in (WC_OK, Some a, out @ rest))
         else let (a, out) = aead_decrypt_blocks M a d inSz in (WC_OK, Some a, out))"

definition wc_AsconAEAD128_DecryptFinal ::
  "wc_misc \<Rightarrow> wc_AsconAEAD128 option \<Rightarrow> u8 list option \<Rightarrow> wc_ret \<times> wc_AsconAEAD128 option" where
  "wc_AsconAEAD128_DecryptFinal M ap tagp = (case ap of
     None \<Rightarrow> (BAD_FUNC_ARG, None)
   | Some a \<Rightarrow>
      if tagp = None then (BAD_FUNC_ARG, Some a)
      else if \<not> keySet a \<or> \<not> nonceSet a \<or> \<not> adSet a then (BAD_STATE_E, Some a)
      else if aop a \<noteq> ASCON_AEAD128_DECRYPT then (BAD_STATE_E, Some a)
      else let
        a = aead_finalize a;
        ret = (if ConstantCompare M (bytes_at tagp) (read_at 24 ASCON_AEAD128_TAG_SZ (s8 (astate a)))
                    ASCON_AEAD128_TAG_SZ \<noteq> 0 then ASCON_AUTH_E else WC_OK)
      in (ret, Some a))"

definition wc_AsconAEAD128_Mask ::
  "wc_AsconAEAD128 option \<Rightarrow> u8 list option \<Rightarrow> ptr \<Rightarrow> wc_ret \<times> u8 list" where
  "wc_AsconAEAD128_Mask ap ciphertext maskp = (case ap of
     None \<Rightarrow> (BAD_FUNC_ARG, [])
   | Some a \<Rightarrow>
      if ciphertext = None \<or> maskp = NULL then (BAD_FUNC_ARG, [])
      else if \<not> keySet a then (BAD_STATE_E, [])
      else mask_prf_derive (Some (bytes_of_u64 (key0 a) @ bytes_of_u64 (key1 a))) ciphertext maskp
             (mask_prf_domsep_table ! idx_val MASK_PRF_DTLS))"

end
