(* ===== verification/Wc_Aead_Correct.thy ===== *)
theory Wc_Aead_Correct
  imports Wc_Aead
begin

text \<open>
  The AEAD calls of \<open>Wc_Aead\<close> against the byte machine: the one-shot specification of
  sealing and opening a record, and for each call the run it performs. The machine that
  encrypts and the one that decrypts are mirror images (\<open>duplex_mirror\<close>), which gives the
  round trip in both directions.
\<close>

section \<open>One-shot specification\<close>

definition aead_start :: "u64 \<Rightarrow> u64 \<Rightarrow> u8 list \<Rightarrow> AsconState" where
  "aead_start k0 k1 nonce = (let
     s = perm12 \<lparr>s64_0 = ASCON_AEAD128_IV, s64_1 = k0, s64_2 = k1,
                 s64_3 = u64_of_bytes (take 8 nonce), s64_4 = u64_of_bytes (drop 8 nonce)\<rparr>
   in s\<lparr>s64_3 := s64_3 s XOR k0, s64_4 := s64_4 s XOR k1\<rparr>)"

definition aead_absorb_ad :: "AsconState \<Rightarrow> u8 list \<Rightarrow> AsconState" where
  "aead_absorb_ad s ad = (let
     s = (if ad = [] then s else perm8 (pad (fst (dx_run keep_xor 16 perm8 (s, 0) ad))))
   in s\<lparr>s64_4 := s64_4 s XOR push_bit 63 1\<rparr>)"

definition aead_close :: "u64 \<Rightarrow> u64 \<Rightarrow> AsconState \<times> nat \<Rightarrow> AsconState" where
  "aead_close k0 k1 c = (let
     s = pad c;
     s = perm12 (s\<lparr>s64_2 := s64_2 s XOR k0, s64_3 := s64_3 s XOR k1\<rparr>)
   in s\<lparr>s64_3 := s64_3 s XOR k0, s64_4 := s64_4 s XOR k1\<rparr>)"

definition aead_tag :: "u64 \<Rightarrow> u64 \<Rightarrow> AsconState \<times> nat \<Rightarrow> u8 list" where
  "aead_tag k0 k1 c = read_at 24 16 (s8 (aead_close k0 k1 c))"

definition key_words :: "u8 list \<Rightarrow> u64 \<times> u64" where
  "key_words key = (u64_of_bytes (read_at 0 8 key), u64_of_bytes (read_at 8 8 key))"

definition aead_ready :: "u8 list \<Rightarrow> u8 list \<Rightarrow> u8 list \<Rightarrow> AsconState" where
  "aead_ready key nonce ad =
     (case key_words key of (k0, k1) \<Rightarrow> aead_absorb_ad (aead_start k0 k1 nonce) ad)"

definition aead_seal :: "u8 list \<Rightarrow> u8 list \<Rightarrow> u8 list \<Rightarrow> u8 list \<Rightarrow> u8 list \<times> u8 list" where
  "aead_seal key nonce ad pt = (case key_words key of (k0, k1) \<Rightarrow>
     (case dx_run keep_xor 16 perm8 (aead_ready key nonce ad, 0) pt of
        (c, ct) \<Rightarrow> (ct, aead_tag k0 k1 c)))"

definition aead_open :: "u8 list \<Rightarrow> u8 list \<Rightarrow> u8 list \<Rightarrow> u8 list \<Rightarrow> u8 list \<Rightarrow> u8 list option" where
  "aead_open key nonce ad ct tag = (case key_words key of (k0, k1) \<Rightarrow>
     (case dx_run keep_input 16 perm8 (aead_ready key nonce ad, 0) ct of
        (c, pt) \<Rightarrow> if tag = aead_tag k0 k1 c then Some pt else None))"

interpretation aead_dx: duplex_mirror keep_xor 16 perm8 keep_input
  by unfold_locales (simp_all add: keep_xor_def keep_input_def xor_cancel_left)

interpretation aead_dec_dx: duplex keep_input 16 perm8
  by unfold_locales simp_all

lemma aead_tag_length [simp]: "length (aead_tag k0 k1 c) = 16"
  by (simp add: aead_tag_def)

lemma aead_seal_length: "aead_seal key nonce ad pt = (ct, tag) \<Longrightarrow> length ct = length pt \<and> length tag = 16"
  by (auto simp: aead_seal_def split: prod.splits) (metis aead_dx.run_length snd_conv)

lemma aead_open_seal:
  "aead_open key nonce ad ct tag = Some pt \<longleftrightarrow> aead_seal key nonce ad pt = (ct, tag)"
proof
  assume "aead_open key nonce ad ct tag = Some pt"
  then show "aead_seal key nonce ad pt = (ct, tag)"
    using aead_dx.mirror_run_back [of "(aead_ready key nonce ad, 0)" ct]
    by (auto simp: aead_open_def aead_seal_def split: prod.splits if_splits)
next
  assume "aead_seal key nonce ad pt = (ct, tag)"
  then show "aead_open key nonce ad ct tag = Some pt"
    using aead_dx.mirror_run [of "(aead_ready key nonce ad, 0)" pt]
    by (auto simp: aead_open_def aead_seal_def split: prod.splits)
qed

section \<open>Configurations of a context\<close>

definition aead_cfg :: "wc_AsconAEAD128 \<Rightarrow> AsconState \<times> nat" where
  "aead_cfg a = (astate a, alastBlkSz a)"

definition set_cfg :: "wc_AsconAEAD128 \<Rightarrow> AsconState \<times> nat \<Rightarrow> wc_AsconAEAD128" where
  "set_cfg a c = a\<lparr>astate := fst c, alastBlkSz := snd c\<rparr>"

text \<open>The context has key, nonce and associated data.\<close>

definition aead_set :: "wc_AsconAEAD128 \<Rightarrow> bool" where
  "aead_set a \<longleftrightarrow> keySet a \<and> nonceSet a \<and> adSet a"

lemma set_cfg_simps [simp]:
  "set_cfg a (aead_cfg a) = a" "aead_cfg (set_cfg a c) = c" "set_cfg (set_cfg a c) c' = set_cfg a c'"
  "key0 (set_cfg a c) = key0 a" "key1 (set_cfg a c) = key1 a" "iv0 (set_cfg a c) = iv0 a"
  "iv1 (set_cfg a c) = iv1 a" "keySet (set_cfg a c) = keySet a" "nonceSet (set_cfg a c) = nonceSet a"
  "adSet (set_cfg a c) = adSet a" "aop (set_cfg a c) = aop a" "alastBlkSz (set_cfg a c) = snd c"
  "astate (set_cfg a c) = fst c"
  by (simp_all add: set_cfg_def aead_cfg_def)

section \<open>Associated data\<close>

lemma aead_ad_loop_run:
  assumes "misc_ok M" and "n \<le> length d" and "aead_ad_loop M s d n = (s', d', n')"
  shows "n' \<le> length d' \<and> n' < 16 \<and>
    fst (dx_run keep_xor 16 perm8 (s, 0) (take n d)) = fst (dx_run keep_xor 16 perm8 (s', 0) (take n' d'))"
  using assms
proof (induction M s d n rule: aead_ad_loop.induct)
  case (1 M s d n)
  show ?case
  proof (cases "16 \<le> n")
    case True
    let ?s = "perm8 (of_s8 (xorbuf M (s8 s) d 16))"
    have "aead_ad_loop M ?s (drop 16 d) (n - 16) = (s', d', n')"
      using 1(4) True by (simp add: aead_ad_loop.simps [of M s d n] Let_def flip: perm8_def)
    then have IH: "n' \<le> length d' \<and> n' < 16 \<and>
        fst (dx_run keep_xor 16 perm8 (?s, 0) (take (n - 16) (drop 16 d)))
          = fst (dx_run keep_xor 16 perm8 (s', 0) (take n' d'))"
      using "1.IH" [OF _ refl refl \<open>misc_ok M\<close>] True 1(3) by (simp flip: perm8_def)
    have "take n d = take 16 d @ take (n - 16) (drop 16 d)"
      using True by (simp flip: take_add)
    moreover have "fst (dx_run keep_xor 16 perm8 (s, 0) (take 16 d)) = (?s, 0)"
      using xorbuf_block [OF aead_dx.duplex_axioms \<open>misc_ok M\<close>, where n = 16 and d = d and s = s and P = perm8]
        True 1(3) by (simp add: Let_def)
    ultimately show ?thesis
      using IH by (simp add: aead_dx.run_append case_prod_unfold Let_def)
  next
    case False
    then show ?thesis using 1 by (simp add: aead_ad_loop.simps [of M s d n])
  qed
qed

lemma wc_AsconAEAD128_SetAD_ok:
  assumes "misc_ok M" and "keySet a" and "nonceSet a" and "n \<le> length d"
  shows "wc_AsconAEAD128_SetAD M (Some a) (Some d) n = (WC_OK, Some (a\<lparr>adSet := True, astate :=
    aead_absorb_ad ((perm12 (astate a))\<lparr>s64_3 := s64_3 (perm12 (astate a)) XOR key0 a,
      s64_4 := s64_4 (perm12 (astate a)) XOR key1 a\<rparr>) (take n d)\<rparr>))"
proof (cases "n = 0")
  case True
  then show ?thesis
    using assms by (simp add: wc_AsconAEAD128_SetAD_def aead_absorb_ad_def Let_def flip: perm12_def)
next
  case False
  let ?s = "(perm12 (astate a))\<lparr>s64_3 := s64_3 (perm12 (astate a)) XOR key0 a,
      s64_4 := s64_4 (perm12 (astate a)) XOR key1 a\<rparr>"
  obtain s' d' n' where l: "aead_ad_loop M ?s d n = (s', d', n')" by (metis prod_cases3)
  from aead_ad_loop_run [OF assms(1,4) l] have n': "n' \<le> length d'" "n' < 16" and
    run: "fst (dx_run keep_xor 16 perm8 (?s, 0) (take n d)) = fst (dx_run keep_xor 16 perm8 (s', 0) (take n' d'))"
    by simp_all
  have "fst (dx_run keep_xor 16 perm8 (s', 0) (take n' d')) = (of_s8 (xorbuf M (s8 s') d' n'), n')"
    using xorbuf_block [OF aead_dx.duplex_axioms \<open>misc_ok M\<close>, where n = n' and d = d' and s = s' and P = perm8]
      n' by (simp add: Let_def)
  moreover have "take n d \<noteq> []" using False assms by auto
  ultimately show ?thesis
    using assms False run by (simp add: wc_AsconAEAD128_SetAD_def aead_absorb_ad_def l pad_def Let_def
        flip: perm12_def perm8_def)
qed

section \<open>Encryption\<close>

lemma aead_encrypt_loop_run:
  assumes "misc_ok M" and "n \<le> length d" and "aead_encrypt_loop M s d n = (s', d', n', out)"
  shows "n' \<le> length d' \<and> n' < 16 \<and> dx_run keep_xor 16 perm8 (s, 0) (take n d)
      = (let (c, rest) = dx_run keep_xor 16 perm8 (s', 0) (take n' d') in (c, out @ rest))"
  using assms
proof (induction M s d n arbitrary: out rule: aead_encrypt_loop.induct)
  case (1 M s d n)
  show ?case
  proof (cases "16 \<le> n")
    case True
    let ?s = "of_s8 (xorbuf M (s8 s) d 16)"
    obtain out' where rec: "aead_encrypt_loop M (perm8 ?s) (drop 16 d) (n - 16) = (s', d', n', out')"
      and out: "out = read_at 0 16 (s8 ?s) @ out'"
      using 1(4) True by (auto simp: aead_encrypt_loop.simps [of M s d n] Let_def
          simp flip: perm8_def split: prod.splits)
    then have IH: "n' \<le> length d' \<and> n' < 16 \<and> dx_run keep_xor 16 perm8 (perm8 ?s, 0) (take (n - 16) (drop 16 d))
          = (let (c, rest) = dx_run keep_xor 16 perm8 (s', 0) (take n' d') in (c, out' @ rest))"
      using "1.IH" [OF _ refl refl refl \<open>misc_ok M\<close>] True 1(3) by (simp flip: perm8_def)
    have "take n d = take 16 d @ take (n - 16) (drop 16 d)"
      using True by (simp flip: take_add)
    moreover have "dx_run keep_xor 16 perm8 (s, 0) (take 16 d) = ((perm8 ?s, 0), read_at 0 16 (s8 ?s))"
      using xorbuf_block [OF aead_dx.duplex_axioms \<open>misc_ok M\<close>, where n = 16 and d = d and s = s and P = perm8]
        True 1(3) by (simp add: Let_def)
    ultimately show ?thesis
      using IH by (simp add: out aead_dx.run_append case_prod_unfold Let_def)
  next
    case False
    then show ?thesis using 1 by (simp add: aead_encrypt_loop.simps [of M s d n])
  qed
qed

lemma aead_encrypt_blocks_run:
  assumes "misc_ok M" and "n \<le> length d"
  shows "aead_encrypt_blocks M a d n
    = (case dx_run keep_xor 16 perm8 (astate a, 0) (take n d) of (c, out) \<Rightarrow> (set_cfg a c, out))"
proof -
  obtain s' d' n' out where l: "aead_encrypt_loop M (astate a) d n = (s', d', n', out)"
    by (metis prod_cases4)
  from aead_encrypt_loop_run [OF assms l] have "n' \<le> length d'" and "n' < 16" and
    "dx_run keep_xor 16 perm8 (astate a, 0) (take n d)
      = (let (c, rest) = dx_run keep_xor 16 perm8 (s', 0) (take n' d') in (c, out @ rest))"
    by simp_all
  then show ?thesis
    using xorbuf_block [OF aead_dx.duplex_axioms \<open>misc_ok M\<close>, where n = n' and d = d' and s = s' and P = perm8]
    by (simp add: aead_encrypt_blocks_def l set_cfg_def Let_def)
qed

text \<open>\<open>EncryptUpdate\<close> is a run from wherever the last call stopped.\<close>

lemma wc_AsconAEAD128_EncryptUpdate_run:
  assumes "misc_ok M" and "aead_set a" and "alastBlkSz a < 16" and "n \<le> length d"
    and "aop a \<noteq> ASCON_AEAD128_DECRYPT"
  shows "wc_AsconAEAD128_EncryptUpdate M (Some a) (Some d) n
    = (case dx_run keep_xor 16 perm8 (aead_cfg a) (take n d) of
         (c, out) \<Rightarrow> (WC_OK, Some (set_cfg (a\<lparr>aop := ASCON_AEAD128_ENCRYPT\<rparr>) c), out))"
proof -
  define b where "b = a\<lparr>aop := ASCON_AEAD128_ENCRYPT\<rparr>"
  have b: "(if aop a = ASCON_AEAD128_NOTSET then a\<lparr>aop := ASCON_AEAD128_ENCRYPT\<rparr> else a) = b"
    using assms(5) by (cases "aop a") (simp_all add: b_def)
  have guards: "\<not> (\<not> keySet a \<or> \<not> nonceSet a \<or> \<not> adSet a)"
      "\<not> (aop a \<noteq> ASCON_AEAD128_NOTSET \<and> aop a \<noteq> ASCON_AEAD128_ENCRYPT)"
    using assms(2,5) by (cases "aop a"; simp add: aead_set_def)+
  have cfg: "aead_cfg a = aead_cfg b" "alastBlkSz b < 16" using assms by (simp_all add: b_def aead_cfg_def)
  show ?thesis
  proof (cases "alastBlkSz b = 0")
    case True
    then have c0: "aead_cfg a = (astate b, 0)" using cfg(1) by (simp add: aead_cfg_def)
    show ?thesis
      using True guards aead_encrypt_blocks_run [OF assms(1,4), of b]
      by (simp add: wc_AsconAEAD128_EncryptUpdate_def b c0 Let_def flip: b_def split: prod.splits)
  next
    case False
    let ?l = "alastBlkSz b" let ?t = "min (16 - ?l) n"
    let ?s = "of_s8 (xorbuf_at M ?l (s8 (astate b)) d ?t)"
    have t: "?t \<le> length d" "?l + ?t \<le> 16" using assms(4) cfg by simp_all
    have split: "take n d = take ?t d @ take (n - ?t) (drop ?t d)" by (simp flip: take_add)
    have chunk: "dx_run keep_xor 16 perm8 (aead_cfg b) (take ?t d)
        = (if ?l + ?t = 16 then (perm8 ?s, 0) else (?s, ?l + ?t), read_at ?l ?t (s8 ?s))"
      using xorbuf_chunk [OF aead_dx.duplex_axioms \<open>misc_ok M\<close> cfg(2) t(2,1), where s = "astate b" and P = perm8]
      by (simp add: aead_cfg_def Let_def)
    show ?thesis
    proof (cases "?l + ?t < 16")
      case True
      then have "?t = n" by simp
      with True False chunk guards show ?thesis
        by (simp add: wc_AsconAEAD128_EncryptUpdate_def b min32_eq [OF \<open>misc_ok M\<close>] cfg Let_def
            set_cfg_def flip: b_def)
    next
      case full: False
      then have "?l + ?t = 16" using t by simp
      then have run: "dx_run keep_xor 16 perm8 (aead_cfg b) (take n d)
          = (case dx_run keep_xor 16 perm8 (perm8 ?s, 0) (take (n - ?t) (drop ?t d)) of
               (c, out) \<Rightarrow> (c, read_at ?l ?t (s8 ?s) @ out))"
        using chunk by (subst split) (simp add: aead_dx.run_append case_prod_unfold Let_def)
      have "n - ?t \<le> length (drop ?t d)" using assms by simp
      from aead_encrypt_blocks_run [OF \<open>misc_ok M\<close> this, of "set_cfg b (perm8 ?s, 0)"]
      show ?thesis
        using full False guards run less_imp_le [OF cfg(2)]
        by (simp add: wc_AsconAEAD128_EncryptUpdate_def b min32_eq [OF \<open>misc_ok M\<close>] cfg Let_def
            set_cfg_def flip: b_def perm8_def split: prod.splits)
    qed
  qed
qed

section \<open>Decryption\<close>

text \<open>"Copy the ciphertext piece aside, put out the xor, store the piece in the state".\<close>

lemma decrypt_chunk:
  assumes "misc_ok M" and "pos < 16" and "pos + n \<le> 16" and "n \<le> length d"
  shows "dx_run keep_input 16 perm8 (s, pos) (take n d) =
    (let s' = of_s8 (write_at pos (read_at 0 n d) (s8 s))
     in (if pos + n = 16 then (perm8 s', 0) else (s', pos + n),
         xorbufout M (drop pos (s8 s)) (read_at 0 n d) n))"
proof -
  have "map2 keep_input (drop pos (s8 s)) (take n d) = take n d"
    using assms by (intro nth_equalityI) (simp_all add: keep_input_def)
  moreover have "xorbufout M (drop pos (s8 s)) (take n d) n = xor_bytes (drop pos (s8 s)) (take n d)"
    using xorbufout_eq [OF assms(1), of n "drop pos (s8 s)" "take n d"] assms by simp
  ultimately show ?thesis
    using aead_dec_dx.run_chunk [of pos "take n d" s] assms by (simp add: read_at_def Let_def)
qed

lemma aead_decrypt_loop_run:
  assumes "misc_ok M" and "n \<le> length d" and "aead_decrypt_loop M s d n = (s', d', n', out)"
  shows "n' \<le> length d' \<and> n' < 16 \<and> dx_run keep_input 16 perm8 (s, 0) (take n d)
      = (let (c, rest) = dx_run keep_input 16 perm8 (s', 0) (take n' d') in (c, out @ rest))"
  using assms
proof (induction M s d n arbitrary: out rule: aead_decrypt_loop.induct)
  case (1 M s d n)
  show ?case
  proof (cases "16 \<le> n")
    case True
    let ?s = "of_s8 (write_at 0 (read_at 0 16 d) (s8 s))"
    obtain out' where rec: "aead_decrypt_loop M (perm8 ?s) (drop 16 d) (n - 16) = (s', d', n', out')"
      and out: "out = xorbufout M (s8 s) (read_at 0 16 d) 16 @ out'"
      using 1(4) True by (auto simp: aead_decrypt_loop.simps [of M s d n] Let_def
          simp flip: perm8_def split: prod.splits)
    then have IH: "n' \<le> length d' \<and> n' < 16 \<and> dx_run keep_input 16 perm8 (perm8 ?s, 0) (take (n - 16) (drop 16 d))
          = (let (c, rest) = dx_run keep_input 16 perm8 (s', 0) (take n' d') in (c, out' @ rest))"
      using "1.IH" [OF _ refl refl refl refl \<open>misc_ok M\<close>] True 1(3) by (simp flip: perm8_def)
    have "take n d = take 16 d @ take (n - 16) (drop 16 d)"
      using True by (simp flip: take_add)
    moreover have "dx_run keep_input 16 perm8 (s, 0) (take 16 d)
        = ((perm8 ?s, 0), xorbufout M (s8 s) (read_at 0 16 d) 16)"
      using decrypt_chunk [OF \<open>misc_ok M\<close>, of 0 16 d s] True 1(3) by (simp add: Let_def)
    ultimately show ?thesis
      using IH by (simp add: out aead_dec_dx.run_append case_prod_unfold Let_def)
  next
    case False
    then show ?thesis using 1 by (simp add: aead_decrypt_loop.simps [of M s d n])
  qed
qed

lemma aead_decrypt_blocks_run:
  assumes "misc_ok M" and "n \<le> length d"
  shows "aead_decrypt_blocks M a d n
    = (case dx_run keep_input 16 perm8 (astate a, 0) (take n d) of (c, out) \<Rightarrow> (set_cfg a c, out))"
proof -
  obtain s' d' n' out where l: "aead_decrypt_loop M (astate a) d n = (s', d', n', out)"
    by (metis prod_cases4)
  from aead_decrypt_loop_run [OF assms l] have "n' \<le> length d'" and "n' < 16" and
    "dx_run keep_input 16 perm8 (astate a, 0) (take n d)
      = (let (c, rest) = dx_run keep_input 16 perm8 (s', 0) (take n' d') in (c, out @ rest))"
    by simp_all
  then show ?thesis
    using decrypt_chunk [OF \<open>misc_ok M\<close>, of 0 n' d' s']
    by (simp add: aead_decrypt_blocks_def l set_cfg_def Let_def)
qed

lemma wc_AsconAEAD128_DecryptUpdate_run:
  assumes "misc_ok M" and "aead_set a" and "alastBlkSz a < 16" and "n \<le> length d"
    and "aop a \<noteq> ASCON_AEAD128_ENCRYPT"
  shows "wc_AsconAEAD128_DecryptUpdate M (Some a) (Some d) n
    = (case dx_run keep_input 16 perm8 (aead_cfg a) (take n d) of
         (c, out) \<Rightarrow> (WC_OK, Some (set_cfg (a\<lparr>aop := ASCON_AEAD128_DECRYPT\<rparr>) c), out))"
proof -
  define b where "b = a\<lparr>aop := ASCON_AEAD128_DECRYPT\<rparr>"
  have b: "(if aop a = ASCON_AEAD128_NOTSET then a\<lparr>aop := ASCON_AEAD128_DECRYPT\<rparr> else a) = b"
    using assms(5) by (cases "aop a") (simp_all add: b_def)
  have guards: "\<not> (\<not> keySet a \<or> \<not> nonceSet a \<or> \<not> adSet a)"
      "\<not> (aop a \<noteq> ASCON_AEAD128_NOTSET \<and> aop a \<noteq> ASCON_AEAD128_DECRYPT)"
    using assms(2,5) by (cases "aop a"; simp add: aead_set_def)+
  have cfg: "aead_cfg a = aead_cfg b" "alastBlkSz b < 16" using assms by (simp_all add: b_def aead_cfg_def)
  show ?thesis
  proof (cases "alastBlkSz b = 0")
    case True
    then have c0: "aead_cfg a = (astate b, 0)" using cfg(1) by (simp add: aead_cfg_def)
    show ?thesis
      using True guards aead_decrypt_blocks_run [OF assms(1,4), of b]
      by (simp add: wc_AsconAEAD128_DecryptUpdate_def b c0 Let_def flip: b_def split: prod.splits)
  next
    case False
    let ?l = "alastBlkSz b" let ?t = "min (16 - ?l) n"
    let ?s = "of_s8 (write_at ?l (read_at 0 ?t d) (s8 (astate b)))"
    let ?o = "xorbufout M (drop ?l (s8 (astate b))) (read_at 0 ?t d) ?t"
    have t: "?t \<le> length d" "?l + ?t \<le> 16" using assms(4) cfg by simp_all
    have split: "take n d = take ?t d @ take (n - ?t) (drop ?t d)" by (simp flip: take_add)
    have chunk: "dx_run keep_input 16 perm8 (aead_cfg b) (take ?t d)
        = (if ?l + ?t = 16 then (perm8 ?s, 0) else (?s, ?l + ?t), ?o)"
      using decrypt_chunk [OF \<open>misc_ok M\<close> cfg(2) t(2,1), of "astate b"]
      by (simp add: aead_cfg_def Let_def)
    show ?thesis
    proof (cases "?l + ?t < 16")
      case True
      then have "?t = n" by simp
      with True False chunk guards show ?thesis
        by (simp add: wc_AsconAEAD128_DecryptUpdate_def b min32_eq [OF \<open>misc_ok M\<close>] cfg Let_def
            set_cfg_def flip: b_def)
    next
      case full: False
      then have "?l + ?t = 16" using t by simp
      then have run: "dx_run keep_input 16 perm8 (aead_cfg b) (take n d)
          = (case dx_run keep_input 16 perm8 (perm8 ?s, 0) (take (n - ?t) (drop ?t d)) of
               (c, out) \<Rightarrow> (c, ?o @ out))"
        using chunk by (subst split) (simp add: aead_dec_dx.run_append case_prod_unfold Let_def)
      have "n - ?t \<le> length (drop ?t d)" using assms by simp
      from aead_decrypt_blocks_run [OF \<open>misc_ok M\<close> this, of "set_cfg b (perm8 ?s, 0)"]
      show ?thesis
        using full False guards run less_imp_le [OF cfg(2)]
        by (simp add: wc_AsconAEAD128_DecryptUpdate_def b min32_eq [OF \<open>misc_ok M\<close>] cfg Let_def
            set_cfg_def flip: b_def perm8_def split: prod.splits)
    qed
  qed
qed

end
