(* ===== verification/Wc_Aead_Api.thy ===== *)
theory Wc_Aead_Api
  imports Wc_Aead_Correct
begin

text \<open>
  The AEAD API as its callers see it: what a complete sequence of calls computes (whatever
  the cutting of the data into calls), and the API as a state machine in which any call
  may follow any other, with the invariant of all reachable contexts.
\<close>

text \<open>\<open>ret = f(...); if (ret) return ret;\<close>\<close>

definition wc_try :: "wc_ret \<times> 'a \<Rightarrow> ('a \<Rightarrow> wc_ret + 'b) \<Rightarrow> wc_ret + 'b" where
  "wc_try r f = (if fst r = WC_OK then f (snd r) else Inl (fst r))"

lemma wc_try_ok [simp]: "wc_try (WC_OK, x) f = f x"
  by (simp add: wc_try_def)

fun encrypt_updates :: "wc_misc \<Rightarrow> wc_AsconAEAD128 option \<Rightarrow> u8 list list
    \<Rightarrow> wc_ret + wc_AsconAEAD128 option \<times> u8 list" where
  "encrypt_updates M ap [] = Inr (ap, [])"
| "encrypt_updates M ap (d # ds) =
     wc_try (wc_AsconAEAD128_EncryptUpdate M ap (Some d) (length d)) (\<lambda>(ap, out).
       (case encrypt_updates M ap ds of Inl e \<Rightarrow> Inl e | Inr (ap, rest) \<Rightarrow> Inr (ap, out @ rest)))"

fun decrypt_updates :: "wc_misc \<Rightarrow> wc_AsconAEAD128 option \<Rightarrow> u8 list list
    \<Rightarrow> wc_ret + wc_AsconAEAD128 option \<times> u8 list" where
  "decrypt_updates M ap [] = Inr (ap, [])"
| "decrypt_updates M ap (d # ds) =
     wc_try (wc_AsconAEAD128_DecryptUpdate M ap (Some d) (length d)) (\<lambda>(ap, out).
       (case decrypt_updates M ap ds of Inl e \<Rightarrow> Inl e | Inr (ap, rest) \<Rightarrow> Inr (ap, out @ rest)))"

text \<open>Key, nonce and associated data on uninitialised memory \<open>g\<close>.\<close>

definition aead_setup :: "wc_misc \<Rightarrow> wc_AsconAEAD128 \<Rightarrow> u8 list \<Rightarrow> u8 list \<Rightarrow> u8 list
    \<Rightarrow> wc_ret + wc_AsconAEAD128 option" where
  "aead_setup M g key nonce ad =
     wc_try (wc_AsconAEAD128_Init (Some g)) (\<lambda>a.
     wc_try (wc_AsconAEAD128_SetKey a (Some key)) (\<lambda>a.
     wc_try (wc_AsconAEAD128_SetNonce a (Some nonce)) (\<lambda>a.
     wc_try (wc_AsconAEAD128_SetAD M a (Some ad) (length ad)) Inr)))"

definition encrypt_calls :: "wc_misc \<Rightarrow> wc_AsconAEAD128 \<Rightarrow> u8 list \<Rightarrow> u8 list \<Rightarrow> u8 list \<Rightarrow> u8 list list
    \<Rightarrow> wc_ret + u8 list \<times> u8 list" where
  "encrypt_calls M g key nonce ad pts =
     (case aead_setup M g key nonce ad of Inl e \<Rightarrow> Inl e | Inr a \<Rightarrow>
     (case encrypt_updates M a pts of Inl e \<Rightarrow> Inl e | Inr (a, ct) \<Rightarrow>
      wc_try (wc_AsconAEAD128_EncryptFinal a PTR) (\<lambda>(a, tag). Inr (ct, tag))))"

definition decrypt_calls :: "wc_misc \<Rightarrow> wc_AsconAEAD128 \<Rightarrow> u8 list \<Rightarrow> u8 list \<Rightarrow> u8 list \<Rightarrow> u8 list list
    \<Rightarrow> u8 list \<Rightarrow> wc_ret + u8 list" where
  "decrypt_calls M g key nonce ad cts tag =
     (case aead_setup M g key nonce ad of Inl e \<Rightarrow> Inl e | Inr a \<Rightarrow>
     (case decrypt_updates M a cts of Inl e \<Rightarrow> Inl e | Inr (a, pt) \<Rightarrow>
      wc_try (wc_AsconAEAD128_DecryptFinal M a (Some tag)) (\<lambda>a. Inr pt)))"

section \<open>What the call sequences compute\<close>

text \<open>A context that is set up for \<open>key\<close> and stands at configuration \<open>c\<close>.\<close>

definition aead_at :: "u8 list \<Rightarrow> ascon_op \<Rightarrow> AsconState \<times> nat \<Rightarrow> wc_AsconAEAD128 \<Rightarrow> bool" where
  "aead_at key op c a \<longleftrightarrow> aead_set a \<and> (key0 a, key1 a) = key_words key \<and> aop a = op \<and> aead_cfg a = c"

lemma aead_setup_ready:
  assumes "misc_ok M" and "length key = 16" and "length nonce = 16"
  shows "\<exists>a. aead_setup M g key nonce ad = Inr (Some a) \<and>
    aead_at key ASCON_AEAD128_NOTSET (aead_ready key nonce ad, 0) a \<and> iv0 a = iv0 g \<and> iv1 a = iv1 g"
proof -
  obtain k0 k1 where k: "key_words key = (k0, k1)" by (cases "key_words key")
  define b where "b = zero_aead\<lparr>iv0 := iv0 g, iv1 := iv1 g, key0 := k0, key1 := k1, keySet := True,
    nonceSet := True, astate := \<lparr>s64_0 = ASCON_AEAD128_IV, s64_1 = k0, s64_2 = k1,
      s64_3 = u64_of_bytes (take 8 nonce), s64_4 = u64_of_bytes (drop 8 nonce)\<rparr>\<rparr>"
  have "aead_setup M g key nonce ad = wc_try (wc_AsconAEAD128_SetAD M (Some b) (Some ad) (length ad)) Inr"
    using k assms by (simp add: aead_setup_def wc_AsconAEAD128_Init_def wc_AsconAEAD128_SetKey_def
        wc_AsconAEAD128_SetNonce_def key_words_def zero_aead_def zero_state_def Let_def write_key_block b_def)
  then have "aead_setup M g key nonce ad = Inr (Some (b\<lparr>adSet := True,
      astate := aead_absorb_ad (aead_start k0 k1 nonce) ad\<rparr>))"
    using wc_AsconAEAD128_SetAD_ok [OF assms(1), of b "length ad" ad]
    by (simp add: b_def aead_start_def Let_def)
  then show ?thesis
    by (simp add: aead_at_def aead_set_def aead_ready_def k b_def aead_cfg_def zero_aead_def)
qed

lemma aead_at_cfg: "aead_at key op c a \<Longrightarrow> snd c < 16 \<Longrightarrow>
    aead_set a \<and> alastBlkSz a < 16 \<and> aead_cfg a = c \<and> aop a = op"
  by (auto simp: aead_at_def aead_cfg_def)

lemma aead_at_encrypt:
  assumes "misc_ok M" and "aead_at key op c a" and "snd c < 16" and "op \<noteq> ASCON_AEAD128_DECRYPT"
  shows "\<exists>a'. wc_AsconAEAD128_EncryptUpdate M (Some a) (Some d) (length d)
      = (WC_OK, Some a', snd (dx_run keep_xor 16 perm8 c d)) \<and>
      aead_at key ASCON_AEAD128_ENCRYPT (fst (dx_run keep_xor 16 perm8 c d)) a'"
  using wc_AsconAEAD128_EncryptUpdate_run [OF assms(1), of a "length d" d]
    aead_at_cfg [OF assms(2,3)] assms(2,4)
  by (simp add: aead_at_def aead_set_def split: prod.splits)

lemma aead_at_decrypt:
  assumes "misc_ok M" and "aead_at key op c a" and "snd c < 16" and "op \<noteq> ASCON_AEAD128_ENCRYPT"
  shows "\<exists>a'. wc_AsconAEAD128_DecryptUpdate M (Some a) (Some d) (length d)
      = (WC_OK, Some a', snd (dx_run keep_input 16 perm8 c d)) \<and>
      aead_at key ASCON_AEAD128_DECRYPT (fst (dx_run keep_input 16 perm8 c d)) a'"
  using wc_AsconAEAD128_DecryptUpdate_run [OF assms(1), of a "length d" d]
    aead_at_cfg [OF assms(2,3)] assms(2,4)
  by (simp add: aead_at_def aead_set_def split: prod.splits)

lemma encrypt_updates_at:
  assumes "misc_ok M" and "aead_at key op c a" and "snd c < 16" and "op \<noteq> ASCON_AEAD128_DECRYPT"
  shows "\<exists>a'. encrypt_updates M (Some a) ds = Inr (Some a', snd (dx_run keep_xor 16 perm8 c (concat ds)))
    \<and> aead_at key (if ds = [] then op else ASCON_AEAD128_ENCRYPT)
         (fst (dx_run keep_xor 16 perm8 c (concat ds))) a'"
  using assms(2-)
proof (induction ds arbitrary: op c a)
  case Nil
  then show ?case by simp
next
  case (Cons d ds)
  let ?c = "fst (dx_run keep_xor 16 perm8 c d)"
  obtain a' where u: "wc_AsconAEAD128_EncryptUpdate M (Some a) (Some d) (length d)
      = (WC_OK, Some a', snd (dx_run keep_xor 16 perm8 c d))" and "aead_at key ASCON_AEAD128_ENCRYPT ?c a'"
    using aead_at_encrypt [OF assms(1) Cons.prems] by blast
  with Cons.IH [of _ ?c a'] aead_dx.run_pos_less [OF Cons.prems(2), of d]
  obtain a'' where "encrypt_updates M (Some a') ds = Inr (Some a'', snd (dx_run keep_xor 16 perm8 ?c (concat ds)))"
    and "aead_at key ASCON_AEAD128_ENCRYPT (fst (dx_run keep_xor 16 perm8 ?c (concat ds))) a''"
    by fastforce
  with u show ?case
    by (simp add: aead_dx.run_append case_prod_unfold Let_def)
qed

lemma decrypt_updates_at:
  assumes "misc_ok M" and "aead_at key op c a" and "snd c < 16" and "op \<noteq> ASCON_AEAD128_ENCRYPT"
  shows "\<exists>a'. decrypt_updates M (Some a) ds = Inr (Some a', snd (dx_run keep_input 16 perm8 c (concat ds)))
    \<and> aead_at key (if ds = [] then op else ASCON_AEAD128_DECRYPT)
         (fst (dx_run keep_input 16 perm8 c (concat ds))) a'"
  using assms(2-)
proof (induction ds arbitrary: op c a)
  case Nil
  then show ?case by simp
next
  case (Cons d ds)
  let ?c = "fst (dx_run keep_input 16 perm8 c d)"
  obtain a' where u: "wc_AsconAEAD128_DecryptUpdate M (Some a) (Some d) (length d)
      = (WC_OK, Some a', snd (dx_run keep_input 16 perm8 c d))" and "aead_at key ASCON_AEAD128_DECRYPT ?c a'"
    using aead_at_decrypt [OF assms(1) Cons.prems] by blast
  with Cons.IH [of _ ?c a'] aead_dec_dx.run_pos_less [OF Cons.prems(2), of d]
  obtain a'' where "decrypt_updates M (Some a') ds = Inr (Some a'', snd (dx_run keep_input 16 perm8 ?c (concat ds)))"
    and "aead_at key ASCON_AEAD128_DECRYPT (fst (dx_run keep_input 16 perm8 ?c (concat ds))) a''"
    by fastforce
  with u show ?case
    by (simp add: aead_dec_dx.run_append case_prod_unfold Let_def)
qed

lemma aead_finalize_close:
  "aead_at key op c a \<Longrightarrow> astate (aead_finalize a) = aead_close (fst (key_words key)) (snd (key_words key)) c"
  by (auto simp: aead_at_def aead_finalize_def aead_close_def pad_def aead_cfg_def Let_def
      simp flip: perm12_def dest!: sym [of "(key0 a, key1 a)"])

lemma encrypt_calls_seal:
  assumes "misc_ok M" and "length key = 16" and "length nonce = 16" and "pts \<noteq> []"
  shows "encrypt_calls M g key nonce ad pts = Inr (aead_seal key nonce ad (concat pts))"
proof -
  let ?c = "(aead_ready key nonce ad, 0)"
  obtain a where init: "aead_setup M g key nonce ad = Inr (Some a)"
    and a: "aead_at key ASCON_AEAD128_NOTSET ?c a"
    using aead_setup_ready [OF assms(1-3)] by blast
  obtain a' where upd: "encrypt_updates M (Some a) pts
      = Inr (Some a', snd (dx_run keep_xor 16 perm8 ?c (concat pts)))"
    and a': "aead_at key ASCON_AEAD128_ENCRYPT (fst (dx_run keep_xor 16 perm8 ?c (concat pts))) a'"
    using encrypt_updates_at [OF assms(1) a, of pts] assms(4) by auto
  have "wc_AsconAEAD128_EncryptFinal (Some a') PTR = (WC_OK, Some (aead_finalize a'),
      aead_tag (fst (key_words key)) (snd (key_words key)) (fst (dx_run keep_xor 16 perm8 ?c (concat pts))))"
    using a' aead_finalize_close [OF a']
    by (simp add: wc_AsconAEAD128_EncryptFinal_def aead_at_def aead_set_def aead_tag_def Let_def)
  then show ?thesis
    by (simp add: encrypt_calls_def init upd aead_seal_def case_prod_unfold)
qed

lemma decrypt_calls_open:
  assumes "misc_ok M" and "length key = 16" and "length nonce = 16" and "length tag = 16" and "cts \<noteq> []"
  shows "decrypt_calls M g key nonce ad cts tag
    = (case aead_open key nonce ad (concat cts) tag of None \<Rightarrow> Inl ASCON_AUTH_E | Some pt \<Rightarrow> Inr pt)"
proof -
  let ?c = "(aead_ready key nonce ad, 0)"
  obtain a where init: "aead_setup M g key nonce ad = Inr (Some a)"
    and a: "aead_at key ASCON_AEAD128_NOTSET ?c a"
    using aead_setup_ready [OF assms(1-3)] by blast
  obtain a' where upd: "decrypt_updates M (Some a) cts
      = Inr (Some a', snd (dx_run keep_input 16 perm8 ?c (concat cts)))"
    and a': "aead_at key ASCON_AEAD128_DECRYPT (fst (dx_run keep_input 16 perm8 ?c (concat cts))) a'"
    using decrypt_updates_at [OF assms(1) a, of cts] assms(5) by auto
  let ?t = "aead_tag (fst (key_words key)) (snd (key_words key)) (fst (dx_run keep_input 16 perm8 ?c (concat cts)))"
  have "ConstantCompare M tag ?t 16 = 0 \<longleftrightarrow> tag = ?t"
    using assms by (intro ConstantCompare_eq) simp_all
  then have "wc_AsconAEAD128_DecryptFinal M (Some a') (Some tag)
      = (if tag = ?t then WC_OK else ASCON_AUTH_E, Some (aead_finalize a'))"
    using a' aead_finalize_close [OF a']
    by (simp add: wc_AsconAEAD128_DecryptFinal_def aead_at_def aead_set_def aead_tag_def Let_def)
  then show ?thesis
    by (simp add: decrypt_calls_def init upd aead_open_def case_prod_unfold wc_try_def)
qed

lemma calls_without_update:
  assumes "misc_ok M" and "length key = 16" and "length nonce = 16"
  shows "encrypt_calls M g key nonce ad [] = Inl BAD_STATE_E"
    and "decrypt_calls M g key nonce ad [] tag = Inl BAD_STATE_E"
proof -
  obtain a where "aead_setup M g key nonce ad = Inr (Some a)"
    and "aead_at key ASCON_AEAD128_NOTSET (aead_ready key nonce ad, 0) a"
    using aead_setup_ready [OF assms] by blast
  then show "encrypt_calls M g key nonce ad [] = Inl BAD_STATE_E"
    and "decrypt_calls M g key nonce ad [] tag = Inl BAD_STATE_E"
    by (simp_all add: encrypt_calls_def decrypt_calls_def wc_AsconAEAD128_EncryptFinal_def
        wc_AsconAEAD128_DecryptFinal_def wc_try_def aead_at_def aead_set_def)
qed

end
