(* ===== verification/Wc_Aead_Machine.thy ===== *)
theory Wc_Aead_Machine
  imports Wc_Aead_Api
begin

text \<open>
  The AEAD context as a state machine: any function of the API may be called on a live
  context, in any order and with any arguments. A step relates the context before a call,
  the call, its return code and the context afterwards. The invariant says what every
  context reachable from \<open>Init\<close> looks like.
\<close>

datatype aead_op =
    CallInit
  | CallSetKey "u8 list option"
  | CallSetNonce "u8 list option"
  | CallSetAD "u8 list option" nat
  | CallEncryptUpdate "u8 list option" nat
  | CallEncryptFinal ptr
  | CallDecryptUpdate "u8 list option" nat
  | CallDecryptFinal "u8 list option"
  | CallMask "u8 list option" ptr

fun aead_call :: "wc_misc \<Rightarrow> aead_op \<Rightarrow> wc_AsconAEAD128 option \<Rightarrow> wc_ret \<times> wc_AsconAEAD128 option" where
  "aead_call M CallInit a = wc_AsconAEAD128_Init a"
| "aead_call M (CallSetKey k) a = wc_AsconAEAD128_SetKey a k"
| "aead_call M (CallSetNonce n) a = wc_AsconAEAD128_SetNonce a n"
| "aead_call M (CallSetAD d sz) a = wc_AsconAEAD128_SetAD M a d sz"
| "aead_call M (CallEncryptUpdate d sz) a =
     (case wc_AsconAEAD128_EncryptUpdate M a d sz of (r, a', out) \<Rightarrow> (r, a'))"
| "aead_call M (CallEncryptFinal t) a =
     (case wc_AsconAEAD128_EncryptFinal a t of (r, a', tag) \<Rightarrow> (r, a'))"
| "aead_call M (CallDecryptUpdate d sz) a =
     (case wc_AsconAEAD128_DecryptUpdate M a d sz of (r, a', out) \<Rightarrow> (r, a'))"
| "aead_call M (CallDecryptFinal t) a = wc_AsconAEAD128_DecryptFinal M a t"
| "aead_call M (CallMask c m) a = (case wc_AsconAEAD128_Mask a c m of (r, out) \<Rightarrow> (r, a))"

text \<open>
  What a caller has to respect: a non-null buffer holds the bytes its length names, the
  fixed-size buffers sixteen.
\<close>

definition buf_ok :: "u8 list option \<Rightarrow> nat \<Rightarrow> bool" where
  "buf_ok d sz \<longleftrightarrow> (case d of None \<Rightarrow> True | Some bs \<Rightarrow> length bs = sz)"

lemma buf_ok_simps [simp]: "buf_ok None sz" "buf_ok (Some bs) sz \<longleftrightarrow> length bs = sz"
  by (simp_all add: buf_ok_def)

fun call_ok :: "aead_op \<Rightarrow> bool" where
  "call_ok (CallSetKey k) = buf_ok k 16"
| "call_ok (CallSetNonce n) = buf_ok n 16"
| "call_ok (CallSetAD d sz) = buf_ok d sz"
| "call_ok (CallEncryptUpdate d sz) = buf_ok d sz"
| "call_ok (CallDecryptUpdate d sz) = buf_ok d sz"
| "call_ok (CallDecryptFinal t) = buf_ok t 16"
| "call_ok (CallMask c m) = buf_ok c 16"
| "call_ok _ = True"

inductive aead_step :: "wc_misc \<Rightarrow> wc_AsconAEAD128 \<Rightarrow> aead_op \<Rightarrow> wc_ret \<Rightarrow> wc_AsconAEAD128 \<Rightarrow> bool"
  for M where
  call: "call_ok c \<Longrightarrow> aead_call M c (Some a) = (r, Some a') \<Longrightarrow> aead_step M a c r a'"

inductive aead_reach :: "wc_misc \<Rightarrow> wc_AsconAEAD128 \<Rightarrow> bool" for M where
  init: "wc_AsconAEAD128_Init (Some g) = (WC_OK, Some a) \<Longrightarrow> aead_reach M a"
| step: "aead_reach M a \<Longrightarrow> aead_step M a c r a' \<Longrightarrow> aead_reach M a'"

inductive_cases aead_stepE: "aead_step M a c r a'"
inductive_simps aead_step_iff: "aead_step M a c r a'"

text \<open>Executable runs of a list of calls; the model never loses the context.\<close>

fun aead_calls :: "wc_misc \<Rightarrow> aead_op list \<Rightarrow> wc_AsconAEAD128 option \<Rightarrow> wc_ret list \<times> wc_AsconAEAD128 option" where
  "aead_calls M [] a = ([], a)"
| "aead_calls M (c # cs) a = (case aead_call M c a of (r, a') \<Rightarrow>
     (case aead_calls M cs a' of (rs, a'') \<Rightarrow> (r # rs, a'')))"

section \<open>One step\<close>

lemma aead_call_total: "\<exists>r a'. aead_call M c (Some a) = (r, Some a')"
  by (cases c) (auto simp: wc_AsconAEAD128_Init_def wc_AsconAEAD128_SetKey_def
      wc_AsconAEAD128_SetNonce_def wc_AsconAEAD128_SetAD_def wc_AsconAEAD128_EncryptUpdate_def
      wc_AsconAEAD128_EncryptFinal_def wc_AsconAEAD128_DecryptUpdate_def
      wc_AsconAEAD128_DecryptFinal_def Let_def split: prod.splits)

lemma call_encrypt_update:
  assumes "misc_ok M" and "buf_ok d n" and "alastBlkSz a < 16"
  shows "aead_call M (CallEncryptUpdate d n) (Some a) =
    (if d = None \<and> 0 < n then (BAD_FUNC_ARG, Some a)
     else if \<not> aead_set a \<or> aop a = ASCON_AEAD128_DECRYPT then (BAD_STATE_E, Some a)
     else (WC_OK, Some (set_cfg (a\<lparr>aop := ASCON_AEAD128_ENCRYPT\<rparr>)
            (fst (dx_run keep_xor 16 perm8 (aead_cfg a) (bytes_at d))))))"
proof (cases "(d = None \<and> 0 < n) \<or> \<not> aead_set a \<or> aop a = ASCON_AEAD128_DECRYPT")
  case True
  then show ?thesis by (auto simp: wc_AsconAEAD128_EncryptUpdate_def aead_set_def)
next
  case False
  then have "wc_AsconAEAD128_EncryptUpdate M (Some a) d n
      = wc_AsconAEAD128_EncryptUpdate M (Some a) (Some (bytes_at d)) n"
    by (cases d) (simp_all add: wc_AsconAEAD128_EncryptUpdate_def bytes_at_def)
  moreover have "n = length (bytes_at d)"
    using False assms(2) by (cases d) (simp_all add: bytes_at_def)
  ultimately show ?thesis
    using False wc_AsconAEAD128_EncryptUpdate_run [OF assms(1), of a n "bytes_at d"] assms(3)
    by (auto split: prod.splits)
qed

lemma call_decrypt_update:
  assumes "misc_ok M" and "buf_ok d n" and "alastBlkSz a < 16"
  shows "aead_call M (CallDecryptUpdate d n) (Some a) =
    (if d = None \<and> 0 < n then (BAD_FUNC_ARG, Some a)
     else if \<not> aead_set a \<or> aop a = ASCON_AEAD128_ENCRYPT then (BAD_STATE_E, Some a)
     else (WC_OK, Some (set_cfg (a\<lparr>aop := ASCON_AEAD128_DECRYPT\<rparr>)
            (fst (dx_run keep_input 16 perm8 (aead_cfg a) (bytes_at d))))))"
proof (cases "(d = None \<and> 0 < n) \<or> \<not> aead_set a \<or> aop a = ASCON_AEAD128_ENCRYPT")
  case True
  then show ?thesis by (auto simp: wc_AsconAEAD128_DecryptUpdate_def aead_set_def)
next
  case False
  then have "wc_AsconAEAD128_DecryptUpdate M (Some a) d n
      = wc_AsconAEAD128_DecryptUpdate M (Some a) (Some (bytes_at d)) n"
    by (cases d) (simp_all add: wc_AsconAEAD128_DecryptUpdate_def bytes_at_def)
  moreover have "n = length (bytes_at d)"
    using False assms(2) by (cases d) (simp_all add: bytes_at_def)
  ultimately show ?thesis
    using False wc_AsconAEAD128_DecryptUpdate_run [OF assms(1), of a n "bytes_at d"] assms(3)
    by (auto split: prod.splits)
qed

lemma call_set_ad:
  "\<exists>s. aead_call M (CallSetAD d n) (Some a) =
    (if d = None \<and> 0 < n then (BAD_FUNC_ARG, Some a)
     else if \<not> keySet a \<or> \<not> nonceSet a then (BAD_STATE_E, Some a)
     else (WC_OK, Some (a\<lparr>astate := s, adSet := True\<rparr>)))"
  by (auto simp: wc_AsconAEAD128_SetAD_def Let_def)

lemmas call_defs = wc_AsconAEAD128_Init_def wc_AsconAEAD128_SetKey_def wc_AsconAEAD128_SetNonce_def
  wc_AsconAEAD128_EncryptFinal_def wc_AsconAEAD128_DecryptFinal_def wc_AsconAEAD128_Mask_def

section \<open>The abstract machine the API implements\<close>

text \<open>
  The return code of a call depends on the arguments being null and on four facts about
  the calls so far: key set, nonce set, associated data absorbed, direction. The abstract
  machine has these four as its state; the code's context refines it.
\<close>

record aead_phase =
  has_key :: bool
  has_nonce :: bool
  has_ad :: bool
  direction :: ascon_op

definition phase_start :: aead_phase where
  "phase_start = \<lparr>has_key = False, has_nonce = False, has_ad = False, direction = ASCON_AEAD128_NOTSET\<rparr>"

definition phase :: "wc_AsconAEAD128 \<Rightarrow> aead_phase" where
  "phase a = \<lparr>has_key = keySet a, has_nonce = nonceSet a, has_ad = adSet a, direction = aop a\<rparr>"

definition phase_ready :: "aead_phase \<Rightarrow> bool" where
  "phase_ready p \<longleftrightarrow> has_key p \<and> has_nonce p \<and> has_ad p"

text \<open>"Reject a null argument, then a wrong state, else move on".\<close>

definition guarded :: "bool \<Rightarrow> bool \<Rightarrow> aead_phase \<Rightarrow> aead_phase \<Rightarrow> wc_ret \<times> aead_phase" where
  "guarded args state p p' = (if \<not> args then (BAD_FUNC_ARG, p) else if \<not> state then (BAD_STATE_E, p) else (WC_OK, p'))"

fun phase_call :: "aead_op \<Rightarrow> aead_phase \<Rightarrow> wc_ret \<times> aead_phase" where
  "phase_call CallInit p = (WC_OK, phase_start)"
| "phase_call (CallSetKey k) p = guarded (k \<noteq> None) (\<not> has_key p) p (p\<lparr>has_key := True\<rparr>)"
| "phase_call (CallSetNonce n) p = guarded (n \<noteq> None) (\<not> has_nonce p) p (p\<lparr>has_nonce := True\<rparr>)"
| "phase_call (CallSetAD d sz) p =
     guarded (d \<noteq> None \<or> sz = 0) (has_key p \<and> has_nonce p) p (p\<lparr>has_ad := True\<rparr>)"
| "phase_call (CallEncryptUpdate d sz) p =
     guarded (d \<noteq> None \<or> sz = 0) (phase_ready p \<and> direction p \<noteq> ASCON_AEAD128_DECRYPT) p
       (p\<lparr>direction := ASCON_AEAD128_ENCRYPT\<rparr>)"
| "phase_call (CallEncryptFinal t) p =
     guarded (t \<noteq> NULL) (phase_ready p \<and> direction p = ASCON_AEAD128_ENCRYPT) p p"
| "phase_call (CallDecryptUpdate d sz) p =
     guarded (d \<noteq> None \<or> sz = 0) (phase_ready p \<and> direction p \<noteq> ASCON_AEAD128_ENCRYPT) p
       (p\<lparr>direction := ASCON_AEAD128_DECRYPT\<rparr>)"
| "phase_call (CallDecryptFinal t) p =
     guarded (t \<noteq> None) (phase_ready p \<and> direction p = ASCON_AEAD128_DECRYPT) p p"
| "phase_call (CallMask c m) p = guarded (c \<noteq> None \<and> m \<noteq> NULL) (has_key p) p p"

fun phase_calls :: "aead_op list \<Rightarrow> aead_phase \<Rightarrow> wc_ret list \<times> aead_phase" where
  "phase_calls [] p = ([], p)"
| "phase_calls (c # cs) p = (case phase_call c p of (r, p') \<Rightarrow>
     (case phase_calls cs p' of (rs, p'') \<Rightarrow> (r # rs, p'')))"

text \<open>An authentication failure is the outcome of a call the abstract machine accepts.\<close>

definition accepted :: "wc_ret \<Rightarrow> wc_ret" where
  "accepted r = (if r = ASCON_AUTH_E then WC_OK else r)"

definition aead_inv :: "wc_AsconAEAD128 \<Rightarrow> bool" where
  "aead_inv a \<longleftrightarrow> alastBlkSz a < 16
     \<and> (adSet a \<longrightarrow> keySet a \<and> nonceSet a)
     \<and> (aop a \<noteq> ASCON_AEAD128_NOTSET \<longrightarrow> adSet a)
     \<and> (alastBlkSz a \<noteq> 0 \<longrightarrow> aop a \<noteq> ASCON_AEAD128_NOTSET)
     \<and> (\<not> keySet a \<longrightarrow> key0 a = 0 \<and> key1 a = 0)"

lemma set_cfg_sel [simp]:
  "alastBlkSz (set_cfg a c) = snd c" "astate (set_cfg a c) = fst c" "key0 (set_cfg a c) = key0 a"
  "key1 (set_cfg a c) = key1 a" "iv0 (set_cfg a c) = iv0 a" "iv1 (set_cfg a c) = iv1 a"
  "keySet (set_cfg a c) = keySet a" "nonceSet (set_cfg a c) = nonceSet a" "adSet (set_cfg a c) = adSet a"
  "aop (set_cfg a c) = aop a"
  by (cases c; simp add: set_cfg_def)+

lemma aead_finalize_sel [simp]:
  "alastBlkSz (aead_finalize a) = alastBlkSz a" "key0 (aead_finalize a) = key0 a"
  "key1 (aead_finalize a) = key1 a" "iv0 (aead_finalize a) = iv0 a" "iv1 (aead_finalize a) = iv1 a"
  "keySet (aead_finalize a) = keySet a" "nonceSet (aead_finalize a) = nonceSet a"
  "adSet (aead_finalize a) = adSet a" "aop (aead_finalize a) = aop a"
  by (simp_all add: aead_finalize_def Let_def)

text \<open>One call refines one call, keeps the invariant, and a rejected call changes nothing.\<close>

definition call_effect :: "aead_op \<Rightarrow> wc_AsconAEAD128 \<Rightarrow> wc_ret \<Rightarrow> wc_AsconAEAD128 \<Rightarrow> bool" where
  "call_effect c a r a' \<longleftrightarrow> phase_call c (phase a) = (accepted r, phase a') \<and> aead_inv a'
     \<and> (r \<in> {BAD_FUNC_ARG, BAD_STATE_E} \<longrightarrow> a' = a) \<and> iv0 a' = iv0 a \<and> iv1 a' = iv1 a
     \<and> (c \<noteq> CallInit \<longrightarrow> keySet a \<longrightarrow> key0 a' = key0 a \<and> key1 a' = key1 a)"

lemmas effect_defs = call_effect_def phase_def guarded_def phase_ready_def accepted_def aead_inv_def

lemma update_effect:
  assumes "misc_ok M" and "aead_inv a"
  shows "buf_ok d n \<Longrightarrow> aead_call M (CallEncryptUpdate d n) (Some a) = (r, Some a') \<Longrightarrow>
      call_effect (CallEncryptUpdate d n) a r a'"
    and "buf_ok d n \<Longrightarrow> aead_call M (CallDecryptUpdate d n) (Some a) = (r, Some a') \<Longrightarrow>
      call_effect (CallDecryptUpdate d n) a r a'"
proof -
  have pos: "alastBlkSz a < 16" using assms(2) by (simp add: aead_inv_def)
  have e: "snd (fst (dx_run keep_xor 16 perm8 (aead_cfg a) ds)) < 16" for ds
    using aead_dx.run_pos_less pos by (simp add: aead_cfg_def)
  have d: "snd (fst (dx_run keep_input 16 perm8 (aead_cfg a) ds)) < 16" for ds
    using aead_dec_dx.run_pos_less pos by (simp add: aead_cfg_def)
  show "call_effect (CallEncryptUpdate d n) a r a'"
    if "buf_ok d n" "aead_call M (CallEncryptUpdate d n) (Some a) = (r, Some a')"
    using that(2) assms(2) e [of "bytes_at d"]
    by (cases "aop a") (auto simp: call_encrypt_update [OF assms(1) that(1) pos] effect_defs aead_set_def
        simp del: aead_call.simps split: if_splits)
  show "call_effect (CallDecryptUpdate d n) a r a'"
    if "buf_ok d n" "aead_call M (CallDecryptUpdate d n) (Some a) = (r, Some a')"
    using that(2) assms(2) d [of "bytes_at d"]
    by (cases "aop a") (auto simp: call_decrypt_update [OF assms(1) that(1) pos] effect_defs aead_set_def
        simp del: aead_call.simps split: if_splits)
qed

lemma aead_call_effect:
  assumes "misc_ok M" and "aead_inv a" and "call_ok c" and "aead_call M c (Some a) = (r, Some a')"
  shows "call_effect c a r a'"
proof (cases c)
  case (CallSetAD d n)
  with assms call_set_ad [of M d n a] show ?thesis
    by (auto simp: effect_defs simp del: aead_call.simps split: if_splits)
next
  case (CallEncryptUpdate d n)
  with assms update_effect(1) [of M a d n r a'] show ?thesis by (simp del: aead_call.simps)
next
  case (CallDecryptUpdate d n)
  with assms update_effect(2) [of M a d n r a'] show ?thesis by (simp del: aead_call.simps)
next
  case (CallMask d p)
  with assms show ?thesis
    by (auto simp: effect_defs call_defs mask_prf_derive_def Let_def split: if_splits)
qed (use assms in \<open>auto simp: effect_defs call_defs phase_start_def zero_aead_def Let_def split: if_splits\<close>)

section \<open>Reachable contexts and whole call sequences\<close>

lemma aead_init_inv:
  "wc_AsconAEAD128_Init (Some g) = (WC_OK, Some a) \<Longrightarrow> aead_inv a \<and> phase a = phase_start"
  by (auto simp: call_defs zero_aead_def aead_inv_def phase_def phase_start_def Let_def)

lemma aead_step_effect: "misc_ok M \<Longrightarrow> aead_inv a \<Longrightarrow> aead_step M a c r a' \<Longrightarrow> call_effect c a r a'"
  by (auto simp: aead_step_iff intro: aead_call_effect)

lemma aead_reach_inv: "aead_reach M a \<Longrightarrow> misc_ok M \<Longrightarrow> aead_inv a"
proof (induction rule: aead_reach.induct)
  case (init g a)
  then show ?case using aead_init_inv by blast
next
  case (step a c r a')
  then show ?case using aead_step_effect [of M a c r a'] by (simp add: call_effect_def)
qed

lemma aead_calls_refine:
  assumes "misc_ok M" and "aead_inv a" and "\<forall>c \<in> set cs. call_ok c"
  shows "\<exists>rs a'. aead_calls M cs (Some a) = (rs, Some a') \<and> aead_inv a' \<and>
    phase_calls cs (phase a) = (map accepted rs, phase a')"
  using assms(2,3)
proof (induction cs arbitrary: a)
  case Nil
  then show ?case by simp
next
  case (Cons c cs)
  obtain r b where call: "aead_call M c (Some a) = (r, Some b)" using aead_call_total by blast
  with Cons.prems have "call_effect c a r b" using aead_call_effect [OF assms(1)] by simp
  with Cons call show ?case by (fastforce simp: call_effect_def split: prod.splits)
qed

lemma aead_calls_reach:
  "aead_reach M a \<Longrightarrow> \<forall>c \<in> set cs. call_ok c \<Longrightarrow> aead_calls M cs (Some a) = (rs, Some a') \<Longrightarrow> aead_reach M a'"
proof (induction cs arbitrary: a rs)
  case Nil
  then show ?case by simp
next
  case (Cons c cs)
  obtain r b where call: "aead_call M c (Some a) = (r, Some b)" using aead_call_total by blast
  then have "aead_reach M b" using Cons.prems by (auto intro: aead_reach.step aead_step.call)
  with Cons call show ?case by (auto split: prod.splits)
qed

text \<open>Between two calls of \<open>Init\<close> the direction, once chosen, stays.\<close>

lemma phase_direction_kept:
  "phase_call c p = (r, p') \<Longrightarrow> c \<noteq> CallInit \<Longrightarrow> direction p \<noteq> ASCON_AEAD128_NOTSET \<Longrightarrow>
    direction p' = direction p"
  by (cases c; cases "direction p") (auto simp: guarded_def split: if_splits)

lemma phase_calls_direction:
  "phase_calls cs p = (rs, p') \<Longrightarrow> CallInit \<notin> set cs \<Longrightarrow> direction p \<noteq> ASCON_AEAD128_NOTSET \<Longrightarrow>
    direction p' = direction p"
  by (induction cs arbitrary: p rs) (auto split: prod.splits dest: phase_direction_kept)

text \<open>A tag comes out only after a key, a nonce, associated data and an update have gone in.\<close>

definition succeeded :: "(aead_op \<Rightarrow> bool) \<Rightarrow> (aead_op \<times> wc_ret) list \<Rightarrow> bool" where
  "succeeded f tr = list_ex (\<lambda>(c, r). f c \<and> r = WC_OK) tr"

definition is_key :: "aead_op \<Rightarrow> bool" where "is_key c = (case c of CallSetKey _ \<Rightarrow> True | _ \<Rightarrow> False)"
definition is_nonce :: "aead_op \<Rightarrow> bool" where "is_nonce c = (case c of CallSetNonce _ \<Rightarrow> True | _ \<Rightarrow> False)"
definition is_ad :: "aead_op \<Rightarrow> bool" where "is_ad c = (case c of CallSetAD _ _ \<Rightarrow> True | _ \<Rightarrow> False)"
definition is_encrypt :: "aead_op \<Rightarrow> bool" where
  "is_encrypt c = (case c of CallEncryptUpdate _ _ \<Rightarrow> True | _ \<Rightarrow> False)"

lemmas is_op_defs = is_key_def is_nonce_def is_ad_def is_encrypt_def

text \<open>The phase after a call sequence without \<open>Init\<close> is the record of its successes.\<close>

lemma phase_call_successes:
  assumes "phase_call c p = (r, p')" and "c \<noteq> CallInit"
  shows "has_key p' = (has_key p \<or> is_key c \<and> r = WC_OK)"
    and "has_nonce p' = (has_nonce p \<or> is_nonce c \<and> r = WC_OK)"
    and "has_ad p' = (has_ad p \<or> is_ad c \<and> r = WC_OK)"
    and "direction p' = ASCON_AEAD128_ENCRYPT \<longleftrightarrow>
      direction p = ASCON_AEAD128_ENCRYPT \<or> is_encrypt c \<and> r = WC_OK"
  using assms by (cases c; auto simp: is_op_defs guarded_def split: if_splits)+

lemma phase_calls_successes:
  "phase_calls cs p = (rs, p') \<Longrightarrow> CallInit \<notin> set cs \<Longrightarrow>
    has_key p' = (has_key p \<or> succeeded is_key (zip cs rs)) \<and>
    has_nonce p' = (has_nonce p \<or> succeeded is_nonce (zip cs rs)) \<and>
    has_ad p' = (has_ad p \<or> succeeded is_ad (zip cs rs)) \<and>
    (direction p' = ASCON_AEAD128_ENCRYPT \<longleftrightarrow>
      direction p = ASCON_AEAD128_ENCRYPT \<or> succeeded is_encrypt (zip cs rs))"
proof (induction cs arbitrary: p rs)
  case Nil
  then show ?case by (simp add: succeeded_def)
next
  case (Cons c cs)
  obtain r q where call: "phase_call c p = (r, q)" by (cases "phase_call c p")
  obtain rs' where rest: "phase_calls cs q = (rs', p')" and rs: "rs = r # rs'"
    using Cons.prems(1) call by (auto split: prod.splits)
  have "c \<noteq> CallInit" using Cons.prems(2) by auto
  from phase_call_successes [OF call this] Cons.IH [OF rest] Cons.prems(2) show ?case
    by (simp add: rs succeeded_def disj_assoc)
qed

lemma auth_error_only_decrypt_final:
  "aead_call M c (Some a) = (ASCON_AUTH_E, a') \<Longrightarrow> \<exists>t. c = CallDecryptFinal t"
  by (cases c) (auto simp: call_defs wc_AsconAEAD128_SetAD_def wc_AsconAEAD128_EncryptUpdate_def
      wc_AsconAEAD128_DecryptUpdate_def mask_prf_derive_def Let_def split: if_splits prod.splits)

lemma aead_calls_auth_error:
  "aead_calls M cs (Some a) = (rs, a') \<Longrightarrow> (c, ASCON_AUTH_E) \<in> set (zip cs rs) \<Longrightarrow>
    \<exists>t. c = CallDecryptFinal t"
proof (induction cs arbitrary: a rs)
  case Nil
  then show ?case by simp
next
  case (Cons d cs)
  obtain r b where call: "aead_call M d (Some a) = (r, Some b)" using aead_call_total by blast
  with Cons show ?case by (auto split: prod.splits dest: auth_error_only_decrypt_final)
qed

lemma succeeded_accepted:
  assumes "\<And>c. (c, ASCON_AUTH_E) \<in> set (zip cs rs) \<Longrightarrow> \<not> f c" and "length rs = length cs"
  shows "succeeded f (zip cs (map accepted rs)) = succeeded f (zip cs rs)"
  using assms(2,1)
  by (induction rs cs rule: list_induct2) (auto simp: succeeded_def accepted_def)

lemma aead_calls_length: "aead_calls M cs a = (rs, a') \<Longrightarrow> length rs = length cs"
  by (induction cs arbitrary: a rs) (auto split: prod.splits)

lemma encrypt_final_needs:
  assumes "misc_ok M" and "wc_AsconAEAD128_Init (Some g) = (WC_OK, Some a0)"
    and "\<forall>c \<in> set cs. call_ok c" and "CallInit \<notin> set cs" and "aead_calls M cs (Some a0) = (rs, Some a)"
    and "wc_AsconAEAD128_EncryptFinal (Some a) t = (WC_OK, a', tag)"
  shows "succeeded is_key (zip cs rs) \<and> succeeded is_nonce (zip cs rs) \<and>
    succeeded is_ad (zip cs rs) \<and> succeeded is_encrypt (zip cs rs)"
proof -
  have acc: "succeeded f (zip cs (map accepted rs)) = succeeded f (zip cs rs)"
    if "\<And>t. \<not> f (CallDecryptFinal t)" for f
    using that aead_calls_auth_error [OF assms(5)] aead_calls_length [OF assms(5)]
    by (intro succeeded_accepted) blast+
  have ph: "phase_calls cs phase_start = (map accepted rs, phase a)"
    using aead_calls_refine [OF assms(1) _ assms(3), of a0] aead_init_inv [OF assms(2)] assms(5) by auto
  have "phase_ready (phase a) \<and> direction (phase a) = ASCON_AEAD128_ENCRYPT"
    using assms(6) by (auto simp: call_defs phase_ready_def phase_def split: if_splits)
  then show ?thesis
    using phase_calls_successes [OF ph assms(4)]
    by (simp add: phase_start_def phase_ready_def acc is_op_defs)
qed

section \<open>A concrete session\<close>

text \<open>The calls that seal two bytes, up to the tag, on a freshly initialised context.\<close>

definition sealing_calls :: "aead_op list" where
  "sealing_calls = [CallSetKey (Some (replicate 16 1)), CallSetNonce (Some (replicate 16 2)),
     CallSetAD (Some [3]) 1, CallEncryptUpdate (Some [4, 5]) 2]"

definition fresh_context :: wc_AsconAEAD128 where
  "fresh_context = zero_aead\<lparr>astate := zero_state\<lparr>s64_0 := ASCON_AEAD128_IV\<rparr>\<rparr>"

lemma fresh_context_init: "wc_AsconAEAD128_Init (Some zero_aead) = (WC_OK, Some fresh_context)"
  by (simp add: wc_AsconAEAD128_Init_def zero_aead_def Let_def fresh_context_def)

lemma sealing_calls_ok: "(\<forall>c \<in> set sealing_calls. call_ok c) \<and> CallInit \<notin> set sealing_calls"
  by (simp add: sealing_calls_def)

lemma sealing_calls_run:
  "\<exists>rs a. aead_calls misc_std sealing_calls (Some fresh_context) = (rs, Some a) \<and> aead_reach misc_std a
     \<and> aop a = ASCON_AEAD128_ENCRYPT \<and> keySet a \<and> nonceSet a \<and> adSet a"
proof -
  have i: "aead_inv fresh_context" and p: "phase fresh_context = phase_start"
    using aead_init_inv [OF fresh_context_init] by auto
  obtain rs a where run: "aead_calls misc_std sealing_calls (Some fresh_context) = (rs, Some a)"
    and ph: "phase_calls sealing_calls (phase fresh_context) = (map accepted rs, phase a)"
    using aead_calls_refine [OF misc_ok_std i, of sealing_calls] sealing_calls_ok by auto
  have "phase a = \<lparr>has_key = True, has_nonce = True, has_ad = True, direction = ASCON_AEAD128_ENCRYPT\<rparr>"
    using ph by (simp add: p sealing_calls_def phase_start_def guarded_def phase_ready_def)
  moreover have "aead_reach misc_std a"
    by (rule aead_calls_reach [OF aead_reach.init [OF fresh_context_init] _ run]) (simp add: sealing_calls_ok)
  ultimately show ?thesis using run by (auto simp: phase_def)
qed

end
