(* ===== verification/Byte_Loops.thy ===== *)
theory Byte_Loops
  imports Ascon_Duplex
begin

text \<open>
  The byte-at-a-time loops that the OpenSSL core (\<open>ascon_local.h\<close>) and the verification
  tool (\<open>tools/verify_ascon_32bit.c\<close>) run over the state: xor a piece of input into it,
  the same with the new bytes copied out, and its inverse for decryption. Each is one
  update of a range of state bytes, and a piece of a run of the byte machine.
\<close>

text \<open>\<open>for (i = 0; i < n; i++) ((uint8_t *)s)[off + i] ^= data[i]\<close>.\<close>

primrec xor_bytes_loop :: "AsconState \<Rightarrow> nat \<Rightarrow> u8 list \<Rightarrow> nat \<Rightarrow> AsconState" where
  "xor_bytes_loop s off data 0 = s"
| "xor_bytes_loop s off data (Suc i) = xor_s8 (xor_bytes_loop s off data i) (off + i) (data ! i)"

text \<open>The same, storing each new state byte to the output.\<close>

primrec encrypt_bytes_loop :: "AsconState \<Rightarrow> nat \<Rightarrow> u8 list \<Rightarrow> nat \<Rightarrow> AsconState \<times> u8 list" where
  "encrypt_bytes_loop s off inp 0 = (s, [])"
| "encrypt_bytes_loop s off inp (Suc i) =
     (case encrypt_bytes_loop s off inp i of (s, out) \<Rightarrow>
        (let s = xor_s8 s (off + i) (inp ! i) in (s, out @ [s8 s ! (off + i)])))"

text \<open>Output is state xor ciphertext; the ciphertext byte goes into the state.\<close>

primrec decrypt_bytes_loop :: "AsconState \<Rightarrow> nat \<Rightarrow> u8 list \<Rightarrow> nat \<Rightarrow> AsconState \<times> u8 list" where
  "decrypt_bytes_loop s off ct 0 = (s, [])"
| "decrypt_bytes_loop s off ct (Suc i) =
     (case decrypt_bytes_loop s off ct i of (s, out) \<Rightarrow>
        (let b = s8 s ! (off + i) XOR ct ! i in (of_s8 ((s8 s)[off + i := ct ! i]), out @ [b])))"

section \<open>The loops as updates of a range\<close>

lemma xor_bytes_loop_write:
  assumes "off + n \<le> 40" and "n \<le> length d"
  shows "xor_bytes_loop s off d n = of_s8 (write_at off (map2 keep_xor (drop off (s8 s)) (take n d)) (s8 s))"
  using assms
proof (induction n)
  case 0
  then show ?case by simp
next
  case (Suc n)
  let ?w = "\<lambda>n. map2 keep_xor (drop off (s8 s)) (take n d)"
  have "(write_at off (?w n) (s8 s))[off + n := s8 s ! (off + n) XOR d ! n] = write_at off (?w (Suc n)) (s8 s)"
  proof (rule nth_equalityI)
    fix i
    assume "i < length ((write_at off (?w n) (s8 s))[off + n := s8 s ! (off + n) XOR d ! n])"
    then show "(write_at off (?w n) (s8 s))[off + n := s8 s ! (off + n) XOR d ! n] ! i
        = write_at off (?w (Suc n)) (s8 s) ! i"
      using Suc.prems by (auto simp: nth_list_update nth_write_at keep_xor_def)
  qed (use Suc.prems in simp)
  moreover have "write_at off (?w n) (s8 s) ! (off + n) = s8 s ! (off + n)"
    using Suc.prems by (subst nth_write_at) auto
  ultimately show ?case
    using Suc by (simp add: xor_s8_def)
qed

lemma encrypt_bytes_loop_eq:
  assumes "off + n \<le> 40" and "n \<le> length d"
  shows "encrypt_bytes_loop s off d n = (xor_bytes_loop s off d n, xor_bytes (drop off (s8 s)) (take n d))"
  using assms
proof (induction n)
  case 0
  then show ?case by simp
next
  case (Suc n)
  let ?x = "xor_bytes_loop s off d n"
  have "s8 ?x ! (off + n) = s8 s ! (off + n)"
    using Suc.prems by (subst xor_bytes_loop_write) (simp_all add: nth_write_at)
  then have b: "s8 (xor_s8 ?x (off + n) (d ! n)) ! (off + n) = s8 s ! (off + n) XOR d ! n"
    using Suc.prems by (simp add: s8_xor_s8)
  have "xor_bytes (drop off (s8 s)) (take (Suc n) d)
      = xor_bytes (drop off (s8 s)) (take n d) @ [s8 s ! (off + n) XOR d ! n]"
    using Suc.prems by (intro nth_equalityI) (auto simp: nth_append xor_bytes_nth less_Suc_eq)
  then show ?case using Suc b by (simp add: Let_def)
qed

lemma decrypt_bytes_loop_eq:
  assumes "off + n \<le> 40" and "n \<le> length d"
  shows "decrypt_bytes_loop s off d n
    = (of_s8 (write_at off (take n d) (s8 s)), xor_bytes (drop off (s8 s)) (take n d))"
  using assms
proof (induction n)
  case 0
  then show ?case by simp
next
  case (Suc n)
  let ?x = "of_s8 (write_at off (take n d) (s8 s))"
  have b: "s8 ?x ! (off + n) = s8 s ! (off + n)"
    using Suc.prems by (simp add: nth_write_at)
  have "xor_bytes (drop off (s8 s)) (take (Suc n) d)
      = xor_bytes (drop off (s8 s)) (take n d) @ [s8 s ! (off + n) XOR d ! n]"
    using Suc.prems by (intro nth_equalityI) (auto simp: nth_append xor_bytes_nth less_Suc_eq)
  moreover have "(s8 ?x)[off + n := d ! n] = write_at off (take (Suc n) d) (s8 s)"
    using Suc.prems by (intro nth_equalityI) (auto simp: nth_list_update nth_write_at)
  ultimately show ?case using Suc b by (simp add: Let_def)
qed

text \<open>A range of bytes that may complete the block.\<close>

lemma xor_bytes_chunk:
  assumes "duplex rate" and "pos < rate" and "pos + n \<le> rate" and "n \<le> length d"
  shows "dx_run keep_xor rate P (s, pos) (take n d) =
    (let s' = xor_bytes_loop s pos d n
     in (if pos + n = rate then (P s', 0) else (s', pos + n), xor_bytes (drop pos (s8 s)) (take n d)))"
  using duplex.run_chunk [OF assms(1), where pos = pos and d = "take n d" and s = s and new = keep_xor and P = P]
    duplex.rate_le [OF assms(1)] assms by (simp add: xor_bytes_loop_write Let_def)

end
