(* ===== verification/Ossl_Core.thy ===== *)
theory Ossl_Core
  imports Byte_Loops
begin

text \<open>
  The second implementation of the repository: the Ascon core of the OpenSSL provider,
  \<open>providers/implementations/include/prov/ascon_local.h\<close>. Its state \<open>uint64_t s[5]\<close>
  is the record \<open>AsconState\<close> (\<open>s[i]\<close> is \<open>s64_i\<close>, the cast to bytes is \<open>s8\<close>);
  sizes kept in a \<open>uint8_t\<close> are 8-bit words whose additions wrap, and the difference of
  the rate and such a size is taken in 64-bit \<open>size_t\<close> arithmetic as in C. The loops are
  total functions: a size equal to the rate makes no progress in its first iteration but is
  reset by it, which is the second component of the termination measures.
\<close>

section \<open>The permutation\<close>

definition ASCON_MAX_ROUNDS :: nat where [simp]: "ASCON_MAX_ROUNDS = 12"

definition ossl_round_constants :: "u8 list" where
  "ossl_round_constants =
     [0xf0, 0xe1, 0xd2, 0xc3, 0xb4, 0xa5, 0x96, 0x87, 0x78, 0x69, 0x5a, 0x4b]"

definition ascon_rotr64 :: "u64 \<Rightarrow> nat \<Rightarrow> u64" where
  "ascon_rotr64 x n = drop_bit n x OR push_bit (64 - n) x"

definition ossl_ascon_round :: "AsconState \<Rightarrow> nat \<Rightarrow> AsconState" where
  "ossl_ascon_round s round = (let
     s = s\<lparr>s64_2 := s64_2 s XOR ucast (ossl_round_constants ! round)\<rparr>;
     s = s\<lparr>s64_0 := s64_0 s XOR s64_4 s\<rparr>;
     s = s\<lparr>s64_4 := s64_4 s XOR s64_3 s\<rparr>;
     s = s\<lparr>s64_2 := s64_2 s XOR s64_1 s\<rparr>;
     t0 = s64_0 s XOR (NOT (s64_1 s) AND s64_2 s);
     t2 = s64_2 s XOR (NOT (s64_3 s) AND s64_4 s);
     t4 = s64_4 s XOR (NOT (s64_0 s) AND s64_1 s);
     t1 = s64_1 s XOR (NOT (s64_2 s) AND s64_3 s);
     t3 = s64_3 s XOR (NOT (s64_4 s) AND s64_0 s);
     t1 = t1 XOR t0;
     t3 = t3 XOR t2;
     t0 = t0 XOR t4;
     t2 = NOT t2;
     s = s\<lparr>s64_4 := t4 XOR ascon_rotr64 t4 7 XOR ascon_rotr64 t4 41\<rparr>;
     s = s\<lparr>s64_1 := t1 XOR ascon_rotr64 t1 61 XOR ascon_rotr64 t1 39\<rparr>;
     s = s\<lparr>s64_3 := t3 XOR ascon_rotr64 t3 10 XOR ascon_rotr64 t3 17\<rparr>;
     s = s\<lparr>s64_0 := t0 XOR ascon_rotr64 t0 19 XOR ascon_rotr64 t0 28\<rparr>;
     s = s\<lparr>s64_2 := t2 XOR ascon_rotr64 t2 1 XOR ascon_rotr64 t2 6\<rparr>
   in s)"

function ascon_permute_loop :: "AsconState \<Rightarrow> nat \<Rightarrow> AsconState" where
  "ascon_permute_loop s i =
     (if i < ASCON_MAX_ROUNDS then ascon_permute_loop (ossl_ascon_round s i) (Suc i) else s)"
  by pat_completeness auto
termination
  by (relation "measure (\<lambda>(s, i). ASCON_MAX_ROUNDS - i)") auto

declare ascon_permute_loop.simps [simp del]

definition ascon_permute :: "AsconState \<Rightarrow> nat \<Rightarrow> AsconState" where
  "ascon_permute s rounds = ascon_permute_loop s (if rounds = 8 then 4 else 0)"

text \<open>\<open>for (i = 0; i < 2; i++) s[i] ^= ((const uint64_t *)p)[i]\<close>.\<close>

definition xor_words :: "AsconState \<Rightarrow> u8 list \<Rightarrow> AsconState" where
  "xor_words s p = (let
     s = s\<lparr>s64_0 := s64_0 s XOR u64_of_bytes (read_at 0 8 p)\<rparr>;
     s = s\<lparr>s64_1 := s64_1 s XOR u64_of_bytes (read_at 8 8 p)\<rparr>
   in s)"

section \<open>Ascon-Hash256\<close>

definition OSSL_HASH256_RATE :: nat where [simp]: "OSSL_HASH256_RATE = 8"
definition OSSL_HASH256_ROUNDS :: nat where [simp]: "OSSL_HASH256_ROUNDS = 12"

record ASCON_HASH256_CTX =
  hs :: AsconState
  hlast :: u8

text \<open>\<open>n = RATE - lastBlkSz; if (n > sz) n = sz;\<close> in \<open>size_t\<close>.\<close>

definition room :: "nat \<Rightarrow> u8 \<Rightarrow> nat \<Rightarrow> nat" where
  "room rate l sz = (let n = unat (of_nat rate - ucast l :: u64) in if sz < n then sz else n)"

definition ascon_hash256_core_init :: "ASCON_HASH256_CTX" where
  "ascon_hash256_core_init = (let
     h = \<lparr>hs = zero_state, hlast = 0\<rparr>;
     h = h\<lparr>hs := (hs h)\<lparr>s64_0 := 0x0000080100CC0002\<rparr>\<rparr>
   in h\<lparr>hs := ascon_permute (hs h) OSSL_HASH256_ROUNDS\<rparr>)"

lemma unat_ucast64: "unat (ucast (l :: u8) :: u64) = unat l"
proof -
  have "unat l < 2 ^ 8" using unsigned_less [of l] by simp
  then show ?thesis by (simp add: unsigned_ucast_eq take_bit_nat_eq_self)
qed

lemma room_pos:
  assumes "l \<noteq> of_nat rate" and "0 < sz" and "rate < 256"
  shows "0 < room rate l sz"
proof (rule ccontr)
  assume "\<not> 0 < room rate l sz"
  then have "of_nat rate = (ucast l :: u64)"
    using assms(2) by (auto simp: room_def Let_def unat_eq_0 split: if_splits)
  then have "unat (of_nat rate :: u64) = unat l" by (simp add: unat_ucast64)
  then have "rate = unat l" using assms(3) by (simp add: unat_of_nat)
  then have "of_nat rate = l" by simp
  with assms(1) show False by simp
qed

lemma room_full: "room 8 8 sz = 0" "room 16 16 sz = 0"
  by (simp_all add: room_def)

function ascon_hash256_core_update :: "ASCON_HASH256_CTX \<Rightarrow> u8 list \<Rightarrow> nat \<Rightarrow> ASCON_HASH256_CTX" where
  "ascon_hash256_core_update h data dataSz =
     (if 0 < dataSz then
        (let n = room OSSL_HASH256_RATE (hlast h) dataSz;
             h = h\<lparr>hs := xor_bytes_loop (hs h) (unat (hlast h)) data n\<rparr>;
             h = h\<lparr>hlast := hlast h + of_nat n\<rparr>;
             data = drop n data;
             dataSz = dataSz - n;
             h = (if hlast h = of_nat OSSL_HASH256_RATE
                  then h\<lparr>hs := ascon_permute (hs h) OSSL_HASH256_ROUNDS, hlast := 0\<rparr>
                  else h)
         in ascon_hash256_core_update h data dataSz)
      else h)"
  by pat_completeness auto
termination
proof (relation "inv_image (less_than <*lex*> less_than) (\<lambda>(h, d, n). (n, if hlast h = 8 then 1 else 0))",
    goal_cases)
  case 1
  show ?case by (intro wf_inv_image wf_lex_prod wf_less_than)
next
  case (2 h data dataSz n h1 h2 data' dataSz' h3)
  show ?case
  proof (cases "hlast h = 8")
    case True
    then have "n = 0" using 2 by (simp add: room_full)
    then show ?thesis using 2 True by simp
  next
    case False
    then have "0 < n" using room_pos [of "hlast h" 8 dataSz] 2 by simp
    then have "dataSz' < dataSz" using 2 by simp
    then show ?thesis by simp
  qed
qed

declare ascon_hash256_core_update.simps [simp del]


text \<open>The squeezing loop of \<open>final\<close>; the context keeps the state after it.\<close>

function ossl_hash_final_loop :: "AsconState \<Rightarrow> nat \<Rightarrow> AsconState \<times> u8 list" where
  "ossl_hash_final_loop s i =
     (if i < 32 then
        (let s = ascon_permute s OSSL_HASH256_ROUNDS;
             out = read_at 0 OSSL_HASH256_RATE (s8 s);
             (s', rest) = ossl_hash_final_loop s (i + OSSL_HASH256_RATE)
         in (s', out @ rest))
      else (s, []))"
  by pat_completeness auto
termination
  by (relation "measure (\<lambda>(s, i). 32 - i)") auto

declare ossl_hash_final_loop.simps [simp del]

definition ascon_hash256_core_final :: "ASCON_HASH256_CTX \<Rightarrow> ASCON_HASH256_CTX \<times> u8 list" where
  "ascon_hash256_core_final h =
     (case ossl_hash_final_loop (xor_s8 (hs h) (unat (hlast h)) 1) 0 of
        (s, out) \<Rightarrow> (h\<lparr>hs := s\<rparr>, out))"

section \<open>Ascon-AEAD128\<close>

definition OSSL_AEAD128_RATE :: nat where [simp]: "OSSL_AEAD128_RATE = 16"
definition OSSL_AEAD128_PA :: nat where [simp]: "OSSL_AEAD128_PA = 12"
definition OSSL_AEAD128_PB :: nat where [simp]: "OSSL_AEAD128_PB = 8"

record ASCON_AEAD128_CTX =
  os :: AsconState
  okey0 :: u64
  okey1 :: u64
  adPart :: "u8 list"
  oct :: "u8 list"
  otag :: "u8 list"
  olast :: u8
  adPartSz :: u8
  enc :: bool
  adStarted :: bool
  adDone :: bool

definition ascon_aead128_reset :: "ASCON_AEAD128_CTX \<Rightarrow> u8 list \<Rightarrow> u8 list \<Rightarrow> ASCON_AEAD128_CTX" where
  "ascon_aead128_reset a key nonce = (let
     a = a\<lparr>os := zero_state\<rparr>;
     a = a\<lparr>okey0 := u64_of_bytes (read_at 0 8 key), okey1 := u64_of_bytes (read_at 8 8 key)\<rparr>;
     a = a\<lparr>os := (os a)\<lparr>s64_0 := 0x00001000808C0001\<rparr>\<rparr>;
     a = a\<lparr>os := (os a)\<lparr>s64_1 := u64_of_bytes (read_at 0 8 key)\<rparr>\<rparr>;
     a = a\<lparr>os := (os a)\<lparr>s64_2 := u64_of_bytes (read_at 8 8 key)\<rparr>\<rparr>;
     a = a\<lparr>os := (os a)\<lparr>s64_3 := u64_of_bytes (read_at 0 8 nonce)\<rparr>\<rparr>;
     a = a\<lparr>os := (os a)\<lparr>s64_4 := u64_of_bytes (read_at 8 8 nonce)\<rparr>\<rparr>;
     a = a\<lparr>olast := 0, adPartSz := 0, adStarted := False, adDone := False\<rparr>;
     a = a\<lparr>adPart := replicate OSSL_AEAD128_RATE 0\<rparr>;
     a = a\<lparr>oct := replicate OSSL_AEAD128_RATE 0\<rparr>
   in a)"

text \<open>\<open>PA\<close> and the key, the common start of \<open>absorb_aad\<close> and \<open>aad_finalize\<close>.\<close>

definition aad_start :: "ASCON_AEAD128_CTX \<Rightarrow> ASCON_AEAD128_CTX" where
  "aad_start a = (let
     s = ascon_permute (os a) OSSL_AEAD128_PA;
     s = s\<lparr>s64_3 := s64_3 s XOR okey0 a\<rparr>;
     s = s\<lparr>s64_4 := s64_4 s XOR okey1 a\<rparr>
   in a\<lparr>os := s\<rparr>)"

text \<open>The first loop of \<open>absorb_aad\<close> fills the buffered partial block.\<close>

function aad_fill_loop :: "ASCON_AEAD128_CTX \<Rightarrow> u8 list \<Rightarrow> nat \<Rightarrow> ASCON_AEAD128_CTX \<times> u8 list \<times> nat" where
  "aad_fill_loop a ad adSz =
     (if 0 < adPartSz a \<and> 0 < adSz then
        (let n = room OSSL_AEAD128_RATE (adPartSz a) adSz;
             a = a\<lparr>adPart := write_at (unat (adPartSz a)) (read_at 0 n ad) (adPart a)\<rparr>;
             a = a\<lparr>adPartSz := adPartSz a + of_nat n\<rparr>;
             ad = drop n ad;
             adSz = adSz - n;
             a = (if adPartSz a = of_nat OSSL_AEAD128_RATE
                  then a\<lparr>os := ascon_permute (xor_words (os a) (adPart a)) OSSL_AEAD128_PB, adPartSz := 0\<rparr>
                  else a)
         in aad_fill_loop a ad adSz)
      else (a, ad, adSz))"
  by pat_completeness auto
termination
proof (relation "inv_image (less_than <*lex*> less_than) (\<lambda>(a, d, n). (n, if adPartSz a = 16 then 1 else 0))",
    goal_cases)
  case 1
  show ?case by (intro wf_inv_image wf_lex_prod wf_less_than)
next
  case (2 a ad adSz n a1 a2 ad' adSz' a3)
  show ?case
  proof (cases "adPartSz a = 16")
    case True
    then have "n = 0" using 2 by (simp add: room_full)
    then show ?thesis using 2 True by simp
  next
    case False
    then have "0 < n" using room_pos [of "adPartSz a" 16 adSz] 2 by simp
    then have "adSz' < adSz" using 2 by simp
    then show ?thesis by simp
  qed
qed

declare aad_fill_loop.simps [simp del]

function aad_block_loop :: "AsconState \<Rightarrow> u8 list \<Rightarrow> nat \<Rightarrow> AsconState \<times> u8 list \<times> nat" where
  "aad_block_loop s ad adSz =
     (if OSSL_AEAD128_RATE \<le> adSz then
        (let s = xor_words s ad;
             s = ascon_permute s OSSL_AEAD128_PB
         in aad_block_loop s (drop OSSL_AEAD128_RATE ad) (adSz - OSSL_AEAD128_RATE))
      else (s, ad, adSz))"
  by pat_completeness auto
termination
  by (relation "measure (\<lambda>(s, ad, adSz). adSz)") auto

declare aad_block_loop.simps [simp del]

definition ascon_aead128_absorb_aad :: "ASCON_AEAD128_CTX \<Rightarrow> u8 list \<Rightarrow> nat \<Rightarrow> ASCON_AEAD128_CTX" where
  "ascon_aead128_absorb_aad a ad adSz = (let
     a = (if \<not> adStarted a then (aad_start a)\<lparr>adStarted := True\<rparr> else a);
     (a, ad, adSz) = aad_fill_loop a ad adSz;
     (s, ad, adSz) = aad_block_loop (os a) ad adSz;
     a = a\<lparr>os := s\<rparr>
   in if 0 < adSz
      then a\<lparr>adPart := write_at 0 (read_at 0 adSz ad) (adPart a), adPartSz := of_nat adSz\<rparr>
      else a)"

definition ascon_aead128_aad_finalize :: "ASCON_AEAD128_CTX \<Rightarrow> ASCON_AEAD128_CTX" where
  "ascon_aead128_aad_finalize a =
     (if adDone a then a
      else let
        a = (if \<not> adStarted a then aad_start a else a);
        a = (if 0 < adPartSz a
             then (let i = unat (adPartSz a);
                       a = a\<lparr>adPart := (adPart a)[i := adPart a ! i XOR 0x01]\<rparr>;
                       a = a\<lparr>os := xor_words (os a) (adPart a)\<rparr>;
                       a = a\<lparr>os := ascon_permute (os a) OSSL_AEAD128_PB\<rparr>
                   in a\<lparr>adPartSz := 0\<rparr>)
             else a);
        a = a\<lparr>os := (os a)\<lparr>s64_4 := s64_4 (os a) XOR push_bit 63 1\<rparr>\<rparr>
      in a\<lparr>adDone := True\<rparr>)"

function ossl_encrypt_loop :: "AsconState \<Rightarrow> u8 list \<Rightarrow> nat \<Rightarrow> AsconState \<times> u8 list \<times> nat \<times> u8 list" where
  "ossl_encrypt_loop s inp inSz =
     (if OSSL_AEAD128_RATE \<le> inSz then
        (let s = xor_words s inp;
             out = bytes_of_u64 (s64_0 s) @ bytes_of_u64 (s64_1 s);
             s = ascon_permute s OSSL_AEAD128_PB;
             (s', inp', inSz', rest) =
               ossl_encrypt_loop s (drop OSSL_AEAD128_RATE inp) (inSz - OSSL_AEAD128_RATE)
         in (s', inp', inSz', out @ rest))
      else (s, inp, inSz, []))"
  by pat_completeness auto
termination
  by (relation "measure (\<lambda>(s, inp, inSz). inSz)") auto

declare ossl_encrypt_loop.simps [simp del]

text \<open>The context, the bytes written to \<open>out\<close> and the count that is returned.\<close>

definition ossl_encrypt_blocks ::
  "ASCON_AEAD128_CTX \<Rightarrow> u8 list \<Rightarrow> nat \<Rightarrow> ASCON_AEAD128_CTX \<times> u8 list \<times> nat" where
  "ossl_encrypt_blocks a inp inSz =
     (let (s, inp', inSz', out) = ossl_encrypt_loop (os a) inp inSz;
          a = a\<lparr>os := s\<rparr>;
          total = inSz - inSz'
      in if 0 < inSz'
         then (let (s, rest) = encrypt_bytes_loop (os a) 0 inp' inSz'
               in (a\<lparr>os := s, olast := of_nat inSz'\<rparr>, out @ rest, total + inSz'))
         else (a, out, total))"

definition ascon_aead128_encrypt_update ::
  "ASCON_AEAD128_CTX \<Rightarrow> u8 list \<Rightarrow> nat \<Rightarrow> ASCON_AEAD128_CTX \<times> u8 list \<times> nat" where
  "ascon_aead128_encrypt_update a inp inSz = (let
     a = ascon_aead128_aad_finalize a
   in if 0 < olast a
      then (let n = room OSSL_AEAD128_RATE (olast a) inSz;
                (s, out) = encrypt_bytes_loop (os a) (unat (olast a)) inp n;
                a = a\<lparr>os := s\<rparr>;
                a = a\<lparr>olast := olast a + of_nat n\<rparr>;
                inp = drop n inp;
                inSz = inSz - n;
                a = (if olast a = of_nat OSSL_AEAD128_RATE
                     then a\<lparr>os := ascon_permute (os a) OSSL_AEAD128_PB, olast := 0\<rparr>
                     else a);
                (a, rest, total) = ossl_encrypt_blocks a inp inSz
            in (a, out @ rest, n + total))
      else ossl_encrypt_blocks a inp inSz)"

function ossl_decrypt_loop ::
  "AsconState \<Rightarrow> u8 list \<Rightarrow> u8 list \<Rightarrow> nat \<Rightarrow> AsconState \<times> u8 list \<times> u8 list \<times> nat \<times> u8 list" where
  "ossl_decrypt_loop s ct inp inSz =
     (if OSSL_AEAD128_RATE \<le> inSz then
        (let ct = write_at 0 (read_at 0 OSSL_AEAD128_RATE inp) ct;
             out = bytes_of_u64 (s64_0 s XOR u64_of_bytes (read_at 0 8 ct)) @
                   bytes_of_u64 (s64_1 s XOR u64_of_bytes (read_at 8 8 ct));
             s = s\<lparr>s64_0 := u64_of_bytes (read_at 0 8 ct), s64_1 := u64_of_bytes (read_at 8 8 ct)\<rparr>;
             s = ascon_permute s OSSL_AEAD128_PB;
             (s', ct', inp', inSz', rest) =
               ossl_decrypt_loop s ct (drop OSSL_AEAD128_RATE inp) (inSz - OSSL_AEAD128_RATE)
         in (s', ct', inp', inSz', out @ rest))
      else (s, ct, inp, inSz, []))"
  by pat_completeness auto
termination
  by (relation "measure (\<lambda>(s, ct, inp, inSz). inSz)") auto

declare ossl_decrypt_loop.simps [simp del]

definition ossl_decrypt_blocks ::
  "ASCON_AEAD128_CTX \<Rightarrow> u8 list \<Rightarrow> nat \<Rightarrow> ASCON_AEAD128_CTX \<times> u8 list \<times> nat" where
  "ossl_decrypt_blocks a inp inSz =
     (let (s, ct, inp', inSz', out) = ossl_decrypt_loop (os a) (oct a) inp inSz;
          a = a\<lparr>os := s, oct := ct\<rparr>;
          total = inSz - inSz'
      in if 0 < inSz'
         then (let a = a\<lparr>oct := write_at 0 (read_at 0 inSz' inp') (oct a)\<rparr>;
                   (s, rest) = decrypt_bytes_loop (os a) 0 (oct a) inSz'
               in (a\<lparr>os := s, olast := of_nat inSz'\<rparr>, out @ rest, total + inSz'))
         else (a, out, total))"

definition ascon_aead128_decrypt_update ::
  "ASCON_AEAD128_CTX \<Rightarrow> u8 list \<Rightarrow> nat \<Rightarrow> ASCON_AEAD128_CTX \<times> u8 list \<times> nat" where
  "ascon_aead128_decrypt_update a inp inSz = (let
     a = ascon_aead128_aad_finalize a
   in if 0 < olast a
      then (let n = room OSSL_AEAD128_RATE (olast a) inSz;
                a = a\<lparr>oct := write_at 0 (read_at 0 n inp) (oct a)\<rparr>;
                (s, out) = decrypt_bytes_loop (os a) (unat (olast a)) (oct a) n;
                a = a\<lparr>os := s\<rparr>;
                a = a\<lparr>olast := olast a + of_nat n\<rparr>;
                inp = drop n inp;
                inSz = inSz - n;
                a = (if olast a = of_nat OSSL_AEAD128_RATE
                     then a\<lparr>os := ascon_permute (os a) OSSL_AEAD128_PB, olast := 0\<rparr>
                     else a);
                (a, rest, total) = ossl_decrypt_blocks a inp inSz
            in (a, out @ rest, n + total))
      else ossl_decrypt_blocks a inp inSz)"

text \<open>\<open>for (i = 0; i < 16; i++) diff |= computed[i] ^ a->tag[i]\<close>.\<close>

definition diff_bytes :: "u8 list \<Rightarrow> u8 list \<Rightarrow> u8" where
  "diff_bytes computed expected =
     foldl (\<lambda>diff i. diff OR (computed ! i XOR expected ! i)) 0 [0..<16]"

definition ascon_aead128_final :: "ASCON_AEAD128_CTX \<Rightarrow> ASCON_AEAD128_CTX \<times> bool" where
  "ascon_aead128_final a = (let
     a = ascon_aead128_aad_finalize a;
     s = xor_s8 (os a) (unat (olast a)) 0x01;
     s = s\<lparr>s64_2 := s64_2 s XOR okey0 a\<rparr>;
     s = s\<lparr>s64_3 := s64_3 s XOR okey1 a\<rparr>;
     s = ascon_permute s OSSL_AEAD128_PA;
     s = s\<lparr>s64_3 := s64_3 s XOR okey0 a\<rparr>;
     s = s\<lparr>s64_4 := s64_4 s XOR okey1 a\<rparr>;
     computed = read_at 24 16 (s8 s);
     a = a\<lparr>os := s\<rparr>
   in if enc a then (a\<lparr>otag := computed\<rparr>, True)
      else (a, diff_bytes computed (otag a) = 0))"

end
