(* ===== verification/Ossl_Provider.thy ===== *)
theory Ossl_Provider
  imports Ossl_Core Wc_Misc
begin

text \<open>
  The provider around the OpenSSL core: \<open>ciphers/cipher_ascon128.c\<close> and
  \<open>digests/digest_ascon_hash256.c\<close>. A dispatch function gives its integer result as a
  truth value (1 is True) with the context and the outputs it wrote. OpenSSL's parameter
  arrays are lists of \<open>ossl_param\<close>; the functions that search and convert them belong to
  OpenSSL and are a record of parameters, with \<open>params_ok\<close> their documented behaviour.
  \<open>ERR_raise\<close> only records an error for diagnosis and is left out.
\<close>

definition ASCON128_KEYLEN :: nat where [simp]: "ASCON128_KEYLEN = 16"
definition ASCON128_IVLEN :: nat where [simp]: "ASCON128_IVLEN = 16"
definition ASCON128_TAGLEN :: nat where [simp]: "ASCON128_TAGLEN = 16"
definition ASCON128_BLOCKSIZE :: nat where [simp]: "ASCON128_BLOCKSIZE = 1"

datatype param_name = PARAM_MODE | PARAM_BLOCK_SIZE | PARAM_KEYLEN | PARAM_IVLEN | PARAM_AEAD | PARAM_AEAD_TAG

record ossl_param =
  pkey :: param_name
  data_type :: nat
  pdata :: "u8 list option"
  data_size :: nat
  return_size :: nat

record ossl_params_api =
  locate :: "ossl_param list \<Rightarrow> param_name \<Rightarrow> nat option"
  get_size_t :: "ossl_param \<Rightarrow> nat option"
  set_size_t :: "ossl_param \<Rightarrow> nat \<Rightarrow> ossl_param option"
  set_uint :: "ossl_param \<Rightarrow> nat \<Rightarrow> ossl_param option"
  set_int :: "ossl_param \<Rightarrow> int \<Rightarrow> ossl_param option"
  octet_string :: nat

text \<open>\<open>OSSL_PARAM_locate\<close> finds the first entry with the name.\<close>

fun first_named :: "param_name \<Rightarrow> nat \<Rightarrow> ossl_param list \<Rightarrow> nat option" where
  "first_named k i [] = None"
| "first_named k i (p # ps) = (if pkey p = k then Some i else first_named k (Suc i) ps)"

definition params_ok :: "ossl_params_api \<Rightarrow> bool" where
  "params_ok A \<longleftrightarrow> (\<forall>ps k. locate A ps k = first_named k 0 ps)"

text \<open>A concrete instance: values of native 64-bit size in little-endian order.\<close>

definition params_std :: ossl_params_api where
  "params_std = \<lparr>locate = (\<lambda>ps k. first_named k 0 ps),
     get_size_t = (\<lambda>p. case pdata p of None \<Rightarrow> None
       | Some bs \<Rightarrow> if data_size p = 8 then Some (unat (u64_of_bytes bs)) else None),
     set_size_t = (\<lambda>p n. Some (p\<lparr>pdata := Some (bytes_of_u64 (of_nat n)), return_size := 8\<rparr>)),
     set_uint = (\<lambda>p n. Some (p\<lparr>pdata := Some (bytes_of_u64 (of_nat n)), return_size := 8\<rparr>)),
     set_int = (\<lambda>p i. Some (p\<lparr>pdata := Some (bytes_of_u64 (of_int i)), return_size := 8\<rparr>)),
     octet_string = 5\<rparr>"

lemma params_ok_std: "params_ok params_std"
  by (simp add: params_ok_def params_std_def)

section \<open>The cipher\<close>

definition zero_ctx :: ASCON_AEAD128_CTX where
  "zero_ctx = \<lparr>os = zero_state, okey0 = 0, okey1 = 0, adPart = replicate 16 0, oct = replicate 16 0,
     otag = replicate 16 0, olast = 0, adPartSz = 0, enc = False, adStarted = False, adDone = False\<rparr>"

text \<open>The argument says whether the allocator succeeds.\<close>

definition ascon128_newctx :: "bool \<Rightarrow> ASCON_AEAD128_CTX option" where
  "ascon128_newctx zalloc = (if zalloc then Some zero_ctx else None)"

definition ascon128_dupctx :: "bool \<Rightarrow> ASCON_AEAD128_CTX \<Rightarrow> ASCON_AEAD128_CTX option" where
  "ascon128_dupctx malloc inp = (if malloc then Some inp else None)"

text \<open>\<open>p = locate(name); if (p != NULL && !set(p)) return 0;\<close> on the parameter array.\<close>

definition put_param :: "ossl_params_api \<Rightarrow> param_name \<Rightarrow> (ossl_param \<Rightarrow> ossl_param option)
    \<Rightarrow> ossl_param list \<Rightarrow> ossl_param list option" where
  "put_param A name store ps = (case locate A ps name of
     None \<Rightarrow> Some ps
   | Some i \<Rightarrow> (case store (ps ! i) of None \<Rightarrow> None | Some p \<Rightarrow> Some (ps[i := p])))"

definition ascon128_get_params :: "ossl_params_api \<Rightarrow> ossl_param list \<Rightarrow> ossl_param list option" where
  "ascon128_get_params A ps =
     (case put_param A PARAM_MODE (\<lambda>p. set_uint A p 0) ps of None \<Rightarrow> None | Some ps \<Rightarrow>
     (case put_param A PARAM_BLOCK_SIZE (\<lambda>p. set_size_t A p ASCON128_BLOCKSIZE) ps of None \<Rightarrow> None | Some ps \<Rightarrow>
     (case put_param A PARAM_KEYLEN (\<lambda>p. set_size_t A p ASCON128_KEYLEN) ps of None \<Rightarrow> None | Some ps \<Rightarrow>
     (case put_param A PARAM_IVLEN (\<lambda>p. set_size_t A p ASCON128_IVLEN) ps of None \<Rightarrow> None | Some ps \<Rightarrow>
      put_param A PARAM_AEAD (\<lambda>p. set_int A p 1) ps))))"

text \<open>The tag entry of \<open>get_ctx_params\<close>: None is the result 0.\<close>

definition get_tag_param :: "ossl_params_api \<Rightarrow> ASCON_AEAD128_CTX \<Rightarrow> ossl_param \<Rightarrow> ossl_param option" where
  "get_tag_param A ctx p =
     (if data_type p \<noteq> octet_string A then None
      else case pdata p of
        None \<Rightarrow> Some (p\<lparr>data_size := ASCON128_TAGLEN\<rparr>)
      | Some buf \<Rightarrow>
         if data_size p < ASCON128_TAGLEN then None
         else Some (p\<lparr>pdata := Some (write_at 0 (take ASCON128_TAGLEN (otag ctx)) buf),
                      return_size := ASCON128_TAGLEN\<rparr>))"

definition ascon128_get_ctx_params ::
  "ossl_params_api \<Rightarrow> ASCON_AEAD128_CTX \<Rightarrow> ossl_param list \<Rightarrow> ossl_param list option" where
  "ascon128_get_ctx_params A ctx ps =
     (case put_param A PARAM_KEYLEN (\<lambda>p. set_size_t A p ASCON128_KEYLEN) ps of None \<Rightarrow> None | Some ps \<Rightarrow>
     (case put_param A PARAM_IVLEN (\<lambda>p. set_size_t A p ASCON128_IVLEN) ps of None \<Rightarrow> None | Some ps \<Rightarrow>
      put_param A PARAM_AEAD_TAG (get_tag_param A ctx) ps))"

definition size_param_ok :: "ossl_params_api \<Rightarrow> ossl_param list \<Rightarrow> param_name \<Rightarrow> nat \<Rightarrow> bool" where
  "size_param_ok A ps name len = (case locate A ps name of
     None \<Rightarrow> True
   | Some i \<Rightarrow> (case get_size_t A (ps ! i) of None \<Rightarrow> False | Some v \<Rightarrow> v = len))"

definition ascon128_set_ctx_params ::
  "ossl_params_api \<Rightarrow> ASCON_AEAD128_CTX \<Rightarrow> ossl_param list \<Rightarrow> bool \<times> ASCON_AEAD128_CTX" where
  "ascon128_set_ctx_params A ctx ps =
     (if \<not> size_param_ok A ps PARAM_KEYLEN ASCON128_KEYLEN then (False, ctx)
      else if \<not> size_param_ok A ps PARAM_IVLEN ASCON128_IVLEN then (False, ctx)
      else case locate A ps PARAM_AEAD_TAG of
        None \<Rightarrow> (True, ctx)
      | Some i \<Rightarrow> (let p = ps ! i in
          if data_type p \<noteq> octet_string A \<or> data_size p \<noteq> ASCON128_TAGLEN then (False, ctx)
          else (True, ctx\<lparr>otag := take ASCON128_TAGLEN (bytes_at (pdata p))\<rparr>)))"

definition ascon128_init :: "ossl_params_api \<Rightarrow> ASCON_AEAD128_CTX \<Rightarrow> u8 list option \<Rightarrow> nat
    \<Rightarrow> u8 list option \<Rightarrow> nat \<Rightarrow> ossl_param list \<Rightarrow> bool \<Rightarrow> bool \<times> ASCON_AEAD128_CTX" where
  "ascon128_init A ctx key keylen iv ivlen ps e =
     (case ascon128_set_ctx_params A ctx ps of (ok, ctx) \<Rightarrow>
      if \<not> ok then (False, ctx)
      else let ctx = ctx\<lparr>enc := e\<rparr> in
        if key \<noteq> None \<and> keylen \<noteq> ASCON128_KEYLEN then (False, ctx)
        else let ctx = (if key \<noteq> None
               then ctx\<lparr>okey0 := u64_of_bytes (read_at 0 8 (bytes_at key)),
                        okey1 := u64_of_bytes (read_at 8 8 (bytes_at key))\<rparr>
               else ctx) in
          if iv \<noteq> None \<and> ivlen \<noteq> ASCON128_IVLEN then (False, ctx)
          else if iv \<noteq> None
            then (True, ascon_aead128_reset ctx (bytes_of_u64 (okey0 ctx) @ bytes_of_u64 (okey1 ctx)) (bytes_at iv))
            else (True, ctx))"

definition ascon128_einit :: "ossl_params_api \<Rightarrow> ASCON_AEAD128_CTX \<Rightarrow> u8 list option \<Rightarrow> nat
    \<Rightarrow> u8 list option \<Rightarrow> nat \<Rightarrow> ossl_param list \<Rightarrow> bool \<times> ASCON_AEAD128_CTX" where
  "ascon128_einit A ctx key keylen iv ivlen ps = ascon128_init A ctx key keylen iv ivlen ps True"

definition ascon128_dinit :: "ossl_params_api \<Rightarrow> ASCON_AEAD128_CTX \<Rightarrow> u8 list option \<Rightarrow> nat
    \<Rightarrow> u8 list option \<Rightarrow> nat \<Rightarrow> ossl_param list \<Rightarrow> bool \<times> ASCON_AEAD128_CTX" where
  "ascon128_dinit A ctx key keylen iv ivlen ps = ascon128_init A ctx key keylen iv ivlen ps False"

text \<open>Result, context, the value stored to \<open>*outl\<close> (None if not stored), bytes written to \<open>out\<close>.\<close>

definition ascon128_update :: "ASCON_AEAD128_CTX \<Rightarrow> ptr \<Rightarrow> nat \<Rightarrow> u8 list \<Rightarrow> nat
    \<Rightarrow> bool \<times> ASCON_AEAD128_CTX \<times> nat option \<times> u8 list" where
  "ascon128_update ctx out outsize inp inl =
     (if inl = 0 then (True, ctx, Some 0, [])
      else if out = NULL then (True, ascon_aead128_absorb_aad ctx inp inl, Some 0, [])
      else if outsize < inl then (False, ctx, None, [])
      else if enc ctx then
        (case ascon_aead128_encrypt_update ctx inp inl of (ctx, bytes, n) \<Rightarrow> (True, ctx, Some n, bytes))
      else
        (case ascon_aead128_decrypt_update ctx inp inl of (ctx, bytes, n) \<Rightarrow> (True, ctx, Some n, bytes)))"

definition ascon128_final_fn :: "ASCON_AEAD128_CTX \<Rightarrow> bool \<times> ASCON_AEAD128_CTX \<times> nat option" where
  "ascon128_final_fn ctx = (case ascon_aead128_final ctx of
     (ctx, ok) \<Rightarrow> if \<not> ok then (False, ctx, None) else (True, ctx, Some 0))"

section \<open>The digest\<close>

definition ascon_hash256_init :: "ASCON_HASH256_CTX \<Rightarrow> bool \<times> ASCON_HASH256_CTX" where
  "ascon_hash256_init vctx = (True, ascon_hash256_core_init)"

definition ascon_hash256_update :: "ASCON_HASH256_CTX \<Rightarrow> u8 list \<Rightarrow> nat \<Rightarrow> bool \<times> ASCON_HASH256_CTX" where
  "ascon_hash256_update vctx inp inl = (True, ascon_hash256_core_update vctx inp inl)"

definition ascon_hash256_final :: "ASCON_HASH256_CTX \<Rightarrow> bool \<times> ASCON_HASH256_CTX \<times> u8 list" where
  "ascon_hash256_final vctx = (case ascon_hash256_core_final vctx of (h, out) \<Rightarrow> (True, h, out))"

end
