(* ===== verification/Wc_Hash.thy ===== *)
theory Wc_Hash
  imports Wc_Misc
begin

text \<open>
  The Ascon-Hash256 API of \<open>wolfcrypt/src/ascon.c\<close>: \<open>New\<close>, \<open>Free\<close>, \<open>Init\<close>, \<open>Clear\<close>,
  \<open>Update\<close>, \<open>Final\<close>. The context keeps the sponge state and the number of bytes
  of the current block that are already absorbed. A context pointer is an optional
  context; each call gives the return code and the context afterwards, \<open>Final\<close> also the
  digest it writes.
\<close>

definition ASCON_HASH256_RATE :: nat where [simp]: "ASCON_HASH256_RATE = 8"
definition ASCON_HASH256_ROUNDS :: nat where [simp]: "ASCON_HASH256_ROUNDS = 12"
definition ASCON_HASH256_IV :: u64 where "ASCON_HASH256_IV = 0x0000080100CC0002"
definition ASCON_HASH256_SZ :: nat where [simp]: "ASCON_HASH256_SZ = 32"

record wc_AsconHash256 =
  hstate :: AsconState
  hlastBlkSz :: nat

definition zero_hash :: wc_AsconHash256 where
  "zero_hash = \<lparr>hstate = zero_state, hlastBlkSz = 0\<rparr>"

definition wc_AsconHash256_Init :: "wc_AsconHash256 option \<Rightarrow> wc_ret \<times> wc_AsconHash256 option" where
  "wc_AsconHash256_Init ap = (case ap of
     None \<Rightarrow> (BAD_FUNC_ARG, None)
   | Some _ \<Rightarrow> (let
       a = zero_hash;
       a = a\<lparr>hstate := (hstate a)\<lparr>s64_0 := ASCON_HASH256_IV\<rparr>\<rparr>;
       a = a\<lparr>hstate := permutation (hstate a) ASCON_HASH256_ROUNDS\<rparr>
     in (WC_OK, Some a)))"

text \<open>
  \<open>ForceZero\<close> is wolfSSL's wipe; it is a parameter, the function from the context before
  to the context after.
\<close>

definition wc_AsconHash256_Clear ::
  "(wc_AsconHash256 \<Rightarrow> wc_AsconHash256) \<Rightarrow> wc_AsconHash256 option \<Rightarrow> wc_AsconHash256 option" where
  "wc_AsconHash256_Clear ForceZero ap = (case ap of None \<Rightarrow> None | Some a \<Rightarrow> Some (ForceZero a))"

text \<open>
  \<open>Free\<close> gives the memory image handed to \<open>XFREE\<close>, None when it is not called.
\<close>

definition wc_AsconHash256_Free ::
  "(wc_AsconHash256 \<Rightarrow> wc_AsconHash256) \<Rightarrow> wc_AsconHash256 option \<Rightarrow> wc_AsconHash256 option" where
  "wc_AsconHash256_Free ForceZero ap = (case ap of
     None \<Rightarrow> None | Some a \<Rightarrow> wc_AsconHash256_Clear ForceZero (Some a))"

text \<open>\<open>New\<close>: the argument is what \<open>XMALLOC\<close> returned, uninitialised memory or NULL.\<close>

definition wc_AsconHash256_New :: "wc_AsconHash256 option \<Rightarrow> wc_AsconHash256 option" where
  "wc_AsconHash256_New ret = (if ret \<noteq> None then
       (case wc_AsconHash256_Init ret of (r, a) \<Rightarrow> if r \<noteq> WC_OK then None else a)
     else ret)"

text \<open>The block loop of \<open>Update\<close>: state, rest of the data, rest of the size.\<close>

function hash_update_loop :: "wc_misc \<Rightarrow> AsconState \<Rightarrow> u8 list \<Rightarrow> nat \<Rightarrow> AsconState \<times> u8 list \<times> nat" where
  "hash_update_loop M s data dataSz =
     (if ASCON_HASH256_RATE \<le> dataSz then
        (let s = of_s8 (xorbuf M (s8 s) data ASCON_HASH256_RATE);
             s = permutation s ASCON_HASH256_ROUNDS
         in hash_update_loop M s (drop ASCON_HASH256_RATE data) (dataSz - ASCON_HASH256_RATE))
      else (s, data, dataSz))"
  by pat_completeness auto
termination
  by (relation "measure (\<lambda>(M, s, data, dataSz). dataSz)") auto

declare hash_update_loop.simps [simp del]

definition hash_update_blocks :: "wc_misc \<Rightarrow> wc_AsconHash256 \<Rightarrow> u8 list \<Rightarrow> nat \<Rightarrow> wc_AsconHash256" where
  "hash_update_blocks M a data dataSz =
     (let (s, data, dataSz) = hash_update_loop M (hstate a) data dataSz;
          s = of_s8 (xorbuf M (s8 s) data dataSz)
      in a\<lparr>hstate := s, hlastBlkSz := dataSz\<rparr>)"

definition wc_AsconHash256_Update ::
  "wc_misc \<Rightarrow> wc_AsconHash256 option \<Rightarrow> u8 list option \<Rightarrow> nat \<Rightarrow> wc_ret \<times> wc_AsconHash256 option" where
  "wc_AsconHash256_Update M ap datap dataSz = (case ap of
     None \<Rightarrow> (BAD_FUNC_ARG, None)
   | Some a \<Rightarrow>
      if datap = None \<and> dataSz \<noteq> 0 then (BAD_FUNC_ARG, Some a)
      else if dataSz = 0 then (WC_OK, Some a)
      else let data = bytes_at datap in
        if hlastBlkSz a \<noteq> 0 then
          (let toProcess = min32 M (ASCON_HASH256_RATE - hlastBlkSz a) dataSz;
               a = a\<lparr>hstate := of_s8 (xorbuf_at M (hlastBlkSz a) (s8 (hstate a)) data toProcess)\<rparr>;
               data = drop toProcess data;
               dataSz = dataSz - toProcess;
               a = a\<lparr>hlastBlkSz := hlastBlkSz a + toProcess\<rparr>
           in if hlastBlkSz a < ASCON_HASH256_RATE then (WC_OK, Some a)
              else let a = a\<lparr>hstate := permutation (hstate a) ASCON_HASH256_ROUNDS\<rparr>;
                       a = a\<lparr>hlastBlkSz := 0\<rparr>
                   in (WC_OK, Some (hash_update_blocks M a data dataSz)))
        else (WC_OK, Some (hash_update_blocks M a data dataSz)))"

text \<open>The squeezing loop of \<open>Final\<close>: \<open>i\<close> counts the digest bytes written.\<close>

function hash_final_loop :: "AsconState \<Rightarrow> nat \<Rightarrow> AsconState \<times> u8 list" where
  "hash_final_loop s i =
     (if i < ASCON_HASH256_SZ then
        (let s = permutation s ASCON_HASH256_ROUNDS;
             out = read_at 0 ASCON_HASH256_RATE (s8 s);
             (s', rest) = hash_final_loop s (i + ASCON_HASH256_RATE)
         in (s', out @ rest))
      else (s, []))"
  by pat_completeness auto
termination
  by (relation "measure (\<lambda>(s, i). ASCON_HASH256_SZ - i)") auto

declare hash_final_loop.simps [simp del]

definition wc_AsconHash256_Final ::
  "wc_AsconHash256 option \<Rightarrow> ptr \<Rightarrow> wc_ret \<times> wc_AsconHash256 option \<times> u8 list" where
  "wc_AsconHash256_Final ap hash = (case ap of
     None \<Rightarrow> (BAD_FUNC_ARG, None, [])
   | Some a \<Rightarrow>
      if hash = NULL then (BAD_FUNC_ARG, Some a, [])
      else let
        a = a\<lparr>hstate := xor_s8 (hstate a) (hlastBlkSz a) 1\<rparr>;
        (s, out) = hash_final_loop (hstate a) 0;
        (r, a) = wc_AsconHash256_Init (Some (a\<lparr>hstate := s\<rparr>))
      in (r, a, out))"

section \<open>Specification\<close>

definition hash_init_state :: AsconState where
  "hash_init_state = perm12 (zero_state\<lparr>s64_0 := ASCON_HASH256_IV\<rparr>)"

text \<open>The digest of a message, by the byte machine.\<close>

definition hash_spec :: "u8 list \<Rightarrow> u8 list" where
  "hash_spec m = squeeze 4 perm12 (pad (fst (dx_run keep_xor 8 perm12 (hash_init_state, 0) m)))"

definition hash_cfg :: "wc_AsconHash256 \<Rightarrow> AsconState \<times> nat" where
  "hash_cfg a = (hstate a, hlastBlkSz a)"

definition hash_of_cfg :: "AsconState \<times> nat \<Rightarrow> wc_AsconHash256" where
  "hash_of_cfg c = \<lparr>hstate = fst c, hlastBlkSz = snd c\<rparr>"

text \<open>Between calls less than a block is pending.\<close>

definition hash_inv :: "wc_AsconHash256 \<Rightarrow> bool" where
  "hash_inv a \<longleftrightarrow> hlastBlkSz a < ASCON_HASH256_RATE"

text \<open>The context has absorbed the message \<open>m\<close> since it was initialised.\<close>

definition hash_absorbed :: "wc_AsconHash256 \<Rightarrow> u8 list \<Rightarrow> bool" where
  "hash_absorbed a m \<longleftrightarrow> hash_cfg a = fst (dx_run keep_xor 8 perm12 (hash_init_state, 0) m)"

interpretation hash_dx: duplex keep_xor 8 perm12
  by unfold_locales simp_all

lemma hash_of_cfg_cfg [simp]: "hash_of_cfg (hash_cfg a) = a" "hash_cfg (hash_of_cfg c) = c"
  by (simp_all add: hash_of_cfg_def hash_cfg_def)

section \<open>The code against the specification\<close>

lemma hash_update_loop_run:
  assumes "misc_ok M" and "n \<le> length d" and "hash_update_loop M s d n = (s', d', n')"
  shows "n' \<le> length d' \<and> n' < 8 \<and>
    fst (dx_run keep_xor 8 perm12 (s, 0) (take n d)) = fst (dx_run keep_xor 8 perm12 (s', 0) (take n' d'))"
  using assms
proof (induction M s d n rule: hash_update_loop.induct)
  case (1 M s d n)
  show ?case
  proof (cases "8 \<le> n")
    case True
    let ?s = "perm12 (of_s8 (xorbuf M (s8 s) d 8))"
    have "hash_update_loop M ?s (drop 8 d) (n - 8) = (s', d', n')"
      using 1(4) True by (simp add: hash_update_loop.simps [of M s d n] Let_def flip: perm12_def)
    then have IH: "n' \<le> length d' \<and> n' < 8 \<and>
        fst (dx_run keep_xor 8 perm12 (?s, 0) (take (n - 8) (drop 8 d)))
          = fst (dx_run keep_xor 8 perm12 (s', 0) (take n' d'))"
      using "1.IH" [OF _ refl refl \<open>misc_ok M\<close>] True 1(3) by (simp flip: perm12_def)
    have "take n d = take 8 d @ take (n - 8) (drop 8 d)"
      using True by (simp flip: take_add)
    moreover have "fst (dx_run keep_xor 8 perm12 (s, 0) (take 8 d)) = (?s, 0)"
      using xorbuf_block [OF hash_dx.duplex_axioms \<open>misc_ok M\<close>, where n = 8 and d = d and s = s and P = perm12] True 1(3)
      by (simp add: Let_def)
    ultimately show ?thesis
      using IH by (simp add: hash_dx.run_append case_prod_unfold Let_def)
  next
    case False
    then show ?thesis using 1 by (simp add: hash_update_loop.simps [of M s d n])
  qed
qed

lemma hash_update_blocks_run:
  assumes "misc_ok M" and "n \<le> length d"
  shows "hash_update_blocks M a d n = hash_of_cfg (fst (dx_run keep_xor 8 perm12 (hstate a, 0) (take n d)))"
proof -
  obtain s' d' n' where l: "hash_update_loop M (hstate a) d n = (s', d', n')"
    by (metis prod_cases3)
  from hash_update_loop_run [OF assms l] have "n' \<le> length d'" and "n' < 8" and
    "fst (dx_run keep_xor 8 perm12 (hstate a, 0) (take n d)) = fst (dx_run keep_xor 8 perm12 (s', 0) (take n' d'))"
    by simp_all
  then show ?thesis
    using xorbuf_block [OF hash_dx.duplex_axioms \<open>misc_ok M\<close>, where n = n' and d = d' and s = s' and P = perm12]
    by (simp add: hash_update_blocks_def l hash_of_cfg_def Let_def)
qed

text \<open>\<open>Update\<close> is a run of the byte machine from wherever the last call stopped.\<close>

lemma wc_AsconHash256_Update_run:
  assumes "misc_ok M" and "hash_inv a" and "n \<le> length d"
  shows "wc_AsconHash256_Update M (Some a) (Some d) n
    = (WC_OK, Some (hash_of_cfg (fst (dx_run keep_xor 8 perm12 (hash_cfg a) (take n d)))))"
proof (cases "n = 0 \<or> hlastBlkSz a = 0")
  case True
  then show ?thesis
    using assms hash_update_blocks_run [OF assms(1,3), of a]
    by (auto simp: wc_AsconHash256_Update_def hash_cfg_def Let_def hash_of_cfg_def [of "(_, _)"])
next
  case False
  let ?l = "hlastBlkSz a" let ?t = "min (8 - ?l) n"
  let ?s = "of_s8 (xorbuf_at M ?l (s8 (hstate a)) d ?t)"
  have l: "?l < 8" and t: "?t \<le> length d" "?l + ?t \<le> 8" using assms by (simp_all add: hash_inv_def)
  have split: "take n d = take ?t d @ take (n - ?t) (drop ?t d)" by (simp flip: take_add)
  have chunk: "fst (dx_run keep_xor 8 perm12 (hash_cfg a) (take ?t d))
      = (if ?l + ?t = 8 then (perm12 ?s, 0) else (?s, ?l + ?t))"
    using xorbuf_chunk [OF hash_dx.duplex_axioms \<open>misc_ok M\<close> l t(2,1), where s = "hstate a" and P = perm12]
    by (simp add: hash_cfg_def Let_def)
  show ?thesis
  proof (cases "?l + ?t < 8")
    case True
    then have n: "?t = n" by simp
    with True False chunk show ?thesis
      using assms l by (simp add: wc_AsconHash256_Update_def min32_eq hash_of_cfg_def Let_def)
  next
    case full: False
    then have "?l + ?t = 8" using t by simp
    then have run: "fst (dx_run keep_xor 8 perm12 (hash_cfg a) (take n d))
        = fst (dx_run keep_xor 8 perm12 (perm12 ?s, 0) (take (n - ?t) (drop ?t d)))"
      using chunk by (subst split) (simp add: hash_dx.run_append case_prod_unfold Let_def)
    have "n - ?t \<le> length (drop ?t d)" using assms by simp
    from hash_update_blocks_run [OF \<open>misc_ok M\<close> this, of "\<lparr>hstate = perm12 ?s, hlastBlkSz = 0\<rparr>"]
    have "hash_update_blocks M \<lparr>hstate = perm12 ?s, hlastBlkSz = 0\<rparr> (drop ?t d) (n - ?t)
        = hash_of_cfg (fst (dx_run keep_xor 8 perm12 (hash_cfg a) (take n d)))"
      by (simp add: run)
    with full False show ?thesis
      using assms by (cases a) (simp add: wc_AsconHash256_Update_def min32_eq Let_def flip: perm12_def)
  qed
qed

lemma hash_final_loop_squeeze: "hash_final_loop s 0 = ((perm12 ^^ 4) s, squeeze 4 perm12 s)"
proof -
  have step: "i < 32 \<Longrightarrow> hash_final_loop s i =
      (fst (hash_final_loop (perm12 s) (i + 8)), take 8 (s8 (perm12 s)) @ snd (hash_final_loop (perm12 s) (i + 8)))"
    for s i by (subst hash_final_loop.simps) (simp add: read_at_def case_prod_unfold Let_def flip: perm12_def)
  have stop: "hash_final_loop s 32 = (s, [])" for s by (subst hash_final_loop.simps) simp
  have "(perm12 ^^ 4) s = perm12 (perm12 (perm12 (perm12 s)))" by (simp add: numeral_eq_Suc)
  moreover have "squeeze 4 perm12 s = take 8 (s8 (perm12 s)) @ take 8 (s8 (perm12 (perm12 s)))
      @ take 8 (s8 (perm12 (perm12 (perm12 s)))) @ take 8 (s8 (perm12 (perm12 (perm12 (perm12 s)))))"
    by (simp add: numeral_eq_Suc)
  ultimately show ?thesis by (simp add: step stop)
qed

lemma Init_some: "wc_AsconHash256_Init (Some g)
  = (WC_OK, Some \<lparr>hstate = hash_init_state, hlastBlkSz = 0\<rparr>)"
  by (simp add: wc_AsconHash256_Init_def zero_hash_def hash_init_state_def Let_def flip: perm12_def)

lemma wc_AsconHash256_Final_digest:
  "wc_AsconHash256_Final (Some a) PTR
    = (WC_OK, Some \<lparr>hstate = hash_init_state, hlastBlkSz = 0\<rparr>, squeeze 4 perm12 (pad (hash_cfg a)))"
  by (simp add: wc_AsconHash256_Final_def hash_final_loop_squeeze Init_some pad_def hash_cfg_def Let_def)

section \<open>The hash interface\<close>

text \<open>
  The calls a client makes on a context it owns: the context after a successful call. The
  locale \<open>wc_env\<close> fixes the wolfSSL helpers with their documented behaviour; under it
  the API is a \<open>resettable_hash\<close>.
\<close>

definition hash_upd :: "wc_misc \<Rightarrow> wc_AsconHash256 \<Rightarrow> u8 list \<Rightarrow> wc_AsconHash256" where
  "hash_upd M a d = (case snd (wc_AsconHash256_Update M (Some a) (Some d) (length d)) of
     None \<Rightarrow> a | Some a' \<Rightarrow> a')"

definition hash_fin :: "wc_AsconHash256 \<Rightarrow> u8 list" where
  "hash_fin a = snd (snd (wc_AsconHash256_Final (Some a) PTR))"

definition hash_reset :: "wc_AsconHash256 \<Rightarrow> wc_AsconHash256" where
  "hash_reset a = (case fst (snd (wc_AsconHash256_Final (Some a) PTR)) of None \<Rightarrow> a | Some a' \<Rightarrow> a')"

definition hash_init :: wc_AsconHash256 where
  "hash_init = \<lparr>hstate = hash_init_state, hlastBlkSz = 0\<rparr>"

lemma hash_absorbed_inv: "hash_absorbed a m \<Longrightarrow> hash_inv a"
  using hash_dx.run_pos_less [of "(hash_init_state, 0)" m]
  by (simp add: hash_absorbed_def hash_inv_def hash_cfg_def prod_eq_iff)

lemma hash_absorbed_init: "hash_absorbed hash_init []"
  by (simp add: hash_absorbed_def hash_init_def hash_cfg_def)

lemma hash_absorbed_step:
  assumes "hash_absorbed a m"
  shows "hash_absorbed (hash_of_cfg (fst (dx_run keep_xor 8 perm12 (hash_cfg a) d))) (m @ d)"
  using assms by (simp add: hash_absorbed_def hash_dx.run_append case_prod_unfold Let_def)

lemma wc_AsconHash256_Update_absorbed:
  assumes "misc_ok M" and "hash_absorbed a m" and "n \<le> length d"
  shows "\<exists>a'. wc_AsconHash256_Update M (Some a) (Some d) n = (WC_OK, Some a')
    \<and> hash_absorbed a' (m @ take n d)"
  using wc_AsconHash256_Update_run [OF assms(1) hash_absorbed_inv [OF assms(2)] assms(3)]
    hash_absorbed_step [OF assms(2)] by simp

lemma wc_AsconHash256_Final_absorbed:
  assumes "hash_absorbed a m"
  shows "wc_AsconHash256_Final (Some a) PTR = (WC_OK, Some hash_init, hash_spec m)"
  using assms by (simp add: wc_AsconHash256_Final_digest hash_spec_def hash_absorbed_def hash_init_def)

lemma hash_spec_length [simp]: "length (hash_spec m) = 32"
  by (simp add: hash_spec_def numeral_eq_Suc)

locale wc_env =
  fixes M :: wc_misc
  assumes misc: "misc_ok M"
begin

sublocale api: resettable_hash hash_init "hash_upd M" hash_fin hash_spec hash_absorbed hash_reset
proof unfold_locales
  show "hash_absorbed hash_init []" by (rule hash_absorbed_init)
next
  fix c m d
  assume "hash_absorbed c m"
  from wc_AsconHash256_Update_absorbed [OF misc this order_refl, of d]
  show "hash_absorbed (hash_upd M c d) (m @ d)" by (auto simp: hash_upd_def)
next
  fix c m
  assume "hash_absorbed c m"
  then show "hash_fin c = hash_spec m"
    by (simp add: hash_fin_def wc_AsconHash256_Final_absorbed)
next
  fix c m
  assume "hash_absorbed c m"
  then show "hash_absorbed (hash_reset c) []"
    by (simp add: hash_reset_def wc_AsconHash256_Final_absorbed hash_absorbed_init)
qed

end

interpretation wc_std: wc_env misc_std
  by unfold_locales (rule misc_ok_std)

text \<open>A client that feeds a list of pieces and stops at the first error code.\<close>

fun hash_updates :: "wc_misc \<Rightarrow> wc_AsconHash256 option \<Rightarrow> u8 list list \<Rightarrow> wc_ret \<times> wc_AsconHash256 option" where
  "hash_updates M ap [] = (WC_OK, ap)"
| "hash_updates M ap (d # ds) =
     (case wc_AsconHash256_Update M ap (Some d) (length d) of
        (WC_OK, ap') \<Rightarrow> hash_updates M ap' ds
      | (e, ap') \<Rightarrow> (e, ap'))"

lemma hash_updates_absorbed:
  assumes "misc_ok M" and "hash_absorbed a m"
  shows "\<exists>a'. hash_updates M (Some a) ds = (WC_OK, Some a') \<and> hash_absorbed a' (m @ concat ds)"
  using assms(2)
proof (induction ds arbitrary: a m)
  case Nil
  then show ?case by simp
next
  case (Cons d ds)
  from wc_AsconHash256_Update_absorbed [OF assms(1) Cons.prems order_refl, of d]
  obtain a' where "wc_AsconHash256_Update M (Some a) (Some d) (length d) = (WC_OK, Some a')"
    and "hash_absorbed a' (m @ d)" by auto
  with Cons.IH [of a' "m @ d"] show ?case by simp
qed

end
