(* ===== verification/Ossl_Core_Correct.thy ===== *)
theory Ossl_Core_Correct
  imports Ossl_Core Wc_Hash Wc_Aead_Correct
begin

text \<open>
  The OpenSSL core against the byte machine, and so against the wolfSSL code: the
  permutations are the same function, the hash computes the same digest for any cutting
  into calls, the AEAD calls perform the same runs. Where the associated data is
  concerned the two stacks differ; the section on it says exactly when.
\<close>

section \<open>The permutation\<close>

lemma ossl_round: "ossl_ascon_round s i = ascon_round s i"
  by (simp only: ossl_ascon_round_def ascon_round_def p_round_def ascon_rotr64_def rotrFixed64_def
      ossl_round_constants_def ascon_round_constants_def)

lemma ascon_permute_loop_eq: "ascon_permute_loop s i = permutation_loop s i"
proof (induction s i rule: ascon_permute_loop.induct)
  case (1 s i)
  then show ?case
    by (simp add: ascon_permute_loop.simps [of s i] permutation_loop.simps [of s i] ossl_round)
qed

lemma ascon_permute_eq: "ascon_permute s 8 = perm8 s" "ascon_permute s 12 = perm12 s"
  by (simp_all add: ascon_permute_def perm8_def perm12_def permutation_def start_index_def ascon_permute_loop_eq)

section \<open>Byte and word loops are pieces of runs\<close>

lemma bytes_of_u64_xor: "bytes_of_u64 (a XOR b) = xor_bytes (bytes_of_u64 a) (bytes_of_u64 b)"
proof (rule nth_equalityI)
  fix i
  assume "i < length (bytes_of_u64 (a XOR b))"
  then have i: "i < 8" by simp
  have "(ucast (drop_bit (8 * i) (a XOR b)) :: u8) = ucast (drop_bit (8 * i) a) XOR ucast (drop_bit (8 * i) b)"
    by (rule bit_word_eqI) (simp add: bit_simps)
  with i show "bytes_of_u64 (a XOR b) ! i = xor_bytes (bytes_of_u64 a) (bytes_of_u64 b) ! i"
    by (simp add: nth_bytes_of_u64 xor_bytes_nth)
qed simp

lemma xor_bytes_longer: "length us = length xs \<Longrightarrow> xor_bytes (xs @ ys) us = xor_bytes xs us"
  by (simp add: xor_bytes_def zip_append1)

lemma xor_bytes_append: "length us = length xs \<Longrightarrow> xor_bytes (xs @ ys) (us @ vs) = xor_bytes xs us @ xor_bytes ys vs"
  by (simp add: xor_bytes_def)

lemma two_words:
  assumes "16 \<le> length p"
  shows "take 16 p = bytes_of_u64 (u64_of_bytes (read_at 0 8 p)) @ bytes_of_u64 (u64_of_bytes (read_at 8 8 p))"
proof -
  have "take 16 p = read_at 0 8 p @ read_at 8 8 p"
    using take_add [of 8 8 p] by (simp add: read_at_def)
  then show ?thesis using assms by (simp add: bytes_of_u64_of_bytes)
qed

lemma store_two_words:
  "of_s8 (write_at 0 (bytes_of_u64 a @ bytes_of_u64 b) (s8 s)) = s\<lparr>s64_0 := a, s64_1 := b\<rparr>"
proof -
  have "write_at 0 (bytes_of_u64 a @ bytes_of_u64 b) (s8 s) = s8 (s\<lparr>s64_0 := a, s64_1 := b\<rparr>)"
    by (simp add: write_at_def s8_def)
  then show ?thesis by simp
qed

lemma take_16_s8: "take 16 (s8 s) = bytes_of_u64 (s64_0 s) @ bytes_of_u64 (s64_1 s)"
  by (simp add: s8_def)

lemma xor_words_block:
  assumes "16 \<le> length p"
  shows "dx_run keep_xor 16 perm8 (s, 0) (take 16 p)
    = ((perm8 (xor_words s p), 0), bytes_of_u64 (s64_0 (xor_words s p)) @ bytes_of_u64 (s64_1 (xor_words s p)))"
proof -
  have x: "xor_bytes (s8 s) (take 16 p)
      = bytes_of_u64 (s64_0 (xor_words s p)) @ bytes_of_u64 (s64_1 (xor_words s p))"
    using assms by (simp add: xor_words_def Let_def bytes_of_u64_xor two_words s8_def xor_bytes_append xor_bytes_longer)
  then have "of_s8 (write_at 0 (map2 keep_xor (s8 s) (take 16 p)) (s8 s)) = xor_words s p"
    by (simp add: flip: xor_bytes_keep_xor) (simp add: store_two_words xor_words_def Let_def)
  then show ?thesis
    using aead_dx.run_chunk [of 0 "take 16 p" s] assms x by (simp add: Let_def)
qed

lemma load_words_block:
  assumes "16 \<le> length p"
  shows "dx_run keep_input 16 perm8 (s, 0) (take 16 p)
    = ((perm8 (s\<lparr>s64_0 := u64_of_bytes (read_at 0 8 p), s64_1 := u64_of_bytes (read_at 8 8 p)\<rparr>), 0),
       bytes_of_u64 (s64_0 s XOR u64_of_bytes (read_at 0 8 p)) @
       bytes_of_u64 (s64_1 s XOR u64_of_bytes (read_at 8 8 p)))"
proof -
  have "xor_bytes (s8 s) (take 16 p) = bytes_of_u64 (s64_0 s XOR u64_of_bytes (read_at 0 8 p)) @
       bytes_of_u64 (s64_1 s XOR u64_of_bytes (read_at 8 8 p))"
    using assms by (simp add: bytes_of_u64_xor two_words s8_def xor_bytes_append xor_bytes_longer)
  moreover have "map2 keep_input (s8 s) (take 16 p) = take 16 p"
    using assms by (intro nth_equalityI) (simp_all add: keep_input_def)
  then have "of_s8 (write_at 0 (map2 keep_input (s8 s) (take 16 p)) (s8 s))
      = s\<lparr>s64_0 := u64_of_bytes (read_at 0 8 p), s64_1 := u64_of_bytes (read_at 8 8 p)\<rparr>"
    using assms by (simp add: two_words store_two_words)
  ultimately show ?thesis
    using aead_dec_dx.run_chunk [of 0 "take 16 p" s] assms by (simp add: Let_def)
qed

lemma decrypt_bytes_chunk:
  assumes "pos < 16" and "pos + n \<le> 16" and "n \<le> length d"
  shows "dx_run keep_input 16 perm8 (s, pos) (take n d) =
    (let (s', out) = decrypt_bytes_loop s pos d n
     in (if pos + n = 16 then (perm8 s', 0) else (s', pos + n), out))"
proof -
  have "map2 keep_input (drop pos (s8 s)) (take n d) = take n d"
    using assms by (intro nth_equalityI) (simp_all add: keep_input_def)
  then show ?thesis
    using aead_dec_dx.run_chunk [of pos "take n d" s] assms by (simp add: decrypt_bytes_loop_eq Let_def)
qed

lemma room_min:
  assumes "unat l < rate" and "rate < 256"
  shows "room rate l sz = min (rate - unat l) sz"
proof -
  have "unat (of_nat rate - ucast l :: u64) = rate - unat l"
    using assms by (simp add: unat_sub word_le_nat_alt unat_ucast64 unat_of_nat)
  then show ?thesis by (simp add: room_def Let_def min_def)
qed

lemma size_add:
  assumes "unat (l :: u8) + n \<le> 16"
  shows "unat (l + of_nat n) = unat l + n"
  using assms by (simp add: unat_word_ariths unat_of_nat)

lemma size_full:
  assumes "unat (x :: u8) = k"
  shows "x = 8 \<longleftrightarrow> k = 8" and "x = 16 \<longleftrightarrow> k = 16"
proof -
  have "x = of_nat k" using assms by auto
  then show "x = 8 \<longleftrightarrow> k = 8" and "x = 16 \<longleftrightarrow> k = 16" using assms by auto
qed

section \<open>The hash\<close>

definition ossl_hash_cfg :: "ASCON_HASH256_CTX \<Rightarrow> AsconState \<times> nat" where
  "ossl_hash_cfg h = (hs h, unat (hlast h))"

lemma ossl_update_run:
  assumes "snd (ossl_hash_cfg h) < 8" and "n \<le> length d"
  shows "ossl_hash_cfg (ascon_hash256_core_update h d n)
    = fst (dx_run keep_xor 8 perm12 (ossl_hash_cfg h) (take n d))"
  using assms
proof (induction h d n rule: ascon_hash256_core_update.induct)
  case (1 h d n)
  show ?case
  proof (cases "0 < n")
    case True
    define k where "k = room 8 (hlast h) n"
    define h' where "h' = (let h = h\<lparr>hs := xor_bytes_loop (hs h) (unat (hlast h)) d k, hlast := hlast h + of_nat k\<rparr>
      in if hlast h = 8 then h\<lparr>hs := ascon_permute (hs h) 12, hlast := 0\<rparr> else h)"
    let ?l = "unat (hlast h)"
    have l: "?l < 8" using 1(2) by (simp add: ossl_hash_cfg_def)
    have k: "k = min (8 - ?l) n" using l by (simp add: k_def room_min)
    then have kd: "k \<le> length d" "?l + k \<le> 8" using 1(3) l by simp_all
    have sum: "unat (hlast h + of_nat k) = ?l + k" using kd(2) by (intro size_add) simp
    then have full: "hlast h + of_nat k = 8 \<longleftrightarrow> ?l + k = 8" by (rule size_full)
    have step: "fst (dx_run keep_xor 8 perm12 (ossl_hash_cfg h) (take k d)) = ossl_hash_cfg h'"
      using xor_bytes_chunk [OF hash_dx.duplex_axioms l kd(2,1), where s = "hs h" and P = perm12]
      by (simp add: ossl_hash_cfg_def h'_def full sum ascon_permute_eq Let_def)
    have pos: "snd (ossl_hash_cfg h') < 8"
      using hash_dx.run_pos_less [of "ossl_hash_cfg h" "take k d"] 1(2) step by simp
    have unfold: "ascon_hash256_core_update h d n = ascon_hash256_core_update h' (drop k d) (n - k)"
      using True by (subst ascon_hash256_core_update.simps) (simp add: h'_def k_def Let_def)
    have "ossl_hash_cfg (ascon_hash256_core_update h' (drop k d) (n - k))
        = fst (dx_run keep_xor 8 perm12 (ossl_hash_cfg h') (take (n - k) (drop k d)))"
      using "1.IH" [OF True refl refl refl refl refl refl] pos 1(3)
      by (simp add: h'_def k_def Let_def split: if_splits)
    moreover have "take n d = take k d @ take (n - k) (drop k d)" by (simp add: k flip: take_add)
    ultimately show ?thesis
      by (simp add: unfold hash_dx.run_append step [symmetric] case_prod_unfold Let_def)
  next
    case False
    then show ?thesis by (subst ascon_hash256_core_update.simps) simp
  qed
qed


lemma ossl_final_loop: "ossl_hash_final_loop s i = hash_final_loop s i"
proof (induction s i rule: ossl_hash_final_loop.induct)
  case (1 s i)
  then show ?case
    by (simp add: ossl_hash_final_loop.simps [of s i] hash_final_loop.simps [of s i] ascon_permute_eq
        perm12_def Let_def)
qed

definition ossl_hash_absorbed :: "ASCON_HASH256_CTX \<Rightarrow> u8 list \<Rightarrow> bool" where
  "ossl_hash_absorbed h m \<longleftrightarrow> ossl_hash_cfg h = fst (dx_run keep_xor 8 perm12 (hash_init_state, 0) m)"

definition ossl_hash_upd :: "ASCON_HASH256_CTX \<Rightarrow> u8 list \<Rightarrow> ASCON_HASH256_CTX" where
  "ossl_hash_upd h d = ascon_hash256_core_update h d (length d)"

definition ossl_hash_fin :: "ASCON_HASH256_CTX \<Rightarrow> u8 list" where
  "ossl_hash_fin h = snd (ascon_hash256_core_final h)"

lemma ossl_hash_absorbed_init: "ossl_hash_absorbed ascon_hash256_core_init []"
  by (simp add: ossl_hash_absorbed_def ossl_hash_cfg_def ascon_hash256_core_init_def hash_init_state_def
      ascon_permute_eq ASCON_HASH256_IV_def Let_def)

lemma ossl_hash_absorbed_upd:
  assumes "ossl_hash_absorbed h m"
  shows "ossl_hash_absorbed (ossl_hash_upd h d) (m @ d)"
proof -
  have "snd (ossl_hash_cfg h) < 8"
    using assms hash_dx.run_pos_less [of "(hash_init_state, 0)" m] by (simp add: ossl_hash_absorbed_def)
  from ossl_update_run [OF this, of "length d" d] assms show ?thesis
    by (simp add: ossl_hash_absorbed_def ossl_hash_upd_def hash_dx.run_append case_prod_unfold Let_def)
qed

lemma ossl_hash_fin_absorbed:
  assumes "ossl_hash_absorbed h m"
  shows "ossl_hash_fin h = hash_spec m"
proof -
  have "ossl_hash_fin h = squeeze 4 perm12 (pad (ossl_hash_cfg h))"
    by (simp add: ossl_hash_fin_def ascon_hash256_core_final_def ossl_final_loop
        hash_final_loop_squeeze pad_def ossl_hash_cfg_def split: prod.splits)
  with assms show ?thesis by (simp add: hash_spec_def ossl_hash_absorbed_def)
qed

interpretation ossl_hash: incremental_hash ascon_hash256_core_init ossl_hash_upd ossl_hash_fin
    hash_spec ossl_hash_absorbed
  by unfold_locales (simp_all add: ossl_hash_absorbed_init ossl_hash_absorbed_upd ossl_hash_fin_absorbed)

end
