(* ===== verification/Ossl_Aead_Correct.thy ===== *)
theory Ossl_Aead_Correct
  imports Ossl_Core_Correct
begin

text \<open>
  The AEAD half of \<open>ascon_local.h\<close> against the byte machine. Encryption, decryption and
  the tag agree with the wolfSSL code; the associated data is absorbed differently when
  its length is a positive multiple of the rate (no padding block), and when it arrives in
  pieces that fill a buffered block (the padding goes on top of stale bytes).
\<close>

section \<open>Associated data\<close>

text \<open>What one call of \<open>absorb_aad\<close> and \<open>aad_finalize\<close> do to the state.\<close>

definition ossl_absorb_ad :: "AsconState \<Rightarrow> u8 list \<Rightarrow> AsconState" where
  "ossl_absorb_ad s ad = (let
     c = fst (dx_run keep_xor 16 perm8 (s, 0) ad);
     s = (if snd c = 0 then fst c else perm8 (pad c))
   in s\<lparr>s64_4 := s64_4 s XOR push_bit 63 1\<rparr>)"

definition ossl_ready :: "u8 list \<Rightarrow> u8 list \<Rightarrow> u8 list \<Rightarrow> AsconState" where
  "ossl_ready key nonce ad =
     (case key_words key of (k0, k1) \<Rightarrow> ossl_absorb_ad (aead_start k0 k1 nonce) ad)"

lemma aad_block_loop_run:
  assumes "n \<le> length d" and "aad_block_loop s d n = (s', d', n')"
  shows "n' \<le> length d' \<and> n' < 16 \<and>
    fst (dx_run keep_xor 16 perm8 (s, 0) (take n d)) = fst (dx_run keep_xor 16 perm8 (s', 0) (take n' d'))"
  using assms
proof (induction s d n rule: aad_block_loop.induct)
  case (1 s d n)
  show ?case
  proof (cases "16 \<le> n")
    case True
    let ?s = "perm8 (xor_words s d)"
    have "aad_block_loop ?s (drop 16 d) (n - 16) = (s', d', n')"
      using 1(3) True by (simp add: aad_block_loop.simps [of s d n] Let_def ascon_permute_eq)
    then have IH: "n' \<le> length d' \<and> n' < 16 \<and>
        fst (dx_run keep_xor 16 perm8 (?s, 0) (take (n - 16) (drop 16 d)))
          = fst (dx_run keep_xor 16 perm8 (s', 0) (take n' d'))"
      using "1.IH" [OF _ refl refl] True 1(2) by (simp add: ascon_permute_eq)
    have "take n d = take 16 d @ take (n - 16) (drop 16 d)"
      using True by (simp flip: take_add)
    moreover have "fst (dx_run keep_xor 16 perm8 (s, 0) (take 16 d)) = (?s, 0)"
      using xor_words_block [of d s] True 1(2) by simp
    ultimately show ?thesis
      using IH by (simp add: aead_dx.run_append case_prod_unfold Let_def)
  next
    case False
    then show ?thesis using 1 by (simp add: aad_block_loop.simps [of s d n])
  qed
qed

lemma xor_words_write:
  assumes "16 \<le> length p"
  shows "xor_words s p = of_s8 (write_at 0 (map2 keep_xor (s8 s) (take 16 p)) (s8 s))"
  using xor_words_block [OF assms, of s] aead_dx.run_chunk [of 0 "take 16 p" s] assms by (simp add: Let_def)

text \<open>The last block, padded in the buffer, is the padded block of the byte machine.\<close>

lemma xor_padded:
  assumes "n < 16" and "n \<le> length d"
  shows "xor_words s ((take n d @ replicate (16 - n) 0)[n := 1]) = pad (xor_bytes_loop s 0 d n, n)"
proof -
  let ?p = "(take n d @ replicate (16 - n) 0)[n := 1]"
  have len: "length ?p = 16" using assms by simp
  have "write_at 0 (map2 keep_xor (s8 s) ?p) (s8 s)
      = (write_at 0 (map2 keep_xor (s8 s) (take n d)) (s8 s))[n := s8 s ! n XOR 1]"
    using assms by (intro nth_equalityI)
      (auto simp: nth_list_update nth_write_at nth_append keep_xor_def)
  moreover have "s8 (xor_bytes_loop s 0 d n) = write_at 0 (map2 keep_xor (s8 s) (take n d)) (s8 s)"
    using assms by (simp add: xor_bytes_loop_write)
  moreover have "write_at 0 (map2 keep_xor (s8 s) (take n d)) (s8 s) ! n = s8 s ! n"
    using assms by (simp add: nth_write_at)
  ultimately show ?thesis
    using len by (simp add: xor_words_write pad_def xor_s8_def)
qed

text \<open>A context between \<open>reset\<close> and the first update.\<close>

definition aad_fresh :: "ASCON_AEAD128_CTX \<Rightarrow> bool" where
  "aad_fresh a \<longleftrightarrow> \<not> adStarted a \<and> \<not> adDone a \<and> adPartSz a = 0 \<and> adPart a = replicate 16 0"

definition aad_run_start :: "ASCON_AEAD128_CTX \<Rightarrow> AsconState" where
  "aad_run_start a = os (aad_start a)"

lemma aad_start_only_os: "aad_start a = a\<lparr>os := aad_run_start a\<rparr>"
  by (simp add: aad_start_def aad_run_start_def Let_def)

lemma absorb_then_finalize:
  assumes "aad_fresh a"
  shows "ascon_aead128_aad_finalize (ascon_aead128_absorb_aad a ad (length ad))
    = a\<lparr>os := ossl_absorb_ad (aad_run_start a) ad, adStarted := True, adDone := True,
        adPart := adPart (ascon_aead128_aad_finalize (ascon_aead128_absorb_aad a ad (length ad)))\<rparr>"
proof -
  let ?s = "aad_run_start a"
  obtain s' d' n' where l: "aad_block_loop ?s ad (length ad) = (s', d', n')" by (metis prod_cases3)
  from aad_block_loop_run [OF order_refl l] have n': "n' \<le> length d'" "n' < 16"
    and run: "fst (dx_run keep_xor 16 perm8 (?s, 0) ad) = fst (dx_run keep_xor 16 perm8 (s', 0) (take n' d'))"
    by simp_all
  have run': "fst (dx_run keep_xor 16 perm8 (?s, 0) ad) = (xor_bytes_loop s' 0 d' n', n')"
    using xor_bytes_chunk [OF aead_dx.duplex_axioms, where pos = 0 and n = n' and d = d' and s = s' and P = perm8]
      n' run by (simp add: Let_def)
  have fill: "aad_fill_loop (a\<lparr>os := x, adStarted := True\<rparr>) ad m = (a\<lparr>os := x, adStarted := True\<rparr>, ad, m)" for x m
    using assms by (subst aad_fill_loop.simps) (simp add: aad_fresh_def)
  have absorb: "ascon_aead128_absorb_aad a ad (length ad) = (if 0 < n'
      then a\<lparr>os := s', adStarted := True, adPart := write_at 0 (read_at 0 n' d') (adPart a), adPartSz := of_nat n'\<rparr>
      else a\<lparr>os := s', adStarted := True\<rparr>)"
    using assms by (simp add: ascon_aead128_absorb_aad_def aad_fresh_def aad_start_only_os fill l Let_def)
  show ?thesis
  proof (cases "n' = 0")
    case True
    then show ?thesis
      using assms run' by (simp add: absorb ascon_aead128_aad_finalize_def aad_fresh_def ossl_absorb_ad_def Let_def)
  next
    case False
    have part: "write_at 0 (read_at 0 n' d') (replicate 16 0) = take n' d' @ replicate (16 - n') 0"
      using assms n' by (simp add: aad_fresh_def write_at_def read_at_def)
    have sz: "unat (of_nat n' :: u8) = n'" using n' by (simp add: unat_of_nat)
    then have "(of_nat n' :: u8) \<noteq> 0" using False by auto
    moreover have "(take n' d' @ replicate (16 - n') 0) ! n' XOR 1 = (1 :: u8)"
      using n' by (simp add: nth_append)
    ultimately show ?thesis
      using assms run' False n' sz
      by (simp add: absorb part ascon_aead128_aad_finalize_def aad_fresh_def ossl_absorb_ad_def
          xor_padded ascon_permute_eq word_greater_zero_iff Let_def)
  qed
qed

text \<open>The two rules coincide unless the data is a positive number of whole blocks.\<close>

lemma ossl_absorb_ad_agrees:
  assumes "ad = [] \<or> length ad mod 16 \<noteq> 0"
  shows "ossl_absorb_ad s ad = aead_absorb_ad s ad"
proof -
  have "snd (fst (dx_run keep_xor 16 perm8 (s, 0) ad)) = length ad mod 16"
    by (simp add: aead_dx.run_pos)
  with assms show ?thesis by (auto simp: ossl_absorb_ad_def aead_absorb_ad_def Let_def)
qed

lemma ossl_absorb_ad_whole_blocks:
  assumes "ad \<noteq> []" and "length ad mod 16 = 0"
  shows "ossl_absorb_ad s ad = aead_absorb_ad s ad \<longleftrightarrow>
    (let s' = fst (fst (dx_run keep_xor 16 perm8 (s, 0) ad)) in s' = perm8 (xor_s8 s' 0 1))"
proof -
  have pos: "snd (fst (dx_run keep_xor 16 perm8 (s, 0) ad)) = 0"
    using assms by (simp add: aead_dx.run_pos)
  have inj: "a\<lparr>s64_4 := s64_4 a XOR c\<rparr> = b\<lparr>s64_4 := s64_4 b XOR c\<rparr> \<longleftrightarrow> a = b" for a b :: AsconState and c
    by (cases a; cases b) (auto simp: xor_right_inj)
  show ?thesis
    using assms pos by (simp add: ossl_absorb_ad_def aead_absorb_ad_def inj pad_def Let_def)
qed

text \<open>Whole blocks may be split off the front: nothing of them stays in the buffer.\<close>

lemma aad_block_loop_append:
  assumes "length d1 mod 16 = 0"
  shows "aad_block_loop s (d1 @ d2) (length d1 + n)
    = aad_block_loop (fst (aad_block_loop s d1 (length d1))) d2 n"
  using assms
proof (induction "length d1" arbitrary: d1 s rule: less_induct)
  case less
  show ?case
  proof (cases "d1 = []")
    case True
    then show ?thesis by (simp add: aad_block_loop.simps [of s "[]" 0])
  next
    case False
    then have len: "16 \<le> length d1" using less.prems by (cases "length d1 < 16") simp_all
    have words: "xor_words s (d1 @ d2) = xor_words s d1"
      using len by (simp add: xor_words_def read_at_def)
    have "length (drop 16 d1) mod 16 = 0" using less.prems len by (simp add: le_mod_geq)
    from less.hyps [OF _ this] len
    have IH: "aad_block_loop t (drop 16 d1 @ d2) (length d1 - 16 + n)
        = aad_block_loop (fst (aad_block_loop t (drop 16 d1) (length d1 - 16))) d2 n" for t by simp
    have l: "aad_block_loop s d1 (length d1)
        = aad_block_loop (ascon_permute (xor_words s d1) 8) (drop 16 d1) (length d1 - 16)"
      using len by (subst aad_block_loop.simps) (simp add: Let_def)
    have r: "aad_block_loop s (d1 @ d2) (length d1 + n)
        = aad_block_loop (ascon_permute (xor_words s d1) 8) (drop 16 d1 @ d2) (length d1 - 16 + n)"
      using len by (subst aad_block_loop.simps) (simp add: words Let_def)
    show ?thesis by (simp only: l r IH)
  qed
qed

lemma aad_fill_loop_idle: "adPartSz a = 0 \<Longrightarrow> aad_fill_loop a d n = (a, d, n)"
  by (subst aad_fill_loop.simps) simp

lemma absorb_blocks:
  assumes "adStarted a" and "adPartSz a = 0" and "length d mod 16 = 0"
  shows "ascon_aead128_absorb_aad a d (length d) = a\<lparr>os := fst (aad_block_loop (os a) d (length d))\<rparr>"
proof -
  obtain s' d' n' where l: "aad_block_loop (os a) d (length d) = (s', d', n')" by (metis prod_cases3)
  from aad_block_loop_run [OF order_refl l] have "n' < 16" "n' \<le> length d'"
    and run: "fst (dx_run keep_xor 16 perm8 (os a, 0) d) = fst (dx_run keep_xor 16 perm8 (s', 0) (take n' d'))"
    by simp_all
  then have "n' = 0"
    using assms aead_dx.run_pos [of "(os a, 0)" d] aead_dx.run_pos [of "(s', 0)" "take n' d'"] by simp
  then show ?thesis using assms l by (simp add: ascon_aead128_absorb_aad_def aad_fill_loop_idle)
qed

lemma absorb_aad_start:
  "\<not> adStarted a \<Longrightarrow> ascon_aead128_absorb_aad a d n
    = ascon_aead128_absorb_aad ((aad_start a)\<lparr>adStarted := True\<rparr>) d n"
  by (simp add: ascon_aead128_absorb_aad_def)

lemma absorb_aad_split:
  assumes "adPartSz a = 0" and "length d1 mod 16 = 0"
  shows "ascon_aead128_absorb_aad (ascon_aead128_absorb_aad a d1 (length d1)) d2 (length d2)
    = ascon_aead128_absorb_aad a (d1 @ d2) (length (d1 @ d2))"
proof -
  have started: "ascon_aead128_absorb_aad (ascon_aead128_absorb_aad b d1 (length d1)) d2 (length d2)
    = ascon_aead128_absorb_aad b (d1 @ d2) (length (d1 @ d2))" if "adStarted b" "adPartSz b = 0" for b
    using that assms(2)
    by (simp add: absorb_blocks) (simp add: ascon_aead128_absorb_aad_def aad_fill_loop_idle
        aad_block_loop_append Let_def split: prod.splits)
  show ?thesis
  proof (cases "adStarted a")
    case True
    then show ?thesis using assms(1) by (rule started)
  next
    case False
    let ?b = "(aad_start a)\<lparr>adStarted := True\<rparr>"
    have "adStarted ?b" "adPartSz ?b = 0" using assms by (simp_all add: aad_start_only_os)
    from started [OF this] show ?thesis
      by (simp only: absorb_aad_start [OF False, where d = d1] absorb_aad_start [OF False, where d = "d1 @ d2"])
  qed
qed

text \<open>
  Two calls that together fill one buffered block and leave \<open>r\<close> bytes: the rest is
  padded on top of the block that was just absorbed instead of on a cleared buffer.
\<close>

definition domain_bit :: "AsconState \<Rightarrow> AsconState" where
  "domain_bit s = s\<lparr>s64_4 := s64_4 s XOR push_bit 63 1\<rparr>"

lemma domain_bit_inj [simp]: "domain_bit s = domain_bit t \<longleftrightarrow> s = t"
  by (cases s; cases t) (simp add: domain_bit_def xor_right_inj)

lemma xor_words_inj:
  assumes "length p = 16" and "length q = 16"
  shows "xor_words s p = xor_words s q \<longleftrightarrow> p = q"
proof
  assume eq: "xor_words s p = xor_words s q"
  have w: "s64_0 (xor_words s b) = s64_0 s XOR u64_of_bytes (read_at 0 8 b)"
      "s64_1 (xor_words s b) = s64_1 s XOR u64_of_bytes (read_at 8 8 b)" for b
    by (simp_all add: xor_words_def Let_def)
  have "u64_of_bytes (read_at 0 8 p) = u64_of_bytes (read_at 0 8 q)"
      "u64_of_bytes (read_at 8 8 p) = u64_of_bytes (read_at 8 8 q)"
    using w [of p] w [of q] eq by (metis xor_cancel_left)+
  then show "p = q" using two_words [of p] two_words [of q] assms by simp
qed simp

lemma xor_words_take: "xor_words s (take 16 p) = xor_words s p"
  by (simp add: xor_words_def read_at_def drop_take)

lemma finalize_started:
  assumes "adStarted a" and "\<not> adDone a" and "adPartSz a = of_nat r" and "0 < r" and "r < 16"
  shows "os (ascon_aead128_aad_finalize a)
    = domain_bit (perm8 (xor_words (os a) ((adPart a)[r := adPart a ! r XOR 1])))"
proof -
  have "unat (of_nat r :: u8) = r" using assms by (simp add: unat_of_nat)
  moreover from this have "(of_nat r :: u8) \<noteq> 0" using assms(4) by auto
  ultimately show ?thesis
    using assms by (simp add: ascon_aead128_aad_finalize_def ascon_permute_eq domain_bit_def
        word_greater_zero_iff Let_def)
qed

lemma absorb_short:
  assumes "adStarted a" and "adPartSz a = 0" and "length d < 16" and "d \<noteq> []"
  shows "ascon_aead128_absorb_aad a d (length d)
    = a\<lparr>adPart := write_at 0 d (adPart a), adPartSz := of_nat (length d)\<rparr>"
  using assms by (simp add: ascon_aead128_absorb_aad_def aad_fill_loop_idle aad_block_loop.simps [of "os a" d]
      read_at_def Let_def)

lemma aad_block_loop_short: "n < 16 \<Longrightarrow> aad_block_loop s d n = (s, d, n)"
  by (subst aad_block_loop.simps) simp

lemma absorb_fill:
  assumes "adStarted a" and "adPartSz a = of_nat k" and "adPart a = d1 @ replicate (16 - k) 0"
    and "length d1 = k" and "0 < k" and "k < 16" and "k + length d2 = 16 + r" and "0 < r" and "r < 16"
  shows "ascon_aead128_absorb_aad a d2 (length d2)
    = a\<lparr>os := perm8 (xor_words (os a) (d1 @ d2)), adPartSz := of_nat r,
        adPart := write_at 0 (drop (16 - k) d2) (take 16 (d1 @ d2))\<rparr>"
proof -
  have k: "unat (of_nat k :: u8) = k" using assms by (simp add: unat_of_nat)
  have room: "room 16 (of_nat k) (length d2) = 16 - k" using assms k by (simp add: room_min)
  have "(of_nat k + of_nat (16 - k) :: u8) = of_nat (k + (16 - k))" by (simp only: of_nat_add)
  then have full: "(of_nat k + of_nat (16 - k) :: u8) = 16" using assms by simp
  have part: "write_at k (read_at 0 (16 - k) d2) (d1 @ replicate (16 - k) 0) = take 16 (d1 @ d2)"
    using assms by (simp add: write_at_def read_at_def)
  have pos: "0 < (of_nat k :: u8)" using k assms(5) by (simp add: word_greater_zero_iff) (metis unat_0 less_irrefl)
  have rest: "length d2 - (16 - k) = r" using assms by simp
  have "d2 \<noteq> []" using assms by auto
  then have "aad_fill_loop a d2 (length d2) = aad_fill_loop (a\<lparr>adPart := take 16 (d1 @ d2),
      os := perm8 (xor_words (os a) (d1 @ d2)), adPartSz := 0\<rparr>) (drop (16 - k) d2) r"
    using assms pos k by (subst aad_fill_loop.simps)
      (simp add: room full part rest xor_words_take ascon_permute_eq Let_def del: take_append)
  then show ?thesis
    using assms by (simp add: ascon_aead128_absorb_aad_def aad_fill_loop_idle aad_block_loop_short
        read_at_def del: take_append)
qed

lemma absorb_one_block:
  assumes "adStarted a" and "adPartSz a = 0" and "length d = 16 + r" and "0 < r" and "r < 16"
  shows "ascon_aead128_absorb_aad a d (length d)
    = a\<lparr>os := perm8 (xor_words (os a) d), adPartSz := of_nat r, adPart := write_at 0 (drop 16 d) (adPart a)\<rparr>"
proof -
  have "aad_block_loop (os a) d (16 + r) = (perm8 (xor_words (os a) d), drop 16 d, r)"
    using assms(5) by (subst aad_block_loop.simps) (simp add: aad_block_loop_short ascon_permute_eq Let_def)
  then show ?thesis
    using assms by (simp add: ascon_aead128_absorb_aad_def aad_fill_loop_idle read_at_def)
qed

text \<open>The padded buffer as a function of what the buffer held before.\<close>

definition padded_buffer :: "u8 list \<Rightarrow> u8 list \<Rightarrow> u8 list" where
  "padded_buffer rest z = (write_at 0 rest z)[length rest := write_at 0 rest z ! length rest XOR 1]"

lemma padded_buffer_eq_iff:
  assumes "length y = 16" and "length z = 16" and "length rest < 16"
  shows "padded_buffer rest y = padded_buffer rest z \<longleftrightarrow> drop (length rest) y = drop (length rest) z"
proof -
  have "padded_buffer rest x = rest @ (drop (length rest) x)[0 := drop (length rest) x ! 0 XOR 1]"
    if "length x = 16" for x
    using that assms(3) by (simp add: padded_buffer_def write_at_def nth_append list_update_append)
  moreover have "xs[0 := xs ! 0 XOR 1] = ys[0 := ys ! 0 XOR (1 :: u8)] \<longleftrightarrow> xs = ys"
    if "xs \<noteq> []" "ys \<noteq> []" for xs ys
    using that by (cases xs; cases ys) (simp_all add: xor_right_inj)
  moreover have "drop (length rest) y \<noteq> []" "drop (length rest) z \<noteq> []" using assms by simp_all
  ultimately show ?thesis using assms by (simp only: same_append_eq)
qed

lemma stream_stale:
  assumes "aad_fresh a" and "0 < length d1" and "length d1 < 16"
    and "length d1 + length d2 = 16 + r" and "0 < r" and "r < 16"
  shows "os (ascon_aead128_aad_finalize (ascon_aead128_absorb_aad (ascon_aead128_absorb_aad a d1 (length d1)) d2 (length d2)))
       = os (ascon_aead128_aad_finalize (ascon_aead128_absorb_aad a (d1 @ d2) (length (d1 @ d2))))
    \<longleftrightarrow> drop r (take 16 (d1 @ d2)) = replicate (16 - r) 0"
proof -
  let ?b = "(aad_start a)\<lparr>adStarted := True\<rparr>" let ?ad = "d1 @ d2" let ?rest = "drop 16 ?ad"
  let ?s = "perm8 (xor_words (os ?b) ?ad)"
  have b: "adStarted ?b" "\<not> adDone ?b" "adPartSz ?b = 0" "adPart ?b = replicate 16 0" "\<not> adStarted a"
    using assms(1) by (simp_all add: aad_fresh_def aad_start_only_os)
  have rest: "length ?rest = r" "drop (16 - length d1) d2 = ?rest" using assms by simp_all
  have first: "ascon_aead128_absorb_aad ?b d1 (length d1)
      = ?b\<lparr>adPart := d1 @ replicate (16 - length d1) 0, adPartSz := of_nat (length d1)\<rparr>"
    using assms b(4) by (subst absorb_short [OF b(1,3)]) (auto simp add: write_at_def)
  have two: "ascon_aead128_absorb_aad (ascon_aead128_absorb_aad ?b d1 (length d1)) d2 (length d2)
      = ?b\<lparr>os := ?s, adPartSz := of_nat r, adPart := write_at 0 ?rest (take 16 ?ad)\<rparr>"
    unfolding first using assms b
    by (subst absorb_fill [where k = "length d1" and r = r and ?d1.0 = d1]) (simp_all add: rest(2) del: drop_append take_append)
  have "length ?ad = 16 + r" using assms by simp
  from absorb_one_block [OF b(1,3) this assms(5,6)]
  have one: "ascon_aead128_absorb_aad ?b ?ad (length ?ad)
      = ?b\<lparr>os := ?s, adPartSz := of_nat r, adPart := write_at 0 ?rest (replicate 16 0)\<rparr>"
    by (simp only: b(4))
  have fin: "os (ascon_aead128_aad_finalize (?b\<lparr>os := ?s, adPartSz := of_nat r, adPart := write_at 0 ?rest z\<rparr>))
      = domain_bit (perm8 (xor_words ?s (padded_buffer ?rest z)))" for z
    using finalize_started [of "?b\<lparr>os := ?s, adPartSz := of_nat r, adPart := write_at 0 ?rest z\<rparr>" r] b assms(5,6)
    by (simp add: padded_buffer_def rest(1) [unfolded length_drop length_append] del: drop_append)
  have "length (padded_buffer ?rest z) = 16" if "length z = 16" for z
    using that rest(1) assms by (simp add: padded_buffer_def del: drop_append)
  then have "xor_words ?s (padded_buffer ?rest (take 16 ?ad)) = xor_words ?s (padded_buffer ?rest (replicate 16 0))
      \<longleftrightarrow> drop r (take 16 ?ad) = replicate (16 - r) 0"
    using assms padded_buffer_eq_iff [of "take 16 ?ad" "replicate 16 0" ?rest] rest(1)
    by (simp add: xor_words_inj del: drop_append take_append)
  then show ?thesis
    unfolding absorb_aad_start [OF b(5)] two one fin by simp
qed

section \<open>Encryption\<close>

definition ossl_cfg :: "ASCON_AEAD128_CTX \<Rightarrow> AsconState \<times> nat" where
  "ossl_cfg a = (os a, unat (olast a))"

definition ossl_set :: "ASCON_AEAD128_CTX \<Rightarrow> AsconState \<times> nat \<Rightarrow> ASCON_AEAD128_CTX" where
  "ossl_set a c = a\<lparr>os := fst c, olast := of_nat (snd c)\<rparr>"

lemma ossl_encrypt_loop_run:
  assumes "n \<le> length d" and "ossl_encrypt_loop s d n = (s', d', n', out)"
  shows "n' \<le> length d' \<and> n' < 16 \<and> n' \<le> n \<and> dx_run keep_xor 16 perm8 (s, 0) (take n d)
      = (let (c, rest) = dx_run keep_xor 16 perm8 (s', 0) (take n' d') in (c, out @ rest))"
  using assms
proof (induction s d n arbitrary: out rule: ossl_encrypt_loop.induct)
  case (1 s d n)
  show ?case
  proof (cases "16 \<le> n")
    case True
    let ?s = "xor_words s d"
    let ?o = "bytes_of_u64 (s64_0 ?s) @ bytes_of_u64 (s64_1 ?s)"
    obtain out' where rec: "ossl_encrypt_loop (perm8 ?s) (drop 16 d) (n - 16) = (s', d', n', out')"
      and out: "out = ?o @ out'"
      using 1(3) True by (auto simp: ossl_encrypt_loop.simps [of s d n] ascon_permute_eq Let_def split: prod.splits)
    then have IH: "n' \<le> length d' \<and> n' < 16 \<and> n' \<le> n - 16 \<and>
        dx_run keep_xor 16 perm8 (perm8 ?s, 0) (take (n - 16) (drop 16 d))
          = (let (c, rest) = dx_run keep_xor 16 perm8 (s', 0) (take n' d') in (c, out' @ rest))"
      using "1.IH" [OF _ refl refl refl] True 1(2) by (simp add: ascon_permute_eq)
    have "take n d = take 16 d @ take (n - 16) (drop 16 d)"
      using True by (simp flip: take_add)
    moreover have "dx_run keep_xor 16 perm8 (s, 0) (take 16 d) = ((perm8 ?s, 0), ?o)"
      using xor_words_block True 1(2) by simp
    moreover have "n' \<le> n" using IH by linarith
    ultimately show ?thesis
      using IH by (simp add: out aead_dx.run_append case_prod_unfold Let_def)
  next
    case False
    then show ?thesis using 1 by (simp add: ossl_encrypt_loop.simps [of s d n])
  qed
qed

lemma ossl_encrypt_blocks_run:
  assumes "n \<le> length d" and "olast a = 0"
  shows "ossl_encrypt_blocks a d n
    = (case dx_run keep_xor 16 perm8 (os a, 0) (take n d) of (c, out) \<Rightarrow> (ossl_set a c, out, n))"
proof -
  obtain s' d' n' out where l: "ossl_encrypt_loop (os a) d n = (s', d', n', out)"
    by (metis prod_cases4)
  from ossl_encrypt_loop_run [OF assms(1) l] have n': "n' \<le> length d'" "n' < 16" "n' \<le> n"
    and run: "dx_run keep_xor 16 perm8 (os a, 0) (take n d)
      = (let (c, rest) = dx_run keep_xor 16 perm8 (s', 0) (take n' d') in (c, out @ rest))"
    by simp_all
  show ?thesis
  proof (cases "n' = 0")
    case True
    then show ?thesis using assms(2) run by (simp add: ossl_encrypt_blocks_def l ossl_set_def)
  next
    case False
    have "dx_run keep_xor 16 perm8 (s', 0) (take n' d')
        = ((xor_bytes_loop s' 0 d' n', n'), xor_bytes (s8 s') (take n' d'))"
      using xor_bytes_chunk [OF aead_dx.duplex_axioms, where pos = 0 and n = n' and d = d' and s = s' and P = perm8]
        n' by (simp add: Let_def)
    then show ?thesis
      using False run n' encrypt_bytes_loop_eq [of 0 n' d' s']
      by (simp add: ossl_encrypt_blocks_def l ossl_set_def)
  qed
qed

lemma ossl_set_simps [simp]:
  "ossl_cfg (ossl_set a c) = (if snd c < 256 then c else ossl_cfg (ossl_set a c))"
  "okey0 (ossl_set a c) = okey0 a" "okey1 (ossl_set a c) = okey1 a" "adDone (ossl_set a c) = adDone a"
  "enc (ossl_set a c) = enc a" "otag (ossl_set a c) = otag a" "oct (ossl_set a c) = oct a"
  by (cases c; simp add: ossl_set_def ossl_cfg_def unat_of_nat)+

lemma finalize_done: "adDone a \<Longrightarrow> ascon_aead128_aad_finalize a = a"
  by (simp add: ascon_aead128_aad_finalize_def)

text \<open>\<open>encrypt_update\<close> is a run from wherever the last call stopped.\<close>

lemma ossl_encrypt_update_run:
  assumes "adDone a" and "snd (ossl_cfg a) < 16" and "n \<le> length d"
  shows "ascon_aead128_encrypt_update a d n
    = (case dx_run keep_xor 16 perm8 (ossl_cfg a) (take n d) of (c, out) \<Rightarrow> (ossl_set a c, out, n))"
proof (cases "olast a = 0")
  case True
  then show ?thesis
    using assms(1) ossl_encrypt_blocks_run [OF assms(3) True]
    by (simp add: ascon_aead128_encrypt_update_def finalize_done ossl_cfg_def)
next
  case False
  let ?l = "unat (olast a)"
  define k where "k = min (16 - ?l) n"
  let ?s = "xor_bytes_loop (os a) ?l d k" let ?o = "xor_bytes (drop ?l (s8 (os a))) (take k d)"
  have l: "?l < 16" using assms(2) by (simp add: ossl_cfg_def)
  have room: "room 16 (olast a) n = k" using l by (simp add: room_min k_def)
  have k: "k \<le> length d" "?l + k \<le> 16" "k \<le> n" using assms(3) l by (simp_all add: k_def)
  have sum: "unat (olast a + of_nat k) = ?l + k" using k(2) by (rule size_add)
  have full: "olast a + of_nat k = 16 \<longleftrightarrow> ?l + k = 16" using sum by (rule size_full)
  have bytes: "encrypt_bytes_loop (os a) ?l d k = (?s, ?o)" using k by (simp add: encrypt_bytes_loop_eq)
  have chunk: "dx_run keep_xor 16 perm8 (ossl_cfg a) (take k d)
      = (if ?l + k = 16 then (perm8 ?s, 0) else (?s, ?l + k), ?o)"
    using xor_bytes_chunk [OF aead_dx.duplex_axioms l k(2,1), where s = "os a" and P = perm8]
    by (simp add: ossl_cfg_def Let_def)
  have upd: "ascon_aead128_encrypt_update a d n
      = (case ossl_encrypt_blocks (if ?l + k = 16 then a\<lparr>os := perm8 ?s, olast := 0\<rparr>
            else a\<lparr>os := ?s, olast := olast a + of_nat k\<rparr>) (drop k d) (n - k) of
         (a', rest, m) \<Rightarrow> (a', ?o @ rest, k + m))"
    using False assms(1) by (simp add: ascon_aead128_encrypt_update_def finalize_done room bytes full
        ascon_permute_eq word_greater_zero_iff Let_def)
  show ?thesis
  proof (cases "?l + k = 16")
    case True
    have "take n d = take k d @ take (n - k) (drop k d)" using k(3) by (simp flip: take_add)
    moreover have "n - k \<le> length (drop k d)" using assms(3) by simp
    note ossl_encrypt_blocks_run [OF this, of "a\<lparr>os := perm8 ?s, olast := 0\<rparr>"]
    ultimately show ?thesis
      using True chunk k(3) by (simp add: upd aead_dx.run_append ossl_set_def case_prod_unfold Let_def)
  next
    case False
    then have "k = n" using k by (simp add: k_def)
    moreover have "ossl_encrypt_loop s e 0 = (s, e, 0, [])" for s e
      by (subst ossl_encrypt_loop.simps) simp
    ultimately show ?thesis
      using False chunk by (simp add: upd ossl_encrypt_blocks_def ossl_set_def)
  qed
qed

section \<open>Decryption\<close>

text \<open>The scratch buffer \<open>ct\<close> is only ever a prefix of the input over older bytes.\<close>

lemma take_write_16: "16 \<le> length inp \<Longrightarrow> length ct = 16 \<Longrightarrow> write_at 0 (read_at 0 16 inp) ct = take 16 inp"
  by (simp add: write_at_def read_at_def)

lemma decrypt_bytes_loop_take: "n \<le> m \<Longrightarrow> decrypt_bytes_loop s off (take m d) n = decrypt_bytes_loop s off d n"
  by (induction n) (simp_all add: Let_def split: prod.splits)

lemma decrypt_bytes_loop_scratch:
  assumes "n \<le> length d" and "n \<le> 16" and "length ct = 16"
  shows "decrypt_bytes_loop s off (write_at 0 (read_at 0 n d) ct) n = decrypt_bytes_loop s off d n"
proof -
  have "take n (write_at 0 (read_at 0 n d) ct) = take n d"
    using assms by (simp add: write_at_def read_at_def)
  then show ?thesis by (metis decrypt_bytes_loop_take order_refl)
qed

lemma ossl_decrypt_loop_run:
  assumes "n \<le> length d" and "length ct = 16" and "ossl_decrypt_loop s ct d n = (s', ct', d', n', out)"
  shows "n' \<le> length d' \<and> n' < 16 \<and> n' \<le> n \<and> length ct' = 16 \<and> dx_run keep_input 16 perm8 (s, 0) (take n d)
      = (let (c, rest) = dx_run keep_input 16 perm8 (s', 0) (take n' d') in (c, out @ rest))"
  using assms
proof (induction s ct d n arbitrary: out rule: ossl_decrypt_loop.induct)
  case (1 s ct d n)
  show ?case
  proof (cases "16 \<le> n")
    case True
    let ?a = "u64_of_bytes (read_at 0 8 d)" let ?b = "u64_of_bytes (read_at 8 8 d)"
    let ?s = "s\<lparr>s64_0 := ?a, s64_1 := ?b\<rparr>"
    let ?o = "bytes_of_u64 (s64_0 s XOR ?a) @ bytes_of_u64 (s64_1 s XOR ?b)"
    have scratch: "write_at 0 (read_at 0 16 d) ct = take 16 d"
      using 1(2,3) True by (intro take_write_16) simp_all
    have words: "read_at 0 8 (take 16 d) = read_at 0 8 d" "read_at 8 8 (take 16 d) = read_at 8 8 d"
      by (simp_all add: read_at_def drop_take)
    have unfold: "ossl_decrypt_loop s ct d n = (case ossl_decrypt_loop (perm8 ?s) (take 16 d) (drop 16 d) (n - 16) of
        (s', ct', d', n', rest) \<Rightarrow> (s', ct', d', n', ?o @ rest))"
      using True by (subst ossl_decrypt_loop.simps) (simp add: scratch words ascon_permute_eq Let_def)
    then obtain out' where rec: "ossl_decrypt_loop (perm8 ?s) (take 16 d) (drop 16 d) (n - 16) = (s', ct', d', n', out')"
      and out: "out = ?o @ out'"
      using 1(4) by (auto split: prod.splits)
    have "length (take 16 d) = 16" "n - 16 \<le> length (drop 16 d)" using 1(2) True by simp_all
    with rec have IH: "n' \<le> length d' \<and> n' < 16 \<and> n' \<le> n - 16 \<and> length ct' = 16 \<and>
        dx_run keep_input 16 perm8 (perm8 ?s, 0) (take (n - 16) (drop 16 d))
          = (let (c, rest) = dx_run keep_input 16 perm8 (s', 0) (take n' d') in (c, out' @ rest))"
      using "1.IH" [OF _ refl refl refl refl] True by (simp add: scratch words ascon_permute_eq)
    have "take n d = take 16 d @ take (n - 16) (drop 16 d)"
      using True by (simp flip: take_add)
    moreover have "dx_run keep_input 16 perm8 (s, 0) (take 16 d) = ((perm8 ?s, 0), ?o)"
      using load_words_block True 1(2) by simp
    moreover have "n' \<le> n" using IH by linarith
    ultimately show ?thesis
      using IH by (simp add: out aead_dec_dx.run_append case_prod_unfold Let_def)
  next
    case False
    then show ?thesis using 1 by (simp add: ossl_decrypt_loop.simps [of s ct d n])
  qed
qed

lemma ossl_decrypt_blocks_run:
  assumes "n \<le> length d" and "olast a = 0" and "length (oct a) = 16"
  shows "\<exists>ct. length ct = 16 \<and> ossl_decrypt_blocks a d n
    = (case dx_run keep_input 16 perm8 (os a, 0) (take n d) of (c, out) \<Rightarrow> (ossl_set (a\<lparr>oct := ct\<rparr>) c, out, n))"
proof -
  obtain s' ct' d' n' out where l: "ossl_decrypt_loop (os a) (oct a) d n = (s', ct', d', n', out)"
    by (metis prod_cases5)
  from ossl_decrypt_loop_run [OF assms(1,3) l] have n': "n' \<le> length d'" "n' < 16" "n' \<le> n" "length ct' = 16"
    and run: "dx_run keep_input 16 perm8 (os a, 0) (take n d)
      = (let (c, rest) = dx_run keep_input 16 perm8 (s', 0) (take n' d') in (c, out @ rest))"
    by simp_all
  show ?thesis
  proof (cases "n' = 0")
    case True
    then show ?thesis using assms(2) run n'(4)
      by (intro exI [of _ ct']) (simp add: ossl_decrypt_blocks_def l ossl_set_def)
  next
    case False
    obtain s'' rest where dec: "decrypt_bytes_loop s' 0 d' n' = (s'', rest)" by fastforce
    have "dx_run keep_input 16 perm8 (s', 0) (take n' d') = ((s'', n'), rest)"
      using decrypt_bytes_chunk [of 0 n' d' s'] n' by (simp add: dec)
    moreover have "decrypt_bytes_loop s' 0 (write_at 0 (read_at 0 n' d') ct') n' = (s'', rest)"
      using decrypt_bytes_loop_scratch [of n' d' ct'] n' dec by simp
    ultimately show ?thesis
      using False run n'
      by (intro exI [of _ "write_at 0 (read_at 0 n' d') ct'"])
        (simp add: ossl_decrypt_blocks_def l ossl_set_def Let_def)
  qed
qed

lemma ossl_decrypt_update_run:
  assumes "adDone a" and "snd (ossl_cfg a) < 16" and "n \<le> length d" and "length (oct a) = 16"
  shows "\<exists>ct. length ct = 16 \<and> ascon_aead128_decrypt_update a d n
    = (case dx_run keep_input 16 perm8 (ossl_cfg a) (take n d) of (c, out) \<Rightarrow> (ossl_set (a\<lparr>oct := ct\<rparr>) c, out, n))"
proof (cases "olast a = 0")
  case True
  then show ?thesis
    using assms(1) ossl_decrypt_blocks_run [OF assms(3) True assms(4)]
    by (simp add: ascon_aead128_decrypt_update_def finalize_done ossl_cfg_def)
next
  case False
  let ?l = "unat (olast a)"
  define k where "k = min (16 - ?l) n"
  define ct where "ct = write_at 0 (read_at 0 k d) (oct a)"
  obtain s o' where dec: "decrypt_bytes_loop (os a) ?l d k = (s, o')" by fastforce
  have l: "?l < 16" using assms(2) by (simp add: ossl_cfg_def)
  have room: "room 16 (olast a) n = k" using l by (simp add: room_min k_def)
  have k: "k \<le> length d" "?l + k \<le> 16" "k \<le> n" "k \<le> 16" using assms(3) l by (simp_all add: k_def)
  have ct: "length ct = 16" using k assms(4) by (simp add: ct_def)
  have dec': "decrypt_bytes_loop (os a) ?l ct k = (s, o')"
    using k assms(4) dec by (simp add: ct_def decrypt_bytes_loop_scratch)
  have sum: "unat (olast a + of_nat k) = ?l + k" using k(2) by (rule size_add)
  have full: "olast a + of_nat k = 16 \<longleftrightarrow> ?l + k = 16" using sum by (rule size_full)
  have chunk: "dx_run keep_input 16 perm8 (ossl_cfg a) (take k d)
      = (if ?l + k = 16 then (perm8 s, 0) else (s, ?l + k), o')"
    using decrypt_bytes_chunk [OF l k(2,1), of "os a"] by (simp add: ossl_cfg_def dec)
  have upd: "ascon_aead128_decrypt_update a d n
      = (case ossl_decrypt_blocks (if ?l + k = 16 then a\<lparr>oct := ct, os := perm8 s, olast := 0\<rparr>
            else a\<lparr>oct := ct, os := s, olast := olast a + of_nat k\<rparr>) (drop k d) (n - k) of
         (a', rest, m) \<Rightarrow> (a', o' @ rest, k + m))"
    using False assms(1) by (simp add: ascon_aead128_decrypt_update_def finalize_done room dec' full
        ascon_permute_eq word_greater_zero_iff Let_def flip: ct_def)
  show ?thesis
  proof (cases "?l + k = 16")
    case True
    have "take n d = take k d @ take (n - k) (drop k d)" using k(3) by (simp flip: take_add)
    then have run: "dx_run keep_input 16 perm8 (ossl_cfg a) (take n d)
        = (case dx_run keep_input 16 perm8 (perm8 s, 0) (take (n - k) (drop k d)) of (c, out) \<Rightarrow> (c, o' @ out))"
      using True chunk by (simp add: aead_dec_dx.run_append case_prod_unfold Let_def)
    have "n - k \<le> length (drop k d)" using assms(3) by simp
    from ossl_decrypt_blocks_run [OF this, of "a\<lparr>oct := ct, os := perm8 s, olast := 0\<rparr>"] ct
    obtain ct' where "length ct' = 16" and "ossl_decrypt_blocks (a\<lparr>oct := ct, os := perm8 s, olast := 0\<rparr>) (drop k d) (n - k)
        = (case dx_run keep_input 16 perm8 (perm8 s, 0) (take (n - k) (drop k d)) of
             (c, out) \<Rightarrow> (ossl_set (a\<lparr>oct := ct'\<rparr>) c, out, n - k))"
      by (auto simp: ossl_set_def)
    with True k(3) show ?thesis
      by (intro exI [of _ ct']) (simp add: upd run case_prod_unfold)
  next
    case False
    then have "k = n" using k by (simp add: k_def)
    moreover have "ossl_decrypt_loop t c e 0 = (t, c, e, 0, [])" for t c e
      by (subst ossl_decrypt_loop.simps) simp
    ultimately show ?thesis
      using False chunk ct by (intro exI [of _ ct]) (simp add: upd ossl_decrypt_blocks_def ossl_set_def)
  qed
qed

section \<open>The tag\<close>

lemma or_foldl_zero:
  "foldl (\<lambda>diff i. diff OR f i) d xs = 0 \<longleftrightarrow> d = 0 \<and> (\<forall>i \<in> set xs. f i = (0 :: u8))"
  by (induction xs arbitrary: d) (auto simp: or_eq_0_iff)

lemma diff_bytes_zero:
  assumes "length x = 16" and "length y = 16"
  shows "diff_bytes x y = 0 \<longleftrightarrow> x = y"
proof -
  have "x ! i XOR y ! i = 0 \<longleftrightarrow> x ! i = y ! i" for i by (metis xor_right_inj xor_self_eq)
  then show ?thesis
    using assms by (auto simp: diff_bytes_def or_foldl_zero list_eq_iff_nth_eq)
qed

lemma ossl_final:
  assumes "adDone a"
  defines "t \<equiv> aead_tag (okey0 a) (okey1 a) (ossl_cfg a)"
  shows "enc a \<Longrightarrow> \<exists>s. ascon_aead128_final a = (a\<lparr>os := s, otag := t\<rparr>, True)"
    and "\<not> enc a \<Longrightarrow> length (otag a) = 16 \<Longrightarrow> \<exists>s. ascon_aead128_final a = (a\<lparr>os := s\<rparr>, otag a = t)"
proof -
  let ?s = "aead_close (okey0 a) (okey1 a) (ossl_cfg a)"
  have t: "t = read_at 24 16 (s8 ?s)" by (simp add: t_def aead_tag_def)
  have fin: "ascon_aead128_final a = (if enc a then (a\<lparr>os := ?s, otag := t\<rparr>, True)
      else (a\<lparr>os := ?s\<rparr>, diff_bytes t (otag a) = 0))"
    unfolding t using assms(1)
    by (simp add: ascon_aead128_final_def finalize_done aead_close_def pad_def ossl_cfg_def ascon_permute_eq Let_def)
  show "enc a \<Longrightarrow> \<exists>s. ascon_aead128_final a = (a\<lparr>os := s, otag := t\<rparr>, True)"
    unfolding fin by auto
  show "\<not> enc a \<Longrightarrow> length (otag a) = 16 \<Longrightarrow> \<exists>s. ascon_aead128_final a = (a\<lparr>os := s\<rparr>, otag a = t)"
    unfolding fin using diff_bytes_zero [of t "otag a"] by (auto simp: t_def)
qed

end
