(* ===== verification/Ossl_Provider_Correct.thy ===== *)
theory Ossl_Provider_Correct
  imports Ossl_Provider Ossl_Aead_Correct Wc_Aead_Api
begin

text \<open>
  What the provider's cipher computes for a record, by the call sequence its header names
  (nonce, associated data, tag on decryption, data, final, tag on encryption), and when
  that is the record the wolfSSL API computes. The digest functions are a hash interface
  with the same digest as wolfSSL's.
\<close>

section \<open>One-shot specification of the core\<close>

definition ossl_seal :: "u8 list \<Rightarrow> u8 list \<Rightarrow> u8 list \<Rightarrow> u8 list \<Rightarrow> u8 list \<times> u8 list" where
  "ossl_seal key nonce ad pt = (case key_words key of (k0, k1) \<Rightarrow>
     (case dx_run keep_xor 16 perm8 (ossl_ready key nonce ad, 0) pt of
        (c, ct) \<Rightarrow> (ct, aead_tag k0 k1 c)))"

definition ossl_open :: "u8 list \<Rightarrow> u8 list \<Rightarrow> u8 list \<Rightarrow> u8 list \<Rightarrow> u8 list \<Rightarrow> u8 list option" where
  "ossl_open key nonce ad ct tag = (case key_words key of (k0, k1) \<Rightarrow>
     (case dx_run keep_input 16 perm8 (ossl_ready key nonce ad, 0) ct of
        (c, pt) \<Rightarrow> if tag = aead_tag k0 k1 c then Some pt else None))"

lemma ossl_open_seal: "ossl_open key nonce ad ct tag = Some pt \<longleftrightarrow> ossl_seal key nonce ad pt = (ct, tag)"
proof
  assume "ossl_open key nonce ad ct tag = Some pt"
  then show "ossl_seal key nonce ad pt = (ct, tag)"
    using aead_dx.mirror_run_back [of "(ossl_ready key nonce ad, 0)" ct]
    by (auto simp: ossl_open_def ossl_seal_def split: prod.splits if_splits)
next
  assume "ossl_seal key nonce ad pt = (ct, tag)"
  then show "ossl_open key nonce ad ct tag = Some pt"
    using aead_dx.mirror_run [of "(ossl_ready key nonce ad, 0)" pt]
    by (auto simp: ossl_open_def ossl_seal_def split: prod.splits)
qed

lemma ossl_seal_tag_length: "ossl_seal key nonce ad pt = (ct, tag) \<Longrightarrow> length tag = 16"
  by (auto simp: ossl_seal_def aead_tag_def Let_def split: prod.splits)

lemma ossl_seal_wc:
  assumes "ad = [] \<or> length ad mod 16 \<noteq> 0"
  shows "ossl_seal key nonce ad pt = aead_seal key nonce ad pt"
    and "ossl_open key nonce ad ct tag = aead_open key nonce ad ct tag"
  using ossl_absorb_ad_agrees [OF assms]
  by (simp_all add: ossl_seal_def aead_seal_def ossl_open_def aead_open_def ossl_ready_def aead_ready_def)

section \<open>A record through the provider\<close>

text \<open>Data pieces through \<open>ascon128_update\<close>, the output buffer as large as the input.\<close>

fun provider_updates :: "ASCON_AEAD128_CTX \<Rightarrow> u8 list list \<Rightarrow> bool \<times> ASCON_AEAD128_CTX \<times> u8 list" where
  "provider_updates ctx [] = (True, ctx, [])"
| "provider_updates ctx (d # ds) =
     (case ascon128_update ctx PTR (length d) d (length d) of
        (False, ctx, _, out) \<Rightarrow> (False, ctx, out)
      | (True, ctx, _, out) \<Rightarrow> (case provider_updates ctx ds of (ok, ctx, rest) \<Rightarrow> (ok, ctx, out @ rest)))"

text \<open>Encrypting: init with a nonce, associated data, data, final, read the tag.\<close>

definition provider_seal :: "ossl_params_api \<Rightarrow> ASCON_AEAD128_CTX \<Rightarrow> u8 list \<Rightarrow> u8 list \<Rightarrow> u8 list list
    \<Rightarrow> (u8 list \<times> u8 list) option" where
  "provider_seal A ctx nonce ad pts =
     (case ascon128_einit A ctx None 0 (Some nonce) (length nonce) [] of (ok, ctx) \<Rightarrow>
      if \<not> ok then None else
     (case ascon128_update ctx NULL 0 ad (length ad) of (ok, ctx, _, _) \<Rightarrow>
      if \<not> ok then None else
     (case provider_updates ctx pts of (ok, ctx, ct) \<Rightarrow>
      if \<not> ok then None else
     (case ascon128_final_fn ctx of (ok, ctx, _) \<Rightarrow>
      if \<not> ok then None else
     (case ascon128_get_ctx_params A ctx
         [\<lparr>pkey = PARAM_AEAD_TAG, data_type = octet_string A, pdata = Some (replicate 16 0),
           data_size = 16, return_size = 0\<rparr>] of
        None \<Rightarrow> None
      | Some ps \<Rightarrow> Some (ct, bytes_at (pdata (ps ! 0))))))))"

definition tag_param :: "ossl_params_api \<Rightarrow> u8 list \<Rightarrow> ossl_param" where
  "tag_param A tag = \<lparr>pkey = PARAM_AEAD_TAG, data_type = octet_string A, pdata = Some tag,
     data_size = length tag, return_size = 0\<rparr>"

text \<open>Decrypting: the expected tag is set with the nonce; a failing final gives no plaintext.\<close>

definition provider_open :: "ossl_params_api \<Rightarrow> ASCON_AEAD128_CTX \<Rightarrow> u8 list \<Rightarrow> u8 list \<Rightarrow> u8 list list
    \<Rightarrow> u8 list \<Rightarrow> u8 list option" where
  "provider_open A ctx nonce ad cts tag =
     (case ascon128_dinit A ctx None 0 (Some nonce) (length nonce) [tag_param A tag] of (ok, ctx) \<Rightarrow>
      if \<not> ok then None else
     (case ascon128_update ctx NULL 0 ad (length ad) of (ok, ctx, _, _) \<Rightarrow>
      if \<not> ok then None else
     (case provider_updates ctx cts of (ok, ctx, pt) \<Rightarrow>
      if \<not> ok then None else
     (case ascon128_final_fn ctx of (ok, ctx, _) \<Rightarrow> if \<not> ok then None else Some pt))))"

text \<open>
  The updates start with \<open>adDone\<close> unset: the first one that carries data closes the
  associated data, and if there is none \<open>final\<close> does. Either way what follows sees the
  finalized context.
\<close>

lemma finalize_adDone [simp]: "adDone (ascon_aead128_aad_finalize a)"
  by (simp add: ascon_aead128_aad_finalize_def Let_def)

lemma finalize_finalize [simp]:
  "ascon_aead128_aad_finalize (ascon_aead128_aad_finalize a) = ascon_aead128_aad_finalize a"
  by (rule finalize_done) (rule finalize_adDone)

lemma update_finalize:
  "ascon_aead128_encrypt_update (ascon_aead128_aad_finalize a) = ascon_aead128_encrypt_update a"
  "ascon_aead128_decrypt_update (ascon_aead128_aad_finalize a) = ascon_aead128_decrypt_update a"
  "ascon_aead128_final (ascon_aead128_aad_finalize a) = ascon_aead128_final a"
  by (simp_all add: fun_eq_iff ascon_aead128_encrypt_update_def ascon_aead128_decrypt_update_def
      ascon_aead128_final_def)

lemma finalize_keeps [simp]:
  "enc (ascon_aead128_aad_finalize a) = enc a" "otag (ascon_aead128_aad_finalize a) = otag a"
  "okey0 (ascon_aead128_aad_finalize a) = okey0 a" "okey1 (ascon_aead128_aad_finalize a) = okey1 a"
  "olast (ascon_aead128_aad_finalize a) = olast a" "oct (ascon_aead128_aad_finalize a) = oct a"
  by (simp_all add: ascon_aead128_aad_finalize_def aad_start_def Let_def)

text \<open>A context whose associated data is closed, except that \<open>aad_finalize\<close> may be pending.\<close>

definition ossl_at :: "u64 \<times> u64 \<Rightarrow> bool \<Rightarrow> u8 list \<Rightarrow> AsconState \<times> nat \<Rightarrow> ASCON_AEAD128_CTX \<Rightarrow> bool" where
  "ossl_at k e t c a \<longleftrightarrow> (let b = ascon_aead128_aad_finalize a in
     adDone b \<and> (okey0 b, okey1 b) = k \<and> enc b = e \<and> otag b = t \<and> ossl_cfg b = c \<and> length (oct b) = 16)"

lemma provider_updates_encrypt:
  assumes "ossl_at k True t c a" and "snd c < 16"
  shows "\<exists>a'. provider_updates a ds = (True, a', snd (dx_run keep_xor 16 perm8 c (concat ds)))
    \<and> ossl_at k True t (fst (dx_run keep_xor 16 perm8 c (concat ds))) a'"
  using assms
proof (induction ds arbitrary: a c)
  case Nil
  then show ?case by simp
next
  case (Cons d ds)
  let ?b = "ascon_aead128_aad_finalize a"
  show ?case
  proof (cases "d = []")
    case True
    then show ?thesis using Cons by (simp add: ascon128_update_def)
  next
    case False
    let ?c = "fst (dx_run keep_xor 16 perm8 c d)" let ?a = "ossl_set ?b ?c"
    have b: "adDone ?b" "enc a" "ossl_cfg ?b = c" "length (oct a) = 16"
      using Cons.prems(1) by (simp_all add: ossl_at_def Let_def)
    have pos: "snd ?c < 16" using aead_dx.run_pos_less [OF Cons.prems(2)] .
    have "ascon_aead128_encrypt_update a d (length d) = (?a, snd (dx_run keep_xor 16 perm8 c d), length d)"
      using ossl_encrypt_update_run [OF b(1), of "length d" d] b Cons.prems(2)
      by (simp add: update_finalize case_prod_unfold)
    then have upd: "ascon128_update a PTR (length d) d (length d)
        = (True, ?a, Some (length d), snd (dx_run keep_xor 16 perm8 c d))"
      using False b by (simp add: ascon128_update_def)
    have "ossl_at k True t ?c ?a"
      using Cons.prems(1) b pos by (simp add: ossl_at_def finalize_done Let_def)
    from Cons.IH [OF this pos] show ?thesis
      by (auto simp: upd aead_dx.run_append case_prod_unfold Let_def)
  qed
qed

lemma provider_updates_decrypt:
  assumes "ossl_at k False t c a" and "snd c < 16"
  shows "\<exists>a'. provider_updates a ds = (True, a', snd (dx_run keep_input 16 perm8 c (concat ds)))
    \<and> ossl_at k False t (fst (dx_run keep_input 16 perm8 c (concat ds))) a'"
  using assms
proof (induction ds arbitrary: a c)
  case Nil
  then show ?case by simp
next
  case (Cons d ds)
  let ?b = "ascon_aead128_aad_finalize a"
  show ?case
  proof (cases "d = []")
    case True
    then show ?thesis using Cons by (simp add: ascon128_update_def)
  next
    case False
    let ?c = "fst (dx_run keep_input 16 perm8 c d)"
    have b: "adDone ?b" "\<not> enc a" "ossl_cfg ?b = c" "length (oct ?b) = 16"
      using Cons.prems(1) by (simp_all add: ossl_at_def Let_def)
    have pos: "snd ?c < 16" using aead_dec_dx.run_pos_less [OF Cons.prems(2)] .
    from ossl_decrypt_update_run [OF b(1) _ order_refl b(4), of d] b(3) Cons.prems(2)
    obtain x where x: "length x = 16" "ascon_aead128_decrypt_update a d (length d)
        = (ossl_set (?b\<lparr>oct := x\<rparr>) ?c, snd (dx_run keep_input 16 perm8 c d), length d)"
      by (auto simp: update_finalize case_prod_unfold)
    then have upd: "ascon128_update a PTR (length d) d (length d)
        = (True, ossl_set (?b\<lparr>oct := x\<rparr>) ?c, Some (length d), snd (dx_run keep_input 16 perm8 c d))"
      using False b by (simp add: ascon128_update_def)
    have "ossl_at k False t ?c (ossl_set (?b\<lparr>oct := x\<rparr>) ?c)"
      using Cons.prems(1) b pos x by (simp add: ossl_at_def finalize_done Let_def)
    from Cons.IH [OF this pos] show ?thesis
      by (auto simp: upd aead_dec_dx.run_append case_prod_unfold Let_def)
  qed
qed

lemma reset_fresh:
  assumes "length nonce = 16" and "(okey0 a, okey1 a) = (k0, k1)"
  defines "r \<equiv> ascon_aead128_reset a (bytes_of_u64 k0 @ bytes_of_u64 k1) nonce"
  shows "aad_fresh r" and "aad_run_start r = aead_start k0 k1 nonce" and "enc r = enc a" and "otag r = otag a"
    and "okey0 r = k0" and "okey1 r = k1" and "olast r = 0" and "length (oct r) = 16"
proof -
  have kw: "u64_of_bytes (read_at 0 8 (bytes_of_u64 k0 @ bytes_of_u64 k1)) = k0"
      "u64_of_bytes (read_at 8 8 (bytes_of_u64 k0 @ bytes_of_u64 k1)) = k1"
    by (simp_all add: read_at_def)
  have n: "read_at 0 8 nonce = take 8 nonce" "read_at 8 8 nonce = drop 8 nonce"
    using assms(1) by (simp_all add: read_at_def)
  show "aad_fresh r" by (simp add: r_def ascon_aead128_reset_def aad_fresh_def Let_def)
  show "aad_run_start r = aead_start k0 k1 nonce"
    by (simp add: r_def ascon_aead128_reset_def aad_run_start_def aad_start_def kw n aead_start_def
        ascon_permute_eq ASCON_AEAD128_IV_def zero_state_def Let_def)
  show "enc r = enc a" "otag r = otag a" "okey0 r = k0" "okey1 r = k1" "olast r = 0" "length (oct r) = 16"
    by (simp_all add: r_def ascon_aead128_reset_def kw Let_def)
qed

text \<open>Associated data through \<open>ascon128_update\<close>: an empty one makes no call of the core.\<close>

lemma provider_ad:
  assumes "aad_fresh a" and "aad_run_start a = aead_start k0 k1 nonce" and "olast a = 0"
    and "(okey0 a, okey1 a) = (k0, k1)" and "key_words key = (k0, k1)" and "length (oct a) = 16"
  shows "\<exists>a' x y. ascon128_update a NULL 0 ad (length ad) = (True, a', x, y)
    \<and> ossl_at (k0, k1) (enc a) (otag a) (ossl_ready key nonce ad, 0) a'"
proof (cases "ad = []")
  case True
  have "os (ascon_aead128_aad_finalize a) = ossl_ready key nonce ad" and "adDone (ascon_aead128_aad_finalize a)"
    using assms True by (simp_all add: ascon_aead128_aad_finalize_def aad_fresh_def aad_start_only_os
        ossl_ready_def ossl_absorb_ad_def Let_def)
  with True assms show ?thesis
    by (simp add: ascon128_update_def ossl_at_def ossl_cfg_def Let_def)
next
  case False
  let ?b = "ascon_aead128_absorb_aad a ad (length ad)"
  have fin: "ascon_aead128_aad_finalize ?b = a\<lparr>os := ossl_ready key nonce ad, adStarted := True, adDone := True,
        adPart := adPart (ascon_aead128_aad_finalize ?b)\<rparr>"
    using absorb_then_finalize [OF assms(1), of ad] assms by (simp add: ossl_ready_def)
  have "ossl_at (k0, k1) (enc a) (otag a) (ossl_ready key nonce ad, 0) ?b"
    using assms by (subst ossl_at_def, subst fin) (simp add: ossl_cfg_def)
  with False show ?thesis by (simp add: ascon128_update_def)
qed

lemma final_at:
  assumes "ossl_at (k0, k1) e t c a"
  shows "e \<Longrightarrow> \<exists>a' x. ascon128_final_fn a = (True, a', x) \<and> otag a' = aead_tag k0 k1 c"
    and "\<not> e \<Longrightarrow> length t = 16 \<Longrightarrow> fst (ascon128_final_fn a) = (t = aead_tag k0 k1 c)"
proof -
  let ?b = "ascon_aead128_aad_finalize a"
  have b: "adDone ?b" "okey0 ?b = k0" "okey1 ?b = k1" "enc ?b = e" "otag ?b = t" "ossl_cfg ?b = c"
    using assms by (simp_all add: ossl_at_def Let_def)
  have fin: "ascon_aead128_final a = ascon_aead128_final ?b" by (simp only: update_finalize)
  show "e \<Longrightarrow> \<exists>a' x. ascon128_final_fn a = (True, a', x) \<and> otag a' = aead_tag k0 k1 c"
    using ossl_final(1) [OF b(1)] b by (auto simp: ascon128_final_fn_def fin simp del: finalize_keeps)
  show "\<not> e \<Longrightarrow> length t = 16 \<Longrightarrow> fst (ascon128_final_fn a) = (t = aead_tag k0 k1 c)"
    using ossl_final(2) [OF b(1)] b
    by (auto simp: ascon128_final_fn_def fin simp del: finalize_keeps split: if_splits)
qed

lemma size_params_absent:
  "params_ok A \<Longrightarrow> \<forall>p \<in> set ps. pkey p \<noteq> k \<Longrightarrow> size_param_ok A ps k n"
proof -
  have "\<forall>p \<in> set ps. pkey p \<noteq> k \<Longrightarrow> first_named k i ps = None" for i
    by (induction ps arbitrary: i) simp_all
  then show "params_ok A \<Longrightarrow> \<forall>p \<in> set ps. pkey p \<noteq> k \<Longrightarrow> size_param_ok A ps k n"
    by (simp add: size_param_ok_def params_ok_def)
qed

lemma provider_init:
  assumes "params_ok A" and "length nonce = 16" and "(okey0 ctx, okey1 ctx) = (k0, k1)"
  shows "ascon128_einit A ctx None 0 (Some nonce) (length nonce) []
      = (True, ascon_aead128_reset (ctx\<lparr>enc := True\<rparr>) (bytes_of_u64 k0 @ bytes_of_u64 k1) nonce)"
    and "length tag = 16 \<Longrightarrow> ascon128_dinit A ctx None 0 (Some nonce) (length nonce) [tag_param A tag]
      = (True, ascon_aead128_reset (ctx\<lparr>otag := tag, enc := False\<rparr>) (bytes_of_u64 k0 @ bytes_of_u64 k1) nonce)"
  using assms by (simp_all add: ascon128_einit_def ascon128_dinit_def ascon128_init_def ascon128_set_ctx_params_def
      size_params_absent tag_param_def params_ok_def Let_def)

lemma get_tag:
  assumes "params_ok A" and "length (otag ctx) = 16"
  shows "ascon128_get_ctx_params A ctx
         [\<lparr>pkey = PARAM_AEAD_TAG, data_type = octet_string A, pdata = Some (replicate 16 0),
           data_size = 16, return_size = 0\<rparr>]
    = Some [\<lparr>pkey = PARAM_AEAD_TAG, data_type = octet_string A, pdata = Some (otag ctx),
           data_size = 16, return_size = 16\<rparr>]"
  using assms by (simp add: ascon128_get_ctx_params_def put_param_def params_ok_def get_tag_param_def write_at_def)

lemma provider_seal_eq:
  assumes "params_ok A" and "(okey0 ctx, okey1 ctx) = key_words key" and "length nonce = 16"
  shows "provider_seal A ctx nonce ad pts = Some (ossl_seal key nonce ad (concat pts))"
proof -
  obtain k0 k1 where k: "key_words key = (k0, k1)" by (cases "key_words key")
  let ?r = "ascon_aead128_reset (ctx\<lparr>enc := True\<rparr>) (bytes_of_u64 k0 @ bytes_of_u64 k1) nonce"
  let ?c = "(ossl_ready key nonce ad, 0)"
  have r: "(okey0 (ctx\<lparr>enc := True\<rparr>), okey1 (ctx\<lparr>enc := True\<rparr>)) = (k0, k1)" using assms(2) k by simp
  note fresh = reset_fresh [OF assms(3) r]
  obtain a x y where ad: "ascon128_update ?r NULL 0 ad (length ad) = (True, a, x, y)"
    and a: "ossl_at (k0, k1) True (otag ?r) ?c a"
    using provider_ad [OF fresh(1,2,7) _ k fresh(8), of ad] fresh by auto
  obtain b where upd: "provider_updates a pts = (True, b, snd (dx_run keep_xor 16 perm8 ?c (concat pts)))"
    and b: "ossl_at (k0, k1) True (otag ?r) (fst (dx_run keep_xor 16 perm8 ?c (concat pts))) b"
    using provider_updates_encrypt [OF a, of pts] by auto
  obtain d z where fin: "ascon128_final_fn b = (True, d, z)"
    and tag: "otag d = aead_tag k0 k1 (fst (dx_run keep_xor 16 perm8 ?c (concat pts)))"
    using final_at(1) [OF b] by auto
  have init: "ascon128_einit A ctx None 0 (Some nonce) (length nonce) [] = (True, ?r)"
    using provider_init(1) [OF assms(1,3)] assms(2) k by simp
  show ?thesis
    using get_tag [OF assms(1), of d] tag
    by (simp add: provider_seal_def init ad upd fin ossl_seal_def k case_prod_unfold)
qed

lemma provider_open_eq:
  assumes "params_ok A" and "(okey0 ctx, okey1 ctx) = key_words key" and "length nonce = 16" and "length tag = 16"
  shows "provider_open A ctx nonce ad cts tag = ossl_open key nonce ad (concat cts) tag"
proof -
  obtain k0 k1 where k: "key_words key = (k0, k1)" by (cases "key_words key")
  let ?i = "ctx\<lparr>otag := tag, enc := False\<rparr>"
  let ?r = "ascon_aead128_reset ?i (bytes_of_u64 k0 @ bytes_of_u64 k1) nonce"
  let ?c = "(ossl_ready key nonce ad, 0)"
  have r: "(okey0 ?i, okey1 ?i) = (k0, k1)" using assms(2) k by simp
  note fresh = reset_fresh [OF assms(3) r]
  obtain a x y where ad: "ascon128_update ?r NULL 0 ad (length ad) = (True, a, x, y)"
    and a: "ossl_at (k0, k1) False tag ?c a"
    using provider_ad [OF fresh(1,2,7) _ k fresh(8), of ad] fresh by auto
  obtain b where upd: "provider_updates a cts = (True, b, snd (dx_run keep_input 16 perm8 ?c (concat cts)))"
    and b: "ossl_at (k0, k1) False tag (fst (dx_run keep_input 16 perm8 ?c (concat cts))) b"
    using provider_updates_decrypt [OF a, of cts] by auto
  obtain ok d z where fin: "ascon128_final_fn b = (ok, d, z)" by (metis prod_cases3)
  then have "ok = (tag = aead_tag k0 k1 (fst (dx_run keep_input 16 perm8 ?c (concat cts))))"
    using final_at(2) [OF b _ assms(4)] by simp
  moreover have "ascon128_dinit A ctx None 0 (Some nonce) (length nonce) [tag_param A tag] = (True, ?r)"
    using provider_init(2) [OF assms(1,3) _ assms(4)] assms(2) k by simp
  ultimately show ?thesis
    by (simp add: provider_open_def ad upd fin ossl_open_def k case_prod_unfold)
qed

end
