(* ===== verification/Record_Cipher.thy ===== *)
theory Record_Cipher
  imports Wc_Aead_Machine Ossl_Provider_Correct
begin

text \<open>
  What the record layer relies on, as an interface: sealing and opening are inverse, and at
  most one tag opens a ciphertext. Both stacks provide it; \<open>interoperable\<close> puts two
  providers side by side that agree on a set of associated data.
\<close>

locale record_cipher =
  fixes seal :: "u8 list \<Rightarrow> u8 list \<Rightarrow> u8 list \<Rightarrow> u8 list \<Rightarrow> u8 list \<times> u8 list"
    and opn :: "u8 list \<Rightarrow> u8 list \<Rightarrow> u8 list \<Rightarrow> u8 list \<Rightarrow> u8 list \<Rightarrow> u8 list option"
  assumes opn_seal: "opn key nonce ad ct tag = Some pt \<longleftrightarrow> seal key nonce ad pt = (ct, tag)"
    and one_tag: "opn key nonce ad ct tag = Some pt \<Longrightarrow> opn key nonce ad ct tag' = Some pt' \<Longrightarrow> tag' = tag"
begin

lemma round_trip: "opn key nonce ad (fst (seal key nonce ad pt)) (snd (seal key nonce ad pt)) = Some pt"
  by (simp add: opn_seal)

lemma seal_inj: "seal key nonce ad pt = seal key nonce ad pt' \<longleftrightarrow> pt = pt'"
  using round_trip by (metis option.inject)

lemma wrong_tag: "seal key nonce ad pt = (ct, tag) \<Longrightarrow> tag' \<noteq> tag \<Longrightarrow> opn key nonce ad ct tag' = None"
  using one_tag opn_seal by (metis not_None_eq)

end

locale interoperable =
  A: record_cipher seal opn + B: record_cipher seal' opn'
  for seal opn seal' opn' +
  fixes common :: "u8 list \<Rightarrow> bool"
  assumes agree: "common ad \<Longrightarrow> seal' key nonce ad pt = seal key nonce ad pt"
begin

lemma cross_open:
  assumes "common ad"
  shows "opn' key nonce ad ct tag = opn key nonce ad ct tag"
proof -
  have "opn' key nonce ad ct tag = Some pt \<longleftrightarrow> opn key nonce ad ct tag = Some pt" for pt
    by (simp add: A.opn_seal B.opn_seal agree [OF assms])
  then show ?thesis by (metis not_None_eq)
qed

end

text \<open>The associated data both stacks treat alike.\<close>

definition common_ad :: "u8 list \<Rightarrow> bool" where
  "common_ad ad \<longleftrightarrow> ad = [] \<or> length ad mod 16 \<noteq> 0"

interpretation wc: record_cipher aead_seal aead_open
  by (unfold_locales, rule aead_open_seal) (auto simp: aead_open_def split: prod.splits if_splits)

interpretation ossl: record_cipher ossl_seal ossl_open
  by (unfold_locales, rule ossl_open_seal) (auto simp: ossl_open_def split: prod.splits if_splits)

interpretation stacks: interoperable aead_seal aead_open ossl_seal ossl_open common_ad
  by unfold_locales (simp add: common_ad_def ossl_seal_wc)

end
