(* ===== verification/Ossl_Api.thy ===== *)
theory Ossl_Api
  imports Ossl_Provider_Correct
begin

text \<open>
  The provider as OpenSSL sees it: the parameter tables and the dispatch table of
  \<open>cipher_ascon128.c\<close>, the live contexts, and the calls in any order
  (\<open>provider_step\<close>, \<open>provider_reach\<close>) with the invariant that keeps every access inside the
  buffers of a context. Last, what associated data does when it comes after the data.
\<close>

section \<open>Tables\<close>

datatype param_type = OSSL_PARAM_UINT | OSSL_PARAM_SIZE_T | OSSL_PARAM_INT | OSSL_PARAM_OCTETS

definition ascon128_known_gettable_params :: "(param_name \<times> param_type) list" where
  "ascon128_known_gettable_params =
     [(PARAM_MODE, OSSL_PARAM_UINT), (PARAM_BLOCK_SIZE, OSSL_PARAM_SIZE_T), (PARAM_KEYLEN, OSSL_PARAM_SIZE_T),
      (PARAM_IVLEN, OSSL_PARAM_SIZE_T), (PARAM_AEAD, OSSL_PARAM_INT)]"

definition ascon128_known_gettable_ctx_params :: "(param_name \<times> param_type) list" where
  "ascon128_known_gettable_ctx_params =
     [(PARAM_KEYLEN, OSSL_PARAM_SIZE_T), (PARAM_IVLEN, OSSL_PARAM_SIZE_T), (PARAM_AEAD_TAG, OSSL_PARAM_OCTETS)]"

definition ascon128_known_settable_ctx_params :: "(param_name \<times> param_type) list" where
  "ascon128_known_settable_ctx_params =
     [(PARAM_KEYLEN, OSSL_PARAM_SIZE_T), (PARAM_IVLEN, OSSL_PARAM_SIZE_T), (PARAM_AEAD_TAG, OSSL_PARAM_OCTETS)]"

definition ascon128_gettable_params :: "(param_name \<times> param_type) list" where
  "ascon128_gettable_params = ascon128_known_gettable_params"

definition ascon128_gettable_ctx_params :: "(param_name \<times> param_type) list" where
  "ascon128_gettable_ctx_params = ascon128_known_gettable_ctx_params"

definition ascon128_settable_ctx_params :: "(param_name \<times> param_type) list" where
  "ascon128_settable_ctx_params = ascon128_known_settable_ctx_params"

lemmas param_tables = ascon128_gettable_params_def ascon128_known_gettable_params_def
  ascon128_gettable_ctx_params_def ascon128_known_gettable_ctx_params_def
  ascon128_settable_ctx_params_def ascon128_known_settable_ctx_params_def

text \<open>\<open>OSSL_PARAM_set_*\<close> write into the entry they are given, not into its name.\<close>

definition setters_ok :: "ossl_params_api \<Rightarrow> bool" where
  "setters_ok A \<longleftrightarrow> (\<forall>p q n i. (set_size_t A p n = Some q \<longrightarrow> pkey q = pkey p)
     \<and> (set_uint A p n = Some q \<longrightarrow> pkey q = pkey p) \<and> (set_int A p i = Some q \<longrightarrow> pkey q = pkey p))"

lemma setters_keep:
  assumes "setters_ok A"
  shows "set_size_t A p n = Some q \<Longrightarrow> pkey q = pkey p" and "set_uint A p n = Some q \<Longrightarrow> pkey q = pkey p"
    and "set_int A p i = Some q \<Longrightarrow> pkey q = pkey p"
  using assms unfolding setters_ok_def by blast+

lemma setters_ok_std: "setters_ok params_std"
  by (auto simp: setters_ok_def params_std_def)

text \<open>What a table announces for an entry: the setter of its type, on the entry's value.\<close>

fun typed_store :: "ossl_params_api \<Rightarrow> ASCON_AEAD128_CTX \<Rightarrow> (param_name \<Rightarrow> nat) \<Rightarrow> param_type \<Rightarrow> ossl_param \<Rightarrow> ossl_param option" where
  "typed_store A ctx value OSSL_PARAM_UINT p = set_uint A p (value (pkey p))"
| "typed_store A ctx value OSSL_PARAM_SIZE_T p = set_size_t A p (value (pkey p))"
| "typed_store A ctx value OSSL_PARAM_INT p = set_int A p (int (value (pkey p)))"
| "typed_store A ctx value OSSL_PARAM_OCTETS p = get_tag_param A ctx p"

text \<open>The constants of the algorithm.\<close>

fun param_value :: "param_name \<Rightarrow> nat" where
  "param_value PARAM_MODE = 0"
| "param_value PARAM_BLOCK_SIZE = 1"
| "param_value PARAM_KEYLEN = 16"
| "param_value PARAM_IVLEN = 16"
| "param_value PARAM_AEAD = 1"
| "param_value PARAM_AEAD_TAG = 16"

text \<open>An entry is answered by the table if it is announced and the first one of its name.\<close>

definition answered :: "ossl_params_api \<Rightarrow> ASCON_AEAD128_CTX \<Rightarrow> (param_name \<times> param_type) list
    \<Rightarrow> ossl_param list \<Rightarrow> nat \<Rightarrow> ossl_param option" where
  "answered A ctx table ps i = (case map_of table (pkey (ps ! i)) of
     None \<Rightarrow> Some (ps ! i)
   | Some ty \<Rightarrow> if first_named (pkey (ps ! i)) 0 ps = Some i then typed_store A ctx param_value ty (ps ! i) else Some (ps ! i))"

lemma first_named_at:
  "first_named k j ps = Some i \<Longrightarrow> j \<le> i \<and> i < j + length ps \<and> pkey (ps ! (i - j)) = k"
proof (induction ps arbitrary: j)
  case Nil
  then show ?case by simp
next
  case (Cons p ps)
  then show ?case by (cases "pkey p = k") (fastforce simp: nth_Cons')+
qed

lemma first_named_names: "map pkey ps = map pkey qs \<Longrightarrow> first_named k j ps = first_named k j qs"
proof (induction ps arbitrary: qs j)
  case (Cons p ps)
  then show ?case by (cases qs) auto
qed simp

lemma those_None: "those xs = None \<longleftrightarrow> None \<in> set xs"
  by (induction xs) (auto split: option.splits)

text \<open>A chain of \<open>put_param\<close> with different names answers every entry on its own.\<close>

fun put_all :: "ossl_params_api \<Rightarrow> (param_name \<times> (ossl_param \<Rightarrow> ossl_param option)) list
    \<Rightarrow> ossl_param list \<Rightarrow> ossl_param list option" where
  "put_all A [] ps = Some ps"
| "put_all A ((k, f) # fs) ps = (case put_param A k f ps of None \<Rightarrow> None | Some ps \<Rightarrow> put_all A fs ps)"

definition put_one :: "(param_name \<times> (ossl_param \<Rightarrow> ossl_param option)) list \<Rightarrow> ossl_param list \<Rightarrow> nat \<Rightarrow> ossl_param option" where
  "put_one fs ps i = (case map_of fs (pkey (ps ! i)) of
     None \<Rightarrow> Some (ps ! i)
   | Some f \<Rightarrow> if first_named (pkey (ps ! i)) 0 ps = Some i then f (ps ! i) else Some (ps ! i))"

lemma those_same: "those (map (\<lambda>i. Some (ps ! i)) [0..<length ps]) = Some ps"
proof -
  have "those (map Some xs) = Some xs" for xs :: "'a list" by (induction xs) simp_all
  moreover have "map (\<lambda>i. Some (ps ! i)) [0..<length ps] = map Some ps" by (rule nth_equalityI) simp_all
  ultimately show ?thesis by simp
qed

lemma put_one_update:
  assumes "first_named k 0 ps = Some i" and "f (ps ! i) = Some q" and "pkey q = k" and "map_of fs k = None" and "m < length ps"
  shows "put_one fs (ps[i := q]) m = put_one ((k, f) # fs) ps m"
proof -
  have i: "i < length ps" "pkey (ps ! i) = k" using first_named_at [OF assms(1)] by simp_all
  have names: "map pkey (ps[i := q]) = map pkey ps" using assms(3) i by (simp add: map_update list_update_same_conv)
  show ?thesis
  proof (cases "m = i")
    case True
    with i assms show ?thesis by (simp add: put_one_def)
  next
    case False
    with assms(1) show ?thesis by (auto simp: put_one_def first_named_names [OF names] split: option.split)
  qed
qed

lemma put_all_answers:
  assumes "params_ok A" and "distinct (map fst fs)"
    and "\<And>k f p q. (k, f) \<in> set fs \<Longrightarrow> f p = Some q \<Longrightarrow> pkey q = pkey p"
  shows "put_all A fs ps = those (map (put_one fs ps) [0..<length ps])"
  using assms(2,3)
proof (induction fs arbitrary: ps)
  case Nil
  then show ?case by (simp add: put_one_def those_same)
next
  case (Cons kf fs)
  obtain k f where kf: "kf = (k, f)" by (cases kf)
  have IH: "put_all A fs qs = those (map (put_one fs qs) [0..<length qs])" for qs
    using Cons.prems by (intro Cons.IH) auto
  have loc: "locate A ps k = first_named k 0 ps" using assms(1) by (simp add: params_ok_def)
  show ?case
  proof (cases "first_named k 0 ps")
    case None
    then have "put_one (kf # fs) ps i = put_one fs ps i" for i
      using Cons.prems(1) by (auto simp: put_one_def kf map_of_eq_None_iff split: option.split)
    with None IH [of ps] show ?thesis by (simp add: kf put_param_def loc cong: map_cong)
  next
    case (Some i)
    then have i: "i < length ps" "pkey (ps ! i) = k" using first_named_at [OF Some] by simp_all
    have at: "put_one (kf # fs) ps i = f (ps ! i)" using i(2) Some by (simp add: put_one_def kf)
    show ?thesis
    proof (cases "f (ps ! i)")
      case None
      then have "None \<in> set (map (put_one (kf # fs) ps) [0..<length ps])" using at i(1) by force
      then have "those (map (put_one (kf # fs) ps) [0..<length ps]) = None" by (simp only: those_None)
      with None Some show ?thesis by (simp add: kf put_param_def loc)
    next
      case q: (Some q)
      have pk: "pkey q = k" "map_of fs k = None"
        using Cons.prems(2) [of k f "ps ! i" q] q i Cons.prems(1) by (auto simp: kf map_of_eq_None_iff)
      have "put_one fs (ps[i := q]) m = put_one (kf # fs) ps m" if "m < length ps" for m
        unfolding kf using Some q pk that by (rule put_one_update)
      then have "those (map (put_one fs (ps[i := q])) [0..<length (ps[i := q])]) = those (map (put_one (kf # fs) ps) [0..<length ps])"
        by (intro arg_cong [where f = those] map_cong) simp_all
      moreover have "put_all A (kf # fs) ps = put_all A fs (ps[i := q])" using q Some by (simp add: kf put_param_def loc)
      ultimately show ?thesis using IH [of "ps[i := q]"] by (simp only:)
    qed
  qed
qed

lemma case_option_eta: "(case x of None \<Rightarrow> None | Some y \<Rightarrow> Some y) = x"
  by (cases x) simp_all

lemma typed_store_fun:
  "typed_store A ctx v OSSL_PARAM_UINT = (\<lambda>p. set_uint A p (v (pkey p)))"
  "typed_store A ctx v OSSL_PARAM_SIZE_T = (\<lambda>p. set_size_t A p (v (pkey p)))"
  "typed_store A ctx v OSSL_PARAM_INT = (\<lambda>p. set_int A p (int (v (pkey p))))"
  "typed_store A ctx v OSSL_PARAM_OCTETS = get_tag_param A ctx"
  by (simp_all add: fun_eq_iff)

lemma get_params_table:
  assumes "params_ok A" and "setters_ok A"
  shows "ascon128_get_params A ps = those (map (answered A ctx ascon128_gettable_params ps) [0..<length ps])"
proof -
  let ?fs = "map (\<lambda>(k, ty). (k, \<lambda>p. typed_store A ctx (\<lambda>_. param_value k) ty p)) ascon128_gettable_params"
  have "ascon128_get_params A ps = put_all A ?fs ps"
    by (simp add: ascon128_get_params_def param_tables typed_store_fun case_option_eta cong: option.case_cong)
  also have "\<dots> = those (map (put_one ?fs ps) [0..<length ps])"
    using assms by (intro put_all_answers) (auto simp: param_tables dest: setters_keep)
  also have "put_one ?fs ps = answered A ctx ascon128_gettable_params ps"
    by (simp add: fun_eq_iff put_one_def answered_def param_tables)
  finally show ?thesis .
qed

lemma get_ctx_params_table:
  assumes "params_ok A" and "setters_ok A"
  shows "ascon128_get_ctx_params A ctx ps = those (map (answered A ctx ascon128_gettable_ctx_params ps) [0..<length ps])"
proof -
  let ?fs = "map (\<lambda>(k, ty). (k, \<lambda>p. typed_store A ctx (\<lambda>_. param_value k) ty p)) ascon128_gettable_ctx_params"
  have "ascon128_get_ctx_params A ctx ps = put_all A ?fs ps"
    by (simp add: ascon128_get_ctx_params_def param_tables typed_store_fun case_option_eta cong: option.case_cong)
  also have "\<dots> = those (map (put_one ?fs ps) [0..<length ps])"
    using assms by (intro put_all_answers)
      (auto simp: param_tables get_tag_param_def dest: setters_keep split: if_splits option.splits)
  also have "put_one ?fs ps = answered A ctx ascon128_gettable_ctx_params ps"
    by (simp add: fun_eq_iff put_one_def answered_def param_tables)
  finally show ?thesis .
qed

text \<open>What can be set: entries that are not announced do not matter.\<close>

definition announced :: "(param_name \<times> param_type) list \<Rightarrow> ossl_param \<Rightarrow> bool" where
  "announced table p \<longleftrightarrow> pkey p \<in> set (map fst table)"

fun first_param :: "param_name \<Rightarrow> ossl_param list \<Rightarrow> ossl_param option" where
  "first_param k [] = None"
| "first_param k (p # ps) = (if pkey p = k then Some p else first_param k ps)"

lemma first_named_first:
  "length rs = j \<Longrightarrow> (case first_named k j ps of None \<Rightarrow> None | Some i \<Rightarrow> Some ((rs @ ps) ! i)) = first_param k ps"
proof (induction ps arbitrary: j rs)
  case (Cons p ps)
  then show ?case
    using Cons.IH [of "rs @ [p]"] by (auto cong: option.case_cong)
qed simp

lemma locate_first:
  assumes "params_ok A"
  shows "first_param k ps = (case locate A ps k of None \<Rightarrow> None | Some i \<Rightarrow> Some (ps ! i))"
  using first_named_first [of "[]" 0] assms by (simp add: params_ok_def cong: option.case_cong)

lemma first_param_filter: "(\<And>p. pkey p = k \<Longrightarrow> P p) \<Longrightarrow> first_param k (filter P ps) = first_param k ps"
  by (induction ps) auto

lemma case_option_locate:
  "(case (case x of None \<Rightarrow> None | Some i \<Rightarrow> Some (g i)) of None \<Rightarrow> a | Some p \<Rightarrow> f p) = (case x of None \<Rightarrow> a | Some i \<Rightarrow> f (g i))"
  by (cases x) simp_all

lemma set_ctx_params_table:
  assumes "params_ok A"
  shows "ascon128_set_ctx_params A ctx ps = ascon128_set_ctx_params A ctx (filter (announced ascon128_settable_ctx_params) ps)"
proof -
  have size: "size_param_ok A qs k n = (case first_param k qs of None \<Rightarrow> True
      | Some p \<Rightarrow> (case get_size_t A p of None \<Rightarrow> False | Some v \<Rightarrow> v = n))" for qs k n
    by (simp only: size_param_ok_def locate_first [OF assms] case_option_locate)
  have fil: "first_param k (filter (announced ascon128_settable_ctx_params) ps) = first_param k ps"
    if "k \<in> set (map fst ascon128_settable_ctx_params)" for k
    using that by (intro first_param_filter) (simp add: announced_def)
  have set: "ascon128_set_ctx_params A ctx qs =
     (if \<not> size_param_ok A qs PARAM_KEYLEN ASCON128_KEYLEN then (False, ctx)
      else if \<not> size_param_ok A qs PARAM_IVLEN ASCON128_IVLEN then (False, ctx)
      else case first_param PARAM_AEAD_TAG qs of
        None \<Rightarrow> (True, ctx)
      | Some p \<Rightarrow> if data_type p \<noteq> octet_string A \<or> data_size p \<noteq> ASCON128_TAGLEN then (False, ctx)
          else (True, ctx\<lparr>otag := take ASCON128_TAGLEN (bytes_at (pdata p))\<rparr>))" for qs
    unfolding ascon128_set_ctx_params_def locate_first [OF assms] Let_def
    by (simp only: case_option_locate)
  have "PARAM_KEYLEN \<in> set (map fst ascon128_settable_ctx_params)" "PARAM_IVLEN \<in> set (map fst ascon128_settable_ctx_params)"
    "PARAM_AEAD_TAG \<in> set (map fst ascon128_settable_ctx_params)" by (simp_all add: param_tables)
  then show ?thesis by (simp only: set size fil)
qed

section \<open>Contexts and calls\<close>

text \<open>
  The live contexts by address. \<open>freectx\<close> clears and frees: the address is gone. Buffers
  have the length that is passed with them.
\<close>

type_synonym provider = "nat \<Rightarrow> ASCON_AEAD128_CTX option"

definition ascon128_freectx :: "provider \<Rightarrow> nat \<Rightarrow> provider" where
  "ascon128_freectx S h = S(h := None)"

text \<open>The dispatch table, in its order.\<close>

datatype ossl_function = CIPHER_NEWCTX | CIPHER_FREECTX | CIPHER_DUPCTX | CIPHER_ENCRYPT_INIT | CIPHER_DECRYPT_INIT
  | CIPHER_UPDATE | CIPHER_FINAL | CIPHER_GET_PARAMS | CIPHER_GETTABLE_PARAMS | CIPHER_GET_CTX_PARAMS
  | CIPHER_GETTABLE_CTX_PARAMS | CIPHER_SET_CTX_PARAMS | CIPHER_SETTABLE_CTX_PARAMS

definition ptr_ok :: "u8 list option \<Rightarrow> nat \<Rightarrow> bool" where
  "ptr_ok b n \<longleftrightarrow> b \<noteq> None \<longrightarrow> length (bytes_at b) = n"

definition param_ok :: "ossl_params_api \<Rightarrow> ossl_param \<Rightarrow> bool" where
  "param_ok A p \<longleftrightarrow> data_type p = octet_string A \<longrightarrow> length (bytes_at (pdata p)) = data_size p"

inductive provider_step :: "ossl_params_api \<Rightarrow> provider \<Rightarrow> ossl_function \<Rightarrow> provider \<Rightarrow> bool" for A where
  new: "ascon128_newctx zalloc = Some ctx \<Longrightarrow> S h = None \<Longrightarrow> provider_step A S CIPHER_NEWCTX (S(h := Some ctx))"
| free: "provider_step A S CIPHER_FREECTX (ascon128_freectx S h)"
| dup: "S h = Some ctx \<Longrightarrow> ascon128_dupctx malloc ctx = Some ctx' \<Longrightarrow> S h' = None \<Longrightarrow>
    provider_step A S CIPHER_DUPCTX (S(h' := Some ctx'))"
| einit: "S h = Some ctx \<Longrightarrow> ptr_ok key keylen \<Longrightarrow> ptr_ok iv ivlen \<Longrightarrow> \<forall>p \<in> set ps. param_ok A p \<Longrightarrow>
    ascon128_einit A ctx key keylen iv ivlen ps = (ok, ctx') \<Longrightarrow> provider_step A S CIPHER_ENCRYPT_INIT (S(h := Some ctx'))"
| dinit: "S h = Some ctx \<Longrightarrow> ptr_ok key keylen \<Longrightarrow> ptr_ok iv ivlen \<Longrightarrow> \<forall>p \<in> set ps. param_ok A p \<Longrightarrow>
    ascon128_dinit A ctx key keylen iv ivlen ps = (ok, ctx') \<Longrightarrow> provider_step A S CIPHER_DECRYPT_INIT (S(h := Some ctx'))"
| update: "S h = Some ctx \<Longrightarrow> length inp = inl \<Longrightarrow> ascon128_update ctx out outsize inp inl = (ok, ctx', outl, bytes) \<Longrightarrow>
    provider_step A S CIPHER_UPDATE (S(h := Some ctx'))"
| final: "S h = Some ctx \<Longrightarrow> ascon128_final_fn ctx = (ok, ctx', outl) \<Longrightarrow> provider_step A S CIPHER_FINAL (S(h := Some ctx'))"
| set: "S h = Some ctx \<Longrightarrow> \<forall>p \<in> set ps. param_ok A p \<Longrightarrow> ascon128_set_ctx_params A ctx ps = (ok, ctx') \<Longrightarrow>
    provider_step A S CIPHER_SET_CTX_PARAMS (S(h := Some ctx'))"
| query: "f \<in> {CIPHER_GET_PARAMS, CIPHER_GETTABLE_PARAMS, CIPHER_GET_CTX_PARAMS, CIPHER_GETTABLE_CTX_PARAMS,
    CIPHER_SETTABLE_CTX_PARAMS} \<Longrightarrow> provider_step A S f S"

inductive provider_reach :: "ossl_params_api \<Rightarrow> provider \<Rightarrow> bool" for A where
  start: "provider_reach A (\<lambda>h. None)"
| step: "provider_reach A S \<Longrightarrow> provider_step A S f S' \<Longrightarrow> provider_reach A S'"

text \<open>The invariant of a context.\<close>

definition ctx_ok :: "ASCON_AEAD128_CTX \<Rightarrow> bool" where
  "ctx_ok a \<longleftrightarrow> adPartSz a < 16 \<and> olast a < 16 \<and> length (adPart a) = 16 \<and> length (oct a) = 16 \<and> length (otag a) = 16"

lemma aad_fill_ok:
  "aad_fill_loop a d n = (a', d', n') \<Longrightarrow> n = length d \<Longrightarrow> ctx_ok a \<Longrightarrow> ctx_ok a' \<and> n' = length d'"
proof (induction n arbitrary: a d rule: less_induct)
  case (less n)
  show ?case
  proof (cases "0 < adPartSz a \<and> 0 < n")
    case False
    then have "aad_fill_loop a d n = (a, d, n)" by (subst aad_fill_loop.simps) (rule if_not_P)
    with less.prems show ?thesis by simp
  next
    case True
    let ?l = "unat (adPartSz a)"
    define k where "k = min (16 - ?l) n"
    have l: "?l < 16" using less.prems(3) by (simp add: ctx_ok_def word_less_nat_alt)
    have room: "room 16 (adPartSz a) n = k" using l by (simp add: room_min k_def)
    have k: "?l + k \<le> 16" "k \<le> length d" using l less.prems(2) by (simp_all add: k_def)
    have sum: "unat (adPartSz a + of_nat k) = ?l + k" using k(1) by (rule size_add)
    define c where "c = (if ?l + k = 16
      then a\<lparr>adPart := write_at ?l (read_at 0 k d) (adPart a),
        os := ascon_permute (xor_words (os a) (write_at ?l (read_at 0 k d) (adPart a))) OSSL_AEAD128_PB, adPartSz := 0\<rparr>
      else a\<lparr>adPart := write_at ?l (read_at 0 k d) (adPart a), adPartSz := adPartSz a + of_nat k\<rparr>)"
    have c: "ctx_ok c"
      using less.prems(3) k l sum by (auto simp: ctx_ok_def c_def word_less_nat_alt)
    have full: "adPartSz a + of_nat k = 16 \<longleftrightarrow> ?l + k = 16" using sum by (rule size_full)
    have "aad_fill_loop a d n = aad_fill_loop c (drop k d) (n - k)"
      using True by (subst aad_fill_loop.simps) (simp add: room c_def full Let_def)
    moreover have "0 < k" using True l by (simp add: k_def)
    ultimately show ?thesis using less.IH [of "n - k" c "drop k d"] less.prems c k by simp
  qed
qed

lemma absorb_aad_ok:
  assumes "ctx_ok a"
  shows "ctx_ok (ascon_aead128_absorb_aad a d (length d))"
proof -
  define b where "b = (if \<not> adStarted a then (aad_start a)\<lparr>adStarted := True\<rparr> else a)"
  obtain c e n where fill: "aad_fill_loop b d (length d) = (c, e, n)" by (metis prod_cases3)
  obtain s e' n' where block: "aad_block_loop (os c) e n = (s, e', n')" by (metis prod_cases3)
  have "ctx_ok b" using assms by (simp add: b_def ctx_ok_def aad_start_def Let_def)
  from aad_fill_ok [OF fill refl this] have c: "ctx_ok c" "n = length e" by simp_all
  have run: "ascon_aead128_absorb_aad a d (length d) = (if 0 < n'
      then c\<lparr>os := s, adPart := write_at 0 (read_at 0 n' e') (adPart c), adPartSz := of_nat n'\<rparr> else c\<lparr>os := s\<rparr>)"
    by (simp add: ascon_aead128_absorb_aad_def fill block flip: b_def)
  from aad_block_loop_run [of n e "os c"] c(2) block have n': "n' < 16" "n' \<le> length e'" by (auto simp: Let_def)
  then have "(of_nat n' :: u8) < 16" by (simp add: word_less_nat_alt unat_of_nat)
  with c(1) n' show ?thesis by (simp add: run ctx_ok_def)
qed

lemma finalize_aad_ok: "ctx_ok a \<Longrightarrow> ctx_ok (ascon_aead128_aad_finalize a)"
  by (simp add: ctx_ok_def ascon_aead128_aad_finalize_def aad_start_def Let_def)

lemma ossl_set_ok:
  assumes "ctx_ok a" and "snd c < 16"
  shows "ctx_ok (ossl_set a c)" and "length ct = 16 \<Longrightarrow> ctx_ok (ossl_set (a\<lparr>oct := ct\<rparr>) c)"
  using assms by (simp_all add: ctx_ok_def ossl_set_def word_less_nat_alt unat_of_nat)

lemma update_data_ok:
  assumes "ctx_ok a" and "ascon128_update a PTR outsize d (length d) = (ok, a', n, out)"
  shows "ctx_ok a' \<and> (ok \<longleftrightarrow> d = [] \<or> length d \<le> outsize) \<and> (ok \<longrightarrow> n = Some (length d) \<and> length out = length d)
    \<and> (\<not> ok \<longrightarrow> a' = a \<and> out = [])"
proof -
  let ?b = "ascon_aead128_aad_finalize a"
  have b: "ctx_ok ?b" "adDone ?b" using finalize_aad_ok [OF assms(1)] by simp_all
  then have l: "snd (ossl_cfg ?b) < 16" "length (oct ?b) = 16"
    by (simp_all add: ctx_ok_def ossl_cfg_def word_less_nat_alt)
  obtain c1 o1 where e: "ascon_aead128_encrypt_update a d (length d) = (c1, o1, length d)" "ctx_ok c1" "length o1 = length d"
    using ossl_encrypt_update_run [OF b(2) l(1), of "length d" d] ossl_set_ok(1) [OF b(1)]
      aead_dx.run_pos_less [OF l(1), of d]
    by (simp add: update_finalize case_prod_unfold)
  obtain ct where ct: "length ct = 16"
    and run: "ascon_aead128_decrypt_update a d (length d)
      = (case dx_run keep_input 16 perm8 (ossl_cfg ?b) d of (c, out) \<Rightarrow> (ossl_set (?b\<lparr>oct := ct\<rparr>) c, out, length d))"
    using ossl_decrypt_update_run [OF b(2) l(1) _ l(2), of "length d" d] by (auto simp: update_finalize)
  obtain c2 o2 where d: "ascon_aead128_decrypt_update a d (length d) = (c2, o2, length d)" "ctx_ok c2" "length o2 = length d"
    using run ossl_set_ok(2) [OF b(1) _ ct] aead_dec_dx.run_pos_less [OF l(1), of d] by (simp add: case_prod_unfold)
  show ?thesis
    using assms e d by (cases "d = []"; cases "outsize < length d"; cases "enc a") (auto simp: ascon128_update_def)
qed

lemma update_aad_ok: "ctx_ok a \<Longrightarrow> ctx_ok (fst (snd (ascon128_update a NULL outsize d (length d))))"
  by (simp add: ascon128_update_def absorb_aad_ok)

lemma final_ok: "ctx_ok a \<Longrightarrow> ascon128_final_fn a = (ok, a', n) \<Longrightarrow> ctx_ok a'"
  using finalize_aad_ok [of a]
  by (auto simp: ascon128_final_fn_def ascon_aead128_final_def ctx_ok_def Let_def split: if_splits)

lemma set_ctx_params_ok:
  assumes "params_ok A" and "ctx_ok a" and "\<forall>p \<in> set ps. param_ok A p" and "ascon128_set_ctx_params A a ps = (ok, a')"
  shows "ctx_ok a'"
proof (cases "locate A ps PARAM_AEAD_TAG")
  case None
  with assms show ?thesis by (auto simp: ascon128_set_ctx_params_def split: if_splits)
next
  case (Some i)
  then have "ps ! i \<in> set ps" using assms(1) first_named_at by (fastforce simp: params_ok_def)
  with Some assms(2-4) show ?thesis
    by (auto simp: ascon128_set_ctx_params_def ctx_ok_def param_ok_def Let_def split: if_splits)
qed

lemma init_ok:
  assumes "params_ok A" and "ctx_ok a" and "\<forall>p \<in> set ps. param_ok A p"
    and "ascon128_init A a key keylen iv ivlen ps e = (ok, a')"
  shows "ctx_ok a'"
proof -
  obtain r b where set: "ascon128_set_ctx_params A a ps = (r, b)" by fastforce
  then have "ctx_ok b" using assms(1-3) set_ctx_params_ok by blast
  with assms(4) show ?thesis
    by (auto simp: ascon128_init_def set ctx_ok_def ascon_aead128_reset_def Let_def split: if_splits)
qed

lemma provider_step_ok:
  assumes "provider_step A S f S'" and "params_ok A" and "\<And>h a. S h = Some a \<Longrightarrow> ctx_ok a" and "S' h = Some a"
  shows "ctx_ok a"
  using assms
proof (cases rule: provider_step.cases)
  case (new zalloc ctx h')
  then show ?thesis using assms(3,4) by (auto simp: ascon128_newctx_def zero_ctx_def ctx_ok_def split: if_splits)
next
  case (dup h1 ctx malloc ctx' h2)
  then show ?thesis using assms(3,4) by (auto simp: ascon128_dupctx_def split: if_splits)
next
  case (update h1 ctx inp inl out outsize ok ctx' outl bytes)
  then have "ctx_ok ctx'"
    using assms(3) update_data_ok [of ctx outsize inp ok ctx' outl bytes] update_aad_ok [of ctx outsize inp]
    by (cases out) auto
  with update assms(3,4) show ?thesis by (auto split: if_splits)
qed (auto simp: ascon128_freectx_def ascon128_einit_def ascon128_dinit_def dest: final_ok set_ctx_params_ok init_ok split: if_splits)

inductive_simps provider_query_iff:
  "provider_step A S CIPHER_GET_PARAMS S'" "provider_step A S CIPHER_GETTABLE_PARAMS S'" "provider_step A S CIPHER_GET_CTX_PARAMS S'"
  "provider_step A S CIPHER_GETTABLE_CTX_PARAMS S'" "provider_step A S CIPHER_SETTABLE_CTX_PARAMS S'"

text \<open>A call touches one context; a query touches none.\<close>

lemma provider_step_local:
  assumes "provider_step A S f S'"
  shows "\<exists>h. \<forall>h'. h' \<noteq> h \<longrightarrow> S' h' = S h'"
  using assms by (cases rule: provider_step.cases) (auto simp: ascon128_freectx_def)

lemma provider_query:
  assumes "provider_step A S f S'" and "f \<in> {CIPHER_GET_PARAMS, CIPHER_GETTABLE_PARAMS, CIPHER_GET_CTX_PARAMS,
    CIPHER_GETTABLE_CTX_PARAMS, CIPHER_SETTABLE_CTX_PARAMS}"
  shows "S' = S"
  using assms by (auto simp: provider_query_iff)

lemma provider_reach_ok:
  assumes "provider_reach A S" and "params_ok A"
  shows "S h = Some a \<Longrightarrow> ctx_ok a"
  using assms(1)
proof (induction arbitrary: h a rule: provider_reach.induct)
  case start
  then show ?case by simp
next
  case (step S f S')
  then show ?case using provider_step_ok assms(2) by blast
qed

section \<open>Associated data after the data\<close>

text \<open>A sender that passes more associated data after the plaintext.\<close>

definition provider_seal_late :: "ossl_params_api \<Rightarrow> ASCON_AEAD128_CTX \<Rightarrow> u8 list \<Rightarrow> u8 list \<Rightarrow> u8 list list \<Rightarrow> u8 list
    \<Rightarrow> (u8 list \<times> u8 list) option" where
  "provider_seal_late A ctx nonce ad pts late =
     (case ascon128_einit A ctx None 0 (Some nonce) (length nonce) [] of (ok, ctx) \<Rightarrow>
      if \<not> ok then None else
     (case ascon128_update ctx NULL 0 ad (length ad) of (ok, ctx, _, _) \<Rightarrow>
      if \<not> ok then None else
     (case provider_updates ctx pts of (ok, ctx, ct) \<Rightarrow>
      if \<not> ok then None else
     (case ascon128_update ctx NULL 0 late (length late) of (ok, ctx, _, _) \<Rightarrow>
      if \<not> ok then None else
     (case ascon128_final_fn ctx of (ok, ctx, _) \<Rightarrow>
      if \<not> ok then None else Some (ct, otag ctx))))))"

definition aad_closed :: "ASCON_AEAD128_CTX \<Rightarrow> bool" where
  "aad_closed a \<longleftrightarrow> adStarted a \<and> (adDone a \<longrightarrow> adPartSz a = 0)"

lemma aad_closed_finalize: "aad_closed a \<Longrightarrow> aad_closed (ossl_set (ascon_aead128_aad_finalize a) c)"
  by (auto simp: aad_closed_def ossl_set_def ascon_aead128_aad_finalize_def word_greater_zero_iff Let_def)

lemma provider_updates_closed:
  assumes "ossl_at k True t c a" and "snd c < 16" and "aad_closed a"
  shows "aad_closed (fst (snd (provider_updates a ds))) \<and>
    (adDone a \<or> concat ds \<noteq> [] \<longrightarrow> adDone (fst (snd (provider_updates a ds))))"
  using assms
proof (induction ds arbitrary: a c)
  case Nil
  then show ?case by simp
next
  case (Cons d ds)
  let ?b = "ascon_aead128_aad_finalize a" let ?c = "fst (dx_run keep_xor 16 perm8 c d)" let ?a = "ossl_set ?b ?c"
  show ?case
  proof (cases "d = []")
    case True
    with Cons show ?thesis by (simp add: ascon128_update_def case_prod_unfold)
  next
    case False
    have b: "adDone ?b" "enc a" "ossl_cfg ?b = c" using Cons.prems(1) by (simp_all add: ossl_at_def Let_def)
    have pos: "snd ?c < 16" using aead_dx.run_pos_less [OF Cons.prems(2)] .
    have upd: "ascon128_update a PTR (length d) d (length d) = (True, ?a, Some (length d), snd (dx_run keep_xor 16 perm8 c d))"
      using ossl_encrypt_update_run [OF b(1), of "length d" d] b Cons.prems(2) False
      by (simp add: update_finalize ascon128_update_def case_prod_unfold)
    have "ossl_at k True t ?c ?a" using Cons.prems(1) b pos by (simp add: ossl_at_def finalize_done Let_def)
    from Cons.IH [OF this pos aad_closed_finalize [OF Cons.prems(3)]] b(1) show ?thesis
      by (simp add: upd case_prod_unfold)
  qed
qed

lemma absorb_late:
  assumes "ossl_at k e t c a" and "aad_closed a" and "adDone a" and "length d < 16"
  shows "\<exists>b x y. ascon128_update a NULL 0 d (length d) = (True, b, x, y) \<and> ossl_at k e t c b"
proof -
  have "adPartSz a = 0" "adStarted a" using assms(2,3) by (simp_all add: aad_closed_def)
  then have "ascon_aead128_absorb_aad a d (length d) = (if 0 < length d
      then a\<lparr>adPart := write_at 0 (read_at 0 (length d) d) (adPart a), adPartSz := of_nat (length d)\<rparr> else a)"
    using aad_block_loop_short [OF assms(4), of "os a" d] by (simp add: ascon_aead128_absorb_aad_def aad_fill_loop_idle)
  then have "ossl_at k e t c (ascon_aead128_absorb_aad a d (length d))"
    using assms(1,3) by (simp add: ossl_at_def finalize_done ossl_cfg_def Let_def)
  then show ?thesis using assms(1) by (cases "d = []") (auto simp: ascon128_update_def)
qed

lemma absorb_closed:
  assumes "aad_fresh a" and "ad \<noteq> []" and "ascon128_update a NULL 0 ad (length ad) = (ok, b, x, y)"
  shows "aad_closed b"
  using assms by (auto simp: ascon128_update_def ascon_aead128_absorb_aad_def aad_fresh_def aad_fill_loop_idle
      aad_start_only_os aad_closed_def Let_def split: prod.splits if_splits)

lemma provider_seal_late_eq:
  assumes "params_ok A" and "(okey0 ctx, okey1 ctx) = key_words key" and "length nonce = 16"
    and "ad \<noteq> []" and "concat pts \<noteq> []" and "length late < 16"
  shows "provider_seal_late A ctx nonce ad pts late = Some (ossl_seal key nonce ad (concat pts))"
proof -
  obtain k0 k1 where k: "key_words key = (k0, k1)" by (cases "key_words key")
  let ?r = "ascon_aead128_reset (ctx\<lparr>enc := True\<rparr>) (bytes_of_u64 k0 @ bytes_of_u64 k1) nonce"
  let ?c = "(ossl_ready key nonce ad, 0)"
  let ?e = "fst (dx_run keep_xor 16 perm8 ?c (concat pts))"
  have r: "(okey0 (ctx\<lparr>enc := True\<rparr>), okey1 (ctx\<lparr>enc := True\<rparr>)) = (k0, k1)" using assms(2) k by simp
  note fresh = reset_fresh [OF assms(3) r]
  obtain a x y where ad: "ascon128_update ?r NULL 0 ad (length ad) = (True, a, x, y)"
    and a: "ossl_at (k0, k1) True (otag ?r) ?c a"
    using provider_ad [OF fresh(1,2,7) _ k fresh(8), of ad] fresh by auto
  obtain b where upd: "provider_updates a pts = (True, b, snd (dx_run keep_xor 16 perm8 ?c (concat pts)))"
    and b: "ossl_at (k0, k1) True (otag ?r) ?e b"
    using provider_updates_encrypt [OF a, of pts] by auto
  have "aad_closed b" "adDone b"
    using provider_updates_closed [OF a _ absorb_closed [OF fresh(1) assms(4) ad], of pts] assms(5) upd by auto
  then obtain b' x' y' where late: "ascon128_update b NULL 0 late (length late) = (True, b', x', y')"
    and b': "ossl_at (k0, k1) True (otag ?r) ?e b'"
    using absorb_late [OF b _ _ assms(6)] by blast
  obtain d z where "ascon128_final_fn b' = (True, d, z)" and "otag d = aead_tag k0 k1 ?e"
    using final_at(1) [OF b'] by auto
  moreover have "ascon128_einit A ctx None 0 (Some nonce) (length nonce) [] = (True, ?r)"
    using provider_init(1) [OF assms(1,3)] assms(2) k by simp
  ultimately show ?thesis by (simp add: provider_seal_late_def ad upd late ossl_seal_def k case_prod_unfold)
qed

end
