(* ===== verification/Verify_Tool.thy ===== *)
theory Verify_Tool
  imports Ascon_Perm32 Ossl_Core_Correct
begin

text \<open>
  The correctness oracle \<open>tools/verify_ascon_32bit.c\<close>: the reference permutation, the
  hash and AEAD drivers that take the permutation as a function pointer, and \<open>main\<close>,
  which counts the mismatches between the 64-bit and the 32-bit path. The tool tests a few
  inputs; the lemmas prove the count 0 and the two paths equal for every input, and the
  drivers equal to the one-shot specifications that the streaming API of \<open>ascon.c\<close> meets.
\<close>

definition verify_round_constants :: "u8 list" where
  "verify_round_constants =
     [0xf0, 0xe1, 0xd2, 0xc3, 0xb4, 0xa5, 0x96, 0x87, 0x78, 0x69, 0x5a, 0x4b]"

definition ascon_round_64 :: "AsconState \<Rightarrow> nat \<Rightarrow> AsconState" where
  "ascon_round_64 a round = (let
     a = a\<lparr>s64_2 := s64_2 a XOR ucast (verify_round_constants ! round)\<rparr>;
     a = a\<lparr>s64_0 := s64_0 a XOR s64_4 a\<rparr>;
     a = a\<lparr>s64_4 := s64_4 a XOR s64_3 a\<rparr>;
     a = a\<lparr>s64_2 := s64_2 a XOR s64_1 a\<rparr>;
     tmp0 = s64_0 a XOR (NOT (s64_1 a) AND s64_2 a);
     tmp2 = s64_2 a XOR (NOT (s64_3 a) AND s64_4 a);
     tmp4 = s64_4 a XOR (NOT (s64_0 a) AND s64_1 a);
     tmp1 = s64_1 a XOR (NOT (s64_2 a) AND s64_3 a);
     tmp3 = s64_3 a XOR (NOT (s64_4 a) AND s64_0 a);
     tmp1 = tmp1 XOR tmp0;
     tmp3 = tmp3 XOR tmp2;
     tmp0 = tmp0 XOR tmp4;
     tmp2 = NOT tmp2;
     a = a\<lparr>s64_4 := tmp4 XOR rotrFixed64 tmp4 7 XOR rotrFixed64 tmp4 41\<rparr>;
     a = a\<lparr>s64_1 := tmp1 XOR rotrFixed64 tmp1 61 XOR rotrFixed64 tmp1 39\<rparr>;
     a = a\<lparr>s64_3 := tmp3 XOR rotrFixed64 tmp3 10 XOR rotrFixed64 tmp3 17\<rparr>;
     a = a\<lparr>s64_0 := tmp0 XOR rotrFixed64 tmp0 19 XOR rotrFixed64 tmp0 28\<rparr>;
     a = a\<lparr>s64_2 := tmp2 XOR rotrFixed64 tmp2 1 XOR rotrFixed64 tmp2 6\<rparr>
   in a)"

function permutation_64_loop :: "AsconState \<Rightarrow> nat \<Rightarrow> AsconState" where
  "permutation_64_loop a i = (if i < 12 then permutation_64_loop (ascon_round_64 a i) (Suc i) else a)"
  by pat_completeness auto
termination
  by (relation "measure (\<lambda>(a, i). 12 - i)") auto

declare permutation_64_loop.simps [simp del]

definition permutation_64 :: "AsconState \<Rightarrow> nat \<Rightarrow> AsconState" where
  "permutation_64 a rounds = permutation_64_loop a (if rounds = 12 then 0 else 4)"

text \<open>
  The tool's own copy of the 32-bit path, with the round constants written into the macros.
\<close>

definition v_P32_ROUND :: "lanes \<Rightarrow> u32 \<Rightarrow> lanes" where
  "v_P32_ROUND x c = (let
     x = x\<lparr>x2l := x2l x XOR c\<rparr>;
     x = x\<lparr>x0l := x0l x XOR x4l x, x0h := x0h x XOR x4h x\<rparr>;
     x = x\<lparr>x4l := x4l x XOR x3l x, x4h := x4h x XOR x3h x\<rparr>;
     x = x\<lparr>x2l := x2l x XOR x1l x, x2h := x2h x XOR x1h x\<rparr>;
     t0l = x0l x XOR (NOT (x1l x) AND x2l x); t0h = x0h x XOR (NOT (x1h x) AND x2h x);
     t2l = x2l x XOR (NOT (x3l x) AND x4l x); t2h = x2h x XOR (NOT (x3h x) AND x4h x);
     t4l = x4l x XOR (NOT (x0l x) AND x1l x); t4h = x4h x XOR (NOT (x0h x) AND x1h x);
     t1l = x1l x XOR (NOT (x2l x) AND x3l x); t1h = x1h x XOR (NOT (x2h x) AND x3h x);
     t3l = x3l x XOR (NOT (x4l x) AND x0l x); t3h = x3h x XOR (NOT (x4h x) AND x0h x);
     t1l = t1l XOR t0l; t1h = t1h XOR t0h;
     t3l = t3l XOR t2l; t3h = t3h XOR t2h;
     t0l = t0l XOR t4l; t0h = t0h XOR t4h;
     t2l = NOT t2l; t2h = NOT t2h;
     x = x\<lparr>x4l := t4l XOR drop_bit 7 t4l XOR push_bit 25 t4h XOR drop_bit 9 t4h XOR push_bit 23 t4l\<rparr>;
     x = x\<lparr>x4h := t4h XOR drop_bit 7 t4h XOR push_bit 25 t4l XOR drop_bit 9 t4l XOR push_bit 23 t4h\<rparr>;
     x = x\<lparr>x1l := t1l XOR drop_bit 29 t1h XOR push_bit 3 t1l XOR drop_bit 7 t1h XOR push_bit 25 t1l\<rparr>;
     x = x\<lparr>x1h := t1h XOR drop_bit 29 t1l XOR push_bit 3 t1h XOR drop_bit 7 t1l XOR push_bit 25 t1h\<rparr>;
     x = x\<lparr>x3l := t3l XOR drop_bit 10 t3l XOR drop_bit 17 t3l XOR push_bit 22 t3h XOR push_bit 15 t3h\<rparr>;
     x = x\<lparr>x3h := t3h XOR drop_bit 10 t3h XOR drop_bit 17 t3h XOR push_bit 22 t3l XOR push_bit 15 t3l\<rparr>;
     x = x\<lparr>x0l := t0l XOR drop_bit 19 t0l XOR drop_bit 28 t0l XOR push_bit 13 t0h XOR push_bit 4 t0h\<rparr>;
     x = x\<lparr>x0h := t0h XOR drop_bit 19 t0h XOR drop_bit 28 t0h XOR push_bit 13 t0l XOR push_bit 4 t0l\<rparr>;
     x = x\<lparr>x2l := t2l XOR drop_bit 1 t2l XOR drop_bit 6 t2l XOR push_bit 31 t2h XOR push_bit 26 t2h\<rparr>;
     x = x\<lparr>x2h := t2h XOR drop_bit 1 t2h XOR drop_bit 6 t2h XOR push_bit 31 t2l XOR push_bit 26 t2l\<rparr>
   in x)"

definition v_P32_8 :: "lanes \<Rightarrow> lanes" where
  "v_P32_8 x = (let
     x = v_P32_ROUND x 0xb4;
     x = v_P32_ROUND x 0xa5;
     x = v_P32_ROUND x 0x96;
     x = v_P32_ROUND x 0x87;
     x = v_P32_ROUND x 0x78;
     x = v_P32_ROUND x 0x69;
     x = v_P32_ROUND x 0x5a;
     x = v_P32_ROUND x 0x4b
   in x)"

definition v_P32_12 :: "lanes \<Rightarrow> lanes" where
  "v_P32_12 x = (let
     x = v_P32_ROUND x 0xf0;
     x = v_P32_ROUND x 0xe1;
     x = v_P32_ROUND x 0xd2;
     x = v_P32_ROUND x 0xc3
   in v_P32_8 x)"

definition v_permutation_32 :: "AsconState \<Rightarrow> nat \<Rightarrow> AsconState" where
  "v_permutation_32 a rounds = (let
     x = \<lparr>x0l = s32 a ! 0, x0h = s32 a ! 1, x1l = s32 a ! 2, x1h = s32 a ! 3,
          x2l = s32 a ! 4, x2h = s32 a ! 5, x3l = s32 a ! 6, x3h = s32 a ! 7,
          x4l = s32 a ! 8, x4h = s32 a ! 9\<rparr>;
     x = (if rounds = 12 then v_P32_12 x else v_P32_8 x)
   in of_s32 [x0l x, x0h x, x1l x, x1h x, x2l x, x2h x, x3l x, x3h x, x4l x, x4h x])"

section \<open>The drivers\<close>

type_synonym perm_fun = "AsconState \<Rightarrow> nat \<Rightarrow> AsconState"

function v_hash_loop :: "perm_fun \<Rightarrow> AsconState \<Rightarrow> u8 list \<Rightarrow> nat \<Rightarrow> nat \<Rightarrow> AsconState \<times> nat" where
  "v_hash_loop perm s msg msglen off =
     (if off + 8 \<le> msglen then
        (let s = xor_bytes_loop s 0 (drop off msg) 8;
             s = perm s 12
         in v_hash_loop perm s msg msglen (off + 8))
      else (s, off))"
  by pat_completeness auto
termination
  by (relation "measure (\<lambda>(perm, s, msg, msglen, off). msglen - off)") auto

declare v_hash_loop.simps [simp del]

function v_squeeze_loop :: "perm_fun \<Rightarrow> AsconState \<Rightarrow> nat \<Rightarrow> u8 list" where
  "v_squeeze_loop perm s i =
     (if i < 32 then (let s = perm s 12 in read_at 0 8 (s8 s) @ v_squeeze_loop perm s (i + 8)) else [])"
  by pat_completeness auto
termination
  by (relation "measure (\<lambda>(perm, s, i). 32 - i)") auto

declare v_squeeze_loop.simps [simp del]

definition ascon_hash :: "perm_fun \<Rightarrow> u8 list \<Rightarrow> nat \<Rightarrow> u8 list" where
  "ascon_hash perm msg msglen = (let
     s = zero_state;
     s = s\<lparr>s64_0 := 0x0000080100CC0002\<rparr>;
     s = perm s 12;
     (s, off) = v_hash_loop perm s msg msglen 0;
     rem = msglen - off;
     s = xor_bytes_loop s 0 (drop off msg) rem;
     s = xor_s8 s rem 1
   in v_squeeze_loop perm s 0)"

function v_ad_loop :: "perm_fun \<Rightarrow> AsconState \<Rightarrow> u8 list \<Rightarrow> nat \<Rightarrow> nat \<Rightarrow> AsconState \<times> nat" where
  "v_ad_loop perm s ad adlen off =
     (if off + 16 \<le> adlen then
        (let s = xor_bytes_loop s 0 (drop off ad) 16;
             s = perm s 8
         in v_ad_loop perm s ad adlen (off + 16))
      else (s, off))"
  by pat_completeness auto
termination
  by (relation "measure (\<lambda>(perm, s, ad, adlen, off). adlen - off)") auto

declare v_ad_loop.simps [simp del]

function v_pt_loop :: "perm_fun \<Rightarrow> AsconState \<Rightarrow> u8 list \<Rightarrow> nat \<Rightarrow> nat \<Rightarrow> AsconState \<times> nat \<times> u8 list" where
  "v_pt_loop perm s pt ptlen off =
     (if off + 16 \<le> ptlen then
        (let (s, ct) = encrypt_bytes_loop s 0 (drop off pt) 16;
             s = perm s 8;
             (s, off', rest) = v_pt_loop perm s pt ptlen (off + 16)
         in (s, off', ct @ rest))
      else (s, off, []))"
  by pat_completeness auto
termination
  by (relation "measure (\<lambda>(perm, s, pt, ptlen, off). ptlen - off)") auto

declare v_pt_loop.simps [simp del]

text \<open>The four stages of \<open>ascon_aead_encrypt\<close>.\<close>

definition v_aead_init :: "perm_fun \<Rightarrow> u8 list \<Rightarrow> u8 list \<Rightarrow> AsconState" where
  "v_aead_init perm key nonce = (let
     s = zero_state;
     s = s\<lparr>s64_0 := 0x00001000808C0001\<rparr>;
     s = s\<lparr>s64_1 := u64_of_bytes (read_at 0 8 key), s64_2 := u64_of_bytes (read_at 8 8 key)\<rparr>;
     s = s\<lparr>s64_3 := u64_of_bytes (read_at 0 8 nonce), s64_4 := u64_of_bytes (read_at 8 8 nonce)\<rparr>;
     s = perm s 12;
     s = s\<lparr>s64_3 := s64_3 s XOR u64_of_bytes (read_at 0 8 key)\<rparr>;
     s = s\<lparr>s64_4 := s64_4 s XOR u64_of_bytes (read_at 8 8 key)\<rparr>
   in s)"

definition v_aead_ad :: "perm_fun \<Rightarrow> AsconState \<Rightarrow> u8 list \<Rightarrow> nat \<Rightarrow> AsconState" where
  "v_aead_ad perm s ad adlen = (let
     s = (if 0 < adlen then
            (let (s, off) = v_ad_loop perm s ad adlen 0;
                 rem = adlen - off;
                 s = xor_bytes_loop s 0 (drop off ad) rem;
                 s = xor_s8 s rem 1
             in perm s 8)
          else s);
     s = s\<lparr>s64_4 := s64_4 s XOR push_bit 63 1\<rparr>
   in s)"

definition v_aead_pt :: "perm_fun \<Rightarrow> AsconState \<Rightarrow> u8 list \<Rightarrow> nat \<Rightarrow> AsconState \<times> u8 list" where
  "v_aead_pt perm s pt ptlen = (let
     (s, off, ct) = v_pt_loop perm s pt ptlen 0;
     rem = ptlen - off;
     (s, rest) = encrypt_bytes_loop s 0 (drop off pt) rem;
     s = xor_s8 s rem 1
   in (s, ct @ rest))"

definition v_aead_tag :: "perm_fun \<Rightarrow> AsconState \<Rightarrow> u8 list \<Rightarrow> u8 list" where
  "v_aead_tag perm s key = (let
     s = s\<lparr>s64_2 := s64_2 s XOR u64_of_bytes (read_at 0 8 key)\<rparr>;
     s = s\<lparr>s64_3 := s64_3 s XOR u64_of_bytes (read_at 8 8 key)\<rparr>;
     s = perm s 12;
     s = s\<lparr>s64_3 := s64_3 s XOR u64_of_bytes (read_at 0 8 key)\<rparr>;
     s = s\<lparr>s64_4 := s64_4 s XOR u64_of_bytes (read_at 8 8 key)\<rparr>
   in read_at 24 16 (s8 s))"

definition ascon_aead_encrypt :: "perm_fun \<Rightarrow> u8 list \<Rightarrow> u8 list \<Rightarrow> u8 list \<Rightarrow> nat \<Rightarrow> u8 list \<Rightarrow> nat
    \<Rightarrow> u8 list \<times> u8 list" where
  "ascon_aead_encrypt perm key nonce ad adlen pt ptlen = (let
     s = v_aead_init perm key nonce;
     s = v_aead_ad perm s ad adlen;
     (s, ct) = v_aead_pt perm s pt ptlen
   in (ct, v_aead_tag perm s key))"

section \<open>The test program\<close>

text \<open>\<open>memcmp_print\<close> without its output.\<close>

definition memcmp_print :: "u8 list \<Rightarrow> u8 list \<Rightarrow> nat" where
  "memcmp_print a b = (if a \<noteq> b then 1 else 0)"

definition verify_hash_case :: "u8 list \<Rightarrow> nat" where
  "verify_hash_case msg = memcmp_print (ascon_hash permutation_64 msg (length msg))
     (ascon_hash v_permutation_32 msg (length msg))"

definition verify_aead_case :: "u8 list \<Rightarrow> u8 list \<Rightarrow> u8 list \<Rightarrow> u8 list \<Rightarrow> nat" where
  "verify_aead_case key nonce ad pt =
     (let (ct64, tag64) = ascon_aead_encrypt permutation_64 key nonce ad (length ad) pt (length pt);
          (ct32, tag32) = ascon_aead_encrypt v_permutation_32 key nonce ad (length ad) pt (length pt)
      in memcmp_print ct64 ct32 + memcmp_print tag64 tag32)"

text \<open>
  The fill value of one state word in the trial loops. The products exceed the range of
  \<open>int\<close> for larger trials, which C leaves undefined; the model wraps to 32 bits.
\<close>

definition int_word64 :: "int \<Rightarrow> u64" where
  "int_word64 k = scast (word_of_int k :: u32)"

definition trial_word :: "int \<Rightarrow> int \<Rightarrow> int \<Rightarrow> int \<Rightarrow> nat \<Rightarrow> nat \<Rightarrow> u64" where
  "trial_word c1 c2 c3 c4 trial i = push_bit 32 (int_word64 (int trial * c1 + int i * c2))
     OR int_word64 (int trial * c3 + int i * c4)"

definition trial_state :: "(nat \<Rightarrow> u64) \<Rightarrow> AsconState" where
  "trial_state v = \<lparr>s64_0 = v 0, s64_1 = v 1, s64_2 = v 2, s64_3 = v 3, s64_4 = v 4\<rparr>"

text \<open>A trial loop of 1000 rounds that stops at the first mismatch.\<close>

function verify_trials :: "nat \<Rightarrow> (nat \<Rightarrow> nat \<Rightarrow> u64) \<Rightarrow> nat \<Rightarrow> nat" where
  "verify_trials rounds v trial =
     (if trial < 1000 then
        (if s8 (permutation_64 (trial_state (v trial)) rounds) \<noteq> s8 (v_permutation_32 (trial_state (v trial)) rounds)
         then 1 else verify_trials rounds v (Suc trial))
      else 0)"
  by pat_completeness auto
termination
  by (relation "measure (\<lambda>(rounds, v, trial). 1000 - trial)") auto

declare verify_trials.simps [simp del]

definition verify_main :: nat where
  "verify_main = (let
     fail = 0;
     fail = fail + verify_hash_case [];
     fail = fail + verify_hash_case [0x61, 0x73, 0x63, 0x6f, 0x6e];
     fail = fail + verify_aead_case (map word_of_nat [0..<16]) (map word_of_nat [16..<32])
       (map word_of_nat [0..<13]) (map word_of_nat [0..<32]);
     fail = fail + verify_aead_case (replicate 16 0) (replicate 16 0) []
       (map (\<lambda>i. 0x30 + (word_of_nat i AND 0x3f)) [0..<40]);
     fail = fail + verify_trials 12 (trial_word 0x12345 0x6789 0xabcdef 0x13579) 0;
     fail = fail + verify_trials 8 (trial_word 0x2468a 0x1357b 0x9abcdef 0x24680) 0
   in if fail \<noteq> 0 then 1 else 0)"

section \<open>Correctness\<close>

lemma ascon_round_64_eq: "ascon_round_64 a i = ascon_round a i"
  by (simp only: ascon_round_64_def ascon_round_def p_round_def verify_round_constants_def
      ascon_round_constants_def)

lemma permutation_64_loop_eq: "permutation_64_loop a i = permutation_loop a i"
proof (induction a i rule: permutation_64_loop.induct)
  case (1 a i)
  then show ?case
    by (simp add: permutation_64_loop.simps [of a i] permutation_loop.simps [of a i] ascon_round_64_eq)
qed

lemma permutation_64_eq: "permutation_64 s 8 = perm8 s" "permutation_64 s 12 = perm12 s"
  by (simp_all add: permutation_64_def perm8_def perm12_def permutation_def start_index_def permutation_64_loop_eq)

lemma v_P32_ROUND_eq: "v_P32_ROUND = P32_ROUND"
  by (intro ext) (simp only: v_P32_ROUND_def P32_ROUND_def)

lemma v_permutation_32_eq: "v_permutation_32 = permutation_32"
proof -
  have c: "v_P32_8 x = P32_8 x" for x
    by (simp add: v_P32_8_def P32_8_def v_P32_ROUND_eq ascon_round_constants_def)
  have "v_P32_12 x = P32_12 x" for x
    by (simp add: v_P32_12_def P32_12_def v_P32_ROUND_eq ascon_round_constants_def c)
  with c show ?thesis by (intro ext) (simp only: v_permutation_32_def permutation_32_def)
qed

lemma permutation_32_perm: "permutation_32 s 8 = perm8 s" "permutation_32 s 12 = perm12 s"
  by (simp_all add: permutation_32_eq perm8_def perm12_def)

text \<open>What the drivers need of the function pointer.\<close>

definition ascon_perm :: "perm_fun \<Rightarrow> bool" where
  "ascon_perm perm \<longleftrightarrow> (\<forall>s. perm s 8 = perm8 s \<and> perm s 12 = perm12 s)"

lemma ascon_perm_paths: "ascon_perm permutation_64" "ascon_perm v_permutation_32" "ascon_perm permutation"
  by (simp_all add: ascon_perm_def permutation_64_eq v_permutation_32_eq permutation_32_perm perm8_def perm12_def)

lemma whole_chunk:
  assumes "duplex rate" and "n \<le> rate" and "n \<le> length d"
  shows "dx_run keep_xor rate P (s, 0) (take n d) =
    (let s' = xor_bytes_loop s 0 d n in (if n = rate then (P s', 0) else (s', n), xor_bytes (s8 s) (take n d)))"
  using xor_bytes_chunk [OF assms(1) duplex.rate_pos [OF assms(1)], where n = n and d = d and s = s and P = P] assms
  by (simp add: Let_def)

lemma v_hash_loop_run:
  assumes "ascon_perm perm" and "n = length msg" and "off \<le> n" and "v_hash_loop perm s msg n off = (s', off')"
  shows "off' \<le> n \<and> fst (dx_run keep_xor 8 perm12 (s, 0) (drop off msg))
    = (xor_bytes_loop s' 0 (drop off' msg) (n - off'), n - off')"
  using assms
proof (induction perm s msg n off rule: v_hash_loop.induct)
  case (1 perm s msg n off)
  let ?d = "drop off msg"
  show ?case
  proof (cases "off + 8 \<le> n")
    case True
    let ?s = "perm12 (xor_bytes_loop s 0 ?d 8)"
    have "v_hash_loop perm ?s msg n (off + 8) = (s', off')"
      using True 1(2,5) by (simp add: v_hash_loop.simps [of perm s msg n off] ascon_perm_def Let_def)
    then have IH: "off' \<le> n \<and> fst (dx_run keep_xor 8 perm12 (?s, 0) (drop (off + 8) msg))
        = (xor_bytes_loop s' 0 (drop off' msg) (n - off'), n - off')"
      using "1.IH" [OF True refl refl 1(2,3)] True 1(2) by (simp add: ascon_perm_def)
    have "fst (dx_run keep_xor 8 perm12 (s, 0) (take 8 ?d)) = (?s, 0)"
      using whole_chunk [OF hash_dx.duplex_axioms, of 8 ?d perm12 s] True 1(3) by (simp add: Let_def)
    then have "fst (dx_run keep_xor 8 perm12 (s, 0) ?d) = fst (dx_run keep_xor 8 perm12 (?s, 0) (drop (off + 8) msg))"
      by (subst hash_dx.run_split [where k = 8]) (simp add: case_prod_unfold Let_def add.commute)
    then show ?thesis using IH by simp
  next
    case False
    then have "v_hash_loop perm s msg n off = (s, off)" by (subst v_hash_loop.simps) simp
    then show ?thesis
      using False 1(3-5) whole_chunk [OF hash_dx.duplex_axioms, of "n - off" ?d perm12 s]
      by (auto simp: Let_def)
  qed
qed

lemma v_squeeze_loop_squeeze:
  assumes "ascon_perm perm"
  shows "v_squeeze_loop perm s 0 = squeeze 4 perm12 s"
proof -
  have step: "i < 32 \<Longrightarrow> v_squeeze_loop perm s i = take 8 (s8 (perm12 s)) @ v_squeeze_loop perm (perm12 s) (i + 8)"
    for s i using assms by (subst v_squeeze_loop.simps) (simp add: ascon_perm_def read_at_def Let_def)
  have stop: "v_squeeze_loop perm s 32 = []" for s by (subst v_squeeze_loop.simps) simp
  have "squeeze 4 perm12 s = take 8 (s8 (perm12 s)) @ take 8 (s8 (perm12 (perm12 s)))
      @ take 8 (s8 (perm12 (perm12 (perm12 s)))) @ take 8 (s8 (perm12 (perm12 (perm12 (perm12 s)))))"
    by (simp add: numeral_eq_Suc)
  then show ?thesis by (simp add: step stop)
qed

lemma ascon_hash_spec:
  assumes "ascon_perm perm"
  shows "ascon_hash perm msg (length msg) = hash_spec msg"
proof -
  have init: "perm (zero_state\<lparr>s64_0 := 0x0000080100CC0002\<rparr>) 12 = hash_init_state"
    using assms by (simp add: ascon_perm_def hash_init_state_def ASCON_HASH256_IV_def)
  obtain s off where l: "v_hash_loop perm hash_init_state msg (length msg) 0 = (s, off)" by fastforce
  from v_hash_loop_run [OF assms refl _ l] show ?thesis
    by (simp add: ascon_hash_def init l Let_def v_squeeze_loop_squeeze [OF assms] hash_spec_def pad_def)
qed

lemma v_ad_loop_run:
  assumes "ascon_perm perm" and "n = length ad" and "off \<le> n" and "v_ad_loop perm s ad n off = (s', off')"
  shows "off' \<le> n \<and> fst (dx_run keep_xor 16 perm8 (s, 0) (drop off ad))
    = (xor_bytes_loop s' 0 (drop off' ad) (n - off'), n - off')"
  using assms
proof (induction perm s ad n off rule: v_ad_loop.induct)
  case (1 perm s ad n off)
  let ?d = "drop off ad"
  show ?case
  proof (cases "off + 16 \<le> n")
    case True
    let ?s = "perm8 (xor_bytes_loop s 0 ?d 16)"
    have "v_ad_loop perm ?s ad n (off + 16) = (s', off')"
      using True 1(2,5) by (simp add: v_ad_loop.simps [of perm s ad n off] ascon_perm_def Let_def)
    then have IH: "off' \<le> n \<and> fst (dx_run keep_xor 16 perm8 (?s, 0) (drop (off + 16) ad))
        = (xor_bytes_loop s' 0 (drop off' ad) (n - off'), n - off')"
      using "1.IH" [OF True refl refl 1(2,3)] True 1(2) by (simp add: ascon_perm_def)
    have "fst (dx_run keep_xor 16 perm8 (s, 0) (take 16 ?d)) = (?s, 0)"
      using whole_chunk [OF aead_dx.duplex_axioms, of 16 ?d perm8 s] True 1(3) by (simp add: Let_def)
    then have "fst (dx_run keep_xor 16 perm8 (s, 0) ?d) = fst (dx_run keep_xor 16 perm8 (?s, 0) (drop (off + 16) ad))"
      by (subst aead_dx.run_split [where k = 16]) (simp add: case_prod_unfold Let_def add.commute)
    then show ?thesis using IH by simp
  next
    case False
    then have "v_ad_loop perm s ad n off = (s, off)" by (subst v_ad_loop.simps) simp
    then show ?thesis
      using False 1(3-5) whole_chunk [OF aead_dx.duplex_axioms, of "n - off" ?d perm8 s]
      by (auto simp: Let_def)
  qed
qed

lemma v_pt_loop_run:
  assumes "ascon_perm perm" and "n = length pt" and "off \<le> n" and "v_pt_loop perm s pt n off = (s', off', ct)"
  shows "off' \<le> n \<and> dx_run keep_xor 16 perm8 (s, 0) (drop off pt)
    = (let (s'', rest) = encrypt_bytes_loop s' 0 (drop off' pt) (n - off') in ((s'', n - off'), ct @ rest))"
  using assms
proof (induction perm s pt n off arbitrary: ct rule: v_pt_loop.induct)
  case (1 perm s pt n off)
  let ?d = "drop off pt"
  show ?case
  proof (cases "off + 16 \<le> n")
    case True
    let ?s = "perm8 (xor_bytes_loop s 0 ?d 16)" let ?o = "xor_bytes (s8 s) (take 16 ?d)"
    have bytes: "encrypt_bytes_loop s 0 ?d 16 = (xor_bytes_loop s 0 ?d 16, ?o)"
      using True 1(3) by (simp add: encrypt_bytes_loop_eq)
    then obtain ct' where rec: "v_pt_loop perm ?s pt n (off + 16) = (s', off', ct')" and ct: "ct = ?o @ ct'"
      using True 1(2,5) by (auto simp: v_pt_loop.simps [of perm s pt n off] ascon_perm_def Let_def split: prod.splits)
    then have IH: "off' \<le> n \<and> dx_run keep_xor 16 perm8 (?s, 0) (drop (off + 16) pt)
        = (let (s'', rest) = encrypt_bytes_loop s' 0 (drop off' pt) (n - off') in ((s'', n - off'), ct' @ rest))"
      using "1.IH" [OF True bytes [symmetric] refl refl 1(2,3)] True 1(2) by (simp add: ascon_perm_def)
    have "dx_run keep_xor 16 perm8 (s, 0) (take 16 ?d) = ((?s, 0), ?o)"
      using whole_chunk [OF aead_dx.duplex_axioms, of 16 ?d perm8 s] True 1(3) by (simp add: Let_def)
    then have "dx_run keep_xor 16 perm8 (s, 0) ?d
        = (case dx_run keep_xor 16 perm8 (?s, 0) (drop (off + 16) pt) of (c, out) \<Rightarrow> (c, ?o @ out))"
      by (subst aead_dx.run_split [where k = 16]) (simp add: add.commute)
    then show ?thesis using IH ct by (simp add: case_prod_unfold Let_def)
  next
    case False
    then have "v_pt_loop perm s pt n off = (s, off, [])" by (subst v_pt_loop.simps) simp
    then show ?thesis
      using False 1(3-5) whole_chunk [OF aead_dx.duplex_axioms, of "n - off" ?d perm8 s]
      by (auto simp: encrypt_bytes_loop_eq Let_def)
  qed
qed

lemma v_aead_init_start:
  assumes "ascon_perm perm" and "length nonce = 16" and "key_words key = (k0, k1)"
  shows "v_aead_init perm key nonce = aead_start k0 k1 nonce"
  using assms by (simp add: v_aead_init_def aead_start_def key_words_def ascon_perm_def read_at_def
      zero_state_def ASCON_AEAD128_IV_def Let_def)

lemma v_aead_ad_absorb:
  assumes "ascon_perm perm"
  shows "v_aead_ad perm s ad (length ad) = aead_absorb_ad s ad"
proof -
  obtain s' off where l: "v_ad_loop perm s ad (length ad) 0 = (s', off)" by fastforce
  from v_ad_loop_run [OF assms refl _ l] assms show ?thesis
    by (simp add: v_aead_ad_def aead_absorb_ad_def l pad_def ascon_perm_def Let_def)
qed

lemma v_aead_pt_run:
  assumes "ascon_perm perm"
  shows "v_aead_pt perm s pt (length pt)
    = (case dx_run keep_xor 16 perm8 (s, 0) pt of (c, ct) \<Rightarrow> (pad c, ct))"
proof -
  obtain s' off ct where l: "v_pt_loop perm s pt (length pt) 0 = (s', off, ct)" by (metis prod_cases3)
  obtain s'' rest where e: "encrypt_bytes_loop s' 0 (drop off pt) (length pt - off) = (s'', rest)" by fastforce
  from v_pt_loop_run [OF assms refl _ l] e show ?thesis
    by (simp add: v_aead_pt_def l pad_def Let_def)
qed

lemma v_aead_tag_tag:
  assumes "ascon_perm perm" and "key_words key = (k0, k1)"
  shows "v_aead_tag perm (pad c) key = aead_tag k0 k1 c"
  using assms by (simp add: v_aead_tag_def aead_tag_def aead_close_def key_words_def ascon_perm_def Let_def)

lemma ascon_aead_encrypt_seal:
  assumes "ascon_perm perm" and "length nonce = 16"
  shows "ascon_aead_encrypt perm key nonce ad (length ad) pt (length pt) = aead_seal key nonce ad pt"
proof -
  obtain k0 k1 where k: "key_words key = (k0, k1)" by (cases "key_words key")
  show ?thesis
    by (simp add: ascon_aead_encrypt_def v_aead_init_start [OF assms k] v_aead_ad_absorb [OF assms(1)]
        v_aead_pt_run [OF assms(1)] v_aead_tag_tag [OF assms(1) k] aead_seal_def aead_ready_def k
        case_prod_unfold Let_def)
qed

lemma verify_trials_zero:
  assumes "rounds = 8 \<or> rounds = 12"
  shows "verify_trials rounds v trial = 0"
proof -
  have eq: "permutation_64 s rounds = v_permutation_32 s rounds" for s
    using assms by (auto simp: permutation_64_eq v_permutation_32_eq permutation_32_perm)
  show ?thesis
  proof (induction "1000 - trial" arbitrary: trial)
    case 0
    then show ?case by (subst verify_trials.simps) simp
  next
    case (Suc k)
    then have "verify_trials rounds v (Suc trial) = 0" by (intro Suc.hyps(1)) simp
    then show ?case by (subst verify_trials.simps) (simp add: eq)
  qed
qed

lemma verify_cases_zero:
  "verify_hash_case msg = 0"
  "length nonce = 16 \<Longrightarrow> verify_aead_case key nonce ad pt = 0"
  using ascon_perm_paths
  by (simp_all add: verify_hash_case_def verify_aead_case_def ascon_hash_spec ascon_aead_encrypt_seal
      memcmp_print_def split: prod.splits)

lemma verify_main_zero: "verify_main = 0"
proof -
  have "verify_aead_case (map word_of_nat [0..<16]) (map word_of_nat [16..<32])
       (map word_of_nat [0..<13]) (map word_of_nat [0..<32]) = 0"
    by (rule verify_cases_zero) simp
  moreover have "verify_aead_case (replicate 16 0) (replicate 16 0) []
       (map (\<lambda>i. 0x30 + (word_of_nat i AND 0x3f)) [0..<40]) = 0"
    by (rule verify_cases_zero) simp
  moreover have "verify_trials 12 v 0 = 0" and "verify_trials 8 v 0 = 0" for v
    by (simp_all add: verify_trials_zero)
  ultimately show ?thesis
    unfolding verify_main_def Let_def verify_cases_zero(1) by (simp only: add_0 if_False simp_thms)
qed

end
