(* ===== verification/Kat_Eval.thy ===== *)
theory Kat_Eval
  imports Ascon_Duplex
begin

text \<open>
  Evaluation of the permutation by the simplifier, for the known-answer theorems. A word
  is a \<open>lane\<close> of sixteen 4-bit digits, lowest first; every operation of a round becomes one
  rewriting step for the lane and one table lookup per digit, and the tables are proved
  from the bitwise operations. \<open>eval_perm12\<close> and \<open>eval_perm8\<close> carry a result over to the
  permutation of \<open>Ascon_Perm\<close>.
\<close>

section \<open>Digits\<close>

type_synonym nib = "4 word"

definition nx :: "nib \<Rightarrow> nib \<Rightarrow> nib" where "nx a b = a XOR b"

definition na :: "nib \<Rightarrow> nib \<Rightarrow> nib" where "na a b = NOT a AND b"

text \<open>A digit of a number shifted right by one, two or three bits; \<open>b\<close> is the next higher digit.\<close>

definition shr :: "nat \<Rightarrow> nib \<Rightarrow> nib \<Rightarrow> nib" where "shr r a b = drop_bit r a OR push_bit (4 - r) b"

abbreviation sh1 where "sh1 \<equiv> shr 1"
abbreviation sh2 where "sh2 \<equiv> shr 2"
abbreviation sh3 where "sh3 \<equiv> shr 3"

lemma nx_table:
  "nx 0 0 = 0" "nx 0 1 = 1" "nx 0 2 = 2" "nx 0 3 = 3" "nx 0 4 = 4" "nx 0 5 = 5" "nx 0 6 = 6" "nx 0 7 = 7" "nx 0 8 = 8"
  "nx 0 9 = 9" "nx 0 10 = 10" "nx 0 11 = 11" "nx 0 12 = 12" "nx 0 13 = 13" "nx 0 14 = 14" "nx 0 15 = 15" "nx 1 0 = 1"
  "nx 1 1 = 0" "nx 1 2 = 3" "nx 1 3 = 2" "nx 1 4 = 5" "nx 1 5 = 4" "nx 1 6 = 7" "nx 1 7 = 6" "nx 1 8 = 9" "nx 1 9 = 8"
  "nx 1 10 = 11" "nx 1 11 = 10" "nx 1 12 = 13" "nx 1 13 = 12" "nx 1 14 = 15" "nx 1 15 = 14" "nx 2 0 = 2" "nx 2 1 = 3"
  "nx 2 2 = 0" "nx 2 3 = 1" "nx 2 4 = 6" "nx 2 5 = 7" "nx 2 6 = 4" "nx 2 7 = 5" "nx 2 8 = 10" "nx 2 9 = 11"
  "nx 2 10 = 8" "nx 2 11 = 9" "nx 2 12 = 14" "nx 2 13 = 15" "nx 2 14 = 12" "nx 2 15 = 13" "nx 3 0 = 3" "nx 3 1 = 2"
  "nx 3 2 = 1" "nx 3 3 = 0" "nx 3 4 = 7" "nx 3 5 = 6" "nx 3 6 = 5" "nx 3 7 = 4" "nx 3 8 = 11" "nx 3 9 = 10"
  "nx 3 10 = 9" "nx 3 11 = 8" "nx 3 12 = 15" "nx 3 13 = 14" "nx 3 14 = 13" "nx 3 15 = 12" "nx 4 0 = 4" "nx 4 1 = 5"
  "nx 4 2 = 6" "nx 4 3 = 7" "nx 4 4 = 0" "nx 4 5 = 1" "nx 4 6 = 2" "nx 4 7 = 3" "nx 4 8 = 12" "nx 4 9 = 13"
  "nx 4 10 = 14" "nx 4 11 = 15" "nx 4 12 = 8" "nx 4 13 = 9" "nx 4 14 = 10" "nx 4 15 = 11" "nx 5 0 = 5" "nx 5 1 = 4"
  "nx 5 2 = 7" "nx 5 3 = 6" "nx 5 4 = 1" "nx 5 5 = 0" "nx 5 6 = 3" "nx 5 7 = 2" "nx 5 8 = 13" "nx 5 9 = 12"
  "nx 5 10 = 15" "nx 5 11 = 14" "nx 5 12 = 9" "nx 5 13 = 8" "nx 5 14 = 11" "nx 5 15 = 10" "nx 6 0 = 6" "nx 6 1 = 7"
  "nx 6 2 = 4" "nx 6 3 = 5" "nx 6 4 = 2" "nx 6 5 = 3" "nx 6 6 = 0" "nx 6 7 = 1" "nx 6 8 = 14" "nx 6 9 = 15"
  "nx 6 10 = 12" "nx 6 11 = 13" "nx 6 12 = 10" "nx 6 13 = 11" "nx 6 14 = 8" "nx 6 15 = 9" "nx 7 0 = 7" "nx 7 1 = 6"
  "nx 7 2 = 5" "nx 7 3 = 4" "nx 7 4 = 3" "nx 7 5 = 2" "nx 7 6 = 1" "nx 7 7 = 0" "nx 7 8 = 15" "nx 7 9 = 14"
  "nx 7 10 = 13" "nx 7 11 = 12" "nx 7 12 = 11" "nx 7 13 = 10" "nx 7 14 = 9" "nx 7 15 = 8" "nx 8 0 = 8" "nx 8 1 = 9"
  "nx 8 2 = 10" "nx 8 3 = 11" "nx 8 4 = 12" "nx 8 5 = 13" "nx 8 6 = 14" "nx 8 7 = 15" "nx 8 8 = 0" "nx 8 9 = 1"
  "nx 8 10 = 2" "nx 8 11 = 3" "nx 8 12 = 4" "nx 8 13 = 5" "nx 8 14 = 6" "nx 8 15 = 7" "nx 9 0 = 9" "nx 9 1 = 8"
  "nx 9 2 = 11" "nx 9 3 = 10" "nx 9 4 = 13" "nx 9 5 = 12" "nx 9 6 = 15" "nx 9 7 = 14" "nx 9 8 = 1" "nx 9 9 = 0"
  "nx 9 10 = 3" "nx 9 11 = 2" "nx 9 12 = 5" "nx 9 13 = 4" "nx 9 14 = 7" "nx 9 15 = 6" "nx 10 0 = 10" "nx 10 1 = 11"
  "nx 10 2 = 8" "nx 10 3 = 9" "nx 10 4 = 14" "nx 10 5 = 15" "nx 10 6 = 12" "nx 10 7 = 13" "nx 10 8 = 2" "nx 10 9 = 3"
  "nx 10 10 = 0" "nx 10 11 = 1" "nx 10 12 = 6" "nx 10 13 = 7" "nx 10 14 = 4" "nx 10 15 = 5" "nx 11 0 = 11"
  "nx 11 1 = 10" "nx 11 2 = 9" "nx 11 3 = 8" "nx 11 4 = 15" "nx 11 5 = 14" "nx 11 6 = 13" "nx 11 7 = 12" "nx 11 8 = 3"
  "nx 11 9 = 2" "nx 11 10 = 1" "nx 11 11 = 0" "nx 11 12 = 7" "nx 11 13 = 6" "nx 11 14 = 5" "nx 11 15 = 4"
  "nx 12 0 = 12" "nx 12 1 = 13" "nx 12 2 = 14" "nx 12 3 = 15" "nx 12 4 = 8" "nx 12 5 = 9" "nx 12 6 = 10" "nx 12 7 = 11"
  "nx 12 8 = 4" "nx 12 9 = 5" "nx 12 10 = 6" "nx 12 11 = 7" "nx 12 12 = 0" "nx 12 13 = 1" "nx 12 14 = 2" "nx 12 15 = 3"
  "nx 13 0 = 13" "nx 13 1 = 12" "nx 13 2 = 15" "nx 13 3 = 14" "nx 13 4 = 9" "nx 13 5 = 8" "nx 13 6 = 11" "nx 13 7 = 10"
  "nx 13 8 = 5" "nx 13 9 = 4" "nx 13 10 = 7" "nx 13 11 = 6" "nx 13 12 = 1" "nx 13 13 = 0" "nx 13 14 = 3" "nx 13 15 = 2"
  "nx 14 0 = 14" "nx 14 1 = 15" "nx 14 2 = 12" "nx 14 3 = 13" "nx 14 4 = 10" "nx 14 5 = 11" "nx 14 6 = 8" "nx 14 7 = 9"
  "nx 14 8 = 6" "nx 14 9 = 7" "nx 14 10 = 4" "nx 14 11 = 5" "nx 14 12 = 2" "nx 14 13 = 3" "nx 14 14 = 0" "nx 14 15 = 1"
  "nx 15 0 = 15" "nx 15 1 = 14" "nx 15 2 = 13" "nx 15 3 = 12" "nx 15 4 = 11" "nx 15 5 = 10" "nx 15 6 = 9" "nx 15 7 = 8"
  "nx 15 8 = 7" "nx 15 9 = 6" "nx 15 10 = 5" "nx 15 11 = 4" "nx 15 12 = 3" "nx 15 13 = 2" "nx 15 14 = 1" "nx 15 15 = 0"
  by (simp_all add: nx_def)

lemma na_table:
  "na 0 0 = 0" "na 0 1 = 1" "na 0 2 = 2" "na 0 3 = 3" "na 0 4 = 4" "na 0 5 = 5" "na 0 6 = 6" "na 0 7 = 7" "na 0 8 = 8"
  "na 0 9 = 9" "na 0 10 = 10" "na 0 11 = 11" "na 0 12 = 12" "na 0 13 = 13" "na 0 14 = 14" "na 0 15 = 15" "na 1 0 = 0"
  "na 1 1 = 0" "na 1 2 = 2" "na 1 3 = 2" "na 1 4 = 4" "na 1 5 = 4" "na 1 6 = 6" "na 1 7 = 6" "na 1 8 = 8" "na 1 9 = 8"
  "na 1 10 = 10" "na 1 11 = 10" "na 1 12 = 12" "na 1 13 = 12" "na 1 14 = 14" "na 1 15 = 14" "na 2 0 = 0" "na 2 1 = 1"
  "na 2 2 = 0" "na 2 3 = 1" "na 2 4 = 4" "na 2 5 = 5" "na 2 6 = 4" "na 2 7 = 5" "na 2 8 = 8" "na 2 9 = 9" "na 2 10 = 8"
  "na 2 11 = 9" "na 2 12 = 12" "na 2 13 = 13" "na 2 14 = 12" "na 2 15 = 13" "na 3 0 = 0" "na 3 1 = 0" "na 3 2 = 0"
  "na 3 3 = 0" "na 3 4 = 4" "na 3 5 = 4" "na 3 6 = 4" "na 3 7 = 4" "na 3 8 = 8" "na 3 9 = 8" "na 3 10 = 8"
  "na 3 11 = 8" "na 3 12 = 12" "na 3 13 = 12" "na 3 14 = 12" "na 3 15 = 12" "na 4 0 = 0" "na 4 1 = 1" "na 4 2 = 2"
  "na 4 3 = 3" "na 4 4 = 0" "na 4 5 = 1" "na 4 6 = 2" "na 4 7 = 3" "na 4 8 = 8" "na 4 9 = 9" "na 4 10 = 10"
  "na 4 11 = 11" "na 4 12 = 8" "na 4 13 = 9" "na 4 14 = 10" "na 4 15 = 11" "na 5 0 = 0" "na 5 1 = 0" "na 5 2 = 2"
  "na 5 3 = 2" "na 5 4 = 0" "na 5 5 = 0" "na 5 6 = 2" "na 5 7 = 2" "na 5 8 = 8" "na 5 9 = 8" "na 5 10 = 10"
  "na 5 11 = 10" "na 5 12 = 8" "na 5 13 = 8" "na 5 14 = 10" "na 5 15 = 10" "na 6 0 = 0" "na 6 1 = 1" "na 6 2 = 0"
  "na 6 3 = 1" "na 6 4 = 0" "na 6 5 = 1" "na 6 6 = 0" "na 6 7 = 1" "na 6 8 = 8" "na 6 9 = 9" "na 6 10 = 8"
  "na 6 11 = 9" "na 6 12 = 8" "na 6 13 = 9" "na 6 14 = 8" "na 6 15 = 9" "na 7 0 = 0" "na 7 1 = 0" "na 7 2 = 0"
  "na 7 3 = 0" "na 7 4 = 0" "na 7 5 = 0" "na 7 6 = 0" "na 7 7 = 0" "na 7 8 = 8" "na 7 9 = 8" "na 7 10 = 8"
  "na 7 11 = 8" "na 7 12 = 8" "na 7 13 = 8" "na 7 14 = 8" "na 7 15 = 8" "na 8 0 = 0" "na 8 1 = 1" "na 8 2 = 2"
  "na 8 3 = 3" "na 8 4 = 4" "na 8 5 = 5" "na 8 6 = 6" "na 8 7 = 7" "na 8 8 = 0" "na 8 9 = 1" "na 8 10 = 2"
  "na 8 11 = 3" "na 8 12 = 4" "na 8 13 = 5" "na 8 14 = 6" "na 8 15 = 7" "na 9 0 = 0" "na 9 1 = 0" "na 9 2 = 2"
  "na 9 3 = 2" "na 9 4 = 4" "na 9 5 = 4" "na 9 6 = 6" "na 9 7 = 6" "na 9 8 = 0" "na 9 9 = 0" "na 9 10 = 2"
  "na 9 11 = 2" "na 9 12 = 4" "na 9 13 = 4" "na 9 14 = 6" "na 9 15 = 6" "na 10 0 = 0" "na 10 1 = 1" "na 10 2 = 0"
  "na 10 3 = 1" "na 10 4 = 4" "na 10 5 = 5" "na 10 6 = 4" "na 10 7 = 5" "na 10 8 = 0" "na 10 9 = 1" "na 10 10 = 0"
  "na 10 11 = 1" "na 10 12 = 4" "na 10 13 = 5" "na 10 14 = 4" "na 10 15 = 5" "na 11 0 = 0" "na 11 1 = 0" "na 11 2 = 0"
  "na 11 3 = 0" "na 11 4 = 4" "na 11 5 = 4" "na 11 6 = 4" "na 11 7 = 4" "na 11 8 = 0" "na 11 9 = 0" "na 11 10 = 0"
  "na 11 11 = 0" "na 11 12 = 4" "na 11 13 = 4" "na 11 14 = 4" "na 11 15 = 4" "na 12 0 = 0" "na 12 1 = 1" "na 12 2 = 2"
  "na 12 3 = 3" "na 12 4 = 0" "na 12 5 = 1" "na 12 6 = 2" "na 12 7 = 3" "na 12 8 = 0" "na 12 9 = 1" "na 12 10 = 2"
  "na 12 11 = 3" "na 12 12 = 0" "na 12 13 = 1" "na 12 14 = 2" "na 12 15 = 3" "na 13 0 = 0" "na 13 1 = 0" "na 13 2 = 2"
  "na 13 3 = 2" "na 13 4 = 0" "na 13 5 = 0" "na 13 6 = 2" "na 13 7 = 2" "na 13 8 = 0" "na 13 9 = 0" "na 13 10 = 2"
  "na 13 11 = 2" "na 13 12 = 0" "na 13 13 = 0" "na 13 14 = 2" "na 13 15 = 2" "na 14 0 = 0" "na 14 1 = 1" "na 14 2 = 0"
  "na 14 3 = 1" "na 14 4 = 0" "na 14 5 = 1" "na 14 6 = 0" "na 14 7 = 1" "na 14 8 = 0" "na 14 9 = 1" "na 14 10 = 0"
  "na 14 11 = 1" "na 14 12 = 0" "na 14 13 = 1" "na 14 14 = 0" "na 14 15 = 1" "na 15 0 = 0" "na 15 1 = 0" "na 15 2 = 0"
  "na 15 3 = 0" "na 15 4 = 0" "na 15 5 = 0" "na 15 6 = 0" "na 15 7 = 0" "na 15 8 = 0" "na 15 9 = 0" "na 15 10 = 0"
  "na 15 11 = 0" "na 15 12 = 0" "na 15 13 = 0" "na 15 14 = 0" "na 15 15 = 0"
  by (simp_all add: na_def)

lemma sh1_table:
  "sh1 0 0 = 0" "sh1 0 1 = 8" "sh1 0 2 = 0" "sh1 0 3 = 8" "sh1 0 4 = 0" "sh1 0 5 = 8" "sh1 0 6 = 0" "sh1 0 7 = 8"
  "sh1 0 8 = 0" "sh1 0 9 = 8" "sh1 0 10 = 0" "sh1 0 11 = 8" "sh1 0 12 = 0" "sh1 0 13 = 8" "sh1 0 14 = 0" "sh1 0 15 = 8"
  "sh1 1 0 = 0" "sh1 1 1 = 8" "sh1 1 2 = 0" "sh1 1 3 = 8" "sh1 1 4 = 0" "sh1 1 5 = 8" "sh1 1 6 = 0" "sh1 1 7 = 8"
  "sh1 1 8 = 0" "sh1 1 9 = 8" "sh1 1 10 = 0" "sh1 1 11 = 8" "sh1 1 12 = 0" "sh1 1 13 = 8" "sh1 1 14 = 0" "sh1 1 15 = 8"
  "sh1 2 0 = 1" "sh1 2 1 = 9" "sh1 2 2 = 1" "sh1 2 3 = 9" "sh1 2 4 = 1" "sh1 2 5 = 9" "sh1 2 6 = 1" "sh1 2 7 = 9"
  "sh1 2 8 = 1" "sh1 2 9 = 9" "sh1 2 10 = 1" "sh1 2 11 = 9" "sh1 2 12 = 1" "sh1 2 13 = 9" "sh1 2 14 = 1" "sh1 2 15 = 9"
  "sh1 3 0 = 1" "sh1 3 1 = 9" "sh1 3 2 = 1" "sh1 3 3 = 9" "sh1 3 4 = 1" "sh1 3 5 = 9" "sh1 3 6 = 1" "sh1 3 7 = 9"
  "sh1 3 8 = 1" "sh1 3 9 = 9" "sh1 3 10 = 1" "sh1 3 11 = 9" "sh1 3 12 = 1" "sh1 3 13 = 9" "sh1 3 14 = 1" "sh1 3 15 = 9"
  "sh1 4 0 = 2" "sh1 4 1 = 10" "sh1 4 2 = 2" "sh1 4 3 = 10" "sh1 4 4 = 2" "sh1 4 5 = 10" "sh1 4 6 = 2" "sh1 4 7 = 10"
  "sh1 4 8 = 2" "sh1 4 9 = 10" "sh1 4 10 = 2" "sh1 4 11 = 10" "sh1 4 12 = 2" "sh1 4 13 = 10" "sh1 4 14 = 2"
  "sh1 4 15 = 10" "sh1 5 0 = 2" "sh1 5 1 = 10" "sh1 5 2 = 2" "sh1 5 3 = 10" "sh1 5 4 = 2" "sh1 5 5 = 10" "sh1 5 6 = 2"
  "sh1 5 7 = 10" "sh1 5 8 = 2" "sh1 5 9 = 10" "sh1 5 10 = 2" "sh1 5 11 = 10" "sh1 5 12 = 2" "sh1 5 13 = 10"
  "sh1 5 14 = 2" "sh1 5 15 = 10" "sh1 6 0 = 3" "sh1 6 1 = 11" "sh1 6 2 = 3" "sh1 6 3 = 11" "sh1 6 4 = 3" "sh1 6 5 = 11"
  "sh1 6 6 = 3" "sh1 6 7 = 11" "sh1 6 8 = 3" "sh1 6 9 = 11" "sh1 6 10 = 3" "sh1 6 11 = 11" "sh1 6 12 = 3"
  "sh1 6 13 = 11" "sh1 6 14 = 3" "sh1 6 15 = 11" "sh1 7 0 = 3" "sh1 7 1 = 11" "sh1 7 2 = 3" "sh1 7 3 = 11"
  "sh1 7 4 = 3" "sh1 7 5 = 11" "sh1 7 6 = 3" "sh1 7 7 = 11" "sh1 7 8 = 3" "sh1 7 9 = 11" "sh1 7 10 = 3" "sh1 7 11 = 11"
  "sh1 7 12 = 3" "sh1 7 13 = 11" "sh1 7 14 = 3" "sh1 7 15 = 11" "sh1 8 0 = 4" "sh1 8 1 = 12" "sh1 8 2 = 4"
  "sh1 8 3 = 12" "sh1 8 4 = 4" "sh1 8 5 = 12" "sh1 8 6 = 4" "sh1 8 7 = 12" "sh1 8 8 = 4" "sh1 8 9 = 12" "sh1 8 10 = 4"
  "sh1 8 11 = 12" "sh1 8 12 = 4" "sh1 8 13 = 12" "sh1 8 14 = 4" "sh1 8 15 = 12" "sh1 9 0 = 4" "sh1 9 1 = 12"
  "sh1 9 2 = 4" "sh1 9 3 = 12" "sh1 9 4 = 4" "sh1 9 5 = 12" "sh1 9 6 = 4" "sh1 9 7 = 12" "sh1 9 8 = 4" "sh1 9 9 = 12"
  "sh1 9 10 = 4" "sh1 9 11 = 12" "sh1 9 12 = 4" "sh1 9 13 = 12" "sh1 9 14 = 4" "sh1 9 15 = 12" "sh1 10 0 = 5"
  "sh1 10 1 = 13" "sh1 10 2 = 5" "sh1 10 3 = 13" "sh1 10 4 = 5" "sh1 10 5 = 13" "sh1 10 6 = 5" "sh1 10 7 = 13"
  "sh1 10 8 = 5" "sh1 10 9 = 13" "sh1 10 10 = 5" "sh1 10 11 = 13" "sh1 10 12 = 5" "sh1 10 13 = 13" "sh1 10 14 = 5"
  "sh1 10 15 = 13" "sh1 11 0 = 5" "sh1 11 1 = 13" "sh1 11 2 = 5" "sh1 11 3 = 13" "sh1 11 4 = 5" "sh1 11 5 = 13"
  "sh1 11 6 = 5" "sh1 11 7 = 13" "sh1 11 8 = 5" "sh1 11 9 = 13" "sh1 11 10 = 5" "sh1 11 11 = 13" "sh1 11 12 = 5"
  "sh1 11 13 = 13" "sh1 11 14 = 5" "sh1 11 15 = 13" "sh1 12 0 = 6" "sh1 12 1 = 14" "sh1 12 2 = 6" "sh1 12 3 = 14"
  "sh1 12 4 = 6" "sh1 12 5 = 14" "sh1 12 6 = 6" "sh1 12 7 = 14" "sh1 12 8 = 6" "sh1 12 9 = 14" "sh1 12 10 = 6"
  "sh1 12 11 = 14" "sh1 12 12 = 6" "sh1 12 13 = 14" "sh1 12 14 = 6" "sh1 12 15 = 14" "sh1 13 0 = 6" "sh1 13 1 = 14"
  "sh1 13 2 = 6" "sh1 13 3 = 14" "sh1 13 4 = 6" "sh1 13 5 = 14" "sh1 13 6 = 6" "sh1 13 7 = 14" "sh1 13 8 = 6"
  "sh1 13 9 = 14" "sh1 13 10 = 6" "sh1 13 11 = 14" "sh1 13 12 = 6" "sh1 13 13 = 14" "sh1 13 14 = 6" "sh1 13 15 = 14"
  "sh1 14 0 = 7" "sh1 14 1 = 15" "sh1 14 2 = 7" "sh1 14 3 = 15" "sh1 14 4 = 7" "sh1 14 5 = 15" "sh1 14 6 = 7"
  "sh1 14 7 = 15" "sh1 14 8 = 7" "sh1 14 9 = 15" "sh1 14 10 = 7" "sh1 14 11 = 15" "sh1 14 12 = 7" "sh1 14 13 = 15"
  "sh1 14 14 = 7" "sh1 14 15 = 15" "sh1 15 0 = 7" "sh1 15 1 = 15" "sh1 15 2 = 7" "sh1 15 3 = 15" "sh1 15 4 = 7"
  "sh1 15 5 = 15" "sh1 15 6 = 7" "sh1 15 7 = 15" "sh1 15 8 = 7" "sh1 15 9 = 15" "sh1 15 10 = 7" "sh1 15 11 = 15"
  "sh1 15 12 = 7" "sh1 15 13 = 15" "sh1 15 14 = 7" "sh1 15 15 = 15"
  by (simp_all add: shr_def)

lemma sh2_table:
  "sh2 0 0 = 0" "sh2 0 1 = 4" "sh2 0 2 = 8" "sh2 0 3 = 12" "sh2 0 4 = 0" "sh2 0 5 = 4" "sh2 0 6 = 8" "sh2 0 7 = 12"
  "sh2 0 8 = 0" "sh2 0 9 = 4" "sh2 0 10 = 8" "sh2 0 11 = 12" "sh2 0 12 = 0" "sh2 0 13 = 4" "sh2 0 14 = 8"
  "sh2 0 15 = 12" "sh2 1 0 = 0" "sh2 1 1 = 4" "sh2 1 2 = 8" "sh2 1 3 = 12" "sh2 1 4 = 0" "sh2 1 5 = 4" "sh2 1 6 = 8"
  "sh2 1 7 = 12" "sh2 1 8 = 0" "sh2 1 9 = 4" "sh2 1 10 = 8" "sh2 1 11 = 12" "sh2 1 12 = 0" "sh2 1 13 = 4"
  "sh2 1 14 = 8" "sh2 1 15 = 12" "sh2 2 0 = 0" "sh2 2 1 = 4" "sh2 2 2 = 8" "sh2 2 3 = 12" "sh2 2 4 = 0" "sh2 2 5 = 4"
  "sh2 2 6 = 8" "sh2 2 7 = 12" "sh2 2 8 = 0" "sh2 2 9 = 4" "sh2 2 10 = 8" "sh2 2 11 = 12" "sh2 2 12 = 0" "sh2 2 13 = 4"
  "sh2 2 14 = 8" "sh2 2 15 = 12" "sh2 3 0 = 0" "sh2 3 1 = 4" "sh2 3 2 = 8" "sh2 3 3 = 12" "sh2 3 4 = 0" "sh2 3 5 = 4"
  "sh2 3 6 = 8" "sh2 3 7 = 12" "sh2 3 8 = 0" "sh2 3 9 = 4" "sh2 3 10 = 8" "sh2 3 11 = 12" "sh2 3 12 = 0" "sh2 3 13 = 4"
  "sh2 3 14 = 8" "sh2 3 15 = 12" "sh2 4 0 = 1" "sh2 4 1 = 5" "sh2 4 2 = 9" "sh2 4 3 = 13" "sh2 4 4 = 1" "sh2 4 5 = 5"
  "sh2 4 6 = 9" "sh2 4 7 = 13" "sh2 4 8 = 1" "sh2 4 9 = 5" "sh2 4 10 = 9" "sh2 4 11 = 13" "sh2 4 12 = 1" "sh2 4 13 = 5"
  "sh2 4 14 = 9" "sh2 4 15 = 13" "sh2 5 0 = 1" "sh2 5 1 = 5" "sh2 5 2 = 9" "sh2 5 3 = 13" "sh2 5 4 = 1" "sh2 5 5 = 5"
  "sh2 5 6 = 9" "sh2 5 7 = 13" "sh2 5 8 = 1" "sh2 5 9 = 5" "sh2 5 10 = 9" "sh2 5 11 = 13" "sh2 5 12 = 1" "sh2 5 13 = 5"
  "sh2 5 14 = 9" "sh2 5 15 = 13" "sh2 6 0 = 1" "sh2 6 1 = 5" "sh2 6 2 = 9" "sh2 6 3 = 13" "sh2 6 4 = 1" "sh2 6 5 = 5"
  "sh2 6 6 = 9" "sh2 6 7 = 13" "sh2 6 8 = 1" "sh2 6 9 = 5" "sh2 6 10 = 9" "sh2 6 11 = 13" "sh2 6 12 = 1" "sh2 6 13 = 5"
  "sh2 6 14 = 9" "sh2 6 15 = 13" "sh2 7 0 = 1" "sh2 7 1 = 5" "sh2 7 2 = 9" "sh2 7 3 = 13" "sh2 7 4 = 1" "sh2 7 5 = 5"
  "sh2 7 6 = 9" "sh2 7 7 = 13" "sh2 7 8 = 1" "sh2 7 9 = 5" "sh2 7 10 = 9" "sh2 7 11 = 13" "sh2 7 12 = 1" "sh2 7 13 = 5"
  "sh2 7 14 = 9" "sh2 7 15 = 13" "sh2 8 0 = 2" "sh2 8 1 = 6" "sh2 8 2 = 10" "sh2 8 3 = 14" "sh2 8 4 = 2" "sh2 8 5 = 6"
  "sh2 8 6 = 10" "sh2 8 7 = 14" "sh2 8 8 = 2" "sh2 8 9 = 6" "sh2 8 10 = 10" "sh2 8 11 = 14" "sh2 8 12 = 2"
  "sh2 8 13 = 6" "sh2 8 14 = 10" "sh2 8 15 = 14" "sh2 9 0 = 2" "sh2 9 1 = 6" "sh2 9 2 = 10" "sh2 9 3 = 14"
  "sh2 9 4 = 2" "sh2 9 5 = 6" "sh2 9 6 = 10" "sh2 9 7 = 14" "sh2 9 8 = 2" "sh2 9 9 = 6" "sh2 9 10 = 10" "sh2 9 11 = 14"
  "sh2 9 12 = 2" "sh2 9 13 = 6" "sh2 9 14 = 10" "sh2 9 15 = 14" "sh2 10 0 = 2" "sh2 10 1 = 6" "sh2 10 2 = 10"
  "sh2 10 3 = 14" "sh2 10 4 = 2" "sh2 10 5 = 6" "sh2 10 6 = 10" "sh2 10 7 = 14" "sh2 10 8 = 2" "sh2 10 9 = 6"
  "sh2 10 10 = 10" "sh2 10 11 = 14" "sh2 10 12 = 2" "sh2 10 13 = 6" "sh2 10 14 = 10" "sh2 10 15 = 14" "sh2 11 0 = 2"
  "sh2 11 1 = 6" "sh2 11 2 = 10" "sh2 11 3 = 14" "sh2 11 4 = 2" "sh2 11 5 = 6" "sh2 11 6 = 10" "sh2 11 7 = 14"
  "sh2 11 8 = 2" "sh2 11 9 = 6" "sh2 11 10 = 10" "sh2 11 11 = 14" "sh2 11 12 = 2" "sh2 11 13 = 6" "sh2 11 14 = 10"
  "sh2 11 15 = 14" "sh2 12 0 = 3" "sh2 12 1 = 7" "sh2 12 2 = 11" "sh2 12 3 = 15" "sh2 12 4 = 3" "sh2 12 5 = 7"
  "sh2 12 6 = 11" "sh2 12 7 = 15" "sh2 12 8 = 3" "sh2 12 9 = 7" "sh2 12 10 = 11" "sh2 12 11 = 15" "sh2 12 12 = 3"
  "sh2 12 13 = 7" "sh2 12 14 = 11" "sh2 12 15 = 15" "sh2 13 0 = 3" "sh2 13 1 = 7" "sh2 13 2 = 11" "sh2 13 3 = 15"
  "sh2 13 4 = 3" "sh2 13 5 = 7" "sh2 13 6 = 11" "sh2 13 7 = 15" "sh2 13 8 = 3" "sh2 13 9 = 7" "sh2 13 10 = 11"
  "sh2 13 11 = 15" "sh2 13 12 = 3" "sh2 13 13 = 7" "sh2 13 14 = 11" "sh2 13 15 = 15" "sh2 14 0 = 3" "sh2 14 1 = 7"
  "sh2 14 2 = 11" "sh2 14 3 = 15" "sh2 14 4 = 3" "sh2 14 5 = 7" "sh2 14 6 = 11" "sh2 14 7 = 15" "sh2 14 8 = 3"
  "sh2 14 9 = 7" "sh2 14 10 = 11" "sh2 14 11 = 15" "sh2 14 12 = 3" "sh2 14 13 = 7" "sh2 14 14 = 11" "sh2 14 15 = 15"
  "sh2 15 0 = 3" "sh2 15 1 = 7" "sh2 15 2 = 11" "sh2 15 3 = 15" "sh2 15 4 = 3" "sh2 15 5 = 7" "sh2 15 6 = 11"
  "sh2 15 7 = 15" "sh2 15 8 = 3" "sh2 15 9 = 7" "sh2 15 10 = 11" "sh2 15 11 = 15" "sh2 15 12 = 3" "sh2 15 13 = 7"
  "sh2 15 14 = 11" "sh2 15 15 = 15"
  by (simp_all add: shr_def)

lemma sh3_table:
  "sh3 0 0 = 0" "sh3 0 1 = 2" "sh3 0 2 = 4" "sh3 0 3 = 6" "sh3 0 4 = 8" "sh3 0 5 = 10" "sh3 0 6 = 12" "sh3 0 7 = 14"
  "sh3 0 8 = 0" "sh3 0 9 = 2" "sh3 0 10 = 4" "sh3 0 11 = 6" "sh3 0 12 = 8" "sh3 0 13 = 10" "sh3 0 14 = 12"
  "sh3 0 15 = 14" "sh3 1 0 = 0" "sh3 1 1 = 2" "sh3 1 2 = 4" "sh3 1 3 = 6" "sh3 1 4 = 8" "sh3 1 5 = 10" "sh3 1 6 = 12"
  "sh3 1 7 = 14" "sh3 1 8 = 0" "sh3 1 9 = 2" "sh3 1 10 = 4" "sh3 1 11 = 6" "sh3 1 12 = 8" "sh3 1 13 = 10"
  "sh3 1 14 = 12" "sh3 1 15 = 14" "sh3 2 0 = 0" "sh3 2 1 = 2" "sh3 2 2 = 4" "sh3 2 3 = 6" "sh3 2 4 = 8" "sh3 2 5 = 10"
  "sh3 2 6 = 12" "sh3 2 7 = 14" "sh3 2 8 = 0" "sh3 2 9 = 2" "sh3 2 10 = 4" "sh3 2 11 = 6" "sh3 2 12 = 8"
  "sh3 2 13 = 10" "sh3 2 14 = 12" "sh3 2 15 = 14" "sh3 3 0 = 0" "sh3 3 1 = 2" "sh3 3 2 = 4" "sh3 3 3 = 6" "sh3 3 4 = 8"
  "sh3 3 5 = 10" "sh3 3 6 = 12" "sh3 3 7 = 14" "sh3 3 8 = 0" "sh3 3 9 = 2" "sh3 3 10 = 4" "sh3 3 11 = 6" "sh3 3 12 = 8"
  "sh3 3 13 = 10" "sh3 3 14 = 12" "sh3 3 15 = 14" "sh3 4 0 = 0" "sh3 4 1 = 2" "sh3 4 2 = 4" "sh3 4 3 = 6" "sh3 4 4 = 8"
  "sh3 4 5 = 10" "sh3 4 6 = 12" "sh3 4 7 = 14" "sh3 4 8 = 0" "sh3 4 9 = 2" "sh3 4 10 = 4" "sh3 4 11 = 6" "sh3 4 12 = 8"
  "sh3 4 13 = 10" "sh3 4 14 = 12" "sh3 4 15 = 14" "sh3 5 0 = 0" "sh3 5 1 = 2" "sh3 5 2 = 4" "sh3 5 3 = 6" "sh3 5 4 = 8"
  "sh3 5 5 = 10" "sh3 5 6 = 12" "sh3 5 7 = 14" "sh3 5 8 = 0" "sh3 5 9 = 2" "sh3 5 10 = 4" "sh3 5 11 = 6" "sh3 5 12 = 8"
  "sh3 5 13 = 10" "sh3 5 14 = 12" "sh3 5 15 = 14" "sh3 6 0 = 0" "sh3 6 1 = 2" "sh3 6 2 = 4" "sh3 6 3 = 6" "sh3 6 4 = 8"
  "sh3 6 5 = 10" "sh3 6 6 = 12" "sh3 6 7 = 14" "sh3 6 8 = 0" "sh3 6 9 = 2" "sh3 6 10 = 4" "sh3 6 11 = 6" "sh3 6 12 = 8"
  "sh3 6 13 = 10" "sh3 6 14 = 12" "sh3 6 15 = 14" "sh3 7 0 = 0" "sh3 7 1 = 2" "sh3 7 2 = 4" "sh3 7 3 = 6" "sh3 7 4 = 8"
  "sh3 7 5 = 10" "sh3 7 6 = 12" "sh3 7 7 = 14" "sh3 7 8 = 0" "sh3 7 9 = 2" "sh3 7 10 = 4" "sh3 7 11 = 6" "sh3 7 12 = 8"
  "sh3 7 13 = 10" "sh3 7 14 = 12" "sh3 7 15 = 14" "sh3 8 0 = 1" "sh3 8 1 = 3" "sh3 8 2 = 5" "sh3 8 3 = 7" "sh3 8 4 = 9"
  "sh3 8 5 = 11" "sh3 8 6 = 13" "sh3 8 7 = 15" "sh3 8 8 = 1" "sh3 8 9 = 3" "sh3 8 10 = 5" "sh3 8 11 = 7" "sh3 8 12 = 9"
  "sh3 8 13 = 11" "sh3 8 14 = 13" "sh3 8 15 = 15" "sh3 9 0 = 1" "sh3 9 1 = 3" "sh3 9 2 = 5" "sh3 9 3 = 7" "sh3 9 4 = 9"
  "sh3 9 5 = 11" "sh3 9 6 = 13" "sh3 9 7 = 15" "sh3 9 8 = 1" "sh3 9 9 = 3" "sh3 9 10 = 5" "sh3 9 11 = 7" "sh3 9 12 = 9"
  "sh3 9 13 = 11" "sh3 9 14 = 13" "sh3 9 15 = 15" "sh3 10 0 = 1" "sh3 10 1 = 3" "sh3 10 2 = 5" "sh3 10 3 = 7"
  "sh3 10 4 = 9" "sh3 10 5 = 11" "sh3 10 6 = 13" "sh3 10 7 = 15" "sh3 10 8 = 1" "sh3 10 9 = 3" "sh3 10 10 = 5"
  "sh3 10 11 = 7" "sh3 10 12 = 9" "sh3 10 13 = 11" "sh3 10 14 = 13" "sh3 10 15 = 15" "sh3 11 0 = 1" "sh3 11 1 = 3"
  "sh3 11 2 = 5" "sh3 11 3 = 7" "sh3 11 4 = 9" "sh3 11 5 = 11" "sh3 11 6 = 13" "sh3 11 7 = 15" "sh3 11 8 = 1"
  "sh3 11 9 = 3" "sh3 11 10 = 5" "sh3 11 11 = 7" "sh3 11 12 = 9" "sh3 11 13 = 11" "sh3 11 14 = 13" "sh3 11 15 = 15"
  "sh3 12 0 = 1" "sh3 12 1 = 3" "sh3 12 2 = 5" "sh3 12 3 = 7" "sh3 12 4 = 9" "sh3 12 5 = 11" "sh3 12 6 = 13"
  "sh3 12 7 = 15" "sh3 12 8 = 1" "sh3 12 9 = 3" "sh3 12 10 = 5" "sh3 12 11 = 7" "sh3 12 12 = 9" "sh3 12 13 = 11"
  "sh3 12 14 = 13" "sh3 12 15 = 15" "sh3 13 0 = 1" "sh3 13 1 = 3" "sh3 13 2 = 5" "sh3 13 3 = 7" "sh3 13 4 = 9"
  "sh3 13 5 = 11" "sh3 13 6 = 13" "sh3 13 7 = 15" "sh3 13 8 = 1" "sh3 13 9 = 3" "sh3 13 10 = 5" "sh3 13 11 = 7"
  "sh3 13 12 = 9" "sh3 13 13 = 11" "sh3 13 14 = 13" "sh3 13 15 = 15" "sh3 14 0 = 1" "sh3 14 1 = 3" "sh3 14 2 = 5"
  "sh3 14 3 = 7" "sh3 14 4 = 9" "sh3 14 5 = 11" "sh3 14 6 = 13" "sh3 14 7 = 15" "sh3 14 8 = 1" "sh3 14 9 = 3"
  "sh3 14 10 = 5" "sh3 14 11 = 7" "sh3 14 12 = 9" "sh3 14 13 = 11" "sh3 14 14 = 13" "sh3 14 15 = 15" "sh3 15 0 = 1"
  "sh3 15 1 = 3" "sh3 15 2 = 5" "sh3 15 3 = 7" "sh3 15 4 = 9" "sh3 15 5 = 11" "sh3 15 6 = 13" "sh3 15 7 = 15"
  "sh3 15 8 = 1" "sh3 15 9 = 3" "sh3 15 10 = 5" "sh3 15 11 = 7" "sh3 15 12 = 9" "sh3 15 13 = 11" "sh3 15 14 = 13"
  "sh3 15 15 = 15"
  by (simp_all add: shr_def)

section \<open>Lanes\<close>

datatype lane = Lane nib nib nib nib nib nib nib nib nib nib nib nib nib nib nib nib

fun lane_xor :: "lane \<Rightarrow> lane \<Rightarrow> lane" where
  "lane_xor (Lane a0 a1 a2 a3 a4 a5 a6 a7 a8 a9 a10 a11 a12 a13 a14 a15)
     (Lane b0 b1 b2 b3 b4 b5 b6 b7 b8 b9 b10 b11 b12 b13 b14 b15) =
     Lane (nx a0 b0) (nx a1 b1) (nx a2 b2) (nx a3 b3) (nx a4 b4) (nx a5 b5) (nx a6 b6) (nx a7 b7) (nx a8 b8)
     (nx a9 b9) (nx a10 b10) (nx a11 b11) (nx a12 b12) (nx a13 b13) (nx a14 b14) (nx a15 b15)"

fun lane_andnot :: "lane \<Rightarrow> lane \<Rightarrow> lane" where
  "lane_andnot (Lane a0 a1 a2 a3 a4 a5 a6 a7 a8 a9 a10 a11 a12 a13 a14 a15)
     (Lane b0 b1 b2 b3 b4 b5 b6 b7 b8 b9 b10 b11 b12 b13 b14 b15) =
     Lane (na a0 b0) (na a1 b1) (na a2 b2) (na a3 b3) (na a4 b4) (na a5 b5) (na a6 b6) (na a7 b7) (na a8 b8)
     (na a9 b9) (na a10 b10) (na a11 b11) (na a12 b12) (na a13 b13) (na a14 b14) (na a15 b15)"

fun lane_not :: "lane \<Rightarrow> lane" where
  "lane_not (Lane a0 a1 a2 a3 a4 a5 a6 a7 a8 a9 a10 a11 a12 a13 a14 a15) =
     Lane (nx a0 15) (nx a1 15) (nx a2 15) (nx a3 15) (nx a4 15) (nx a5 15) (nx a6 15) (nx a7 15) (nx a8 15)
     (nx a9 15) (nx a10 15) (nx a11 15) (nx a12 15) (nx a13 15) (nx a14 15) (nx a15 15)"

text \<open>A round constant is the two digits of a byte.\<close>

fun lane_const :: "nib \<Rightarrow> nib \<Rightarrow> lane \<Rightarrow> lane" where
  "lane_const hi lo (Lane a0 a1 a2 a3 a4 a5 a6 a7 a8 a9 a10 a11 a12 a13 a14 a15) =
     Lane (nx a0 lo) (nx a1 hi) a2 a3 a4 a5 a6 a7 a8 a9 a10 a11 a12 a13 a14 a15"

fun rot1 :: "lane \<Rightarrow> lane" where
  "rot1 (Lane a0 a1 a2 a3 a4 a5 a6 a7 a8 a9 a10 a11 a12 a13 a14 a15) =
     Lane (sh1 a0 a1) (sh1 a1 a2) (sh1 a2 a3) (sh1 a3 a4) (sh1 a4 a5) (sh1 a5 a6) (sh1 a6 a7) (sh1 a7 a8)
     (sh1 a8 a9) (sh1 a9 a10) (sh1 a10 a11) (sh1 a11 a12) (sh1 a12 a13) (sh1 a13 a14) (sh1 a14 a15)
     (sh1 a15 a0)"

fun rot6 :: "lane \<Rightarrow> lane" where
  "rot6 (Lane a0 a1 a2 a3 a4 a5 a6 a7 a8 a9 a10 a11 a12 a13 a14 a15) =
     Lane (sh2 a1 a2) (sh2 a2 a3) (sh2 a3 a4) (sh2 a4 a5) (sh2 a5 a6) (sh2 a6 a7) (sh2 a7 a8) (sh2 a8 a9)
     (sh2 a9 a10) (sh2 a10 a11) (sh2 a11 a12) (sh2 a12 a13) (sh2 a13 a14) (sh2 a14 a15) (sh2 a15 a0)
     (sh2 a0 a1)"

fun rot7 :: "lane \<Rightarrow> lane" where
  "rot7 (Lane a0 a1 a2 a3 a4 a5 a6 a7 a8 a9 a10 a11 a12 a13 a14 a15) =
     Lane (sh3 a1 a2) (sh3 a2 a3) (sh3 a3 a4) (sh3 a4 a5) (sh3 a5 a6) (sh3 a6 a7) (sh3 a7 a8) (sh3 a8 a9)
     (sh3 a9 a10) (sh3 a10 a11) (sh3 a11 a12) (sh3 a12 a13) (sh3 a13 a14) (sh3 a14 a15) (sh3 a15 a0)
     (sh3 a0 a1)"

fun rot10 :: "lane \<Rightarrow> lane" where
  "rot10 (Lane a0 a1 a2 a3 a4 a5 a6 a7 a8 a9 a10 a11 a12 a13 a14 a15) =
     Lane (sh2 a2 a3) (sh2 a3 a4) (sh2 a4 a5) (sh2 a5 a6) (sh2 a6 a7) (sh2 a7 a8) (sh2 a8 a9) (sh2 a9 a10)
     (sh2 a10 a11) (sh2 a11 a12) (sh2 a12 a13) (sh2 a13 a14) (sh2 a14 a15) (sh2 a15 a0) (sh2 a0 a1)
     (sh2 a1 a2)"

fun rot17 :: "lane \<Rightarrow> lane" where
  "rot17 (Lane a0 a1 a2 a3 a4 a5 a6 a7 a8 a9 a10 a11 a12 a13 a14 a15) =
     Lane (sh1 a4 a5) (sh1 a5 a6) (sh1 a6 a7) (sh1 a7 a8) (sh1 a8 a9) (sh1 a9 a10) (sh1 a10 a11)
     (sh1 a11 a12) (sh1 a12 a13) (sh1 a13 a14) (sh1 a14 a15) (sh1 a15 a0) (sh1 a0 a1) (sh1 a1 a2) (sh1 a2 a3)
     (sh1 a3 a4)"

fun rot19 :: "lane \<Rightarrow> lane" where
  "rot19 (Lane a0 a1 a2 a3 a4 a5 a6 a7 a8 a9 a10 a11 a12 a13 a14 a15) =
     Lane (sh3 a4 a5) (sh3 a5 a6) (sh3 a6 a7) (sh3 a7 a8) (sh3 a8 a9) (sh3 a9 a10) (sh3 a10 a11)
     (sh3 a11 a12) (sh3 a12 a13) (sh3 a13 a14) (sh3 a14 a15) (sh3 a15 a0) (sh3 a0 a1) (sh3 a1 a2) (sh3 a2 a3)
     (sh3 a3 a4)"

fun rot28 :: "lane \<Rightarrow> lane" where
  "rot28 (Lane a0 a1 a2 a3 a4 a5 a6 a7 a8 a9 a10 a11 a12 a13 a14 a15) =
     Lane a7 a8 a9 a10 a11 a12 a13 a14 a15 a0 a1 a2 a3 a4 a5 a6"

fun rot39 :: "lane \<Rightarrow> lane" where
  "rot39 (Lane a0 a1 a2 a3 a4 a5 a6 a7 a8 a9 a10 a11 a12 a13 a14 a15) =
     Lane (sh3 a9 a10) (sh3 a10 a11) (sh3 a11 a12) (sh3 a12 a13) (sh3 a13 a14) (sh3 a14 a15) (sh3 a15 a0)
     (sh3 a0 a1) (sh3 a1 a2) (sh3 a2 a3) (sh3 a3 a4) (sh3 a4 a5) (sh3 a5 a6) (sh3 a6 a7) (sh3 a7 a8)
     (sh3 a8 a9)"

fun rot41 :: "lane \<Rightarrow> lane" where
  "rot41 (Lane a0 a1 a2 a3 a4 a5 a6 a7 a8 a9 a10 a11 a12 a13 a14 a15) =
     Lane (sh1 a10 a11) (sh1 a11 a12) (sh1 a12 a13) (sh1 a13 a14) (sh1 a14 a15) (sh1 a15 a0) (sh1 a0 a1)
     (sh1 a1 a2) (sh1 a2 a3) (sh1 a3 a4) (sh1 a4 a5) (sh1 a5 a6) (sh1 a6 a7) (sh1 a7 a8) (sh1 a8 a9)
     (sh1 a9 a10)"

fun rot61 :: "lane \<Rightarrow> lane" where
  "rot61 (Lane a0 a1 a2 a3 a4 a5 a6 a7 a8 a9 a10 a11 a12 a13 a14 a15) =
     Lane (sh1 a15 a0) (sh1 a0 a1) (sh1 a1 a2) (sh1 a2 a3) (sh1 a3 a4) (sh1 a4 a5) (sh1 a5 a6) (sh1 a6 a7)
     (sh1 a7 a8) (sh1 a8 a9) (sh1 a9 a10) (sh1 a10 a11) (sh1 a11 a12) (sh1 a12 a13) (sh1 a13 a14)
     (sh1 a14 a15)"

type_synonym lanes = "lane \<times> lane \<times> lane \<times> lane \<times> lane"

fun lanes_add :: "nib \<Rightarrow> nib \<Rightarrow> lanes \<Rightarrow> lanes" where
  "lanes_add hi lo (x0, x1, x2, x3, x4) = (lane_xor x0 x4, x1, lane_xor (lane_const hi lo x2) x1, x3, lane_xor x4 x3)"

fun lanes_sub :: "lanes \<Rightarrow> lanes" where
  "lanes_sub (x0, x1, x2, x3, x4) = (lane_xor x0 (lane_andnot x1 x2), lane_xor x1 (lane_andnot x2 x3),
     lane_xor x2 (lane_andnot x3 x4), lane_xor x3 (lane_andnot x4 x0), lane_xor x4 (lane_andnot x0 x1))"

fun lanes_mix :: "lanes \<Rightarrow> lanes" where
  "lanes_mix (t0, t1, t2, t3, t4) = (lane_xor t0 t4, lane_xor t1 t0, lane_not t2, lane_xor t3 t2, t4)"

fun lanes_linear :: "lanes \<Rightarrow> lanes" where
  "lanes_linear (t0, t1, t2, t3, t4) = (lane_xor (lane_xor t0 (rot19 t0)) (rot28 t0), lane_xor (lane_xor t1 (rot61 t1)) (rot39 t1),
     lane_xor (lane_xor t2 (rot1 t2)) (rot6 t2), lane_xor (lane_xor t3 (rot10 t3)) (rot17 t3),
     lane_xor (lane_xor t4 (rot7 t4)) (rot41 t4))"

definition lanes_round :: "lanes \<Rightarrow> nib \<times> nib \<Rightarrow> lanes" where
  "lanes_round s c = lanes_linear (lanes_mix (lanes_sub (lanes_add (fst c) (snd c) s)))"

definition lanes_perm8 :: "lanes \<Rightarrow> lanes" where
  "lanes_perm8 s = foldl lanes_round s [(11, 4), (10, 5), (9, 6), (8, 7), (7, 8), (6, 9), (5, 10), (4, 11)]"

definition lanes_perm12 :: "lanes \<Rightarrow> lanes" where
  "lanes_perm12 s = lanes_perm8 (foldl lanes_round s [(15, 0), (14, 1), (13, 2), (12, 3)])"

lemmas lanes_eval = lanes_perm12_def lanes_perm8_def foldl.simps lanes_round_def fst_conv snd_conv
  lanes_add.simps lanes_sub.simps lanes_mix.simps lanes_linear.simps
  lane_xor.simps lane_andnot.simps lane_not.simps lane_const.simps
  rot1.simps rot6.simps rot7.simps rot10.simps rot17.simps rot19.simps rot28.simps rot39.simps rot41.simps rot61.simps
  nx_table na_table sh1_table sh2_table sh3_table

section \<open>Lanes and words\<close>

fun word_of_nibs :: "nib list \<Rightarrow> u64" where
  "word_of_nibs [] = 0"
| "word_of_nibs (n # ns) = ucast n OR push_bit 4 (word_of_nibs ns)"

fun nibs :: "lane \<Rightarrow> nib list" where
  "nibs (Lane a0 a1 a2 a3 a4 a5 a6 a7 a8 a9 a10 a11 a12 a13 a14 a15) = [a0, a1, a2, a3, a4, a5, a6, a7, a8, a9, a10, a11, a12, a13, a14, a15]"

definition word_of :: "lane \<Rightarrow> u64" where
  "word_of l = word_of_nibs (nibs l)"

lemma bit_word_of_nibs:
  "bit (word_of_nibs ns) i \<longleftrightarrow> i < 64 \<and> i div 4 < length ns \<and> bit (ns ! (i div 4)) (i mod 4)"
proof (induction ns arbitrary: i)
  case Nil
  then show ?case by simp
next
  case (Cons n ns)
  show ?case
  proof (cases "i < 4")
    case True
    then show ?thesis by (auto simp: bit_simps)
  next
    case False
    then have "i = 4 + (i - 4)" by simp
    then obtain j where i: "i = j + 4" by (metis add.commute)
    have "\<not> bit n (j + 4)" by (auto dest: bit_imp_le_length)
    moreover have "(j + 4) div 4 = Suc (j div 4)" by simp
    ultimately show ?thesis by (auto simp: i Cons.IH bit_simps)
  qed
qed

lemma length_nibs [simp]: "length (nibs l) = 16"
  by (cases l) simp

lemma bit_word_of: "bit (word_of l) i \<longleftrightarrow> i < 64 \<and> bit (nibs l ! (i div 4)) (i mod 4)"
  by (auto simp: word_of_def bit_word_of_nibs)

lemma word_of_bits:
  assumes "\<And>i. i < 64 \<Longrightarrow> bit (nibs l ! (i div 4)) (i mod 4) = bit w i"
  shows "word_of l = w"
  using assms by (intro bit_word_eqI) (simp add: bit_word_of)

lemma nibs_xor: "nibs (lane_xor a b) = map2 nx (nibs a) (nibs b)"
  by (cases a; cases b) simp

lemma nibs_andnot: "nibs (lane_andnot a b) = map2 na (nibs a) (nibs b)"
  by (cases a; cases b) simp

lemma nibs_not: "nibs (lane_not a) = map (\<lambda>n. nx n 15) (nibs a)"
  by (cases a) simp

lemma word_of_xor: "word_of (lane_xor a b) = word_of a XOR word_of b"
  by (rule word_of_bits) (simp add: nibs_xor nx_def bit_word_of bit_simps)

lemma word_of_andnot: "word_of (lane_andnot a b) = NOT (word_of a) AND word_of b"
  by (rule word_of_bits) (auto simp: nibs_andnot na_def bit_word_of bit_simps)

lemma word_of_not: "word_of (lane_not a) = NOT (word_of a)"
proof -
  have "bit (15 :: nib) k" if "k < 4" for k
  proof -
    have "(15 :: nib) = Bit_Operations.mask 4" by (simp add: mask_eq_exp_minus_1)
    then show ?thesis using that by (simp only: bit_mask_iff) simp
  qed
  then show ?thesis
    by (intro word_of_bits) (auto simp: nibs_not nx_def bit_word_of bit_simps)
qed

text \<open>A rotation by \<open>4 * q + r\<close>.\<close>

definition turn :: "nat \<Rightarrow> nat \<Rightarrow> nib list \<Rightarrow> nib list" where
  "turn q r ns = map (\<lambda>j. shr r (ns ! ((j + q) mod 16)) (ns ! ((j + q + 1) mod 16))) [0..<16]"

lemma carry_digit: "k < 4 \<Longrightarrow> r < 4 \<Longrightarrow> \<not> k + r < 4 \<Longrightarrow> (k + r) div 4 = 1 \<and> (k + r) mod 4 = k + r - 4" for k r :: nat
  by presburger

lemma bit_shr:
  assumes "k < 4" and "r < 4"
  shows "bit (shr r a b) k \<longleftrightarrow> (if k + r < 4 then bit a (k + r) else bit b (k + r - 4))"
proof (cases "k + r < 4")
  case True
  then have "\<not> 4 - r \<le> k" by simp
  with True show ?thesis using assms by (simp add: shr_def bit_simps add.commute)
next
  case False
  then have "\<not> bit a (r + k)" by (auto dest: bit_imp_le_length)
  moreover have "k - (4 - r) = k + r - 4" "4 - r \<le> k" using False assms by simp_all
  ultimately show ?thesis using False assms by (simp add: shr_def bit_simps)
qed

lemma word_of_turn:
  assumes "nibs l' = turn q r (nibs l)" and "r < 4"
  shows "word_of l' = word_rotr (4 * q + r) (word_of l)"
proof (rule word_of_bits)
  fix i :: nat
  assume i: "i < 64"
  let ?j = "i div 4" and ?k = "i mod 4"
  have k: "?k < 4" by simp
  have pos: "(i + (4 * q + r)) mod 64 < 64" by simp
  have hi: "(i + (4 * q + r)) mod 64 div 4 = (i + (4 * q + r)) div 4 mod 16"
    using div_mult_mod_eq [of "(i + (4 * q + r))"] mod_mult2_eq [of "i + (4 * q + r)" 4 16] by simp
  have lo: "(i + (4 * q + r)) mod 64 mod 4 = (?k + r) mod 4"
    by (simp add: mod_mod_cancel mod_add_left_eq) presburger
  have sum: "(i + (4 * q + r)) div 4 = ?j + q + (?k + r) div 4"
    by presburger
  have "bit (nibs l' ! ?j) ?k = bit (shr r (nibs l ! ((?j + q) mod 16)) (nibs l ! ((?j + q + 1) mod 16))) ?k"
    using i nth_upt [of 0 ?j 16] by (simp add: assms(1) turn_def)
  also have "\<dots> = bit (nibs l ! ((?j + q + (?k + r) div 4) mod 16)) ((?k + r) mod 4)"
  proof (cases "?k + r < 4")
    case True
    then show ?thesis by (simp add: bit_shr [OF k assms(2)])
  next
    case False
    with k assms(2) have "(?k + r) div 4 = 1" "(?k + r) mod 4 = ?k + r - 4" using carry_digit by blast+
    with False show ?thesis by (simp add: bit_shr [OF k assms(2)])
  qed
  also have "\<dots> = bit (word_rotr (4 * q + r) (word_of l)) i"
    using i by (simp add: bit_word_rotr_iff bit_word_of hi lo sum)
  finally show "bit (nibs l' ! ?j) ?k = bit (word_rotr (4 * q + r) (word_of l)) i" .
qed

lemma shr_0 [simp]: "shr 0 a b = a"
  by (rule bit_word_eqI) (auto simp: shr_def bit_simps)

lemma word_of_rot:
  "word_of (rot1 l) = word_rotr 1 (word_of l)"
  "word_of (rot6 l) = word_rotr 6 (word_of l)"
  "word_of (rot7 l) = word_rotr 7 (word_of l)"
  "word_of (rot10 l) = word_rotr 10 (word_of l)"
  "word_of (rot17 l) = word_rotr 17 (word_of l)"
  "word_of (rot19 l) = word_rotr 19 (word_of l)"
  "word_of (rot28 l) = word_rotr 28 (word_of l)"
  "word_of (rot39 l) = word_rotr 39 (word_of l)"
  "word_of (rot41 l) = word_rotr 41 (word_of l)"
  "word_of (rot61 l) = word_rotr 61 (word_of l)"
proof -
  show "word_of (rot1 l) = word_rotr 1 (word_of l)"
    using word_of_turn [of "rot1 l" 0 1 l] by (cases l) (simp add: turn_def upt_rec)
  show "word_of (rot6 l) = word_rotr 6 (word_of l)"
    using word_of_turn [of "rot6 l" 1 2 l] by (cases l) (simp add: turn_def upt_rec)
  show "word_of (rot7 l) = word_rotr 7 (word_of l)"
    using word_of_turn [of "rot7 l" 1 3 l] by (cases l) (simp add: turn_def upt_rec)
  show "word_of (rot10 l) = word_rotr 10 (word_of l)"
    using word_of_turn [of "rot10 l" 2 2 l] by (cases l) (simp add: turn_def upt_rec)
  show "word_of (rot17 l) = word_rotr 17 (word_of l)"
    using word_of_turn [of "rot17 l" 4 1 l] by (cases l) (simp add: turn_def upt_rec)
  show "word_of (rot19 l) = word_rotr 19 (word_of l)"
    using word_of_turn [of "rot19 l" 4 3 l] by (cases l) (simp add: turn_def upt_rec)
  show "word_of (rot28 l) = word_rotr 28 (word_of l)"
    using word_of_turn [of "rot28 l" 7 0 l] by (cases l) (simp add: turn_def upt_rec)
  show "word_of (rot39 l) = word_rotr 39 (word_of l)"
    using word_of_turn [of "rot39 l" 9 3 l] by (cases l) (simp add: turn_def upt_rec)
  show "word_of (rot41 l) = word_rotr 41 (word_of l)"
    using word_of_turn [of "rot41 l" 10 1 l] by (cases l) (simp add: turn_def upt_rec)
  show "word_of (rot61 l) = word_rotr 61 (word_of l)"
    using word_of_turn [of "rot61 l" 15 1 l] by (cases l) (simp add: turn_def upt_rec)
qed

lemma word_of_const:
  "word_of (lane_const hi lo l) = word_of l XOR (ucast lo OR push_bit 4 (ucast hi))"
proof -
  have [simp]: "nx a 0 = a" for a by (simp add: nx_def)
  have "lane_const hi lo l = lane_xor l (Lane lo hi 0 0 0 0 0 0 0 0 0 0 0 0 0 0)"
    by (cases l) simp
  then show ?thesis by (simp add: word_of_xor) (simp add: word_of_def)
qed

section \<open>The permutation\<close>

fun state_of :: "lanes \<Rightarrow> AsconState" where
  "state_of (x0, x1, x2, x3, x4) = \<lparr>s64_0 = word_of x0, s64_1 = word_of x1, s64_2 = word_of x2,
     s64_3 = word_of x3, s64_4 = word_of x4\<rparr>"

definition nib_byte :: "nib \<times> nib \<Rightarrow> u64" where
  "nib_byte c = ucast (snd c) OR push_bit 4 (ucast (fst c))"

lemma state_of_round: "state_of (lanes_round s c) = p_round (state_of s) (nib_byte c)"
  by (cases s; cases c) (simp add: p_round_layers sbox_layer_def diffuse_def lanes_round_def nib_byte_def Let_def
      word_of_xor word_of_andnot word_of_not word_of_const word_of_rot ac_simps)

lemma state_of_foldl: "state_of (foldl lanes_round s cs) = foldl (\<lambda>a c. p_round a (nib_byte c)) (state_of s) cs"
  by (induction cs arbitrary: s) (simp_all add: state_of_round)

lemma state_of_perm:
  "state_of (lanes_perm8 s) = perm8 (state_of s)" "state_of (lanes_perm12 s) = perm12 (state_of s)"
  by (simp_all add: lanes_perm12_def lanes_perm8_def state_of_round perm8_def perm12_def perm_simps ascon_round_def
      ascon_round_constants_def nib_byte_def)

text \<open>Carrying an evaluation over: words and lanes are given as literals.\<close>

lemma eval_perm12:
  "state_of s = a \<Longrightarrow> lanes_perm12 s = t \<Longrightarrow> state_of t = b \<Longrightarrow> perm12 a = b"
  using state_of_perm(2) [of s] by simp

lemma eval_perm8:
  "state_of s = a \<Longrightarrow> lanes_perm8 s = t \<Longrightarrow> state_of t = b \<Longrightarrow> perm8 a = b"
  using state_of_perm(1) [of s] by simp

text \<open>The value of a literal lane.\<close>

lemma word_of_nibs_number: "word_of_nibs (n # ns) = ucast n + 16 * word_of_nibs ns"
proof -
  have "ucast n OR push_bit 4 (word_of_nibs ns) = ucast n + push_bit 4 (word_of_nibs ns)"
    by (rule disjunctive_add [symmetric]) (auto simp: bit_simps dest: bit_imp_le_length)
  then show ?thesis by (simp add: push_bit_eq_mult)
qed

lemmas lane_value = state_of.simps word_of_def nibs.simps word_of_nibs_number word_of_nibs.simps(1)

end
