(* ===== verification/Kat_Perms.thy ===== *)
theory Kat_Perms
  imports Kat_Eval
begin

text \<open>
  The permutation results the known-answer theorems need, one evaluation each: hashing the
  empty message (five calls of the 12-round permutation), sealing the first record of
  \<open>tools/ascon_record_kat.txt\<close>, and sealing with 16 bytes of associated data under the
  two rules for a full last block.
\<close>

lemma eval_hash_0: "perm12
    \<lparr>s64_0 = 0x80100cc0002, s64_1 = 0, s64_2 = 0, s64_3 = 0, s64_4 = 0\<rparr>
  = \<lparr>s64_0 = 0x9b1e5494e934d681, s64_1 = 0x4bc3a01e333751d2, s64_2 = 0xae65396c6b34b81a, s64_3 = 0x3c7fd4a4d56a4db3, s64_4 = 0x1a5c464906c5976d\<rparr>"
proof (rule eval_perm12)
  show "lanes_perm12 (Lane 2 0 0 0 12 12 0 0 1 0 8 0 0 0 0 0,
      Lane 0 0 0 0 0 0 0 0 0 0 0 0 0 0 0 0,
      Lane 0 0 0 0 0 0 0 0 0 0 0 0 0 0 0 0,
      Lane 0 0 0 0 0 0 0 0 0 0 0 0 0 0 0 0,
      Lane 0 0 0 0 0 0 0 0 0 0 0 0 0 0 0 0)
      = (Lane 1 8 6 13 4 3 9 14 4 9 4 5 14 1 11 9,
         Lane 2 13 1 5 7 3 3 3 14 1 0 10 3 12 11 4,
         Lane 10 1 8 11 4 3 11 6 12 6 9 3 5 6 14 10,
         Lane 3 11 13 4 10 6 5 13 4 10 4 13 15 7 12 3,
         Lane 13 6 7 9 5 12 6 0 9 4 6 4 12 5 10 1)"
    by (simp only: lanes_eval)
qed (simp_all add: lane_value)

lemma eval_hash_1: "perm12
    \<lparr>s64_0 = 0x9b1e5494e934d680, s64_1 = 0x4bc3a01e333751d2, s64_2 = 0xae65396c6b34b81a, s64_3 = 0x3c7fd4a4d56a4db3, s64_4 = 0x1a5c464906c5976d\<rparr>
  = \<lparr>s64_0 = 0x986b2f0f85e53b0b, s64_1 = 0x2386f7e072d98ba5, s64_2 = 0x5a2f0490571df00, s64_3 = 0x1f64389b8a35dd62, s64_4 = 0xcc9779f2d99ce706\<rparr>"
proof (rule eval_perm12)
  show "lanes_perm12 (Lane 0 8 6 13 4 3 9 14 4 9 4 5 14 1 11 9,
      Lane 2 13 1 5 7 3 3 3 14 1 0 10 3 12 11 4,
      Lane 10 1 8 11 4 3 11 6 12 6 9 3 5 6 14 10,
      Lane 3 11 13 4 10 6 5 13 4 10 4 13 15 7 12 3,
      Lane 13 6 7 9 5 12 6 0 9 4 6 4 12 5 10 1)
      = (Lane 11 0 11 3 5 14 5 8 15 0 15 2 11 6 8 9,
         Lane 5 10 11 8 9 13 2 7 0 14 7 15 6 8 3 2,
         Lane 0 0 15 13 1 7 5 0 9 4 0 15 2 10 5 0,
         Lane 2 6 13 13 5 3 10 8 11 9 8 3 4 6 15 1,
         Lane 6 0 7 14 12 9 9 13 2 15 9 7 7 9 12 12)"
    by (simp only: lanes_eval)
qed (simp_all add: lane_value)

lemma eval_hash_2: "perm12
    \<lparr>s64_0 = 0x986b2f0f85e53b0b, s64_1 = 0x2386f7e072d98ba5, s64_2 = 0x5a2f0490571df00, s64_3 = 0x1f64389b8a35dd62, s64_4 = 0xcc9779f2d99ce706\<rparr>
  = \<lparr>s64_0 = 0x649ba8de8f9ff2ca, s64_1 = 0x15090fb0f1728054, s64_2 = 0xb5a310c4b131510f, s64_3 = 0xbe0597d1a4f79fd1, s64_4 = 0xe513ab4700d7c83a\<rparr>"
proof (rule eval_perm12)
  show "lanes_perm12 (Lane 11 0 11 3 5 14 5 8 15 0 15 2 11 6 8 9,
      Lane 5 10 11 8 9 13 2 7 0 14 7 15 6 8 3 2,
      Lane 0 0 15 13 1 7 5 0 9 4 0 15 2 10 5 0,
      Lane 2 6 13 13 5 3 10 8 11 9 8 3 4 6 15 1,
      Lane 6 0 7 14 12 9 9 13 2 15 9 7 7 9 12 12)
      = (Lane 10 12 2 15 15 9 15 8 14 13 8 10 11 9 4 6,
         Lane 4 5 0 8 2 7 1 15 0 11 15 0 9 0 5 1,
         Lane 15 0 1 5 1 3 1 11 4 12 0 1 3 10 5 11,
         Lane 1 13 15 9 7 15 4 10 1 13 7 9 5 0 14 11,
         Lane 10 3 8 12 7 13 0 0 7 4 11 10 3 1 5 14)"
    by (simp only: lanes_eval)
qed (simp_all add: lane_value)

lemma eval_hash_3: "perm12
    \<lparr>s64_0 = 0x649ba8de8f9ff2ca, s64_1 = 0x15090fb0f1728054, s64_2 = 0xb5a310c4b131510f, s64_3 = 0xbe0597d1a4f79fd1, s64_4 = 0xe513ab4700d7c83a\<rparr>
  = \<lparr>s64_0 = 0x838f9b24aa70faa1, s64_1 = 0x8fd4ed1e6a15db78, s64_2 = 0xfeb945eaa85d8106, s64_3 = 0x2ec746887fcf6b9c, s64_4 = 0xcf02850b0b7f48b7\<rparr>"
proof (rule eval_perm12)
  show "lanes_perm12 (Lane 10 12 2 15 15 9 15 8 14 13 8 10 11 9 4 6,
      Lane 4 5 0 8 2 7 1 15 0 11 15 0 9 0 5 1,
      Lane 15 0 1 5 1 3 1 11 4 12 0 1 3 10 5 11,
      Lane 1 13 15 9 7 15 4 10 1 13 7 9 5 0 14 11,
      Lane 10 3 8 12 7 13 0 0 7 4 11 10 3 1 5 14)
      = (Lane 1 10 10 15 0 7 10 10 4 2 11 9 15 8 3 8,
         Lane 8 7 11 13 5 1 10 6 14 1 13 14 4 13 15 8,
         Lane 6 0 1 8 13 5 8 10 10 14 5 4 9 11 14 15,
         Lane 12 9 11 6 15 12 15 7 8 8 6 4 7 12 14 2,
         Lane 7 11 8 4 15 7 11 0 11 0 5 8 2 0 15 12)"
    by (simp only: lanes_eval)
qed (simp_all add: lane_value)

lemma eval_hash_4: "perm12
    \<lparr>s64_0 = 0x838f9b24aa70faa1, s64_1 = 0x8fd4ed1e6a15db78, s64_2 = 0xfeb945eaa85d8106, s64_3 = 0x2ec746887fcf6b9c, s64_4 = 0xcf02850b0b7f48b7\<rparr>
  = \<lparr>s64_0 = 0xb2924d30aa3bd59b, s64_1 = 0xc169b66ce2c99032, s64_2 = 0xac5dfc99943888e3, s64_3 = 0x281db0d7ab47e403, s64_4 = 0x1923f0443c84d557\<rparr>"
proof (rule eval_perm12)
  show "lanes_perm12 (Lane 1 10 10 15 0 7 10 10 4 2 11 9 15 8 3 8,
      Lane 8 7 11 13 5 1 10 6 14 1 13 14 4 13 15 8,
      Lane 6 0 1 8 13 5 8 10 10 14 5 4 9 11 14 15,
      Lane 12 9 11 6 15 12 15 7 8 8 6 4 7 12 14 2,
      Lane 7 11 8 4 15 7 11 0 11 0 5 8 2 0 15 12)
      = (Lane 11 9 5 13 11 3 10 10 0 3 13 4 2 9 2 11,
         Lane 2 3 0 9 9 12 2 14 12 6 6 11 9 6 1 12,
         Lane 3 14 8 8 8 3 4 9 9 9 12 15 13 5 12 10,
         Lane 3 0 4 14 7 4 11 10 7 13 0 11 13 1 8 2,
         Lane 7 5 5 13 4 8 12 3 4 4 0 15 3 2 9 1)"
    by (simp only: lanes_eval)
qed (simp_all add: lane_value)

lemma eval_aead_init: "perm12
    \<lparr>s64_0 = 0x1000808c0001, s64_1 = 0x706050403020100, s64_2 = 0xf0e0d0c0b0a0908, s64_3 = 0x1716151413121110, s64_4 = 0x1f1e1d1c1b1a1918\<rparr>
  = \<lparr>s64_0 = 0xcde34900cdfce2c8, s64_1 = 0x948cba141a58c1cb, s64_2 = 0x1fec9b5dae69b43a, s64_3 = 0x620599fcd928dbac, s64_4 = 0x3d3290a90ed3b02f\<rparr>"
proof (rule eval_perm12)
  show "lanes_perm12 (Lane 1 0 0 0 12 8 0 8 0 0 0 1 0 0 0 0,
      Lane 0 0 1 0 2 0 3 0 4 0 5 0 6 0 7 0,
      Lane 8 0 9 0 10 0 11 0 12 0 13 0 14 0 15 0,
      Lane 0 1 1 1 2 1 3 1 4 1 5 1 6 1 7 1,
      Lane 8 1 9 1 10 1 11 1 12 1 13 1 14 1 15 1)
      = (Lane 8 12 2 14 12 15 13 12 0 0 9 4 3 14 13 12,
         Lane 11 12 1 12 8 5 10 1 4 1 10 11 12 8 4 9,
         Lane 10 3 4 11 9 6 14 10 13 5 11 9 12 14 15 1,
         Lane 12 10 11 13 8 2 9 13 12 15 9 9 5 0 2 6,
         Lane 15 2 0 11 3 13 14 0 9 10 0 9 2 3 13 3)"
    by (simp only: lanes_eval)
qed (simp_all add: lane_value)

lemma eval_record_ad: "perm8
    \<lparr>s64_0 = 0xcde34900cd011cdf, s64_1 = 0x948cbb141a58c1cb, s64_2 = 0x1fec9b5dae69b43a, s64_3 = 0x65039cf8da2adaac, s64_4 = 0x323c9da505d9b927\<rparr>
  = \<lparr>s64_0 = 0xe1d06a3bcd96f0ef, s64_1 = 0x7fa0bb1da2c50cfa, s64_2 = 0xe6bc30e25a54a530, s64_3 = 0x15d902fbbfb3ae24, s64_4 = 0xbf41e7389777ba3a\<rparr>"
proof (rule eval_perm8)
  show "lanes_perm8 (Lane 15 13 12 1 1 0 13 12 0 0 9 4 3 14 13 12,
      Lane 11 12 1 12 8 5 10 1 4 1 11 11 12 8 4 9,
      Lane 10 3 4 11 9 6 14 10 13 5 11 9 12 14 15 1,
      Lane 12 10 10 13 10 2 10 13 8 15 12 9 3 0 5 6,
      Lane 7 2 9 11 9 13 5 0 5 10 13 9 12 3 2 3)
      = (Lane 15 14 0 15 6 9 13 12 11 3 10 6 0 13 1 14,
         Lane 10 15 12 0 5 12 2 10 13 1 11 11 0 10 15 7,
         Lane 0 3 5 10 4 5 10 5 2 14 0 3 12 11 6 14,
         Lane 4 2 14 10 3 11 15 11 11 15 2 0 9 13 5 1,
         Lane 10 3 10 11 7 7 7 9 8 3 7 14 1 4 15 11)"
    by (simp only: lanes_eval)
qed (simp_all add: lane_value)

lemma eval_record_close: "perm12
    \<lparr>s64_0 = 0x95b44755a2f5838e, s64_1 = 0x7fa1dc6ecfe57f96, s64_2 = 0xe1ba35e65956a430, s64_3 = 0x1ad70ff7b4b9a72c, s64_4 = 0x3f41e7389777ba3a\<rparr>
  = \<lparr>s64_0 = 0xcaf26932b185846b, s64_1 = 0x432c50eadc41c070, s64_2 = 0xaad7fd0149a423ec, s64_3 = 0xa094188faca115bc, s64_4 = 0xe8b1fb6026784492\<rparr>"
proof (rule eval_perm12)
  show "lanes_perm12 (Lane 14 8 3 8 5 15 2 10 5 5 7 4 4 11 5 9,
      Lane 6 9 15 7 5 14 15 12 14 6 12 13 1 10 15 7,
      Lane 0 3 4 10 6 5 9 5 6 14 5 3 10 11 1 14,
      Lane 12 2 7 10 9 11 4 11 7 15 15 0 7 13 10 1,
      Lane 10 3 10 11 7 7 7 9 8 3 7 14 1 4 15 3)
      = (Lane 11 6 4 8 5 8 1 11 2 3 9 6 2 15 10 12,
         Lane 0 7 0 12 1 4 12 13 10 14 0 5 12 2 3 4,
         Lane 12 14 3 2 4 10 9 4 1 0 13 15 7 13 10 10,
         Lane 12 11 5 1 1 10 12 10 15 8 8 1 4 9 0 10,
         Lane 2 9 4 4 8 7 6 2 0 6 11 15 1 11 8 14)"
    by (simp only: lanes_eval)
qed (simp_all add: lane_value)

lemma eval_whole_block: "perm8
    \<lparr>s64_0 = 0xcae54c04cefee3c8, s64_1 = 0x9b82b7181152c8c3, s64_2 = 0x1fec9b5dae69b43a, s64_3 = 0x65039cf8da2adaac, s64_4 = 0x323c9da505d9b927\<rparr>
  = \<lparr>s64_0 = 0xa7471d2c6c018fbd, s64_1 = 0xf0f09e3b8522991a, s64_2 = 0xc76d36a0dac51fa, s64_3 = 0xe308c4c2aa361b56, s64_4 = 0xf1997ec3b2f8ddc0\<rparr>"
proof (rule eval_perm8)
  show "lanes_perm8 (Lane 8 12 3 14 14 15 14 12 4 0 12 4 5 14 10 12,
      Lane 3 12 8 12 2 5 1 1 8 1 7 11 2 8 11 9,
      Lane 10 3 4 11 9 6 14 10 13 5 11 9 12 14 15 1,
      Lane 12 10 10 13 10 2 10 13 8 15 12 9 3 0 5 6,
      Lane 7 2 9 11 9 13 5 0 5 10 13 9 12 3 2 3)
      = (Lane 13 11 15 8 1 0 12 6 12 2 13 1 7 4 7 10,
         Lane 10 1 9 9 2 2 5 8 11 3 14 9 0 15 0 15,
         Lane 10 15 1 5 12 10 13 0 10 6 3 13 6 7 12 0,
         Lane 6 5 11 1 6 3 10 10 2 12 4 12 8 0 3 14,
         Lane 0 12 13 13 8 15 2 11 3 12 14 7 9 9 1 15)"
    by (simp only: lanes_eval)
qed (simp_all add: lane_value)

lemma eval_whole_ossl: "perm12
    \<lparr>s64_0 = 0xa7471d2c6c018fbc, s64_1 = 0xf0f09e3b8522991a, s64_2 = 0xb70d66e0eae50fa, s64_3 = 0xec06c9cea13c125e, s64_4 = 0x71997ec3b2f8ddc0\<rparr>
  = \<lparr>s64_0 = 0xe829b7beb45b6c00, s64_1 = 0x98bba05883bd9d22, s64_2 = 0xae0dfa49577c1843, s64_3 = 0x8015a4bb39b274ae, s64_4 = 0x6b291b4fbdb89eaf\<rparr>"
proof (rule eval_perm12)
  show "lanes_perm12 (Lane 12 11 15 8 1 0 12 6 12 2 13 1 7 4 7 10,
      Lane 10 1 9 9 2 2 5 8 11 3 14 9 0 15 0 15,
      Lane 10 15 0 5 14 10 14 0 14 6 6 13 0 7 11 0,
      Lane 14 5 2 1 12 3 1 10 14 12 9 12 6 0 12 14,
      Lane 0 12 13 13 8 15 2 11 3 12 14 7 9 9 1 7)
      = (Lane 0 0 12 6 11 5 4 11 14 11 7 11 9 2 8 14,
         Lane 2 2 13 9 13 11 3 8 8 5 0 10 11 11 8 9,
         Lane 3 4 8 1 12 7 7 5 9 4 10 15 13 0 14 10,
         Lane 14 10 4 7 2 11 9 3 11 11 4 10 5 1 0 8,
         Lane 15 10 14 9 8 11 13 11 15 4 11 1 9 2 11 6)"
    by (simp only: lanes_eval)
qed (simp_all add: lane_value)

lemma eval_whole_pad: "perm8
    \<lparr>s64_0 = 0xa7471d2c6c018fbc, s64_1 = 0xf0f09e3b8522991a, s64_2 = 0xc76d36a0dac51fa, s64_3 = 0xe308c4c2aa361b56, s64_4 = 0xf1997ec3b2f8ddc0\<rparr>
  = \<lparr>s64_0 = 0xc7769e59ed777b42, s64_1 = 0x4d1c1105ebc7fc8d, s64_2 = 0xff3cbb99acf72ef2, s64_3 = 0x5918ffc1d8893ac5, s64_4 = 0x7b4f24b0cb5a627\<rparr>"
proof (rule eval_perm8)
  show "lanes_perm8 (Lane 12 11 15 8 1 0 12 6 12 2 13 1 7 4 7 10,
      Lane 10 1 9 9 2 2 5 8 11 3 14 9 0 15 0 15,
      Lane 10 15 1 5 12 10 13 0 10 6 3 13 6 7 12 0,
      Lane 6 5 11 1 6 3 10 10 2 12 4 12 8 0 3 14,
      Lane 0 12 13 13 8 15 2 11 3 12 14 7 9 9 1 15)
      = (Lane 2 4 11 7 7 7 13 14 9 5 14 9 6 7 7 12,
         Lane 13 8 12 15 7 12 11 14 5 0 1 1 12 1 13 4,
         Lane 2 15 14 2 7 15 12 10 9 9 11 11 12 3 15 15,
         Lane 5 12 10 3 9 8 8 13 1 12 15 15 8 1 9 5,
         Lane 7 2 6 10 5 11 12 0 11 4 2 15 4 11 7 0)"
    by (simp only: lanes_eval)
qed (simp_all add: lane_value)

lemma eval_whole_wc: "perm12
    \<lparr>s64_0 = 0xc7769e59ed777b43, s64_1 = 0x4d1c1105ebc7fc8d, s64_2 = 0xf83abe9daff52ff2, s64_3 = 0x5616f2cdd38333cd, s64_4 = 0x87b4f24b0cb5a627\<rparr>
  = \<lparr>s64_0 = 0xf57515220ff8a7b2, s64_1 = 0x7d941f60e91c41c4, s64_2 = 0x50cb8c535150fe9c, s64_3 = 0xee5732f8ae0dfc56, s64_4 = 0xa13592e835abcb87\<rparr>"
proof (rule eval_perm12)
  show "lanes_perm12 (Lane 3 4 11 7 7 7 13 14 9 5 14 9 6 7 7 12,
      Lane 13 8 12 15 7 12 11 14 5 0 1 1 12 1 13 4,
      Lane 2 15 15 2 5 15 15 10 13 9 14 11 10 3 8 15,
      Lane 13 12 3 3 3 8 3 13 13 12 2 15 6 1 6 5,
      Lane 7 2 6 10 5 11 12 0 11 4 2 15 4 11 7 8)
      = (Lane 2 11 7 10 8 15 15 0 2 2 5 1 5 7 5 15,
         Lane 4 12 1 4 12 1 9 14 0 6 15 1 4 9 13 7,
         Lane 12 9 14 15 0 5 1 5 3 5 12 8 11 12 0 5,
         Lane 6 5 12 15 13 0 14 10 8 15 2 3 7 5 14 14,
         Lane 7 8 11 12 11 10 5 3 8 14 2 9 5 3 1 10)"
    by (simp only: lanes_eval)
qed (simp_all add: lane_value)

text \<open>The second record, with two whole blocks of plaintext.\<close>

lemma eval_second_init: "perm12
    \<lparr>s64_0 = 0x1000808c0001, s64_1 = 0x706050403020100, s64_2 = 0xf0e0d0c0b0a0908, s64_3 = 0x1716151413121110, s64_4 = 0x1e1e1d1c1b1a1918\<rparr>
  = \<lparr>s64_0 = 0xb0c4ad1c6497b8be, s64_1 = 0xa597341b0719141c, s64_2 = 0x495d0e052a5c5047, s64_3 = 0x23a6a1cf96ba577b, s64_4 = 0x7f2c20f34086725f\<rparr>"
proof (rule eval_perm12)
  show "lanes_perm12 (Lane 1 0 0 0 12 8 0 8 0 0 0 1 0 0 0 0,
      Lane 0 0 1 0 2 0 3 0 4 0 5 0 6 0 7 0,
      Lane 8 0 9 0 10 0 11 0 12 0 13 0 14 0 15 0,
      Lane 0 1 1 1 2 1 3 1 4 1 5 1 6 1 7 1,
      Lane 8 1 9 1 10 1 11 1 12 1 13 1 14 1 14 1)
      = (Lane 14 11 8 11 7 9 4 6 12 1 13 10 4 12 0 11,
         Lane 12 1 4 1 9 1 7 0 11 1 4 3 7 9 5 10,
         Lane 7 4 0 5 12 5 10 2 5 0 14 0 13 5 9 4,
         Lane 11 7 7 5 10 11 6 9 15 12 1 10 6 10 3 2,
         Lane 15 5 2 7 6 8 0 4 3 15 0 2 12 2 15 7)"
    by (simp only: lanes_eval)
qed (simp_all add: lane_value)

lemma eval_second_ad: "perm8
    \<lparr>s64_0 = 0xe6f0bf1d646a46a9, s64_1 = 0xa59735ebd9a58e64, s64_2 = 0x495d0e052a5c5047, s64_3 = 0x24a0a4cb95b8567b, s64_4 = 0x70222dff4b8c7b57\<rparr>
  = \<lparr>s64_0 = 0x6a226b5f4ff854ec, s64_1 = 0x84c384c5b8e9b9b2, s64_2 = 0xaece42003d4dfe0f, s64_3 = 0x88bde2ecb3251218, s64_4 = 0xf76edbfcc5dfed6e\<rparr>"
proof (rule eval_perm8)
  show "lanes_perm8 (Lane 9 10 6 4 10 6 4 6 13 1 15 11 0 15 6 14,
      Lane 4 6 14 8 5 10 9 13 11 14 5 3 7 9 5 10,
      Lane 7 4 0 5 12 5 10 2 5 0 14 0 13 5 9 4,
      Lane 11 7 6 5 8 11 5 9 11 12 4 10 0 10 4 2,
      Lane 7 5 11 7 12 8 11 4 15 15 13 2 2 2 0 7)
      = (Lane 12 14 4 5 8 15 15 4 15 5 11 6 2 2 10 6,
         Lane 2 11 9 11 9 14 8 11 5 12 4 8 3 12 4 8,
         Lane 15 0 14 15 13 4 13 3 0 0 2 4 14 12 14 10,
         Lane 8 1 2 1 5 2 3 11 12 14 2 14 13 11 8 8,
         Lane 14 6 13 14 15 13 5 12 12 15 11 13 14 6 7 15)"
    by (simp only: lanes_eval)
qed (simp_all add: lane_value)

lemma eval_second_pt0: "perm8
    \<lparr>s64_0 = 0x6d246e5b4cfa55ec, s64_1 = 0x8bcd89c9b3e3b0ba, s64_2 = 0xaece42003d4dfe0f, s64_3 = 0x88bde2ecb3251218, s64_4 = 0x776edbfcc5dfed6e\<rparr>
  = \<lparr>s64_0 = 0x97c9bb3358515719, s64_1 = 0xd16fb9b9d1586669, s64_2 = 0x2c7344bc6338fc3b, s64_3 = 0xb77d026f4fb706e1, s64_4 = 0x6302ec4436fa7ade\<rparr>"
proof (rule eval_perm8)
  show "lanes_perm8 (Lane 12 14 5 5 10 15 12 4 11 5 14 6 4 2 13 6,
      Lane 10 11 0 11 3 14 3 11 9 12 9 8 13 12 11 8,
      Lane 15 0 14 15 13 4 13 3 0 0 2 4 14 12 14 10,
      Lane 8 1 2 1 5 2 3 11 12 14 2 14 13 11 8 8,
      Lane 14 6 13 14 15 13 5 12 12 15 11 13 14 6 7 7)
      = (Lane 9 1 7 5 1 5 8 5 3 3 11 11 9 12 7 9,
         Lane 9 6 6 6 8 5 1 13 9 11 9 11 15 6 1 13,
         Lane 11 3 12 15 8 3 3 6 12 11 4 4 3 7 12 2,
         Lane 1 14 6 0 7 11 15 4 15 6 2 0 13 7 7 11,
         Lane 14 13 10 7 10 15 6 3 4 4 12 14 2 0 3 6)"
    by (simp only: lanes_eval)
qed (simp_all add: lane_value)

lemma eval_second_pt1: "perm8
    \<lparr>s64_0 = 0x80dfae274b434609, s64_1 = 0xce71a4a5ca427f71, s64_2 = 0x2c7344bc6338fc3b, s64_3 = 0xb77d026f4fb706e1, s64_4 = 0x6302ec4436fa7ade\<rparr>
  = \<lparr>s64_0 = 0x1a3b7d780a132751, s64_1 = 0x1ada3e6fa49d6914, s64_2 = 0xeaccdd23adb569aa, s64_3 = 0x30681310a3eeb251, s64_4 = 0x7c96f97f1eb7a1da\<rparr>"
proof (rule eval_perm8)
  show "lanes_perm8 (Lane 9 0 6 4 3 4 11 4 7 2 14 10 15 13 0 8,
      Lane 1 7 15 7 2 4 10 12 5 10 4 10 1 7 14 12,
      Lane 11 3 12 15 8 3 3 6 12 11 4 4 3 7 12 2,
      Lane 1 14 6 0 7 11 15 4 15 6 2 0 13 7 7 11,
      Lane 14 13 10 7 10 15 6 3 4 4 12 14 2 0 3 6)
      = (Lane 1 5 7 2 3 1 10 0 8 7 13 7 11 3 10 1,
         Lane 4 1 9 6 13 9 4 10 15 6 14 3 10 13 10 1,
         Lane 10 10 9 6 5 11 13 10 3 2 13 13 12 12 10 14,
         Lane 1 5 2 11 14 14 3 10 0 1 3 1 8 6 0 3,
         Lane 10 13 1 10 7 11 14 1 15 7 9 15 6 9 12 7)"
    by (simp only: lanes_eval)
qed (simp_all add: lane_value)

lemma eval_second_close: "perm12
    \<lparr>s64_0 = 0x1a3b7d780a132750, s64_1 = 0x1ada3e6fa49d6914, s64_2 = 0xedcad827aeb768aa, s64_3 = 0x3f661e1ca8e4bb59, s64_4 = 0x7c96f97f1eb7a1da\<rparr>
  = \<lparr>s64_0 = 0xe22bb61feefcb593, s64_1 = 0xa3ef0fc5dfc313d4, s64_2 = 0x611280038bbad91a, s64_3 = 0xddb423bf22026b90, s64_4 = 0xa77a8920d5c8802e\<rparr>"
proof (rule eval_perm12)
  show "lanes_perm12 (Lane 0 5 7 2 3 1 10 0 8 7 13 7 11 3 10 1,
      Lane 4 1 9 6 13 9 4 10 15 6 14 3 10 13 10 1,
      Lane 10 10 8 6 7 11 14 10 7 2 8 13 10 12 13 14,
      Lane 9 5 11 11 4 14 8 10 12 1 14 1 6 6 15 3,
      Lane 10 13 1 10 7 11 14 1 15 7 9 15 6 9 12 7)
      = (Lane 3 9 5 11 12 15 14 14 15 1 6 11 11 2 2 14,
         Lane 4 13 3 1 3 12 15 13 5 12 15 0 15 14 3 10,
         Lane 10 1 9 13 10 11 11 8 3 0 0 8 2 1 1 6,
         Lane 0 9 11 6 2 0 2 2 15 11 3 2 4 11 13 13,
         Lane 14 2 0 8 8 12 5 13 0 2 9 8 10 7 7 10)"
    by (simp only: lanes_eval)
qed (simp_all add: lane_value)

lemmas kat_perms = eval_hash_0 eval_hash_1 eval_hash_2 eval_hash_3 eval_hash_4 eval_aead_init eval_record_ad eval_record_close eval_whole_block eval_whole_ossl eval_whole_pad eval_whole_wc eval_second_init eval_second_ad eval_second_pt0 eval_second_pt1 eval_second_close

end
