(* ===== verification/Record_Kat.thy ===== *)
theory Record_Kat
  imports Wc_Aead_Api
begin

text \<open>
  The record-layer test tools. \<open>tools/ascon_record_kat.c\<close>: the nonce of a DTLS 1.3
  record from the write IV and the sequence number, and a test case that seals a record and
  opens it again. \<open>tools/ascon_mask_kat.c\<close>: the record-number mask from a fresh
  context.
\<close>

definition build_nonce :: "u8 list \<Rightarrow> u64 \<Rightarrow> u8 list" where
  "build_nonce iv seq = foldl (\<lambda>nonce i. nonce[8 + i := nonce ! (8 + i) XOR ucast (drop_bit (8 * (7 - i)) seq)])
     (take ASCON_AEAD128_NONCE_SZ iv) [0..<8]"

text \<open>
  A test case: an error code, or the comparison with the decrypted text failed (None), or
  the ciphertext and the tag it prints. The context is a local variable: uninitialised
  memory \<open>g\<close> at first, for the second half what \<open>Clear\<close> left. The results go to the
  local arrays \<open>ct\<close> and \<open>dec\<close> of 64 bytes: a call that stores more writes over the stack,
  which is undefined, and then there is no result (None).
\<close>

definition CASE_BUF_SZ :: nat where "CASE_BUF_SZ = 64"

definition case_try :: "wc_ret \<times> 'a \<Rightarrow> ('a \<Rightarrow> (wc_ret + 'b) option) \<Rightarrow> (wc_ret + 'b) option" where
  "case_try r f = (if fst r \<noteq> WC_OK then Some (Inl (fst r)) else f (snd r))"

definition case_store :: "nat \<Rightarrow> wc_ret \<times> 'c \<times> u8 list \<Rightarrow> ('c \<times> u8 list \<Rightarrow> (wc_ret + 'b) option) \<Rightarrow> (wc_ret + 'b) option" where
  "case_store n r f = (if n < length (snd (snd r)) then None else case_try r f)"

definition run_case :: "wc_misc \<Rightarrow> (wc_AsconAEAD128 \<Rightarrow> wc_AsconAEAD128) \<Rightarrow> wc_AsconAEAD128
    \<Rightarrow> u8 list \<Rightarrow> u8 list \<Rightarrow> u64 \<Rightarrow> u8 list \<Rightarrow> u8 list \<Rightarrow> (wc_ret + (u8 list \<times> u8 list) option) option" where
  "run_case M ForceZero g key iv seq aad pt = (let
     nonce = build_nonce iv seq;
     ptSz = length pt
   in case_try (wc_AsconAEAD128_Init (Some g)) (\<lambda>a.
      case_try (wc_AsconAEAD128_SetKey a (Some key)) (\<lambda>a.
      case_try (wc_AsconAEAD128_SetNonce a (Some nonce)) (\<lambda>a.
      case_try (wc_AsconAEAD128_SetAD M a (Some aad) (length aad)) (\<lambda>a.
      case_store CASE_BUF_SZ (wc_AsconAEAD128_EncryptUpdate M a (Some pt) ptSz) (\<lambda>(a, ct).
      case_store ASCON_AEAD128_TAG_SZ (wc_AsconAEAD128_EncryptFinal a PTR) (\<lambda>(a, tag).
      case_try (wc_AsconAEAD128_Init (wc_AsconAEAD128_Clear ForceZero a)) (\<lambda>a.
      case_try (wc_AsconAEAD128_SetKey a (Some key)) (\<lambda>a.
      case_try (wc_AsconAEAD128_SetNonce a (Some nonce)) (\<lambda>a.
      case_try (wc_AsconAEAD128_SetAD M a (Some aad) (length aad)) (\<lambda>a.
      case_store CASE_BUF_SZ (wc_AsconAEAD128_DecryptUpdate M a (Some ct) ptSz) (\<lambda>(a, dec).
      case_try (wc_AsconAEAD128_DecryptFinal M a (Some tag)) (\<lambda>a.
        Some (if dec \<noteq> pt then Inr None else Inr (Some (ct, tag))))))))))))))))"

definition mask_one :: "wc_AsconAEAD128 \<Rightarrow> u8 list \<Rightarrow> u8 list \<Rightarrow> wc_ret + u8 list" where
  "mask_one g snkey ct =
     wc_try (wc_AsconAEAD128_Init (Some g)) (\<lambda>a.
     wc_try (wc_AsconAEAD128_SetKey a (Some snkey)) (\<lambda>a.
     wc_try (wc_AsconAEAD128_Mask a (Some ct) PTR) Inr))"

section \<open>The nonce\<close>

lemma foldl_update_range:
  assumes "off + k \<le> length xs"
  shows "foldl (\<lambda>ys i. ys[off + i := ys ! (off + i) XOR f i]) xs [0..<k]
    = take off xs @ map (\<lambda>i. xs ! (off + i) XOR f i) [0..<k] @ drop (off + k) (xs :: u8 list)"
  using assms
proof (induction k)
  case 0
  then show ?case by simp
next
  case (Suc k)
  let ?ys = "take off xs @ map (\<lambda>i. xs ! (off + i) XOR f i) [0..<k] @ drop (off + k) xs"
  have d: "drop (off + k) xs = xs ! (off + k) # drop (off + Suc k) xs"
    using Suc.prems by (simp add: Cons_nth_drop_Suc)
  have "foldl (\<lambda>ys i. ys[off + i := ys ! (off + i) XOR f i]) xs [0..<Suc k]
      = ?ys[off + k := ?ys ! (off + k) XOR f k]"
    using Suc by simp
  also have "\<dots> = take off xs @ map (\<lambda>i. xs ! (off + i) XOR f i) [0..<Suc k] @ drop (off + Suc k) xs"
    using Suc.prems by (simp add: d list_update_append nth_append del: drop_Suc)
  finally show ?case .
qed

lemma build_nonce_eq:
  assumes "length iv = 16"
  shows "build_nonce iv seq = take 8 iv @ xor_bytes (drop 8 iv) (rev (bytes_of_u64 seq))"
proof -
  have "build_nonce iv seq = take 8 iv @ map (\<lambda>i. iv ! (8 + i) XOR ucast (drop_bit (8 * (7 - i)) seq)) [0..<8]"
    using foldl_update_range [of 8 8 iv "\<lambda>i. ucast (drop_bit (8 * (7 - i)) seq)"] assms
    by (simp add: build_nonce_def)
  moreover have "xor_bytes (drop 8 iv) (rev (bytes_of_u64 seq))
      = map (\<lambda>i. iv ! (8 + i) XOR ucast (drop_bit (8 * (7 - i)) seq)) [0..<8]"
    using assms by (intro nth_equalityI) (simp_all add: xor_bytes_nth rev_nth nth_bytes_of_u64)
  ultimately show ?thesis by simp
qed

lemma build_nonce_length [simp]: "length iv = 16 \<Longrightarrow> length (build_nonce iv seq) = 16"
  by (simp add: build_nonce_eq)

lemma xor_bytes_right_inj:
  "length xs = length ys \<Longrightarrow> length xs = length zs \<Longrightarrow> xor_bytes xs ys = xor_bytes xs zs \<longleftrightarrow> ys = zs"
proof
  assume len: "length xs = length ys" "length xs = length zs" and eq: "xor_bytes xs ys = xor_bytes xs zs"
  have "ys ! i = zs ! i" if "i < length xs" for i
  proof -
    have "xs ! i XOR ys ! i = xs ! i XOR zs ! i" using arg_cong [OF eq, of "\<lambda>l. l ! i"] that len
      by (simp add: xor_bytes_nth)
    then show ?thesis by (metis xor_cancel_left)
  qed
  with len show "ys = zs" by (intro nth_equalityI) simp_all
qed simp

lemma bytes_of_u64_inj: "bytes_of_u64 a = bytes_of_u64 b \<longleftrightarrow> a = b"
  by (metis u64_of_bytes_of_u64)

lemma build_nonce_inj:
  assumes "length iv = 16"
  shows "build_nonce iv seq = build_nonce iv seq' \<longleftrightarrow> seq = seq'"
  using assms by (simp add: build_nonce_eq xor_bytes_right_inj bytes_of_u64_inj)

section \<open>The test cases\<close>

lemma wc_try_Inr: "wc_try r f = Inr x \<longleftrightarrow> (\<exists>y. r = (WC_OK, y) \<and> f y = Inr x)"
  by (cases r) (auto simp: wc_try_def)

lemma case_try_congr:
  assumes "aead_setup M g key nonce ad = Inr a"
  shows "case_try (wc_AsconAEAD128_Init (Some g)) (\<lambda>a.
      case_try (wc_AsconAEAD128_SetKey a (Some key)) (\<lambda>a.
      case_try (wc_AsconAEAD128_SetNonce a (Some nonce)) (\<lambda>a.
      case_try (wc_AsconAEAD128_SetAD M a (Some ad) (length ad)) f))) = f a"
  using assms by (simp add: aead_setup_def wc_try_def case_try_def split: if_splits)

lemma case_try_ok: "case_try (WC_OK, x) f = f x"
  by (simp add: case_try_def)

lemma case_store_ok: "case_store n (WC_OK, a, out) f = (if length out \<le> n then f (a, out) else None)"
  by (simp add: case_store_def case_try_ok)

text \<open>The case succeeds up to the size of its buffers, and beyond it is undefined.\<close>

lemma run_case_seal:
  assumes "misc_ok M" and "length key = 16" and "length iv = 16"
  shows "run_case M ForceZero g key iv seq aad pt
    = (if length pt \<le> 64 then Some (Inr (Some (aead_seal key (build_nonce iv seq) aad pt))) else None)"
proof -
  let ?nonce = "build_nonce iv seq"
  have n: "length ?nonce = 16" using assms(3) by simp
  obtain ct tag where seal: "aead_seal key ?nonce aad pt = (ct, tag)" by fastforce
  have "encrypt_calls M g key ?nonce aad [pt] = Inr (ct, tag)"
    using encrypt_calls_seal [OF assms(1,2) n, of "[pt]" g aad] seal by simp
  then obtain a b c where setup1: "aead_setup M g key ?nonce aad = Inr a"
    and upd: "wc_AsconAEAD128_EncryptUpdate M a (Some pt) (length pt) = (WC_OK, b, ct)"
    and fin: "wc_AsconAEAD128_EncryptFinal b PTR = (WC_OK, c, tag)"
    by (auto simp: encrypt_calls_def wc_try_Inr split: sum.splits)
  obtain c' where c: "c = Some c'" using fin
    by (auto simp: wc_AsconAEAD128_EncryptFinal_def Let_def split: option.splits if_splits)
  have len: "length ct = length pt" "length tag = 16" using aead_seal_length [OF seal] by simp_all
  moreover have "aead_open key ?nonce aad ct tag = Some pt" using seal by (simp add: aead_open_seal)
  ultimately have "decrypt_calls M (ForceZero c') key ?nonce aad [ct] tag = Inr pt"
    using decrypt_calls_open [OF assms(1,2) n, of tag "[ct]" "ForceZero c'" aad] by simp
  then obtain d e f where setup2: "aead_setup M (ForceZero c') key ?nonce aad = Inr d"
    and dec: "wc_AsconAEAD128_DecryptUpdate M d (Some ct) (length ct) = (WC_OK, e, pt)"
    and dfin: "wc_AsconAEAD128_DecryptFinal M e (Some tag) = (WC_OK, f)"
    by (auto simp: decrypt_calls_def wc_try_Inr split: sum.splits)
  show ?thesis
    using upd fin dec dfin len
    by (simp add: run_case_def Let_def case_try_congr [OF setup1] c wc_AsconAEAD128_Clear_def
        case_try_congr [OF setup2] seal case_store_ok case_try_ok CASE_BUF_SZ_def)
qed

lemma mask_one_derive:
  assumes "length snkey = 16" and "length ct = 16"
  shows "mask_one g snkey ct = Inr (snd (mask_prf_derive (Some snkey) (Some ct) PTR MASK_PRF_DOMSEP_RNDIMSK))"
proof -
  have "bytes_of_u64 (u64_of_bytes (read_at 0 8 snkey)) @ bytes_of_u64 (u64_of_bytes (read_at 8 8 snkey)) = snkey"
    using assms(1) take_add [of 8 8 snkey]
    by (simp add: bytes_of_u64_of_bytes) (simp add: read_at_def)
  then show ?thesis
    by (simp add: mask_one_def wc_AsconAEAD128_Init_def wc_AsconAEAD128_SetKey_def zero_aead_def
        wc_AsconAEAD128_Mask_def mask_prf_domsep_table_def mask_prf_derive_def Let_def)
qed

end
