(* ===== verification/Kats.thy ===== *)
theory Kats
  imports Kat_Perms Record_Kat Ossl_Provider_Correct
begin

text \<open>
  Known answers: the specification evaluated on the vectors the repository quotes, and on a
  record with 16 bytes of associated data, where the two stacks differ.
\<close>

section \<open>Short messages by words\<close>

lemma bytes_of_u64_1: "bytes_of_u64 1 = [1, 0, 0, 0, 0, 0, 0, 0]"
  by (simp add: bytes_of_u64_def upt_rec)

lemma xor_s8_first: "xor_s8 s 0 1 = s\<lparr>s64_0 := s64_0 s XOR 1\<rparr>"
proof -
  have "bytes_of_u64 (w XOR 1) = (bytes_of_u64 w)[0 := bytes_of_u64 w ! 0 XOR 1]" for w
    unfolding bytes_of_u64_xor bytes_of_u64_1
    by (rule nth_equalityI) (auto simp: xor_bytes_nth nth_list_update nth_Cons')
  then have "s8 (s\<lparr>s64_0 := s64_0 s XOR 1\<rparr>) = (s8 s)[0 := s8 s ! 0 XOR 1]"
    by (simp add: s8_def list_update_append nth_append)
  then show ?thesis by (simp add: xor_s8_def flip: s8_eq_iff)
qed

lemma pad_first: "pad (s, 0) = s\<lparr>s64_0 := s64_0 s XOR 1\<rparr>"
  by (simp add: pad_def xor_s8_first)

definition padded :: "u8 list \<Rightarrow> u8 list" where
  "padded d = (d @ replicate (16 - length d) 0)[length d := 1]"

lemma run_short:
  assumes "length d < 16"
  shows "dx_run keep_xor 16 perm8 (s, 0) d = ((xor_bytes_loop s 0 d (length d), length d), xor_bytes (s8 s) d)"
  using xor_bytes_chunk [OF aead_dx.duplex_axioms, where pos = 0 and n = "length d" and d = d and s = s and P = perm8]
    assms by (simp add: Let_def)

lemma pad_short: "length d < 16 \<Longrightarrow> pad (xor_bytes_loop s 0 d (length d), length d) = xor_words s (padded d)"
  using xor_padded [of "length d" d s] by (simp add: padded_def)

lemma absorb_ad_short:
  assumes "length ad < 16" and "ad \<noteq> []"
  shows "aead_absorb_ad s ad = domain_bit (perm8 (xor_words s (padded ad)))"
  using assms by (simp add: aead_absorb_ad_def run_short pad_short domain_bit_def Let_def)

lemma absorb_ad_block:
  assumes "length ad = 16"
  shows "aead_absorb_ad s ad = domain_bit (perm8 (pad (perm8 (xor_words s ad), 0)))"
    and "ossl_absorb_ad s ad = domain_bit (perm8 (xor_words s ad))"
  using assms xor_words_block [of ad s]
  by (auto simp: aead_absorb_ad_def ossl_absorb_ad_def domain_bit_def Let_def)

lemma tag_short:
  assumes "length pt < 16"
  shows "aead_tag k0 k1 (xor_bytes_loop s 0 pt (length pt), length pt) = (let
     s = xor_words s (padded pt);
     s = perm12 (s\<lparr>s64_2 := s64_2 s XOR k0, s64_3 := s64_3 s XOR k1\<rparr>)
   in bytes_of_u64 (s64_3 s XOR k0) @ bytes_of_u64 (s64_4 s XOR k1))"
  using assms by (simp add: aead_tag_def aead_close_def pad_short read_s8_word Let_def)

lemma aead_tag_empty: "aead_tag k0 k1 (s, 0) = (let
     s = pad (s, 0);
     s = perm12 (s\<lparr>s64_2 := s64_2 s XOR k0, s64_3 := s64_3 s XOR k1\<rparr>)
   in bytes_of_u64 (s64_3 s XOR k0) @ bytes_of_u64 (s64_4 s XOR k1))"
  by (simp add: aead_tag_def aead_close_def read_s8_word Let_def)

section \<open>The answers\<close>

lemmas bytes_eval = bytes_of_u64_def upt_rec u64_of_bytes_def

lemma hash_spec_empty: "hash_spec [] =
  [0x0b, 0x3b, 0xe5, 0x85, 0x0f, 0x2f, 0x6b, 0x98, 0xca, 0xf2, 0x9f, 0x8f, 0xde, 0xa8, 0x9b, 0x64,
   0xa1, 0xfa, 0x70, 0xaa, 0x24, 0x9b, 0x8f, 0x83, 0x9b, 0xd5, 0x3b, 0xaa, 0x30, 0x4d, 0x92, 0xb2]"
proof -
  have i: "hash_init_state = perm12 \<lparr>s64_0 = 0x80100CC0002, s64_1 = 0, s64_2 = 0, s64_3 = 0, s64_4 = 0\<rparr>"
    by (simp add: hash_init_state_def zero_state_def ASCON_HASH256_IV_def)
  have "take 8 (s8 s) = bytes_of_u64 (s64_0 s)" for s by (simp add: s8_def)
  then have "hash_spec [] = (let s0 = pad (hash_init_state, 0); s1 = perm12 s0; s2 = perm12 s1; s3 = perm12 s2;
      s4 = perm12 s3 in bytes_of_u64 (s64_0 s1) @ bytes_of_u64 (s64_0 s2) @ bytes_of_u64 (s64_0 s3) @
        bytes_of_u64 (s64_0 s4))"
    by (simp add: hash_spec_def numeral_eq_Suc Let_def)
  then show ?thesis
    by (simp add: i kat_perms pad_first Let_def bytes_eval)
qed

text \<open>Key, nonce and record of case A of \<open>tools/ascon_record_kat.c\<close>.\<close>

definition kat_key :: "u8 list" where
  "kat_key = [0x00, 0x01, 0x02, 0x03, 0x04, 0x05, 0x06, 0x07, 0x08, 0x09, 0x0a, 0x0b, 0x0c, 0x0d, 0x0e, 0x0f]"

definition kat_iv :: "u8 list" where
  "kat_iv = [0x10, 0x11, 0x12, 0x13, 0x14, 0x15, 0x16, 0x17, 0x18, 0x19, 0x1a, 0x1b, 0x1c, 0x1d, 0x1e, 0x1f]"

definition kat_aad :: "u8 list" where
  "kat_aad = [0x17, 0xfe, 0xfd, 0, 0, 0, 0, 0, 0, 0, 0, 0, 0]"

definition kat_pt :: "u8 list" where
  "kat_pt = [0x61, 0x73, 0x63, 0x6f, 0x6e, 0x2d, 0x64, 0x74, 0x6c, 0x73, 0x20, 0x6d, 0x73, 0x67]"

lemma kat_key_words: "key_words kat_key = (0x0706050403020100, 0x0f0e0d0c0b0a0908)"
  by (simp add: key_words_def kat_key_def read_at_def u64_of_bytes_def)

lemma kat_start: "aead_start 0x0706050403020100 0x0f0e0d0c0b0a0908 kat_iv =
   (let s = perm12 \<lparr>s64_0 = 0x1000808c0001, s64_1 = 0x706050403020100, s64_2 = 0xf0e0d0c0b0a0908,
      s64_3 = 0x1716151413121110, s64_4 = 0x1f1e1d1c1b1a1918\<rparr>
    in s\<lparr>s64_3 := s64_3 s XOR 0x0706050403020100, s64_4 := s64_4 s XOR 0x0f0e0d0c0b0a0908\<rparr>)"
  by (simp add: aead_start_def kat_iv_def u64_of_bytes_def ASCON_AEAD128_IV_def)

lemma kat_nonce: "build_nonce kat_iv 0 = kat_iv"
proof -
  have "bytes_of_u64 0 = replicate 8 0" by (rule nth_equalityI) (simp_all add: nth_bytes_of_u64)
  then show ?thesis
    by (simp add: build_nonce_eq kat_iv_def numeral_eq_Suc xor_bytes_def)
qed

lemma xor_words_eval: "xor_words s p = s\<lparr>s64_0 := s64_0 s XOR u64_of_bytes (take 8 p),
    s64_1 := s64_1 s XOR u64_of_bytes (take 8 (drop 8 p))\<rparr>"
  by (simp add: xor_words_def read_at_def Let_def)

lemma kat_record: "aead_seal kat_key kat_iv kat_aad kat_pt =
  ([0x8e, 0x83, 0xf5, 0xa2, 0x55, 0x47, 0xb4, 0x95, 0x96, 0x7f, 0xe5, 0xcf, 0x6e, 0xdc],
   [0xbc, 0x14, 0xa3, 0xaf, 0x8b, 0x1d, 0x92, 0xa7, 0x9a, 0x4d, 0x72, 0x2d, 0x6c, 0xf6, 0xbf, 0xe7])"
proof -
  have aad: "padded kat_aad = [0x17, 0xfe, 0xfd, 0, 0, 0, 0, 0, 0, 0, 0, 0, 0, 1, 0, 0]"
    by (simp add: padded_def kat_aad_def numeral_eq_Suc)
  have pt: "padded kat_pt = [0x61, 0x73, 0x63, 0x6f, 0x6e, 0x2d, 0x64, 0x74, 0x6c, 0x73, 0x20, 0x6d, 0x73, 0x67, 1, 0]"
    by (simp add: padded_def kat_pt_def numeral_eq_Suc)
  have len: "length kat_aad < 16" "kat_aad \<noteq> []" "length kat_pt < 16" by (simp_all add: kat_aad_def kat_pt_def)
  let ?r = "\<lparr>s64_0 = 0xe1d06a3bcd96f0ef, s64_1 = 0x7fa0bb1da2c50cfa, s64_2 = 0xe6bc30e25a54a530, s64_3 = 0x15d902fbbfb3ae24, s64_4 = 0x3f41e7389777ba3a\<rparr>"
  have ready: "aead_ready kat_key kat_iv kat_aad = ?r"
    using len by (simp add: aead_ready_def kat_key_words absorb_ad_short kat_start kat_perms aad xor_words_eval
        u64_of_bytes_def domain_bit_def Let_def)
  have tag: "aead_tag 0x0706050403020100 0x0f0e0d0c0b0a0908 (xor_bytes_loop ?r 0 kat_pt (length kat_pt), length kat_pt)
      = [0xbc, 0x14, 0xa3, 0xaf, 0x8b, 0x1d, 0x92, 0xa7, 0x9a, 0x4d, 0x72, 0x2d, 0x6c, 0xf6, 0xbf, 0xe7]"
    using len by (simp add: tag_short pt xor_words_eval u64_of_bytes_def kat_perms bytes_eval Let_def)
  have ct: "xor_bytes (s8 ?r) kat_pt
      = [0x8e, 0x83, 0xf5, 0xa2, 0x55, 0x47, 0xb4, 0x95, 0x96, 0x7f, 0xe5, 0xcf, 0x6e, 0xdc]"
    by (simp add: s8_def bytes_eval kat_pt_def)
  show ?thesis
    using len tag ct by (simp add: aead_seal_def kat_key_words ready run_short)
qed

text \<open>Case B: sequence number 1, a longer header, two whole blocks of plaintext.\<close>

definition aadFull :: "u8 list" where
  "aadFull = [0x17, 0xfe, 0xfd, 0, 1, 0x12, 0x34, 0x56, 0x78, 0x9a, 0xbc, 0xde, 0xf0]"

definition record_pt2 :: "u8 list" where "record_pt2 = map of_nat [0..<32]"

lemma kat_nonce_second: "build_nonce kat_iv 1 =
  [0x10, 0x11, 0x12, 0x13, 0x14, 0x15, 0x16, 0x17, 0x18, 0x19, 0x1a, 0x1b, 0x1c, 0x1d, 0x1e, 0x1e]"
  by (simp add: build_nonce_eq kat_iv_def bytes_of_u64_1)

lemma run_two_blocks:
  assumes "length d1 = 16" and "length d2 = 16"
  shows "dx_run keep_xor 16 perm8 (s, 0) (d1 @ d2)
    = (let x = xor_words s d1; y = xor_words (perm8 x) d2 in ((perm8 y, 0),
        (bytes_of_u64 (s64_0 x) @ bytes_of_u64 (s64_1 x)) @ bytes_of_u64 (s64_0 y) @ bytes_of_u64 (s64_1 y)))"
  using xor_words_block [of d1 s] xor_words_block [of d2 "perm8 (xor_words s d1)"] assms
  by (simp add: aead_dx.run_append Let_def)

lemma kat_record_second: "aead_seal kat_key (build_nonce kat_iv 1) aadFull record_pt2 =
  ([0xec, 0x55, 0xfa, 0x4c, 0x5b, 0x6e, 0x24, 0x6d, 0xba, 0xb0, 0xe3, 0xb3, 0xc9, 0x89, 0xcd, 0x8b,
    0x09, 0x46, 0x43, 0x4b, 0x27, 0xae, 0xdf, 0x80, 0x71, 0x7f, 0x42, 0xca, 0xa5, 0xa4, 0x71, 0xce],
   [0x90, 0x6a, 0x00, 0x21, 0xbb, 0x26, 0xb2, 0xda, 0x26, 0x89, 0xc2, 0xde, 0x2c, 0x84, 0x74, 0xa8])"
proof -
  let ?n = "[0x10, 0x11, 0x12, 0x13, 0x14, 0x15, 0x16, 0x17, 0x18, 0x19, 0x1a, 0x1b, 0x1c, 0x1d, 0x1e, 0x1e] :: u8 list"
  let ?d1 = "[0, 1, 2, 3, 4, 5, 6, 7, 8, 9, 10, 11, 12, 13, 14, 15] :: u8 list"
  let ?d2 = "[16, 17, 18, 19, 20, 21, 22, 23, 24, 25, 26, 27, 28, 29, 30, 31] :: u8 list"
  let ?r = "\<lparr>s64_0 = 0x6a226b5f4ff854ec, s64_1 = 0x84c384c5b8e9b9b2, s64_2 = 0xaece42003d4dfe0f, s64_3 = 0x88bde2ecb3251218, s64_4 = 0x776edbfcc5dfed6e\<rparr>"
  let ?x = "\<lparr>s64_0 = 0x6d246e5b4cfa55ec, s64_1 = 0x8bcd89c9b3e3b0ba, s64_2 = 0xaece42003d4dfe0f, s64_3 = 0x88bde2ecb3251218, s64_4 = 0x776edbfcc5dfed6e\<rparr>"
  let ?y = "\<lparr>s64_0 = 0x80dfae274b434609, s64_1 = 0xce71a4a5ca427f71, s64_2 = 0x2c7344bc6338fc3b, s64_3 = 0xb77d026f4fb706e1, s64_4 = 0x6302ec4436fa7ade\<rparr>"
  have start: "aead_start 0x0706050403020100 0x0f0e0d0c0b0a0908 ?n =
   (let s = perm12 \<lparr>s64_0 = 0x1000808c0001, s64_1 = 0x706050403020100, s64_2 = 0xf0e0d0c0b0a0908,
      s64_3 = 0x1716151413121110, s64_4 = 0x1e1e1d1c1b1a1918\<rparr>
    in s\<lparr>s64_3 := s64_3 s XOR 0x0706050403020100, s64_4 := s64_4 s XOR 0x0f0e0d0c0b0a0908\<rparr>)"
    by (simp add: aead_start_def u64_of_bytes_def ASCON_AEAD128_IV_def)
  have aad: "padded aadFull = [0x17, 0xfe, 0xfd, 0, 1, 0x12, 0x34, 0x56, 0x78, 0x9a, 0xbc, 0xde, 0xf0, 1, 0, 0]"
    by (simp add: padded_def aadFull_def numeral_eq_Suc)
  have len: "length aadFull < 16" "aadFull \<noteq> []" by (simp_all add: aadFull_def)
  have ready: "aead_ready kat_key ?n aadFull = ?r"
    using len by (simp add: aead_ready_def kat_key_words absorb_ad_short start kat_perms aad xor_words_eval
        u64_of_bytes_def domain_bit_def Let_def)
  have pt: "record_pt2 = ?d1 @ ?d2" by (simp add: record_pt2_def upt_rec)
  have x: "xor_words ?r ?d1 = ?x" and y: "xor_words (perm8 ?x) ?d2 = ?y"
    by (simp_all add: xor_words_eval u64_of_bytes_def kat_perms)
  have len2: "length ?d1 = 16" "length ?d2 = 16" by simp_all
  have run: "dx_run keep_xor 16 perm8 (?r, 0) record_pt2 = ((perm8 ?y, 0),
      (bytes_of_u64 (s64_0 ?x) @ bytes_of_u64 (s64_1 ?x)) @ bytes_of_u64 (s64_0 ?y) @ bytes_of_u64 (s64_1 ?y))"
    by (simp only: pt run_two_blocks [OF len2] Let_def x y)
  have tag: "aead_tag 0x0706050403020100 0x0f0e0d0c0b0a0908 (perm8 ?y, 0)
      = [0x90, 0x6a, 0x00, 0x21, 0xbb, 0x26, 0xb2, 0xda, 0x26, 0x89, 0xc2, 0xde, 0x2c, 0x84, 0x74, 0xa8]"
    by (simp add: aead_tag_empty pad_first kat_perms bytes_eval Let_def)
  have ct: "(bytes_of_u64 (s64_0 ?x) @ bytes_of_u64 (s64_1 ?x)) @ bytes_of_u64 (s64_0 ?y) @ bytes_of_u64 (s64_1 ?y)
    = [0xec, 0x55, 0xfa, 0x4c, 0x5b, 0x6e, 0x24, 0x6d, 0xba, 0xb0, 0xe3, 0xb3, 0xc9, 0x89, 0xcd, 0x8b,
       0x09, 0x46, 0x43, 0x4b, 0x27, 0xae, 0xdf, 0x80, 0x71, 0x7f, 0x42, 0xca, 0xa5, 0xa4, 0x71, 0xce]"
    by (simp add: bytes_eval)
  show ?thesis
    by (simp only: aead_seal_def kat_key_words kat_nonce_second ready run tag ct prod.case)
qed

text \<open>A provider context that holds the key.\<close>

definition keyed_ctx :: ASCON_AEAD128_CTX where
  "keyed_ctx = zero_ctx\<lparr>okey0 := fst (key_words kat_key), okey1 := snd (key_words kat_key)\<rparr>"

lemma keyed_ctx_keys: "(okey0 keyed_ctx, okey1 keyed_ctx) = key_words kat_key"
  by (simp add: keyed_ctx_def)

lemma length_kat: "length kat_key = 16" "length kat_iv = 16"
  by (simp_all add: kat_key_def kat_iv_def)

text \<open>The key as associated data, one whole block, and no plaintext.\<close>

lemma kat_whole_block:
  "aead_seal kat_key kat_iv kat_key [] =
    ([], [0x56, 0xfd, 0x0f, 0xad, 0xfc, 0x37, 0x51, 0xe9, 0x8f, 0xc2, 0xa1, 0x3e, 0xe4, 0x9f, 0x3b, 0xae])"
  "ossl_seal kat_key kat_iv kat_key [] =
    ([], [0xae, 0x75, 0xb0, 0x3a, 0xbf, 0xa1, 0x13, 0x87, 0xa7, 0x97, 0xb2, 0xb6, 0x43, 0x16, 0x27, 0x64])"
proof -
  let ?r = "\<lparr>s64_0 = 0xc7769e59ed777b42, s64_1 = 0x4d1c1105ebc7fc8d, s64_2 = 0xff3cbb99acf72ef2, s64_3 = 0x5918ffc1d8893ac5, s64_4 = 0x87b4f24b0cb5a627\<rparr>"
  let ?o = "\<lparr>s64_0 = 0xa7471d2c6c018fbd, s64_1 = 0xf0f09e3b8522991a, s64_2 = 0xc76d36a0dac51fa, s64_3 = 0xe308c4c2aa361b56, s64_4 = 0x71997ec3b2f8ddc0\<rparr>"
  have len: "length kat_key = 16" by (simp add: kat_key_def)
  have ad: "xor_words s kat_key = s\<lparr>s64_0 := s64_0 s XOR 0x0706050403020100, s64_1 := s64_1 s XOR 0x0f0e0d0c0b0a0908\<rparr>" for s
    by (simp add: xor_words_eval kat_key_def u64_of_bytes_def)
  have ready: "aead_ready kat_key kat_iv kat_key = ?r"
    using len by (simp add: aead_ready_def kat_key_words absorb_ad_block kat_start kat_perms ad pad_first domain_bit_def Let_def)
  have ready': "ossl_ready kat_key kat_iv kat_key = ?o"
    using len by (simp add: ossl_ready_def kat_key_words absorb_ad_block kat_start kat_perms ad domain_bit_def Let_def)
  show "aead_seal kat_key kat_iv kat_key [] =
    ([], [0x56, 0xfd, 0x0f, 0xad, 0xfc, 0x37, 0x51, 0xe9, 0x8f, 0xc2, 0xa1, 0x3e, 0xe4, 0x9f, 0x3b, 0xae])"
    by (simp add: aead_seal_def kat_key_words ready aead_tag_empty pad_first kat_perms bytes_eval Let_def)
  show "ossl_seal kat_key kat_iv kat_key [] =
    ([], [0xae, 0x75, 0xb0, 0x3a, 0xbf, 0xa1, 0x13, 0x87, 0xa7, 0x97, 0xb2, 0xb6, 0x43, 0x16, 0x27, 0x64])"
    by (simp add: ossl_seal_def kat_key_words ready' aead_tag_empty pad_first kat_perms bytes_eval Let_def)
qed

end
