(* ===== verification/Hash_Words.thy ===== *)
theory Hash_Words
  imports Kats
begin

text \<open>
  Ascon-Hash256 by words: the specification \<open>hash_spec\<close>, one byte at a time, computed one
  64-bit block at a time, and its evaluation on lanes (\<open>Kat_Eval\<close>) for the vectors that
  the test programs quote.
\<close>

section \<open>Hashing by words\<close>

function hash_words :: "AsconState \<Rightarrow> u8 list \<Rightarrow> AsconState" where
  "hash_words s m =
     (if length m < 8 then s\<lparr>s64_0 := s64_0 s XOR u64_of_bytes (m @ [1])\<rparr>
      else hash_words (perm12 (s\<lparr>s64_0 := s64_0 s XOR u64_of_bytes (take 8 m)\<rparr>)) (drop 8 m))"
  by pat_completeness auto
termination
  by (relation "measure (\<lambda>(s, m). length m)") auto

declare hash_words.simps [simp del]

definition digest_words :: "AsconState \<Rightarrow> u8 list" where
  "digest_words s = (let s1 = perm12 s; s2 = perm12 s1; s3 = perm12 s2; s4 = perm12 s3
     in bytes_of_u64 (s64_0 s1) @ bytes_of_u64 (s64_0 s2) @ bytes_of_u64 (s64_0 s3) @ bytes_of_u64 (s64_0 s4))"

lemma xor_block_word:
  assumes "length d = 8"
  shows "xor_bytes_loop s 0 d 8 = s\<lparr>s64_0 := s64_0 s XOR u64_of_bytes d\<rparr>"
proof -
  have "bytes_of_u64 (s64_0 s XOR u64_of_bytes d) = map2 keep_xor (bytes_of_u64 (s64_0 s)) d"
    using assms by (simp add: bytes_of_u64_xor bytes_of_u64_of_bytes flip: xor_bytes_keep_xor)
  then have "s8 (s\<lparr>s64_0 := s64_0 s XOR u64_of_bytes d\<rparr>) = write_at 0 (map2 keep_xor (s8 s) (take 8 d)) (s8 s)"
    using assms xor_bytes_longer [of d "bytes_of_u64 (s64_0 s)"]
    by (simp add: s8_def write_at_def flip: xor_bytes_keep_xor)
  then show ?thesis using assms by (simp add: xor_bytes_loop_write flip: s8_eq_iff)
qed

lemma u64_of_bytes_zeros: "u64_of_bytes (d @ replicate k 0) = u64_of_bytes d"
  by (rule bit_word_eqI) (auto simp: bit_u64_of_bytes nth_append)

lemma hash_chunk:
  assumes "n \<le> 8" and "n \<le> length d"
  shows "fst (dx_run keep_xor 8 perm12 (s, 0) (take n d)) =
    (let s' = xor_bytes_loop s 0 d n in if n = 8 then (perm12 s', 0) else (s', n))"
  using xor_bytes_chunk [OF hash_dx.duplex_axioms, where pos = 0 and n = n and d = d and s = s and P = perm12] assms
  by (simp add: Let_def)

lemma hash_words_run: "pad (fst (dx_run keep_xor 8 perm12 (s, 0) m)) = hash_words s m"
proof (induction s m rule: hash_words.induct)
  case (1 s m)
  show ?case
  proof (cases "length m < 8")
    case True
    have "take 8 (padded m) = (m @ [1]) @ replicate (7 - length m) 0"
      and "take 8 (drop 8 (padded m)) = [] @ replicate 8 0"
      using True by (auto simp: padded_def list_update_append nth_list_update nth_append intro!: nth_equalityI)
    then have "xor_words s (padded m) = s\<lparr>s64_0 := s64_0 s XOR u64_of_bytes (m @ [1])\<rparr>"
      using u64_of_bytes_zeros by (simp only: xor_words_eval) (simp add: u64_of_bytes_def)
    then show ?thesis
      using True pad_short [of m s] hash_chunk [of "length m" m s]
      by (simp add: hash_words.simps Let_def)
  next
    case False
    have "fst (dx_run keep_xor 8 perm12 (s, 0) (take 8 m)) = (perm12 (s\<lparr>s64_0 := s64_0 s XOR u64_of_bytes (take 8 m)\<rparr>), 0)"
      using hash_chunk [of 8 "take 8 m" s] False by (simp add: xor_block_word)
    with False 1 show ?thesis
      using hash_dx.run_append [of "(s, 0)" "take 8 m" "drop 8 m"]
      by (simp add: hash_words.simps [of s m] case_prod_unfold Let_def)
  qed
qed

lemma hash_spec_words: "hash_spec m = digest_words (hash_words hash_init_state m)"
proof -
  have "take 8 (s8 s) = bytes_of_u64 (s64_0 s)" for s by (simp add: s8_def)
  then show ?thesis
    unfolding hash_spec_def hash_words_run by (simp add: digest_words_def numeral_eq_Suc Let_def)
qed

section \<open>Digests on lanes\<close>

fun lane_bytes :: "lane \<Rightarrow> u8 list" where
  "lane_bytes (Lane a0 a1 a2 a3 a4 a5 a6 a7 a8 a9 a10 a11 a12 a13 a14 a15) =
     [ucast a0 + 16 * ucast a1, ucast a2 + 16 * ucast a3, ucast a4 + 16 * ucast a5, ucast a6 + 16 * ucast a7,
      ucast a8 + 16 * ucast a9, ucast a10 + 16 * ucast a11, ucast a12 + 16 * ucast a13, ucast a14 + 16 * ucast a15]"

lemma digit_pair: "(ucast a + 16 * ucast b :: u8) = ucast a OR push_bit 4 (ucast b)" for a b :: nib
proof -
  have "ucast a OR push_bit 4 (ucast b) = (ucast a + push_bit 4 (ucast b) :: u8)"
    by (rule disjunctive_add [symmetric]) (auto simp: bit_simps dest: bit_imp_le_length)
  then show ?thesis by (simp add: push_bit_eq_mult)
qed

lemma bytes_of_word_of: "bytes_of_u64 (word_of l) = lane_bytes l"
proof (rule nth_equalityI)
  show "length (bytes_of_u64 (word_of l)) = length (lane_bytes l)" by (cases l) simp
  fix i
  assume "i < length (bytes_of_u64 (word_of l))"
  then have i: "i < 8" by simp
  have pair: "lane_bytes l ! i = ucast (nibs l ! (2 * i)) OR push_bit 4 (ucast (nibs l ! (2 * i + 1)))"
    using i by (cases l) (auto simp: digit_pair less_Suc_eq numeral_eq_Suc)
  show "bytes_of_u64 (word_of l) ! i = lane_bytes l ! i"
    unfolding pair
  proof (rule bit_word_eqI)
    fix n
    assume "n < LENGTH(8)"
    then have n: "n < 8" by simp
    show "bit (bytes_of_u64 (word_of l) ! i) n
      = bit (ucast (nibs l ! (2 * i)) OR push_bit 4 (ucast (nibs l ! (2 * i + 1))) :: u8) n"
    proof (cases "n < 4")
      case True
      then have "(8 * i + n) div 4 = 2 * i" "(8 * i + n) mod 4 = n" by presburger+
      then show ?thesis using i n True by (auto simp: nth_bytes_of_u64 bit_simps bit_word_of)
    next
      case False
      then have "(8 * i + n) div 4 = 2 * i + 1" "(8 * i + n) mod 4 = n - 4" using n by presburger+
      moreover have "\<not> bit (nibs l ! (2 * i)) n" using False by (auto dest: bit_imp_le_length)
      ultimately show ?thesis using i n False by (auto simp: nth_bytes_of_u64 bit_simps bit_word_of)
    qed
  qed
qed

lemma eval_digest:
  assumes "lanes_perm12 s = t1" and "lanes_perm12 t1 = t2" and "lanes_perm12 t2 = t3" and "lanes_perm12 t3 = t4"
  shows "digest_words (state_of s) = lane_bytes (fst t1) @ lane_bytes (fst t2) @ lane_bytes (fst t3) @ lane_bytes (fst t4)"
proof -
  have first: "bytes_of_u64 (s64_0 (state_of t)) = lane_bytes (fst t)" for t
    by (cases t) (simp add: bytes_of_word_of)
  show ?thesis
    by (simp add: digest_words_def Let_def assms first flip: state_of_perm(2))
qed

end
