(* ===== verification/Hash_Answers.thy ===== *)
theory Hash_Answers
  imports Hash_Words
begin

text \<open>
  Digests of the messages \<open>0, 1, ..., i - 1\<close> for \<open>i\<close> below 32: the table of
  \<open>tools/ascon_hash_kat2.c\<close>, evaluated on lanes. The states after whole blocks are shared.
\<close>

section \<open>States after whole blocks\<close>

definition hash_state_0 :: lanes where
  "hash_state_0 =
    (Lane 1 8 6 13 4 3 9 14 4 9 4 5 14 1 11 9,
     Lane 2 13 1 5 7 3 3 3 14 1 0 10 3 12 11 4,
     Lane 10 1 8 11 4 3 11 6 12 6 9 3 5 6 14 10,
     Lane 3 11 13 4 10 6 5 13 4 10 4 13 15 7 12 3,
     Lane 13 6 7 9 5 12 6 0 9 4 6 4 12 5 10 1)"

definition hash_state_1 :: lanes where
  "hash_state_1 =
    (Lane 7 3 15 14 15 8 1 15 3 13 15 2 7 1 13 15,
     Lane 8 2 14 0 2 12 15 14 9 5 0 3 6 8 12 11,
     Lane 8 6 2 13 2 12 13 3 8 11 15 3 13 0 4 8,
     Lane 11 11 8 11 6 13 13 6 5 12 2 8 2 2 11 1,
     Lane 12 3 3 5 6 13 14 13 2 14 12 6 4 14 15 5)"

definition hash_state_2 :: lanes where
  "hash_state_2 =
    (Lane 1 2 1 5 1 5 1 15 13 15 9 7 6 10 9 7,
     Lane 9 2 1 12 3 14 10 3 4 12 11 15 10 0 5 11,
     Lane 7 6 9 13 7 0 1 5 14 10 4 12 13 15 7 9,
     Lane 2 14 9 12 9 10 5 7 11 7 11 15 7 7 6 5,
     Lane 2 9 1 10 7 3 10 0 1 12 13 15 13 3 2 5)"

definition hash_state_3 :: lanes where
  "hash_state_3 =
    (Lane 14 2 15 15 11 10 10 0 9 12 1 8 12 6 8 10,
     Lane 11 10 15 12 14 6 13 14 3 3 11 2 5 2 15 11,
     Lane 12 9 10 3 2 10 0 11 3 1 15 8 13 10 6 0,
     Lane 0 3 15 2 5 1 3 11 2 15 14 5 15 8 11 9,
     Lane 9 9 13 8 15 1 10 2 5 10 9 4 14 2 12 11)"

text \<open>A word is XORed into the first lane.\<close>

definition put_word :: "lanes \<Rightarrow> lane \<Rightarrow> lanes" where
  "put_word s w = (lane_xor (fst s) w, snd s)"

lemma state_of_put: "word_of w = x \<Longrightarrow> (state_of s)\<lparr>s64_0 := s64_0 (state_of s) XOR x\<rparr> = state_of (put_word s w)"
  by (cases s) (auto simp: put_word_def word_of_xor)

lemma eval_hash_state_0: "hash_init_state = state_of hash_state_0"
  unfolding hash_init_state_def hash_state_0_def
proof (rule eval_perm12)
  show "state_of (Lane 2 0 0 0 12 12 0 0 1 0 8 0 0 0 0 0, Lane 0 0 0 0 0 0 0 0 0 0 0 0 0 0 0 0, Lane 0 0 0 0 0 0 0 0 0 0 0 0 0 0 0 0, Lane 0 0 0 0 0 0 0 0 0 0 0 0 0 0 0 0, Lane 0 0 0 0 0 0 0 0 0 0 0 0 0 0 0 0) = zero_state\<lparr>s64_0 := ASCON_HASH256_IV\<rparr>"
    by (simp add: lane_value zero_state_def ASCON_HASH256_IV_def)
  show "lanes_perm12 (Lane 2 0 0 0 12 12 0 0 1 0 8 0 0 0 0 0, Lane 0 0 0 0 0 0 0 0 0 0 0 0 0 0 0 0, Lane 0 0 0 0 0 0 0 0 0 0 0 0 0 0 0 0, Lane 0 0 0 0 0 0 0 0 0 0 0 0 0 0 0 0, Lane 0 0 0 0 0 0 0 0 0 0 0 0 0 0 0 0)
    = (Lane 1 8 6 13 4 3 9 14 4 9 4 5 14 1 11 9, Lane 2 13 1 5 7 3 3 3 14 1 0 10 3 12 11 4, Lane 10 1 8 11 4 3 11 6 12 6 9 3 5 6 14 10, Lane 3 11 13 4 10 6 5 13 4 10 4 13 15 7 12 3, Lane 13 6 7 9 5 12 6 0 9 4 6 4 12 5 10 1)"
    by (simp only: lanes_eval)
qed simp

lemma eval_hash_state_1: "state_of hash_state_1 = perm12 (state_of (put_word hash_state_0 (Lane 0 0 1 0 2 0 3 0 4 0 5 0 6 0 7 0)))"
proof -
  have "lanes_perm12 (put_word hash_state_0 (Lane 0 0 1 0 2 0 3 0 4 0 5 0 6 0 7 0)) = hash_state_1"
    by (simp only: hash_state_0_def hash_state_1_def put_word_def lanes_eval)
  then show ?thesis by (simp flip: state_of_perm(2))
qed

lemma eval_hash_state_2: "state_of hash_state_2 = perm12 (state_of (put_word hash_state_1 (Lane 8 0 9 0 10 0 11 0 12 0 13 0 14 0 15 0)))"
proof -
  have "lanes_perm12 (put_word hash_state_1 (Lane 8 0 9 0 10 0 11 0 12 0 13 0 14 0 15 0)) = hash_state_2"
    by (simp only: hash_state_1_def hash_state_2_def put_word_def lanes_eval)
  then show ?thesis by (simp flip: state_of_perm(2))
qed

lemma eval_hash_state_3: "state_of hash_state_3 = perm12 (state_of (put_word hash_state_2 (Lane 0 1 1 1 2 1 3 1 4 1 5 1 6 1 7 1)))"
proof -
  have "lanes_perm12 (put_word hash_state_2 (Lane 0 1 1 1 2 1 3 1 4 1 5 1 6 1 7 1)) = hash_state_3"
    by (simp only: hash_state_2_def hash_state_3_def put_word_def lanes_eval)
  then show ?thesis by (simp flip: state_of_perm(2))
qed

section \<open>Digests\<close>

lemma digest_0: "digest_words (state_of (put_word hash_state_0 (Lane 1 0 0 0 0 0 0 0 0 0 0 0 0 0 0 0)))
    = [0x0b, 0x3b, 0xe5, 0x85, 0x0f, 0x2f, 0x6b, 0x98, 0xca, 0xf2, 0x9f, 0x8f, 0xde, 0xa8, 0x9b, 0x64, 0xa1, 0xfa, 0x70, 0xaa, 0x24, 0x9b, 0x8f, 0x83, 0x9b, 0xd5, 0x3b, 0xaa, 0x30, 0x4d, 0x92, 0xb2]"
proof -
  have t1: "lanes_perm12 (put_word hash_state_0 (Lane 1 0 0 0 0 0 0 0 0 0 0 0 0 0 0 0))
      = (Lane 11 0 11 3 5 14 5 8 15 0 15 2 11 6 8 9,
         Lane 5 10 11 8 9 13 2 7 0 14 7 15 6 8 3 2,
         Lane 0 0 15 13 1 7 5 0 9 4 0 15 2 10 5 0,
         Lane 2 6 13 13 5 3 10 8 11 9 8 3 4 6 15 1,
         Lane 6 0 7 14 12 9 9 13 2 15 9 7 7 9 12 12)"
    by (simp only: hash_state_0_def put_word_def lanes_eval)
  have t2: "lanes_perm12 (Lane 11 0 11 3 5 14 5 8 15 0 15 2 11 6 8 9, Lane 5 10 11 8 9 13 2 7 0 14 7 15 6 8 3 2, Lane 0 0 15 13 1 7 5 0 9 4 0 15 2 10 5 0, Lane 2 6 13 13 5 3 10 8 11 9 8 3 4 6 15 1, Lane 6 0 7 14 12 9 9 13 2 15 9 7 7 9 12 12)
      = (Lane 10 12 2 15 15 9 15 8 14 13 8 10 11 9 4 6,
         Lane 4 5 0 8 2 7 1 15 0 11 15 0 9 0 5 1,
         Lane 15 0 1 5 1 3 1 11 4 12 0 1 3 10 5 11,
         Lane 1 13 15 9 7 15 4 10 1 13 7 9 5 0 14 11,
         Lane 10 3 8 12 7 13 0 0 7 4 11 10 3 1 5 14)"
    by (simp only: hash_state_0_def put_word_def lanes_eval)
  have t3: "lanes_perm12 (Lane 10 12 2 15 15 9 15 8 14 13 8 10 11 9 4 6, Lane 4 5 0 8 2 7 1 15 0 11 15 0 9 0 5 1, Lane 15 0 1 5 1 3 1 11 4 12 0 1 3 10 5 11, Lane 1 13 15 9 7 15 4 10 1 13 7 9 5 0 14 11, Lane 10 3 8 12 7 13 0 0 7 4 11 10 3 1 5 14)
      = (Lane 1 10 10 15 0 7 10 10 4 2 11 9 15 8 3 8,
         Lane 8 7 11 13 5 1 10 6 14 1 13 14 4 13 15 8,
         Lane 6 0 1 8 13 5 8 10 10 14 5 4 9 11 14 15,
         Lane 12 9 11 6 15 12 15 7 8 8 6 4 7 12 14 2,
         Lane 7 11 8 4 15 7 11 0 11 0 5 8 2 0 15 12)"
    by (simp only: hash_state_0_def put_word_def lanes_eval)
  have t4: "lanes_perm12 (Lane 1 10 10 15 0 7 10 10 4 2 11 9 15 8 3 8, Lane 8 7 11 13 5 1 10 6 14 1 13 14 4 13 15 8, Lane 6 0 1 8 13 5 8 10 10 14 5 4 9 11 14 15, Lane 12 9 11 6 15 12 15 7 8 8 6 4 7 12 14 2, Lane 7 11 8 4 15 7 11 0 11 0 5 8 2 0 15 12)
      = (Lane 11 9 5 13 11 3 10 10 0 3 13 4 2 9 2 11,
         Lane 2 3 0 9 9 12 2 14 12 6 6 11 9 6 1 12,
         Lane 3 14 8 8 8 3 4 9 9 9 12 15 13 5 12 10,
         Lane 3 0 4 14 7 4 11 10 7 13 0 11 13 1 8 2,
         Lane 7 5 5 13 4 8 12 3 4 4 0 15 3 2 9 1)"
    by (simp only: hash_state_0_def put_word_def lanes_eval)
  show ?thesis unfolding eval_digest [OF t1 t2 t3 t4] by simp
qed

lemma digest_1: "digest_words (state_of (put_word hash_state_0 (Lane 0 0 1 0 0 0 0 0 0 0 0 0 0 0 0 0)))
    = [0x07, 0x28, 0x62, 0x10, 0x35, 0xaf, 0x3e, 0xd2, 0xbc, 0xa0, 0x3b, 0xf6, 0xfd, 0xe9, 0x00, 0xf9, 0x45, 0x6f, 0x53, 0x30, 0xe4, 0xb5, 0xee, 0x23, 0xe7, 0xf6, 0xa1, 0xe7, 0x02, 0x91, 0xbc, 0x80]"
proof -
  have t1: "lanes_perm12 (put_word hash_state_0 (Lane 0 0 1 0 0 0 0 0 0 0 0 0 0 0 0 0))
      = (Lane 7 0 8 2 2 6 0 1 5 3 15 10 14 3 2 13,
         Lane 4 14 0 3 2 10 8 9 0 3 14 2 14 9 7 9,
         Lane 1 1 6 0 2 15 0 11 15 12 7 12 13 8 6 9,
         Lane 4 7 15 8 15 10 12 1 12 11 1 1 2 13 9 12,
         Lane 0 10 9 3 11 3 4 6 1 11 3 3 12 7 2 12)"
    by (simp only: hash_state_0_def put_word_def lanes_eval)
  have t2: "lanes_perm12 (Lane 7 0 8 2 2 6 0 1 5 3 15 10 14 3 2 13, Lane 4 14 0 3 2 10 8 9 0 3 14 2 14 9 7 9, Lane 1 1 6 0 2 15 0 11 15 12 7 12 13 8 6 9, Lane 4 7 15 8 15 10 12 1 12 11 1 1 2 13 9 12, Lane 0 10 9 3 11 3 4 6 1 11 3 3 12 7 2 12)
      = (Lane 12 11 0 10 11 3 6 15 13 15 9 14 0 0 9 15,
         Lane 11 9 4 11 14 10 4 10 14 6 2 13 8 2 2 9,
         Lane 8 3 7 9 4 3 10 5 5 5 11 10 10 5 7 2,
         Lane 1 5 4 5 4 5 5 15 3 11 2 10 13 7 9 2,
         Lane 12 14 2 2 0 3 6 11 10 15 10 1 13 7 13 0)"
    by (simp only: hash_state_0_def put_word_def lanes_eval)
  have t3: "lanes_perm12 (Lane 12 11 0 10 11 3 6 15 13 15 9 14 0 0 9 15, Lane 11 9 4 11 14 10 4 10 14 6 2 13 8 2 2 9, Lane 8 3 7 9 4 3 10 5 5 5 11 10 10 5 7 2, Lane 1 5 4 5 4 5 5 15 3 11 2 10 13 7 9 2, Lane 12 14 2 2 0 3 6 11 10 15 10 1 13 7 13 0)
      = (Lane 5 4 15 6 3 5 0 3 4 14 5 11 14 14 3 2,
         Lane 10 12 0 10 9 13 8 5 7 14 13 4 0 10 9 7,
         Lane 7 11 9 2 11 3 10 12 2 13 10 12 10 0 7 4,
         Lane 12 14 4 3 8 9 9 11 7 3 13 4 6 7 7 7,
         Lane 6 7 11 4 6 10 10 0 8 12 8 12 2 5 8 5)"
    by (simp only: hash_state_0_def put_word_def lanes_eval)
  have t4: "lanes_perm12 (Lane 5 4 15 6 3 5 0 3 4 14 5 11 14 14 3 2, Lane 10 12 0 10 9 13 8 5 7 14 13 4 0 10 9 7, Lane 7 11 9 2 11 3 10 12 2 13 10 12 10 0 7 4, Lane 12 14 4 3 8 9 9 11 7 3 13 4 6 7 7 7, Lane 6 7 11 4 6 10 10 0 8 12 8 12 2 5 8 5)
      = (Lane 7 14 6 15 1 10 7 14 2 0 1 9 12 11 0 8,
         Lane 11 10 7 14 4 3 2 15 13 12 10 14 10 5 14 3,
         Lane 2 0 3 10 15 2 3 13 2 1 10 9 11 14 0 7,
         Lane 6 11 1 11 3 3 0 12 14 10 8 12 13 3 10 14,
         Lane 8 9 11 7 11 2 3 1 13 11 3 12 13 4 9 2)"
    by (simp only: hash_state_0_def put_word_def lanes_eval)
  show ?thesis unfolding eval_digest [OF t1 t2 t3 t4] by simp
qed

lemma digest_2: "digest_words (state_of (put_word hash_state_0 (Lane 0 0 1 0 1 0 0 0 0 0 0 0 0 0 0 0)))
    = [0x61, 0x15, 0xe7, 0xc9, 0xc4, 0x08, 0x1c, 0x27, 0x97, 0xfc, 0x8f, 0xe1, 0xbc, 0x57, 0xa8, 0x36, 0xaf, 0xa1, 0xc5, 0x38, 0x1e, 0x55, 0x6d, 0xd5, 0x83, 0x86, 0x0c, 0xa2, 0xdf, 0xb4, 0x8d, 0xd2]"
proof -
  have t1: "lanes_perm12 (put_word hash_state_0 (Lane 0 0 1 0 1 0 0 0 0 0 0 0 0 0 0 0))
      = (Lane 1 6 5 1 7 14 9 12 4 12 8 0 12 1 7 2,
         Lane 9 5 3 5 15 15 2 4 13 15 8 14 3 9 15 15,
         Lane 10 14 13 15 12 3 3 4 12 12 3 3 10 3 13 1,
         Lane 0 9 0 3 9 2 10 13 5 15 9 9 1 9 4 4,
         Lane 1 0 1 2 5 11 3 9 11 7 15 2 8 0 15 9)"
    by (simp only: hash_state_0_def put_word_def lanes_eval)
  have t2: "lanes_perm12 (Lane 1 6 5 1 7 14 9 12 4 12 8 0 12 1 7 2, Lane 9 5 3 5 15 15 2 4 13 15 8 14 3 9 15 15, Lane 10 14 13 15 12 3 3 4 12 12 3 3 10 3 13 1, Lane 0 9 0 3 9 2 10 13 5 15 9 9 1 9 4 4, Lane 1 0 1 2 5 11 3 9 11 7 15 2 8 0 15 9)
      = (Lane 7 9 12 15 15 8 1 14 12 11 7 5 8 10 6 3,
         Lane 0 6 4 15 1 1 13 2 2 5 2 9 12 10 11 13,
         Lane 4 15 5 13 10 3 13 3 7 7 14 13 0 14 11 12,
         Lane 14 7 13 10 4 1 14 14 7 9 4 1 7 8 4 6,
         Lane 1 8 14 3 7 10 9 5 8 15 1 5 11 3 1 13)"
    by (simp only: hash_state_0_def put_word_def lanes_eval)
  have t3: "lanes_perm12 (Lane 7 9 12 15 15 8 1 14 12 11 7 5 8 10 6 3, Lane 0 6 4 15 1 1 13 2 2 5 2 9 12 10 11 13, Lane 4 15 5 13 10 3 13 3 7 7 14 13 0 14 11 12, Lane 14 7 13 10 4 1 14 14 7 9 4 1 7 8 4 6, Lane 1 8 14 3 7 10 9 5 8 15 1 5 11 3 1 13)
      = (Lane 15 10 1 10 5 12 8 3 14 1 5 5 13 6 5 13,
         Lane 11 12 9 5 13 8 4 8 5 12 10 14 13 6 1 7,
         Lane 12 14 9 8 12 9 1 1 1 2 13 8 4 1 0 1,
         Lane 11 9 3 5 9 0 0 9 11 8 6 1 10 5 1 9,
         Lane 11 1 14 2 1 7 1 4 13 15 7 9 13 12 4 5)"
    by (simp only: hash_state_0_def put_word_def lanes_eval)
  have t4: "lanes_perm12 (Lane 15 10 1 10 5 12 8 3 14 1 5 5 13 6 5 13, Lane 11 12 9 5 13 8 4 8 5 12 10 14 13 6 1 7, Lane 12 14 9 8 12 9 1 1 1 2 13 8 4 1 0 1, Lane 11 9 3 5 9 0 0 9 11 8 6 1 10 5 1 9, Lane 11 1 14 2 1 7 1 4 13 15 7 9 13 12 4 5)
      = (Lane 3 8 6 8 12 0 2 10 15 13 4 11 13 8 2 13,
         Lane 9 10 10 5 12 5 5 3 12 8 14 3 3 4 12 15,
         Lane 10 4 1 13 14 3 13 15 9 0 13 5 5 6 5 7,
         Lane 9 8 3 5 5 0 15 14 3 3 6 8 8 13 3 8,
         Lane 12 14 6 0 15 4 0 3 4 7 8 2 11 13 0 3)"
    by (simp only: hash_state_0_def put_word_def lanes_eval)
  show ?thesis unfolding eval_digest [OF t1 t2 t3 t4] by simp
qed

lemma digest_3: "digest_words (state_of (put_word hash_state_0 (Lane 0 0 1 0 2 0 1 0 0 0 0 0 0 0 0 0)))
    = [0x26, 0x5a, 0xb8, 0x9a, 0x60, 0x9f, 0x5a, 0x05, 0xdc, 0xa5, 0x7e, 0x83, 0xfb, 0xba, 0x70, 0x0f, 0x9a, 0x2d, 0x2c, 0x42, 0x11, 0xba, 0x4c, 0xc9, 0xf0, 0xa1, 0xa3, 0x69, 0xe1, 0x7b, 0x91, 0x5c]"
proof -
  have t1: "lanes_perm12 (put_word hash_state_0 (Lane 0 0 1 0 2 0 1 0 0 0 0 0 0 0 0 0))
      = (Lane 6 2 10 5 8 11 10 9 0 6 15 9 10 5 5 0,
         Lane 12 6 6 4 10 1 7 14 4 14 3 6 14 4 2 0,
         Lane 0 1 4 11 6 8 1 10 11 11 4 11 2 12 9 8,
         Lane 14 9 12 2 11 11 6 14 14 4 13 10 14 2 5 15,
         Lane 7 3 5 1 14 1 7 12 11 11 11 7 3 4 13 1)"
    by (simp only: hash_state_0_def put_word_def lanes_eval)
  have t2: "lanes_perm12 (Lane 6 2 10 5 8 11 10 9 0 6 15 9 10 5 5 0, Lane 12 6 6 4 10 1 7 14 4 14 3 6 14 4 2 0, Lane 0 1 4 11 6 8 1 10 11 11 4 11 2 12 9 8, Lane 14 9 12 2 11 11 6 14 14 4 13 10 14 2 5 15, Lane 7 3 5 1 14 1 7 12 11 11 11 7 3 4 13 1)
      = (Lane 12 13 5 10 14 7 3 8 11 15 10 11 0 7 15 0,
         Lane 15 3 3 13 5 7 13 8 11 9 11 7 1 6 10 8,
         Lane 3 2 7 0 9 3 14 3 12 11 3 6 8 3 11 5,
         Lane 10 8 9 15 0 12 4 1 4 9 4 2 7 4 5 4,
         Lane 8 2 13 7 4 4 4 4 3 15 10 3 0 5 14 0)"
    by (simp only: hash_state_0_def put_word_def lanes_eval)
  have t3: "lanes_perm12 (Lane 12 13 5 10 14 7 3 8 11 15 10 11 0 7 15 0, Lane 15 3 3 13 5 7 13 8 11 9 11 7 1 6 10 8, Lane 3 2 7 0 9 3 14 3 12 11 3 6 8 3 11 5, Lane 10 8 9 15 0 12 4 1 4 9 4 2 7 4 5 4, Lane 8 2 13 7 4 4 4 4 3 15 10 3 0 5 14 0)
      = (Lane 10 9 13 2 12 2 2 4 1 1 10 11 12 4 9 12,
         Lane 14 5 0 9 15 14 3 9 13 3 4 11 1 9 8 8,
         Lane 4 10 8 14 0 1 11 13 12 12 15 2 1 15 7 10,
         Lane 6 0 0 14 11 10 4 13 2 12 1 9 14 14 4 3,
         Lane 8 12 9 10 11 4 13 5 0 13 14 11 2 5 5 7)"
    by (simp only: hash_state_0_def put_word_def lanes_eval)
  have t4: "lanes_perm12 (Lane 10 9 13 2 12 2 2 4 1 1 10 11 12 4 9 12, Lane 14 5 0 9 15 14 3 9 13 3 4 11 1 9 8 8, Lane 4 10 8 14 0 1 11 13 12 12 15 2 1 15 7 10, Lane 6 0 0 14 11 10 4 13 2 12 1 9 14 14 4 3, Lane 8 12 9 10 11 4 13 5 0 13 14 11 2 5 5 7)
      = (Lane 0 15 1 10 3 10 9 6 1 14 11 7 1 9 12 5,
         Lane 7 4 10 15 7 3 4 6 13 10 12 8 8 10 9 10,
         Lane 6 7 3 12 1 3 11 7 6 6 4 12 3 11 15 5,
         Lane 12 4 8 6 4 9 0 14 6 7 0 6 15 1 6 2,
         Lane 4 1 5 7 9 2 8 5 7 6 0 7 9 12 5 3)"
    by (simp only: hash_state_0_def put_word_def lanes_eval)
  show ?thesis unfolding eval_digest [OF t1 t2 t3 t4] by simp
qed

lemma digest_4: "digest_words (state_of (put_word hash_state_0 (Lane 0 0 1 0 2 0 3 0 1 0 0 0 0 0 0 0)))
    = [0xd7, 0xe4, 0xc7, 0xed, 0x9b, 0x8a, 0x32, 0x5c, 0xd0, 0x8b, 0x9e, 0xf2, 0x59, 0xf8, 0x87, 0x70, 0x54, 0xec, 0xd8, 0x30, 0x4f, 0xe1, 0xb2, 0xd7, 0xfd, 0x84, 0x71, 0x37, 0xdf, 0x67, 0x27, 0xee]"
proof -
  have t1: "lanes_perm12 (put_word hash_state_0 (Lane 0 0 1 0 2 0 3 0 1 0 0 0 0 0 0 0))
      = (Lane 7 13 4 14 7 12 13 14 11 9 10 8 2 3 12 5,
         Lane 5 15 8 10 4 4 0 3 11 14 8 7 4 10 11 12,
         Lane 2 8 2 7 1 6 4 8 5 14 9 14 9 13 6 10,
         Lane 10 10 1 11 0 10 1 0 9 10 14 11 13 4 4 9,
         Lane 13 6 3 15 1 6 0 1 7 13 2 4 11 8 6 12)"
    by (simp only: hash_state_0_def put_word_def lanes_eval)
  have t2: "lanes_perm12 (Lane 7 13 4 14 7 12 13 14 11 9 10 8 2 3 12 5, Lane 5 15 8 10 4 4 0 3 11 14 8 7 4 10 11 12, Lane 2 8 2 7 1 6 4 8 5 14 9 14 9 13 6 10, Lane 10 10 1 11 0 10 1 0 9 10 14 11 13 4 4 9, Lane 13 6 3 15 1 6 0 1 7 13 2 4 11 8 6 12)
      = (Lane 0 13 11 8 14 9 2 15 9 5 8 15 7 8 0 7,
         Lane 3 6 7 6 9 12 14 6 2 4 7 10 6 11 1 2,
         Lane 0 9 7 7 11 1 3 8 12 8 5 4 14 12 6 10,
         Lane 12 15 0 3 8 8 9 2 13 3 4 6 15 4 7 14,
         Lane 9 14 11 14 14 14 1 10 4 0 4 1 8 11 4 9)"
    by (simp only: hash_state_0_def put_word_def lanes_eval)
  have t3: "lanes_perm12 (Lane 0 13 11 8 14 9 2 15 9 5 8 15 7 8 0 7, Lane 3 6 7 6 9 12 14 6 2 4 7 10 6 11 1 2, Lane 0 9 7 7 11 1 3 8 12 8 5 4 14 12 6 10, Lane 12 15 0 3 8 8 9 2 13 3 4 6 15 4 7 14, Lane 9 14 11 14 14 14 1 10 4 0 4 1 8 11 4 9)
      = (Lane 4 5 12 14 8 13 0 3 15 4 1 14 2 11 7 13,
         Lane 7 6 9 3 6 7 10 3 10 13 10 2 3 5 9 9,
         Lane 13 10 1 10 10 4 4 12 14 13 0 8 14 5 9 6,
         Lane 4 9 8 8 15 14 9 4 7 14 3 1 10 7 4 4,
         Lane 9 0 10 12 1 0 12 13 3 5 0 4 14 10 14 14)"
    by (simp only: hash_state_0_def put_word_def lanes_eval)
  have t4: "lanes_perm12 (Lane 4 5 12 14 8 13 0 3 15 4 1 14 2 11 7 13, Lane 7 6 9 3 6 7 10 3 10 13 10 2 3 5 9 9, Lane 13 10 1 10 10 4 4 12 14 13 0 8 14 5 9 6, Lane 4 9 8 8 15 14 9 4 7 14 3 1 10 7 4 4, Lane 9 0 10 12 1 0 12 13 3 5 0 4 14 10 14 14)
      = (Lane 13 15 4 8 1 7 7 3 15 13 7 6 7 2 14 14,
         Lane 3 2 6 1 15 10 12 15 8 13 0 5 12 14 1 12,
         Lane 5 4 1 9 9 2 9 8 11 14 14 11 6 3 12 1,
         Lane 13 10 4 6 10 6 15 11 0 14 15 7 2 1 12 0,
         Lane 15 4 3 4 5 15 11 4 10 3 2 8 6 1 10 14)"
    by (simp only: hash_state_0_def put_word_def lanes_eval)
  show ?thesis unfolding eval_digest [OF t1 t2 t3 t4] by simp
qed

lemma digest_5: "digest_words (state_of (put_word hash_state_0 (Lane 0 0 1 0 2 0 3 0 4 0 1 0 0 0 0 0)))
    = [0xc7, 0xb2, 0x89, 0x62, 0xd4, 0xf5, 0xc2, 0x21, 0x1f, 0x46, 0x6f, 0x83, 0xd3, 0xc5, 0x7a, 0xe1, 0x50, 0x43, 0x87, 0xe2, 0xa3, 0x26, 0x94, 0x97, 0x47, 0xa8, 0x37, 0x64, 0x47, 0xa6, 0xbb, 0x51]"
proof -
  have t1: "lanes_perm12 (put_word hash_state_0 (Lane 0 0 1 0 2 0 3 0 4 0 1 0 0 0 0 0))
      = (Lane 7 12 2 11 9 8 2 6 4 13 5 15 2 12 1 2,
         Lane 10 15 3 1 6 15 0 7 11 10 9 8 9 6 15 5,
         Lane 1 5 6 10 4 11 13 2 4 9 12 15 14 14 13 4,
         Lane 8 6 10 4 4 7 12 9 12 10 13 4 1 14 12 9,
         Lane 4 1 6 0 8 5 2 6 15 6 9 3 12 15 14 11)"
    by (simp only: hash_state_0_def put_word_def lanes_eval)
  have t2: "lanes_perm12 (Lane 7 12 2 11 9 8 2 6 4 13 5 15 2 12 1 2, Lane 10 15 3 1 6 15 0 7 11 10 9 8 9 6 15 5, Lane 1 5 6 10 4 11 13 2 4 9 12 15 14 14 13 4, Lane 8 6 10 4 4 7 12 9 12 10 13 4 1 14 12 9, Lane 4 1 6 0 8 5 2 6 15 6 9 3 12 15 14 11)
      = (Lane 15 1 6 4 15 6 3 8 3 13 5 12 10 7 1 14,
         Lane 1 12 0 11 3 5 3 11 15 2 12 8 15 15 6 2,
         Lane 14 15 14 1 0 0 0 1 14 1 1 13 3 3 15 12,
         Lane 4 7 6 10 10 9 11 4 10 4 11 13 5 4 7 13,
         Lane 9 2 12 7 8 6 4 1 13 6 9 7 3 4 8 2)"
    by (simp only: hash_state_0_def put_word_def lanes_eval)
  have t3: "lanes_perm12 (Lane 15 1 6 4 15 6 3 8 3 13 5 12 10 7 1 14, Lane 1 12 0 11 3 5 3 11 15 2 12 8 15 15 6 2, Lane 14 15 14 1 0 0 0 1 14 1 1 13 3 3 15 12, Lane 4 7 6 10 10 9 11 4 10 4 11 13 5 4 7 13, Lane 9 2 12 7 8 6 4 1 13 6 9 7 3 4 8 2)
      = (Lane 0 5 3 4 7 8 2 14 3 10 6 2 4 9 7 9,
         Lane 12 4 11 6 5 10 4 2 3 3 3 11 8 14 6 3,
         Lane 14 1 4 4 8 13 4 4 3 12 9 13 5 14 7 15,
         Lane 8 5 12 11 15 3 11 2 8 8 6 4 4 15 0 12,
         Lane 2 4 5 11 9 3 0 1 11 7 11 8 9 2 13 14)"
    by (simp only: hash_state_0_def put_word_def lanes_eval)
  have t4: "lanes_perm12 (Lane 0 5 3 4 7 8 2 14 3 10 6 2 4 9 7 9, Lane 12 4 11 6 5 10 4 2 3 3 3 11 8 14 6 3, Lane 14 1 4 4 8 13 4 4 3 12 9 13 5 14 7 15, Lane 8 5 12 11 15 3 11 2 8 8 6 4 4 15 0 12, Lane 2 4 5 11 9 3 0 1 11 7 11 8 9 2 13 14)
      = (Lane 7 4 8 10 7 3 4 6 7 4 6 10 11 11 1 5,
         Lane 3 10 12 6 0 11 2 4 3 14 13 15 12 13 14 15,
         Lane 7 0 3 8 13 15 15 3 6 15 1 14 4 2 13 0,
         Lane 12 11 2 14 12 7 2 1 6 10 12 10 11 4 6 6,
         Lane 2 4 0 2 2 0 13 2 3 15 15 0 15 4 0 15)"
    by (simp only: hash_state_0_def put_word_def lanes_eval)
  show ?thesis unfolding eval_digest [OF t1 t2 t3 t4] by simp
qed

lemma digest_6: "digest_words (state_of (put_word hash_state_0 (Lane 0 0 1 0 2 0 3 0 4 0 5 0 1 0 0 0)))
    = [0xdc, 0x0c, 0x67, 0x48, 0xaf, 0x8f, 0xfe, 0x63, 0xe1, 0x08, 0x4a, 0xa3, 0xe5, 0x78, 0x6a, 0x19, 0x46, 0x85, 0xc8, 0x8c, 0x21, 0x34, 0x8b, 0x29, 0xe1, 0x84, 0xfb, 0x50, 0x40, 0x97, 0x03, 0xbc]"
proof -
  have t1: "lanes_perm12 (put_word hash_state_0 (Lane 0 0 1 0 2 0 3 0 4 0 5 0 1 0 0 0))
      = (Lane 12 13 12 0 7 6 8 4 15 10 15 8 14 15 3 6,
         Lane 5 4 8 10 15 10 12 5 10 9 0 11 4 5 6 3,
         Lane 8 2 11 14 6 13 5 9 4 0 6 9 10 2 13 9,
         Lane 15 11 4 1 6 0 0 6 7 7 8 1 1 0 8 0,
         Lane 5 6 2 7 10 15 7 10 9 12 0 14 11 13 9 8)"
    by (simp only: hash_state_0_def put_word_def lanes_eval)
  have t2: "lanes_perm12 (Lane 12 13 12 0 7 6 8 4 15 10 15 8 14 15 3 6, Lane 5 4 8 10 15 10 12 5 10 9 0 11 4 5 6 3, Lane 8 2 11 14 6 13 5 9 4 0 6 9 10 2 13 9, Lane 15 11 4 1 6 0 0 6 7 7 8 1 1 0 8 0, Lane 5 6 2 7 10 15 7 10 9 12 0 14 11 13 9 8)
      = (Lane 1 14 8 0 10 4 3 10 5 14 8 7 10 6 9 1,
         Lane 14 6 7 8 2 6 12 13 0 13 10 6 7 13 8 12,
         Lane 7 0 2 2 11 12 7 8 13 13 1 8 7 8 4 4,
         Lane 10 14 1 8 6 6 6 8 7 9 6 13 6 15 11 2,
         Lane 3 5 15 11 1 2 14 2 14 11 14 8 12 2 11 15)"
    by (simp only: hash_state_0_def put_word_def lanes_eval)
  have t3: "lanes_perm12 (Lane 1 14 8 0 10 4 3 10 5 14 8 7 10 6 9 1, Lane 14 6 7 8 2 6 12 13 0 13 10 6 7 13 8 12, Lane 7 0 2 2 11 12 7 8 13 13 1 8 7 8 4 4, Lane 10 14 1 8 6 6 6 8 7 9 6 13 6 15 11 2, Lane 3 5 15 11 1 2 14 2 14 11 14 8 12 2 11 15)
      = (Lane 6 4 5 8 8 12 12 8 1 2 4 3 11 8 9 2,
         Lane 6 11 15 8 2 2 13 11 15 7 14 6 7 2 2 11,
         Lane 0 8 1 2 12 4 9 8 5 12 5 1 5 13 3 4,
         Lane 11 4 13 7 12 5 4 13 5 13 7 9 2 4 5 4,
         Lane 3 13 9 11 12 3 1 11 12 3 11 3 8 9 14 4)"
    by (simp only: hash_state_0_def put_word_def lanes_eval)
  have t4: "lanes_perm12 (Lane 6 4 5 8 8 12 12 8 1 2 4 3 11 8 9 2, Lane 6 11 15 8 2 2 13 11 15 7 14 6 7 2 2 11, Lane 0 8 1 2 12 4 9 8 5 12 5 1 5 13 3 4, Lane 11 4 13 7 12 5 4 13 5 13 7 9 2 4 5 4, Lane 3 13 9 11 12 3 1 11 12 3 11 3 8 9 14 4)
      = (Lane 1 14 4 8 11 15 0 5 0 4 7 9 3 0 12 11,
         Lane 8 14 10 0 3 9 12 8 12 2 3 8 1 7 13 6,
         Lane 2 13 8 2 8 3 3 7 4 1 8 1 1 11 12 12,
         Lane 13 9 7 4 7 9 9 14 7 5 5 9 0 3 14 14,
         Lane 1 6 8 11 10 10 3 6 1 15 1 9 12 8 10 4)"
    by (simp only: hash_state_0_def put_word_def lanes_eval)
  show ?thesis unfolding eval_digest [OF t1 t2 t3 t4] by simp
qed

lemma digest_7: "digest_words (state_of (put_word hash_state_0 (Lane 0 0 1 0 2 0 3 0 4 0 5 0 6 0 1 0)))
    = [0x3e, 0x4d, 0x27, 0x3b, 0xa6, 0x9b, 0x3b, 0x9c, 0x53, 0x21, 0x61, 0x07, 0xe8, 0x8b, 0x75, 0xcd, 0xbe, 0xed, 0xbc, 0xbf, 0x8f, 0xaf, 0x02, 0x19, 0xc3, 0x92, 0x8a, 0xb6, 0x2b, 0x11, 0x65, 0x77]"
proof -
  have t1: "lanes_perm12 (put_word hash_state_0 (Lane 0 0 1 0 2 0 3 0 4 0 5 0 6 0 1 0))
      = (Lane 14 3 13 4 7 2 11 3 6 10 11 9 11 3 12 9,
         Lane 1 4 3 2 3 14 2 10 5 3 7 0 1 10 6 14,
         Lane 7 2 9 7 2 11 13 15 4 4 7 8 2 10 8 12,
         Lane 8 13 1 6 9 2 10 0 10 14 10 8 6 8 14 11,
         Lane 11 5 8 7 3 9 6 12 1 15 13 3 13 0 3 4)"
    by (simp only: hash_state_0_def put_word_def lanes_eval)
  have t2: "lanes_perm12 (Lane 14 3 13 4 7 2 11 3 6 10 11 9 11 3 12 9, Lane 1 4 3 2 3 14 2 10 5 3 7 0 1 10 6 14, Lane 7 2 9 7 2 11 13 15 4 4 7 8 2 10 8 12, Lane 8 13 1 6 9 2 10 0 10 14 10 8 6 8 14 11, Lane 11 5 8 7 3 9 6 12 1 15 13 3 13 0 3 4)
      = (Lane 3 5 1 2 1 6 7 0 8 14 11 8 5 7 13 12,
         Lane 14 2 1 1 14 13 2 10 1 11 1 8 7 5 15 0,
         Lane 12 6 3 0 12 13 15 9 5 11 6 0 4 7 12 11,
         Lane 5 15 10 15 2 14 2 13 9 3 10 2 8 4 4 5,
         Lane 7 10 7 1 4 3 14 8 5 15 15 3 5 4 8 0)"
    by (simp only: hash_state_0_def put_word_def lanes_eval)
  have t3: "lanes_perm12 (Lane 3 5 1 2 1 6 7 0 8 14 11 8 5 7 13 12, Lane 14 2 1 1 14 13 2 10 1 11 1 8 7 5 15 0, Lane 12 6 3 0 12 13 15 9 5 11 6 0 4 7 12 11, Lane 5 15 10 15 2 14 2 13 9 3 10 2 8 4 4 5, Lane 7 10 7 1 4 3 14 8 5 15 15 3 5 4 8 0)
      = (Lane 14 11 13 14 12 11 15 11 15 8 15 10 2 0 9 1,
         Lane 3 2 12 4 14 10 14 11 9 8 4 15 13 15 15 2,
         Lane 2 15 4 15 1 1 12 0 3 10 8 1 15 8 2 13,
         Lane 1 12 5 6 4 12 2 2 0 13 2 1 4 12 8 8,
         Lane 9 3 0 15 7 3 2 1 13 3 9 3 2 6 14 14)"
    by (simp only: hash_state_0_def put_word_def lanes_eval)
  have t4: "lanes_perm12 (Lane 14 11 13 14 12 11 15 11 15 8 15 10 2 0 9 1, Lane 3 2 12 4 14 10 14 11 9 8 4 15 13 15 15 2, Lane 2 15 4 15 1 1 12 0 3 10 8 1 15 8 2 13, Lane 1 12 5 6 4 12 2 2 0 13 2 1 4 12 8 8, Lane 9 3 0 15 7 3 2 1 13 3 9 3 2 6 14 14)
      = (Lane 3 12 2 9 10 8 6 11 11 2 1 1 5 6 7 7,
         Lane 0 0 1 8 4 10 5 9 15 12 3 10 0 6 1 10,
         Lane 13 7 3 14 2 3 2 4 5 15 6 0 4 5 12 7,
         Lane 7 5 3 13 10 5 8 2 3 12 1 13 0 15 11 12,
         Lane 12 9 9 13 8 4 11 10 3 14 8 3 6 6 6 5)"
    by (simp only: hash_state_0_def put_word_def lanes_eval)
  show ?thesis unfolding eval_digest [OF t1 t2 t3 t4] by simp
qed

lemma digest_8: "digest_words (state_of (put_word hash_state_1 (Lane 1 0 0 0 0 0 0 0 0 0 0 0 0 0 0 0)))
    = [0xb8, 0x8e, 0x49, 0x7a, 0xe8, 0xe6, 0xfb, 0x64, 0x1b, 0x87, 0xef, 0x62, 0x2e, 0xb8, 0xf2, 0xfc, 0xa0, 0xed, 0x95, 0x38, 0x3f, 0x7f, 0xfe, 0xbe, 0x16, 0x7a, 0xcf, 0x10, 0x99, 0xba, 0x76, 0x4f]"
proof -
  have t1: "lanes_perm12 (put_word hash_state_1 (Lane 1 0 0 0 0 0 0 0 0 0 0 0 0 0 0 0))
      = (Lane 8 11 14 8 9 4 10 7 8 14 6 14 11 15 4 6,
         Lane 4 11 11 2 14 1 2 2 3 5 14 6 6 0 10 3,
         Lane 3 1 9 2 2 14 12 8 1 7 8 13 5 12 9 3,
         Lane 3 4 8 13 4 7 0 15 12 5 1 9 2 14 15 8,
         Lane 14 8 5 9 12 8 2 10 2 1 0 8 10 11 13 12)"
    by (simp only: hash_state_1_def put_word_def lanes_eval)
  have t2: "lanes_perm12 (Lane 8 11 14 8 9 4 10 7 8 14 6 14 11 15 4 6, Lane 4 11 11 2 14 1 2 2 3 5 14 6 6 0 10 3, Lane 3 1 9 2 2 14 12 8 1 7 8 13 5 12 9 3, Lane 3 4 8 13 4 7 0 15 12 5 1 9 2 14 15 8, Lane 14 8 5 9 12 8 2 10 2 1 0 8 10 11 13 12)
      = (Lane 11 1 7 8 15 14 2 6 14 2 8 11 2 15 12 15,
         Lane 3 2 2 9 4 11 1 5 8 14 0 2 13 10 7 12,
         Lane 12 5 11 14 13 5 14 7 6 2 1 6 3 1 10 6,
         Lane 11 0 7 6 10 5 14 6 6 5 13 15 12 1 6 0,
         Lane 0 0 14 14 12 2 11 13 5 7 14 15 10 15 5 6)"
    by (simp only: hash_state_1_def put_word_def lanes_eval)
  have t3: "lanes_perm12 (Lane 11 1 7 8 15 14 2 6 14 2 8 11 2 15 12 15, Lane 3 2 2 9 4 11 1 5 8 14 0 2 13 10 7 12, Lane 12 5 11 14 13 5 14 7 6 2 1 6 3 1 10 6, Lane 11 0 7 6 10 5 14 6 6 5 13 15 12 1 6 0, Lane 0 0 14 14 12 2 11 13 5 7 14 15 10 15 5 6)
      = (Lane 0 10 13 14 5 9 8 3 15 3 15 7 14 15 14 11,
         Lane 0 15 3 3 11 14 5 6 13 15 15 13 0 11 12 7,
         Lane 7 6 7 7 11 12 11 6 3 10 4 2 0 10 12 6,
         Lane 3 9 7 12 5 3 5 9 6 1 5 9 3 7 15 14,
         Lane 1 14 9 3 11 11 11 5 11 10 13 14 11 1 6 11)"
    by (simp only: hash_state_1_def put_word_def lanes_eval)
  have t4: "lanes_perm12 (Lane 0 10 13 14 5 9 8 3 15 3 15 7 14 15 14 11, Lane 0 15 3 3 11 14 5 6 13 15 15 13 0 11 12 7, Lane 7 6 7 7 11 12 11 6 3 10 4 2 0 10 12 6, Lane 3 9 7 12 5 3 5 9 6 1 5 9 3 7 15 14, Lane 1 14 9 3 11 11 11 5 11 10 13 14 11 1 6 11)
      = (Lane 6 1 10 7 15 12 0 1 9 9 10 11 6 7 15 4,
         Lane 8 6 0 3 5 7 5 6 8 14 13 14 6 2 10 14,
         Lane 6 5 4 3 7 8 6 3 0 9 12 5 5 6 6 9,
         Lane 15 3 12 8 9 10 11 14 4 6 7 0 8 3 15 7,
         Lane 11 13 10 12 2 1 6 9 14 7 10 13 3 15 13 9)"
    by (simp only: hash_state_1_def put_word_def lanes_eval)
  show ?thesis unfolding eval_digest [OF t1 t2 t3 t4] by simp
qed

lemma digest_9: "digest_words (state_of (put_word hash_state_1 (Lane 8 0 1 0 0 0 0 0 0 0 0 0 0 0 0 0)))
    = [0x94, 0x26, 0x9c, 0x30, 0xe0, 0x29, 0x6e, 0x1e, 0xc8, 0x66, 0x55, 0x04, 0x18, 0x41, 0x82, 0x3e, 0xfa, 0x19, 0x27, 0xf5, 0x20, 0xfd, 0x58, 0xc8, 0xe9, 0xbc, 0xe6, 0x19, 0x78, 0x78, 0xc1, 0xa6]"
proof -
  have t1: "lanes_perm12 (put_word hash_state_1 (Lane 8 0 1 0 0 0 0 0 0 0 0 0 0 0 0 0))
      = (Lane 4 9 6 2 12 9 0 3 0 14 9 2 14 6 14 1,
         Lane 10 10 14 2 7 4 12 12 14 8 2 15 9 1 7 2,
         Lane 9 5 3 15 4 10 10 9 7 2 6 9 3 7 7 11,
         Lane 15 8 3 7 10 9 10 0 14 15 1 15 14 2 6 2,
         Lane 3 10 8 6 13 11 14 3 2 13 2 5 9 4 7 2)"
    by (simp only: hash_state_1_def put_word_def lanes_eval)
  have t2: "lanes_perm12 (Lane 4 9 6 2 12 9 0 3 0 14 9 2 14 6 14 1, Lane 10 10 14 2 7 4 12 12 14 8 2 15 9 1 7 2, Lane 9 5 3 15 4 10 10 9 7 2 6 9 3 7 7 11, Lane 15 8 3 7 10 9 10 0 14 15 1 15 14 2 6 2, Lane 3 10 8 6 13 11 14 3 2 13 2 5 9 4 7 2)
      = (Lane 8 12 6 6 5 5 4 0 8 1 1 4 2 8 14 3,
         Lane 7 4 11 12 15 2 1 6 12 6 8 9 7 0 5 15,
         Lane 2 12 0 1 7 7 13 15 15 2 2 12 9 0 1 8,
         Lane 9 9 6 6 9 11 4 5 9 1 7 15 3 8 7 13,
         Lane 1 10 13 11 8 1 6 8 5 14 3 9 2 12 4 11)"
    by (simp only: hash_state_1_def put_word_def lanes_eval)
  have t3: "lanes_perm12 (Lane 8 12 6 6 5 5 4 0 8 1 1 4 2 8 14 3, Lane 7 4 11 12 15 2 1 6 12 6 8 9 7 0 5 15, Lane 2 12 0 1 7 7 13 15 15 2 2 12 9 0 1 8, Lane 9 9 6 6 9 11 4 5 9 1 7 15 3 8 7 13, Lane 1 10 13 11 8 1 6 8 5 14 3 9 2 12 4 11)
      = (Lane 10 15 9 1 7 2 5 15 0 2 13 15 8 5 8 12,
         Lane 10 6 2 12 1 2 14 9 14 15 10 10 9 0 6 1,
         Lane 2 2 15 5 13 4 8 2 5 9 11 14 15 10 14 2,
         Lane 10 2 14 9 0 13 6 2 6 10 2 11 15 1 3 15,
         Lane 0 12 5 14 11 11 8 7 14 0 0 2 8 10 4 2)"
    by (simp only: hash_state_1_def put_word_def lanes_eval)
  have t4: "lanes_perm12 (Lane 10 15 9 1 7 2 5 15 0 2 13 15 8 5 8 12, Lane 10 6 2 12 1 2 14 9 14 15 10 10 9 0 6 1, Lane 2 2 15 5 13 4 8 2 5 9 11 14 15 10 14 2, Lane 10 2 14 9 0 13 6 2 6 10 2 11 15 1 3 15, Lane 0 12 5 14 11 11 8 7 14 0 0 2 8 10 4 2)
      = (Lane 9 14 12 11 6 14 9 1 8 7 8 7 1 12 6 10,
         Lane 4 7 9 13 9 2 15 5 8 14 1 5 8 0 4 11,
         Lane 7 6 8 11 10 7 3 10 10 13 14 9 5 9 2 6,
         Lane 5 9 5 13 3 6 12 5 2 12 9 0 0 8 11 1,
         Lane 10 13 15 8 15 7 6 1 13 9 11 10 15 11 12 7)"
    by (simp only: hash_state_1_def put_word_def lanes_eval)
  show ?thesis unfolding eval_digest [OF t1 t2 t3 t4] by simp
qed

lemma digest_10: "digest_words (state_of (put_word hash_state_1 (Lane 8 0 9 0 1 0 0 0 0 0 0 0 0 0 0 0)))
    = [0x89, 0x4f, 0x5c, 0x5b, 0xc7, 0x8a, 0x0a, 0x97, 0xab, 0xc0, 0xd6, 0x31, 0x23, 0xd0, 0x9a, 0x33, 0x5f, 0xb0, 0xd9, 0x24, 0x30, 0xad, 0xf9, 0xd1, 0x1f, 0xd2, 0x64, 0x38, 0x54, 0x17, 0x99, 0x68]"
proof -
  have t1: "lanes_perm12 (put_word hash_state_1 (Lane 8 0 9 0 1 0 0 0 0 0 0 0 0 0 0 0))
      = (Lane 9 8 15 4 12 5 11 5 7 12 10 8 10 0 7 9,
         Lane 14 13 9 11 11 13 7 1 2 1 2 0 2 11 10 1,
         Lane 8 10 11 2 10 0 14 7 14 14 8 14 3 2 4 15,
         Lane 12 13 2 3 15 13 1 8 3 10 7 3 10 3 0 2,
         Lane 3 4 5 2 8 9 8 3 1 11 13 4 13 4 11 0)"
    by (simp only: hash_state_1_def put_word_def lanes_eval)
  have t2: "lanes_perm12 (Lane 9 8 15 4 12 5 11 5 7 12 10 8 10 0 7 9, Lane 14 13 9 11 11 13 7 1 2 1 2 0 2 11 10 1, Lane 8 10 11 2 10 0 14 7 14 14 8 14 3 2 4 15, Lane 12 13 2 3 15 13 1 8 3 10 7 3 10 3 0 2, Lane 3 4 5 2 8 9 8 3 1 11 13 4 13 4 11 0)
      = (Lane 11 10 0 12 6 13 1 3 3 2 0 13 10 9 3 3,
         Lane 12 6 7 12 12 9 11 13 13 15 12 10 15 5 0 6,
         Lane 15 2 8 8 10 1 2 15 10 6 12 3 12 7 9 0,
         Lane 9 7 14 12 6 3 1 11 3 11 0 10 13 8 8 9,
         Lane 2 13 7 4 10 9 5 5 10 15 15 6 3 9 14 7)"
    by (simp only: hash_state_1_def put_word_def lanes_eval)
  have t3: "lanes_perm12 (Lane 11 10 0 12 6 13 1 3 3 2 0 13 10 9 3 3, Lane 12 6 7 12 12 9 11 13 13 15 12 10 15 5 0 6, Lane 15 2 8 8 10 1 2 15 10 6 12 3 12 7 9 0, Lane 9 7 14 12 6 3 1 11 3 11 0 10 13 8 8 9, Lane 2 13 7 4 10 9 5 5 10 15 15 6 3 9 14 7)
      = (Lane 15 5 0 11 9 13 4 2 0 3 13 10 9 15 1 13,
         Lane 15 0 2 3 1 3 1 15 7 4 15 2 11 2 10 4,
         Lane 13 0 11 5 15 7 7 15 5 3 6 13 5 3 11 9,
         Lane 13 7 1 11 0 7 1 10 3 11 14 2 1 14 11 2,
         Lane 5 5 4 3 13 7 15 14 7 5 15 14 15 2 2 11)"
    by (simp only: hash_state_1_def put_word_def lanes_eval)
  have t4: "lanes_perm12 (Lane 15 5 0 11 9 13 4 2 0 3 13 10 9 15 1 13, Lane 15 0 2 3 1 3 1 15 7 4 15 2 11 2 10 4, Lane 13 0 11 5 15 7 7 15 5 3 6 13 5 3 11 9, Lane 13 7 1 11 0 7 1 10 3 11 14 2 1 14 11 2, Lane 5 5 4 3 13 7 15 14 7 5 15 14 15 2 2 11)
      = (Lane 15 1 2 13 4 6 8 3 4 5 7 1 9 9 8 6,
         Lane 12 2 3 10 0 2 5 11 12 6 3 9 11 4 7 8,
         Lane 4 2 4 10 0 15 8 0 0 12 8 2 1 10 14 0,
         Lane 3 11 8 11 10 6 2 8 5 10 2 2 2 8 1 5,
         Lane 7 10 1 7 12 2 12 15 14 13 7 4 14 14 0 2)"
    by (simp only: hash_state_1_def put_word_def lanes_eval)
  show ?thesis unfolding eval_digest [OF t1 t2 t3 t4] by simp
qed

lemma digest_11: "digest_words (state_of (put_word hash_state_1 (Lane 8 0 9 0 10 0 1 0 0 0 0 0 0 0 0 0)))
    = [0x68, 0x84, 0x66, 0xb9, 0xec, 0x50, 0x70, 0x47, 0x6c, 0xeb, 0x93, 0x9f, 0xe3, 0x68, 0xc2, 0xa3, 0x2c, 0x0f, 0x1a, 0x79, 0x5a, 0xf7, 0x61, 0x94, 0x2d, 0x55, 0x18, 0x90, 0x9a, 0x10, 0x81, 0xda]"
proof -
  have t1: "lanes_perm12 (put_word hash_state_1 (Lane 8 0 9 0 10 0 1 0 0 0 0 0 0 0 0 0))
      = (Lane 8 6 4 8 6 6 9 11 12 14 0 5 0 7 7 4,
         Lane 10 5 2 3 7 6 10 3 14 14 1 3 4 10 3 4,
         Lane 10 6 0 12 11 2 7 2 0 11 7 14 3 13 1 15,
         Lane 11 6 5 12 15 9 1 9 7 4 8 0 2 7 1 12,
         Lane 0 9 3 3 15 14 9 13 7 4 0 1 3 13 11 1)"
    by (simp only: hash_state_1_def put_word_def lanes_eval)
  have t2: "lanes_perm12 (Lane 8 6 4 8 6 6 9 11 12 14 0 5 0 7 7 4, Lane 10 5 2 3 7 6 10 3 14 14 1 3 4 10 3 4, Lane 10 6 0 12 11 2 7 2 0 11 7 14 3 13 1 15, Lane 11 6 5 12 15 9 1 9 7 4 8 0 2 7 1 12, Lane 0 9 3 3 15 14 9 13 7 4 0 1 3 13 11 1)
      = (Lane 12 6 11 14 3 9 15 9 3 14 8 6 2 12 3 10,
         Lane 13 10 8 7 1 5 5 8 11 8 1 10 8 5 2 5,
         Lane 11 1 9 2 9 9 13 3 3 10 13 7 6 10 7 13,
         Lane 9 4 8 13 13 3 0 15 6 5 3 15 9 11 5 8,
         Lane 3 14 12 9 12 10 10 7 0 8 6 11 6 6 14 15)"
    by (simp only: hash_state_1_def put_word_def lanes_eval)
  have t3: "lanes_perm12 (Lane 12 6 11 14 3 9 15 9 3 14 8 6 2 12 3 10, Lane 13 10 8 7 1 5 5 8 11 8 1 10 8 5 2 5, Lane 11 1 9 2 9 9 13 3 3 10 13 7 6 10 7 13, Lane 9 4 8 13 13 3 0 15 6 5 3 15 9 11 5 8, Lane 3 14 12 9 12 10 10 7 0 8 6 11 6 6 14 15)
      = (Lane 12 2 15 0 10 1 9 7 10 5 7 15 1 6 4 9,
         Lane 6 11 13 11 14 14 8 8 7 12 11 4 6 2 13 13,
         Lane 9 1 3 3 0 1 14 5 5 12 14 1 15 0 15 5,
         Lane 10 11 5 1 12 6 9 11 5 13 9 7 9 13 15 0,
         Lane 12 15 5 6 8 11 15 15 3 7 10 9 5 0 15 9)"
    by (simp only: hash_state_1_def put_word_def lanes_eval)
  have t4: "lanes_perm12 (Lane 12 2 15 0 10 1 9 7 10 5 7 15 1 6 4 9, Lane 6 11 13 11 14 14 8 8 7 12 11 4 6 2 13 13, Lane 9 1 3 3 0 1 14 5 5 12 14 1 15 0 15 5, Lane 10 11 5 1 12 6 9 11 5 13 9 7 9 13 15 0, Lane 12 15 5 6 8 11 15 15 3 7 10 9 5 0 15 9)
      = (Lane 13 2 5 5 8 1 0 9 10 9 0 1 1 8 10 13,
         Lane 6 6 9 13 6 10 3 0 9 2 7 6 5 6 0 7,
         Lane 8 2 1 7 5 5 12 12 10 5 15 4 2 5 13 13,
         Lane 7 12 5 0 5 14 5 14 13 7 12 12 2 10 3 4,
         Lane 13 15 12 11 15 7 6 15 13 12 14 15 0 15 13 12)"
    by (simp only: hash_state_1_def put_word_def lanes_eval)
  show ?thesis unfolding eval_digest [OF t1 t2 t3 t4] by simp
qed

lemma digest_12: "digest_words (state_of (put_word hash_state_1 (Lane 8 0 9 0 10 0 11 0 1 0 0 0 0 0 0 0)))
    = [0x8c, 0xaf, 0xa6, 0x56, 0x80, 0x7f, 0xaf, 0xa3, 0xde, 0x9f, 0xeb, 0x2f, 0xb5, 0x66, 0xd6, 0x23, 0x9b, 0xeb, 0xa7, 0x4a, 0xe4, 0x8c, 0x4e, 0x9a, 0x4c, 0xed, 0x5b, 0xf1, 0xb1, 0x3a, 0x75, 0xc9]"
proof -
  have t1: "lanes_perm12 (put_word hash_state_1 (Lane 8 0 9 0 10 0 11 0 1 0 0 0 0 0 0 0))
      = (Lane 12 8 15 10 6 10 6 5 0 8 15 7 15 10 3 10,
         Lane 12 7 1 10 0 5 3 9 9 14 0 14 15 8 7 5,
         Lane 8 13 0 15 12 14 6 12 12 9 5 3 13 11 12 13,
         Lane 2 0 15 13 9 3 14 5 10 13 8 11 5 11 12 12,
         Lane 9 12 15 15 2 1 1 9 1 8 15 15 0 7 13 7)"
    by (simp only: hash_state_1_def put_word_def lanes_eval)
  have t2: "lanes_perm12 (Lane 12 8 15 10 6 10 6 5 0 8 15 7 15 10 3 10, Lane 12 7 1 10 0 5 3 9 9 14 0 14 15 8 7 5, Lane 8 13 0 15 12 14 6 12 12 9 5 3 13 11 12 13, Lane 2 0 15 13 9 3 14 5 10 13 8 11 5 11 12 12, Lane 9 12 15 15 2 1 1 9 1 8 15 15 0 7 13 7)
      = (Lane 14 13 15 9 11 14 15 2 5 11 6 6 6 13 3 2,
         Lane 5 10 2 15 8 1 3 6 5 8 2 13 1 7 3 14,
         Lane 6 7 0 3 4 10 15 6 10 11 12 3 12 5 7 6,
         Lane 5 13 0 8 14 2 5 1 3 9 8 15 11 10 10 14,
         Lane 8 9 6 7 4 13 4 3 2 12 8 7 13 14 11 0)"
    by (simp only: hash_state_1_def put_word_def lanes_eval)
  have t3: "lanes_perm12 (Lane 14 13 15 9 11 14 15 2 5 11 6 6 6 13 3 2, Lane 5 10 2 15 8 1 3 6 5 8 2 13 1 7 3 14, Lane 6 7 0 3 4 10 15 6 10 11 12 3 12 5 7 6, Lane 5 13 0 8 14 2 5 1 3 9 8 15 11 10 10 14, Lane 8 9 6 7 4 13 4 3 2 12 8 7 13 14 11 0)
      = (Lane 11 9 11 14 7 10 10 4 4 14 12 8 14 4 10 9,
         Lane 5 6 14 8 8 4 11 2 0 1 8 1 5 2 15 6,
         Lane 11 11 15 8 6 10 12 1 0 5 5 10 13 8 10 4,
         Lane 12 11 4 1 11 3 12 7 8 11 13 8 12 6 8 3,
         Lane 10 7 12 8 5 3 11 11 12 14 15 6 14 9 11 6)"
    by (simp only: hash_state_1_def put_word_def lanes_eval)
  have t4: "lanes_perm12 (Lane 11 9 11 14 7 10 10 4 4 14 12 8 14 4 10 9, Lane 5 6 14 8 8 4 11 2 0 1 8 1 5 2 15 6, Lane 11 11 15 8 6 10 12 1 0 5 5 10 13 8 10 4, Lane 12 11 4 1 11 3 12 7 8 11 13 8 12 6 8 3, Lane 10 7 12 8 5 3 11 11 12 14 15 6 14 9 11 6)
      = (Lane 12 4 13 14 11 5 1 15 1 11 10 3 5 7 9 12,
         Lane 1 15 4 10 11 0 5 7 7 2 2 9 13 6 14 2,
         Lane 9 3 5 0 13 8 5 5 7 14 4 15 9 9 5 4,
         Lane 2 4 2 7 15 15 2 0 11 6 9 3 12 7 13 15,
         Lane 5 6 8 1 11 4 4 3 12 4 6 1 9 4 8 9)"
    by (simp only: hash_state_1_def put_word_def lanes_eval)
  show ?thesis unfolding eval_digest [OF t1 t2 t3 t4] by simp
qed

lemma digest_13: "digest_words (state_of (put_word hash_state_1 (Lane 8 0 9 0 10 0 11 0 12 0 1 0 0 0 0 0)))
    = [0x94, 0x88, 0x3d, 0x2a, 0x44, 0xe8, 0xf1, 0x39, 0x64, 0xf9, 0x26, 0xde, 0x55, 0x35, 0x83, 0xdb, 0x7b, 0x1a, 0x82, 0xb0, 0xaa, 0xcc, 0x58, 0xef, 0x2d, 0x48, 0x46, 0xa5, 0xd6, 0xe8, 0xb4, 0xac]"
proof -
  have t1: "lanes_perm12 (put_word hash_state_1 (Lane 8 0 9 0 10 0 11 0 12 0 1 0 0 0 0 0))
      = (Lane 4 9 8 8 13 3 10 2 4 4 8 14 1 15 9 3,
         Lane 5 5 1 4 9 6 6 5 6 14 2 12 11 6 10 5,
         Lane 3 1 6 2 11 12 14 6 9 10 3 11 1 9 5 5,
         Lane 11 8 1 3 9 10 1 13 7 11 14 8 11 12 10 0,
         Lane 6 6 14 11 0 5 2 0 3 1 0 12 15 0 3 13)"
    by (simp only: hash_state_1_def put_word_def lanes_eval)
  have t2: "lanes_perm12 (Lane 4 9 8 8 13 3 10 2 4 4 8 14 1 15 9 3, Lane 5 5 1 4 9 6 6 5 6 14 2 12 11 6 10 5, Lane 3 1 6 2 11 12 14 6 9 10 3 11 1 9 5 5, Lane 11 8 1 3 9 10 1 13 7 11 14 8 11 12 10 0, Lane 6 6 14 11 0 5 2 0 3 1 0 12 15 0 3 13)
      = (Lane 4 6 9 15 6 2 14 13 5 5 5 3 3 8 11 13,
         Lane 6 12 15 15 0 10 8 12 9 5 13 4 2 12 7 10,
         Lane 4 0 3 1 13 1 3 0 12 12 13 10 2 5 4 8,
         Lane 13 10 14 1 15 10 6 2 1 0 5 13 8 15 5 2,
         Lane 8 1 4 0 0 6 5 6 13 13 6 10 1 11 1 15)"
    by (simp only: hash_state_1_def put_word_def lanes_eval)
  have t3: "lanes_perm12 (Lane 4 6 9 15 6 2 14 13 5 5 5 3 3 8 11 13, Lane 6 12 15 15 0 10 8 12 9 5 13 4 2 12 7 10, Lane 4 0 3 1 13 1 3 0 12 12 13 10 2 5 4 8, Lane 13 10 14 1 15 10 6 2 1 0 5 13 8 15 5 2, Lane 8 1 4 0 0 6 5 6 13 13 6 10 1 11 1 15)
      = (Lane 11 7 10 1 2 8 0 11 10 10 12 12 8 5 15 14,
         Lane 6 12 9 0 2 3 12 10 3 10 13 2 5 9 15 1,
         Lane 15 14 7 4 6 4 11 8 8 2 6 13 4 3 0 10,
         Lane 0 8 2 10 13 0 12 11 10 0 7 4 4 6 12 7,
         Lane 4 15 5 2 3 12 7 1 15 15 14 9 9 9 2 12)"
    by (simp only: hash_state_1_def put_word_def lanes_eval)
  have t4: "lanes_perm12 (Lane 11 7 10 1 2 8 0 11 10 10 12 12 8 5 15 14, Lane 6 12 9 0 2 3 12 10 3 10 13 2 5 9 15 1, Lane 15 14 7 4 6 4 11 8 8 2 6 13 4 3 0 10, Lane 0 8 2 10 13 0 12 11 10 0 7 4 4 6 12 7, Lane 4 15 5 2 3 12 7 1 15 15 14 9 9 9 2 12)
      = (Lane 13 2 8 4 6 4 5 10 6 13 8 14 4 11 12 10,
         Lane 8 11 10 0 0 2 11 6 15 14 15 2 11 1 13 10,
         Lane 9 15 7 1 7 4 7 0 8 7 4 7 3 3 3 4,
         Lane 8 15 10 12 15 14 12 4 0 9 6 7 13 3 5 7,
         Lane 0 7 2 3 1 0 15 0 6 9 13 11 15 10 9 12)"
    by (simp only: hash_state_1_def put_word_def lanes_eval)
  show ?thesis unfolding eval_digest [OF t1 t2 t3 t4] by simp
qed

lemma digest_14: "digest_words (state_of (put_word hash_state_1 (Lane 8 0 9 0 10 0 11 0 12 0 13 0 1 0 0 0)))
    = [0xbe, 0xb6, 0x35, 0x3f, 0x24, 0xe8, 0xde, 0xe9, 0xf2, 0xb9, 0x92, 0x79, 0xf2, 0x9f, 0x42, 0x5f, 0x7c, 0xce, 0x30, 0x98, 0xa3, 0x66, 0x5b, 0x7a, 0xf3, 0xaf, 0x86, 0xf7, 0x59, 0xcc, 0x98, 0x5d]"
proof -
  have t1: "lanes_perm12 (put_word hash_state_1 (Lane 8 0 9 0 10 0 11 0 12 0 13 0 1 0 0 0))
      = (Lane 14 11 6 11 5 3 15 3 4 2 8 14 14 13 9 14,
         Lane 6 8 6 6 3 7 1 15 3 14 15 9 3 13 14 4,
         Lane 11 10 0 7 3 2 0 14 5 0 15 15 14 3 5 4,
         Lane 12 6 12 9 4 3 5 15 11 1 12 13 8 15 9 11,
         Lane 2 8 7 10 0 11 11 7 6 0 8 9 13 6 4 3)"
    by (simp only: hash_state_1_def put_word_def lanes_eval)
  have t2: "lanes_perm12 (Lane 14 11 6 11 5 3 15 3 4 2 8 14 14 13 9 14, Lane 6 8 6 6 3 7 1 15 3 14 15 9 3 13 14 4, Lane 11 10 0 7 3 2 0 14 5 0 15 15 14 3 5 4, Lane 12 6 12 9 4 3 5 15 11 1 12 13 8 15 9 11, Lane 2 8 7 10 0 11 11 7 6 0 8 9 13 6 4 3)
      = (Lane 2 15 9 11 2 9 9 7 2 15 15 9 2 4 15 5,
         Lane 0 14 10 1 0 7 10 11 8 5 3 6 7 3 14 2,
         Lane 11 5 5 5 4 10 15 12 12 7 2 9 4 2 3 0,
         Lane 8 7 8 6 1 9 5 10 3 10 12 5 5 14 10 0,
         Lane 3 14 7 8 12 4 6 11 1 12 10 15 13 11 2 4)"
    by (simp only: hash_state_1_def put_word_def lanes_eval)
  have t3: "lanes_perm12 (Lane 2 15 9 11 2 9 9 7 2 15 15 9 2 4 15 5, Lane 0 14 10 1 0 7 10 11 8 5 3 6 7 3 14 2, Lane 11 5 5 5 4 10 15 12 12 7 2 9 4 2 3 0, Lane 8 7 8 6 1 9 5 10 3 10 12 5 5 14 10 0, Lane 3 14 7 8 12 4 6 11 1 12 10 15 13 11 2 4)
      = (Lane 12 7 14 12 0 3 8 9 3 10 6 6 11 5 10 7,
         Lane 15 11 9 0 13 13 9 2 2 5 14 10 15 12 15 15,
         Lane 8 12 0 0 3 5 12 10 14 12 5 3 13 10 11 15,
         Lane 2 14 14 15 15 14 4 0 10 3 15 14 13 15 5 1,
         Lane 13 3 7 3 10 11 10 8 10 15 5 3 8 15 11 15)"
    by (simp only: hash_state_1_def put_word_def lanes_eval)
  have t4: "lanes_perm12 (Lane 12 7 14 12 0 3 8 9 3 10 6 6 11 5 10 7, Lane 15 11 9 0 13 13 9 2 2 5 14 10 15 12 15 15, Lane 8 12 0 0 3 5 12 10 14 12 5 3 13 10 11 15, Lane 2 14 14 15 15 14 4 0 10 3 15 14 13 15 5 1, Lane 13 3 7 3 10 11 10 8 10 15 5 3 8 15 11 15)
      = (Lane 3 15 15 10 6 8 7 15 9 5 12 12 8 9 13 5,
         Lane 14 0 10 7 12 1 13 7 8 9 2 4 0 5 7 12,
         Lane 3 5 4 3 11 1 9 2 3 9 0 1 13 7 4 13,
         Lane 6 1 8 4 13 1 7 1 5 13 14 0 10 7 8 1,
         Lane 4 6 9 15 7 3 10 14 13 2 0 1 9 9 9 1)"
    by (simp only: hash_state_1_def put_word_def lanes_eval)
  show ?thesis unfolding eval_digest [OF t1 t2 t3 t4] by simp
qed

lemma digest_15: "digest_words (state_of (put_word hash_state_1 (Lane 8 0 9 0 10 0 11 0 12 0 13 0 14 0 1 0)))
    = [0x64, 0x21, 0x33, 0x0d, 0xf9, 0x9c, 0x05, 0xeb, 0x71, 0x54, 0x15, 0xee, 0x17, 0xb4, 0x55, 0xf2, 0x67, 0x4f, 0x86, 0x2a, 0xe3, 0xcc, 0x5b, 0xad, 0xff, 0xe4, 0x3a, 0x4a, 0x3e, 0xd2, 0x73, 0xe1]"
proof -
  have t1: "lanes_perm12 (put_word hash_state_1 (Lane 8 0 9 0 10 0 11 0 12 0 13 0 14 0 1 0))
      = (Lane 4 6 1 2 3 3 13 0 9 15 12 9 5 0 11 14,
         Lane 14 0 4 4 3 15 7 3 8 4 15 5 9 4 14 10,
         Lane 2 14 2 11 14 11 12 4 9 14 12 15 13 3 7 2,
         Lane 8 3 6 4 3 8 2 7 2 9 8 9 0 13 15 9,
         Lane 7 14 4 6 10 5 11 11 12 13 13 11 3 9 3 9)"
    by (simp only: hash_state_1_def put_word_def lanes_eval)
  have t2: "lanes_perm12 (Lane 4 6 1 2 3 3 13 0 9 15 12 9 5 0 11 14, Lane 14 0 4 4 3 15 7 3 8 4 15 5 9 4 14 10, Lane 2 14 2 11 14 11 12 4 9 14 12 15 13 3 7 2, Lane 8 3 6 4 3 8 2 7 2 9 8 9 0 13 15 9, Lane 7 14 4 6 10 5 11 11 12 13 13 11 3 9 3 9)
      = (Lane 1 7 4 5 5 1 14 14 7 1 4 11 5 5 2 15,
         Lane 8 2 12 5 3 6 15 8 4 6 15 14 5 5 4 12,
         Lane 1 4 9 15 1 4 8 15 9 9 1 2 14 1 11 1,
         Lane 3 15 14 1 3 7 9 3 15 1 6 14 11 9 8 9,
         Lane 11 5 2 8 10 10 12 2 8 4 14 2 7 0 15 4)"
    by (simp only: hash_state_1_def put_word_def lanes_eval)
  have t3: "lanes_perm12 (Lane 1 7 4 5 5 1 14 14 7 1 4 11 5 5 2 15, Lane 8 2 12 5 3 6 15 8 4 6 15 14 5 5 4 12, Lane 1 4 9 15 1 4 8 15 9 9 1 2 14 1 11 1, Lane 3 15 14 1 3 7 9 3 15 1 6 14 11 9 8 9, Lane 11 5 2 8 10 10 12 2 8 4 14 2 7 0 15 4)
      = (Lane 7 6 15 4 6 8 10 2 3 14 12 12 11 5 13 10,
         Lane 11 14 14 5 10 9 6 7 1 9 13 8 11 13 2 10,
         Lane 14 11 14 2 4 0 6 5 4 6 11 11 13 12 13 12,
         Lane 1 9 6 11 9 7 13 6 3 11 8 4 14 12 15 0,
         Lane 3 14 8 11 3 6 2 11 10 2 1 0 2 6 4 3)"
    by (simp only: hash_state_1_def put_word_def lanes_eval)
  have t4: "lanes_perm12 (Lane 7 6 15 4 6 8 10 2 3 14 12 12 11 5 13 10, Lane 11 14 14 5 10 9 6 7 1 9 13 8 11 13 2 10, Lane 14 11 14 2 4 0 6 5 4 6 11 11 13 12 13 12, Lane 1 9 6 11 9 7 13 6 3 11 8 4 14 12 15 0, Lane 3 14 8 11 3 6 2 11 10 2 1 0 2 6 4 3)
      = (Lane 15 15 4 14 10 3 10 4 14 3 2 13 3 7 1 14,
         Lane 15 6 7 7 2 3 3 13 7 5 8 8 5 14 7 13,
         Lane 4 5 0 14 3 3 1 12 9 1 14 1 15 9 1 8,
         Lane 4 0 5 14 1 6 13 2 1 1 5 12 3 3 15 4,
         Lane 5 15 0 5 0 2 6 14 12 2 10 12 5 1 11 11)"
    by (simp only: hash_state_1_def put_word_def lanes_eval)
  show ?thesis unfolding eval_digest [OF t1 t2 t3 t4] by simp
qed

lemma digest_16: "digest_words (state_of (put_word hash_state_2 (Lane 1 0 0 0 0 0 0 0 0 0 0 0 0 0 0 0)))
    = [0x31, 0x58, 0xc1, 0x94, 0x0a, 0x2f, 0xba, 0xdb, 0xd6, 0x8a, 0xb6, 0x61, 0x77, 0x78, 0x59, 0xb9, 0x4a, 0x68, 0x9e, 0x4e, 0xfc, 0x37, 0x59, 0x11, 0x46, 0x7a, 0xdd, 0xd6, 0x41, 0x83, 0x5c, 0x38]"
proof -
  have t1: "lanes_perm12 (put_word hash_state_2 (Lane 1 0 0 0 0 0 0 0 0 0 0 0 0 0 0 0))
      = (Lane 1 3 8 5 1 12 4 9 10 0 15 2 10 11 11 13,
         Lane 3 1 4 4 9 14 8 8 7 15 15 14 6 15 10 3,
         Lane 10 9 11 14 4 7 15 2 0 14 14 5 13 13 4 0,
         Lane 14 15 2 1 2 1 8 10 0 3 15 8 7 8 14 3,
         Lane 10 3 5 11 12 14 12 12 9 8 4 12 15 14 4 6)"
    by (simp only: hash_state_2_def put_word_def lanes_eval)
  have t2: "lanes_perm12 (Lane 1 3 8 5 1 12 4 9 10 0 15 2 10 11 11 13, Lane 3 1 4 4 9 14 8 8 7 15 15 14 6 15 10 3, Lane 10 9 11 14 4 7 15 2 0 14 14 5 13 13 4 0, Lane 14 15 2 1 2 1 8 10 0 3 15 8 7 8 14 3, Lane 10 3 5 11 12 14 12 12 9 8 4 12 15 14 4 6)
      = (Lane 6 13 10 8 6 11 1 6 7 7 8 7 9 5 9 11,
         Lane 7 8 4 15 6 13 8 3 13 13 15 1 3 15 11 15,
         Lane 5 10 2 5 5 6 7 15 9 13 0 8 15 10 13 4,
         Lane 6 4 14 11 1 6 8 9 0 3 14 6 11 12 10 12,
         Lane 0 2 11 9 2 15 10 4 4 0 3 12 15 3 7 9)"
    by (simp only: hash_state_2_def put_word_def lanes_eval)
  have t3: "lanes_perm12 (Lane 6 13 10 8 6 11 1 6 7 7 8 7 9 5 9 11, Lane 7 8 4 15 6 13 8 3 13 13 15 1 3 15 11 15, Lane 5 10 2 5 5 6 7 15 9 13 0 8 15 10 13 4, Lane 6 4 14 11 1 6 8 9 0 3 14 6 11 12 10 12, Lane 0 2 11 9 2 15 10 4 4 0 3 12 15 3 7 9)
      = (Lane 10 4 8 6 14 9 14 4 12 15 7 3 9 5 1 1,
         Lane 7 5 2 15 4 14 6 9 7 2 5 11 12 14 0 13,
         Lane 1 6 7 3 3 7 10 7 4 5 8 2 9 4 1 2,
         Lane 15 9 2 3 9 2 2 6 12 6 4 14 14 2 8 14,
         Lane 2 3 9 0 0 6 5 7 3 11 9 13 0 4 14 10)"
    by (simp only: hash_state_2_def put_word_def lanes_eval)
  have t4: "lanes_perm12 (Lane 10 4 8 6 14 9 14 4 12 15 7 3 9 5 1 1, Lane 7 5 2 15 4 14 6 9 7 2 5 11 12 14 0 13, Lane 1 6 7 3 3 7 10 7 4 5 8 2 9 4 1 2, Lane 15 9 2 3 9 2 2 6 12 6 4 14 14 2 8 14, Lane 2 3 9 0 0 6 5 7 3 11 9 13 0 4 14 10)
      = (Lane 6 4 10 7 13 13 6 13 1 4 3 8 12 5 8 3,
         Lane 7 7 3 8 3 14 6 5 4 5 13 4 2 12 0 2,
         Lane 4 6 13 6 5 7 8 10 11 4 11 9 15 0 8 11,
         Lane 4 1 7 8 5 15 9 7 10 0 8 4 4 9 12 12,
         Lane 0 10 5 2 7 2 12 7 9 5 0 10 6 10 13 6)"
    by (simp only: hash_state_2_def put_word_def lanes_eval)
  show ?thesis unfolding eval_digest [OF t1 t2 t3 t4] by simp
qed

lemma digest_17: "digest_words (state_of (put_word hash_state_2 (Lane 0 1 1 0 0 0 0 0 0 0 0 0 0 0 0 0)))
    = [0xf1, 0x49, 0xe9, 0x9d, 0xd0, 0xf4, 0x29, 0x59, 0x9b, 0xb8, 0x9b, 0x80, 0x79, 0xbf, 0x3f, 0x4d, 0xca, 0x3f, 0x29, 0x8e, 0xfe, 0xfc, 0xf9, 0xb1, 0xea, 0x16, 0xfe, 0x84, 0xf9, 0xb8, 0xb6, 0xe2]"
proof -
  have t1: "lanes_perm12 (put_word hash_state_2 (Lane 0 1 1 0 0 0 0 0 0 0 0 0 0 0 0 0))
      = (Lane 1 15 9 4 9 14 13 9 0 13 4 15 9 2 9 5,
         Lane 0 2 5 13 15 13 8 0 6 0 5 11 13 4 7 0,
         Lane 13 9 7 12 7 2 6 3 0 14 12 4 1 14 6 7,
         Lane 12 5 8 2 8 5 7 3 8 6 13 2 2 1 9 7,
         Lane 9 10 11 11 13 2 3 14 4 11 8 15 1 9 14 0)"
    by (simp only: hash_state_2_def put_word_def lanes_eval)
  have t2: "lanes_perm12 (Lane 1 15 9 4 9 14 13 9 0 13 4 15 9 2 9 5, Lane 0 2 5 13 15 13 8 0 6 0 5 11 13 4 7 0, Lane 13 9 7 12 7 2 6 3 0 14 12 4 1 14 6 7, Lane 12 5 8 2 8 5 7 3 8 6 13 2 2 1 9 7, Lane 9 10 11 11 13 2 3 14 4 11 8 15 1 9 14 0)
      = (Lane 11 9 8 11 11 9 0 8 9 7 15 11 15 3 13 4,
         Lane 2 0 9 13 1 0 3 6 14 15 0 10 11 10 11 1,
         Lane 13 2 14 10 5 2 15 2 0 15 4 15 10 2 13 2,
         Lane 2 5 9 14 5 6 1 6 14 0 1 1 10 15 13 2,
         Lane 1 0 10 15 12 8 13 9 4 9 6 0 3 3 0 4)"
    by (simp only: hash_state_2_def put_word_def lanes_eval)
  have t3: "lanes_perm12 (Lane 11 9 8 11 11 9 0 8 9 7 15 11 15 3 13 4, Lane 2 0 9 13 1 0 3 6 14 15 0 10 11 10 11 1, Lane 13 2 14 10 5 2 15 2 0 15 4 15 10 2 13 2, Lane 2 5 9 14 5 6 1 6 14 0 1 1 10 15 13 2, Lane 1 0 10 15 12 8 13 9 4 9 6 0 3 3 0 4)
      = (Lane 10 12 15 3 9 2 14 8 14 15 12 15 9 15 1 11,
         Lane 9 10 3 9 10 6 7 9 12 5 13 0 15 9 15 8,
         Lane 12 5 5 12 10 4 5 0 7 2 1 12 5 3 0 11,
         Lane 14 12 5 11 9 12 4 1 12 10 8 10 12 6 15 6,
         Lane 5 4 10 15 10 6 6 3 4 1 8 7 7 14 3 10)"
    by (simp only: hash_state_2_def put_word_def lanes_eval)
  have t4: "lanes_perm12 (Lane 10 12 15 3 9 2 14 8 14 15 12 15 9 15 1 11, Lane 9 10 3 9 10 6 7 9 12 5 13 0 15 9 15 8, Lane 12 5 5 12 10 4 5 0 7 2 1 12 5 3 0 11, Lane 14 12 5 11 9 12 4 1 12 10 8 10 12 6 15 6, Lane 5 4 10 15 10 6 6 3 4 1 8 7 7 14 3 10)
      = (Lane 10 14 6 1 14 15 4 8 9 15 8 11 6 11 2 14,
         Lane 6 0 8 2 11 14 2 6 10 0 6 6 11 2 10 3,
         Lane 9 11 13 2 1 8 9 12 5 10 12 3 11 5 15 7,
         Lane 13 13 12 1 1 10 6 0 6 4 10 8 10 4 14 7,
         Lane 5 1 5 12 9 15 1 1 11 12 12 7 2 0 1 13)"
    by (simp only: hash_state_2_def put_word_def lanes_eval)
  show ?thesis unfolding eval_digest [OF t1 t2 t3 t4] by simp
qed

lemma digest_18: "digest_words (state_of (put_word hash_state_2 (Lane 0 1 1 1 1 0 0 0 0 0 0 0 0 0 0 0)))
    = [0xd0, 0x70, 0xf7, 0xba, 0x0e, 0x9b, 0xcd, 0xb6, 0xb3, 0x4e, 0x83, 0x57, 0x34, 0x3e, 0x90, 0x41, 0x94, 0x31, 0x46, 0xf3, 0x34, 0xfd, 0xaf, 0x6e, 0x20, 0x09, 0x27, 0x5f, 0x6f, 0x25, 0xcb, 0xed]"
proof -
  have t1: "lanes_perm12 (put_word hash_state_2 (Lane 0 1 1 1 1 0 0 0 0 0 0 0 0 0 0 0))
      = (Lane 0 13 0 7 7 15 10 11 14 0 11 9 13 12 6 11,
         Lane 11 15 12 2 11 3 11 5 6 14 9 1 4 6 12 11,
         Lane 3 14 2 10 10 0 2 14 11 5 2 0 14 13 11 2,
         Lane 11 6 2 7 6 0 1 13 6 8 3 8 2 5 2 5,
         Lane 3 2 12 9 10 7 6 0 1 5 4 10 8 15 10 15)"
    by (simp only: hash_state_2_def put_word_def lanes_eval)
  have t2: "lanes_perm12 (Lane 0 13 0 7 7 15 10 11 14 0 11 9 13 12 6 11, Lane 11 15 12 2 11 3 11 5 6 14 9 1 4 6 12 11, Lane 3 14 2 10 10 0 2 14 11 5 2 0 14 13 11 2, Lane 11 6 2 7 6 0 1 13 6 8 3 8 2 5 2 5, Lane 3 2 12 9 10 7 6 0 1 5 4 10 8 15 10 15)
      = (Lane 3 11 14 4 3 8 7 5 4 3 14 3 0 9 1 4,
         Lane 5 0 15 5 9 9 3 2 2 2 10 14 15 8 9 14,
         Lane 4 9 11 7 15 4 3 4 3 14 15 1 6 14 5 8,
         Lane 3 3 1 15 9 8 15 15 12 4 0 13 11 13 14 8,
         Lane 15 14 14 6 10 2 5 3 15 14 14 6 6 4 0 7)"
    by (simp only: hash_state_2_def put_word_def lanes_eval)
  have t3: "lanes_perm12 (Lane 3 11 14 4 3 8 7 5 4 3 14 3 0 9 1 4, Lane 5 0 15 5 9 9 3 2 2 2 10 14 15 8 9 14, Lane 4 9 11 7 15 4 3 4 3 14 15 1 6 14 5 8, Lane 3 3 1 15 9 8 15 15 12 4 0 13 11 13 14 8, Lane 15 14 14 6 10 2 5 3 15 14 14 6 6 4 0 7)
      = (Lane 4 9 1 3 6 4 3 15 4 3 13 15 15 10 14 6,
         Lane 6 10 10 0 6 1 2 9 1 13 13 1 10 4 11 3,
         Lane 4 14 14 5 12 2 1 9 15 15 4 6 4 11 7 11,
         Lane 2 6 10 11 15 10 0 12 11 12 10 4 3 4 11 2,
         Lane 9 15 3 10 9 15 10 9 5 11 0 6 12 2 0 5)"
    by (simp only: hash_state_2_def put_word_def lanes_eval)
  have t4: "lanes_perm12 (Lane 4 9 1 3 6 4 3 15 4 3 13 15 15 10 14 6, Lane 6 10 10 0 6 1 2 9 1 13 13 1 10 4 11 3, Lane 4 14 14 5 12 2 1 9 15 15 4 6 4 11 7 11, Lane 2 6 10 11 15 10 0 12 11 12 10 4 3 4 11 2, Lane 9 15 3 10 9 15 10 9 5 11 0 6 12 2 0 5)
      = (Lane 0 2 9 0 7 2 15 5 15 6 5 2 11 12 13 14,
         Lane 11 13 8 4 3 11 15 5 4 10 3 3 9 0 2 6,
         Lane 5 7 0 4 4 11 12 14 6 10 15 9 9 1 12 0,
         Lane 7 11 8 6 9 2 7 7 3 15 11 4 8 1 6 14,
         Lane 10 10 4 14 13 4 8 2 11 15 10 0 4 15 12 9)"
    by (simp only: hash_state_2_def put_word_def lanes_eval)
  show ?thesis unfolding eval_digest [OF t1 t2 t3 t4] by simp
qed

lemma digest_19: "digest_words (state_of (put_word hash_state_2 (Lane 0 1 1 1 2 1 1 0 0 0 0 0 0 0 0 0)))
    = [0x75, 0x94, 0x01, 0xba, 0x2d, 0x33, 0x73, 0xeb, 0x5a, 0x01, 0x52, 0xbd, 0xe6, 0xfc, 0xc7, 0x26, 0xec, 0x65, 0xde, 0xe7, 0x95, 0xa5, 0x74, 0xf1, 0xd7, 0x15, 0xf3, 0xca, 0xc2, 0x1f, 0x03, 0x81]"
proof -
  have t1: "lanes_perm12 (put_word hash_state_2 (Lane 0 1 1 1 2 1 1 0 0 0 0 0 0 0 0 0))
      = (Lane 5 7 4 9 1 0 10 11 13 2 3 3 3 7 11 14,
         Lane 2 4 11 2 8 14 11 1 7 11 14 11 6 0 1 0,
         Lane 15 15 1 14 14 6 6 14 4 1 6 14 5 5 13 7,
         Lane 8 10 15 3 6 13 7 15 14 11 0 10 5 11 9 15,
         Lane 14 0 10 2 15 15 4 2 8 4 8 11 13 7 8 13)"
    by (simp only: hash_state_2_def put_word_def lanes_eval)
  have t2: "lanes_perm12 (Lane 5 7 4 9 1 0 10 11 13 2 3 3 3 7 11 14, Lane 2 4 11 2 8 14 11 1 7 11 14 11 6 0 1 0, Lane 15 15 1 14 14 6 6 14 4 1 6 14 5 5 13 7, Lane 8 10 15 3 6 13 7 15 14 11 0 10 5 11 9 15, Lane 14 0 10 2 15 15 4 2 8 4 8 11 13 7 8 13)
      = (Lane 10 5 1 0 2 5 13 11 6 14 12 15 7 12 6 2,
         Lane 11 10 4 6 14 5 10 4 12 3 10 1 9 13 13 5,
         Lane 0 9 2 6 1 7 14 14 4 1 11 7 14 8 15 11,
         Lane 11 5 9 11 5 13 6 7 15 12 2 7 8 15 9 9,
         Lane 13 5 6 7 7 3 11 3 2 7 10 0 9 5 9 2)"
    by (simp only: hash_state_2_def put_word_def lanes_eval)
  have t3: "lanes_perm12 (Lane 10 5 1 0 2 5 13 11 6 14 12 15 7 12 6 2, Lane 11 10 4 6 14 5 10 4 12 3 10 1 9 13 13 5, Lane 0 9 2 6 1 7 14 14 4 1 11 7 14 8 15 11, Lane 11 5 9 11 5 13 6 7 15 12 2 7 8 15 9 9, Lane 13 5 6 7 7 3 11 3 2 7 10 0 9 5 9 2)
      = (Lane 12 14 5 6 14 13 7 14 5 9 5 10 4 7 1 15,
         Lane 2 8 6 15 6 4 15 6 1 12 15 10 10 3 15 1,
         Lane 8 8 0 10 4 12 14 0 1 0 2 0 0 8 2 4,
         Lane 12 6 12 6 15 15 12 3 14 12 0 14 8 11 4 5,
         Lane 5 1 1 8 11 7 14 3 1 5 13 14 14 9 15 4)"
    by (simp only: hash_state_2_def put_word_def lanes_eval)
  have t4: "lanes_perm12 (Lane 12 14 5 6 14 13 7 14 5 9 5 10 4 7 1 15, Lane 2 8 6 15 6 4 15 6 1 12 15 10 10 3 15 1, Lane 8 8 0 10 4 12 14 0 1 0 2 0 0 8 2 4, Lane 12 6 12 6 15 15 12 3 14 12 0 14 8 11 4 5, Lane 5 1 1 8 11 7 14 3 1 5 13 14 14 9 15 4)
      = (Lane 7 13 5 1 3 15 10 12 2 12 15 1 3 0 1 8,
         Lane 12 14 0 1 7 4 9 5 0 13 14 13 7 11 1 13,
         Lane 6 8 8 15 15 11 12 11 7 1 9 7 10 10 13 8,
         Lane 11 8 6 0 0 5 11 4 1 11 10 8 4 1 2 13,
         Lane 14 8 4 8 13 3 5 12 11 8 1 5 10 9 4 12)"
    by (simp only: hash_state_2_def put_word_def lanes_eval)
  show ?thesis unfolding eval_digest [OF t1 t2 t3 t4] by simp
qed

lemma digest_20: "digest_words (state_of (put_word hash_state_2 (Lane 0 1 1 1 2 1 3 1 1 0 0 0 0 0 0 0)))
    = [0x98, 0x94, 0x1e, 0x48, 0x4f, 0xba, 0xe8, 0x74, 0x52, 0xdd, 0xaf, 0x60, 0x30, 0x08, 0x8b, 0x79, 0x8a, 0x56, 0xc3, 0x6e, 0xb6, 0xd4, 0xd3, 0xe9, 0x4b, 0x5c, 0xff, 0x78, 0xb2, 0x0e, 0x04, 0x81]"
proof -
  have t1: "lanes_perm12 (put_word hash_state_2 (Lane 0 1 1 1 2 1 3 1 1 0 0 0 0 0 0 0))
      = (Lane 8 9 4 9 14 1 8 4 15 4 10 11 8 14 4 7,
         Lane 10 7 14 13 1 14 14 0 7 6 12 8 15 0 11 8,
         Lane 1 5 13 4 3 14 11 10 3 5 10 6 5 8 7 10,
         Lane 2 4 11 11 11 13 1 6 3 2 8 4 3 7 8 9,
         Lane 3 13 5 13 6 8 8 3 5 7 10 2 12 2 6 11)"
    by (simp only: hash_state_2_def put_word_def lanes_eval)
  have t2: "lanes_perm12 (Lane 8 9 4 9 14 1 8 4 15 4 10 11 8 14 4 7, Lane 10 7 14 13 1 14 14 0 7 6 12 8 15 0 11 8, Lane 1 5 13 4 3 14 11 10 3 5 10 6 5 8 7 10, Lane 2 4 11 11 11 13 1 6 3 2 8 4 3 7 8 9, Lane 3 13 5 13 6 8 8 3 5 7 10 2 12 2 6 11)
      = (Lane 2 5 13 13 15 10 0 6 0 3 8 0 11 8 9 7,
         Lane 7 4 12 8 12 5 4 2 3 9 6 2 0 7 2 1,
         Lane 13 11 15 0 13 1 15 3 15 15 10 5 4 10 0 9,
         Lane 2 4 12 10 0 14 4 2 12 15 8 9 8 15 15 7,
         Lane 15 14 14 13 7 5 2 15 10 1 9 11 5 2 14 14)"
    by (simp only: hash_state_2_def put_word_def lanes_eval)
  have t3: "lanes_perm12 (Lane 2 5 13 13 15 10 0 6 0 3 8 0 11 8 9 7, Lane 7 4 12 8 12 5 4 2 3 9 6 2 0 7 2 1, Lane 13 11 15 0 13 1 15 3 15 15 10 5 4 10 0 9, Lane 2 4 12 10 0 14 4 2 12 15 8 9 8 15 15 7, Lane 15 14 14 13 7 5 2 15 10 1 9 11 5 2 14 14)
      = (Lane 10 8 6 5 3 12 14 6 6 11 4 13 3 13 9 14,
         Lane 9 4 9 2 13 10 15 14 6 3 11 10 4 15 8 1,
         Lane 9 14 6 0 5 1 13 9 13 1 1 11 4 10 13 14,
         Lane 12 10 0 0 7 4 0 15 11 7 12 12 8 5 2 12,
         Lane 3 2 6 0 9 15 15 15 15 13 6 0 2 12 10 2)"
    by (simp only: hash_state_2_def put_word_def lanes_eval)
  have t4: "lanes_perm12 (Lane 10 8 6 5 3 12 14 6 6 11 4 13 3 13 9 14, Lane 9 4 9 2 13 10 15 14 6 3 11 10 4 15 8 1, Lane 9 14 6 0 5 1 13 9 13 1 1 11 4 10 13 14, Lane 12 10 0 0 7 4 0 15 11 7 12 12 8 5 2 12, Lane 3 2 6 0 9 15 15 15 15 13 6 0 2 12 10 2)
      = (Lane 11 4 12 5 15 15 8 7 2 11 14 0 4 0 1 8,
         Lane 6 14 4 2 14 15 15 1 3 15 2 11 9 2 11 5,
         Lane 7 13 3 15 11 8 4 11 3 3 6 0 4 15 14 9,
         Lane 12 3 8 13 2 10 15 7 6 8 4 5 1 3 15 1,
         Lane 1 10 5 4 12 12 0 8 13 10 12 13 8 3 9 1)"
    by (simp only: hash_state_2_def put_word_def lanes_eval)
  show ?thesis unfolding eval_digest [OF t1 t2 t3 t4] by simp
qed

lemma digest_21: "digest_words (state_of (put_word hash_state_2 (Lane 0 1 1 1 2 1 3 1 4 1 1 0 0 0 0 0)))
    = [0x41, 0xc8, 0xf7, 0x33, 0xb9, 0xd8, 0x23, 0xbe, 0x30, 0xb6, 0x4e, 0xe7, 0x17, 0xc3, 0x22, 0xc5, 0x76, 0xd3, 0x67, 0x81, 0xff, 0xc5, 0xf7, 0xd6, 0xc7, 0x30, 0xec, 0xa5, 0x49, 0x78, 0x97, 0x25]"
proof -
  have t1: "lanes_perm12 (put_word hash_state_2 (Lane 0 1 1 1 2 1 3 1 4 1 1 0 0 0 0 0))
      = (Lane 1 4 8 12 7 15 3 3 9 11 8 13 3 2 14 11,
         Lane 5 13 12 9 9 9 10 3 10 0 13 1 6 15 14 15,
         Lane 0 6 14 11 7 6 11 6 3 7 14 9 8 8 8 6,
         Lane 14 2 9 2 7 11 6 8 14 1 15 9 15 0 11 9,
         Lane 13 10 0 0 13 9 14 12 11 4 0 13 15 13 12 12)"
    by (simp only: hash_state_2_def put_word_def lanes_eval)
  have t2: "lanes_perm12 (Lane 1 4 8 12 7 15 3 3 9 11 8 13 3 2 14 11, Lane 5 13 12 9 9 9 10 3 10 0 13 1 6 15 14 15, Lane 0 6 14 11 7 6 11 6 3 7 14 9 8 8 8 6, Lane 14 2 9 2 7 11 6 8 14 1 15 9 15 0 11 9, Lane 13 10 0 0 13 9 14 12 11 4 0 13 15 13 12 12)
      = (Lane 0 3 6 11 14 4 7 14 7 1 3 12 2 2 5 12,
         Lane 2 5 12 6 13 12 9 8 12 14 14 14 14 1 3 15,
         Lane 8 1 2 1 14 9 8 12 5 5 0 12 2 9 13 10,
         Lane 13 0 9 9 6 14 4 5 13 0 10 8 6 5 1 9,
         Lane 6 4 8 0 7 4 13 11 5 6 4 0 8 13 3 13)"
    by (simp only: hash_state_2_def put_word_def lanes_eval)
  have t3: "lanes_perm12 (Lane 0 3 6 11 14 4 7 14 7 1 3 12 2 2 5 12, Lane 2 5 12 6 13 12 9 8 12 14 14 14 14 1 3 15, Lane 8 1 2 1 14 9 8 12 5 5 0 12 2 9 13 10, Lane 13 0 9 9 6 14 4 5 13 0 10 8 6 5 1 9, Lane 6 4 8 0 7 4 13 11 5 6 4 0 8 13 3 13)
      = (Lane 6 7 3 13 7 6 1 8 15 15 5 12 7 15 6 13,
         Lane 3 8 4 14 3 6 4 8 9 10 12 1 4 7 11 11,
         Lane 3 1 4 13 9 13 7 15 10 4 6 15 5 14 8 9,
         Lane 8 0 12 13 4 1 10 7 13 6 9 9 4 5 1 13,
         Lane 2 9 14 15 5 6 6 3 5 0 5 1 2 14 6 7)"
    by (simp only: hash_state_2_def put_word_def lanes_eval)
  have t4: "lanes_perm12 (Lane 6 7 3 13 7 6 1 8 15 15 5 12 7 15 6 13, Lane 3 8 4 14 3 6 4 8 9 10 12 1 4 7 11 11, Lane 3 1 4 13 9 13 7 15 10 4 6 15 5 14 8 9, Lane 8 0 12 13 4 1 10 7 13 6 9 9 4 5 1 13, Lane 2 9 14 15 5 6 6 3 5 0 5 1 2 14 6 7)
      = (Lane 7 12 0 3 12 14 5 10 9 4 8 7 7 9 5 2,
         Lane 13 12 7 10 4 6 8 4 6 4 15 1 12 10 7 15,
         Lane 14 14 12 12 12 5 10 9 9 3 12 15 15 12 9 14,
         Lane 3 15 1 3 10 6 6 7 1 11 10 2 11 6 7 7,
         Lane 11 8 4 12 13 4 11 1 8 9 12 15 5 1 3 0)"
    by (simp only: hash_state_2_def put_word_def lanes_eval)
  show ?thesis unfolding eval_digest [OF t1 t2 t3 t4] by simp
qed

lemma digest_22: "digest_words (state_of (put_word hash_state_2 (Lane 0 1 1 1 2 1 3 1 4 1 5 1 1 0 0 0)))
    = [0x04, 0x18, 0x3f, 0x60, 0x3c, 0xf5, 0x6e, 0xa2, 0x5e, 0x5c, 0x29, 0x9d, 0x3f, 0xbd, 0xb1, 0x72, 0x28, 0xd6, 0x41, 0x1f, 0x15, 0xe9, 0xf7, 0x7c, 0x77, 0x89, 0xce, 0x89, 0xec, 0x9b, 0x8b, 0x0e]"
proof -
  have t1: "lanes_perm12 (put_word hash_state_2 (Lane 0 1 1 1 2 1 3 1 4 1 5 1 1 0 0 0))
      = (Lane 4 0 8 1 15 3 0 6 12 3 5 15 14 6 2 10,
         Lane 6 4 14 0 14 11 7 15 4 3 3 14 2 9 10 15,
         Lane 2 2 10 11 9 1 3 5 8 0 13 9 9 1 2 1,
         Lane 11 7 13 2 1 15 1 13 12 11 4 10 3 0 4 0,
         Lane 11 8 7 2 15 12 9 10 8 1 14 11 8 11 1 4)"
    by (simp only: hash_state_2_def put_word_def lanes_eval)
  have t2: "lanes_perm12 (Lane 4 0 8 1 15 3 0 6 12 3 5 15 14 6 2 10, Lane 6 4 14 0 14 11 7 15 4 3 3 14 2 9 10 15, Lane 2 2 10 11 9 1 3 5 8 0 13 9 9 1 2 1, Lane 11 7 13 2 1 15 1 13 12 11 4 10 3 0 4 0, Lane 11 8 7 2 15 12 9 10 8 1 14 11 8 11 1 4)
      = (Lane 14 5 12 5 9 2 13 9 15 3 13 11 1 11 2 7,
         Lane 6 10 5 3 7 5 4 9 14 5 3 6 2 0 11 6,
         Lane 1 4 11 0 14 8 3 12 3 5 5 14 13 13 11 0,
         Lane 7 3 3 14 1 3 7 11 2 7 15 6 5 8 12 3,
         Lane 0 0 6 13 11 10 15 1 0 7 15 10 8 14 14 14)"
    by (simp only: hash_state_2_def put_word_def lanes_eval)
  have t3: "lanes_perm12 (Lane 14 5 12 5 9 2 13 9 15 3 13 11 1 11 2 7, Lane 6 10 5 3 7 5 4 9 14 5 3 6 2 0 11 6, Lane 1 4 11 0 14 8 3 12 3 5 5 14 13 13 11 0, Lane 7 3 3 14 1 3 7 11 2 7 15 6 5 8 12 3, Lane 0 0 6 13 11 10 15 1 0 7 15 10 8 14 14 14)
      = (Lane 8 2 6 13 1 4 15 1 5 1 9 14 7 15 12 7,
         Lane 13 1 3 13 5 7 13 6 2 6 4 11 2 14 6 8,
         Lane 8 11 12 10 10 10 14 14 7 8 1 6 0 15 9 0,
         Lane 11 8 11 13 6 14 0 3 5 6 2 12 1 12 7 12,
         Lane 11 6 5 13 15 9 1 11 8 10 13 1 1 7 5 2)"
    by (simp only: hash_state_2_def put_word_def lanes_eval)
  have t4: "lanes_perm12 (Lane 8 2 6 13 1 4 15 1 5 1 9 14 7 15 12 7, Lane 13 1 3 13 5 7 13 6 2 6 4 11 2 14 6 8, Lane 8 11 12 10 10 10 14 14 7 8 1 6 0 15 9 0, Lane 11 8 11 13 6 14 0 3 5 6 2 12 1 12 7 12, Lane 11 6 5 13 15 9 1 11 8 10 13 1 1 7 5 2)
      = (Lane 7 7 9 8 14 12 9 8 12 14 11 9 11 8 14 0,
         Lane 7 3 9 1 3 14 11 7 10 2 15 0 11 1 9 12,
         Lane 0 7 0 3 10 11 0 13 3 6 13 15 12 6 4 10,
         Lane 10 10 7 15 0 8 5 1 15 2 10 0 8 8 13 6,
         Lane 0 0 15 7 7 3 12 4 3 3 0 1 9 6 5 11)"
    by (simp only: hash_state_2_def put_word_def lanes_eval)
  show ?thesis unfolding eval_digest [OF t1 t2 t3 t4] by simp
qed

lemma digest_23: "digest_words (state_of (put_word hash_state_2 (Lane 0 1 1 1 2 1 3 1 4 1 5 1 6 1 1 0)))
    = [0xb4, 0xf8, 0x8d, 0x12, 0x1e, 0xdd, 0xf6, 0xd1, 0xfe, 0xa9, 0xae, 0xf1, 0x5f, 0x68, 0xa0, 0xf3, 0xa1, 0x6d, 0x3d, 0x2c, 0xdd, 0x98, 0x17, 0x22, 0x58, 0x09, 0xc2, 0x04, 0x52, 0xb0, 0x4c, 0x61]"
proof -
  have t1: "lanes_perm12 (put_word hash_state_2 (Lane 0 1 1 1 2 1 3 1 4 1 5 1 6 1 1 0))
      = (Lane 4 11 8 15 13 8 2 1 14 1 13 13 6 15 1 13,
         Lane 9 12 15 3 0 3 13 0 12 15 6 10 9 1 14 9,
         Lane 9 2 2 5 13 1 10 5 8 7 13 1 8 6 9 4,
         Lane 7 8 15 10 5 13 1 11 15 10 0 4 10 4 8 15,
         Lane 7 0 11 9 4 5 7 1 7 12 12 7 5 3 4 15)"
    by (simp only: hash_state_2_def put_word_def lanes_eval)
  have t2: "lanes_perm12 (Lane 4 11 8 15 13 8 2 1 14 1 13 13 6 15 1 13, Lane 9 12 15 3 0 3 13 0 12 15 6 10 9 1 14 9, Lane 9 2 2 5 13 1 10 5 8 7 13 1 8 6 9 4, Lane 7 8 15 10 5 13 1 11 15 10 0 4 10 4 8 15, Lane 7 0 11 9 4 5 7 1 7 12 12 7 5 3 4 15)
      = (Lane 14 15 9 10 14 10 1 15 15 5 8 6 0 10 3 15,
         Lane 7 9 4 10 0 2 3 15 2 15 8 8 1 0 14 7,
         Lane 12 3 11 15 11 0 14 9 1 2 7 10 10 14 3 7,
         Lane 6 4 9 8 14 15 1 7 7 15 10 8 3 7 0 10,
         Lane 3 3 10 13 8 11 1 14 15 5 2 6 1 10 0 12)"
    by (simp only: hash_state_2_def put_word_def lanes_eval)
  have t3: "lanes_perm12 (Lane 14 15 9 10 14 10 1 15 15 5 8 6 0 10 3 15, Lane 7 9 4 10 0 2 3 15 2 15 8 8 1 0 14 7, Lane 12 3 11 15 11 0 14 9 1 2 7 10 10 14 3 7, Lane 6 4 9 8 14 15 1 7 7 15 10 8 3 7 0 10, Lane 3 3 10 13 8 11 1 14 15 5 2 6 1 10 0 12)
      = (Lane 1 10 13 6 13 3 12 2 13 13 8 9 7 1 2 2,
         Lane 4 10 6 14 13 1 14 1 15 11 3 10 8 6 3 11,
         Lane 10 14 13 8 6 9 9 15 6 13 9 8 15 12 1 14,
         Lane 11 13 4 14 14 7 6 10 13 4 1 2 7 4 8 8,
         Lane 6 11 8 3 8 13 4 9 10 5 8 13 12 3 6 5)"
    by (simp only: hash_state_2_def put_word_def lanes_eval)
  have t4: "lanes_perm12 (Lane 1 10 13 6 13 3 12 2 13 13 8 9 7 1 2 2, Lane 4 10 6 14 13 1 14 1 15 11 3 10 8 6 3 11, Lane 10 14 13 8 6 9 9 15 6 13 9 8 15 12 1 14, Lane 11 13 4 14 14 7 6 10 13 4 1 2 7 4 8 8, Lane 6 11 8 3 8 13 4 9 10 5 8 13 12 3 6 5)
      = (Lane 8 5 9 0 2 12 4 0 2 5 0 11 12 4 1 6,
         Lane 7 0 8 12 2 9 6 7 11 2 14 1 5 8 12 15,
         Lane 2 15 13 4 2 1 15 13 9 2 5 12 15 13 7 15,
         Lane 12 1 0 10 6 14 4 6 12 5 6 5 6 3 10 7,
         Lane 8 5 1 12 9 12 6 7 8 4 13 8 11 12 4 1)"
    by (simp only: hash_state_2_def put_word_def lanes_eval)
  show ?thesis unfolding eval_digest [OF t1 t2 t3 t4] by simp
qed

lemma digest_24: "digest_words (state_of (put_word hash_state_3 (Lane 1 0 0 0 0 0 0 0 0 0 0 0 0 0 0 0)))
    = [0x7e, 0x6a, 0x31, 0xfa, 0x65, 0x59, 0x53, 0x6a, 0x7a, 0xd6, 0x16, 0x22, 0xf6, 0x15, 0x0f, 0xa3, 0xb2, 0xa2, 0x9e, 0xbb, 0xf3, 0x9a, 0xd8, 0x01, 0x1b, 0x79, 0x02, 0xcc, 0x61, 0x25, 0x71, 0xe6]"
proof -
  have t1: "lanes_perm12 (put_word hash_state_3 (Lane 1 0 0 0 0 0 0 0 0 0 0 0 0 0 0 0))
      = (Lane 14 7 10 6 1 3 10 15 5 6 9 5 3 5 10 6,
         Lane 2 6 7 10 1 12 8 4 4 6 11 15 10 1 5 2,
         Lane 0 9 11 2 11 6 5 10 2 0 0 4 11 10 12 8,
         Lane 12 5 8 7 1 14 4 11 3 5 8 8 2 0 12 7,
         Lane 13 10 15 4 10 10 10 4 13 1 11 7 11 8 3 10)"
    by (simp only: hash_state_3_def put_word_def lanes_eval)
  have t2: "lanes_perm12 (Lane 14 7 10 6 1 3 10 15 5 6 9 5 3 5 10 6, Lane 2 6 7 10 1 12 8 4 4 6 11 15 10 1 5 2, Lane 0 9 11 2 11 6 5 10 2 0 0 4 11 10 12 8, Lane 12 5 8 7 1 14 4 11 3 5 8 8 2 0 12 7, Lane 13 10 15 4 10 10 10 4 13 1 11 7 11 8 3 10)
      = (Lane 10 7 6 13 6 1 2 2 6 15 5 1 15 0 3 10,
         Lane 4 0 10 0 7 2 12 8 4 12 7 3 12 11 1 4,
         Lane 13 9 14 0 13 3 15 12 15 10 9 3 2 7 7 12,
         Lane 0 7 3 6 2 2 2 12 1 5 0 10 4 2 4 3,
         Lane 9 1 7 8 5 3 3 8 6 11 10 2 8 4 14 7)"
    by (simp only: hash_state_3_def put_word_def lanes_eval)
  have t3: "lanes_perm12 (Lane 10 7 6 13 6 1 2 2 6 15 5 1 15 0 3 10, Lane 4 0 10 0 7 2 12 8 4 12 7 3 12 11 1 4, Lane 13 9 14 0 13 3 15 12 15 10 9 3 2 7 7 12, Lane 0 7 3 6 2 2 2 12 1 5 0 10 4 2 4 3, Lane 9 1 7 8 5 3 3 8 6 11 10 2 8 4 14 7)
      = (Lane 2 11 2 10 14 9 11 11 3 15 10 9 8 13 1 0,
         Lane 13 4 14 9 1 8 7 1 6 8 10 15 4 1 6 12,
         Lane 12 9 0 1 4 0 2 0 4 3 4 11 11 7 7 14,
         Lane 2 14 13 8 8 9 6 8 3 14 0 5 13 9 6 9,
         Lane 4 11 14 6 1 3 5 3 10 2 13 9 2 12 4 12)"
    by (simp only: hash_state_3_def put_word_def lanes_eval)
  have t4: "lanes_perm12 (Lane 2 11 2 10 14 9 11 11 3 15 10 9 8 13 1 0, Lane 13 4 14 9 1 8 7 1 6 8 10 15 4 1 6 12, Lane 12 9 0 1 4 0 2 0 4 3 4 11 11 7 7 14, Lane 2 14 13 8 8 9 6 8 3 14 0 5 13 9 6 9, Lane 4 11 14 6 1 3 5 3 10 2 13 9 2 12 4 12)
      = (Lane 11 1 9 7 2 0 12 12 1 6 5 2 1 7 6 14,
         Lane 4 7 1 3 9 3 14 6 1 7 13 6 3 10 8 6,
         Lane 1 11 15 0 9 14 7 7 15 10 5 4 1 6 9 3,
         Lane 0 9 12 9 11 1 14 14 5 14 13 9 11 13 4 10,
         Lane 14 15 12 13 15 11 13 7 5 0 12 11 3 1 11 9)"
    by (simp only: hash_state_3_def put_word_def lanes_eval)
  show ?thesis unfolding eval_digest [OF t1 t2 t3 t4] by simp
qed

lemma digest_25: "digest_words (state_of (put_word hash_state_3 (Lane 8 1 1 0 0 0 0 0 0 0 0 0 0 0 0 0)))
    = [0xac, 0xf3, 0x9f, 0xb4, 0x9c, 0xba, 0xa0, 0xb4, 0xbc, 0x04, 0xc5, 0x48, 0x22, 0x45, 0x43, 0xb7, 0x50, 0x19, 0xba, 0x63, 0x9c, 0xe4, 0xd0, 0xa5, 0x8c, 0xae, 0xda, 0xf1, 0x7e, 0x0f, 0x8d, 0x9f]"
proof -
  have t1: "lanes_perm12 (put_word hash_state_3 (Lane 8 1 1 0 0 0 0 0 0 0 0 0 0 0 0 0))
      = (Lane 12 10 3 15 15 9 4 11 12 9 10 11 0 10 4 11,
         Lane 0 7 8 8 6 1 11 2 6 10 7 9 5 8 10 15,
         Lane 10 9 12 8 9 1 14 14 9 12 9 14 14 0 0 12,
         Lane 12 8 11 10 9 13 15 4 7 14 10 5 11 6 2 14,
         Lane 5 8 4 4 4 7 2 10 13 9 9 11 6 9 10 12)"
    by (simp only: hash_state_3_def put_word_def lanes_eval)
  have t2: "lanes_perm12 (Lane 12 10 3 15 15 9 4 11 12 9 10 11 0 10 4 11, Lane 0 7 8 8 6 1 11 2 6 10 7 9 5 8 10 15, Lane 10 9 12 8 9 1 14 14 9 12 9 14 14 0 0 12, Lane 12 8 11 10 9 13 15 4 7 14 10 5 11 6 2 14, Lane 5 8 4 4 4 7 2 10 13 9 9 11 6 9 10 12)
      = (Lane 12 11 4 0 5 12 8 4 2 2 5 4 3 4 7 11,
         Lane 9 15 1 6 4 9 6 5 6 12 8 1 14 0 1 10,
         Lane 3 11 0 14 12 7 7 14 4 5 10 15 12 2 8 14,
         Lane 4 3 1 15 12 8 2 6 9 11 11 15 2 3 12 15,
         Lane 2 4 8 10 13 3 2 6 10 5 14 5 13 14 1 1)"
    by (simp only: hash_state_3_def put_word_def lanes_eval)
  have t3: "lanes_perm12 (Lane 12 11 4 0 5 12 8 4 2 2 5 4 3 4 7 11, Lane 9 15 1 6 4 9 6 5 6 12 8 1 14 0 1 10, Lane 3 11 0 14 12 7 7 14 4 5 10 15 12 2 8 14, Lane 4 3 1 15 12 8 2 6 9 11 11 15 2 3 12 15, Lane 2 4 8 10 13 3 2 6 10 5 14 5 13 14 1 1)
      = (Lane 0 5 9 1 10 11 3 6 12 9 4 14 0 13 5 10,
         Lane 5 3 7 4 7 1 5 13 13 7 3 13 7 14 10 3,
         Lane 8 14 8 15 12 5 11 0 5 12 3 15 3 11 5 2,
         Lane 15 12 2 9 6 5 14 13 10 9 11 12 4 11 15 12,
         Lane 4 9 3 12 9 1 2 15 4 11 4 1 2 5 15 2)"
    by (simp only: hash_state_3_def put_word_def lanes_eval)
  have t4: "lanes_perm12 (Lane 0 5 9 1 10 11 3 6 12 9 4 14 0 13 5 10, Lane 5 3 7 4 7 1 5 13 13 7 3 13 7 14 10 3, Lane 8 14 8 15 12 5 11 0 5 12 3 15 3 11 5 2, Lane 15 12 2 9 6 5 14 13 10 9 11 12 4 11 15 12, Lane 4 9 3 12 9 1 2 15 4 11 4 1 2 5 15 2)
      = (Lane 12 8 14 10 10 13 1 15 14 7 15 0 13 8 15 9,
         Lane 4 13 8 10 0 4 13 11 4 15 15 13 11 4 14 11,
         Lane 3 15 2 14 11 1 1 5 3 11 8 15 11 8 0 5,
         Lane 14 15 5 2 3 0 13 10 7 0 5 13 6 5 1 13,
         Lane 5 14 12 6 6 4 6 2 6 13 6 10 14 3 15 15)"
    by (simp only: hash_state_3_def put_word_def lanes_eval)
  show ?thesis unfolding eval_digest [OF t1 t2 t3 t4] by simp
qed

lemma digest_26: "digest_words (state_of (put_word hash_state_3 (Lane 8 1 9 1 1 0 0 0 0 0 0 0 0 0 0 0)))
    = [0xb1, 0xbb, 0x94, 0x8e, 0xda, 0x56, 0x00, 0x9f, 0x5d, 0x66, 0xed, 0x7b, 0xdc, 0x58, 0x94, 0xe5, 0xe7, 0x72, 0xd4, 0x34, 0x1b, 0xb7, 0x04, 0x05, 0xc3, 0x65, 0x51, 0x89, 0x76, 0xeb, 0x95, 0x73]"
proof -
  have t1: "lanes_perm12 (put_word hash_state_3 (Lane 8 1 9 1 1 0 0 0 0 0 0 0 0 0 0 0))
      = (Lane 1 11 11 11 4 9 14 8 10 13 6 5 0 0 15 9,
         Lane 1 13 4 8 12 1 10 5 10 11 0 13 1 3 9 12,
         Lane 1 5 5 4 13 3 11 3 14 13 2 7 10 15 14 6,
         Lane 10 12 14 9 10 15 8 5 7 12 1 9 1 1 9 2,
         Lane 13 10 9 1 10 11 6 5 0 3 7 5 8 10 5 9)"
    by (simp only: hash_state_3_def put_word_def lanes_eval)
  have t2: "lanes_perm12 (Lane 1 11 11 11 4 9 14 8 10 13 6 5 0 0 15 9, Lane 1 13 4 8 12 1 10 5 10 11 0 13 1 3 9 12, Lane 1 5 5 4 13 3 11 3 14 13 2 7 10 15 14 6, Lane 10 12 14 9 10 15 8 5 7 12 1 9 1 1 9 2, Lane 13 10 9 1 10 11 6 5 0 3 7 5 8 10 5 9)
      = (Lane 13 5 6 6 13 14 11 7 12 13 8 5 4 9 5 14,
         Lane 10 9 2 12 8 10 3 1 6 0 7 4 7 13 7 13,
         Lane 12 8 5 2 1 11 15 13 14 7 7 5 4 12 12 0,
         Lane 4 7 10 15 1 8 8 11 3 4 14 0 9 11 3 10,
         Lane 12 2 6 3 11 13 2 12 9 2 11 15 3 13 6 11)"
    by (simp only: hash_state_3_def put_word_def lanes_eval)
  have t3: "lanes_perm12 (Lane 13 5 6 6 13 14 11 7 12 13 8 5 4 9 5 14, Lane 10 9 2 12 8 10 3 1 6 0 7 4 7 13 7 13, Lane 12 8 5 2 1 11 15 13 14 7 7 5 4 12 12 0, Lane 4 7 10 15 1 8 8 11 3 4 14 0 9 11 3 10, Lane 12 2 6 3 11 13 2 12 9 2 11 15 3 13 6 11)
      = (Lane 7 14 2 7 4 13 4 3 11 1 7 11 4 0 5 0,
         Lane 9 4 15 14 10 12 14 5 4 4 4 12 12 10 6 3,
         Lane 0 13 4 11 10 2 11 6 2 12 8 2 7 13 12 10,
         Lane 12 15 13 8 9 5 11 11 11 14 4 7 1 9 10 2,
         Lane 10 7 4 0 15 5 8 15 14 3 5 10 8 14 10 9)"
    by (simp only: hash_state_3_def put_word_def lanes_eval)
  have t4: "lanes_perm12 (Lane 7 14 2 7 4 13 4 3 11 1 7 11 4 0 5 0, Lane 9 4 15 14 10 12 14 5 4 4 4 12 12 10 6 3, Lane 0 13 4 11 10 2 11 6 2 12 8 2 7 13 12 10, Lane 12 15 13 8 9 5 11 11 11 14 4 7 1 9 10 2, Lane 10 7 4 0 15 5 8 15 14 3 5 10 8 14 10 9)
      = (Lane 3 12 5 6 1 5 9 8 6 7 11 14 5 9 3 7,
         Lane 9 11 15 8 11 13 7 14 4 15 10 7 6 7 14 7,
         Lane 2 6 6 5 1 13 2 12 9 1 13 13 4 13 2 13,
         Lane 7 11 9 6 14 6 5 1 9 0 14 13 12 1 7 10,
         Lane 13 2 9 9 11 13 4 2 9 3 13 10 0 5 7 2)"
    by (simp only: hash_state_3_def put_word_def lanes_eval)
  show ?thesis unfolding eval_digest [OF t1 t2 t3 t4] by simp
qed

lemma digest_27: "digest_words (state_of (put_word hash_state_3 (Lane 8 1 9 1 10 1 1 0 0 0 0 0 0 0 0 0)))
    = [0xb1, 0x6e, 0xe2, 0x00, 0xdd, 0x3e, 0x0c, 0x85, 0xcc, 0xcd, 0x7f, 0xfc, 0x3d, 0x6b, 0xd7, 0x1e, 0xbc, 0xb7, 0x6b, 0x2f, 0x4c, 0x03, 0x3a, 0xb0, 0x60, 0x2f, 0x68, 0x6f, 0xca, 0xdf, 0xc3, 0xfa]"
proof -
  have t1: "lanes_perm12 (put_word hash_state_3 (Lane 8 1 9 1 10 1 1 0 0 0 0 0 0 0 0 0))
      = (Lane 1 11 14 6 2 14 0 0 13 13 14 3 12 0 5 8,
         Lane 12 10 6 9 11 15 12 3 12 12 12 2 4 12 7 7,
         Lane 15 5 14 0 1 14 7 5 10 10 14 9 8 1 4 13,
         Lane 4 9 9 12 11 4 1 2 6 7 6 10 15 11 12 11,
         Lane 11 15 10 4 5 10 9 1 14 4 2 8 14 10 4 9)"
    by (simp only: hash_state_3_def put_word_def lanes_eval)
  have t2: "lanes_perm12 (Lane 1 11 14 6 2 14 0 0 13 13 14 3 12 0 5 8, Lane 12 10 6 9 11 15 12 3 12 12 12 2 4 12 7 7, Lane 15 5 14 0 1 14 7 5 10 10 14 9 8 1 4 13, Lane 4 9 9 12 11 4 1 2 6 7 6 10 15 11 12 11, Lane 11 15 10 4 5 10 9 1 14 4 2 8 14 10 4 9)
      = (Lane 12 12 13 12 15 7 12 15 13 3 11 6 7 13 14 1,
         Lane 14 9 7 6 10 13 0 9 6 1 11 12 2 0 6 1,
         Lane 2 14 15 3 9 7 5 3 12 5 15 7 6 0 11 12,
         Lane 3 8 14 11 8 8 0 7 12 15 10 4 0 8 8 9,
         Lane 2 4 15 8 14 0 10 6 15 5 8 15 7 1 4 6)"
    by (simp only: hash_state_3_def put_word_def lanes_eval)
  have t3: "lanes_perm12 (Lane 12 12 13 12 15 7 12 15 13 3 11 6 7 13 14 1, Lane 14 9 7 6 10 13 0 9 6 1 11 12 2 0 6 1, Lane 2 14 15 3 9 7 5 3 12 5 15 7 6 0 11 12, Lane 3 8 14 11 8 8 0 7 12 15 10 4 0 8 8 9, Lane 2 4 15 8 14 0 10 6 15 5 8 15 7 1 4 6)
      = (Lane 12 11 7 11 11 6 15 2 12 4 3 0 10 3 0 11,
         Lane 4 14 8 14 2 5 8 6 15 14 15 10 14 10 0 2,
         Lane 9 10 14 13 11 11 0 11 13 2 10 10 13 3 11 11,
         Lane 11 3 10 9 6 4 0 1 3 9 2 2 7 2 13 1,
         Lane 9 8 9 5 10 2 8 12 12 15 10 9 10 8 8 1)"
    by (simp only: hash_state_3_def put_word_def lanes_eval)
  have t4: "lanes_perm12 (Lane 12 11 7 11 11 6 15 2 12 4 3 0 10 3 0 11, Lane 4 14 8 14 2 5 8 6 15 14 15 10 14 10 0 2, Lane 9 10 14 13 11 11 0 11 13 2 10 10 13 3 11 11, Lane 11 3 10 9 6 4 0 1 3 9 2 2 7 2 13 1, Lane 9 8 9 5 10 2 8 12 12 15 10 9 10 8 8 1)
      = (Lane 0 6 15 2 8 6 15 6 10 12 15 13 3 12 10 15,
         Lane 6 2 11 10 12 8 11 2 6 15 11 13 12 10 15 13,
         Lane 0 14 13 4 12 4 13 10 6 12 9 9 8 7 10 15,
         Lane 8 8 4 10 7 6 5 10 4 7 15 13 15 13 2 13,
         Lane 12 2 9 10 6 11 11 10 9 15 15 15 2 15 14 13)"
    by (simp only: hash_state_3_def put_word_def lanes_eval)
  show ?thesis unfolding eval_digest [OF t1 t2 t3 t4] by simp
qed

lemma digest_28: "digest_words (state_of (put_word hash_state_3 (Lane 8 1 9 1 10 1 11 1 1 0 0 0 0 0 0 0)))
    = [0x09, 0x86, 0xec, 0xa8, 0xe6, 0x31, 0xd1, 0x84, 0xcf, 0x4a, 0x15, 0xf4, 0xa5, 0x8d, 0x4a, 0x17, 0x62, 0x5e, 0x66, 0xff, 0x0e, 0xde, 0x48, 0x6b, 0xa1, 0x19, 0xe5, 0xd4, 0x15, 0x5a, 0x15, 0x45]"
proof -
  have t1: "lanes_perm12 (put_word hash_state_3 (Lane 8 1 9 1 10 1 11 1 1 0 0 0 0 0 0 0))
      = (Lane 9 0 6 8 12 14 8 10 6 14 1 3 1 13 4 8,
         Lane 4 13 1 0 5 8 10 2 9 4 13 12 12 12 13 1,
         Lane 10 0 6 0 15 7 1 12 3 9 5 0 15 0 0 9,
         Lane 10 10 5 15 1 12 10 10 0 13 14 10 7 10 0 5,
         Lane 15 1 4 15 2 2 15 10 9 4 13 10 10 2 3 8)"
    by (simp only: hash_state_3_def put_word_def lanes_eval)
  have t2: "lanes_perm12 (Lane 9 0 6 8 12 14 8 10 6 14 1 3 1 13 4 8, Lane 4 13 1 0 5 8 10 2 9 4 13 12 12 12 13 1, Lane 10 0 6 0 15 7 1 12 3 9 5 0 15 0 0 9, Lane 10 10 5 15 1 12 10 10 0 13 14 10 7 10 0 5, Lane 15 1 4 15 2 2 15 10 9 4 13 10 10 2 3 8)
      = (Lane 15 12 10 4 5 1 4 15 5 10 13 8 10 4 7 1,
         Lane 7 8 4 10 0 0 1 0 11 10 12 12 8 1 0 9,
         Lane 10 11 15 3 9 9 13 9 8 7 1 11 15 7 13 15,
         Lane 11 3 15 6 9 15 0 6 15 13 4 5 6 11 11 2,
         Lane 7 1 8 5 10 15 3 15 5 1 0 2 13 10 0 13)"
    by (simp only: hash_state_3_def put_word_def lanes_eval)
  have t3: "lanes_perm12 (Lane 15 12 10 4 5 1 4 15 5 10 13 8 10 4 7 1, Lane 7 8 4 10 0 0 1 0 11 10 12 12 8 1 0 9, Lane 10 11 15 3 9 9 13 9 8 7 1 11 15 7 13 15, Lane 11 3 15 6 9 15 0 6 15 13 4 5 6 11 11 2, Lane 7 1 8 5 10 15 3 15 5 1 0 2 13 10 0 13)
      = (Lane 2 6 14 5 6 6 15 15 14 0 14 13 8 4 11 6,
         Lane 0 12 3 4 1 6 1 9 3 11 12 14 8 1 3 2,
         Lane 12 0 7 5 1 6 8 9 13 14 0 2 0 5 12 8,
         Lane 9 6 10 15 5 4 13 15 0 5 14 0 6 14 8 0,
         Lane 14 3 14 11 8 0 13 7 7 1 15 0 10 2 6 0)"
    by (simp only: hash_state_3_def put_word_def lanes_eval)
  have t4: "lanes_perm12 (Lane 2 6 14 5 6 6 15 15 14 0 14 13 8 4 11 6, Lane 0 12 3 4 1 6 1 9 3 11 12 14 8 1 3 2, Lane 12 0 7 5 1 6 8 9 13 14 0 2 0 5 12 8, Lane 9 6 10 15 5 4 13 15 0 5 14 0 6 14 8 0, Lane 14 3 14 11 8 0 13 7 7 1 15 0 10 2 6 0)
      = (Lane 1 10 9 1 5 14 4 13 5 1 10 5 5 1 5 4,
         Lane 15 7 15 14 11 1 6 15 14 14 0 2 11 8 8 0,
         Lane 12 5 5 14 9 5 5 8 2 12 3 13 4 6 1 7,
         Lane 6 2 2 9 12 7 10 4 1 14 8 13 1 1 2 12,
         Lane 5 8 13 7 7 0 12 12 7 11 12 7 12 5 12 5)"
    by (simp only: hash_state_3_def put_word_def lanes_eval)
  show ?thesis unfolding eval_digest [OF t1 t2 t3 t4] by simp
qed

lemma digest_29: "digest_words (state_of (put_word hash_state_3 (Lane 8 1 9 1 10 1 11 1 12 1 1 0 0 0 0 0)))
    = [0x41, 0xdf, 0x85, 0xf3, 0x64, 0x72, 0x36, 0x93, 0x9a, 0xdb, 0xb8, 0x8a, 0xbd, 0x30, 0xa5, 0xe0, 0x52, 0x72, 0x3e, 0x25, 0xdb, 0x09, 0xab, 0x23, 0xf2, 0x8b, 0xba, 0x55, 0x40, 0x56, 0xf5, 0xeb]"
proof -
  have t1: "lanes_perm12 (put_word hash_state_3 (Lane 8 1 9 1 10 1 11 1 12 1 1 0 0 0 0 0))
      = (Lane 1 4 15 13 5 8 3 15 4 6 2 7 6 3 3 9,
         Lane 12 10 15 4 6 1 3 9 14 1 6 0 12 6 4 9,
         Lane 4 5 2 12 0 13 2 2 2 10 5 12 11 1 7 12,
         Lane 12 4 15 11 14 7 10 11 11 11 5 1 3 1 3 15,
         Lane 7 14 10 10 3 13 14 1 1 10 11 9 15 4 6 7)"
    by (simp only: hash_state_3_def put_word_def lanes_eval)
  have t2: "lanes_perm12 (Lane 1 4 15 13 5 8 3 15 4 6 2 7 6 3 3 9, Lane 12 10 15 4 6 1 3 9 14 1 6 0 12 6 4 9, Lane 4 5 2 12 0 13 2 2 2 10 5 12 11 1 7 12, Lane 12 4 15 11 14 7 10 11 11 11 5 1 3 1 3 15, Lane 7 14 10 10 3 13 14 1 1 10 11 9 15 4 6 7)
      = (Lane 10 9 11 13 8 11 10 8 13 11 0 3 5 10 0 14,
         Lane 14 11 9 10 0 11 6 4 10 1 3 15 4 11 2 12,
         Lane 1 12 12 13 11 8 12 2 6 1 12 7 8 15 15 3,
         Lane 9 10 7 9 12 6 3 14 1 10 14 13 10 8 10 7,
         Lane 5 6 14 12 13 9 5 14 6 5 11 8 3 11 7 11)"
    by (simp only: hash_state_3_def put_word_def lanes_eval)
  have t3: "lanes_perm12 (Lane 10 9 11 13 8 11 10 8 13 11 0 3 5 10 0 14, Lane 14 11 9 10 0 11 6 4 10 1 3 15 4 11 2 12, Lane 1 12 12 13 11 8 12 2 6 1 12 7 8 15 15 3, Lane 9 10 7 9 12 6 3 14 1 10 14 13 10 8 10 7, Lane 5 6 14 12 13 9 5 14 6 5 11 8 3 11 7 11)
      = (Lane 2 5 2 7 14 3 5 2 11 13 9 0 11 10 3 2,
         Lane 12 4 7 9 6 11 6 0 12 0 12 7 2 13 6 2,
         Lane 8 15 8 9 1 11 1 3 14 5 3 1 5 13 14 13,
         Lane 7 6 3 4 10 7 0 11 7 4 7 9 9 1 2 5,
         Lane 6 8 6 14 4 13 14 13 2 11 4 14 11 12 3 11)"
    by (simp only: hash_state_3_def put_word_def lanes_eval)
  have t4: "lanes_perm12 (Lane 2 5 2 7 14 3 5 2 11 13 9 0 11 10 3 2, Lane 12 4 7 9 6 11 6 0 12 0 12 7 2 13 6 2, Lane 8 15 8 9 1 11 1 3 14 5 3 1 5 13 14 13, Lane 7 6 3 4 10 7 0 11 7 4 7 9 9 1 2 5, Lane 6 8 6 14 4 13 14 13 2 11 4 14 11 12 3 11)
      = (Lane 2 15 11 8 10 11 5 5 0 4 6 5 5 15 11 14,
         Lane 7 11 14 4 11 13 0 7 8 12 11 4 9 0 13 10,
         Lane 7 3 14 10 5 0 6 2 2 10 5 8 12 14 14 4,
         Lane 14 8 8 12 9 15 1 11 5 2 11 2 8 1 12 7,
         Lane 13 3 15 15 2 5 11 1 3 10 15 3 2 5 7 4)"
    by (simp only: hash_state_3_def put_word_def lanes_eval)
  show ?thesis unfolding eval_digest [OF t1 t2 t3 t4] by simp
qed

lemma digest_30: "digest_words (state_of (put_word hash_state_3 (Lane 8 1 9 1 10 1 11 1 12 1 13 1 1 0 0 0)))
    = [0x84, 0xb6, 0x8f, 0xde, 0xb9, 0xf5, 0xdf, 0xba, 0x8f, 0xbe, 0x03, 0x14, 0xc4, 0xc7, 0x9a, 0x1e, 0x3e, 0xae, 0x97, 0xc9, 0xb0, 0x18, 0xfc, 0xac, 0x88, 0xfd, 0x9b, 0xd4, 0x07, 0x08, 0x6e, 0x70]"
proof -
  have t1: "lanes_perm12 (put_word hash_state_3 (Lane 8 1 9 1 10 1 11 1 12 1 13 1 1 0 0 0))
      = (Lane 4 8 6 11 15 8 14 13 9 11 5 15 15 13 10 11,
         Lane 1 5 2 8 11 11 3 9 8 8 8 0 14 10 2 0,
         Lane 0 3 4 0 4 4 15 7 12 6 7 0 10 11 8 13,
         Lane 12 11 7 14 13 15 3 12 15 3 12 0 9 8 10 14,
         Lane 9 13 0 6 13 1 15 3 4 11 1 12 3 14 3 1)"
    by (simp only: hash_state_3_def put_word_def lanes_eval)
  have t2: "lanes_perm12 (Lane 4 8 6 11 15 8 14 13 9 11 5 15 15 13 10 11, Lane 1 5 2 8 11 11 3 9 8 8 8 0 14 10 2 0, Lane 0 3 4 0 4 4 15 7 12 6 7 0 10 11 8 13, Lane 12 11 7 14 13 15 3 12 15 3 12 0 9 8 10 14, Lane 9 13 0 6 13 1 15 3 4 11 1 12 3 14 3 1)
      = (Lane 15 8 14 11 3 0 4 1 4 12 7 12 10 9 14 1,
         Lane 12 10 4 3 6 15 6 10 12 7 14 10 7 1 15 2,
         Lane 14 10 12 10 8 12 13 0 11 10 7 10 1 8 5 12,
         Lane 9 10 6 14 12 9 9 11 1 11 12 12 6 11 4 6,
         Lane 7 13 12 8 3 10 0 3 15 2 3 7 13 9 5 9)"
    by (simp only: hash_state_3_def put_word_def lanes_eval)
  have t3: "lanes_perm12 (Lane 15 8 14 11 3 0 4 1 4 12 7 12 10 9 14 1, Lane 12 10 4 3 6 15 6 10 12 7 14 10 7 1 15 2, Lane 14 10 12 10 8 12 13 0 11 10 7 10 1 8 5 12, Lane 9 10 6 14 12 9 9 11 1 11 12 12 6 11 4 6, Lane 7 13 12 8 3 10 0 3 15 2 3 7 13 9 5 9)
      = (Lane 14 3 14 10 7 9 9 12 0 11 8 1 12 15 12 10,
         Lane 4 13 4 4 4 8 8 11 14 7 3 9 7 14 9 10,
         Lane 2 5 7 2 0 8 14 5 2 15 2 2 0 6 0 7,
         Lane 15 13 10 8 15 15 10 8 12 11 11 6 1 9 11 7,
         Lane 0 9 11 6 7 14 13 10 12 0 5 15 1 15 6 13)"
    by (simp only: hash_state_3_def put_word_def lanes_eval)
  have t4: "lanes_perm12 (Lane 14 3 14 10 7 9 9 12 0 11 8 1 12 15 12 10, Lane 4 13 4 4 4 8 8 11 14 7 3 9 7 14 9 10, Lane 2 5 7 2 0 8 14 5 2 15 2 2 0 6 0 7, Lane 15 13 10 8 15 15 10 8 12 11 11 6 1 9 11 7, Lane 0 9 11 6 7 14 13 10 12 0 5 15 1 15 6 13)
      = (Lane 8 8 13 15 11 9 4 13 7 0 8 0 14 6 0 7,
         Lane 15 12 12 2 15 2 5 9 5 2 8 8 0 4 4 8,
         Lane 1 9 4 11 11 7 11 15 3 6 14 6 7 6 11 1,
         Lane 12 15 0 10 11 7 0 11 14 5 12 15 3 0 10 8,
         Lane 2 9 8 9 14 6 11 14 10 6 9 15 2 8 8 4)"
    by (simp only: hash_state_3_def put_word_def lanes_eval)
  show ?thesis unfolding eval_digest [OF t1 t2 t3 t4] by simp
qed

lemma digest_31: "digest_words (state_of (put_word hash_state_3 (Lane 8 1 9 1 10 1 11 1 12 1 13 1 14 1 1 0)))
    = [0xb9, 0x00, 0xcd, 0x3f, 0x06, 0xf1, 0x61, 0x8b, 0x68, 0xc1, 0x66, 0x65, 0x80, 0x72, 0x06, 0xdb, 0xe2, 0x73, 0xdf, 0x40, 0x13, 0x53, 0x61, 0xf4, 0x49, 0x84, 0x7d, 0x57, 0x39, 0x03, 0xfa, 0xbd]"
proof -
  have t1: "lanes_perm12 (put_word hash_state_3 (Lane 8 1 9 1 10 1 11 1 12 1 13 1 14 1 1 0))
      = (Lane 9 11 0 0 13 12 15 3 6 0 1 15 1 6 11 8,
         Lane 4 0 4 11 7 12 6 12 14 13 15 2 11 10 9 6,
         Lane 5 4 7 6 0 11 9 14 10 4 0 8 1 10 10 5,
         Lane 3 9 1 11 4 13 8 12 11 12 4 8 0 3 14 0,
         Lane 15 4 3 11 0 14 4 15 9 13 6 13 9 12 9 10)"
    by (simp only: hash_state_3_def put_word_def lanes_eval)
  have t2: "lanes_perm12 (Lane 9 11 0 0 13 12 15 3 6 0 1 15 1 6 11 8, Lane 4 0 4 11 7 12 6 12 14 13 15 2 11 10 9 6, Lane 5 4 7 6 0 11 9 14 10 4 0 8 1 10 10 5, Lane 3 9 1 11 4 13 8 12 11 12 4 8 0 3 14 0, Lane 15 4 3 11 0 14 4 15 9 13 6 13 9 12 9 10)
      = (Lane 8 6 1 12 6 6 5 6 0 8 2 7 6 0 11 13,
         Lane 2 10 10 10 10 8 9 1 3 7 15 2 12 14 2 4,
         Lane 7 0 12 14 4 7 6 15 10 12 7 12 0 4 1 2,
         Lane 0 6 7 7 14 10 8 8 9 2 9 4 7 2 2 13,
         Lane 2 3 10 3 8 9 9 4 2 6 2 9 7 5 5 5)"
    by (simp only: hash_state_3_def put_word_def lanes_eval)
  have t3: "lanes_perm12 (Lane 8 6 1 12 6 6 5 6 0 8 2 7 6 0 11 13, Lane 2 10 10 10 10 8 9 1 3 7 15 2 12 14 2 4, Lane 7 0 12 14 4 7 6 15 10 12 7 12 0 4 1 2, Lane 0 6 7 7 14 10 8 8 9 2 9 4 7 2 2 13, Lane 2 3 10 3 8 9 9 4 2 6 2 9 7 5 5 5)
      = (Lane 2 14 3 7 15 13 0 4 3 1 3 5 1 6 4 15,
         Lane 9 15 9 6 15 7 7 15 7 10 13 4 5 7 3 12,
         Lane 13 15 10 10 11 11 11 7 11 6 4 15 14 11 13 11,
         Lane 13 3 11 12 13 8 12 5 15 8 14 7 15 15 15 11,
         Lane 9 14 10 10 9 10 0 7 14 5 15 2 3 3 11 2)"
    by (simp only: hash_state_3_def put_word_def lanes_eval)
  have t4: "lanes_perm12 (Lane 2 14 3 7 15 13 0 4 3 1 3 5 1 6 4 15, Lane 9 15 9 6 15 7 7 15 7 10 13 4 5 7 3 12, Lane 13 15 10 10 11 11 11 7 11 6 4 15 14 11 13 11, Lane 13 3 11 12 13 8 12 5 15 8 14 7 15 15 15 11, Lane 9 14 10 10 9 10 0 7 14 5 15 2 3 3 11 2)
      = (Lane 9 4 4 8 13 7 7 5 9 3 3 0 10 15 13 11,
         Lane 5 10 3 7 14 9 6 3 11 2 1 1 15 13 6 11,
         Lane 15 11 1 4 7 5 14 11 12 5 12 4 12 14 0 13,
         Lane 7 4 12 12 2 0 7 15 9 7 1 4 14 9 1 6,
         Lane 0 3 15 1 9 5 13 14 7 3 6 3 13 5 14 11)"
    by (simp only: hash_state_3_def put_word_def lanes_eval)
  show ?thesis unfolding eval_digest [OF t1 t2 t3 t4] by simp
qed

section \<open>The table\<close>

definition hash_kat_table :: "u8 list list" where
  "hash_kat_table = [
    [0x0b, 0x3b, 0xe5, 0x85, 0x0f, 0x2f, 0x6b, 0x98, 0xca, 0xf2, 0x9f, 0x8f, 0xde, 0xa8, 0x9b, 0x64, 0xa1, 0xfa, 0x70, 0xaa, 0x24, 0x9b, 0x8f, 0x83, 0x9b, 0xd5, 0x3b, 0xaa, 0x30, 0x4d, 0x92, 0xb2],
    [0x07, 0x28, 0x62, 0x10, 0x35, 0xaf, 0x3e, 0xd2, 0xbc, 0xa0, 0x3b, 0xf6, 0xfd, 0xe9, 0x00, 0xf9, 0x45, 0x6f, 0x53, 0x30, 0xe4, 0xb5, 0xee, 0x23, 0xe7, 0xf6, 0xa1, 0xe7, 0x02, 0x91, 0xbc, 0x80],
    [0x61, 0x15, 0xe7, 0xc9, 0xc4, 0x08, 0x1c, 0x27, 0x97, 0xfc, 0x8f, 0xe1, 0xbc, 0x57, 0xa8, 0x36, 0xaf, 0xa1, 0xc5, 0x38, 0x1e, 0x55, 0x6d, 0xd5, 0x83, 0x86, 0x0c, 0xa2, 0xdf, 0xb4, 0x8d, 0xd2],
    [0x26, 0x5a, 0xb8, 0x9a, 0x60, 0x9f, 0x5a, 0x05, 0xdc, 0xa5, 0x7e, 0x83, 0xfb, 0xba, 0x70, 0x0f, 0x9a, 0x2d, 0x2c, 0x42, 0x11, 0xba, 0x4c, 0xc9, 0xf0, 0xa1, 0xa3, 0x69, 0xe1, 0x7b, 0x91, 0x5c],
    [0xd7, 0xe4, 0xc7, 0xed, 0x9b, 0x8a, 0x32, 0x5c, 0xd0, 0x8b, 0x9e, 0xf2, 0x59, 0xf8, 0x87, 0x70, 0x54, 0xec, 0xd8, 0x30, 0x4f, 0xe1, 0xb2, 0xd7, 0xfd, 0x84, 0x71, 0x37, 0xdf, 0x67, 0x27, 0xee],
    [0xc7, 0xb2, 0x89, 0x62, 0xd4, 0xf5, 0xc2, 0x21, 0x1f, 0x46, 0x6f, 0x83, 0xd3, 0xc5, 0x7a, 0xe1, 0x50, 0x43, 0x87, 0xe2, 0xa3, 0x26, 0x94, 0x97, 0x47, 0xa8, 0x37, 0x64, 0x47, 0xa6, 0xbb, 0x51],
    [0xdc, 0x0c, 0x67, 0x48, 0xaf, 0x8f, 0xfe, 0x63, 0xe1, 0x08, 0x4a, 0xa3, 0xe5, 0x78, 0x6a, 0x19, 0x46, 0x85, 0xc8, 0x8c, 0x21, 0x34, 0x8b, 0x29, 0xe1, 0x84, 0xfb, 0x50, 0x40, 0x97, 0x03, 0xbc],
    [0x3e, 0x4d, 0x27, 0x3b, 0xa6, 0x9b, 0x3b, 0x9c, 0x53, 0x21, 0x61, 0x07, 0xe8, 0x8b, 0x75, 0xcd, 0xbe, 0xed, 0xbc, 0xbf, 0x8f, 0xaf, 0x02, 0x19, 0xc3, 0x92, 0x8a, 0xb6, 0x2b, 0x11, 0x65, 0x77],
    [0xb8, 0x8e, 0x49, 0x7a, 0xe8, 0xe6, 0xfb, 0x64, 0x1b, 0x87, 0xef, 0x62, 0x2e, 0xb8, 0xf2, 0xfc, 0xa0, 0xed, 0x95, 0x38, 0x3f, 0x7f, 0xfe, 0xbe, 0x16, 0x7a, 0xcf, 0x10, 0x99, 0xba, 0x76, 0x4f],
    [0x94, 0x26, 0x9c, 0x30, 0xe0, 0x29, 0x6e, 0x1e, 0xc8, 0x66, 0x55, 0x04, 0x18, 0x41, 0x82, 0x3e, 0xfa, 0x19, 0x27, 0xf5, 0x20, 0xfd, 0x58, 0xc8, 0xe9, 0xbc, 0xe6, 0x19, 0x78, 0x78, 0xc1, 0xa6],
    [0x89, 0x4f, 0x5c, 0x5b, 0xc7, 0x8a, 0x0a, 0x97, 0xab, 0xc0, 0xd6, 0x31, 0x23, 0xd0, 0x9a, 0x33, 0x5f, 0xb0, 0xd9, 0x24, 0x30, 0xad, 0xf9, 0xd1, 0x1f, 0xd2, 0x64, 0x38, 0x54, 0x17, 0x99, 0x68],
    [0x68, 0x84, 0x66, 0xb9, 0xec, 0x50, 0x70, 0x47, 0x6c, 0xeb, 0x93, 0x9f, 0xe3, 0x68, 0xc2, 0xa3, 0x2c, 0x0f, 0x1a, 0x79, 0x5a, 0xf7, 0x61, 0x94, 0x2d, 0x55, 0x18, 0x90, 0x9a, 0x10, 0x81, 0xda],
    [0x8c, 0xaf, 0xa6, 0x56, 0x80, 0x7f, 0xaf, 0xa3, 0xde, 0x9f, 0xeb, 0x2f, 0xb5, 0x66, 0xd6, 0x23, 0x9b, 0xeb, 0xa7, 0x4a, 0xe4, 0x8c, 0x4e, 0x9a, 0x4c, 0xed, 0x5b, 0xf1, 0xb1, 0x3a, 0x75, 0xc9],
    [0x94, 0x88, 0x3d, 0x2a, 0x44, 0xe8, 0xf1, 0x39, 0x64, 0xf9, 0x26, 0xde, 0x55, 0x35, 0x83, 0xdb, 0x7b, 0x1a, 0x82, 0xb0, 0xaa, 0xcc, 0x58, 0xef, 0x2d, 0x48, 0x46, 0xa5, 0xd6, 0xe8, 0xb4, 0xac],
    [0xbe, 0xb6, 0x35, 0x3f, 0x24, 0xe8, 0xde, 0xe9, 0xf2, 0xb9, 0x92, 0x79, 0xf2, 0x9f, 0x42, 0x5f, 0x7c, 0xce, 0x30, 0x98, 0xa3, 0x66, 0x5b, 0x7a, 0xf3, 0xaf, 0x86, 0xf7, 0x59, 0xcc, 0x98, 0x5d],
    [0x64, 0x21, 0x33, 0x0d, 0xf9, 0x9c, 0x05, 0xeb, 0x71, 0x54, 0x15, 0xee, 0x17, 0xb4, 0x55, 0xf2, 0x67, 0x4f, 0x86, 0x2a, 0xe3, 0xcc, 0x5b, 0xad, 0xff, 0xe4, 0x3a, 0x4a, 0x3e, 0xd2, 0x73, 0xe1],
    [0x31, 0x58, 0xc1, 0x94, 0x0a, 0x2f, 0xba, 0xdb, 0xd6, 0x8a, 0xb6, 0x61, 0x77, 0x78, 0x59, 0xb9, 0x4a, 0x68, 0x9e, 0x4e, 0xfc, 0x37, 0x59, 0x11, 0x46, 0x7a, 0xdd, 0xd6, 0x41, 0x83, 0x5c, 0x38],
    [0xf1, 0x49, 0xe9, 0x9d, 0xd0, 0xf4, 0x29, 0x59, 0x9b, 0xb8, 0x9b, 0x80, 0x79, 0xbf, 0x3f, 0x4d, 0xca, 0x3f, 0x29, 0x8e, 0xfe, 0xfc, 0xf9, 0xb1, 0xea, 0x16, 0xfe, 0x84, 0xf9, 0xb8, 0xb6, 0xe2],
    [0xd0, 0x70, 0xf7, 0xba, 0x0e, 0x9b, 0xcd, 0xb6, 0xb3, 0x4e, 0x83, 0x57, 0x34, 0x3e, 0x90, 0x41, 0x94, 0x31, 0x46, 0xf3, 0x34, 0xfd, 0xaf, 0x6e, 0x20, 0x09, 0x27, 0x5f, 0x6f, 0x25, 0xcb, 0xed],
    [0x75, 0x94, 0x01, 0xba, 0x2d, 0x33, 0x73, 0xeb, 0x5a, 0x01, 0x52, 0xbd, 0xe6, 0xfc, 0xc7, 0x26, 0xec, 0x65, 0xde, 0xe7, 0x95, 0xa5, 0x74, 0xf1, 0xd7, 0x15, 0xf3, 0xca, 0xc2, 0x1f, 0x03, 0x81],
    [0x98, 0x94, 0x1e, 0x48, 0x4f, 0xba, 0xe8, 0x74, 0x52, 0xdd, 0xaf, 0x60, 0x30, 0x08, 0x8b, 0x79, 0x8a, 0x56, 0xc3, 0x6e, 0xb6, 0xd4, 0xd3, 0xe9, 0x4b, 0x5c, 0xff, 0x78, 0xb2, 0x0e, 0x04, 0x81],
    [0x41, 0xc8, 0xf7, 0x33, 0xb9, 0xd8, 0x23, 0xbe, 0x30, 0xb6, 0x4e, 0xe7, 0x17, 0xc3, 0x22, 0xc5, 0x76, 0xd3, 0x67, 0x81, 0xff, 0xc5, 0xf7, 0xd6, 0xc7, 0x30, 0xec, 0xa5, 0x49, 0x78, 0x97, 0x25],
    [0x04, 0x18, 0x3f, 0x60, 0x3c, 0xf5, 0x6e, 0xa2, 0x5e, 0x5c, 0x29, 0x9d, 0x3f, 0xbd, 0xb1, 0x72, 0x28, 0xd6, 0x41, 0x1f, 0x15, 0xe9, 0xf7, 0x7c, 0x77, 0x89, 0xce, 0x89, 0xec, 0x9b, 0x8b, 0x0e],
    [0xb4, 0xf8, 0x8d, 0x12, 0x1e, 0xdd, 0xf6, 0xd1, 0xfe, 0xa9, 0xae, 0xf1, 0x5f, 0x68, 0xa0, 0xf3, 0xa1, 0x6d, 0x3d, 0x2c, 0xdd, 0x98, 0x17, 0x22, 0x58, 0x09, 0xc2, 0x04, 0x52, 0xb0, 0x4c, 0x61],
    [0x7e, 0x6a, 0x31, 0xfa, 0x65, 0x59, 0x53, 0x6a, 0x7a, 0xd6, 0x16, 0x22, 0xf6, 0x15, 0x0f, 0xa3, 0xb2, 0xa2, 0x9e, 0xbb, 0xf3, 0x9a, 0xd8, 0x01, 0x1b, 0x79, 0x02, 0xcc, 0x61, 0x25, 0x71, 0xe6],
    [0xac, 0xf3, 0x9f, 0xb4, 0x9c, 0xba, 0xa0, 0xb4, 0xbc, 0x04, 0xc5, 0x48, 0x22, 0x45, 0x43, 0xb7, 0x50, 0x19, 0xba, 0x63, 0x9c, 0xe4, 0xd0, 0xa5, 0x8c, 0xae, 0xda, 0xf1, 0x7e, 0x0f, 0x8d, 0x9f],
    [0xb1, 0xbb, 0x94, 0x8e, 0xda, 0x56, 0x00, 0x9f, 0x5d, 0x66, 0xed, 0x7b, 0xdc, 0x58, 0x94, 0xe5, 0xe7, 0x72, 0xd4, 0x34, 0x1b, 0xb7, 0x04, 0x05, 0xc3, 0x65, 0x51, 0x89, 0x76, 0xeb, 0x95, 0x73],
    [0xb1, 0x6e, 0xe2, 0x00, 0xdd, 0x3e, 0x0c, 0x85, 0xcc, 0xcd, 0x7f, 0xfc, 0x3d, 0x6b, 0xd7, 0x1e, 0xbc, 0xb7, 0x6b, 0x2f, 0x4c, 0x03, 0x3a, 0xb0, 0x60, 0x2f, 0x68, 0x6f, 0xca, 0xdf, 0xc3, 0xfa],
    [0x09, 0x86, 0xec, 0xa8, 0xe6, 0x31, 0xd1, 0x84, 0xcf, 0x4a, 0x15, 0xf4, 0xa5, 0x8d, 0x4a, 0x17, 0x62, 0x5e, 0x66, 0xff, 0x0e, 0xde, 0x48, 0x6b, 0xa1, 0x19, 0xe5, 0xd4, 0x15, 0x5a, 0x15, 0x45],
    [0x41, 0xdf, 0x85, 0xf3, 0x64, 0x72, 0x36, 0x93, 0x9a, 0xdb, 0xb8, 0x8a, 0xbd, 0x30, 0xa5, 0xe0, 0x52, 0x72, 0x3e, 0x25, 0xdb, 0x09, 0xab, 0x23, 0xf2, 0x8b, 0xba, 0x55, 0x40, 0x56, 0xf5, 0xeb],
    [0x84, 0xb6, 0x8f, 0xde, 0xb9, 0xf5, 0xdf, 0xba, 0x8f, 0xbe, 0x03, 0x14, 0xc4, 0xc7, 0x9a, 0x1e, 0x3e, 0xae, 0x97, 0xc9, 0xb0, 0x18, 0xfc, 0xac, 0x88, 0xfd, 0x9b, 0xd4, 0x07, 0x08, 0x6e, 0x70],
    [0xb9, 0x00, 0xcd, 0x3f, 0x06, 0xf1, 0x61, 0x8b, 0x68, 0xc1, 0x66, 0x65, 0x80, 0x72, 0x06, 0xdb, 0xe2, 0x73, 0xdf, 0x40, 0x13, 0x53, 0x61, 0xf4, 0x49, 0x84, 0x7d, 0x57, 0x39, 0x03, 0xfa, 0xbd]]"

text \<open>The messages by their whole blocks.\<close>

lemma hash_words_block:
  assumes "length b = 8" and "word_of w = u64_of_bytes b"
  shows "hash_words (state_of s) (b @ m) = hash_words (perm12 (state_of (put_word s w))) m"
  using assms by (simp add: hash_words.simps [of _ "b @ m"] flip: state_of_put [OF assms(2)])

lemma hash_words_last:
  assumes "length m < 8" and "word_of w = u64_of_bytes (m @ [1])"
  shows "hash_words (state_of s) m = state_of (put_word s w)"
  using assms by (simp add: hash_words.simps [of _ m] flip: state_of_put [OF assms(2)])

lemma hash_words_blocks:
  "hash_words hash_init_state m = hash_words (state_of hash_state_0) m"
  "hash_words (state_of hash_state_0) ([0, 1, 2, 3, 4, 5, 6, 7] @ m) = hash_words (state_of hash_state_1) m"
  "hash_words (state_of hash_state_1) ([8, 9, 10, 11, 12, 13, 14, 15] @ m) = hash_words (state_of hash_state_2) m"
  "hash_words (state_of hash_state_2) ([16, 17, 18, 19, 20, 21, 22, 23] @ m) = hash_words (state_of hash_state_3) m"
proof -
  show "hash_words hash_init_state m = hash_words (state_of hash_state_0) m" by (simp add: eval_hash_state_0)
  show "hash_words (state_of hash_state_0) ([0, 1, 2, 3, 4, 5, 6, 7] @ m) = hash_words (state_of hash_state_1) m"
    unfolding eval_hash_state_1
    by (rule hash_words_block) (simp_all add: lane_value u64_of_bytes_def)
  show "hash_words (state_of hash_state_1) ([8, 9, 10, 11, 12, 13, 14, 15] @ m) = hash_words (state_of hash_state_2) m"
    unfolding eval_hash_state_2
    by (rule hash_words_block) (simp_all add: lane_value u64_of_bytes_def)
  show "hash_words (state_of hash_state_2) ([16, 17, 18, 19, 20, 21, 22, 23] @ m) = hash_words (state_of hash_state_3) m"
    unfolding eval_hash_state_3
    by (rule hash_words_block) (simp_all add: lane_value u64_of_bytes_def)
qed

lemma answer_0: "hash_spec ([])
    = [0x0b, 0x3b, 0xe5, 0x85, 0x0f, 0x2f, 0x6b, 0x98, 0xca, 0xf2, 0x9f, 0x8f, 0xde, 0xa8, 0x9b, 0x64, 0xa1, 0xfa, 0x70, 0xaa, 0x24, 0x9b, 0x8f, 0x83, 0x9b, 0xd5, 0x3b, 0xaa, 0x30, 0x4d, 0x92, 0xb2]"
proof -
  have "hash_words (state_of hash_state_0) [] = state_of (put_word hash_state_0 (Lane 1 0 0 0 0 0 0 0 0 0 0 0 0 0 0 0))"
    by (rule hash_words_last) (simp_all add: lane_value u64_of_bytes_def)
  then show ?thesis unfolding hash_spec_words hash_words_blocks by (simp only: digest_0)
qed

lemma answer_1: "hash_spec ([0])
    = [0x07, 0x28, 0x62, 0x10, 0x35, 0xaf, 0x3e, 0xd2, 0xbc, 0xa0, 0x3b, 0xf6, 0xfd, 0xe9, 0x00, 0xf9, 0x45, 0x6f, 0x53, 0x30, 0xe4, 0xb5, 0xee, 0x23, 0xe7, 0xf6, 0xa1, 0xe7, 0x02, 0x91, 0xbc, 0x80]"
proof -
  have "hash_words (state_of hash_state_0) [0] = state_of (put_word hash_state_0 (Lane 0 0 1 0 0 0 0 0 0 0 0 0 0 0 0 0))"
    by (rule hash_words_last) (simp_all add: lane_value u64_of_bytes_def)
  then show ?thesis unfolding hash_spec_words hash_words_blocks by (simp only: digest_1)
qed

lemma answer_2: "hash_spec ([0, 1])
    = [0x61, 0x15, 0xe7, 0xc9, 0xc4, 0x08, 0x1c, 0x27, 0x97, 0xfc, 0x8f, 0xe1, 0xbc, 0x57, 0xa8, 0x36, 0xaf, 0xa1, 0xc5, 0x38, 0x1e, 0x55, 0x6d, 0xd5, 0x83, 0x86, 0x0c, 0xa2, 0xdf, 0xb4, 0x8d, 0xd2]"
proof -
  have "hash_words (state_of hash_state_0) [0, 1] = state_of (put_word hash_state_0 (Lane 0 0 1 0 1 0 0 0 0 0 0 0 0 0 0 0))"
    by (rule hash_words_last) (simp_all add: lane_value u64_of_bytes_def)
  then show ?thesis unfolding hash_spec_words hash_words_blocks by (simp only: digest_2)
qed

lemma answer_3: "hash_spec ([0, 1, 2])
    = [0x26, 0x5a, 0xb8, 0x9a, 0x60, 0x9f, 0x5a, 0x05, 0xdc, 0xa5, 0x7e, 0x83, 0xfb, 0xba, 0x70, 0x0f, 0x9a, 0x2d, 0x2c, 0x42, 0x11, 0xba, 0x4c, 0xc9, 0xf0, 0xa1, 0xa3, 0x69, 0xe1, 0x7b, 0x91, 0x5c]"
proof -
  have "hash_words (state_of hash_state_0) [0, 1, 2] = state_of (put_word hash_state_0 (Lane 0 0 1 0 2 0 1 0 0 0 0 0 0 0 0 0))"
    by (rule hash_words_last) (simp_all add: lane_value u64_of_bytes_def)
  then show ?thesis unfolding hash_spec_words hash_words_blocks by (simp only: digest_3)
qed

lemma answer_4: "hash_spec ([0, 1, 2, 3])
    = [0xd7, 0xe4, 0xc7, 0xed, 0x9b, 0x8a, 0x32, 0x5c, 0xd0, 0x8b, 0x9e, 0xf2, 0x59, 0xf8, 0x87, 0x70, 0x54, 0xec, 0xd8, 0x30, 0x4f, 0xe1, 0xb2, 0xd7, 0xfd, 0x84, 0x71, 0x37, 0xdf, 0x67, 0x27, 0xee]"
proof -
  have "hash_words (state_of hash_state_0) [0, 1, 2, 3] = state_of (put_word hash_state_0 (Lane 0 0 1 0 2 0 3 0 1 0 0 0 0 0 0 0))"
    by (rule hash_words_last) (simp_all add: lane_value u64_of_bytes_def)
  then show ?thesis unfolding hash_spec_words hash_words_blocks by (simp only: digest_4)
qed

lemma answer_5: "hash_spec ([0, 1, 2, 3, 4])
    = [0xc7, 0xb2, 0x89, 0x62, 0xd4, 0xf5, 0xc2, 0x21, 0x1f, 0x46, 0x6f, 0x83, 0xd3, 0xc5, 0x7a, 0xe1, 0x50, 0x43, 0x87, 0xe2, 0xa3, 0x26, 0x94, 0x97, 0x47, 0xa8, 0x37, 0x64, 0x47, 0xa6, 0xbb, 0x51]"
proof -
  have "hash_words (state_of hash_state_0) [0, 1, 2, 3, 4] = state_of (put_word hash_state_0 (Lane 0 0 1 0 2 0 3 0 4 0 1 0 0 0 0 0))"
    by (rule hash_words_last) (simp_all add: lane_value u64_of_bytes_def)
  then show ?thesis unfolding hash_spec_words hash_words_blocks by (simp only: digest_5)
qed

lemma answer_6: "hash_spec ([0, 1, 2, 3, 4, 5])
    = [0xdc, 0x0c, 0x67, 0x48, 0xaf, 0x8f, 0xfe, 0x63, 0xe1, 0x08, 0x4a, 0xa3, 0xe5, 0x78, 0x6a, 0x19, 0x46, 0x85, 0xc8, 0x8c, 0x21, 0x34, 0x8b, 0x29, 0xe1, 0x84, 0xfb, 0x50, 0x40, 0x97, 0x03, 0xbc]"
proof -
  have "hash_words (state_of hash_state_0) [0, 1, 2, 3, 4, 5] = state_of (put_word hash_state_0 (Lane 0 0 1 0 2 0 3 0 4 0 5 0 1 0 0 0))"
    by (rule hash_words_last) (simp_all add: lane_value u64_of_bytes_def)
  then show ?thesis unfolding hash_spec_words hash_words_blocks by (simp only: digest_6)
qed

lemma answer_7: "hash_spec ([0, 1, 2, 3, 4, 5, 6])
    = [0x3e, 0x4d, 0x27, 0x3b, 0xa6, 0x9b, 0x3b, 0x9c, 0x53, 0x21, 0x61, 0x07, 0xe8, 0x8b, 0x75, 0xcd, 0xbe, 0xed, 0xbc, 0xbf, 0x8f, 0xaf, 0x02, 0x19, 0xc3, 0x92, 0x8a, 0xb6, 0x2b, 0x11, 0x65, 0x77]"
proof -
  have "hash_words (state_of hash_state_0) [0, 1, 2, 3, 4, 5, 6] = state_of (put_word hash_state_0 (Lane 0 0 1 0 2 0 3 0 4 0 5 0 6 0 1 0))"
    by (rule hash_words_last) (simp_all add: lane_value u64_of_bytes_def)
  then show ?thesis unfolding hash_spec_words hash_words_blocks by (simp only: digest_7)
qed

lemma answer_8: "hash_spec ([0, 1, 2, 3, 4, 5, 6, 7] @ [])
    = [0xb8, 0x8e, 0x49, 0x7a, 0xe8, 0xe6, 0xfb, 0x64, 0x1b, 0x87, 0xef, 0x62, 0x2e, 0xb8, 0xf2, 0xfc, 0xa0, 0xed, 0x95, 0x38, 0x3f, 0x7f, 0xfe, 0xbe, 0x16, 0x7a, 0xcf, 0x10, 0x99, 0xba, 0x76, 0x4f]"
proof -
  have "hash_words (state_of hash_state_1) [] = state_of (put_word hash_state_1 (Lane 1 0 0 0 0 0 0 0 0 0 0 0 0 0 0 0))"
    by (rule hash_words_last) (simp_all add: lane_value u64_of_bytes_def)
  then show ?thesis unfolding hash_spec_words hash_words_blocks by (simp only: digest_8)
qed

lemma answer_9: "hash_spec ([0, 1, 2, 3, 4, 5, 6, 7] @ [8])
    = [0x94, 0x26, 0x9c, 0x30, 0xe0, 0x29, 0x6e, 0x1e, 0xc8, 0x66, 0x55, 0x04, 0x18, 0x41, 0x82, 0x3e, 0xfa, 0x19, 0x27, 0xf5, 0x20, 0xfd, 0x58, 0xc8, 0xe9, 0xbc, 0xe6, 0x19, 0x78, 0x78, 0xc1, 0xa6]"
proof -
  have "hash_words (state_of hash_state_1) [8] = state_of (put_word hash_state_1 (Lane 8 0 1 0 0 0 0 0 0 0 0 0 0 0 0 0))"
    by (rule hash_words_last) (simp_all add: lane_value u64_of_bytes_def)
  then show ?thesis unfolding hash_spec_words hash_words_blocks by (simp only: digest_9)
qed

lemma answer_10: "hash_spec ([0, 1, 2, 3, 4, 5, 6, 7] @ [8, 9])
    = [0x89, 0x4f, 0x5c, 0x5b, 0xc7, 0x8a, 0x0a, 0x97, 0xab, 0xc0, 0xd6, 0x31, 0x23, 0xd0, 0x9a, 0x33, 0x5f, 0xb0, 0xd9, 0x24, 0x30, 0xad, 0xf9, 0xd1, 0x1f, 0xd2, 0x64, 0x38, 0x54, 0x17, 0x99, 0x68]"
proof -
  have "hash_words (state_of hash_state_1) [8, 9] = state_of (put_word hash_state_1 (Lane 8 0 9 0 1 0 0 0 0 0 0 0 0 0 0 0))"
    by (rule hash_words_last) (simp_all add: lane_value u64_of_bytes_def)
  then show ?thesis unfolding hash_spec_words hash_words_blocks by (simp only: digest_10)
qed

lemma answer_11: "hash_spec ([0, 1, 2, 3, 4, 5, 6, 7] @ [8, 9, 10])
    = [0x68, 0x84, 0x66, 0xb9, 0xec, 0x50, 0x70, 0x47, 0x6c, 0xeb, 0x93, 0x9f, 0xe3, 0x68, 0xc2, 0xa3, 0x2c, 0x0f, 0x1a, 0x79, 0x5a, 0xf7, 0x61, 0x94, 0x2d, 0x55, 0x18, 0x90, 0x9a, 0x10, 0x81, 0xda]"
proof -
  have "hash_words (state_of hash_state_1) [8, 9, 10] = state_of (put_word hash_state_1 (Lane 8 0 9 0 10 0 1 0 0 0 0 0 0 0 0 0))"
    by (rule hash_words_last) (simp_all add: lane_value u64_of_bytes_def)
  then show ?thesis unfolding hash_spec_words hash_words_blocks by (simp only: digest_11)
qed

lemma answer_12: "hash_spec ([0, 1, 2, 3, 4, 5, 6, 7] @ [8, 9, 10, 11])
    = [0x8c, 0xaf, 0xa6, 0x56, 0x80, 0x7f, 0xaf, 0xa3, 0xde, 0x9f, 0xeb, 0x2f, 0xb5, 0x66, 0xd6, 0x23, 0x9b, 0xeb, 0xa7, 0x4a, 0xe4, 0x8c, 0x4e, 0x9a, 0x4c, 0xed, 0x5b, 0xf1, 0xb1, 0x3a, 0x75, 0xc9]"
proof -
  have "hash_words (state_of hash_state_1) [8, 9, 10, 11] = state_of (put_word hash_state_1 (Lane 8 0 9 0 10 0 11 0 1 0 0 0 0 0 0 0))"
    by (rule hash_words_last) (simp_all add: lane_value u64_of_bytes_def)
  then show ?thesis unfolding hash_spec_words hash_words_blocks by (simp only: digest_12)
qed

lemma answer_13: "hash_spec ([0, 1, 2, 3, 4, 5, 6, 7] @ [8, 9, 10, 11, 12])
    = [0x94, 0x88, 0x3d, 0x2a, 0x44, 0xe8, 0xf1, 0x39, 0x64, 0xf9, 0x26, 0xde, 0x55, 0x35, 0x83, 0xdb, 0x7b, 0x1a, 0x82, 0xb0, 0xaa, 0xcc, 0x58, 0xef, 0x2d, 0x48, 0x46, 0xa5, 0xd6, 0xe8, 0xb4, 0xac]"
proof -
  have "hash_words (state_of hash_state_1) [8, 9, 10, 11, 12] = state_of (put_word hash_state_1 (Lane 8 0 9 0 10 0 11 0 12 0 1 0 0 0 0 0))"
    by (rule hash_words_last) (simp_all add: lane_value u64_of_bytes_def)
  then show ?thesis unfolding hash_spec_words hash_words_blocks by (simp only: digest_13)
qed

lemma answer_14: "hash_spec ([0, 1, 2, 3, 4, 5, 6, 7] @ [8, 9, 10, 11, 12, 13])
    = [0xbe, 0xb6, 0x35, 0x3f, 0x24, 0xe8, 0xde, 0xe9, 0xf2, 0xb9, 0x92, 0x79, 0xf2, 0x9f, 0x42, 0x5f, 0x7c, 0xce, 0x30, 0x98, 0xa3, 0x66, 0x5b, 0x7a, 0xf3, 0xaf, 0x86, 0xf7, 0x59, 0xcc, 0x98, 0x5d]"
proof -
  have "hash_words (state_of hash_state_1) [8, 9, 10, 11, 12, 13] = state_of (put_word hash_state_1 (Lane 8 0 9 0 10 0 11 0 12 0 13 0 1 0 0 0))"
    by (rule hash_words_last) (simp_all add: lane_value u64_of_bytes_def)
  then show ?thesis unfolding hash_spec_words hash_words_blocks by (simp only: digest_14)
qed

lemma answer_15: "hash_spec ([0, 1, 2, 3, 4, 5, 6, 7] @ [8, 9, 10, 11, 12, 13, 14])
    = [0x64, 0x21, 0x33, 0x0d, 0xf9, 0x9c, 0x05, 0xeb, 0x71, 0x54, 0x15, 0xee, 0x17, 0xb4, 0x55, 0xf2, 0x67, 0x4f, 0x86, 0x2a, 0xe3, 0xcc, 0x5b, 0xad, 0xff, 0xe4, 0x3a, 0x4a, 0x3e, 0xd2, 0x73, 0xe1]"
proof -
  have "hash_words (state_of hash_state_1) [8, 9, 10, 11, 12, 13, 14] = state_of (put_word hash_state_1 (Lane 8 0 9 0 10 0 11 0 12 0 13 0 14 0 1 0))"
    by (rule hash_words_last) (simp_all add: lane_value u64_of_bytes_def)
  then show ?thesis unfolding hash_spec_words hash_words_blocks by (simp only: digest_15)
qed

lemma answer_16: "hash_spec ([0, 1, 2, 3, 4, 5, 6, 7] @ [8, 9, 10, 11, 12, 13, 14, 15] @ [])
    = [0x31, 0x58, 0xc1, 0x94, 0x0a, 0x2f, 0xba, 0xdb, 0xd6, 0x8a, 0xb6, 0x61, 0x77, 0x78, 0x59, 0xb9, 0x4a, 0x68, 0x9e, 0x4e, 0xfc, 0x37, 0x59, 0x11, 0x46, 0x7a, 0xdd, 0xd6, 0x41, 0x83, 0x5c, 0x38]"
proof -
  have "hash_words (state_of hash_state_2) [] = state_of (put_word hash_state_2 (Lane 1 0 0 0 0 0 0 0 0 0 0 0 0 0 0 0))"
    by (rule hash_words_last) (simp_all add: lane_value u64_of_bytes_def)
  then show ?thesis unfolding hash_spec_words hash_words_blocks by (simp only: digest_16)
qed

lemma answer_17: "hash_spec ([0, 1, 2, 3, 4, 5, 6, 7] @ [8, 9, 10, 11, 12, 13, 14, 15] @ [16])
    = [0xf1, 0x49, 0xe9, 0x9d, 0xd0, 0xf4, 0x29, 0x59, 0x9b, 0xb8, 0x9b, 0x80, 0x79, 0xbf, 0x3f, 0x4d, 0xca, 0x3f, 0x29, 0x8e, 0xfe, 0xfc, 0xf9, 0xb1, 0xea, 0x16, 0xfe, 0x84, 0xf9, 0xb8, 0xb6, 0xe2]"
proof -
  have "hash_words (state_of hash_state_2) [16] = state_of (put_word hash_state_2 (Lane 0 1 1 0 0 0 0 0 0 0 0 0 0 0 0 0))"
    by (rule hash_words_last) (simp_all add: lane_value u64_of_bytes_def)
  then show ?thesis unfolding hash_spec_words hash_words_blocks by (simp only: digest_17)
qed

lemma answer_18: "hash_spec ([0, 1, 2, 3, 4, 5, 6, 7] @ [8, 9, 10, 11, 12, 13, 14, 15] @ [16, 17])
    = [0xd0, 0x70, 0xf7, 0xba, 0x0e, 0x9b, 0xcd, 0xb6, 0xb3, 0x4e, 0x83, 0x57, 0x34, 0x3e, 0x90, 0x41, 0x94, 0x31, 0x46, 0xf3, 0x34, 0xfd, 0xaf, 0x6e, 0x20, 0x09, 0x27, 0x5f, 0x6f, 0x25, 0xcb, 0xed]"
proof -
  have "hash_words (state_of hash_state_2) [16, 17] = state_of (put_word hash_state_2 (Lane 0 1 1 1 1 0 0 0 0 0 0 0 0 0 0 0))"
    by (rule hash_words_last) (simp_all add: lane_value u64_of_bytes_def)
  then show ?thesis unfolding hash_spec_words hash_words_blocks by (simp only: digest_18)
qed

lemma answer_19: "hash_spec ([0, 1, 2, 3, 4, 5, 6, 7] @ [8, 9, 10, 11, 12, 13, 14, 15] @ [16, 17, 18])
    = [0x75, 0x94, 0x01, 0xba, 0x2d, 0x33, 0x73, 0xeb, 0x5a, 0x01, 0x52, 0xbd, 0xe6, 0xfc, 0xc7, 0x26, 0xec, 0x65, 0xde, 0xe7, 0x95, 0xa5, 0x74, 0xf1, 0xd7, 0x15, 0xf3, 0xca, 0xc2, 0x1f, 0x03, 0x81]"
proof -
  have "hash_words (state_of hash_state_2) [16, 17, 18] = state_of (put_word hash_state_2 (Lane 0 1 1 1 2 1 1 0 0 0 0 0 0 0 0 0))"
    by (rule hash_words_last) (simp_all add: lane_value u64_of_bytes_def)
  then show ?thesis unfolding hash_spec_words hash_words_blocks by (simp only: digest_19)
qed

lemma answer_20: "hash_spec ([0, 1, 2, 3, 4, 5, 6, 7] @ [8, 9, 10, 11, 12, 13, 14, 15] @ [16, 17, 18, 19])
    = [0x98, 0x94, 0x1e, 0x48, 0x4f, 0xba, 0xe8, 0x74, 0x52, 0xdd, 0xaf, 0x60, 0x30, 0x08, 0x8b, 0x79, 0x8a, 0x56, 0xc3, 0x6e, 0xb6, 0xd4, 0xd3, 0xe9, 0x4b, 0x5c, 0xff, 0x78, 0xb2, 0x0e, 0x04, 0x81]"
proof -
  have "hash_words (state_of hash_state_2) [16, 17, 18, 19] = state_of (put_word hash_state_2 (Lane 0 1 1 1 2 1 3 1 1 0 0 0 0 0 0 0))"
    by (rule hash_words_last) (simp_all add: lane_value u64_of_bytes_def)
  then show ?thesis unfolding hash_spec_words hash_words_blocks by (simp only: digest_20)
qed

lemma answer_21: "hash_spec ([0, 1, 2, 3, 4, 5, 6, 7] @ [8, 9, 10, 11, 12, 13, 14, 15] @ [16, 17, 18, 19, 20])
    = [0x41, 0xc8, 0xf7, 0x33, 0xb9, 0xd8, 0x23, 0xbe, 0x30, 0xb6, 0x4e, 0xe7, 0x17, 0xc3, 0x22, 0xc5, 0x76, 0xd3, 0x67, 0x81, 0xff, 0xc5, 0xf7, 0xd6, 0xc7, 0x30, 0xec, 0xa5, 0x49, 0x78, 0x97, 0x25]"
proof -
  have "hash_words (state_of hash_state_2) [16, 17, 18, 19, 20] = state_of (put_word hash_state_2 (Lane 0 1 1 1 2 1 3 1 4 1 1 0 0 0 0 0))"
    by (rule hash_words_last) (simp_all add: lane_value u64_of_bytes_def)
  then show ?thesis unfolding hash_spec_words hash_words_blocks by (simp only: digest_21)
qed

lemma answer_22: "hash_spec ([0, 1, 2, 3, 4, 5, 6, 7] @ [8, 9, 10, 11, 12, 13, 14, 15] @ [16, 17, 18, 19, 20, 21])
    = [0x04, 0x18, 0x3f, 0x60, 0x3c, 0xf5, 0x6e, 0xa2, 0x5e, 0x5c, 0x29, 0x9d, 0x3f, 0xbd, 0xb1, 0x72, 0x28, 0xd6, 0x41, 0x1f, 0x15, 0xe9, 0xf7, 0x7c, 0x77, 0x89, 0xce, 0x89, 0xec, 0x9b, 0x8b, 0x0e]"
proof -
  have "hash_words (state_of hash_state_2) [16, 17, 18, 19, 20, 21] = state_of (put_word hash_state_2 (Lane 0 1 1 1 2 1 3 1 4 1 5 1 1 0 0 0))"
    by (rule hash_words_last) (simp_all add: lane_value u64_of_bytes_def)
  then show ?thesis unfolding hash_spec_words hash_words_blocks by (simp only: digest_22)
qed

lemma answer_23: "hash_spec ([0, 1, 2, 3, 4, 5, 6, 7] @ [8, 9, 10, 11, 12, 13, 14, 15] @ [16, 17, 18, 19, 20, 21, 22])
    = [0xb4, 0xf8, 0x8d, 0x12, 0x1e, 0xdd, 0xf6, 0xd1, 0xfe, 0xa9, 0xae, 0xf1, 0x5f, 0x68, 0xa0, 0xf3, 0xa1, 0x6d, 0x3d, 0x2c, 0xdd, 0x98, 0x17, 0x22, 0x58, 0x09, 0xc2, 0x04, 0x52, 0xb0, 0x4c, 0x61]"
proof -
  have "hash_words (state_of hash_state_2) [16, 17, 18, 19, 20, 21, 22] = state_of (put_word hash_state_2 (Lane 0 1 1 1 2 1 3 1 4 1 5 1 6 1 1 0))"
    by (rule hash_words_last) (simp_all add: lane_value u64_of_bytes_def)
  then show ?thesis unfolding hash_spec_words hash_words_blocks by (simp only: digest_23)
qed

lemma answer_24: "hash_spec ([0, 1, 2, 3, 4, 5, 6, 7] @ [8, 9, 10, 11, 12, 13, 14, 15] @ [16, 17, 18, 19, 20, 21, 22, 23] @ [])
    = [0x7e, 0x6a, 0x31, 0xfa, 0x65, 0x59, 0x53, 0x6a, 0x7a, 0xd6, 0x16, 0x22, 0xf6, 0x15, 0x0f, 0xa3, 0xb2, 0xa2, 0x9e, 0xbb, 0xf3, 0x9a, 0xd8, 0x01, 0x1b, 0x79, 0x02, 0xcc, 0x61, 0x25, 0x71, 0xe6]"
proof -
  have "hash_words (state_of hash_state_3) [] = state_of (put_word hash_state_3 (Lane 1 0 0 0 0 0 0 0 0 0 0 0 0 0 0 0))"
    by (rule hash_words_last) (simp_all add: lane_value u64_of_bytes_def)
  then show ?thesis unfolding hash_spec_words hash_words_blocks by (simp only: digest_24)
qed

lemma answer_25: "hash_spec ([0, 1, 2, 3, 4, 5, 6, 7] @ [8, 9, 10, 11, 12, 13, 14, 15] @ [16, 17, 18, 19, 20, 21, 22, 23] @ [24])
    = [0xac, 0xf3, 0x9f, 0xb4, 0x9c, 0xba, 0xa0, 0xb4, 0xbc, 0x04, 0xc5, 0x48, 0x22, 0x45, 0x43, 0xb7, 0x50, 0x19, 0xba, 0x63, 0x9c, 0xe4, 0xd0, 0xa5, 0x8c, 0xae, 0xda, 0xf1, 0x7e, 0x0f, 0x8d, 0x9f]"
proof -
  have "hash_words (state_of hash_state_3) [24] = state_of (put_word hash_state_3 (Lane 8 1 1 0 0 0 0 0 0 0 0 0 0 0 0 0))"
    by (rule hash_words_last) (simp_all add: lane_value u64_of_bytes_def)
  then show ?thesis unfolding hash_spec_words hash_words_blocks by (simp only: digest_25)
qed

lemma answer_26: "hash_spec ([0, 1, 2, 3, 4, 5, 6, 7] @ [8, 9, 10, 11, 12, 13, 14, 15] @ [16, 17, 18, 19, 20, 21, 22, 23] @ [24, 25])
    = [0xb1, 0xbb, 0x94, 0x8e, 0xda, 0x56, 0x00, 0x9f, 0x5d, 0x66, 0xed, 0x7b, 0xdc, 0x58, 0x94, 0xe5, 0xe7, 0x72, 0xd4, 0x34, 0x1b, 0xb7, 0x04, 0x05, 0xc3, 0x65, 0x51, 0x89, 0x76, 0xeb, 0x95, 0x73]"
proof -
  have "hash_words (state_of hash_state_3) [24, 25] = state_of (put_word hash_state_3 (Lane 8 1 9 1 1 0 0 0 0 0 0 0 0 0 0 0))"
    by (rule hash_words_last) (simp_all add: lane_value u64_of_bytes_def)
  then show ?thesis unfolding hash_spec_words hash_words_blocks by (simp only: digest_26)
qed

lemma answer_27: "hash_spec ([0, 1, 2, 3, 4, 5, 6, 7] @ [8, 9, 10, 11, 12, 13, 14, 15] @ [16, 17, 18, 19, 20, 21, 22, 23] @ [24, 25, 26])
    = [0xb1, 0x6e, 0xe2, 0x00, 0xdd, 0x3e, 0x0c, 0x85, 0xcc, 0xcd, 0x7f, 0xfc, 0x3d, 0x6b, 0xd7, 0x1e, 0xbc, 0xb7, 0x6b, 0x2f, 0x4c, 0x03, 0x3a, 0xb0, 0x60, 0x2f, 0x68, 0x6f, 0xca, 0xdf, 0xc3, 0xfa]"
proof -
  have "hash_words (state_of hash_state_3) [24, 25, 26] = state_of (put_word hash_state_3 (Lane 8 1 9 1 10 1 1 0 0 0 0 0 0 0 0 0))"
    by (rule hash_words_last) (simp_all add: lane_value u64_of_bytes_def)
  then show ?thesis unfolding hash_spec_words hash_words_blocks by (simp only: digest_27)
qed

lemma answer_28: "hash_spec ([0, 1, 2, 3, 4, 5, 6, 7] @ [8, 9, 10, 11, 12, 13, 14, 15] @ [16, 17, 18, 19, 20, 21, 22, 23] @ [24, 25, 26, 27])
    = [0x09, 0x86, 0xec, 0xa8, 0xe6, 0x31, 0xd1, 0x84, 0xcf, 0x4a, 0x15, 0xf4, 0xa5, 0x8d, 0x4a, 0x17, 0x62, 0x5e, 0x66, 0xff, 0x0e, 0xde, 0x48, 0x6b, 0xa1, 0x19, 0xe5, 0xd4, 0x15, 0x5a, 0x15, 0x45]"
proof -
  have "hash_words (state_of hash_state_3) [24, 25, 26, 27] = state_of (put_word hash_state_3 (Lane 8 1 9 1 10 1 11 1 1 0 0 0 0 0 0 0))"
    by (rule hash_words_last) (simp_all add: lane_value u64_of_bytes_def)
  then show ?thesis unfolding hash_spec_words hash_words_blocks by (simp only: digest_28)
qed

lemma answer_29: "hash_spec ([0, 1, 2, 3, 4, 5, 6, 7] @ [8, 9, 10, 11, 12, 13, 14, 15] @ [16, 17, 18, 19, 20, 21, 22, 23] @ [24, 25, 26, 27, 28])
    = [0x41, 0xdf, 0x85, 0xf3, 0x64, 0x72, 0x36, 0x93, 0x9a, 0xdb, 0xb8, 0x8a, 0xbd, 0x30, 0xa5, 0xe0, 0x52, 0x72, 0x3e, 0x25, 0xdb, 0x09, 0xab, 0x23, 0xf2, 0x8b, 0xba, 0x55, 0x40, 0x56, 0xf5, 0xeb]"
proof -
  have "hash_words (state_of hash_state_3) [24, 25, 26, 27, 28] = state_of (put_word hash_state_3 (Lane 8 1 9 1 10 1 11 1 12 1 1 0 0 0 0 0))"
    by (rule hash_words_last) (simp_all add: lane_value u64_of_bytes_def)
  then show ?thesis unfolding hash_spec_words hash_words_blocks by (simp only: digest_29)
qed

lemma answer_30: "hash_spec ([0, 1, 2, 3, 4, 5, 6, 7] @ [8, 9, 10, 11, 12, 13, 14, 15] @ [16, 17, 18, 19, 20, 21, 22, 23] @ [24, 25, 26, 27, 28, 29])
    = [0x84, 0xb6, 0x8f, 0xde, 0xb9, 0xf5, 0xdf, 0xba, 0x8f, 0xbe, 0x03, 0x14, 0xc4, 0xc7, 0x9a, 0x1e, 0x3e, 0xae, 0x97, 0xc9, 0xb0, 0x18, 0xfc, 0xac, 0x88, 0xfd, 0x9b, 0xd4, 0x07, 0x08, 0x6e, 0x70]"
proof -
  have "hash_words (state_of hash_state_3) [24, 25, 26, 27, 28, 29] = state_of (put_word hash_state_3 (Lane 8 1 9 1 10 1 11 1 12 1 13 1 1 0 0 0))"
    by (rule hash_words_last) (simp_all add: lane_value u64_of_bytes_def)
  then show ?thesis unfolding hash_spec_words hash_words_blocks by (simp only: digest_30)
qed

lemma answer_31: "hash_spec ([0, 1, 2, 3, 4, 5, 6, 7] @ [8, 9, 10, 11, 12, 13, 14, 15] @ [16, 17, 18, 19, 20, 21, 22, 23] @ [24, 25, 26, 27, 28, 29, 30])
    = [0xb9, 0x00, 0xcd, 0x3f, 0x06, 0xf1, 0x61, 0x8b, 0x68, 0xc1, 0x66, 0x65, 0x80, 0x72, 0x06, 0xdb, 0xe2, 0x73, 0xdf, 0x40, 0x13, 0x53, 0x61, 0xf4, 0x49, 0x84, 0x7d, 0x57, 0x39, 0x03, 0xfa, 0xbd]"
proof -
  have "hash_words (state_of hash_state_3) [24, 25, 26, 27, 28, 29, 30] = state_of (put_word hash_state_3 (Lane 8 1 9 1 10 1 11 1 12 1 13 1 14 1 1 0))"
    by (rule hash_words_last) (simp_all add: lane_value u64_of_bytes_def)
  then show ?thesis unfolding hash_spec_words hash_words_blocks by (simp only: digest_31)
qed

definition row_ok :: "nat \<Rightarrow> bool" where
  "row_ok i \<longleftrightarrow> hash_spec (map of_nat [0..<i]) = hash_kat_table ! i"

lemma row_ok:
  "row_ok 0"
  "row_ok (Suc 0)"
  "row_ok 2"
  "row_ok 3"
  "row_ok 4"
  "row_ok 5"
  "row_ok 6"
  "row_ok 7"
  "row_ok 8"
  "row_ok 9"
  "row_ok 10"
  "row_ok 11"
  "row_ok 12"
  "row_ok 13"
  "row_ok 14"
  "row_ok 15"
  "row_ok 16"
  "row_ok 17"
  "row_ok 18"
  "row_ok 19"
  "row_ok 20"
  "row_ok 21"
  "row_ok 22"
  "row_ok 23"
  "row_ok 24"
  "row_ok 25"
  "row_ok 26"
  "row_ok 27"
  "row_ok 28"
  "row_ok 29"
  "row_ok 30"
  "row_ok 31"
proof -
  show "row_ok 0" using answer_0 by (simp add: row_ok_def upt_rec hash_kat_table_def)
  show "row_ok (Suc 0)" using answer_1 by (simp add: row_ok_def upt_rec hash_kat_table_def)
  show "row_ok 2" using answer_2 by (simp add: row_ok_def upt_rec hash_kat_table_def)
  show "row_ok 3" using answer_3 by (simp add: row_ok_def upt_rec hash_kat_table_def)
  show "row_ok 4" using answer_4 by (simp add: row_ok_def upt_rec hash_kat_table_def)
  show "row_ok 5" using answer_5 by (simp add: row_ok_def upt_rec hash_kat_table_def)
  show "row_ok 6" using answer_6 by (simp add: row_ok_def upt_rec hash_kat_table_def)
  show "row_ok 7" using answer_7 by (simp add: row_ok_def upt_rec hash_kat_table_def)
  show "row_ok 8" using answer_8 by (simp add: row_ok_def upt_rec hash_kat_table_def)
  show "row_ok 9" using answer_9 by (simp add: row_ok_def upt_rec hash_kat_table_def)
  show "row_ok 10" using answer_10 by (simp add: row_ok_def upt_rec hash_kat_table_def)
  show "row_ok 11" using answer_11 by (simp add: row_ok_def upt_rec hash_kat_table_def)
  show "row_ok 12" using answer_12 by (simp add: row_ok_def upt_rec hash_kat_table_def)
  show "row_ok 13" using answer_13 by (simp add: row_ok_def upt_rec hash_kat_table_def)
  show "row_ok 14" using answer_14 by (simp add: row_ok_def upt_rec hash_kat_table_def)
  show "row_ok 15" using answer_15 by (simp add: row_ok_def upt_rec hash_kat_table_def)
  show "row_ok 16" using answer_16 by (simp add: row_ok_def upt_rec hash_kat_table_def)
  show "row_ok 17" using answer_17 by (simp add: row_ok_def upt_rec hash_kat_table_def)
  show "row_ok 18" using answer_18 by (simp add: row_ok_def upt_rec hash_kat_table_def)
  show "row_ok 19" using answer_19 by (simp add: row_ok_def upt_rec hash_kat_table_def)
  show "row_ok 20" using answer_20 by (simp add: row_ok_def upt_rec hash_kat_table_def)
  show "row_ok 21" using answer_21 by (simp add: row_ok_def upt_rec hash_kat_table_def)
  show "row_ok 22" using answer_22 by (simp add: row_ok_def upt_rec hash_kat_table_def)
  show "row_ok 23" using answer_23 by (simp add: row_ok_def upt_rec hash_kat_table_def)
  show "row_ok 24" using answer_24 by (simp add: row_ok_def upt_rec hash_kat_table_def)
  show "row_ok 25" using answer_25 by (simp add: row_ok_def upt_rec hash_kat_table_def)
  show "row_ok 26" using answer_26 by (simp add: row_ok_def upt_rec hash_kat_table_def)
  show "row_ok 27" using answer_27 by (simp add: row_ok_def upt_rec hash_kat_table_def)
  show "row_ok 28" using answer_28 by (simp add: row_ok_def upt_rec hash_kat_table_def)
  show "row_ok 29" using answer_29 by (simp add: row_ok_def upt_rec hash_kat_table_def)
  show "row_ok 30" using answer_30 by (simp add: row_ok_def upt_rec hash_kat_table_def)
  show "row_ok 31" using answer_31 by (simp add: row_ok_def upt_rec hash_kat_table_def)
qed

lemma hash_table_answers: "i < 32 \<Longrightarrow> hash_spec (map of_nat [0..<i]) = hash_kat_table ! i"
proof -
  assume "i < 32"
  then have "i \<in> set [0..<32]" by simp
  moreover have "[0..<32] = [0, Suc 0, 2, 3, 4, 5, 6, 7, 8, 9, 10, 11, 12, 13, 14, 15, 16, 17, 18, 19, 20, 21, 22, 23, 24, 25, 26, 27, 28, 29, 30, 31]" by (simp add: upt_rec)
  moreover have "\<forall>i \<in> set [0, Suc 0, 2, 3, 4, 5, 6, 7, 8, 9, 10, 11, 12, 13, 14, 15, 16, 17, 18, 19, 20, 21, 22, 23, 24, 25, 26, 27, 28, 29, 30, 31]. row_ok i" by (simp only: list.set ball_simps row_ok)
  ultimately show ?thesis by (metis row_ok_def)
qed

end
