(* ===== verification/Kdf_Answers.thy ===== *)
theory Kdf_Answers
  imports Hash_Answers
begin

text \<open>
  The hashes of the HMAC chain that \<open>tools/ascon_kdf_kat.c\<close> computes by hand: the key of 32
  zero bytes, the inner hash over the pre-shared key, the outer hash; and the hash of its
  first test.
\<close>

lemma hash_zero_key: "hash_spec [0, 0, 0, 0, 0, 0, 0, 0, 0, 0, 0, 0, 0, 0, 0, 0, 0, 0, 0, 0, 0, 0, 0, 0, 0, 0, 0, 0, 0, 0, 0, 0]
    = [0xec, 0xcf, 0x22, 0x5a, 0xfc, 0x53, 0xa3, 0xae, 0xe6, 0xdc, 0x68, 0xb8, 0x09, 0x24, 0x9e, 0x40, 0xcd, 0x33, 0x1f, 0x41, 0xec, 0xe6, 0xec, 0x60, 0x11, 0x69, 0x47, 0xcd, 0xa7, 0xa7, 0xbc, 0x88]"
proof -
  have p1: "lanes_perm12 (put_word hash_state_0 (Lane 0 0 0 0 0 0 0 0 0 0 0 0 0 0 0 0))
     = (Lane 5 7 10 8 1 10 6 1 9 5 15 12 13 15 0 1,
       Lane 11 9 13 15 11 6 14 15 8 1 0 1 12 4 3 6,
       Lane 12 5 3 4 7 2 6 8 13 6 7 0 14 0 8 6,
       Lane 5 9 13 1 8 3 6 10 4 8 4 1 5 8 10 4,
       Lane 12 3 8 8 10 3 5 3 8 1 1 14 5 5 1 10)" (is "_ = ?s1")
    by (simp only: hash_state_0_def put_word_def lanes_eval)
  have b1: "hash_words (state_of hash_state_0) ([0, 0, 0, 0, 0, 0, 0, 0] @ m) = hash_words (state_of ?s1) m" for m
    unfolding p1 [symmetric] state_of_perm by (rule hash_words_block) (simp_all add: lane_value u64_of_bytes_def)
  have p2: "lanes_perm12 (put_word (Lane 5 7 10 8 1 10 6 1 9 5 15 12 13 15 0 1,
       Lane 11 9 13 15 11 6 14 15 8 1 0 1 12 4 3 6,
       Lane 12 5 3 4 7 2 6 8 13 6 7 0 14 0 8 6,
       Lane 5 9 13 1 8 3 6 10 4 8 4 1 5 8 10 4,
       Lane 12 3 8 8 10 3 5 3 8 1 1 14 5 5 1 10) (Lane 0 0 0 0 0 0 0 0 0 0 0 0 0 0 0 0))
     = (Lane 5 13 13 4 0 4 2 5 1 10 9 13 13 12 14 11,
       Lane 15 0 5 6 8 8 5 3 7 4 7 7 3 15 15 3,
       Lane 13 7 11 9 3 5 4 9 5 4 13 6 11 4 12 12,
       Lane 13 10 5 10 3 2 13 5 14 10 9 4 6 14 2 9,
       Lane 11 9 5 0 3 7 12 13 1 7 0 13 1 3 2 1)" (is "_ = ?s2")
    by (simp only: hash_state_0_def put_word_def lanes_eval)
  have b2: "hash_words (state_of ?s1) ([0, 0, 0, 0, 0, 0, 0, 0] @ m) = hash_words (state_of ?s2) m" for m
    unfolding p2 [symmetric] state_of_perm by (rule hash_words_block) (simp_all add: lane_value u64_of_bytes_def)
  have p3: "lanes_perm12 (put_word (Lane 5 13 13 4 0 4 2 5 1 10 9 13 13 12 14 11,
       Lane 15 0 5 6 8 8 5 3 7 4 7 7 3 15 15 3,
       Lane 13 7 11 9 3 5 4 9 5 4 13 6 11 4 12 12,
       Lane 13 10 5 10 3 2 13 5 14 10 9 4 6 14 2 9,
       Lane 11 9 5 0 3 7 12 13 1 7 0 13 1 3 2 1) (Lane 0 0 0 0 0 0 0 0 0 0 0 0 0 0 0 0))
     = (Lane 3 5 12 0 3 9 15 0 9 15 7 13 15 12 7 9,
       Lane 9 9 10 1 7 6 9 13 0 9 5 4 6 9 10 10,
       Lane 12 0 3 3 15 4 3 12 7 6 9 2 4 14 6 5,
       Lane 15 12 11 0 14 9 12 7 6 14 2 4 5 1 14 12,
       Lane 4 8 15 14 4 0 12 2 5 3 12 8 13 12 3 6)" (is "_ = ?s3")
    by (simp only: hash_state_0_def put_word_def lanes_eval)
  have b3: "hash_words (state_of ?s2) ([0, 0, 0, 0, 0, 0, 0, 0] @ m) = hash_words (state_of ?s3) m" for m
    unfolding p3 [symmetric] state_of_perm by (rule hash_words_block) (simp_all add: lane_value u64_of_bytes_def)
  have p4: "lanes_perm12 (put_word (Lane 3 5 12 0 3 9 15 0 9 15 7 13 15 12 7 9,
       Lane 9 9 10 1 7 6 9 13 0 9 5 4 6 9 10 10,
       Lane 12 0 3 3 15 4 3 12 7 6 9 2 4 14 6 5,
       Lane 15 12 11 0 14 9 12 7 6 14 2 4 5 1 14 12,
       Lane 4 8 15 14 4 0 12 2 5 3 12 8 13 12 3 6) (Lane 0 0 0 0 0 0 0 0 0 0 0 0 0 0 0 0))
     = (Lane 10 15 14 1 0 2 5 4 8 11 12 4 4 8 3 7,
       Lane 15 0 12 11 5 6 2 9 5 2 6 12 5 2 4 12,
       Lane 3 0 7 1 9 6 13 6 0 9 9 11 9 15 11 15,
       Lane 2 1 3 3 10 6 6 7 8 11 13 8 11 9 10 7,
       Lane 2 0 14 7 6 4 12 12 15 9 3 5 12 3 2 11)" (is "_ = ?s4")
    by (simp only: hash_state_0_def put_word_def lanes_eval)
  have b4: "hash_words (state_of ?s3) ([0, 0, 0, 0, 0, 0, 0, 0] @ m) = hash_words (state_of ?s4) m" for m
    unfolding p4 [symmetric] state_of_perm by (rule hash_words_block) (simp_all add: lane_value u64_of_bytes_def)
  have l: "hash_words (state_of ?s4) [] = state_of (put_word ?s4 (Lane 1 0 0 0 0 0 0 0 0 0 0 0 0 0 0 0))"
    by (rule hash_words_last) (simp_all add: lane_value u64_of_bytes_def)
  have t1: "lanes_perm12 (put_word ?s4 (Lane 1 0 0 0 0 0 0 0 0 0 0 0 0 0 0 0))
     = (Lane 12 14 15 12 2 2 10 5 12 15 3 5 3 10 14 10,
       Lane 0 2 3 4 8 15 10 8 0 12 6 11 13 3 5 0,
       Lane 8 15 8 0 15 5 5 7 14 11 8 0 0 10 10 1,
       Lane 5 0 7 6 7 2 11 1 15 3 13 7 10 12 6 1,
       Lane 6 2 14 13 4 12 13 7 9 15 13 14 5 14 9 13)" (is "_ = ?t1")
    by (simp only: put_word_def lanes_eval)
  have t2: "lanes_perm12 (?t1)
     = (Lane 6 14 12 13 8 6 8 11 9 0 4 2 14 9 0 4,
       Lane 5 3 14 13 12 6 0 8 3 14 10 13 11 7 11 15,
       Lane 0 15 0 12 14 1 4 6 15 0 5 12 13 3 2 6,
       Lane 6 8 13 11 14 1 7 0 10 8 3 13 4 6 8 11,
       Lane 15 9 10 0 1 13 6 5 10 1 8 8 12 7 15 15)" (is "_ = ?t2")
    by (simp only: put_word_def lanes_eval)
  have t3: "lanes_perm12 (?t2)
     = (Lane 13 12 3 3 15 1 1 4 12 14 6 14 12 14 0 6,
       Lane 15 11 14 7 7 9 4 14 10 14 0 9 13 6 8 5,
       Lane 0 8 1 15 15 15 9 9 6 11 0 12 6 4 8 8,
       Lane 8 3 7 14 1 15 1 2 11 7 8 3 3 11 1 10,
       Lane 4 9 3 8 9 6 4 2 12 5 14 7 14 5 8 8)" (is "_ = ?t3")
    by (simp only: put_word_def lanes_eval)
  have t4: "lanes_perm12 (?t3)
     = (Lane 1 1 9 6 7 4 13 12 7 10 7 10 12 11 8 8,
       Lane 15 4 0 14 5 9 14 3 10 6 9 11 9 6 0 12,
       Lane 4 9 8 4 4 14 2 4 8 8 0 0 6 4 0 8,
       Lane 0 6 15 6 5 12 8 11 5 2 3 10 5 5 2 13,
       Lane 10 11 6 7 9 9 14 1 2 2 10 3 13 9 0 2)" (is "_ = ?t4")
    by (simp only: put_word_def lanes_eval)
  have "hash_spec ([0, 0, 0, 0, 0, 0, 0, 0] @ [0, 0, 0, 0, 0, 0, 0, 0] @ [0, 0, 0, 0, 0, 0, 0, 0] @ [0, 0, 0, 0, 0, 0, 0, 0] @ []) = digest_words (state_of (put_word ?s4 (Lane 1 0 0 0 0 0 0 0 0 0 0 0 0 0 0 0)))"
    unfolding hash_spec_words hash_words_blocks(1) b1 b2 b3 b4 l ..
  then show ?thesis unfolding eval_digest [OF t1 t2 t3 t4] by simp
qed

lemma hash_inner: "hash_spec [0xda, 0xf9, 0x14, 0x6c, 0xca, 0x65, 0x95, 0x98, 1, 0x23, 0x45, 0x67, 0x89, 0xab, 0xcd, 0xef, 0x11, 0x33, 0x55, 0x77, 0x99, 0xbb, 0xdd, 0xff, 0x21, 0x43, 0x65, 0x87, 0xa9, 0xcb, 0xed, 0x0f, 0x31, 0x53, 0x75, 0x97, 0xb9, 0xdb, 0xfd, 0x1f]
    = [0x1b, 0x13, 0xea, 0xa2, 0x04, 0xf5, 0x33, 0x53, 0x0f, 0x4c, 0x87, 0xfb, 0x2c, 0x1d, 0x9a, 0x7a, 0xc9, 0x69, 0x4a, 0xc9, 0xab, 0xa6, 0x62, 0x13, 0x1e, 0x2b, 0x9b, 0xbf, 0xc6, 0x1e, 0x24, 0x95]"
proof -
  have p1: "lanes_perm12 (put_word hash_state_0 (Lane 10 13 9 15 4 1 12 6 10 12 5 6 5 9 8 9))
     = (Lane 13 10 9 10 2 5 4 14 1 15 15 13 11 0 9 4,
       Lane 7 14 1 14 1 2 10 0 10 13 8 8 1 14 12 6,
       Lane 14 8 5 10 15 15 5 12 7 6 7 6 1 11 0 13,
       Lane 8 1 1 13 6 7 6 4 2 10 9 5 3 11 15 11,
       Lane 9 7 2 10 15 9 7 9 2 9 1 7 9 13 5 14)" (is "_ = ?s1")
    by (simp only: hash_state_0_def put_word_def lanes_eval)
  have b1: "hash_words (state_of hash_state_0) ([0xda, 0xf9, 0x14, 0x6c, 0xca, 0x65, 0x95, 0x98] @ m) = hash_words (state_of ?s1) m" for m
    unfolding p1 [symmetric] state_of_perm by (rule hash_words_block) (simp_all add: lane_value u64_of_bytes_def)
  have p2: "lanes_perm12 (put_word (Lane 13 10 9 10 2 5 4 14 1 15 15 13 11 0 9 4,
       Lane 7 14 1 14 1 2 10 0 10 13 8 8 1 14 12 6,
       Lane 14 8 5 10 15 15 5 12 7 6 7 6 1 11 0 13,
       Lane 8 1 1 13 6 7 6 4 2 10 9 5 3 11 15 11,
       Lane 9 7 2 10 15 9 7 9 2 9 1 7 9 13 5 14) (Lane 1 0 3 2 5 4 7 6 9 8 11 10 13 12 15 14))
     = (Lane 11 4 2 14 3 8 2 5 13 7 15 14 14 15 13 2,
       Lane 13 1 7 7 10 7 13 7 12 5 2 13 10 3 9 6,
       Lane 4 10 10 7 9 7 9 9 7 2 13 13 2 0 0 8,
       Lane 7 7 11 4 9 8 2 15 5 12 14 11 9 13 1 13,
       Lane 9 5 12 6 1 9 13 1 4 6 11 12 3 15 14 0)" (is "_ = ?s2")
    by (simp only: hash_state_0_def put_word_def lanes_eval)
  have b2: "hash_words (state_of ?s1) ([1, 0x23, 0x45, 0x67, 0x89, 0xab, 0xcd, 0xef] @ m) = hash_words (state_of ?s2) m" for m
    unfolding p2 [symmetric] state_of_perm by (rule hash_words_block) (simp_all add: lane_value u64_of_bytes_def)
  have p3: "lanes_perm12 (put_word (Lane 11 4 2 14 3 8 2 5 13 7 15 14 14 15 13 2,
       Lane 13 1 7 7 10 7 13 7 12 5 2 13 10 3 9 6,
       Lane 4 10 10 7 9 7 9 9 7 2 13 13 2 0 0 8,
       Lane 7 7 11 4 9 8 2 15 5 12 14 11 9 13 1 13,
       Lane 9 5 12 6 1 9 13 1 4 6 11 12 3 15 14 0) (Lane 1 1 3 3 5 5 7 7 9 9 11 11 13 13 15 15))
     = (Lane 5 0 9 0 2 10 5 0 15 10 1 11 8 12 12 5,
       Lane 11 11 7 15 13 2 11 11 5 11 4 1 4 14 7 15,
       Lane 10 7 10 3 6 5 9 3 4 2 11 11 7 4 3 2,
       Lane 4 5 12 8 10 12 7 15 3 10 5 0 10 5 1 8,
       Lane 4 8 10 1 13 7 14 7 11 10 4 13 12 6 12 10)" (is "_ = ?s3")
    by (simp only: hash_state_0_def put_word_def lanes_eval)
  have b3: "hash_words (state_of ?s2) ([0x11, 0x33, 0x55, 0x77, 0x99, 0xbb, 0xdd, 0xff] @ m) = hash_words (state_of ?s3) m" for m
    unfolding p3 [symmetric] state_of_perm by (rule hash_words_block) (simp_all add: lane_value u64_of_bytes_def)
  have p4: "lanes_perm12 (put_word (Lane 5 0 9 0 2 10 5 0 15 10 1 11 8 12 12 5,
       Lane 11 11 7 15 13 2 11 11 5 11 4 1 4 14 7 15,
       Lane 10 7 10 3 6 5 9 3 4 2 11 11 7 4 3 2,
       Lane 4 5 12 8 10 12 7 15 3 10 5 0 10 5 1 8,
       Lane 4 8 10 1 13 7 14 7 11 10 4 13 12 6 12 10) (Lane 1 2 3 4 5 6 7 8 9 10 11 12 13 14 15 0))
     = (Lane 11 12 3 5 11 5 11 5 7 8 6 4 4 6 13 1,
       Lane 10 6 13 13 14 0 15 12 14 8 2 1 12 4 3 2,
       Lane 0 1 14 5 7 2 13 9 4 4 1 14 10 8 2 10,
       Lane 3 4 14 13 0 5 15 0 9 2 2 1 10 12 10 3,
       Lane 14 13 3 8 11 8 3 10 6 13 11 13 2 10 1 11)" (is "_ = ?s4")
    by (simp only: hash_state_0_def put_word_def lanes_eval)
  have b4: "hash_words (state_of ?s3) ([0x21, 0x43, 0x65, 0x87, 0xa9, 0xcb, 0xed, 0x0f] @ m) = hash_words (state_of ?s4) m" for m
    unfolding p4 [symmetric] state_of_perm by (rule hash_words_block) (simp_all add: lane_value u64_of_bytes_def)
  have p5: "lanes_perm12 (put_word (Lane 11 12 3 5 11 5 11 5 7 8 6 4 4 6 13 1,
       Lane 10 6 13 13 14 0 15 12 14 8 2 1 12 4 3 2,
       Lane 0 1 14 5 7 2 13 9 4 4 1 14 10 8 2 10,
       Lane 3 4 14 13 0 5 15 0 9 2 2 1 10 12 10 3,
       Lane 14 13 3 8 11 8 3 10 6 13 11 13 2 10 1 11) (Lane 1 3 3 5 5 7 7 9 9 11 11 13 13 15 15 1))
     = (Lane 1 6 3 10 15 8 7 5 4 5 7 2 11 5 14 0,
       Lane 6 12 9 7 13 3 11 2 14 7 5 6 8 13 14 10,
       Lane 1 3 1 1 10 7 11 5 14 3 1 1 7 7 0 8,
       Lane 2 12 2 9 9 9 7 9 0 6 5 11 9 12 8 12,
       Lane 11 9 0 4 15 14 3 9 0 11 7 7 4 5 9 10)" (is "_ = ?s5")
    by (simp only: hash_state_0_def put_word_def lanes_eval)
  have b5: "hash_words (state_of ?s4) ([0x31, 0x53, 0x75, 0x97, 0xb9, 0xdb, 0xfd, 0x1f] @ m) = hash_words (state_of ?s5) m" for m
    unfolding p5 [symmetric] state_of_perm by (rule hash_words_block) (simp_all add: lane_value u64_of_bytes_def)
  have l: "hash_words (state_of ?s5) [] = state_of (put_word ?s5 (Lane 1 0 0 0 0 0 0 0 0 0 0 0 0 0 0 0))"
    by (rule hash_words_last) (simp_all add: lane_value u64_of_bytes_def)
  have t1: "lanes_perm12 (put_word ?s5 (Lane 1 0 0 0 0 0 0 0 0 0 0 0 0 0 0 0))
     = (Lane 11 1 3 1 10 14 2 10 4 0 5 15 3 3 3 5,
       Lane 13 9 9 12 13 0 5 1 0 3 13 13 12 5 8 6,
       Lane 7 11 2 1 10 14 1 12 1 9 4 1 7 15 15 15,
       Lane 14 15 3 15 14 11 2 12 13 1 13 15 7 0 5 13,
       Lane 11 1 12 1 11 11 7 7 11 2 10 13 12 11 9 11)" (is "_ = ?t1")
    by (simp only: put_word_def lanes_eval)
  have t2: "lanes_perm12 (?t1)
     = (Lane 15 0 12 4 7 8 11 15 12 2 13 1 10 9 10 7,
       Lane 10 14 14 15 1 8 7 5 14 4 15 15 0 12 1 6,
       Lane 1 13 15 4 13 13 8 13 15 15 5 4 10 1 2 8,
       Lane 10 11 9 13 14 5 12 0 14 5 5 7 8 5 9 9,
       Lane 11 9 5 12 8 2 8 13 0 15 10 15 12 14 9 15)" (is "_ = ?t2")
    by (simp only: put_word_def lanes_eval)
  have t3: "lanes_perm12 (?t2)
     = (Lane 9 12 9 6 10 4 9 12 11 10 6 10 2 6 3 1,
       Lane 6 13 4 9 5 0 13 10 10 10 15 8 13 0 1 12,
       Lane 14 4 1 15 8 13 11 10 12 8 5 8 0 1 15 13,
       Lane 9 7 5 3 12 15 7 3 4 3 9 9 9 8 14 13,
       Lane 12 9 4 10 10 9 13 6 0 9 1 0 13 1 5 14)" (is "_ = ?t3")
    by (simp only: put_word_def lanes_eval)
  have t4: "lanes_perm12 (?t3)
     = (Lane 14 1 11 2 11 9 15 11 6 12 14 1 4 2 5 9,
       Lane 10 1 15 10 3 10 3 4 13 0 10 15 10 6 4 7,
       Lane 11 0 15 6 13 9 1 7 12 1 7 7 12 3 0 10,
       Lane 7 7 3 8 15 10 10 4 14 10 6 13 0 8 1 5,
       Lane 11 12 4 2 2 15 5 9 2 13 9 12 0 0 5 9)" (is "_ = ?t4")
    by (simp only: put_word_def lanes_eval)
  have "hash_spec ([0xda, 0xf9, 0x14, 0x6c, 0xca, 0x65, 0x95, 0x98] @ [1, 0x23, 0x45, 0x67, 0x89, 0xab, 0xcd, 0xef] @ [0x11, 0x33, 0x55, 0x77, 0x99, 0xbb, 0xdd, 0xff] @ [0x21, 0x43, 0x65, 0x87, 0xa9, 0xcb, 0xed, 0x0f] @ [0x31, 0x53, 0x75, 0x97, 0xb9, 0xdb, 0xfd, 0x1f] @ []) = digest_words (state_of (put_word ?s5 (Lane 1 0 0 0 0 0 0 0 0 0 0 0 0 0 0 0)))"
    unfolding hash_spec_words hash_words_blocks(1) b1 b2 b3 b4 b5 l ..
  then show ?thesis unfolding eval_digest [OF t1 t2 t3 t4] by simp
qed

lemma hash_outer: "hash_spec [0xb0, 0x93, 0x7e, 0x06, 0xa0, 0x0f, 0xff, 0xf2, 0x1b, 0x13, 0xea, 0xa2, 0x04, 0xf5, 0x33, 0x53, 0x0f, 0x4c, 0x87, 0xfb, 0x2c, 0x1d, 0x9a, 0x7a, 0xc9, 0x69, 0x4a, 0xc9, 0xab, 0xa6, 0x62, 0x13, 0x1e, 0x2b, 0x9b, 0xbf, 0xc6, 0x1e, 0x24, 0x95]
    = [0x30, 0x3b, 0xaf, 0x98, 0xc9, 0xd0, 0x7a, 0x15, 0x4b, 0xb2, 0x0d, 0x5a, 0x98, 0xa8, 0x71, 0x20, 0x1f, 0x5d, 0x71, 0xd8, 0x67, 0xe5, 0x70, 0xd8, 0x92, 0x28, 0xdd, 0xfa, 0x63, 0x5c, 0x8d, 0xcd]"
proof -
  have p1: "lanes_perm12 (put_word hash_state_0 (Lane 0 11 3 9 14 7 6 0 0 10 15 0 15 15 2 15))
     = (Lane 2 4 13 14 12 9 12 7 10 13 9 7 8 15 9 12,
       Lane 10 10 9 14 10 5 10 9 15 6 12 6 8 13 13 15,
       Lane 9 12 5 13 9 12 7 11 14 7 7 3 5 11 12 12,
       Lane 7 13 11 12 13 12 11 4 5 4 6 11 4 13 5 6,
       Lane 4 5 11 8 0 10 7 1 12 4 5 4 13 5 11 1)" (is "_ = ?s1")
    by (simp only: hash_state_0_def put_word_def lanes_eval)
  have b1: "hash_words (state_of hash_state_0) ([0xb0, 0x93, 0x7e, 0x06, 0xa0, 0x0f, 0xff, 0xf2] @ m) = hash_words (state_of ?s1) m" for m
    unfolding p1 [symmetric] state_of_perm by (rule hash_words_block) (simp_all add: lane_value u64_of_bytes_def)
  have p2: "lanes_perm12 (put_word (Lane 2 4 13 14 12 9 12 7 10 13 9 7 8 15 9 12,
       Lane 10 10 9 14 10 5 10 9 15 6 12 6 8 13 13 15,
       Lane 9 12 5 13 9 12 7 11 14 7 7 3 5 11 12 12,
       Lane 7 13 11 12 13 12 11 4 5 4 6 11 4 13 5 6,
       Lane 4 5 11 8 0 10 7 1 12 4 5 4 13 5 11 1) (Lane 11 1 3 1 10 14 2 10 4 0 5 15 3 3 3 5))
     = (Lane 2 4 13 14 6 8 8 1 4 5 10 14 11 6 5 1,
       Lane 7 1 6 10 9 4 3 8 0 1 13 8 10 14 6 14,
       Lane 3 13 0 1 4 2 6 12 1 6 8 1 10 1 13 2,
       Lane 12 10 2 15 5 9 8 0 10 11 8 7 5 0 5 10,
       Lane 2 4 5 8 8 8 3 0 1 7 8 9 2 13 8 4)" (is "_ = ?s2")
    by (simp only: hash_state_0_def put_word_def lanes_eval)
  have b2: "hash_words (state_of ?s1) ([0x1b, 0x13, 0xea, 0xa2, 0x04, 0xf5, 0x33, 0x53] @ m) = hash_words (state_of ?s2) m" for m
    unfolding p2 [symmetric] state_of_perm by (rule hash_words_block) (simp_all add: lane_value u64_of_bytes_def)
  have p3: "lanes_perm12 (put_word (Lane 2 4 13 14 6 8 8 1 4 5 10 14 11 6 5 1,
       Lane 7 1 6 10 9 4 3 8 0 1 13 8 10 14 6 14,
       Lane 3 13 0 1 4 2 6 12 1 6 8 1 10 1 13 2,
       Lane 12 10 2 15 5 9 8 0 10 11 8 7 5 0 5 10,
       Lane 2 4 5 8 8 8 3 0 1 7 8 9 2 13 8 4) (Lane 15 0 12 4 7 8 11 15 12 2 13 1 10 9 10 7))
     = (Lane 2 6 7 13 2 6 10 2 10 13 13 14 3 4 0 8,
       Lane 8 8 5 1 10 8 6 8 8 7 6 10 9 15 0 5,
       Lane 6 4 15 3 4 13 15 10 13 15 13 11 13 7 0 10,
       Lane 15 13 15 10 11 14 4 1 9 10 6 4 5 9 0 7,
       Lane 4 7 15 5 9 13 9 4 10 3 2 7 9 7 5 6)" (is "_ = ?s3")
    by (simp only: hash_state_0_def put_word_def lanes_eval)
  have b3: "hash_words (state_of ?s2) ([0x0f, 0x4c, 0x87, 0xfb, 0x2c, 0x1d, 0x9a, 0x7a] @ m) = hash_words (state_of ?s3) m" for m
    unfolding p3 [symmetric] state_of_perm by (rule hash_words_block) (simp_all add: lane_value u64_of_bytes_def)
  have p4: "lanes_perm12 (put_word (Lane 2 6 7 13 2 6 10 2 10 13 13 14 3 4 0 8,
       Lane 8 8 5 1 10 8 6 8 8 7 6 10 9 15 0 5,
       Lane 6 4 15 3 4 13 15 10 13 15 13 11 13 7 0 10,
       Lane 15 13 15 10 11 14 4 1 9 10 6 4 5 9 0 7,
       Lane 4 7 15 5 9 13 9 4 10 3 2 7 9 7 5 6) (Lane 9 12 9 6 10 4 9 12 11 10 6 10 2 6 3 1))
     = (Lane 4 1 9 9 3 2 10 10 2 13 5 3 10 3 9 7,
       Lane 12 14 14 10 14 5 1 2 1 2 14 4 6 0 4 12,
       Lane 3 11 4 9 10 10 0 10 7 0 5 9 9 3 13 14,
       Lane 12 5 2 13 10 5 2 3 15 11 7 10 15 11 8 7,
       Lane 9 1 8 2 2 2 8 6 8 13 4 10 12 12 4 15)" (is "_ = ?s4")
    by (simp only: hash_state_0_def put_word_def lanes_eval)
  have b4: "hash_words (state_of ?s3) ([0xc9, 0x69, 0x4a, 0xc9, 0xab, 0xa6, 0x62, 0x13] @ m) = hash_words (state_of ?s4) m" for m
    unfolding p4 [symmetric] state_of_perm by (rule hash_words_block) (simp_all add: lane_value u64_of_bytes_def)
  have p5: "lanes_perm12 (put_word (Lane 4 1 9 9 3 2 10 10 2 13 5 3 10 3 9 7,
       Lane 12 14 14 10 14 5 1 2 1 2 14 4 6 0 4 12,
       Lane 3 11 4 9 10 10 0 10 7 0 5 9 9 3 13 14,
       Lane 12 5 2 13 10 5 2 3 15 11 7 10 15 11 8 7,
       Lane 9 1 8 2 2 2 8 6 8 13 4 10 12 12 4 15) (Lane 14 1 11 2 11 9 15 11 6 12 14 1 4 2 5 9))
     = (Lane 8 13 15 0 4 15 5 4 7 8 10 10 11 2 1 8,
       Lane 12 2 6 2 12 6 2 14 8 2 15 11 1 14 15 7,
       Lane 4 9 7 15 12 12 3 3 7 6 14 3 14 4 5 14,
       Lane 15 15 9 13 11 3 3 13 4 4 6 1 11 8 6 2,
       Lane 13 8 8 4 11 15 0 12 9 1 0 0 4 11 4 9)" (is "_ = ?s5")
    by (simp only: hash_state_0_def put_word_def lanes_eval)
  have b5: "hash_words (state_of ?s4) ([0x1e, 0x2b, 0x9b, 0xbf, 0xc6, 0x1e, 0x24, 0x95] @ m) = hash_words (state_of ?s5) m" for m
    unfolding p5 [symmetric] state_of_perm by (rule hash_words_block) (simp_all add: lane_value u64_of_bytes_def)
  have l: "hash_words (state_of ?s5) [] = state_of (put_word ?s5 (Lane 1 0 0 0 0 0 0 0 0 0 0 0 0 0 0 0))"
    by (rule hash_words_last) (simp_all add: lane_value u64_of_bytes_def)
  have t1: "lanes_perm12 (put_word ?s5 (Lane 1 0 0 0 0 0 0 0 0 0 0 0 0 0 0 0))
     = (Lane 0 3 11 3 15 10 8 9 9 12 0 13 10 7 5 1,
       Lane 4 11 3 4 7 14 15 13 2 13 9 1 12 5 8 15,
       Lane 10 4 13 12 13 8 2 1 11 13 11 11 14 6 9 0,
       Lane 7 4 0 3 4 2 0 12 6 1 2 8 3 4 4 11,
       Lane 13 15 14 14 9 0 10 14 10 15 6 2 0 9 7 5)" (is "_ = ?t1")
    by (simp only: put_word_def lanes_eval)
  have t2: "lanes_perm12 (?t1)
     = (Lane 11 4 2 11 13 0 10 5 8 9 8 10 1 7 0 2,
       Lane 13 11 10 12 1 8 5 1 0 10 10 0 7 14 15 7,
       Lane 5 8 9 2 6 2 5 7 3 2 7 2 2 12 6 4,
       Lane 12 11 6 14 2 14 4 4 2 0 4 0 6 10 1 13,
       Lane 2 1 2 9 6 0 8 3 1 11 9 0 0 8 8 0)" (is "_ = ?t2")
    by (simp only: put_word_def lanes_eval)
  have t3: "lanes_perm12 (?t2)
     = (Lane 15 1 13 5 1 7 8 13 7 6 5 14 0 7 8 13,
       Lane 6 2 4 12 4 0 4 8 2 8 13 7 13 4 13 5,
       Lane 11 3 0 13 11 14 8 4 1 9 5 1 1 3 9 7,
       Lane 5 4 2 10 4 10 7 11 0 12 10 7 14 13 6 13,
       Lane 6 5 0 12 1 14 13 15 15 14 7 14 8 15 3 2)" (is "_ = ?t3")
    by (simp only: put_word_def lanes_eval)
  have t4: "lanes_perm12 (?t3)
     = (Lane 2 9 8 2 13 13 10 15 3 6 12 5 13 8 13 12,
       Lane 12 13 2 7 6 14 11 3 8 2 15 7 12 1 15 0,
       Lane 1 8 7 12 4 11 11 9 13 15 13 12 8 12 10 0,
       Lane 9 13 5 2 4 11 3 14 5 15 11 1 12 8 0 1,
       Lane 11 5 15 14 3 3 1 3 6 1 2 13 13 15 5 3)" (is "_ = ?t4")
    by (simp only: put_word_def lanes_eval)
  have "hash_spec ([0xb0, 0x93, 0x7e, 0x06, 0xa0, 0x0f, 0xff, 0xf2] @ [0x1b, 0x13, 0xea, 0xa2, 0x04, 0xf5, 0x33, 0x53] @ [0x0f, 0x4c, 0x87, 0xfb, 0x2c, 0x1d, 0x9a, 0x7a] @ [0xc9, 0x69, 0x4a, 0xc9, 0xab, 0xa6, 0x62, 0x13] @ [0x1e, 0x2b, 0x9b, 0xbf, 0xc6, 0x1e, 0x24, 0x95] @ []) = digest_words (state_of (put_word ?s5 (Lane 1 0 0 0 0 0 0 0 0 0 0 0 0 0 0 0)))"
    unfolding hash_spec_words hash_words_blocks(1) b1 b2 b3 b4 b5 l ..
  then show ?thesis unfolding eval_digest [OF t1 t2 t3 t4] by simp
qed

end
