(* ===== verification/Aead_Answers.thy ===== *)
theory Aead_Answers
  imports Kats
begin

text \<open>
  The tags of \<open>tools/ascon_kat.c\<close>: key and nonce are the bytes 0 to 15, the plaintext is empty,
  and the associated data are the bytes below \<open>n\<close> for \<open>n\<close> from 0 to 4.
\<close>

lemma eval_kat_init: "perm12
    \<lparr>s64_0 = 0x1000808c0001, s64_1 = 0x706050403020100, s64_2 = 0xf0e0d0c0b0a0908, s64_3 = 0x706050403020100, s64_4 = 0xf0e0d0c0b0a0908\<rparr>
  = \<lparr>s64_0 = 0xe94ca1d68ad071e7, s64_1 = 0xec7a5fc285aed974, s64_2 = 0xafe01d6bf4bcb26c, s64_3 = 0x9510f88571877f38, s64_4 = 0x77641b9db2bb1f0f\<rparr>"
proof (rule eval_perm12)
  show "lanes_perm12 (Lane 1 0 0 0 12 8 0 8 0 0 0 1 0 0 0 0,
      Lane 0 0 1 0 2 0 3 0 4 0 5 0 6 0 7 0,
      Lane 8 0 9 0 10 0 11 0 12 0 13 0 14 0 15 0,
      Lane 0 0 1 0 2 0 3 0 4 0 5 0 6 0 7 0,
      Lane 8 0 9 0 10 0 11 0 12 0 13 0 14 0 15 0)
      = (Lane 7 14 1 7 0 13 10 8 6 13 1 10 12 4 9 14,
         Lane 4 7 9 13 14 10 5 8 2 12 15 5 10 7 12 14,
         Lane 12 6 2 11 12 11 4 15 11 6 13 1 0 14 15 10,
         Lane 8 3 15 7 7 8 1 7 5 8 8 15 0 1 5 9,
         Lane 15 0 15 1 11 11 2 11 13 9 11 1 4 6 7 7)"
    by (simp only: lanes_eval)
qed (simp_all add: lane_value)

lemma eval_kat_close_0: "perm12
    \<lparr>s64_0 = 0xe94ca1d68ad071e6, s64_1 = 0xec7a5fc285aed974, s64_2 = 0xa8e6186ff7beb36c, s64_3 = 0x9d18f08d798f7730, s64_4 = 0xf86a1691b9b11607\<rparr>
  = \<lparr>s64_0 = 0xdf2aff296c2a4013, s64_1 = 0x3e8e253584338202, s64_2 = 0x89e17b1c4bc2d9b1, s64_3 = 0x56121b8a48d42644, s64_4 = 0xbf958efc6b534df4\<rparr>"
proof (rule eval_perm12)
  show "lanes_perm12 (Lane 6 14 1 7 0 13 10 8 6 13 1 10 12 4 9 14,
      Lane 4 7 9 13 14 10 5 8 2 12 15 5 10 7 12 14,
      Lane 12 6 3 11 14 11 7 15 15 6 8 1 6 14 8 10,
      Lane 0 3 7 7 15 8 9 7 13 8 0 15 8 1 13 9,
      Lane 7 0 6 1 1 11 9 11 1 9 6 1 10 6 8 15)
      = (Lane 3 1 0 4 10 2 12 6 9 2 15 15 10 2 15 13,
         Lane 2 0 2 8 3 3 4 8 5 3 5 2 14 8 14 3,
         Lane 1 11 9 13 2 12 11 4 12 1 11 7 1 14 9 8,
         Lane 4 4 6 2 4 13 8 4 10 8 11 1 2 1 6 5,
         Lane 4 15 13 4 3 5 11 6 12 15 14 8 5 9 15 11)"
    by (simp only: lanes_eval)
qed (simp_all add: lane_value)

lemma eval_kat_ad_1: "perm8
    \<lparr>s64_0 = 0xe94ca1d68ad070e7, s64_1 = 0xec7a5fc285aed974, s64_2 = 0xafe01d6bf4bcb26c, s64_3 = 0x9216fd8172857e38, s64_4 = 0x786a1691b9b11607\<rparr>
  = \<lparr>s64_0 = 0x4c750c589e6fa25, s64_1 = 0x64ab8500cd53779a, s64_2 = 0xb4c78890be4fef47, s64_3 = 0x5ea6098c1aaabceb, s64_4 = 0x94be8758fe876468\<rparr>"
proof (rule eval_perm8)
  show "lanes_perm8 (Lane 7 14 0 7 0 13 10 8 6 13 1 10 12 4 9 14,
      Lane 4 7 9 13 14 10 5 8 2 12 15 5 10 7 12 14,
      Lane 12 6 2 11 12 11 4 15 11 6 13 1 0 14 15 10,
      Lane 8 3 14 7 5 8 2 7 1 8 13 15 6 1 2 9,
      Lane 7 0 6 1 1 11 9 11 1 9 6 1 10 6 8 7)
      = (Lane 5 2 10 15 6 14 9 8 5 12 0 5 7 12 4 0,
         Lane 10 9 7 7 3 5 13 12 0 0 5 8 11 10 4 6,
         Lane 7 4 15 14 15 4 14 11 0 9 8 8 7 12 4 11,
         Lane 11 14 12 11 10 10 10 1 12 8 9 0 6 10 14 5,
         Lane 8 6 4 6 7 8 14 15 8 5 7 8 14 11 4 9)"
    by (simp only: lanes_eval)
qed (simp_all add: lane_value)

lemma eval_kat_close_1: "perm12
    \<lparr>s64_0 = 0x4c750c589e6fa24, s64_1 = 0x64ab8500cd53779a, s64_2 = 0xb3c18d94bd4dee47, s64_3 = 0x51a8048011a0b5e3, s64_4 = 0x14be8758fe876468\<rparr>
  = \<lparr>s64_0 = 0xe19bc68dbfe9a237, s64_1 = 0xbb1987e94f2c31f5, s64_2 = 0x66faebf1bda97a1c, s64_3 = 0x26053f959eb53b10, s64_4 = 0x8a8bb675a21f7e20\<rparr>"
proof (rule eval_perm12)
  show "lanes_perm12 (Lane 4 2 10 15 6 14 9 8 5 12 0 5 7 12 4 0,
      Lane 10 9 7 7 3 5 13 12 0 0 5 8 11 10 4 6,
      Lane 7 4 14 14 13 4 13 11 4 9 13 8 1 12 3 11,
      Lane 3 14 5 11 0 10 1 1 0 8 4 0 8 10 1 5,
      Lane 8 6 4 6 7 8 14 15 8 5 7 8 14 11 4 1)
      = (Lane 7 3 2 10 9 14 15 11 13 8 6 12 11 9 1 14,
         Lane 5 15 1 3 12 2 15 4 9 14 7 8 9 1 11 11,
         Lane 12 1 10 7 9 10 13 11 1 15 11 14 10 15 6 6,
         Lane 0 1 11 3 5 11 14 9 5 9 15 3 5 0 6 2,
         Lane 0 2 14 7 15 1 2 10 5 7 6 11 11 8 10 8)"
    by (simp only: lanes_eval)
qed (simp_all add: lane_value)

lemma eval_kat_ad_2: "perm8
    \<lparr>s64_0 = 0xe94ca1d68ad170e7, s64_1 = 0xec7a5fc285aed974, s64_2 = 0xafe01d6bf4bcb26c, s64_3 = 0x9216fd8172857e38, s64_4 = 0x786a1691b9b11607\<rparr>
  = \<lparr>s64_0 = 0x407309ce4407e449, s64_1 = 0x989ae03af2acfb8c, s64_2 = 0x8a0e3ea406d395a3, s64_3 = 0xcf576fca92d1d5a9, s64_4 = 0x98c240c57d92de68\<rparr>"
proof (rule eval_perm8)
  show "lanes_perm8 (Lane 7 14 0 7 1 13 10 8 6 13 1 10 12 4 9 14,
      Lane 4 7 9 13 14 10 5 8 2 12 15 5 10 7 12 14,
      Lane 12 6 2 11 12 11 4 15 11 6 13 1 0 14 15 10,
      Lane 8 3 14 7 5 8 2 7 1 8 13 15 6 1 2 9,
      Lane 7 0 6 1 1 11 9 11 1 9 6 1 10 6 8 7)
      = (Lane 9 4 4 14 7 0 4 4 14 12 9 0 3 7 0 4,
         Lane 12 8 11 15 12 10 2 15 10 3 0 14 10 9 8 9,
         Lane 3 10 5 9 3 13 6 0 4 10 14 3 14 0 10 8,
         Lane 9 10 5 13 1 13 2 9 10 12 15 6 7 5 15 12,
         Lane 8 6 14 13 2 9 13 7 5 12 0 4 2 12 8 9)"
    by (simp only: lanes_eval)
qed (simp_all add: lane_value)

lemma eval_kat_close_2: "perm12
    \<lparr>s64_0 = 0x407309ce4407e448, s64_1 = 0x989ae03af2acfb8c, s64_2 = 0x8d083ba005d194a3, s64_3 = 0xc05962c699dbdca1, s64_4 = 0x18c240c57d92de68\<rparr>
  = \<lparr>s64_0 = 0xa71fd3c703fbcc16, s64_1 = 0xde8bdc8bdd8d4602, s64_2 = 0xf62ac2ae55e6fdda, s64_3 = 0x973d970be08a0fa5, s64_4 = 0x1fd13d1e131ac1a1\<rparr>"
proof (rule eval_perm12)
  show "lanes_perm12 (Lane 8 4 4 14 7 0 4 4 14 12 9 0 3 7 0 4,
      Lane 12 8 11 15 12 10 2 15 10 3 0 14 10 9 8 9,
      Lane 3 10 4 9 1 13 5 0 0 10 11 3 8 0 13 8,
      Lane 1 10 12 13 11 13 9 9 6 12 2 6 9 5 0 12,
      Lane 8 6 14 13 2 9 13 7 5 12 0 4 2 12 8 1)
      = (Lane 6 1 12 12 11 15 3 0 7 12 3 13 15 1 7 10,
         Lane 2 0 6 4 13 8 13 13 11 8 12 13 11 8 14 13,
         Lane 10 13 13 15 6 14 5 5 14 10 2 12 10 2 6 15,
         Lane 5 10 15 0 10 8 0 14 11 0 7 9 13 3 7 9,
         Lane 1 10 1 12 10 1 3 1 14 1 13 3 1 13 15 1)"
    by (simp only: lanes_eval)
qed (simp_all add: lane_value)

lemma eval_kat_ad_3: "perm8
    \<lparr>s64_0 = 0xe94ca1d68bd270e7, s64_1 = 0xec7a5fc285aed974, s64_2 = 0xafe01d6bf4bcb26c, s64_3 = 0x9216fd8172857e38, s64_4 = 0x786a1691b9b11607\<rparr>
  = \<lparr>s64_0 = 0xe6b32f32c81d73d2, s64_1 = 0x96751c974f786154, s64_2 = 0xf2d2cbf8847bc417, s64_3 = 0xd51cd97b1957a821, s64_4 = 0x1f01b1b09642f6dc\<rparr>"
proof (rule eval_perm8)
  show "lanes_perm8 (Lane 7 14 0 7 2 13 11 8 6 13 1 10 12 4 9 14,
      Lane 4 7 9 13 14 10 5 8 2 12 15 5 10 7 12 14,
      Lane 12 6 2 11 12 11 4 15 11 6 13 1 0 14 15 10,
      Lane 8 3 14 7 5 8 2 7 1 8 13 15 6 1 2 9,
      Lane 7 0 6 1 1 11 9 11 1 9 6 1 10 6 8 7)
      = (Lane 2 13 3 7 13 1 8 12 2 3 15 2 3 11 6 14,
         Lane 4 5 1 6 8 7 15 4 7 9 12 1 5 7 6 9,
         Lane 7 1 4 12 11 7 4 8 8 15 11 12 2 13 2 15,
         Lane 1 2 8 10 7 5 9 1 11 7 9 13 12 1 5 13,
         Lane 12 13 6 15 2 4 6 9 0 11 1 11 1 0 15 1)"
    by (simp only: lanes_eval)
qed (simp_all add: lane_value)

lemma eval_kat_close_3: "perm12
    \<lparr>s64_0 = 0xe6b32f32c81d73d3, s64_1 = 0x96751c974f786154, s64_2 = 0xf5d4cefc8779c517, s64_3 = 0xda12d477125da129, s64_4 = 0x9f01b1b09642f6dc\<rparr>
  = \<lparr>s64_0 = 0x2b58fd136a66b91e, s64_1 = 0x815788480f510ca, s64_2 = 0x6c029e95c7937d6c, s64_3 = 0x5f0066629c4e20ae, s64_4 = 0x43193c1dd8cd84e5\<rparr>"
proof (rule eval_perm12)
  show "lanes_perm12 (Lane 3 13 3 7 13 1 8 12 2 3 15 2 3 11 6 14,
      Lane 4 5 1 6 8 7 15 4 7 9 12 1 5 7 6 9,
      Lane 7 1 5 12 9 7 7 8 12 15 14 12 4 13 5 15,
      Lane 9 2 1 10 13 5 2 1 7 7 4 13 2 1 10 13,
      Lane 12 13 6 15 2 4 6 9 0 11 1 11 1 0 15 9)
      = (Lane 14 1 9 11 6 6 10 6 3 1 13 15 8 5 11 2,
         Lane 10 12 0 1 5 15 0 8 4 8 8 7 5 1 8 0,
         Lane 12 6 13 7 3 9 7 12 5 9 14 9 2 0 12 6,
         Lane 14 10 0 2 14 4 12 9 2 6 6 6 0 0 15 5,
         Lane 5 14 4 8 13 12 8 13 13 1 12 3 9 1 3 4)"
    by (simp only: lanes_eval)
qed (simp_all add: lane_value)

lemma eval_kat_ad_4: "perm8
    \<lparr>s64_0 = 0xe94ca1d789d270e7, s64_1 = 0xec7a5fc285aed974, s64_2 = 0xafe01d6bf4bcb26c, s64_3 = 0x9216fd8172857e38, s64_4 = 0x786a1691b9b11607\<rparr>
  = \<lparr>s64_0 = 0xeab9826995db524a, s64_1 = 0xdcc92576f58f6c60, s64_2 = 0xddadab6396703315, s64_3 = 0x65f8940483286fe, s64_4 = 0x948c3def108c9a02\<rparr>"
proof (rule eval_perm8)
  show "lanes_perm8 (Lane 7 14 0 7 2 13 9 8 7 13 1 10 12 4 9 14,
      Lane 4 7 9 13 14 10 5 8 2 12 15 5 10 7 12 14,
      Lane 12 6 2 11 12 11 4 15 11 6 13 1 0 14 15 10,
      Lane 8 3 14 7 5 8 2 7 1 8 13 15 6 1 2 9,
      Lane 7 0 6 1 1 11 9 11 1 9 6 1 10 6 8 7)
      = (Lane 10 4 2 5 11 13 5 9 9 6 2 8 9 11 10 14,
         Lane 0 6 12 6 15 8 5 15 6 7 5 2 9 12 12 13,
         Lane 5 1 3 3 0 7 6 9 3 6 11 10 13 10 13 13,
         Lane 14 15 6 8 2 3 8 4 0 4 9 8 15 5 6 0,
         Lane 2 0 10 9 12 8 0 1 15 14 13 3 12 8 4 9)"
    by (simp only: lanes_eval)
qed (simp_all add: lane_value)

lemma eval_kat_close_4: "perm12
    \<lparr>s64_0 = 0xeab9826995db524b, s64_1 = 0xdcc92576f58f6c60, s64_2 = 0xdaabae6795723215, s64_3 = 0x951844c43388ff6, s64_4 = 0x148c3def108c9a02\<rparr>
  = \<lparr>s64_0 = 0x98935462e67978b3, s64_1 = 0x4a0cde893864397, s64_2 = 0x6bc0a2ab7c0c66e3, s64_3 = 0x43b77001f43efec6, s64_4 = 0x5166ca9706885cb1\<rparr>"
proof (rule eval_perm12)
  show "lanes_perm12 (Lane 11 4 2 5 11 13 5 9 9 6 2 8 9 11 10 14,
      Lane 0 6 12 6 15 8 5 15 6 7 5 2 9 12 12 13,
      Lane 5 1 2 3 2 7 5 9 7 6 14 10 11 10 10 13,
      Lane 6 15 15 8 8 3 3 4 12 4 4 8 1 5 9 0,
      Lane 2 0 10 9 12 8 0 1 15 14 13 3 12 8 4 1)
      = (Lane 3 11 8 7 9 7 6 14 2 6 4 5 3 9 8 9,
         Lane 7 9 3 4 6 8 3 9 8 14 13 12 0 10 4 0,
         Lane 3 14 6 6 12 0 12 7 11 10 2 10 0 12 11 6,
         Lane 6 12 14 15 14 3 4 15 1 0 0 7 7 11 3 4,
         Lane 1 11 12 5 8 8 6 0 7 9 10 12 6 6 1 5)"
    by (simp only: lanes_eval)
qed (simp_all add: lane_value)

lemmas kat_tag_perms = eval_kat_init eval_kat_close_0 eval_kat_ad_1 eval_kat_close_1 eval_kat_ad_2 eval_kat_close_2 eval_kat_ad_3 eval_kat_close_3 eval_kat_ad_4 eval_kat_close_4

lemma kat_tag_start: "aead_start 0x0706050403020100 0x0f0e0d0c0b0a0908 kat_key =
   (let s = perm12 \<lparr>s64_0 = 0x1000808c0001, s64_1 = 0x706050403020100, s64_2 = 0xf0e0d0c0b0a0908,
      s64_3 = 0x706050403020100, s64_4 = 0xf0e0d0c0b0a0908\<rparr>
    in s\<lparr>s64_3 := s64_3 s XOR 0x0706050403020100, s64_4 := s64_4 s XOR 0x0f0e0d0c0b0a0908\<rparr>)"
  by (simp add: aead_start_def kat_key_def u64_of_bytes_def ASCON_AEAD128_IV_def)

lemma kat_tag:
  assumes "aead_ready kat_key kat_key ad = r" and "aead_tag 0x0706050403020100 0x0f0e0d0c0b0a0908 (r, 0) = tag"
  shows "aead_seal kat_key kat_key ad [] = ([], tag)"
  using assms by (simp add: aead_seal_def kat_key_words)

lemma kat_tags:
  "aead_seal kat_key kat_key [] [] = ([], [0x44, 0x27, 0xd6, 0x4b, 0x8e, 0x1e, 0x14, 0x51, 0xfc, 0x44, 0x59, 0x60, 0xf0, 0x83, 0x9b, 0xb0])"
  "aead_seal kat_key kat_key [0] [] = ([], [0x10, 0x3a, 0xb7, 0x9d, 0x91, 0x3a, 0x03, 0x21, 0x28, 0x77, 0x15, 0xa9, 0x79, 0xbb, 0x85, 0x85])"
  "aead_seal kat_key kat_key [0, 1] [] = ([], [0xa5, 0x0e, 0x88, 0xe3, 0x0f, 0x92, 0x3b, 0x90, 0xa9, 0xc8, 0x10, 0x18, 0x12, 0x30, 0xdf, 0x10])"
  "aead_seal kat_key kat_key [0, 1, 0x02] [] = ([], [0xae, 0x21, 0x4c, 0x9f, 0x66, 0x63, 0x06, 0x58, 0xed, 0x8d, 0xc7, 0xd3, 0x11, 0x31, 0x17, 0x4c])"
  "aead_seal kat_key kat_key [0, 1, 0x02, 0x03] [] = ([], [0xc6, 0xff, 0x3c, 0xf7, 0x05, 0x75, 0xb1, 0x44, 0xb9, 0x55, 0x82, 0x0d, 0x9b, 0xc7, 0x68, 0x5e])"
proof -
  show "aead_seal kat_key kat_key [] [] = ([], [0x44, 0x27, 0xd6, 0x4b, 0x8e, 0x1e, 0x14, 0x51, 0xfc, 0x44, 0x59, 0x60, 0xf0, 0x83, 0x9b, 0xb0])"
  proof (rule kat_tag)
    show "aead_ready kat_key kat_key [] = \<lparr>s64_0 = 0xe94ca1d68ad071e7, s64_1 = 0xec7a5fc285aed974, s64_2 = 0xafe01d6bf4bcb26c, s64_3 = 0x9216fd8172857e38, s64_4 = 0xf86a1691b9b11607\<rparr>"
      by (simp add: aead_ready_def kat_key_words aead_absorb_ad_def kat_tag_start kat_tag_perms domain_bit_def Let_def)
  qed (simp add: aead_tag_empty pad_first kat_tag_perms bytes_eval Let_def)
  have p1: "padded [0] = [0, 1, 0, 0, 0, 0, 0, 0, 0, 0, 0, 0, 0, 0, 0, 0]" by (simp add: padded_def numeral_eq_Suc)
  show "aead_seal kat_key kat_key [0] [] = ([], [0x10, 0x3a, 0xb7, 0x9d, 0x91, 0x3a, 0x03, 0x21, 0x28, 0x77, 0x15, 0xa9, 0x79, 0xbb, 0x85, 0x85])"
  proof (rule kat_tag)
    show "aead_ready kat_key kat_key [0] = \<lparr>s64_0 = 0x4c750c589e6fa25, s64_1 = 0x64ab8500cd53779a, s64_2 = 0xb4c78890be4fef47, s64_3 = 0x5ea6098c1aaabceb, s64_4 = 0x14be8758fe876468\<rparr>"
      by (simp add: aead_ready_def kat_key_words absorb_ad_short kat_tag_start kat_tag_perms domain_bit_def Let_def xor_words_eval u64_of_bytes_def p1)
  qed (simp add: aead_tag_empty pad_first kat_tag_perms bytes_eval Let_def)
  have p2: "padded [0, 1] = [0, 1, 1, 0, 0, 0, 0, 0, 0, 0, 0, 0, 0, 0, 0, 0]" by (simp add: padded_def numeral_eq_Suc)
  show "aead_seal kat_key kat_key [0, 1] [] = ([], [0xa5, 0x0e, 0x88, 0xe3, 0x0f, 0x92, 0x3b, 0x90, 0xa9, 0xc8, 0x10, 0x18, 0x12, 0x30, 0xdf, 0x10])"
  proof (rule kat_tag)
    show "aead_ready kat_key kat_key [0, 1] = \<lparr>s64_0 = 0x407309ce4407e449, s64_1 = 0x989ae03af2acfb8c, s64_2 = 0x8a0e3ea406d395a3, s64_3 = 0xcf576fca92d1d5a9, s64_4 = 0x18c240c57d92de68\<rparr>"
      by (simp add: aead_ready_def kat_key_words absorb_ad_short kat_tag_start kat_tag_perms domain_bit_def Let_def xor_words_eval u64_of_bytes_def p2)
  qed (simp add: aead_tag_empty pad_first kat_tag_perms bytes_eval Let_def)
  have p3: "padded [0, 1, 0x02] = [0, 1, 0x02, 1, 0, 0, 0, 0, 0, 0, 0, 0, 0, 0, 0, 0]" by (simp add: padded_def numeral_eq_Suc)
  show "aead_seal kat_key kat_key [0, 1, 0x02] [] = ([], [0xae, 0x21, 0x4c, 0x9f, 0x66, 0x63, 0x06, 0x58, 0xed, 0x8d, 0xc7, 0xd3, 0x11, 0x31, 0x17, 0x4c])"
  proof (rule kat_tag)
    show "aead_ready kat_key kat_key [0, 1, 0x02] = \<lparr>s64_0 = 0xe6b32f32c81d73d2, s64_1 = 0x96751c974f786154, s64_2 = 0xf2d2cbf8847bc417, s64_3 = 0xd51cd97b1957a821, s64_4 = 0x9f01b1b09642f6dc\<rparr>"
      by (simp add: aead_ready_def kat_key_words absorb_ad_short kat_tag_start kat_tag_perms domain_bit_def Let_def xor_words_eval u64_of_bytes_def p3)
  qed (simp add: aead_tag_empty pad_first kat_tag_perms bytes_eval Let_def)
  have p4: "padded [0, 1, 0x02, 0x03] = [0, 1, 0x02, 0x03, 1, 0, 0, 0, 0, 0, 0, 0, 0, 0, 0, 0]" by (simp add: padded_def numeral_eq_Suc)
  show "aead_seal kat_key kat_key [0, 1, 0x02, 0x03] [] = ([], [0xc6, 0xff, 0x3c, 0xf7, 0x05, 0x75, 0xb1, 0x44, 0xb9, 0x55, 0x82, 0x0d, 0x9b, 0xc7, 0x68, 0x5e])"
  proof (rule kat_tag)
    show "aead_ready kat_key kat_key [0, 1, 0x02, 0x03] = \<lparr>s64_0 = 0xeab9826995db524a, s64_1 = 0xdcc92576f58f6c60, s64_2 = 0xddadab6396703315, s64_3 = 0x65f8940483286fe, s64_4 = 0x148c3def108c9a02\<rparr>"
      by (simp add: aead_ready_def kat_key_words absorb_ad_short kat_tag_start kat_tag_perms domain_bit_def Let_def xor_words_eval u64_of_bytes_def p4)
  qed (simp add: aead_tag_empty pad_first kat_tag_perms bytes_eval Let_def)
qed

end
