(* ===== verification/Hmac_Oracle.thy ===== *)
theory Hmac_Oracle
  imports Wc_Hash
begin

text \<open>
  The pre-shared key of the demonstration programs and the HMAC experiment
  \<open>tools/hmac_oracle.c\<close>, which recomputes an HMAC over Ascon-Hash256 by hand in several
  ways: from one-shot hashes, by going on with a context after \<open>Final\<close>, and from a
  zeroed context. Return codes are ignored as in C. wolfSSL's own \<open>wc_Hmac\<close> functions are not
  part of this repository and a parameter of \<open>oracle_main\<close>.
\<close>

section \<open>The pre-shared key\<close>

text \<open>The fill loop of \<open>main\<close>: an 8-bit counter that wraps.\<close>

fun psk_fill :: "u8 \<Rightarrow> nat \<Rightarrow> u8 list" where
  "psk_fill b 0 = []"
| "psk_fill b (Suc n) = b # psk_fill (b + 0x22) n"

definition oracle_psk :: "u8 list" where
  "oracle_psk = psk_fill 0x01 32"

text \<open>\<open>tools/ascon_kdf_kat.c\<close> writes the same with a cast.\<close>

fun psk_fill_cast :: "u8 \<Rightarrow> nat \<Rightarrow> u8 list" where
  "psk_fill_cast b 0 = []"
| "psk_fill_cast b (Suc n) = b # psk_fill_cast (of_nat (unat b + 0x22)) n"

definition make_psk :: "u8 list" where
  "make_psk = psk_fill_cast 0x01 32"

text \<open>
  The callbacks of the TLS and DTLS programs test the counter against 256 first; the
  counter is an 8-bit \<open>unsigned char\<close>.
\<close>

fun psk_guarded_fill :: "u8 \<Rightarrow> nat \<Rightarrow> u8 list" where
  "psk_guarded_fill b 0 = []"
| "psk_guarded_fill b (Suc n) = (let b = (if 0x100 \<le> unat b then 0x01 else b) in b # psk_guarded_fill (b + 0x22) n)"

text \<open>
  The server's callback: the key length, the bytes written to \<open>key\<close> and the suite stored
  through \<open>ciphersuite\<close>, if any. \<open>dflt\<close> is the suite of the source, used when the callback
  context \<open>userCipher\<close> is null.
\<close>

definition psk_server_cb :: "string \<Rightarrow> string option \<Rightarrow> string \<Rightarrow> nat \<times> u8 list \<times> string option" where
  "psk_server_cb dflt userCipher identity =
     (if identity \<noteq> ''Client_identity'' then (0, [], None)
      else (32, psk_guarded_fill 0x01 32, Some (case userCipher of Some c \<Rightarrow> c | None \<Rightarrow> dflt)))"

text \<open>
  The client's: \<open>XSTRNCPY\<close> of the identity (zero-filled, and without terminator if it does
  not fit), and at most \<open>key_max_len\<close> bytes of key; it gives the number written.
\<close>

definition xstrncpy :: "string \<Rightarrow> nat \<Rightarrow> char list" where
  "xstrncpy str n = take n (str @ replicate n (CHR 0x00))"

definition psk_client_cb :: "nat \<Rightarrow> nat \<Rightarrow> nat \<times> u8 list \<times> char list" where
  "psk_client_cb id_max_len key_max_len = (let i = min 32 key_max_len
   in (i, psk_guarded_fill 0x01 i, xstrncpy ''Client_identity'' id_max_len))"

text \<open>The C string in a buffer, if it is terminated.\<close>

definition c_string :: "char list \<Rightarrow> string option" where
  "c_string b = (if CHR 0x00 \<in> set b then Some (takeWhile (\<lambda>c. c \<noteq> CHR 0x00) b) else None)"

lemma c_string_xstrncpy:
  assumes "CHR 0x00 \<notin> set str"
  shows "c_string (xstrncpy str n) = (if length str < n then Some str else None)"
proof (cases "length str < n")
  case True
  then obtain k where k: "n = length str + Suc k" by (metis add_Suc_right less_imp_Suc_add)
  have "xstrncpy str n = str @ replicate (Suc k) (CHR 0x00)" by (simp add: xstrncpy_def k)
  then show ?thesis using True assms by (auto simp: c_string_def takeWhile_append)
next
  case False
  then have "xstrncpy str n = take n str" by (simp add: xstrncpy_def)
  then show ?thesis using False assms by (auto simp: c_string_def dest: in_set_takeD)
qed

lemma client_identity:
  "c_string (xstrncpy ''Client_identity'' n) = (if 15 < n then Some ''Client_identity'' else None)"
  by (subst c_string_xstrncpy) simp_all

lemma psk_guarded_fill_eq: "psk_guarded_fill b n = psk_fill b n"
proof (induction n arbitrary: b)
  case 0
  then show ?case by simp
next
  case (Suc n)
  have "unat b < 256" using unsigned_less [of b] by simp
  then show ?case using Suc by (simp add: Let_def)
qed

lemma psk_fill_length [simp]: "length (psk_fill b n) = n"
  by (induction n arbitrary: b) simp_all

lemma psk_fill_nth: "i < n \<Longrightarrow> psk_fill b n ! i = b + of_nat i * 0x22"
proof (induction n arbitrary: b i)
  case 0
  then show ?case by simp
next
  case (Suc n)
  then show ?case by (cases i) (simp_all add: algebra_simps)
qed

lemma psk_fill_take: "psk_fill b (min n k) = take k (psk_fill b n)"
proof (induction n arbitrary: b k)
  case 0
  then show ?case by simp
next
  case (Suc n)
  then show ?case by (cases k) simp_all
qed

lemma make_psk_eq: "make_psk = oracle_psk"
proof -
  have "psk_fill_cast b n = psk_fill b n" for b n
    by (induction n arbitrary: b) simp_all
  then show ?thesis by (simp add: make_psk_def oracle_psk_def)
qed

section \<open>The HMAC experiment\<close>

definition h_update :: "wc_misc \<Rightarrow> wc_AsconHash256 option \<Rightarrow> u8 list \<Rightarrow> wc_AsconHash256 option" where
  "h_update M h d = snd (wc_AsconHash256_Update M h (Some d) (length d))"

definition h_final :: "wc_AsconHash256 option \<Rightarrow> wc_AsconHash256 option \<times> u8 list" where
  "h_final h = snd (wc_AsconHash256_Final h PTR)"

definition oracle_hash :: "wc_misc \<Rightarrow> wc_AsconHash256 \<Rightarrow> u8 list \<Rightarrow> u8 list" where
  "oracle_hash M g d = (let
     h = snd (wc_AsconHash256_Init (Some g));
     h = h_update M h d
   in snd (h_final h))"

definition ipad8 :: "u8 list \<Rightarrow> u8 list" where "ipad8 hkey = map (\<lambda>i. hkey ! i XOR 0x36) [0..<8]"
definition opad8 :: "u8 list \<Rightarrow> u8 list" where "opad8 hkey = map (\<lambda>i. hkey ! i XOR 0x5c) [0..<8]"

text \<open>OUTER: every hash in one call on a fresh context.\<close>

definition oracle_outer :: "wc_misc \<Rightarrow> wc_AsconHash256 \<Rightarrow> u8 list \<Rightarrow> u8 list" where
  "oracle_outer M g psk = (let
     hkey = oracle_hash M g (replicate 32 0);
     inner = oracle_hash M g (ipad8 hkey @ psk)
   in oracle_hash M g (opad8 hkey @ inner))"

text \<open>CONT-REAL: the same context goes on after \<open>Final\<close>.\<close>

definition oracle_cont_real :: "wc_misc \<Rightarrow> wc_AsconHash256 \<Rightarrow> u8 list \<Rightarrow> u8 list" where
  "oracle_cont_real M g psk = (let
     hkey = oracle_hash M g (replicate 32 0);
     h3 = snd (wc_AsconHash256_Init (Some g));
     h3 = h_update M h3 (ipad8 hkey);
     h3 = h_update M h3 psk;
     (h3, inner3) = h_final h3;
     h3 = h_update M h3 (opad8 hkey);
     h3 = h_update M h3 inner3
   in snd (h_final h3))"

text \<open>MIXED-REPL: the key is hashed in the same context as well.\<close>

definition oracle_mixed_repl :: "wc_misc \<Rightarrow> wc_AsconHash256 \<Rightarrow> u8 list \<Rightarrow> u8 list" where
  "oracle_mixed_repl M g psk = (let
     h5 = snd (wc_AsconHash256_Init (Some g));
     h5 = h_update M h5 (replicate 32 0);
     (h5, hkey5) = h_final h5;
     h5 = h_update M h5 (ipad8 hkey5);
     h5 = h_update M h5 psk;
     (h5, inner5) = h_final h5;
     h5 = h_update M h5 (opad8 hkey5);
     h5 = h_update M h5 inner5
   in snd (h_final h5))"

text \<open>ZERO-CONT: the outer hash from a zeroed context.\<close>

definition oracle_zero_cont :: "wc_misc \<Rightarrow> wc_AsconHash256 \<Rightarrow> u8 list \<Rightarrow> u8 list" where
  "oracle_zero_cont M g psk = (let
     hkey = oracle_hash M g (replicate 32 0);
     inner = oracle_hash M g (ipad8 hkey @ psk);
     h2 = Some zero_hash;
     h2 = h_update M h2 (opad8 hkey);
     h2 = h_update M h2 inner
   in snd (h_final h2))"

text \<open>
  What \<open>main\<close> prints, line by line; \<open>hmac\<close> is wolfSSL's HMAC (\<open>SetKey\<close>, \<open>Update\<close>, \<open>Final\<close>)
  as a function of key and message.
\<close>

definition oracle_main :: "wc_misc \<Rightarrow> wc_AsconHash256 \<Rightarrow> (u8 list \<Rightarrow> u8 list \<Rightarrow> u8 list) \<Rightarrow> (string \<times> u8 list) list \<times> int" where
  "oracle_main M g hmac = (let
     psk = oracle_psk;
     hkey = oracle_hash M g (replicate 32 0);
     inner = oracle_hash M g (ipad8 hkey @ psk)
   in ([(''PSK'', psk), (''HKEY'', hkey), (''IPAD'', ipad8 hkey), (''OPAD'', opad8 hkey), (''INNER'', inner),
        (''OUTER'', oracle_outer M g psk), (''HMAC-API'', hmac (replicate 32 0) psk),
        (''ZERO-CONT'', oracle_zero_cont M g psk), (''CONT-REAL'', oracle_cont_real M g psk),
        (''MIXED-REPL'', oracle_mixed_repl M g psk)], 0))"

text \<open>The HMAC that all but ZERO-CONT compute.\<close>

definition hmac_zero_key :: "u8 list \<Rightarrow> u8 list" where
  "hmac_zero_key psk = (let hkey = hash_spec (replicate 32 0)
     in hash_spec (opad8 hkey @ hash_spec (ipad8 hkey @ psk)))"

lemma h_init: "snd (wc_AsconHash256_Init (Some g)) = Some hash_init"
  by (simp add: Init_some hash_init_def)

text \<open>Under the documented behaviour of the helpers the steps are the steps of the hash interface.\<close>

context wc_env
begin

lemma h_update_api: "h_update M (Some h) d = Some (hash_upd M h d)"
proof -
  have "snd (wc_AsconHash256_Update M (Some h) (Some d) (length d)) \<noteq> None"
    by (simp add: wc_AsconHash256_Update_def Let_def)
  then show ?thesis by (auto simp: h_update_def hash_upd_def)
qed

lemma h_final_api: "h_final (Some h) = (Some (hash_reset h), hash_fin h)"
  by (simp add: h_final_def hash_reset_def hash_fin_def wc_AsconHash256_Final_digest)

lemma oracle_hash_api: "oracle_hash M g d = hash_spec d"
  using api.fin_foldl [of "[d]"] by (simp add: oracle_hash_def h_init h_update_api h_final_api Let_def)

lemma oracle_outer_hmac: "oracle_outer M g psk = hmac_zero_key psk"
  by (simp add: oracle_outer_def hmac_zero_key_def oracle_hash_api Let_def)

lemma oracle_cont_real_hmac: "oracle_cont_real M g psk = hmac_zero_key psk"
  using api.nested_digest [of "ipad8 (hash_spec (replicate 32 0))" psk "opad8 (hash_spec (replicate 32 0))"]
  by (simp add: oracle_cont_real_def hmac_zero_key_def oracle_hash_api h_init h_update_api h_final_api Let_def)

lemma oracle_mixed_repl_hmac: "oracle_mixed_repl M g psk = hmac_zero_key psk"
proof -
  let ?z = "replicate 32 (0 :: u8)"
  let ?h = "hash_reset (hash_upd M hash_init ?z)"
  have key: "hash_fin (hash_upd M hash_init ?z) = hash_spec ?z"
    using api.fin_foldl [of "[?z]"] by simp
  have a0: "hash_absorbed ?h []"
    using api.absorbed_reset [OF api.absorbed_upd [OF api.absorbed_init, of ?z]] .
  have a1: "hash_absorbed (hash_upd M (hash_upd M ?h k) m) (k @ m)" for k m
    using api.absorbed_upd [OF api.absorbed_upd [OF a0, of k], of m] by simp
  have a2: "hash_absorbed (hash_upd M (hash_upd M (hash_reset c) k) m) (k @ m)" if "hash_absorbed c x" for c x k m
    using api.absorbed_upd [OF api.absorbed_upd [OF api.absorbed_reset [OF that], of k], of m] by simp
  show ?thesis
    using api.fin_absorbed [OF a1] api.fin_absorbed [OF a2 [OF a1]]
    by (simp add: oracle_mixed_repl_def hmac_zero_key_def h_init h_update_api h_final_api key Let_def)
qed

end

end
