(* ===== verification/Call_Trace.thy ===== *)
theory Call_Trace
  imports Ascon_Prelude "HOL-Library.State_Monad"
begin

text \<open>
  Programs that call libraries whose code is not in this repository. Such a library is an
  argument \<open>A\<close> of the program: it answers every call from the calls and answers so far, so
  any deterministic or adversarial behaviour is an instance. A program is a computation in
  the state monad over the trace of its calls. A monitor is a machine that reads a trace
  and may reject it; \<open>wp\<close> is the weakest precondition of a program on monitor states,
  with one rule for each construct of the programs.
\<close>

section \<open>Calls and their answers\<close>

text \<open>
  What a call returns, the bytes it stores through a buffer argument, and the number it
  stores through a length argument.
\<close>

record reply =
  rc :: int
  data :: "u8 list"
  used :: nat

type_synonym 'c event = "'c \<times> reply"
type_synonym 'c answers = "'c event list \<Rightarrow> 'c \<Rightarrow> reply"
type_synonym ('c, 'a) prog = "('c event list, 'a) state"

abbreviation ret :: "'a \<Rightarrow> ('c, 'a) prog" where
  "ret \<equiv> State_Monad.return"

definition lib :: "'c answers \<Rightarrow> 'c \<Rightarrow> ('c, reply) prog" where
  "lib A c = State (\<lambda>tr. let r = A tr c in (r, tr @ [(c, r)]))"

text \<open>Only the integer or pointer a call returns; a call whose answer is ignored.\<close>

definition rcall :: "'c answers \<Rightarrow> 'c \<Rightarrow> ('c, int) prog" where
  "rcall A c = do { r \<leftarrow> lib A c; ret (rc r) }"

definition run :: "'c answers \<Rightarrow> 'c \<Rightarrow> ('c, unit) prog" where
  "run A c = do { _ \<leftarrow> lib A c; ret () }"

definition only_if :: "bool \<Rightarrow> ('c, unit) prog \<Rightarrow> ('c, unit) prog" where
  "only_if b m = (if b then m else ret ())"

definition outcome :: "('c, 'a) prog \<Rightarrow> 'a" where
  "outcome m = fst (run_state m [])"

definition trace :: "('c, 'a) prog \<Rightarrow> 'c event list" where
  "trace m = snd (run_state m [])"

section \<open>Monitors\<close>

type_synonym ('p, 'c) monitor = "'p \<Rightarrow> 'c event \<Rightarrow> 'p option"

fun watch :: "('p, 'c) monitor \<Rightarrow> 'p \<Rightarrow> 'c event list \<Rightarrow> 'p option" where
  "watch M p [] = Some p"
| "watch M p (e # tr) = (case M p e of None \<Rightarrow> None | Some q \<Rightarrow> watch M q tr)"

lemma watch_append:
  "watch M p (tr @ tr') = (case watch M p tr of None \<Rightarrow> None | Some q \<Rightarrow> watch M q tr')"
  by (induction tr arbitrary: p) (auto split: option.splits)

definition wp :: "('p, 'c) monitor \<Rightarrow> ('c, 'a) prog \<Rightarrow> ('a \<Rightarrow> 'p \<Rightarrow> bool) \<Rightarrow> 'p \<Rightarrow> bool" where
  "wp M m Q p \<longleftrightarrow> (\<forall>p0 tr. watch M p0 tr = Some p \<longrightarrow>
     (\<exists>q. watch M p0 (snd (run_state m tr)) = Some q \<and> Q (fst (run_state m tr)) q))"

named_theorems wp_rules "weakest precondition rules for programs"

lemma wp_ret [wp_rules]: "Q x p \<Longrightarrow> wp M (ret x) Q p"
  by (simp add: wp_def)

lemma wp_bind [wp_rules]: "wp M m (\<lambda>x. wp M (f x) Q) p \<Longrightarrow> wp M (m \<bind> f) Q p"
  unfolding wp_def by (simp add: case_prod_unfold) blast

lemma wp_if [wp_rules]: "(b \<Longrightarrow> wp M m Q p) \<Longrightarrow> (\<not> b \<Longrightarrow> wp M n Q p) \<Longrightarrow> wp M (if b then m else n) Q p"
  by simp

lemma wp_split [wp_rules]: "wp M (f (fst x) (snd x)) Q p \<Longrightarrow> wp M (case x of (a, b) \<Rightarrow> f a b) Q p"
  by (simp add: case_prod_unfold)

lemma wp_only_if [wp_rules]:
  "(b \<Longrightarrow> wp M m Q p) \<Longrightarrow> (\<not> b \<Longrightarrow> Q () p) \<Longrightarrow> wp M (only_if b m) Q p"
  by (simp add: only_if_def wp_ret)

text \<open>A call: what the monitor makes of the answer. The library may keep to a law.\<close>

definition lawful :: "('c \<Rightarrow> reply \<Rightarrow> bool) \<Rightarrow> 'c answers \<Rightarrow> bool" where
  "lawful law A \<longleftrightarrow> (\<forall>tr c. law c (A tr c))"

lemma wp_lib_law:
  assumes "lawful law A" and "\<And>r. law c r \<Longrightarrow> (case M p (c, r) of None \<Rightarrow> False | Some q \<Rightarrow> Q r q)"
  shows "wp M (lib A c) Q p"
  unfolding wp_def
proof (intro allI impI)
  fix p0 tr
  assume tr: "watch M p0 tr = Some p"
  have "law c (A tr c)" using assms(1) by (simp add: lawful_def)
  from assms(2) [OF this] obtain q where "M p (c, A tr c) = Some q" "Q (A tr c) q"
    by (cases "M p (c, A tr c)") simp_all
  with tr show "\<exists>q. watch M p0 (snd (run_state (lib A c) tr)) = Some q \<and> Q (fst (run_state (lib A c) tr)) q"
    by (simp add: lib_def watch_append Let_def)
qed

lemma wp_lib [wp_rules]:
  "(\<And>r. case M p (c, r) of None \<Rightarrow> False | Some q \<Rightarrow> Q r q) \<Longrightarrow> wp M (lib A c) Q p"
  by (rule wp_lib_law [where law = "\<lambda>_ _. True"]) (simp_all add: lawful_def)

lemma wp_rcall [wp_rules]:
  assumes "\<And>r. case M p (c, r) of None \<Rightarrow> False | Some q \<Rightarrow> Q (rc r) q"
  shows "wp M (rcall A c) Q p"
  unfolding rcall_def
proof (intro wp_bind wp_lib)
  show "case M p (c, r) of None \<Rightarrow> False | Some q \<Rightarrow> wp M (ret (rc r)) Q q" for r
    using assms [of r] by (cases "M p (c, r)") (simp_all add: wp_ret)
qed

lemma wp_run [wp_rules]:
  assumes "\<And>r. case M p (c, r) of None \<Rightarrow> False | Some q \<Rightarrow> Q () q"
  shows "wp M (run A c) Q p"
  unfolding run_def
proof (intro wp_bind wp_lib)
  show "case M p (c, r) of None \<Rightarrow> False | Some q \<Rightarrow> wp M (ret ()) Q q" for r
    using assms [of r] by (cases "M p (c, r)") (simp_all add: wp_ret)
qed

lemma wp_mono:
  assumes "wp M m Q p" and "\<And>x q. Q x q \<Longrightarrow> Q' x q"
  shows "wp M m Q' p"
  using assms unfolding wp_def by blast

lemma wp_trace:
  assumes "wp M m Q p"
  shows "\<exists>q. watch M p (trace m) = Some q \<and> Q (outcome m) q"
  using assms by (simp add: wp_def trace_def outcome_def)

section \<open>Cost of a trace\<close>

definition cost_step :: "('c event \<Rightarrow> nat) \<Rightarrow> (nat, 'c) monitor" where
  "cost_step f n e = Some (n + f e)"

definition cost :: "('c event \<Rightarrow> nat) \<Rightarrow> 'c event list \<Rightarrow> nat" where
  "cost f tr = sum_list (map f tr)"

lemma watch_cost: "watch (cost_step f) n tr = Some (n + cost f tr)"
  by (induction tr arbitrary: n) (simp_all add: cost_step_def cost_def)

lemma wp_cost:
  assumes "wp (cost_step f) m (\<lambda>x q. q \<le> b) 0"
  shows "cost f (trace m) \<le> b"
  using wp_trace [OF assms] by (simp add: watch_cost)

end
