(* ===== verification/Ssl_Calls.thy ===== *)
theory Ssl_Calls
  imports Call_Trace Hmac_Oracle
begin

text \<open>
  What the demonstration clients and servers of \<open>tools/\<close> on the wolfSSL API share (DTLS 1.3
  and TLS 1.3, with a pre-shared key or with certificates). The calls into wolfSSL, Winsock and
  the C library are the constructors of \<open>ssl_call\<close>, named as in C; pointers, sockets
  and return values are integers, a null pointer is 0. Retry loops, buffers and exit
  codes are computed by the definitions. Format strings are written without the
  final newline.
\<close>

section \<open>The calls\<close>

datatype print_arg =
    PInt int
  | PString int            \<comment> \<open>\<open>%s\<close> of a pointer the library returned\<close>
  | PBuf "u8 list"         \<comment> \<open>\<open>%s\<close> of a local buffer\<close>
  | PPrefix int "u8 list"  \<comment> \<open>\<open>%.*s\<close> of a local buffer\<close>

datatype ssl_method = wolfDTLSv1_3_server_method | wolfDTLSv1_3_client_method
  | wolfTLSv1_3_server_method | wolfTLSv1_3_client_method
datatype verify_flag = WOLFSSL_VERIFY_PEER | WOLFSSL_VERIFY_FAIL_IF_NO_PEER_CERT
datatype sock_type = SOCK_DGRAM | SOCK_STREAM
datatype sock_protocol = IPPROTO_UDP | IPPROTO_TCP | PROTOCOL_0
datatype in_addr = INADDR_ANY | inet_addr string

text \<open>An Internet address; \<open>htons\<close> is applied to the port.\<close>

record sockaddr_in =
  sin_port :: "16 word"
  sin_addr :: in_addr

datatype ssl_call =
    setvbuf_none
  | printf string "print_arg list"
  | malloc int | free int
  | Sleep int
  | WSAStartup nat nat | WSACleanup | WSAGetLastError
  | socket sock_type sock_protocol
  | setsockopt_rcvtimeo int int
  | bind_sock int sockaddr_in | connect_sock int sockaddr_in | listen_sock int int | accept_sock int
  | recvfrom int int
  | closesocket int
  | wolfSSL_Init | wolfSSL_Debugging_ON | wolfSSL_Cleanup
  | wolfSSL_CTX_new ssl_method | wolfSSL_CTX_free int
  | wolfSSL_CTX_set_psk_server_tls13_callback int
  | wolfSSL_CTX_set_psk_client_callback int
  | wolfSSL_CTX_set_psk_callback_ctx int string
  | wolfSSL_CTX_set_cipher_list int string
  | wolfSSL_CTX_use_certificate_chain_file int string
  | wolfSSL_CTX_use_PrivateKey_file int string
  | wolfSSL_CTX_check_private_key int
  | wolfSSL_CTX_load_verify_locations int string
  | wolfSSL_CTX_set_verify int "verify_flag list"
  | wolfSSL_new int | wolfSSL_free int
  | wolfSSL_set_fd int int
  | wolfSSL_dtls_set_using_nonblock int int
  | wolfSSL_accept int | wolfSSL_connect int
  | wolfSSL_get_error int int
  | wolfSSL_ERR_reason_error_string int
  | wolfSSL_get_cipher int
  | wolfSSL_read int nat
  | wolfSSL_write int "u8 list"
  | wolfSSL_shutdown int

text \<open>The libraries and the constants of their headers.\<close>

record ssl_lib =
  env :: "ssl_call answers"
  WOLFSSL_SUCCESS :: int
  WOLFSSL_ERROR_WANT_READ :: int
  WOLFSSL_ERROR_WANT_WRITE :: int
  INVALID_SOCKET :: int

type_synonym 'a ssl_prog = "(ssl_call, 'a) prog"

definition say :: "ssl_lib \<Rightarrow> string \<Rightarrow> print_arg list \<Rightarrow> unit ssl_prog" where
  "say L fmt args = run (env L) (printf fmt args)"

text \<open>\<open>printf(...); return 1;\<close>\<close>

definition fail :: "ssl_lib \<Rightarrow> string \<Rightarrow> int ssl_prog" where
  "fail L msg = do { say L msg []; ret 1 }"

section \<open>The C library\<close>

text \<open>\<open>atoi\<close>, for numerals that fit in an \<open>int\<close>.\<close>

fun digits :: "int \<Rightarrow> string \<Rightarrow> int" where
  "digits acc [] = acc"
| "digits acc (c # cs) =
     (if 48 \<le> (of_char c :: nat) \<and> (of_char c :: nat) \<le> 57 then digits (10 * acc + (of_char c - 48)) cs else acc)"

fun isspace :: "char \<Rightarrow> bool" where
  "isspace c = (of_char c = (32 :: nat) \<or> (9 \<le> (of_char c :: nat) \<and> (of_char c :: nat) \<le> 13))"

definition atoi :: "string \<Rightarrow> int" where
  "atoi s = (case dropWhile isspace s of
     [] \<Rightarrow> 0
   | c # cs \<Rightarrow> if c = CHR ''-'' then - digits 0 cs else if c = CHR ''+'' then digits 0 cs else digits 0 (c # cs))"

text \<open>The casts \<open>(int)sock\<close> and \<open>(unsigned short)port\<close>.\<close>

definition to_int :: "int \<Rightarrow> int" where
  "to_int x = sint (word_of_int x :: 32 word)"

definition to_port :: "int \<Rightarrow> 16 word" where
  "to_port x = word_of_int x"

definition c_bytes :: "string \<Rightarrow> u8 list" where
  "c_bytes s = map (\<lambda>c. of_nat (of_char c)) s @ [0]"

section \<open>The shared parts\<close>

definition startup :: "ssl_lib \<Rightarrow> unit ssl_prog" where
  "startup L = do {
     run (env L) setvbuf_none;
     run (env L) (WSAStartup 2 2);
     run (env L) wolfSSL_Init;
     run (env L) wolfSSL_Debugging_ON
   }"

definition udp_socket :: "ssl_lib \<Rightarrow> bool \<Rightarrow> int ssl_prog" where
  "udp_socket L shortTimeout = do {
     sock \<leftarrow> rcall (env L) (socket SOCK_DGRAM IPPROTO_UDP);
     only_if shortTimeout (run (env L) (setsockopt_rcvtimeo sock 100));
     ret sock
   }"

definition teardown :: "ssl_lib \<Rightarrow> int \<Rightarrow> int \<Rightarrow> int \<Rightarrow> int ssl_prog" where
  "teardown L ssl ctx sock = do {
     run (env L) (wolfSSL_shutdown ssl);
     run (env L) (wolfSSL_free ssl);
     run (env L) (wolfSSL_CTX_free ctx);
     run (env L) wolfSSL_Cleanup;
     run (env L) (closesocket sock);
     run (env L) WSACleanup;
     ret 0
   }"

definition want_io :: "ssl_lib \<Rightarrow> int \<Rightarrow> bool" where
  "want_io L err \<longleftrightarrow> err = WOLFSSL_ERROR_WANT_READ L \<or> err = WOLFSSL_ERROR_WANT_WRITE L"

text \<open>The report of a failed \<open>wolfSSL_accept\<close>; the arguments are evaluated in order.\<close>

definition accept_failed :: "ssl_lib \<Rightarrow> int \<Rightarrow> int \<Rightarrow> unit ssl_prog" where
  "accept_failed L ssl rv = do {
     e \<leftarrow> rcall (env L) (wolfSSL_get_error ssl rv);
     e' \<leftarrow> rcall (env L) (wolfSSL_get_error ssl rv);
     s \<leftarrow> rcall (env L) (wolfSSL_ERR_reason_error_string e');
     say L ''accept fail, err %d (%s)'' [PInt e, PString s]
   }"

text \<open>The accept loop: True when the handshake is done, False after the report of a failure.\<close>

function accept_loop :: "ssl_lib \<Rightarrow> int \<Rightarrow> int \<Rightarrow> int \<Rightarrow> bool ssl_prog" where
  "accept_loop L ssl limit tries = do {
     rv \<leftarrow> rcall (env L) (wolfSSL_accept ssl);
     if rv = WOLFSSL_SUCCESS L then ret True
     else do {
       err \<leftarrow> rcall (env L) (wolfSSL_get_error ssl rv);
       if want_io L err \<and> tries < limit
       then do { run (env L) (Sleep 50); accept_loop L ssl limit (tries + 1) }
       else do { accept_failed L ssl rv; ret False }
     }
   }"
  by pat_completeness auto
termination
  by (relation "measure (\<lambda>(L, ssl, limit, tries). nat (limit - tries))") auto

declare accept_loop.simps [simp del]

text \<open>What a read leaves in the buffer: the bytes that were received, over the old content.\<close>

definition store :: "reply \<Rightarrow> u8 list \<Rightarrow> u8 list" where
  "store r buf = (let d = take (min (nat (rc r)) (length buf)) (data r) in d @ drop (length d) buf)"

function read_loop :: "ssl_lib \<Rightarrow> int \<Rightarrow> int \<Rightarrow> int \<Rightarrow> u8 list \<Rightarrow> (int \<times> u8 list) ssl_prog" where
  "read_loop L ssl limit tries buf = do {
     r \<leftarrow> lib (env L) (wolfSSL_read ssl (length buf));
     if rc r \<le> 0
     then do {
       err \<leftarrow> rcall (env L) (wolfSSL_get_error ssl (rc r));
       if want_io L err \<and> tries < limit
       then do { run (env L) (Sleep 50); read_loop L ssl limit (tries + 1) (store r buf) }
       else ret (rc r, store r buf)
     }
     else ret (rc r, store r buf)
   }"
  by pat_completeness auto
termination
  by (relation "measure (\<lambda>(L, ssl, limit, tries, buf). nat (limit - tries))") auto

declare read_loop.simps [simp del]

definition handshake_ok :: "ssl_lib \<Rightarrow> int \<Rightarrow> unit ssl_prog" where
  "handshake_ok L ssl = do {
     c \<leftarrow> rcall (env L) (wolfSSL_get_cipher ssl);
     say L ''HANDSHAKE OK. cipher: %s'' [PString c]
   }"

text \<open>
  A sequence of configuration steps \<open>if (step != WOLFSSL_SUCCESS) { printf(msg); return 1; }\<close>:
  False after the report of the first one that fails.
\<close>

fun checked :: "ssl_lib \<Rightarrow> (ssl_call \<times> string) list \<Rightarrow> bool ssl_prog" where
  "checked L [] = ret True"
| "checked L ((c, msg) # cs) = do {
     ok \<leftarrow> rcall (env L) c;
     if ok \<noteq> WOLFSSL_SUCCESS L then do { say L msg []; ret False } else checked L cs
   }"

text \<open>The client's handshake, with the report of a failure.\<close>

definition client_handshake :: "ssl_lib \<Rightarrow> int \<Rightarrow> bool ssl_prog" where
  "client_handshake L ssl = do {
     c \<leftarrow> rcall (env L) (wolfSSL_get_cipher ssl);
     say L ''initial cipher: %s'' [PString c];
     rv \<leftarrow> rcall (env L) (wolfSSL_connect ssl);
     if rv \<noteq> WOLFSSL_SUCCESS L
     then do {
       err \<leftarrow> rcall (env L) (wolfSSL_get_error ssl rv);
       s \<leftarrow> rcall (env L) (wolfSSL_ERR_reason_error_string err);
       say L ''connect fail, err %d (%s)'' [PInt err, PString s];
       ret False
     }
     else do { handshake_ok L ssl; ret True }
   }"

definition ascon_suite :: string where "ascon_suite = ''TLS13-ASCONAEAD128-ASCONHASH256''"
definition std_suite :: string where "std_suite = ''TLS_AES_128_GCM_SHA256''"

end
