(* ===== verification/Ossl_Client.thy ===== *)
theory Ossl_Client
  imports Ssl_Calls
begin

text \<open>
  The TLS 1.3 client on the OpenSSL API, \<open>openssl-ascon/ascon_psk_client.c\<close>: the key it parses
  from the command line into a static array of 64 bytes, the callbacks, and \<open>main\<close>. The calls
  into OpenSSL and the C library are the constructors of \<open>ossl_call\<close>; null pointers are 0.
\<close>

datatype ossl_arg = OInt int | OText string | OPtr int | OBuf "u8 list"

datatype ossl_call =
    eprint string "ossl_arg list"          \<comment> \<open>\<open>fprintf(stderr, ...)\<close>\<close>
  | print string "ossl_arg list"
  | ERR_print_errors
  | time_null
  | fopen_dump bool int                    \<comment> \<open>\<open>sent_\<close> or \<open>recv_\<close> and the running number\<close>
  | fwrite_file int "u8 list" | fclose int
  | SSL_CTX_new | SSL_CTX_free int
  | SSL_CTX_set_proto_version_tls13 int    \<comment> \<open>minimum and maximum\<close>
  | SSL_CTX_set_ciphersuites int string
  | SSL_CTX_set_callbacks int              \<comment> \<open>session, message and key log callback\<close>
  | SSL_new int | SSL_free int
  | BIO_new_connect string | BIO_set_conn_port int string | SSL_set_bio int int
  | SSL_connect int | SSL_get_version int | SSL_get_current_cipher int | SSL_CIPHER_get_name int
  | SSL_write int "u8 list" | SSL_read int nat | SSL_shutdown int
  | SSL_SESSION_new | SSL_SESSION_free int
  | SSL_CIPHER_find int "u8 list"
  | SSL_SESSION_set1_master_key int "u8 list"
  | SSL_SESSION_set_cipher int int
  | SSL_SESSION_set_protocol_version_tls13 int
  | SSL_SESSION_set_time int int

type_synonym 'a ossl_prog = "(ossl_call, 'a) prog"

section \<open>The key\<close>

definition hex_digit :: "char \<Rightarrow> nat option" where
  "hex_digit c = (let n = of_char c :: nat in
     if 48 \<le> n \<and> n \<le> 57 then Some (n - 48)
     else if 97 \<le> n \<and> n \<le> 102 then Some (n - 87)
     else if 65 \<le> n \<and> n \<le> 70 then Some (n - 55)
     else None)"

text \<open>
  \<open>sscanf(s, "%2hhx", &x)\<close> on input without white space, sign and \<open>0x\<close> prefix: up to two
  digits; nothing is stored when there is none.
\<close>

fun scan_2hhx :: "string \<Rightarrow> u8 option" where
  "scan_2hhx [] = None"
| "scan_2hhx (c # cs) = (case hex_digit c of
     None \<Rightarrow> None
   | Some d \<Rightarrow> (case cs of
       [] \<Rightarrow> Some (of_nat d)
     | c' # _ \<Rightarrow> (case hex_digit c' of None \<Rightarrow> Some (of_nat d) | Some e \<Rightarrow> Some (of_nat (16 * d + e)))))"

definition PSK_MAX :: nat where "PSK_MAX = 64"

text \<open>
  The loop of \<open>main\<close> from index \<open>i\<close> on; the array starts as zeros. A store behind the array
  has no defined result.
\<close>

function psk_loop :: "string \<Rightarrow> nat \<Rightarrow> nat \<Rightarrow> u8 list \<Rightarrow> u8 list option" where
  "psk_loop arg g_psklen i g_psk =
     (if i < g_psklen then
        (case scan_2hhx (drop (2 * i) arg) of
           None \<Rightarrow> psk_loop arg g_psklen (i + 1) g_psk
         | Some x \<Rightarrow> if i < length g_psk then psk_loop arg g_psklen (i + 1) (g_psk[i := x]) else None)
      else Some g_psk)"
  by pat_completeness auto
termination
  by (relation "measure (\<lambda>(arg, n, i, g). n - i)") auto

declare psk_loop.simps [simp del]

definition parse_psk :: "string \<Rightarrow> (nat \<times> u8 list) option" where
  "parse_psk arg = (let g_psklen = length arg div 2
   in case psk_loop arg g_psklen 0 (replicate PSK_MAX 0) of None \<Rightarrow> None | Some g \<Rightarrow> Some (g_psklen, g))"

section \<open>The callbacks\<close>

definition ascon_suite_id :: "u8 list" where "ascon_suite_id = [0x00, 0x6E]"

text \<open>
  The session for the external key: the return value, and what is stored through \<open>sess\<close>,
  \<open>id\<close> and \<open>idlen\<close> when one is offered.
\<close>

definition psk_use_session_cb :: "ossl_call answers \<Rightarrow> int \<Rightarrow> u8 list \<Rightarrow> nat \<Rightarrow> string
    \<Rightarrow> (int \<times> (int \<times> string \<times> nat) option) ossl_prog" where
  "psk_use_session_cb A ssl g_psk g_psklen g_identity = do {
     ss \<leftarrow> rcall A SSL_SESSION_new;
     if ss = 0 then ret (0, None) else do {
     cipher \<leftarrow> rcall A (SSL_CIPHER_find ssl ascon_suite_id);
     if cipher = 0 then do { run A (SSL_SESSION_free ss); ret (0, None) } else do {
     k \<leftarrow> rcall A (SSL_SESSION_set1_master_key ss (take g_psklen g_psk));
     if k = 0 then do { run A (SSL_SESSION_free ss); ret (0, None) } else do {
     c \<leftarrow> rcall A (SSL_SESSION_set_cipher ss cipher);
     if c = 0 then do { run A (SSL_SESSION_free ss); ret (0, None) } else do {
     v \<leftarrow> rcall A (SSL_SESSION_set_protocol_version_tls13 ss);
     if v = 0 then do { run A (SSL_SESSION_free ss); ret (0, None) } else do {
     now \<leftarrow> rcall A time_null;
     t \<leftarrow> rcall A (SSL_SESSION_set_time ss now);
     if t = 0 then do { run A (SSL_SESSION_free ss); ret (0, None) }
     else ret (1, Some (ss, g_identity, length g_identity)) }}}}}
   }"

definition keylog_cb :: "ossl_call answers \<Rightarrow> string \<Rightarrow> unit ossl_prog" where
  "keylog_cb A line = run A (print ''KEYLOG %s'' [OText line])"

datatype content_type = SSL3_RT_HANDSHAKE | SSL3_RT_ALERT | SSL3_RT_OTHER

text \<open>The dump of handshake messages and alerts; \<open>seq\<close> is the static counter.\<close>

definition msg_cb :: "ossl_call answers \<Rightarrow> int \<Rightarrow> bool \<Rightarrow> content_type \<Rightarrow> u8 list \<Rightarrow> int ossl_prog" where
  "msg_cb A seq write_p ct p =
     (if ct = SSL3_RT_HANDSHAKE \<or> ct = SSL3_RT_ALERT then do {
        f \<leftarrow> rcall A (fopen_dump write_p seq);
        only_if (f \<noteq> 0) (do { run A (fwrite_file f p); run A (fclose f) });
        run A (print ''>>> %s %s len=%d'' [OText (if write_p then ''SENT'' else ''RECV''),
          OText (if ct = SSL3_RT_ALERT then ''ALERT'' else ''HANDSHAKE''), OInt (int (length p))]);
        ret (seq + 1)
      } else ret seq)"

section \<open>The main function\<close>

definition hello_message :: "u8 list" where
  "hello_message = map (\<lambda>c. of_nat (of_char c)) ''Hello Ascon TLS1.3!'' @ [10]"

text \<open>Report the errors and return 1: the label \<open>err\<close> and the later failures.\<close>

definition ossl_error :: "ossl_call answers \<Rightarrow> int ossl_prog" where
  "ossl_error A = do { run A ERR_print_errors; ret 1 }"

text \<open>From \<open>SSL_CTX_new\<close> on; \<open>stack\<close> is the initial content of \<open>buf[256]\<close>.\<close>

definition ascon_psk_session :: "ossl_call answers \<Rightarrow> (nat \<Rightarrow> u8) \<Rightarrow> string \<Rightarrow> string \<Rightarrow> int ossl_prog" where
  "ascon_psk_session A stack host port = do {
     ctx \<leftarrow> rcall A SSL_CTX_new;
     if ctx = 0 then ossl_error A else do {
     run A (SSL_CTX_set_proto_version_tls13 ctx);
     s \<leftarrow> rcall A (SSL_CTX_set_ciphersuites ctx ''TLS_ASCON_AEAD128_ASCON_HASH256'');
     if s \<noteq> 1 then ossl_error A else do {
     run A (SSL_CTX_set_callbacks ctx);
     ssl \<leftarrow> rcall A (SSL_new ctx);
     if ssl = 0 then ossl_error A else do {
     bio \<leftarrow> rcall A (BIO_new_connect host);
     run A (BIO_set_conn_port bio port);
     run A (SSL_set_bio ssl bio);
     c \<leftarrow> rcall A (SSL_connect ssl);
     if c \<noteq> 1 then ossl_error A else do {
     v \<leftarrow> rcall A (SSL_get_version ssl);
     ci \<leftarrow> rcall A (SSL_get_current_cipher ssl);
     nm \<leftarrow> rcall A (SSL_CIPHER_get_name ci);
     run A (print ''connected: %s / %s'' [OPtr v, OPtr nm]);
     w \<leftarrow> rcall A (SSL_write ssl hello_message);
     if w \<le> 0 then ossl_error A else do {
     run A (print ''sent: %s'' [OBuf (hello_message @ [0])]);
     r \<leftarrow> lib A (SSL_read ssl 255);
     if rc r \<le> 0 then ossl_error A else do {
     run A (print ''echo (%d bytes): %s'' [OInt (rc r), OBuf ((store r (map stack [0..<255]) @ [stack 255])[nat (rc r) := 0])]);
     run A (SSL_shutdown ssl);
     run A (SSL_free ssl);
     run A (SSL_CTX_free ctx);
     ret 0 }}}}}}
   }"

text \<open>\<open>main\<close>; None when the key does not fit its array.\<close>

definition ascon_psk_client :: "ossl_call answers \<Rightarrow> (nat \<Rightarrow> u8) \<Rightarrow> string list \<Rightarrow> int ossl_prog option" where
  "ascon_psk_client A stack argv =
     (if length argv < 5
      then Some (do { run A (eprint ''usage: %s <host> <port> <psk-hex> <identity>'' [OText (argv ! 0)]); ret 2 })
      else (case parse_psk (argv ! 3) of
         None \<Rightarrow> None
       | Some (g_psklen, g_psk) \<Rightarrow> Some (ascon_psk_session A stack (argv ! 1) (argv ! 2))))"

section \<open>Its properties\<close>

text \<open>The key as it should be read.\<close>

fun hex_bytes :: "string \<Rightarrow> u8 list" where
  "hex_bytes (c # c' # cs) = of_nat (16 * the (hex_digit c) + the (hex_digit c')) # hex_bytes cs"
| "hex_bytes _ = []"

lemma hex_bytes_nth:
  "i < length s div 2 \<Longrightarrow> hex_bytes s ! i = of_nat (16 * the (hex_digit (s ! (2 * i))) + the (hex_digit (s ! (2 * i + 1))))"
proof (induction s arbitrary: i rule: hex_bytes.induct)
  case (1 c c' cs)
  then show ?case by (cases i) simp_all
qed simp_all

lemma length_hex_bytes [simp]: "length (hex_bytes s) = length s div 2"
  by (induction s rule: hex_bytes.induct) simp_all

lemma scan_two:
  assumes "list_all (\<lambda>c. hex_digit c \<noteq> None) s" and "i < length s div 2"
  shows "scan_2hhx (drop (2 * i) s) = Some (hex_bytes s ! i)"
proof -
  have i: "2 * i + 1 < length s" using assms(2) by linarith
  then have "drop (2 * i) s = s ! (2 * i) # s ! (2 * i + 1) # drop (2 * i + 2) s"
    by (metis Cons_nth_drop_Suc Suc_eq_plus1 Suc_lessD add_2_eq_Suc' )
  moreover have "hex_digit (s ! (2 * i)) \<noteq> None" "hex_digit (s ! (2 * i + 1)) \<noteq> None"
    using assms(1) i by (simp_all add: list_all_length)
  ultimately show ?thesis by (auto simp: hex_bytes_nth [OF assms(2)])
qed

lemma psk_loop_hex:
  assumes "list_all (\<lambda>c. hex_digit c \<noteq> None) s" and "i \<le> length s div 2" and "i \<le> length g"
  shows "psk_loop s (length s div 2) i (take i (hex_bytes s) @ drop i g)
    = (if length s div 2 \<le> length g then Some (hex_bytes s @ drop (length s div 2) g) else None)"
  using assms(2,3)
proof (induction "length s div 2 - i" arbitrary: i)
  case 0
  then show ?case by (subst psk_loop.simps) simp
next
  case (Suc k)
  then have i: "i < length s div 2" by linarith
  let ?g = "take i (hex_bytes s) @ drop i g"
  have len: "length ?g = length g" using i Suc.prems by simp
  have step: "psk_loop s (length s div 2) i ?g
      = (if i < length g then psk_loop s (length s div 2) (i + 1) (?g[i := hex_bytes s ! i]) else None)"
    unfolding psk_loop.simps [of s "length s div 2" i] scan_two [OF assms(1) i] len using i by simp
  show ?case
  proof (cases "i < length g")
    case False
    with Suc.prems i show ?thesis unfolding step by simp
  next
    case True
    have "?g[i := hex_bytes s ! i] = take (i + 1) (hex_bytes s) @ drop (i + 1) g"
      using True i by (intro nth_equalityI) (auto simp: nth_list_update nth_append less_Suc_eq)
    with True i show ?thesis
      using Suc(1) [of "i + 1"] Suc(2) unfolding step by simp
  qed
qed

lemma parse_psk_hex:
  assumes "list_all (\<lambda>c. hex_digit c \<noteq> None) s"
  shows "parse_psk s = (if length s div 2 \<le> 64
    then Some (length s div 2, hex_bytes s @ replicate (64 - length s div 2) 0) else None)"
  using psk_loop_hex [OF assms, of 0 "replicate 64 0"] by (simp add: parse_psk_def PSK_MAX_def Let_def)

text \<open>
  The order of the exchange, and that every print of a buffer finds its terminator: the
  monitor counts the steps that succeeded, seven of them in a complete run.
\<close>

definition client_step :: "(nat, ossl_call) monitor" where
  "client_step ph e = (let r = rc (snd e); step = (\<lambda>k ok. if ph = k then Some (if ok then k + 1 else k) else None) in case fst e of
     SSL_CTX_new \<Rightarrow> step 0 (r \<noteq> 0)
   | SSL_CTX_set_ciphersuites _ _ \<Rightarrow> step 1 (r = 1)
   | SSL_new _ \<Rightarrow> step 2 (r \<noteq> 0)
   | SSL_connect _ \<Rightarrow> step 3 (r = 1)
   | SSL_write _ bs \<Rightarrow> if bs = hello_message then step 4 (0 < r) else None
   | SSL_read _ n \<Rightarrow> step 5 (0 < r)
   | SSL_shutdown _ \<Rightarrow> if ph = 6 then Some 6 else None
   | SSL_free _ \<Rightarrow> if ph = 6 then Some 6 else None
   | SSL_CTX_free _ \<Rightarrow> step 6 True
   | print _ args \<Rightarrow> if (\<forall>b. OBuf b \<in> set args \<longrightarrow> 0 \<in> set b) then Some ph else None
   | _ \<Rightarrow> Some ph)"

definition ossl_read_law :: "ossl_call \<Rightarrow> reply \<Rightarrow> bool" where
  "ossl_read_law c r = (case c of SSL_read ssl n \<Rightarrow> rc r \<le> int n | _ \<Rightarrow> True)"

definition client_end :: "int \<Rightarrow> nat \<Rightarrow> bool" where
  "client_end x ph \<longleftrightarrow> (if x = 0 then ph = 7 else x = 1 \<and> ph < 6)"

lemma wp_client_error: "ph < 6 \<Longrightarrow> wp client_step (ossl_error A) client_end ph"
  unfolding ossl_error_def by (intro wp_bind wp_run wp_ret) (simp add: client_step_def client_end_def wp_ret)

lemma terminated: "n \<le> 255 \<Longrightarrow> 0 \<in> set ((store r (map f [0..<255]) @ [z])[n := 0])"
proof -
  assume "n \<le> 255"
  have "length (store r (map f [0..<255])) = 255" by (auto simp: store_def Let_def)
  with \<open>n \<le> 255\<close> have "n < length (store r (map f [0..<255]) @ [z])" by simp
  then show ?thesis by (rule set_update_memI)
qed

lemma ascon_psk_session_order:
  assumes "lawful ossl_read_law A"
  shows "wp client_step (ascon_psk_session A stack host port) client_end 0"
proof -
  have rd: "wp client_step (lib A (SSL_read ssl 255)) Q 5"
    if "\<And>r. rc r \<le> 0 \<Longrightarrow> Q r 5" "\<And>r. 0 < rc r \<Longrightarrow> rc r \<le> 255 \<Longrightarrow> Q r 6" for Q ssl
    using that by (intro wp_lib_law [OF assms]) (auto simp: client_step_def ossl_read_law_def)
  show ?thesis
    unfolding ascon_psk_session_def
    by (intro wp_bind wp_rcall)
      (auto simp: client_step_def client_end_def terminated intro!: wp_if wp_client_error wp_bind wp_rcall wp_run rd wp_ret)
qed

lemma ascon_psk_session_end:
  assumes "lawful ossl_read_law A"
  shows "\<exists>ph. watch client_step 0 (trace (ascon_psk_session A stack host port)) = Some ph \<and>
    client_end (outcome (ascon_psk_session A stack host port)) ph"
  using wp_trace [OF ascon_psk_session_order [OF assms]] .

text \<open>The session callback frees its session whenever it does not offer it.\<close>

definition live_step :: "(int option, ossl_call) monitor" where
  "live_step p e = (case fst e of
     SSL_SESSION_new \<Rightarrow> if p = None then Some (if rc (snd e) = 0 then None else Some (rc (snd e))) else None
   | SSL_SESSION_free s \<Rightarrow> if p = Some s then Some None else None
   | SSL_SESSION_set1_master_key s k \<Rightarrow> if p = Some s then Some p else None
   | SSL_SESSION_set_cipher s c \<Rightarrow> if p = Some s then Some p else None
   | SSL_SESSION_set_protocol_version_tls13 s \<Rightarrow> if p = Some s then Some p else None
   | SSL_SESSION_set_time s t \<Rightarrow> if p = Some s then Some p else None
   | _ \<Rightarrow> Some p)"

lemma psk_use_session_live:
  "wp live_step (psk_use_session_cb A ssl g n i)
     (\<lambda>(ok, offered) p. p = map_option fst offered \<and> (ok = 1 \<longleftrightarrow> offered \<noteq> None)) None"
  unfolding psk_use_session_cb_def
  by (intro wp_bind wp_rcall)
    (auto simp: live_step_def intro!: wp_if wp_bind wp_rcall wp_run wp_ret)

lemma psk_use_session_no_leak:
  "watch live_step None (trace (psk_use_session_cb A ssl g n i))
    = Some (map_option fst (snd (outcome (psk_use_session_cb A ssl g n i))))"
  "fst (outcome (psk_use_session_cb A ssl g n i)) = 1 \<longleftrightarrow> snd (outcome (psk_use_session_cb A ssl g n i)) \<noteq> None"
  using wp_trace [OF psk_use_session_live [of A ssl g n i]] by (auto simp: case_prod_unfold)

end
