(* ===== verification/Kat_Programs.thy ===== *)
theory Kat_Programs
  imports Kdf_Answers Aead_Answers Hmac_Oracle Ossl_Client
begin

text \<open>
  The known-answer programs on the picotls API: \<open>tools/ascon_hash_kat.c\<close>,
  \<open>tools/ascon_hash_kat2.c\<close>, \<open>tools/ascon_kat.c\<close> and \<open>tools/ascon_kdf_kat.c\<close>. The hash and AEAD
  objects of picotls and its HKDF are arguments; \<open>ptls_hash_ok\<close> and \<open>ptls_aead_ok\<close> say that
  they implement Ascon, with instances on the code of this repository. A program gives
  what it prints and its exit code.
\<close>

section \<open>The objects of picotls\<close>

record 'h ptls_hash =
  create :: 'h
  update :: "'h \<Rightarrow> u8 list \<Rightarrow> 'h"
  final :: "'h \<Rightarrow> u8 list"
  block_size :: nat
  digest_size :: nat

definition ptls_hash_ok :: "'h ptls_hash \<Rightarrow> bool" where
  "ptls_hash_ok H \<longleftrightarrow> (\<forall>ds. final H (foldl (update H) (create H) ds) = hash_spec (concat ds))"

definition wolfssl_hash :: "wc_AsconHash256 ptls_hash" where
  "wolfssl_hash = \<lparr>create = hash_init, update = hash_upd misc_std, final = hash_fin, block_size = 8, digest_size = 32\<rparr>"

definition provider_hash :: "ASCON_HASH256_CTX ptls_hash" where
  "provider_hash = \<lparr>create = ascon_hash256_core_init, update = ossl_hash_upd, final = ossl_hash_fin, block_size = 8, digest_size = 32\<rparr>"

lemma ptls_hash_instances: "ptls_hash_ok wolfssl_hash" "ptls_hash_ok provider_hash"
  by (simp_all add: ptls_hash_ok_def wolfssl_hash_def provider_hash_def wc_std.api.fin_foldl ossl_hash.fin_foldl)

lemma ptls_hash_one: "ptls_hash_ok H \<Longrightarrow> final H (update H (create H) d) = hash_spec d"
  by (auto simp: ptls_hash_ok_def dest: spec [of _ "[d]"])

lemma ptls_hash_two: "ptls_hash_ok H \<Longrightarrow> final H (update H (update H (create H) d) e) = hash_spec (d @ e)"
  by (auto simp: ptls_hash_ok_def dest: spec [of _ "[d, e]"])

section \<open>Hash test, hexadecimal\<close>

definition hash_EXP :: "string list" where
  "hash_EXP = [
     ''0B3BE5850F2F6B98CAF29F8FDEA89B64A1FA70AA249B8F839BD53BAA304D92B2'',
     ''0728621035AF3ED2BCA03BF6FDE900F9456F5330E4B5EE23E7F6A1E70291BC80'',
     ''6115E7C9C4081C2797FC8FE1BC57A836AFA1C5381E556DD583860CA2DFB48DD2'',
     ''265AB89A609F5A05DCA57E83FBBA700F9A2D2C4211BA4CC9F0A1A369E17B915C'',
     ''D7E4C7ED9B8A325CD08B9EF259F8877054ECD8304FE1B2D7FD847137DF6727EE'']"

definition hex_chars :: string where "hex_chars = ''0123456789ABCDEF''"

fun kat_hex :: "u8 list \<Rightarrow> string" where
  "kat_hex [] = []"
| "kat_hex (b # bs) = hex_chars ! unat (drop_bit 4 b) # hex_chars ! unat (b AND 0xf) # kat_hex bs"

definition kat_msg :: "nat \<Rightarrow> u8 list" where
  "kat_msg i = map of_nat [0..<i]"

text \<open>One line of the output: the index, the digest and whether it is the expected one.\<close>

definition hash_kat_line :: "'h ptls_hash \<Rightarrow> nat \<Rightarrow> nat \<times> string \<times> bool" where
  "hash_kat_line H i = (let got = kat_hex (final H (update H (create H) (kat_msg i)))
   in (i, got, got = hash_EXP ! i))"

definition hash_kat_main :: "'h ptls_hash \<Rightarrow> (nat \<times> string \<times> bool) list \<times> string \<times> int" where
  "hash_kat_main H = (let
     rows = map (hash_kat_line H) [0..<5];
     fail = length (filter (\<lambda>(i, got, ok). \<not> ok) rows)
   in (rows, if fail \<noteq> 0 then ''HASH KAT FAIL'' else ''HASH KAT ALL PASS'', if fail \<noteq> 0 then 1 else 0))"

section \<open>Hash test, 32 messages\<close>

text \<open>The lines of the failures and the exit code.\<close>

definition hash_kat2_main :: "'h ptls_hash \<Rightarrow> (nat \<times> u8 list) list \<times> bool \<times> int" where
  "hash_kat2_main H = (let
     failed = filter (\<lambda>(i, out). out \<noteq> hash_kat_table ! i)
       (map (\<lambda>i. (i, final H (update H (create H) (kat_msg i)))) [0..<32])
   in (failed, failed = [], if failed = [] then 0 else 1))"

section \<open>AEAD test\<close>

record 'c ptls_aead =
  aead_new_direct :: "u8 list \<Rightarrow> u8 list \<Rightarrow> 'c option"
  aead_encrypt_init :: "'c \<Rightarrow> u64 \<Rightarrow> u8 list \<Rightarrow> 'c"
  aead_encrypt_update :: "'c \<Rightarrow> u8 list \<Rightarrow> 'c \<times> u8 list"
  aead_encrypt_final :: "'c \<Rightarrow> u8 list"

text \<open>\<open>None\<close> for \<open>-1\<close>; \<open>scan_2hhx\<close> reads the two digits.\<close>

definition hex2bin :: "string \<Rightarrow> nat \<Rightarrow> u8 list option" where
  "hex2bin h maxlen = (let n = length h div 2
   in if maxlen < n then None else those (map (\<lambda>i. scan_2hhx (drop (2 * i) h)) [0..<n]))"

definition ascon_kat_key :: "u8 list" where
  "ascon_kat_key = [0, 1, 2, 3, 4, 5, 6, 7, 8, 9, 10, 11, 12, 13, 14, 15]"

text \<open>
  What \<open>run\<close> prints (the tag, what was expected, the verdict), and what it returns;
  \<open>stack\<close> is the initial content of \<open>exp\<close>. The progress report on \<open>stderr\<close> is left out.
\<close>

definition ascon_kat_run :: "'c ptls_aead \<Rightarrow> u8 list \<Rightarrow> string \<Rightarrow> string \<Rightarrow> (u8 list \<times> u8 list \<times> bool) option \<times> int" where
  "ascon_kat_run P stack ad_hex exp_hex = (case (hex2bin ad_hex 16, hex2bin exp_hex 16) of
     (Some ad, Some ex) \<Rightarrow>
       (let ex = ex @ drop (length ex) stack in case aead_new_direct P ascon_kat_key ascon_kat_key of
          None \<Rightarrow> (None, 1)
        | Some ctx \<Rightarrow> (let
            ctx = aead_encrypt_init P ctx 0 ad;
            (ctx, out) = aead_encrypt_update P ctx [];
            tag = aead_encrypt_final P ctx;
            ok = (length tag = 16 \<and> tag = take 16 ex)
          in (Some (tag, take 16 ex, ok), if ok then 0 else 1)))
   | _ \<Rightarrow> (None, 1))"

definition ascon_kat_cases :: "(string \<times> string) list" where
  "ascon_kat_cases = [
     ('''', ''4427D64B8E1E1451FC445960F0839BB0''),
     (''00'', ''103AB79D913A0321287715A979BB8585''),
     (''0001'', ''A50E88E30F923B90A9C810181230DF10''),
     (''000102'', ''AE214C9F66630658ED8DC7D31131174C''),
     (''00010203'', ''C6FF3CF70575B144B955820D9BC7685E'')]"

definition ascon_kat_main :: "'c ptls_aead \<Rightarrow> u8 list \<Rightarrow> string \<times> int" where
  "ascon_kat_main P stack = (let fails = (\<Sum>(ad, ex) \<leftarrow> ascon_kat_cases. snd (ascon_kat_run P stack ad ex))
   in (if fails \<noteq> 0 then ''SOME KAT FAILED'' else ''ALL KAT PASS'', if fails \<noteq> 0 then 1 else 0))"

text \<open>
  The AEAD is Ascon-AEAD128: with sequence number 0 the nonce is the IV, the update gives
  no more bytes than it takes, and together with the final call the ciphertext and the tag.
\<close>

definition ptls_aead_ok :: "'c ptls_aead \<Rightarrow> bool" where
  "ptls_aead_ok P \<longleftrightarrow> (\<forall>key iv ad pt. length key = 16 \<longrightarrow> length iv = 16 \<longrightarrow>
     (\<exists>c. aead_new_direct P key iv = Some c \<and>
       (let (c', out) = aead_encrypt_update P (aead_encrypt_init P c 0 ad) pt; (ct, tag) = aead_seal key iv ad pt
        in length out \<le> length pt \<and> out @ aead_encrypt_final P c' = ct @ tag)))"

text \<open>An instance that collects its inputs and seals with the wolfSSL functions at the end.\<close>

definition wolfssl_aead :: "(u8 list \<times> u8 list \<times> u8 list \<times> u8 list) ptls_aead" where
  "wolfssl_aead = \<lparr>aead_new_direct = (\<lambda>key iv. Some (key, iv, [], [])),
     aead_encrypt_init = (\<lambda>(key, iv, _, _) seq ad. (key, iv, ad, [])),
     aead_encrypt_update = (\<lambda>(key, iv, ad, pt) d. ((key, iv, ad, pt @ d), [])),
     aead_encrypt_final = (\<lambda>(key, iv, ad, pt). case encrypt_calls misc_std zero_aead key iv ad [pt] of
        Inr (ct, tag) \<Rightarrow> ct @ tag | Inl _ \<Rightarrow> [])\<rparr>"

lemma wolfssl_aead_ok: "ptls_aead_ok wolfssl_aead"
  unfolding ptls_aead_ok_def
proof (intro allI impI)
  fix key iv ad pt :: "u8 list"
  assume "length key = 16" "length iv = 16"
  from encrypt_calls_seal [OF misc_ok_std this, of "[pt]" zero_aead ad]
  show "\<exists>c. aead_new_direct wolfssl_aead key iv = Some c \<and>
       (let (c', out) = aead_encrypt_update wolfssl_aead (aead_encrypt_init wolfssl_aead c 0 ad) pt; (ct, tag) = aead_seal key iv ad pt
        in length out \<le> length pt \<and> out @ aead_encrypt_final wolfssl_aead c' = ct @ tag)"
    by (simp add: wolfssl_aead_def case_prod_unfold Let_def)
qed

section \<open>Key derivation test\<close>

record ptls_hkdf =
  hkdf_extract :: "u8 list \<Rightarrow> u8 list \<Rightarrow> int \<times> u8 list"
  hkdf_expand_label :: "nat \<Rightarrow> u8 list \<Rightarrow> string \<Rightarrow> u8 list \<Rightarrow> string \<Rightarrow> int \<times> u8 list"

datatype kdf_line = HexLine string "u8 list" | Sizes nat nat | CrossCall bool | Failed string int | Expect string

definition empty_digest :: "u8 list" where
  "empty_digest = [0x0b, 0x3b, 0xe5, 0x85, 0x0f, 0x2f, 0x6b, 0x98, 0xca, 0xf2, 0x9f, 0x8f, 0xde, 0xa8, 0x9b, 0x64,
     0xa1, 0xfa, 0x70, 0xaa, 0x24, 0x9b, 0x8f, 0x83, 0x9b, 0xd5, 0x3b, 0xaa, 0x30, 0x4d, 0x92, 0xb2]"

text \<open>The first test. The second digest is computed twice, the last time from one call.\<close>

definition kdf_cross_call :: "'h ptls_hash \<Rightarrow> u8 list \<Rightarrow> kdf_line list" where
  "kdf_cross_call H psk = (let
     ipad = replicate 8 0x36;
     d1 = final H (update H (update H (create H) ipad) psk);
     d2 = final H (update H (update H (create H) ipad) psk);
     m = ipad @ psk;
     d2 = final H (update H (create H) m)
   in [HexLine ''H2CALL(ipad8|psk32)'' d1, HexLine ''H1CALL(ipad8|psk32)'' d2, CrossCall (d1 = d2)])"

definition kdf_manual_chain :: "'h ptls_hash \<Rightarrow> u8 list \<Rightarrow> kdf_line list" where
  "kdf_manual_chain H psk = (let
     zero32 = replicate 32 0;
     hkey = final H (update H (create H) zero32);
     ipad = ipad8 hkey;
     opad = opad8 hkey;
     inner = final H (update H (create H) (ipad @ psk));
     outer = final H (update H (create H) (opad @ inner))
   in [HexLine ''HKEY'' hkey, HexLine ''IPAD'' ipad, HexLine ''OPAD'' opad, HexLine ''INNER'' inner, HexLine ''OUTER'' outer])"

definition kdf_expected :: "kdf_line list" where
  "kdf_expected = [Expect ''BK = 4e960a0aa3f02522c8ef4bbc7fc7e56f6c7cf1d76b72de8852c8d15ce64c6118'',
     Expect ''FK = cd4d1b8ec973c4c5...'']"

definition kdf_kat_main :: "'h ptls_hash \<Rightarrow> ptls_hkdf \<Rightarrow> kdf_line list \<times> int" where
  "kdf_kat_main H K = (let
     psk = make_psk;
     sizes = Sizes (block_size H) (digest_size H);
     start = [HexLine ''PSK'' psk, sizes] @ kdf_cross_call H psk @ [sizes];
     (r, prk) = hkdf_extract K [] psk
   in if r \<noteq> 0 then (start @ [Failed ''hkdf_extract'' r], 1) else let
     (r, bk) = hkdf_expand_label K 32 prk ''ext binder'' empty_digest ''tls13 ''
   in if r \<noteq> 0 then (start @ [HexLine ''PRK'' prk, Failed ''expand_label(binder)'' r], 1) else let
     (r, fk) = hkdf_expand_label K 32 bk ''finished'' empty_digest ''tls13 ''
   in if r \<noteq> 0 then (start @ [HexLine ''PRK'' prk, HexLine ''BK '' bk, Failed ''expand_label(finished)'' r], 1)
   else (start @ [HexLine ''PRK'' prk, HexLine ''BK '' bk, HexLine ''FK '' fk] @ kdf_manual_chain H psk @ kdf_expected, 0))"

section \<open>They pass\<close>

lemma hash_rows:
  assumes "ptls_hash_ok H" and "i < 32"
  shows "final H (update H (create H) (kat_msg i)) = hash_kat_table ! i"
  using assms by (simp add: ptls_hash_one kat_msg_def hash_table_answers)

lemma hash_kat2_passes: "ptls_hash_ok H \<Longrightarrow> hash_kat2_main H = ([], True, 0)"
  by (auto simp: hash_kat2_main_def hash_rows Let_def filter_empty_conv)

lemma hex_chars_nth:
  "hex_chars ! 0 = CHR ''0''" "hex_chars ! Suc 0 = CHR ''1''" "hex_chars ! 2 = CHR ''2''" "hex_chars ! 3 = CHR ''3''" "hex_chars ! 4 = CHR ''4''" "hex_chars ! 5 = CHR ''5''" "hex_chars ! 6 = CHR ''6''" "hex_chars ! 7 = CHR ''7''" "hex_chars ! 8 = CHR ''8''" "hex_chars ! 9 = CHR ''9''" "hex_chars ! 10 = CHR ''A''" "hex_chars ! 11 = CHR ''B''" "hex_chars ! 12 = CHR ''C''" "hex_chars ! 13 = CHR ''D''" "hex_chars ! 14 = CHR ''E''" "hex_chars ! 15 = CHR ''F''"
  by (simp_all add: hex_chars_def)

lemma kat_hex_rows:
  "kat_hex (hash_kat_table ! 0) = hash_EXP ! 0" "kat_hex (hash_kat_table ! Suc 0) = hash_EXP ! Suc 0"
  "kat_hex (hash_kat_table ! 2) = hash_EXP ! 2" "kat_hex (hash_kat_table ! 3) = hash_EXP ! 3"
  "kat_hex (hash_kat_table ! 4) = hash_EXP ! 4"
  unfolding hash_kat_table_def hash_EXP_def by (simp_all add: hex_chars_nth)

lemma kat_hex_eval: "i < 5 \<Longrightarrow> kat_hex (hash_kat_table ! i) = hash_EXP ! i"
proof -
  assume "i < 5"
  then have "i = 0 \<or> i = Suc 0 \<or> i = 2 \<or> i = 3 \<or> i = 4" by auto
  then show ?thesis using kat_hex_rows by auto
qed

lemma hash_kat_passes:
  assumes "ptls_hash_ok H"
  shows "hash_kat_main H = (map (\<lambda>i. (i, hash_EXP ! i, True)) [0..<5], ''HASH KAT ALL PASS'', 0)"
proof -
  have "map (hash_kat_line H) [0..<5] = map (\<lambda>i. (i, hash_EXP ! i, True)) [0..<5]"
    using assms by (intro map_cong) (simp_all add: hash_kat_line_def hash_rows kat_hex_eval Let_def)
  then show ?thesis by (simp add: hash_kat_main_def filter_empty_conv Let_def)
qed

lemma ascon_kat_key_eq: "ascon_kat_key = kat_key"
  by (simp add: ascon_kat_key_def kat_key_def)

lemma hex2bin_ads:
  assumes "i < 5"
  shows "hex2bin (fst (ascon_kat_cases ! i)) 16 = Some (kat_msg i)"
proof -
  have "list_all2 (\<lambda>(a, h) n. hex2bin a 16 = Some (kat_msg n)) ascon_kat_cases [0..<5]"
    by (simp add: ascon_kat_cases_def hex2bin_def hex_digit_def kat_msg_def upt_rec)
  from list_all2_nthD [OF this, of i] assms show ?thesis
    by (simp add: ascon_kat_cases_def case_prod_unfold)
qed

lemma hex2bin_tags:
  "list_all2 (\<lambda>(a, h) n. hex2bin h 16 = Some (snd (aead_seal kat_key kat_key (kat_msg n) []))) ascon_kat_cases [0..<5]"
  by (simp add: ascon_kat_cases_def hex2bin_def hex_digit_def kat_msg_def kat_tags upt_rec)

lemma ascon_kat_run_pass:
  assumes "ptls_aead_ok P" and "hex2bin a 16 = Some ad" and "hex2bin h 16 = Some (snd (aead_seal kat_key kat_key ad []))"
  shows "snd (ascon_kat_run P stack a h) = 0"
proof -
  have "length kat_key = 16" by (simp add: kat_key_def)
  then obtain c where c: "aead_new_direct P kat_key kat_key = Some c"
    "let (c', out) = aead_encrypt_update P (aead_encrypt_init P c 0 ad) []; (ct, tag) = aead_seal kat_key kat_key ad []
     in length out \<le> length ([] :: u8 list) \<and> out @ aead_encrypt_final P c' = ct @ tag"
    using assms(1) unfolding ptls_aead_ok_def by blast
  obtain tag where s: "aead_seal kat_key kat_key ad [] = ([], tag)" and t: "length tag = 16"
    using aead_seal_length [of kat_key kat_key ad "[]"] by (cases "aead_seal kat_key kat_key ad []") auto
  show ?thesis
    using assms(2,3) c s t by (auto simp: ascon_kat_run_def ascon_kat_key_eq Let_def split: prod.splits)
qed

lemma ascon_kat_passes:
  assumes "ptls_aead_ok P"
  shows "ascon_kat_main P stack = (''ALL KAT PASS'', 0)"
proof -
  have "snd (ascon_kat_run P stack a h) = 0" if "(a, h) \<in> set ascon_kat_cases" for a h
  proof -
    from that obtain i where i: "i < length ascon_kat_cases" "ascon_kat_cases ! i = (a, h)" by (auto simp: in_set_conv_nth)
    then have i5: "i < 5" by (simp add: ascon_kat_cases_def)
    have "hex2bin h 16 = Some (snd (aead_seal kat_key kat_key (kat_msg i) []))"
      using list_all2_nthD [OF hex2bin_tags i(1)] i5 by (simp add: i(2))
    moreover have "hex2bin a 16 = Some (kat_msg i)"
      using i(2) i5 hex2bin_ads [of i] by simp
    ultimately show ?thesis using ascon_kat_run_pass [OF assms] by blast
  qed
  then have "map (\<lambda>(a, h). snd (ascon_kat_run P stack a h)) ascon_kat_cases = map (\<lambda>_. 0) ascon_kat_cases"
    by (intro map_cong) auto
  then have "(\<Sum>(a, h) \<leftarrow> ascon_kat_cases. snd (ascon_kat_run P stack a h)) = 0"
    by (simp only: sum_list_0)
  then show ?thesis by (simp add: ascon_kat_main_def Let_def)
qed

section \<open>The manual HMAC chain\<close>

lemma kdf_chain_outer:
  assumes "ptls_hash_ok H"
  shows "last (kdf_manual_chain H psk) = HexLine ''OUTER'' (hmac_zero_key psk)"
  using assms by (simp add: kdf_manual_chain_def ptls_hash_one hmac_zero_key_def Let_def)

lemma kdf_cross_matches:
  assumes "ptls_hash_ok H"
  shows "last (kdf_cross_call H psk) = CrossCall True"
  using assms by (simp add: kdf_cross_call_def ptls_hash_one ptls_hash_two Let_def)

lemma psk_fill_numeral: "psk_fill b (numeral k) = b # psk_fill (b + 0x22) (pred_numeral k)"
  by (simp add: numeral_eq_Suc)

lemma kdf_outer_value: "hmac_zero_key make_psk =
  [0x30, 0x3b, 0xaf, 0x98, 0xc9, 0xd0, 0x7a, 0x15, 0x4b, 0xb2, 0x0d, 0x5a, 0x98, 0xa8, 0x71, 0x20,
   0x1f, 0x5d, 0x71, 0xd8, 0x67, 0xe5, 0x70, 0xd8, 0x92, 0x28, 0xdd, 0xfa, 0x63, 0x5c, 0x8d, 0xcd]"
proof -
  have psk: "make_psk = [1, 0x23, 0x45, 0x67, 0x89, 0xab, 0xcd, 0xef, 0x11, 0x33, 0x55, 0x77, 0x99, 0xbb, 0xdd, 0xff,
     0x21, 0x43, 0x65, 0x87, 0xa9, 0xcb, 0xed, 0x0f, 0x31, 0x53, 0x75, 0x97, 0xb9, 0xdb, 0xfd, 0x1f]"
    by (simp add: make_psk_eq oracle_psk_def psk_fill_numeral)
  have zero: "hash_spec (replicate 32 0)
    = [0xec, 0xcf, 0x22, 0x5a, 0xfc, 0x53, 0xa3, 0xae, 0xe6, 0xdc, 0x68, 0xb8, 0x09, 0x24, 0x9e, 0x40, 0xcd, 0x33,
       0x1f, 0x41, 0xec, 0xe6, 0xec, 0x60, 0x11, 0x69, 0x47, 0xcd, 0xa7, 0xa7, 0xbc, 0x88]"
    using hash_zero_key by (simp add: numeral_eq_Suc)
  show ?thesis
    unfolding hmac_zero_key_def zero Let_def psk
    using hash_inner hash_outer by (simp add: ipad8_def opad8_def upt_rec)
qed

end
