(* ===== verification/Bench_Support.thy ===== *)
theory Bench_Support
  imports Ascon_Prelude "HOL-Library.Multiset"
begin

text \<open>
  The integer parts of the measurement harnesses: the elapsed-tick computation of
  \<open>evaluation/common/hal.h\<close>, the result log and the heap of
  \<open>evaluation/renode/bench_main.c\<close>, the nonce of \<open>evaluation/renode/bench_record.c\<close>,
  and the generator and the shuffle of \<open>evaluation/side-channel/ascon_mask_dudect.c\<close>.
  The programs around them are in \<open>Bench_Main\<close>, \<open>Dudect_Stats\<close> and \<open>Dudect\<close>.
\<close>

section \<open>Elapsed ticks\<close>

text \<open>The two builds of \<open>hal_elapsed\<close>: the DWT counter counts up, SysTick down in 24 bits.\<close>

definition hal_elapsed_dwt :: "u32 \<Rightarrow> u32 \<Rightarrow> u32" where
  "hal_elapsed_dwt s e = e - s"

definition hal_elapsed_systick :: "u32 \<Rightarrow> u32 \<Rightarrow> u32" where
  "hal_elapsed_systick s e = (s - e) AND 0x00FFFFFF"

text \<open>What the counters read \<open>d\<close> ticks after they read \<open>s\<close>.\<close>

definition dwt_after :: "u32 \<Rightarrow> nat \<Rightarrow> u32" where
  "dwt_after s d = of_nat ((unat s + d) mod 2 ^ 32)"

definition systick_after :: "u32 \<Rightarrow> nat \<Rightarrow> u32" where
  "systick_after s d = of_int ((int (unat s) - int d) mod 2 ^ 24)"

lemma hal_elapsed_dwt_after: "d < 2 ^ 32 \<Longrightarrow> unat (hal_elapsed_dwt s (dwt_after s d)) = d"
proof -
  assume d: "d < 2 ^ 32"
  have "(of_nat ((unat s + d) mod 2 ^ 32) :: u32) = of_nat (unat s + d)"
    by (simp add: word_of_nat_eq_iff take_bit_eq_mod del: of_nat_add)
  then have "(of_nat ((unat s + d) mod 2 ^ 32) :: u32) = s + of_nat d" by simp
  with d show ?thesis by (simp add: hal_elapsed_dwt_def dwt_after_def unat_of_nat)
qed

section \<open>The result log\<close>

text \<open>
  \<open>hdr[2]\<close> and the output area. \<open>text\<close> stands for the bytes the format expands to:
  \<open>vsnprintf\<close> stores at most \<open>avail - 1\<close> of them and a zero byte, and returns their number.
\<close>

definition OUT_SIZE :: u32 where "OUT_SIZE = 8192"

record bench_log =
  log_len :: u32
  log_out :: "u8 list"

definition bench_xprintf :: "bench_log \<Rightarrow> u8 list \<Rightarrow> bench_log" where
  "bench_xprintf l txt = (let
     len = log_len l;
     avail = (if len < OUT_SIZE then OUT_SIZE - len else 0)
   in if avail = 0 then l
      else let
        n = int (length txt);
        l = l\<lparr>log_out := write_at (unat len) (take (unat avail - 1) txt @ [0]) (log_out l)\<rparr>
      in if 0 < n then l\<lparr>log_len := len + (if n < int (unat avail) then of_int n else avail - 1)\<rparr> else l)"

definition log_ok :: "bench_log \<Rightarrow> bool" where
  "log_ok l \<longleftrightarrow> length (log_out l) = 8192 \<and> unat (log_len l) < 8192"

definition log_text :: "bench_log \<Rightarrow> u8 list" where
  "log_text l = take (unat (log_len l)) (log_out l)"

lemma bench_xprintf_ok:
  assumes "log_ok l"
  shows "log_ok (bench_xprintf l txt)" and "log_text (bench_xprintf l txt) = take 8191 (log_text l @ txt)"
proof -
  let ?k = "unat (log_len l)" let ?w = "take (8191 - ?k) txt @ [0]"
  let ?m = "min (length txt) (8191 - ?k)"
  have k: "?k < 8192" and out: "length (log_out l) = 8192" using assms by (simp_all add: log_ok_def)
  have lt: "log_len l < OUT_SIZE" using k by (simp add: OUT_SIZE_def word_less_nat_alt)
  have avail: "unat (OUT_SIZE - log_len l) = 8192 - ?k"
    using k by (simp add: OUT_SIZE_def unat_sub word_le_nat_alt)
  then have nz: "OUT_SIZE - log_len l \<noteq> 0" using k by auto
  have len: "(if int (length txt) < int (8192 - ?k) then of_int (int (length txt)) else OUT_SIZE - log_len l - 1)
      = (of_nat ?m :: u32)"
  proof (cases "length txt < 8192 - ?k")
    case True
    then have "int (length txt) < int (8192 - ?k)" by (simp only: of_nat_less_iff)
    moreover have "?m = length txt" using True by simp
    ultimately show ?thesis by (simp only: if_True of_int_of_nat_eq)
  next
    case False
    have "OUT_SIZE - log_len l = of_nat (unat (OUT_SIZE - log_len l))" by simp
    then have "OUT_SIZE - log_len l - 1 = of_nat (8192 - ?k) - 1" by (simp only: avail)
    also have "\<dots> = of_nat (8191 - ?k)" using k by (simp add: of_nat_diff)
    finally have "OUT_SIZE - log_len l - 1 = of_nat (8191 - ?k)" .
    moreover have "?m = 8191 - ?k" using False by simp
    moreover have "\<not> int (length txt) < int (8192 - ?k)" using False by (subst of_nat_less_iff)
    ultimately show ?thesis by (simp only: if_False)
  qed
  have x: "bench_xprintf l txt = l\<lparr>log_out := write_at ?k ?w (log_out l), log_len := log_len l + of_nat ?m\<rparr>"
  proof (cases "txt = []")
    case True
    then show ?thesis using lt nz by (simp add: bench_xprintf_def Let_def)
  next
    case False
    then have pos: "0 < int (length txt)" by simp
    have room: "8192 - ?k - 1 = 8191 - ?k" by simp
    show ?thesis
      by (simp only: bench_xprintf_def Let_def lt if_True nz if_False avail room pos len bench_log.simps)
  qed
  have sum: "unat (log_len l + of_nat ?m) = ?k + ?m" using k by (simp add: unat_word_ariths unat_of_nat)
  show "log_ok (bench_xprintf l txt)" using k out by (simp add: x log_ok_def sum)
  have "take (?k + ?m) (write_at ?k ?w (log_out l)) = take ?k (log_out l) @ take ?m txt"
    using k out by (simp add: write_at_def min_def)
  moreover have "length (log_text l) = ?k" "take ?m txt = take (8191 - ?k) txt"
    using k out by (simp_all add: log_text_def min_def)
  then have "take 8191 (log_text l @ txt) = log_text l @ take ?m txt"
    using k by simp
  then have "take 8191 (log_text l @ txt) = take ?k (log_out l) @ take ?m txt"
    by (simp only: log_text_def)
  ultimately show "log_text (bench_xprintf l txt) = take 8191 (log_text l @ txt)"
    by (simp add: x log_text_def sum)
qed

lemma bench_xprintf_all:
  "log_ok l \<Longrightarrow> log_ok (foldl bench_xprintf l txts) \<and>
    log_text (foldl bench_xprintf l txts) = take 8191 (log_text l @ concat txts)"
proof (induction txts arbitrary: l)
  case Nil
  then have "length (log_text l) \<le> 8191" by (simp add: log_text_def log_ok_def)
  with Nil show ?case by simp
next
  case (Cons t ts)
  then show ?case using Cons.IH [OF bench_xprintf_ok(1) [OF Cons.prems, of t]]
    by (simp add: bench_xprintf_ok(2) take_append min_def)
qed

lemma hal_elapsed_systick_after:
  assumes "unat s < 2 ^ 24" and "d < 2 ^ 24"
  shows "unat (hal_elapsed_systick s (systick_after s d)) = d"
proof -
  let ?e = "(int (unat s) - int d) mod 2 ^ 24"
  have "hal_elapsed_systick s (systick_after s d) = take_bit 24 (s - of_int ?e)"
    by (simp add: hal_elapsed_systick_def systick_after_def take_bit_eq_mask mask_eq_exp_minus_1)
  also have "s - of_int ?e = of_int (int (unat s) - ?e)" by simp
  finally have *: "hal_elapsed_systick s (systick_after s d) = take_bit 24 (of_int (int (unat s) - ?e))" .
  have "uint (take_bit 24 (of_int k :: u32)) = take_bit 24 k" for k
    by transfer (simp add: take_bit_take_bit)
  then have "uint (hal_elapsed_systick s (systick_after s d)) = take_bit 24 (int (unat s) - ?e)"
    by (simp only: *)
  also have "\<dots> = (int (unat s) - ?e) mod 2 ^ 24" by (rule take_bit_eq_mod)
  also have "\<dots> = int d mod 2 ^ 24" by (simp add: mod_diff_right_eq)
  also have "\<dots> = int d" using assms by simp
  finally show ?thesis by (simp add: unat_eq_nat_uint)
qed

section \<open>The heap\<close>

text \<open>
  \<open>_sbrk\<close> on the static \<open>heap\<close> pointer (None before the first call), \<open>start\<close> the
  address of the linker symbol \<open>end\<close>. Addresses are integers; None is the result \<open>-1\<close>.
\<close>

definition HAL_HEAP_LIMIT :: int where "HAL_HEAP_LIMIT = 0x20008000"

definition sbrk :: "int \<Rightarrow> int option \<Rightarrow> int \<Rightarrow> int option \<times> int option" where
  "sbrk start heap incr = (let
     h = (case heap of None \<Rightarrow> start | Some a \<Rightarrow> a);
     prev = h;
     nxt = h + incr
   in if HAL_HEAP_LIMIT < nxt then (Some h, None) else (Some nxt, Some prev))"

text \<open>The blocks that a sequence of calls hands out.\<close>

fun sbrk_blocks :: "int \<Rightarrow> int option \<Rightarrow> int list \<Rightarrow> (int \<times> int) list" where
  "sbrk_blocks start heap [] = []"
| "sbrk_blocks start heap (i # is) = (case sbrk start heap i of
     (heap', None) \<Rightarrow> sbrk_blocks start heap' is
   | (heap', Some a) \<Rightarrow> (a, a + i) # sbrk_blocks start heap' is)"

text \<open>Blocks one behind the other, from \<open>lo\<close> and up to the limit.\<close>

fun stacked :: "int \<Rightarrow> (int \<times> int) list \<Rightarrow> bool" where
  "stacked lo [] = True"
| "stacked lo ((a, b) # bs) = (lo \<le> a \<and> a \<le> b \<and> b \<le> HAL_HEAP_LIMIT \<and> stacked b bs)"

lemma sbrk_stacked:
  assumes "\<forall>i \<in> set is. 0 \<le> i"
  shows "stacked (case heap of None \<Rightarrow> start | Some a \<Rightarrow> a) (sbrk_blocks start heap is)"
  using assms
proof (induction "is" arbitrary: heap)
  case Nil
  then show ?case by simp
next
  case (Cons i "is")
  from Cons.IH [of "Some _"] Cons.prems show ?case
    by (cases heap) (auto simp: sbrk_def Let_def)
qed

section \<open>The nonce of the record benchmark\<close>

text \<open>
  A shift of a 32-bit word by a distance of 32 or more is undefined in C: None.
\<close>

definition shift_right32 :: "u32 \<Rightarrow> nat \<Rightarrow> u32 option" where
  "shift_right32 x n = (if n < 32 then Some (drop_bit n x) else None)"

fun seq_bytes :: "u32 \<Rightarrow> nat list \<Rightarrow> u8 list option" where
  "seq_bytes sq [] = Some []"
| "seq_bytes sq (i # is) = (case shift_right32 sq (8 * i) of
     None \<Rightarrow> None
   | Some x \<Rightarrow> (case seq_bytes sq is of None \<Rightarrow> None | Some bs \<Rightarrow> Some (ucast x # bs)))"

definition bench_build_nonce :: "u32 \<Rightarrow> u8 list option" where
  "bench_build_nonce sq = (case seq_bytes sq [0..<8] of
     None \<Rightarrow> None
   | Some g_seq \<Rightarrow> Some (map of_nat [0..<8] @ g_seq))"

lemma bench_build_nonce_undefined: "bench_build_nonce sq = None"
proof -
  have "seq_bytes sq xs = None" if "4 \<in> set xs" for xs
    using that by (induction xs) (auto simp: shift_right32_def split: option.split)
  then show ?thesis by (simp add: bench_build_nonce_def)
qed

section \<open>The generator\<close>

definition xorshift64 :: "u64 \<Rightarrow> u64" where
  "xorshift64 xs = (let
     xs = xs XOR push_bit 13 xs;
     xs = xs XOR drop_bit 7 xs;
     xs = xs XOR push_bit 17 xs
   in xs)"

lemma xor_push_inj:
  assumes "x XOR push_bit k x = y XOR push_bit k (y :: u64)" and "0 < k"
  shows "x = y"
proof (rule bit_word_eqI)
  fix n
  assume "n < LENGTH(64)"
  then show "bit x n = bit y n"
  proof (induction n rule: less_induct)
    case (less n)
    have e: "bit (x XOR push_bit k x) n = bit (y XOR push_bit k y) n" by (simp only: assms(1))
    show ?case
    proof (cases "k \<le> n")
      case True
      with less.IH [of "n - k"] less.prems assms(2) e show ?thesis by (auto simp: bit_simps)
    next
      case False
      with less.prems e show ?thesis by (simp add: bit_simps)
    qed
  qed
qed

lemma xor_drop_inj:
  assumes "x XOR drop_bit k x = y XOR drop_bit k (y :: u64)" and "0 < k"
  shows "x = y"
proof (rule bit_word_eqI)
  fix n
  assume "n < LENGTH(64)"
  then show "bit x n = bit y n"
  proof (induction "64 - n" arbitrary: n rule: less_induct)
    case less
    have e: "bit (x XOR drop_bit k x) n = bit (y XOR drop_bit k y) n" by (simp only: assms(1))
    show ?case
    proof (cases "k + n < 64")
      case True
      then have "bit x (k + n) = bit y (k + n)" using assms(2) by (intro less.hyps) simp_all
      with e show ?thesis by (auto simp: bit_simps)
    next
      case False
      then have "\<not> bit x (k + n)" "\<not> bit y (k + n)" by (auto dest: bit_imp_le_length)
      with e show ?thesis by (simp add: bit_simps)
    qed
  qed
qed

lemma xorshift64_inj: "xorshift64 x = xorshift64 y \<longleftrightarrow> x = y"
proof
  let ?a = "\<lambda>z :: u64. z XOR push_bit 13 z"
  let ?b = "\<lambda>z. ?a z XOR drop_bit 7 (?a z)"
  assume "xorshift64 x = xorshift64 y"
  then have "?b x XOR push_bit 17 (?b x) = ?b y XOR push_bit 17 (?b y)"
    by (simp only: xorshift64_def Let_def)
  then have "?b x = ?b y" by (rule xor_push_inj) simp
  then have "?a x = ?a y" by (rule xor_drop_inj) simp
  then show "x = y" by (rule xor_push_inj) simp
qed (rule arg_cong)

lemma xorshift64_nonzero: "x \<noteq> 0 \<Longrightarrow> xorshift64 x \<noteq> 0"
  using xorshift64_inj [of x 0] by (simp add: xorshift64_def)

section \<open>The shuffle\<close>

definition swap_at :: "nat \<Rightarrow> nat \<Rightarrow> 'a list \<Rightarrow> 'a list" where
  "swap_at i j xs = xs[i := xs ! j, j := xs ! i]"

record 'c samples =
  smp_order :: "nat list"
  smp_classes :: "u8 list"
  smp_cts :: "u8 list list"
  smp_ctxs :: "'c list"

text \<open>\<open>for (i = N - 1; i > 0; i--)\<close>; the contexts move along only in mode 1.\<close>

fun shuffle :: "nat \<Rightarrow> nat \<Rightarrow> u64 \<Rightarrow> 'c samples \<Rightarrow> u64 \<times> 'c samples" where
  "shuffle mode 0 xs s = (xs, s)"
| "shuffle mode (Suc i) xs s = (let
     xs = xorshift64 xs;
     j = unat (xs mod of_nat (Suc i + 1));
     s = s\<lparr>smp_order := swap_at (Suc i) j (smp_order s),
           smp_classes := swap_at (Suc i) j (smp_classes s),
           smp_cts := swap_at (Suc i) j (smp_cts s)\<rparr>;
     s = (if mode = 1 then s\<lparr>smp_ctxs := swap_at (Suc i) j (smp_ctxs s)\<rparr> else s)
   in shuffle mode i xs s)"

definition aligned :: "'c samples \<Rightarrow> nat \<Rightarrow> bool" where
  "aligned s n \<longleftrightarrow> length (smp_order s) = n \<and> length (smp_classes s) = n \<and> length (smp_cts s) = n"

lemma length_swap_at [simp]: "length (swap_at i j xs) = length xs"
  by (simp add: swap_at_def)

lemma nth_swap_at:
  "i < length xs \<Longrightarrow> j < length xs \<Longrightarrow> k < length xs \<Longrightarrow> swap_at i j xs ! k = xs ! (if k = j then i else if k = i then j else k)"
  by (auto simp: swap_at_def nth_list_update)

lemma mset_swap_at: "i < length xs \<Longrightarrow> j < length xs \<Longrightarrow> mset (swap_at i j xs) = mset xs"
  by (simp add: swap_at_def mset_swap)

lemma shuffle_index: "i < 2 ^ 63 \<Longrightarrow> unat (x mod of_nat (Suc i + 1) :: u64) \<le> Suc i"
proof -
  assume i: "i < 2 ^ 63"
  then have "unat (of_nat (Suc i + 1) :: u64) = Suc i + 1" by (simp add: unat_of_nat del: of_nat_add of_nat_Suc)
  moreover have "unat (x mod of_nat (Suc i + 1) :: u64) = unat x mod unat (of_nat (Suc i + 1) :: u64)"
    by (rule unat_mod)
  ultimately show ?thesis by (metis Suc_eq_plus1 less_Suc_eq_le mod_less_divisor zero_less_Suc)
qed

text \<open>
  The specification: the same walk over one list, from the back, with the same random
  numbers. It only permutes the list.
\<close>

fun fisher_yates :: "nat \<Rightarrow> u64 \<Rightarrow> 'a list \<Rightarrow> u64 \<times> 'a list" where
  "fisher_yates 0 xs l = (xs, l)"
| "fisher_yates (Suc i) xs l =
     fisher_yates i (xorshift64 xs) (swap_at (Suc i) (unat (xorshift64 xs mod of_nat (Suc i + 1))) l)"

lemma fisher_yates_mset:
  assumes "i < length l" and "i < 2 ^ 63"
  shows "mset (snd (fisher_yates i xs l)) = mset l"
  using assms
proof (induction i arbitrary: xs l)
  case 0
  then show ?case by simp
next
  case (Suc i)
  have "unat (xorshift64 xs mod of_nat (Suc i + 1)) \<le> Suc i" using Suc.prems(2) by (intro shuffle_index) simp
  then have "unat (xorshift64 xs mod of_nat (Suc i + 1)) < length l" using Suc.prems(1) by simp
  with Suc show ?case by (simp add: mset_swap_at del: of_nat_Suc of_nat_add)
qed

end
