(* ===== verification/Dudect_Stats.thy ===== *)
theory Dudect_Stats
  imports Complex_Main Bench_Support Wc_Misc
begin

text \<open>
  The generator, the comparison and the statistic of the timing harness
  \<open>evaluation/side-channel/ascon_mask_dudect.c\<close>, and \<open>mask_prf_check_bound\<close> of
  \<open>wolfcrypt/src/mask_prf.c\<close>. The floating-point operations are an argument (\<open>floats\<close>);
  with exact arithmetic the statistic is Welch's t.
\<close>

section \<open>Generator and comparison\<close>

definition XS_START :: u64 where "XS_START = 0x9e3779b97f4a7c15 XOR 0x12345"

fun rand_bytes :: "nat \<Rightarrow> u64 \<Rightarrow> u64 \<times> u8 list" where
  "rand_bytes 0 xs = (xs, [])"
| "rand_bytes (Suc n) xs = (let xs = xorshift64 xs; b = ucast (xs AND 0xFF); (xs, bs) = rand_bytes n xs in (xs, b # bs))"

definition cmp_u64 :: "u64 \<Rightarrow> u64 \<Rightarrow> int" where
  "cmp_u64 x y = of_bool (y < x) - of_bool (x < y)"

lemma cmp_u64_order: "cmp_u64 x y < 0 \<longleftrightarrow> x < y" "cmp_u64 x y = 0 \<longleftrightarrow> x = y" "cmp_u64 y x = - cmp_u64 x y"
  by (auto simp: cmp_u64_def)

section \<open>Welch's t\<close>

record 'f floats =
  f_of_u64 :: "u64 \<Rightarrow> 'f"
  f_of_size :: "nat \<Rightarrow> 'f"
  f_ldexp :: "nat \<Rightarrow> 'f"       \<comment> \<open>\<open>ldexp(1.0, n)\<close>\<close>
  f_zero :: 'f
  f_limit :: 'f               \<comment> \<open>4.5\<close>
  f_add :: "'f \<Rightarrow> 'f \<Rightarrow> 'f"
  f_sub :: "'f \<Rightarrow> 'f \<Rightarrow> 'f"
  f_mul :: "'f \<Rightarrow> 'f \<Rightarrow> 'f"
  f_div :: "'f \<Rightarrow> 'f \<Rightarrow> 'f"
  f_neg :: "'f \<Rightarrow> 'f"
  f_sqrt :: "'f \<Rightarrow> 'f"
  f_less :: "'f \<Rightarrow> 'f \<Rightarrow> bool"
  f_eq :: "'f \<Rightarrow> 'f \<Rightarrow> bool"

fun welch_sums :: "'f floats \<Rightarrow> u64 \<Rightarrow> (u64 \<times> u8) list \<Rightarrow> 'f \<times> 'f \<times> nat \<times> nat \<Rightarrow> 'f \<times> 'f \<times> nat \<times> nat" where
  "welch_sums F thr [] acc = acc"
| "welch_sums F thr ((t, c) # ts) (sum0, sum1, n0, n1) = welch_sums F thr ts
     (if t < thr then
        (if c = 0 then (f_add F sum0 (f_of_u64 F t), sum1, n0 + 1, n1)
         else (sum0, f_add F sum1 (f_of_u64 F t), n0, n1 + 1))
      else (sum0, sum1, n0, n1))"

fun welch_squares :: "'f floats \<Rightarrow> u64 \<Rightarrow> 'f \<Rightarrow> 'f \<Rightarrow> (u64 \<times> u8) list \<Rightarrow> 'f \<times> 'f \<Rightarrow> 'f \<times> 'f" where
  "welch_squares F thr m0 m1 [] acc = acc"
| "welch_squares F thr m0 m1 ((t, c) # ts) (v0, v1) = welch_squares F thr m0 m1 ts
     (if t < thr then
        (if c = 0 then (let d = f_sub F (f_of_u64 F t) m0 in (f_add F v0 (f_mul F d d), v1))
         else (let d = f_sub F (f_of_u64 F t) m1 in (v0, f_add F v1 (f_mul F d d))))
      else (v0, v1))"

definition welch_t :: "'f floats \<Rightarrow> u64 list \<Rightarrow> u8 list \<Rightarrow> u64 \<Rightarrow> 'f" where
  "welch_t F tms classes thr = (let
     (sum0, sum1, n0, n1) = welch_sums F thr (zip tms classes) (f_zero F, f_zero F, 0, 0)
   in if n0 < 10 \<or> n1 < 10 then f_zero F else let
     m0 = f_div F sum0 (f_of_size F n0);
     m1 = f_div F sum1 (f_of_size F n1);
     (v0, v1) = welch_squares F thr m0 m1 (zip tms classes) (f_zero F, f_zero F);
     v0 = f_div F v0 (f_of_size F (n0 - 1));
     v1 = f_div F v1 (f_of_size F (n1 - 1));
     se = f_add F (f_div F v0 (f_of_size F n0)) (f_div F v1 (f_of_size F n1))
   in if f_eq F se (f_zero F) then f_zero F else f_div F (f_sub F m0 m1) (f_sqrt F se))"

text \<open>Exact arithmetic, and the statistic as in the textbooks.\<close>

definition exact_floats :: "real floats" where
  "exact_floats = \<lparr>f_of_u64 = (\<lambda>x. real (unat x)), f_of_size = real, f_ldexp = (\<lambda>n. 2 ^ n), f_zero = 0, f_limit = 4.5,
     f_add = (+), f_sub = (-), f_mul = (*), f_div = (/), f_neg = uminus, f_sqrt = sqrt, f_less = (<), f_eq = (=)\<rparr>"

definition class_times :: "(u8 \<Rightarrow> bool) \<Rightarrow> u64 \<Rightarrow> (u64 \<times> u8) list \<Rightarrow> real list" where
  "class_times P thr ts = map (\<lambda>(t, c). real (unat t)) (filter (\<lambda>(t, c). t < thr \<and> P c) ts)"

definition mean :: "real list \<Rightarrow> real" where
  "mean xs = sum_list xs / real (length xs)"

definition variance :: "real list \<Rightarrow> real" where
  "variance xs = (\<Sum>x\<leftarrow>xs. (x - mean xs)\<^sup>2) / real (length xs - 1)"

definition welch_statistic :: "real list \<Rightarrow> real list \<Rightarrow> real" where
  "welch_statistic xs ys = (mean xs - mean ys) / sqrt (variance xs / real (length xs) + variance ys / real (length ys))"

lemma class_times_Cons:
  "class_times P thr ((t, c) # ts) = (if t < thr \<and> P c then real (unat t) # class_times P thr ts else class_times P thr ts)"
  by (simp add: class_times_def)

lemma class_times_Nil: "class_times P thr [] = []"
  by (simp add: class_times_def)

lemma exact_ops [simp]:
  "f_of_u64 exact_floats x = real (unat x)" "f_of_size exact_floats = real" "f_ldexp exact_floats n = 2 ^ n" "f_zero exact_floats = 0"
  "f_add exact_floats = (+)" "f_sub exact_floats = (-)" "f_mul exact_floats = (*)" "f_div exact_floats = (/)"
  "f_sqrt exact_floats = sqrt" "f_eq exact_floats = (=)" "f_less exact_floats = (<)" "f_neg exact_floats = uminus"
  "f_limit exact_floats = 4.5"
  by (simp_all add: exact_floats_def)

lemma welch_sums_exact:
  "welch_sums exact_floats thr ts (s0, s1, k0, k1) = (let T0 = class_times (\<lambda>c. c = 0) thr ts; T1 = class_times (\<lambda>c. c \<noteq> 0) thr ts
    in (s0 + sum_list T0, s1 + sum_list T1, k0 + length T0, k1 + length T1))"
proof (induction ts arbitrary: s0 s1 k0 k1)
  case Nil
  then show ?case by (simp add: class_times_Nil)
next
  case (Cons p ts)
  then show ?case by (cases p) (simp add: class_times_Cons Let_def)
qed

lemma welch_squares_exact:
  "welch_squares exact_floats thr m0 m1 ts (v0, v1) =
    (v0 + (\<Sum>x\<leftarrow>class_times (\<lambda>c. c = 0) thr ts. (x - m0)\<^sup>2), v1 + (\<Sum>x\<leftarrow>class_times (\<lambda>c. c \<noteq> 0) thr ts. (x - m1)\<^sup>2))"
proof (induction ts arbitrary: v0 v1)
  case Nil
  then show ?case by (simp add: class_times_Nil)
next
  case (Cons p ts)
  then show ?case by (cases p) (simp add: class_times_Cons power2_eq_square Let_def)
qed

text \<open>When one of the variances is not 0, the guard against division by 0 does not matter.\<close>

lemma welch_t_exact:
  assumes "T0 = class_times (\<lambda>c. c = 0) thr (zip tms classes)" and "T1 = class_times (\<lambda>c. c \<noteq> 0) thr (zip tms classes)"
  shows "welch_t exact_floats tms classes thr =
    (if length T0 < 10 \<or> length T1 < 10 then 0 else welch_statistic T0 T1)"
proof -
  have "sqrt 0 = (0 :: real)" by simp
  then show ?thesis
    by (auto simp: welch_t_def welch_sums_exact welch_squares_exact assms welch_statistic_def mean_def variance_def Let_def)
qed

section \<open>The bound of the mask function\<close>

text \<open>
  \<open>mask_prf_check_bound\<close> of \<open>mask_prf.c\<close>, the other computation on \<open>double\<close>: its result
  and the value stored through \<open>adv\<close>.
\<close>

definition mask_prf_check_bound :: "'f floats \<Rightarrow> u64 \<Rightarrow> ptr \<Rightarrow> bool \<times> 'f option" where
  "mask_prf_check_bound F q adv =
     (if adv = NULL then (False, None)
      else let
        qd = f_of_u64 F q;
        b192 = f_ldexp F 192;
        b128 = f_ldexp F 128;
        b1 = f_div F (f_mul F qd qd) b192;
        b2 = f_div F qd b128
      in (True, Some (f_add F b1 b2)))"

lemma check_bound_exact:
  "mask_prf_check_bound exact_floats q PTR = (True, Some ((real (unat q))\<^sup>2 / 2 ^ 192 + real (unat q) / 2 ^ 128))"
  by (simp add: mask_prf_check_bound_def power2_eq_square Let_def)

lemma check_bound_small: "(real (unat (q :: u64)))\<^sup>2 / 2 ^ 192 + real (unat q) / 2 ^ 128 < 1 / 2 ^ 63"
proof -
  define m where "m = unat q"
  have "m < 2 ^ 64" using unsigned_less [where w = q] by (simp add: m_def)
  then have "real m < real (2 ^ 64)" by (simp only: of_nat_less_iff)
  moreover define x where "x = real m"
  ultimately have x: "0 \<le> x" "x < 2 ^ 64" by simp_all
  then have "x * x \<le> 2 ^ 64 * 2 ^ 64" by (intro mult_mono) simp_all
  then have "x\<^sup>2 / 2 ^ 192 \<le> 1 / 2 ^ 64" by (simp add: power2_eq_square)
  moreover have "x / 2 ^ 128 < 1 / 2 ^ 64" using x by simp
  ultimately have "x\<^sup>2 / 2 ^ 192 + x / 2 ^ 128 < 1 / 2 ^ 63" by simp
  then show ?thesis by (simp only: x_def m_def)
qed

end
