(* ===== verification/Dudect.thy ===== *)
theory Dudect
  imports Dudect_Stats Record_Kat
begin

text \<open>
  The tests of \<open>evaluation/side-channel/ascon_mask_dudect.c\<close>: the inputs of the two classes,
  the shuffles between the rounds, the timed calls, the thresholds and the verdicts. The
  \<open>k\<close>-th reading of the time stamp counter, \<open>rdtsc k\<close>, may depend on the inputs of the call
  of the mask function since the reading before (None if there was none), so that the times
  may leak what was computed. \<open>qsort\<close> sorts by the comparison \<open>cmp_u64\<close>, and \<open>heap\<close> is the initial content of allocated contexts. \<open>n\<close> stands
  for \<open>N\<close>; allocations that are not checked in C succeed.
\<close>

section \<open>Inputs\<close>

definition N_SAMPLES :: nat where "N_SAMPLES = 80000"
definition WARMUP :: nat where "WARMUP = 5000"
definition ROUNDS :: nat where "ROUNDS = 8"

definition fixed_ct :: "u8 list" where
  "fixed_ct = map (\<lambda>i. 0xA5 XOR of_nat (i * 0x11)) [0..<16]"

definition fixed_key :: "u8 list" where
  "fixed_key = map (\<lambda>i. of_nat (i * 0x3C) XOR 0x5A) [0..<16]"

text \<open>One sample: its class, ciphertext and key.\<close>

definition gen_sample :: "nat \<Rightarrow> u64 \<Rightarrow> u64 \<times> u8 \<times> u8 list \<times> u8 list" where
  "gen_sample mode xs = (let xs = xorshift64 xs; cls = ucast (xs AND 1) :: u8 in
     if mode = 0 then (let (xs, ct) = (if cls = 0 then (xs, fixed_ct) else rand_bytes 16 xs) in (xs, cls, ct, fixed_key))
     else if mode = 1 then (let (xs, key) = (if cls = 0 then (xs, fixed_key) else rand_bytes 16 xs) in (xs, cls, fixed_ct, key))
     else (let (xs, ct) = rand_bytes 16 xs in (xs, cls, ct, fixed_key)))"

fun gen_samples :: "nat \<Rightarrow> nat \<Rightarrow> u64 \<Rightarrow> u64 \<times> (u8 \<times> u8 list \<times> u8 list) list" where
  "gen_samples mode 0 xs = (xs, [])"
| "gen_samples mode (Suc n) xs = (let (xs, s) = gen_sample mode xs; (xs, ss) = gen_samples mode n xs in (xs, s # ss))"

text \<open>A context after \<open>Init\<close> and \<open>SetKey\<close>.\<close>

definition keyed :: "wc_AsconAEAD128 \<Rightarrow> u8 list \<Rightarrow> wc_AsconAEAD128" where
  "keyed g key = (case snd (wc_AsconAEAD128_SetKey (snd (wc_AsconAEAD128_Init (Some g))) (Some key)) of None \<Rightarrow> g | Some a \<Rightarrow> a)"

definition make_ctxs :: "(nat \<Rightarrow> wc_AsconAEAD128) \<Rightarrow> nat \<Rightarrow> u8 list list \<Rightarrow> wc_AsconAEAD128 list" where
  "make_ctxs heap mode keys =
     (if mode = 1 then map (\<lambda>i. keyed (heap i) (keys ! i)) [0..<length keys] else [keyed (heap 0) fixed_key])"

definition init_samples :: "(nat \<Rightarrow> wc_AsconAEAD128) \<Rightarrow> nat \<Rightarrow> (u8 \<times> u8 list \<times> u8 list) list \<Rightarrow> wc_AsconAEAD128 samples" where
  "init_samples heap mode ss = \<lparr>smp_order = [0..<length ss], smp_classes = map fst ss, smp_cts = map (fst \<circ> snd) ss,
     smp_ctxs = make_ctxs heap mode (map (snd \<circ> snd) ss)\<rparr>"

text \<open>The warm-up; the masks are not used.\<close>

fun warmup :: "nat \<Rightarrow> u64 \<Rightarrow> u64" where
  "warmup 0 xs = xs"
| "warmup (Suc k) xs = warmup k (fst (rand_bytes 16 xs))"

section \<open>Rounds\<close>

definition the_ctx :: "nat \<Rightarrow> 'c samples \<Rightarrow> nat \<Rightarrow> 'c" where
  "the_ctx mode s idx = (if mode = 1 then smp_ctxs s ! idx else smp_ctxs s ! 0)"

type_synonym tsc = "nat \<Rightarrow> (wc_AsconAEAD128 \<times> u8 list) option \<Rightarrow> u64"

text \<open>A timed call: the difference of two readings around \<open>wc_AsconAEAD128_Mask\<close>, and the mask.\<close>

definition timed_mask :: "tsc \<Rightarrow> nat \<Rightarrow> wc_AsconAEAD128 \<Rightarrow> u8 list \<Rightarrow> u64 \<times> u8 list" where
  "timed_mask rdtsc k a ct = (let
     s = rdtsc k None;
     mask = snd (wc_AsconAEAD128_Mask (Some a) (Some ct) PTR);
     e = rdtsc (k + 1) (Some (a, ct))
   in (e - s, mask))"

definition measure_round :: "tsc \<Rightarrow> nat \<Rightarrow> nat \<Rightarrow> nat \<Rightarrow> wc_AsconAEAD128 samples \<Rightarrow> u64 list" where
  "measure_round rdtsc k mode n s = map (\<lambda>idx. fst (timed_mask rdtsc (k + 2 * idx) (the_ctx mode s idx) (smp_cts s ! idx))) [0..<n]"

record 'f round_line =
  rl_round :: nat
  rl_t100 :: 'f
  rl_t99 :: 'f
  rl_t90 :: 'f
  rl_leak :: bool

definition f_abs :: "'f floats \<Rightarrow> 'f \<Rightarrow> 'f" where
  "f_abs F t = (if f_less F t (f_zero F) then f_neg F t else t)"

text \<open>The index \<open>(size_t)(N*0.99)\<close> is the exact one for the \<open>N\<close> of the file.\<close>

definition judge :: "'f floats \<Rightarrow> nat \<Rightarrow> nat \<Rightarrow> u64 list \<Rightarrow> u8 list \<Rightarrow> 'f round_line" where
  "judge F n r tms classes = (let
     srt = sort tms;
     thr100 = srt ! (n - 1); thr99 = srt ! (n * 99 div 100); thr90 = srt ! (n * 90 div 100);
     t100 = welch_t F tms classes (thr100 + 1);
     t99 = welch_t F tms classes thr99;
     t90 = welch_t F tms classes thr90;
     leak = (f_less F (f_limit F) (f_abs F t100) \<or> f_less F (f_limit F) (f_abs F t99) \<or> f_less F (f_limit F) (f_abs F t90))
   in \<lparr>rl_round = r, rl_t100 = t100, rl_t99 = t99, rl_t90 = t90, rl_leak = leak\<rparr>)"

text \<open>The loop over the rounds: generator, readings so far, lines printed, \<open>leak\<close>.\<close>

function test_rounds :: "'f floats \<Rightarrow> tsc \<Rightarrow> nat \<Rightarrow> nat \<Rightarrow> nat \<Rightarrow> bool \<Rightarrow> u64 \<Rightarrow> nat \<Rightarrow> wc_AsconAEAD128 samples
    \<Rightarrow> u64 \<times> nat \<times> 'f round_line list \<times> bool" where
  "test_rounds F rdtsc mode n r leak xs k s =
     (if r < ROUNDS then (let
        (xs, s) = shuffle mode (n - 1) xs s;
        tms = measure_round rdtsc k mode n s;
        line = judge F n r tms (smp_classes s);
        leak = (leak \<or> rl_leak line);
        k = k + 2 * n
      in if leak \<and> 2 \<le> r then (xs, k, [line], leak)
         else if mode = 2 \<and> 4 \<le> r then (xs, k, [line], leak)
         else (let (xs, k, lines, leak) = test_rounds F rdtsc mode n (r + 1) leak xs k s in (xs, k, line # lines, leak)))
      else (xs, k, [], leak))"
  by pat_completeness auto
termination
  by (relation "measure (\<lambda>(F, rdtsc, mode, n, r, leak, xs, k, s). ROUNDS - r)") auto

declare test_rounds.simps [simp del]

text \<open>
  \<open>run_test\<close>; \<open>mem1\<close> and \<open>mem2\<close> tell whether the two checked groups of allocations succeed.
  Its result is 1 for a leak and also when memory is short.
\<close>

definition run_test :: "'f floats \<Rightarrow> tsc \<Rightarrow> (nat \<Rightarrow> wc_AsconAEAD128) \<Rightarrow> bool \<Rightarrow> bool \<Rightarrow> nat \<Rightarrow> nat
    \<Rightarrow> u64 \<Rightarrow> nat \<Rightarrow> u64 \<times> nat \<times> 'f round_line list \<times> bool" where
  "run_test F rdtsc heap mem1 mem2 mode n xs k =
     (if \<not> mem1 then (xs, k, [], True)
      else let
        (xs, ss) = gen_samples mode n xs;
        s = init_samples heap mode ss;
        xs = warmup WARMUP xs
      in if \<not> mem2 then (xs, k, [], True)
         else test_rounds F rdtsc mode n 0 False xs k s)"

definition seed :: "u64 \<Rightarrow> u64" where
  "seed r = (let xs = XS_START XOR r; xs = xs XOR push_bit 13 xs in if xs = 0 then 0x9e3779b97f4a7c15 else xs)"

definition dudect_main :: "'f floats \<Rightarrow> tsc \<Rightarrow> (nat \<Rightarrow> nat \<Rightarrow> wc_AsconAEAD128) \<Rightarrow> (nat \<Rightarrow> bool \<times> bool)
    \<Rightarrow> (bool \<times> bool \<times> bool) \<times> string \<times> int" where
  "dudect_main F rdtsc heap mem = (let
     xs = seed (rdtsc 0 None);
     (xs, k, _, leakA) = run_test F rdtsc (heap 0) (fst (mem 0)) (snd (mem 0)) 0 N_SAMPLES xs 1;
     (xs, k, _, leakB) = run_test F rdtsc (heap 1) (fst (mem 1)) (snd (mem 1)) 1 N_SAMPLES xs k;
     (xs, k, _, leakC) = run_test F rdtsc (heap 2) (fst (mem 2)) (snd (mem 2)) 2 N_SAMPLES xs k
   in ((leakA, leakB, leakC),
       if \<not> leakA \<and> \<not> leakB \<and> \<not> leakC then ''OVERALL: PASS''
       else if \<not> leakA \<and> \<not> leakB then ''OVERALL: PASS (control LEAK)''
       else ''OVERALL: FAIL'',
       if leakA \<or> leakB then 2 else 0))"

section \<open>The samples of a test\<close>

definition key_of :: "wc_AsconAEAD128 \<Rightarrow> u8 list" where
  "key_of a = bytes_of_u64 (key0 a) @ bytes_of_u64 (key1 a)"

lemma keyed_key:
  assumes "length key = 16"
  shows "keySet (keyed g key)" and "key_of (keyed g key) = key"
proof -
  have "bytes_of_u64 (u64_of_bytes (read_at 0 8 key)) @ bytes_of_u64 (u64_of_bytes (read_at 8 8 key)) = key"
    using assms take_add [of 8 8 key] by (simp add: bytes_of_u64_of_bytes) (simp add: read_at_def)
  then show "keySet (keyed g key)" and "key_of (keyed g key) = key"
    by (simp_all add: keyed_def key_of_def wc_AsconAEAD128_Init_def wc_AsconAEAD128_SetKey_def zero_aead_def Let_def)
qed

lemma length_fixed [simp]: "length fixed_ct = 16" "length fixed_key = 16"
  by (simp_all add: fixed_ct_def fixed_key_def)

lemma length_rand_bytes [simp]: "length (snd (rand_bytes n xs)) = n"
  by (induction n arbitrary: xs) (simp_all add: Let_def case_prod_unfold)

text \<open>What the generator makes: class, ciphertext and key.\<close>

definition sample_ok :: "nat \<Rightarrow> u8 \<Rightarrow> u8 list \<Rightarrow> u8 list \<Rightarrow> bool" where
  "sample_ok mode c ct key \<longleftrightarrow> length ct = 16 \<and> length key = 16
    \<and> (mode = 1 \<longrightarrow> ct = fixed_ct) \<and> (mode \<noteq> 1 \<longrightarrow> key = fixed_key)
    \<and> (mode < 2 \<and> c = 0 \<longrightarrow> ct = fixed_ct \<and> key = fixed_key)"

lemma gen_sample_ok:
  "gen_sample mode xs = (xs', c, ct, key) \<Longrightarrow> sample_ok mode c ct key"
proof -
  assume g: "gen_sample mode xs = (xs', c, ct, key)"
  have "length (snd (rand_bytes 16 (xorshift64 xs))) = 16" by simp
  then show ?thesis
    using g by (cases "rand_bytes 16 (xorshift64 xs)") (auto simp: gen_sample_def sample_ok_def Let_def split: if_splits)
qed

lemma gen_samples_ok:
  "gen_samples mode n xs = (xs', ss) \<Longrightarrow> length ss = n \<and> (\<forall>(c, ct, key) \<in> set ss. sample_ok mode c ct key)"
proof (induction n arbitrary: xs xs' ss)
  case 0
  then show ?case by simp
next
  case (Suc n)
  obtain ys c ct key where g: "gen_sample mode xs = (ys, c, ct, key)" by (metis prod_cases4)
  obtain zs ss' where r: "gen_samples mode n ys = (zs, ss')" by (cases "gen_samples mode n ys")
  have "ss = (c, ct, key) # ss'" using Suc.prems by (simp add: g r)
  then show ?case using Suc.IH [OF r] gen_sample_ok [OF g] by simp
qed

text \<open>
  The specification: a test has one list of samples, each its class next to the ciphertext
  and the context that is called with it. Before round \<open>r\<close> it has been shuffled \<open>r + 1\<close> times.
\<close>

type_synonym sample = "u8 \<times> u8 list \<times> wc_AsconAEAD128"

definition test_samples :: "(nat \<Rightarrow> wc_AsconAEAD128) \<Rightarrow> nat \<Rightarrow> nat \<Rightarrow> u64 \<Rightarrow> sample list" where
  "test_samples heap mode n xs = (let ss = snd (gen_samples mode n xs) in
     map (\<lambda>i. case ss ! i of (c, ct, key) \<Rightarrow> (c, ct, if mode = 1 then keyed (heap i) key else keyed (heap 0) fixed_key)) [0..<n])"

fun round_samples :: "nat \<Rightarrow> u64 \<Rightarrow> sample list \<Rightarrow> nat \<Rightarrow> u64 \<times> sample list" where
  "round_samples n xs l 0 = fisher_yates (n - 1) xs l"
| "round_samples n xs l (Suc r) = (case round_samples n xs l r of (xs, l) \<Rightarrow> fisher_yates (n - 1) xs l)"

definition sample_time :: "tsc \<Rightarrow> nat \<Rightarrow> sample \<Rightarrow> u64" where
  "sample_time rdtsc k smp = (case smp of (c, ct, a) \<Rightarrow> rdtsc (k + 1) (Some (a, ct)) - rdtsc k None)"

definition round_verdict :: "'f floats \<Rightarrow> tsc \<Rightarrow> nat \<Rightarrow> nat \<Rightarrow> nat \<Rightarrow> sample list \<Rightarrow> 'f round_line" where
  "round_verdict F rdtsc n k r l =
     judge F n r (map (\<lambda>idx. sample_time rdtsc (k + 2 * idx) (l ! idx)) [0..<n]) (map fst l)"

lemma length_fisher_yates [simp]: "length (snd (fisher_yates i xs l)) = length l"
  by (induction i arbitrary: xs l) simp_all

lemma round_samples_Suc: "round_samples n xs l (Suc r) = (case fisher_yates (n - 1) xs l of (ys, m) \<Rightarrow> round_samples n ys m r)"
  by (induction r) (simp_all split: prod.split)

lemma round_samples_mset:
  assumes "length l = n" and "0 < n" and "n \<le> 2 ^ 63"
  shows "mset (snd (round_samples n xs l r)) = mset l"
proof -
  have fy: "mset (snd (fisher_yates (n - 1) ys m)) = mset m" if "length m = n" for ys m
    using that assms(2,3) by (intro fisher_yates_mset) simp_all
  show ?thesis
  proof (induction r)
    case 0
    then show ?case using fy assms(1) by simp
  next
    case (Suc r)
    then have "length (snd (round_samples n xs l r)) = n" using assms(1) by (metis size_mset)
    with Suc show ?case by (simp add: fy case_prod_unfold del: One_nat_def)
  qed
qed

lemma test_samples_ok:
  "\<forall>(c, ct, a) \<in> set (test_samples heap mode n xs). keySet a \<and> sample_ok mode c ct (key_of a)"
proof
  fix x
  assume "x \<in> set (test_samples heap mode n xs)"
  then obtain i where i: "i < n" "x = (case snd (gen_samples mode n xs) ! i of (c, ct, key) \<Rightarrow>
      (c, ct, if mode = 1 then keyed (heap i) key else keyed (heap 0) fixed_key))"
    by (auto simp: test_samples_def)
  have gen: "gen_samples mode n xs = (fst (gen_samples mode n xs), snd (gen_samples mode n xs))" by simp
  obtain c ct key where smp: "snd (gen_samples mode n xs) ! i = (c, ct, key)" by (metis prod_cases3)
  have "sample_ok mode c ct key"
    using gen_samples_ok [OF gen] i(1) smp nth_mem [of i "snd (gen_samples mode n xs)"] by auto
  then show "case x of (c, ct, a) \<Rightarrow> keySet a \<and> sample_ok mode c ct (key_of a)"
    by (auto simp: i(2) smp sample_ok_def keyed_key)
qed

section \<open>The arrays hold the samples\<close>

text \<open>The arrays read side by side, and when they can be.\<close>

definition sample_list :: "nat \<Rightarrow> 'c samples \<Rightarrow> (u8 \<times> u8 list \<times> 'c) list" where
  "sample_list mode s = map (\<lambda>idx. (smp_classes s ! idx, smp_cts s ! idx, the_ctx mode s idx)) [0..<length (smp_classes s)]"

definition arrays_ok :: "nat \<Rightarrow> nat \<Rightarrow> 'c samples \<Rightarrow> bool" where
  "arrays_ok mode n s \<longleftrightarrow> aligned s n \<and> (mode = 1 \<longrightarrow> length (smp_ctxs s) = n)"

lemma sample_list_parts:
  assumes "arrays_ok mode n s"
  shows "length (sample_list mode s) = n" and "map fst (sample_list mode s) = smp_classes s"
    and "idx < n \<Longrightarrow> sample_list mode s ! idx = (smp_classes s ! idx, smp_cts s ! idx, the_ctx mode s idx)"
  using assms map_nth [of "smp_classes s"] by (simp_all add: sample_list_def arrays_ok_def aligned_def o_def)

lemma init_samples_list:
  "arrays_ok mode n (init_samples heap mode (snd (gen_samples mode n xs)))
   \<and> sample_list mode (init_samples heap mode (snd (gen_samples mode n xs))) = test_samples heap mode n xs"
proof -
  have "length (snd (gen_samples mode n xs)) = n"
    using gen_samples_ok [of mode n xs "fst (gen_samples mode n xs)" "snd (gen_samples mode n xs)"] by simp
  then show ?thesis
    by (auto simp: arrays_ok_def aligned_def init_samples_def make_ctxs_def sample_list_def test_samples_def the_ctx_def
        case_prod_unfold Let_def)
qed

text \<open>Every swap of the shuffle swaps whole samples.\<close>

lemma shuffle_fisher_yates:
  assumes "arrays_ok mode n s" and "i < n" and "i < 2 ^ 63"
  shows "arrays_ok mode n (snd (shuffle mode i xs s))
    \<and> fisher_yates i xs (sample_list mode s) = (fst (shuffle mode i xs s), sample_list mode (snd (shuffle mode i xs s)))"
  using assms
proof (induction i arbitrary: xs s)
  case 0
  then show ?case by simp
next
  case (Suc i)
  let ?j = "unat (xorshift64 xs mod of_nat (Suc i + 1))"
  define t where "t = (let s = s\<lparr>smp_order := swap_at (Suc i) ?j (smp_order s), smp_classes := swap_at (Suc i) ?j (smp_classes s),
      smp_cts := swap_at (Suc i) ?j (smp_cts s)\<rparr> in if mode = 1 then s\<lparr>smp_ctxs := swap_at (Suc i) ?j (smp_ctxs s)\<rparr> else s)"
  have "?j \<le> Suc i" using Suc.prems(3) by (intro shuffle_index) simp
  then have j: "?j < n" using Suc.prems(2) by simp
  have t: "arrays_ok mode n t" using Suc.prems(1) by (simp add: t_def arrays_ok_def aligned_def Let_def)
  have "sample_list mode t = swap_at (Suc i) ?j (sample_list mode s)"
  proof (rule nth_equalityI)
    show "length (sample_list mode t) = length (swap_at (Suc i) ?j (sample_list mode s))"
      using sample_list_parts(1) [OF t] sample_list_parts(1) [OF Suc.prems(1)] by simp
    fix k
    assume "k < length (sample_list mode t)"
    then have k: "k < n" using sample_list_parts(1) [OF t] by simp
    have len: "length (smp_classes s) = n" "length (smp_cts s) = n" "mode = 1 \<longrightarrow> length (smp_ctxs s) = n"
      using Suc.prems(1) by (simp_all add: arrays_ok_def aligned_def)
    then have "smp_classes t ! k = smp_classes s ! (if k = ?j then Suc i else if k = Suc i then ?j else k)"
      "smp_cts t ! k = smp_cts s ! (if k = ?j then Suc i else if k = Suc i then ?j else k)"
      "the_ctx mode t k = the_ctx mode s (if k = ?j then Suc i else if k = Suc i then ?j else k)"
      using k j Suc.prems(2) by (auto simp: t_def the_ctx_def nth_swap_at Let_def)
    moreover have "(if k = ?j then Suc i else if k = Suc i then ?j else k) < n" using k j Suc.prems(2) by simp
    ultimately show "sample_list mode t ! k = swap_at (Suc i) ?j (sample_list mode s) ! k"
      using k j Suc.prems(2) sample_list_parts(1) [OF Suc.prems(1)]
      by (simp only: sample_list_parts(3) [OF t] sample_list_parts(3) [OF Suc.prems(1)] nth_swap_at)
  qed
  moreover have "shuffle mode (Suc i) xs s = shuffle mode i (xorshift64 xs) t"
    by (simp only: shuffle.simps t_def Let_def)
  ultimately show ?case
    using Suc.IH [OF t, of "xorshift64 xs"] Suc.prems(2,3) by (simp only: fisher_yates.simps)
qed

text \<open>A round measures its samples, class next to time.\<close>

lemma measure_round_list:
  assumes "arrays_ok mode n s"
  shows "judge F n r (measure_round rdtsc k mode n s) (smp_classes s) = round_verdict F rdtsc n k r (sample_list mode s)"
proof -
  have "measure_round rdtsc k mode n s = map (\<lambda>idx. sample_time rdtsc (k + 2 * idx) (sample_list mode s ! idx)) [0..<n]"
    by (simp add: measure_round_def sample_list_parts(3) [OF assms] sample_time_def timed_mask_def Let_def)
  then show ?thesis by (simp add: round_verdict_def sample_list_parts(2) [OF assms])
qed

lemma rl_round_verdict [simp]: "rl_round (round_verdict F rdtsc n k r l) = r"
  by (simp add: round_verdict_def judge_def Let_def)

section \<open>The rounds\<close>

text \<open>
  The lines of a test are the verdicts on its samples in the order of each round; it stops
  with the first leak from round 2 on, and the control test after round 4.
\<close>

lemma test_rounds_lines:
  assumes "arrays_ok mode n s" and "0 < n" and "n \<le> 2 ^ 63" and "r \<le> (if mode = 2 then 4 else 8)"
    and "test_rounds F rdtsc mode n r leak xs k s = (xs', k', lines, leak')"
  shows "(\<forall>i < length lines. lines ! i
      = round_verdict F rdtsc n (k + 2 * n * i) (r + i) (snd (round_samples n xs (sample_list mode s) i)))
    \<and> (leak' \<longleftrightarrow> leak \<or> (\<exists>line \<in> set lines. rl_leak line))
    \<and> r + length lines \<le> (if mode = 2 then 5 else 8) \<and> 3 \<le> r + length lines
    \<and> (\<not> leak' \<longrightarrow> r + length lines = (if mode = 2 then 5 else 8)) \<and> k' = k + 2 * n * length lines"
  using assms(1,4,5)
proof (induction "ROUNDS - r" arbitrary: r leak xs k s lines xs' k' leak')
  case 0
  then have "\<not> r < ROUNDS" by simp
  with 0 show ?case by (simp add: test_rounds.simps ROUNDS_def split: if_splits)
next
  case (Suc d)
  then have r: "r < ROUNDS" "r < 8" by (simp_all add: ROUNDS_def)
  obtain ys t where sh: "shuffle mode (n - 1) xs s = (ys, t)" by (cases "shuffle mode (n - 1) xs s")
  have t: "arrays_ok mode n t" and fy: "fisher_yates (n - 1) xs (sample_list mode s) = (ys, sample_list mode t)"
    using shuffle_fisher_yates [OF Suc.prems(1), of "n - 1" xs] assms(2,3) by (simp_all add: sh del: One_nat_def)
  define line where "line = judge F n r (measure_round rdtsc k mode n t) (smp_classes t)"
  have line: "line = round_verdict F rdtsc n k r (snd (round_samples n xs (sample_list mode s) 0))"
    by (simp only: line_def measure_round_list [OF t] round_samples.simps fy snd_conv)
  let ?leak = "leak \<or> rl_leak line"
  show ?case
  proof (cases "?leak \<and> 2 \<le> r \<or> mode = 2 \<and> 4 \<le> r")
    case True
    then have "lines = [line]" "leak' = ?leak" "k' = k + 2 * n"
      using Suc.prems(3) r by (auto simp: test_rounds.simps [of F rdtsc mode n r] sh line_def Let_def simp del: One_nat_def split: if_splits)
    with line r True Suc.prems(2) show ?thesis by (auto simp del: One_nat_def round_samples.simps split: if_splits)
  next
    case False
    obtain zs l ls b where rest: "test_rounds F rdtsc mode n (r + 1) ?leak ys (k + 2 * n) t = (zs, l, ls, b)"
      by (metis prod_cases4)
    have res: "lines = line # ls" "leak' = b" "k' = l"
      using Suc.prems(3) r False rest by (auto simp: test_rounds.simps [of F rdtsc mode n r] sh line_def Let_def simp del: One_nat_def split: if_splits)
    have "d = ROUNDS - (r + 1)" using Suc.hyps(2) by simp
    moreover have "r + 1 \<le> (if mode = 2 then 4 else 8)" using False Suc.prems(2) r by (simp split: if_splits)
    ultimately have IH: "(\<forall>i < length ls. ls ! i
        = round_verdict F rdtsc n (k + 2 * n + 2 * n * i) (r + 1 + i) (snd (round_samples n ys (sample_list mode t) i)))
      \<and> (b \<longleftrightarrow> ?leak \<or> (\<exists>line \<in> set ls. rl_leak line))
      \<and> r + 1 + length ls \<le> (if mode = 2 then 5 else 8) \<and> 3 \<le> r + 1 + length ls
      \<and> (\<not> b \<longrightarrow> r + 1 + length ls = (if mode = 2 then 5 else 8)) \<and> l = k + 2 * n + 2 * n * length ls"
      by (rule Suc.hyps(1) [OF _ t _ rest])
    have "lines ! i = round_verdict F rdtsc n (k + 2 * n * i) (r + i) (snd (round_samples n xs (sample_list mode s) i))"
      if "i < length lines" for i
    proof (cases i)
      case 0
      then show ?thesis using line res by simp
    next
      case (Suc m)
      have "round_samples n xs (sample_list mode s) (Suc m) = round_samples n ys (sample_list mode t) m"
        by (simp only: round_samples_Suc fy prod.case)
      moreover have "k + 2 * n * Suc m = k + 2 * n + 2 * n * m" "r + Suc m = r + 1 + m" by simp_all
      moreover have "lines ! Suc m = ls ! m" "m < length ls" using res Suc that by simp_all
      ultimately show ?thesis using IH Suc by (simp only:)
    qed
    moreover have "leak' \<longleftrightarrow> leak \<or> (\<exists>line \<in> set lines. rl_leak line)" using IH res by auto
    moreover have len: "r + length lines = r + 1 + length ls" using res by simp
    have "r + length lines \<le> (if mode = 2 then 5 else 8) \<and> 3 \<le> r + length lines
      \<and> (\<not> leak' \<longrightarrow> r + length lines = (if mode = 2 then 5 else 8))"
      unfolding len res(2) using IH by blast
    moreover have "k' = k + 2 * n * length lines" using IH res by (simp add: algebra_simps)
    ultimately show ?thesis by blast
  qed
qed

lemma run_test_lines:
  assumes "0 < n" and "n \<le> 2 ^ 63" and "run_test F rdtsc heap True True mode n xs k = (xs', k', lines, leak)"
  shows "(\<forall>r < length lines. lines ! r = round_verdict F rdtsc n (k + 2 * n * r) r
        (snd (round_samples n (warmup WARMUP (fst (gen_samples mode n xs))) (test_samples heap mode n xs) r)))
    \<and> (leak \<longleftrightarrow> (\<exists>line \<in> set lines. rl_leak line))
    \<and> length lines \<le> (if mode = 2 then 5 else 8) \<and> 3 \<le> length lines
    \<and> (\<not> leak \<longrightarrow> length lines = (if mode = 2 then 5 else 8)) \<and> k' = k + 2 * n * length lines"
proof -
  obtain ys ss where g: "gen_samples mode n xs = (ys, ss)" by (cases "gen_samples mode n xs")
  have init: "arrays_ok mode n (init_samples heap mode ss)" "sample_list mode (init_samples heap mode ss) = test_samples heap mode n xs"
    using init_samples_list [of mode n heap xs] by (simp_all add: g)
  have "test_rounds F rdtsc mode n 0 False (warmup WARMUP ys) k (init_samples heap mode ss) = (xs', k', lines, leak)"
    using assms(3) by (simp add: run_test_def g)
  from test_rounds_lines [OF init(1) assms(1,2) _ this] show ?thesis by (simp add: init(2) g split: if_splits)
qed

text \<open>Every call on a sample succeeds, and class 0 always computes the same mask.\<close>

lemma mask_of_key:
  assumes "keySet a" and "length ct = 16"
  shows "wc_AsconAEAD128_Mask (Some a) (Some ct) PTR = mask_prf_derive (Some (key_of a)) (Some ct) PTR MASK_PRF_DOMSEP_RNDIMSK"
  using assms by (simp add: wc_AsconAEAD128_Mask_def key_of_def mask_prf_domsep_table_def)

lemma test_samples_masks:
  assumes "(c, ct, a) \<in> set (test_samples heap mode n xs)"
  shows "wc_AsconAEAD128_Mask (Some a) (Some ct) PTR = mask_prf_derive (Some (key_of a)) (Some ct) PTR MASK_PRF_DOMSEP_RNDIMSK"
    and "fst (wc_AsconAEAD128_Mask (Some a) (Some ct) PTR) = WC_OK"
    and "sample_ok mode c ct (key_of a)"
proof -
  have ok: "keySet a" "sample_ok mode c ct (key_of a)" using test_samples_ok assms by fastforce+
  then have "length ct = 16" by (simp add: sample_ok_def)
  from mask_of_key [OF ok(1) this] show m: "wc_AsconAEAD128_Mask (Some a) (Some ct) PTR = mask_prf_derive (Some (key_of a)) (Some ct) PTR MASK_PRF_DOMSEP_RNDIMSK" .
  show "fst (wc_AsconAEAD128_Mask (Some a) (Some ct) PTR) = WC_OK" by (simp add: m mask_prf_derive_def Let_def)
  show "sample_ok mode c ct (key_of a)" by (rule ok(2))
qed

end
