(* ===== verification/Bench_Main.thy ===== *)
theory Bench_Main
  imports Dudect_Stats Record_Kat
begin

text \<open>
  The benchmark program on the device: \<open>record_bench\<close> of \<open>evaluation/renode/bench_record.c\<close>,
  \<open>main\<close> and \<open>bench_current_time\<close> of \<open>evaluation/renode/bench_main.c\<close>, the counters of
  \<open>evaluation/common/hal.h\<close> and the probe \<open>evaluation/renode/probe/hello.c\<close>. The counter
  is a function from the number of the reading (\<open>clk\<close>), \<open>dwt\<close> tells the build with the DWT
  counter from the one with SysTick, \<open>mem\<close> is the content of an uninitialised local context, and
  \<open>shr\<close> is what the machine makes of a shift by 32 or more, which C leaves undefined.
\<close>

section \<open>Devices\<close>

record regs =
  DEMCR :: u32
  DWT_CTRL :: u32
  DWT_CYCCNT :: u32
  SYST_CSR :: u32
  SYST_RVR :: u32
  SYST_CVR :: u32

definition HAL_DEMCR_TRCENA :: u32 where "HAL_DEMCR_TRCENA = push_bit 24 1"
definition HAL_DWT_CTRL_CYCCNTENA :: u32 where "HAL_DWT_CTRL_CYCCNTENA = push_bit 0 1"
definition HAL_SYST_CTRL_ENABLE_CLK :: u32 where "HAL_SYST_CTRL_ENABLE_CLK = 5"
definition HAL_SYST_CTRL_COUNTFLAG :: u32 where "HAL_SYST_CTRL_COUNTFLAG = push_bit 16 1"

definition hal_dwt_enable :: "regs \<Rightarrow> regs" where
  "hal_dwt_enable r = (let
     r = r\<lparr>DEMCR := DEMCR r OR HAL_DEMCR_TRCENA\<rparr>;
     r = r\<lparr>DWT_CYCCNT := 0\<rparr>
   in r\<lparr>DWT_CTRL := DWT_CTRL r OR HAL_DWT_CTRL_CYCCNTENA\<rparr>)"

definition hal_systick_enable :: "regs \<Rightarrow> regs" where
  "hal_systick_enable r = (let
     r = r\<lparr>SYST_RVR := 0x00FFFFFF\<rparr>;
     r = r\<lparr>SYST_CVR := 0\<rparr>
   in r\<lparr>SYST_CSR := HAL_SYST_CTRL_ENABLE_CLK\<rparr>)"

definition hal_enable :: "bool \<Rightarrow> regs \<Rightarrow> regs" where
  "hal_enable dwt r = (if dwt then hal_dwt_enable r else hal_systick_enable r)"

definition hal_now :: "bool \<Rightarrow> regs \<Rightarrow> u32" where
  "hal_now dwt r = (if dwt then DWT_CYCCNT r else SYST_CVR r)"

definition hal_elapsed :: "bool \<Rightarrow> u32 \<Rightarrow> u32 \<Rightarrow> u32" where
  "hal_elapsed dwt s e = (if dwt then e - s else (s - e) AND 0x00FFFFFF)"

lemma hal_elapsed_cases: "hal_elapsed True = hal_elapsed_dwt" "hal_elapsed False = hal_elapsed_systick"
  by (simp_all add: fun_eq_iff hal_elapsed_def hal_elapsed_dwt_def hal_elapsed_systick_def)

section \<open>The clock of the benchmark library\<close>

record bench_clock =
  s_wraps :: u32
  s_start :: u32
  dwt_start :: u32

text \<open>
  A call of \<open>bench_current_time\<close> sees the registers as they are then; what it reads from
  \<open>SYST_CSR\<close> includes the flag that the counter reached 0 since the last reading.
\<close>

definition bench_current_time :: "'f floats \<Rightarrow> bool \<Rightarrow> bool \<Rightarrow> regs \<Rightarrow> bench_clock \<Rightarrow> bench_clock \<times> regs \<times> 'f" where
  "bench_current_time F dwt reset r c =
     (if dwt then
        (if reset then (let r = hal_enable dwt r in (c\<lparr>dwt_start := hal_now dwt r\<rparr>, r, f_zero F))
         else (c, r, f_div F (f_of_u64 F (ucast (hal_elapsed dwt (dwt_start c) (hal_now dwt r)))) (f_of_size F 32000000)))
      else
        (if reset then (c\<lparr>s_wraps := 0, s_start := SYST_CVR r\<rparr>, r, f_zero F)
         else let
           c = (if SYST_CSR r AND HAL_SYST_CTRL_COUNTFLAG \<noteq> 0 then c\<lparr>s_wraps := s_wraps c + 1\<rparr> else c);
           elapsed = (s_start c - SYST_CVR r) AND 0x00FFFFFF
         in (c, r\<lparr>SYST_CSR := SYST_CSR r AND NOT HAL_SYST_CTRL_COUNTFLAG\<rparr>,
             f_div F (f_add F (f_mul F (f_of_u64 F (ucast (s_wraps c))) (f_of_size F 0x1000000)) (f_of_u64 F (ucast elapsed)))
               (f_of_size F 32000000))))"

text \<open>The registers \<open>d\<close> ticks later: SysTick counts down, and at 0 it sets the flag.\<close>

definition ticks_to_zero :: "u32 \<Rightarrow> nat" where
  "ticks_to_zero s = (if s = 0 then 2 ^ 24 else unat s)"

definition systick_run :: "nat \<Rightarrow> regs \<Rightarrow> regs" where
  "systick_run d r = r\<lparr>SYST_CVR := systick_after (SYST_CVR r) d,
     SYST_CSR := (if ticks_to_zero (SYST_CVR r) \<le> d then SYST_CSR r OR HAL_SYST_CTRL_COUNTFLAG else SYST_CSR r)\<rparr>"

lemma countflag:
  "x AND HAL_SYST_CTRL_COUNTFLAG \<noteq> 0 \<longleftrightarrow> bit (x :: u32) 16"
  "bit (x OR HAL_SYST_CTRL_COUNTFLAG :: u32) 16"
  by (simp_all add: HAL_SYST_CTRL_COUNTFLAG_def and_exp_eq_0_iff_not_bit bit_simps push_bit_eq_mult flip: power_numeral)

text \<open>
  A time span of less than one period of the counter, measured with one reset and one
  reading: it comes out one whole period too long if the counter passed 0 in between.
\<close>

lemma unat_widen: "unat (ucast (x :: u32) :: u64) = unat x"
proof -
  have "unat x < 2 ^ 32" using unsigned_less [of x] by simp
  then have "unat x < 2 ^ 64" by simp
  then show ?thesis by (simp add: unsigned_ucast_eq take_bit_nat_eq_self)
qed

lemma clock_reading:
  assumes "unat (SYST_CVR r) < 2 ^ 24" and "\<not> bit (SYST_CSR r) 16" and "d < 2 ^ 24"
    and "bench_current_time exact_floats False True r c = (c', r', t)"
  shows "snd (snd (bench_current_time exact_floats False False (systick_run d r') c'))
    = real (d + (if ticks_to_zero (SYST_CVR r) \<le> d then 2 ^ 24 else 0)) / 32000000"
proof -
  have c: "c' = c\<lparr>s_wraps := 0, s_start := SYST_CVR r\<rparr>" "r' = r" using assms(4) by (auto simp: bench_current_time_def)
  have e: "unat ((SYST_CVR r - systick_after (SYST_CVR r) d) AND 0x00FFFFFF) = d"
    using hal_elapsed_systick_after [OF assms(1,3)] by (simp add: hal_elapsed_systick_def)
  have flag: "SYST_CSR (systick_run d r) AND HAL_SYST_CTRL_COUNTFLAG \<noteq> 0 \<longleftrightarrow> ticks_to_zero (SYST_CVR r) \<le> d"
    using assms(2) by (simp add: systick_run_def countflag)
  have wide: "unat (ucast (x :: u32) :: u64) = unat x" for x by (rule unat_widen)
  show ?thesis
    using arg_cong [OF e, of real]
    by (simp add: bench_current_time_def c flag Let_def wide) (simp add: systick_run_def)
qed

section \<open>The record benchmark\<close>

definition REC_PT_SZ :: nat where [simp]: "REC_PT_SZ = 32"
definition REC_ITERS :: nat where "REC_ITERS = 3000"
definition REC_MASK_ITERS :: nat where "REC_MASK_ITERS = 3000"

definition trafficKey :: "u8 list" where
  "trafficKey = [0x01, 0x02, 0x03, 0x04, 0x05, 0x06, 0x07, 0x08, 0x09, 0x0a, 0x0b, 0x0c, 0x0d, 0x0e, 0x0f, 0x10]"

definition snKey :: "u8 list" where
  "snKey = [0xa1, 0xa2, 0xa3, 0xa4, 0xa5, 0xa6, 0xa7, 0xa8, 0xa9, 0xaa, 0xab, 0xac, 0xad, 0xae, 0xaf, 0xb0]"

definition rec_aad :: "u8 list" where
  "rec_aad = [0x00, 0x01, 0x02, 0x03, 0x04, 0x05, 0x06, 0x07, 0x08, 0x09, 0x0a, 0x0b, 0x0c]"

definition rec_nonce :: "(u32 \<Rightarrow> nat \<Rightarrow> u32) \<Rightarrow> u32 \<Rightarrow> u8 list" where
  "rec_nonce shr sq = (let
     g_nonce = map of_nat [0..<8];
     g_seq = map (\<lambda>i. ucast (case shift_right32 sq (8 * i) of None \<Rightarrow> shr sq (8 * i) | Some x \<Rightarrow> x)) [0..<8]
   in g_nonce @ g_seq)"

text \<open>The calls before the data; the return codes are not looked at.\<close>

definition rec_setup :: "wc_misc \<Rightarrow> wc_AsconAEAD128 \<Rightarrow> u8 list \<Rightarrow> wc_AsconAEAD128 option" where
  "rec_setup M g nonce = (let
     a = snd (wc_AsconAEAD128_Init (Some g));
     a = snd (wc_AsconAEAD128_SetKey a (Some trafficKey));
     a = snd (wc_AsconAEAD128_SetNonce a (Some nonce));
     a = snd (wc_AsconAEAD128_SetAD M a (Some rec_aad) (length rec_aad))
   in a)"

definition rec_encrypt :: "wc_misc \<Rightarrow> wc_AsconAEAD128 \<Rightarrow> u8 list \<Rightarrow> u8 list \<Rightarrow> u8 list \<times> u8 list \<Rightarrow> u8 list \<times> u8 list" where
  "rec_encrypt M g nonce pt = (\<lambda>(ct, tag). let
     a = rec_setup M g nonce;
     (_, a, out) = wc_AsconAEAD128_EncryptUpdate M a (Some pt) REC_PT_SZ;
     (_, a, out2) = wc_AsconAEAD128_EncryptFinal a PTR
   in (write_at 0 out ct, write_at 0 out2 tag))"

definition rec_decrypt :: "wc_misc \<Rightarrow> wc_AsconAEAD128 \<Rightarrow> u8 list \<Rightarrow> u8 list \<Rightarrow> u8 list \<Rightarrow> u8 list \<Rightarrow> u8 list \<times> wc_ret" where
  "rec_decrypt M g nonce ct tag pt = (let
     a = rec_setup M g nonce;
     (_, a, out) = wc_AsconAEAD128_DecryptUpdate M a (Some ct) REC_PT_SZ;
     (ret, a) = wc_AsconAEAD128_DecryptFinal M a (Some tag)
   in (write_at 0 out pt, ret))"

text \<open>
  The macros \<open>REC_START\<close> and \<open>REC_END_ADD\<close>: the build with the DWT counter takes
  \<open>hal_elapsed\<close>, the other one computes on the SysTick register itself.
\<close>

definition rec_elapsed :: "bool \<Rightarrow> u32 \<Rightarrow> u32 \<Rightarrow> u32" where
  "rec_elapsed dwt s e = (if dwt then hal_elapsed True s e else (s - e) AND 0x00FFFFFF)"

text \<open>The three loops over \<open>i\<close>; \<open>k\<close> is the number of readings so far.\<close>

fun enc_loop :: "wc_misc \<Rightarrow> (u32 \<Rightarrow> nat \<Rightarrow> u32) \<Rightarrow> (nat \<Rightarrow> wc_AsconAEAD128) \<Rightarrow> (nat \<Rightarrow> u32) \<Rightarrow> bool \<Rightarrow> u8 list
    \<Rightarrow> nat list \<Rightarrow> nat \<Rightarrow> (u8 list \<times> u8 list) \<times> u64 \<Rightarrow> (u8 list \<times> u8 list) \<times> u64" where
  "enc_loop M shr mem clk dwt pt [] k s = s"
| "enc_loop M shr mem clk dwt pt (i # is) k (s, cyc) = (let
     t0 = clk k;
     s = rec_encrypt M (mem i) (rec_nonce shr (of_nat i)) pt s;
     cyc = cyc + ucast (rec_elapsed dwt t0 (clk (k + 1)))
   in enc_loop M shr mem clk dwt pt is (k + 2) (s, cyc))"

fun dec_loop :: "wc_misc \<Rightarrow> (u32 \<Rightarrow> nat \<Rightarrow> u32) \<Rightarrow> (nat \<Rightarrow> wc_AsconAEAD128) \<Rightarrow> (nat \<Rightarrow> u32) \<Rightarrow> bool \<Rightarrow> u8 list
    \<Rightarrow> u8 list \<Rightarrow> nat list \<Rightarrow> nat \<Rightarrow> u8 list \<times> int \<times> u64 \<Rightarrow> u8 list \<times> int \<times> u64" where
  "dec_loop M shr mem clk dwt ct tag [] k s = s"
| "dec_loop M shr mem clk dwt ct tag (i # is) k (pt, dropCount, cyc) = (let
     t0 = clk k;
     (pt, ret) = rec_decrypt M (mem i) (rec_nonce shr (of_nat i)) ct tag pt;
     dropCount = (if ret \<noteq> WC_OK then (if 1000 < dropCount + 1 then 0 else dropCount + 1) else dropCount);
     cyc = cyc + ucast (rec_elapsed dwt t0 (clk (k + 1)))
   in dec_loop M shr mem clk dwt ct tag is (k + 2) (pt, dropCount, cyc))"

fun mask_loop :: "(nat \<Rightarrow> wc_AsconAEAD128) \<Rightarrow> (nat \<Rightarrow> u32) \<Rightarrow> bool \<Rightarrow> nat list \<Rightarrow> nat \<Rightarrow> u8 list \<times> u64 \<Rightarrow> u8 list \<times> u64" where
  "mask_loop mem clk dwt [] k s = s"
| "mask_loop mem clk dwt (i # is) k (msk, cyc) = (let
     ct = replicate REC_PT_SZ (of_nat i);
     t0 = clk k;
     a = snd (wc_AsconAEAD128_Init (Some (mem i)));
     a = snd (wc_AsconAEAD128_SetKey a (Some snKey));
     msk = write_at 0 (snd (wc_AsconAEAD128_Mask a (Some ct) PTR)) msk;
     cyc = cyc + ucast (rec_elapsed dwt t0 (clk (k + 1)))
   in mask_loop mem clk dwt is (k + 2) (msk, cyc))"

lemma length_rec [simp]: "length trafficKey = 16" "length snKey = 16" "length rec_aad = 13" "length (rec_nonce shr sq) = 16"
  by (simp_all add: trafficKey_def snKey_def rec_aad_def rec_nonce_def Let_def)

lemma rec_setup_eq: "aead_setup M g trafficKey nonce rec_aad = Inr a \<Longrightarrow> rec_setup M g nonce = a"
  by (auto simp: aead_setup_def rec_setup_def wc_try_Inr)

lemma write_at_all: "length bs = length xs \<Longrightarrow> write_at 0 bs xs = bs"
  by (simp add: write_at_def)

lemma rec_encrypt_seal:
  assumes "misc_ok M" and "length nonce = 16" and "length pt = 32" and "length ct = 32" and "length tag = 16"
  shows "rec_encrypt M g nonce pt (ct, tag) = aead_seal trafficKey nonce rec_aad pt"
proof -
  obtain c t where seal: "aead_seal trafficKey nonce rec_aad pt = (c, t)" by fastforce
  then have len: "length c = 32" "length t = 16" using aead_seal_length [OF seal] assms(3) by simp_all
  have "encrypt_calls M g trafficKey nonce rec_aad [pt] = Inr (c, t)"
    using encrypt_calls_seal [OF assms(1) _ assms(2), of trafficKey "[pt]" g rec_aad] seal by simp
  then obtain a b b' where "aead_setup M g trafficKey nonce rec_aad = Inr a"
    and "wc_AsconAEAD128_EncryptUpdate M a (Some pt) 32 = (WC_OK, b, c)"
    and "wc_AsconAEAD128_EncryptFinal b PTR = (WC_OK, b', t)"
    using assms(3) by (auto simp: encrypt_calls_def wc_try_Inr split: sum.splits)
  then show ?thesis
    using assms(4,5) len by (simp add: rec_encrypt_def rec_setup_eq seal write_at_all)
qed

lemma rec_decrypt_open:
  assumes "misc_ok M" and "length nonce = 16" and "length pt = 32" and "length ct = 32" and "length tag = 16"
  shows "length (fst (rec_decrypt M g nonce ct tag pt)) = 32"
    and "aead_open trafficKey nonce rec_aad ct tag = Some p \<Longrightarrow> rec_decrypt M g nonce ct tag pt = (p, WC_OK)"
proof -
  obtain a where a: "aead_setup M g trafficKey nonce rec_aad = Inr (Some a)"
    and at: "aead_at trafficKey ASCON_AEAD128_NOTSET (aead_ready trafficKey nonce rec_aad, 0) a"
    using aead_setup_ready [OF assms(1) _ assms(2), of trafficKey g rec_aad] by auto
  obtain a' where upd: "wc_AsconAEAD128_DecryptUpdate M (Some a) (Some ct) 32
      = (WC_OK, Some a', snd (dx_run keep_input 16 perm8 (aead_ready trafficKey nonce rec_aad, 0) ct))"
    using aead_at_decrypt [OF assms(1) at, of ct] assms(4) by auto
  show "length (fst (rec_decrypt M g nonce ct tag pt)) = 32"
    using assms(3,4) by (simp add: rec_decrypt_def rec_setup_eq [OF a] upd case_prod_unfold)
  assume p: "aead_open trafficKey nonce rec_aad ct tag = Some p"
  then have len: "length p = 32"
    using aead_seal_length [of trafficKey nonce rec_aad p ct tag] assms(4) by (simp add: aead_open_seal)
  have "decrypt_calls M g trafficKey nonce rec_aad [ct] tag = Inr p"
    using decrypt_calls_open [OF assms(1) _ assms(2,5), of trafficKey "[ct]" g rec_aad] p by simp
  then obtain b b' where "wc_AsconAEAD128_DecryptUpdate M (Some a) (Some ct) 32 = (WC_OK, b, p)"
    and "wc_AsconAEAD128_DecryptFinal M b (Some tag) = (WC_OK, b')"
    using assms(4) a by (auto simp: decrypt_calls_def wc_try_Inr split: sum.splits)
  then show "rec_decrypt M g nonce ct tag pt = (p, WC_OK)"
    using assms(3) len by (simp add: rec_decrypt_def rec_setup_eq [OF a] write_at_all)
qed

text \<open>The ticks of the \<open>j\<close>-th timed region.\<close>

definition span :: "(nat \<Rightarrow> u32) \<Rightarrow> bool \<Rightarrow> nat \<Rightarrow> nat \<Rightarrow> u64" where
  "span clk dwt k j = ucast (rec_elapsed dwt (clk (k + 2 * j)) (clk (k + 2 * j + 1)))"

definition spans :: "(nat \<Rightarrow> u32) \<Rightarrow> bool \<Rightarrow> nat \<Rightarrow> nat \<Rightarrow> u64" where
  "spans clk dwt k n = (\<Sum>j<n. span clk dwt k j)"

lemma spans_0: "spans clk dwt k 0 = 0"
  by (simp add: spans_def)

lemma spans_Suc: "cyc + spans clk dwt k (Suc n) = cyc + ucast (rec_elapsed dwt (clk k) (clk (k + 1))) + spans clk dwt (k + 2) n"
proof -
  have "span clk dwt k (Suc j) = span clk dwt (k + 2) j" for j by (simp add: span_def)
  then show ?thesis unfolding spans_def sum.lessThan_Suc_shift by (simp add: span_def)
qed

lemma enc_loop_run:
  assumes "misc_ok M" and "length pt = 32" and "length (fst s) = 32" and "length (snd s) = 16"
  shows "enc_loop M shr mem clk dwt pt is k (s, cyc)
    = (if is = [] then s else aead_seal trafficKey (rec_nonce shr (of_nat (last is))) rec_aad pt,
       cyc + spans clk dwt k (length is))"
  using assms(3,4)
proof (induction "is" arbitrary: k s cyc)
  case Nil
  then show ?case by (simp add: spans_0)
next
  case (Cons i "is")
  let ?s = "aead_seal trafficKey (rec_nonce shr (of_nat i)) rec_aad pt"
  have s: "rec_encrypt M (mem i) (rec_nonce shr (of_nat i)) pt s = ?s"
    using rec_encrypt_seal [OF assms(1) _ assms(2), of "rec_nonce shr (of_nat i)" "fst s" "snd s"] Cons.prems by simp
  have "length (fst ?s) = 32" "length (snd ?s) = 16"
    using aead_seal_length [of trafficKey "rec_nonce shr (of_nat i)" rec_aad pt "fst ?s" "snd ?s"] assms(2) by simp_all
  from Cons.IH [OF this] show ?case
    by (simp add: s spans_Suc Let_def)
qed

lemma dec_loop_run:
  assumes "misc_ok M" and "length ct = 32" and "length tag = 16" and "length pt = 32" and "0 \<le> n" and "n \<le> 1000"
    and "dec_loop M shr mem clk dwt ct tag is k (pt, n, cyc) = (pt', n', cyc')"
  shows "length pt' = 32 \<and> 0 \<le> n' \<and> n' \<le> 1000 \<and> cyc' = cyc + spans clk dwt k (length is)
    \<and> (is \<noteq> [] \<longrightarrow> (\<forall>p. aead_open trafficKey (rec_nonce shr (of_nat (last is))) rec_aad ct tag = Some p \<longrightarrow> pt' = p))"
  using assms(4-)
proof (induction "is" arbitrary: k pt n cyc)
  case Nil
  then show ?case by (simp add: spans_0)
next
  case (Cons i "is")
  obtain q r where q: "rec_decrypt M (mem i) (rec_nonce shr (of_nat i)) ct tag pt = (q, r)" by fastforce
  define m where "m = (if r \<noteq> WC_OK then (if 1000 < n + 1 then 0 else n + 1) else n)"
  have m: "0 \<le> m" "m \<le> 1000" using Cons.prems(2,3) by (simp_all add: m_def)
  note dec = rec_decrypt_open [OF assms(1) _ Cons.prems(1) assms(2,3), of "rec_nonce shr (of_nat i)", simplified]
  have len: "length q = 32" using dec(1) [of "mem i"] q by simp
  have run: "dec_loop M shr mem clk dwt ct tag is (k + 2) (q, m, cyc + ucast (rec_elapsed dwt (clk k) (clk (k + 1)))) = (pt', n', cyc')"
    using Cons.prems(4) by (simp add: q m_def Let_def)
  have "q = p" if "aead_open trafficKey (rec_nonce shr (of_nat i)) rec_aad ct tag = Some p" for p
    using dec(2) [OF that, of "mem i"] q by simp
  then show ?case
    using Cons.IH [OF len m run] run by (cases "is") (simp_all add: spans_0 spans_Suc)
qed

lemma mask_loop_run:
  assumes "length msk = 16"
  shows "mask_loop mem clk dwt is k (msk, cyc)
    = (if is = [] then msk else snd (mask_prf_derive (Some snKey) (Some (replicate 32 (of_nat (last is)))) PTR MASK_PRF_DOMSEP_RNDIMSK),
       cyc + spans clk dwt k (length is))"
  using assms
proof (induction "is" arbitrary: k msk cyc)
  case Nil
  then show ?case by (simp add: spans_0)
next
  case (Cons i "is")
  have key: "bytes_of_u64 (u64_of_bytes (read_at 0 8 snKey)) @ bytes_of_u64 (u64_of_bytes (read_at 8 8 snKey)) = snKey"
    using take_add [of 8 8 snKey] by (simp add: bytes_of_u64_of_bytes) (simp add: read_at_def)
  have m: "snd (wc_AsconAEAD128_Mask (snd (wc_AsconAEAD128_SetKey (snd (wc_AsconAEAD128_Init (Some (mem i)))) (Some snKey))) (Some ct) PTR)
      = snd (mask_prf_derive (Some snKey) (Some ct) PTR MASK_PRF_DOMSEP_RNDIMSK)" for ct
    by (simp add: wc_AsconAEAD128_Init_def wc_AsconAEAD128_SetKey_def zero_aead_def wc_AsconAEAD128_Mask_def
        mask_prf_domsep_table_def key Let_def)
  have len: "length (snd (mask_prf_derive (Some snKey) (Some ct) PTR MASK_PRF_DOMSEP_RNDIMSK)) = 16" for ct
    by (simp add: mask_prf_derive_def Let_def)
  show ?case
    using Cons.prems by (simp add: m write_at_all len Cons.IH [OF len] spans_Suc Let_def)
qed

text \<open>A line of the log: a fixed text, or figures per record (and per byte).\<close>

datatype 'f bench_line = Text string | PerByte string 'f 'f | PerRecord string 'f

record 'f rec_result =
  rr_lines :: "'f bench_line list"
  rr_sealed :: "u8 list \<times> u8 list"
  rr_pt :: "u8 list"
  rr_drops :: int
  rr_mask :: "u8 list"

text \<open>\<open>stack\<close>: the initial content of \<open>ct\<close>, \<open>tag\<close> and \<open>mask\<close>.\<close>

definition record_bench :: "'f floats \<Rightarrow> wc_misc \<Rightarrow> (u32 \<Rightarrow> nat \<Rightarrow> u32) \<Rightarrow> (nat \<Rightarrow> nat \<Rightarrow> wc_AsconAEAD128) \<Rightarrow> (nat \<Rightarrow> u32)
    \<Rightarrow> bool \<Rightarrow> (u8 list \<times> u8 list) \<times> u8 list \<Rightarrow> 'f rec_result" where
  "record_bench F M shr mem clk dwt stack = (let
     pt = map of_nat [0..<REC_PT_SZ];
     (sealed, encCyc) = enc_loop M shr (mem 0) clk dwt pt [0..<REC_ITERS] 0 (fst stack, 0);
     cyc = f_div F (f_of_u64 F encCyc) (f_of_size F REC_ITERS);
     enc = [Text ''=== REC START ==='', Text ''REC_ENC_START'',
       PerByte ''ascon-record-encrypt'' cyc (f_div F cyc (f_of_size F REC_PT_SZ)), Text ''REC_ENC_DONE''];
     (pt, dropCount, decCyc) = dec_loop M shr (mem 1) clk dwt (fst sealed) (snd sealed) [0..<REC_ITERS] (2 * REC_ITERS) (pt, 0, 0);
     cyc = f_div F (f_of_u64 F decCyc) (f_of_size F REC_ITERS);
     dec = [Text ''REC_DEC_START'', PerByte ''ascon-record-decrypt'' cyc (f_div F cyc (f_of_size F REC_PT_SZ)), Text ''REC_DEC_DONE''];
     (msk, maskCyc) = mask_loop (mem 2) clk dwt [0..<REC_MASK_ITERS] (4 * REC_ITERS) (snd stack, 0);
     cyc = f_div F (f_of_u64 F maskCyc) (f_of_size F REC_MASK_ITERS);
     msk_lines = [Text ''REC_MASK_START'', PerRecord ''ascon-record-mask'' cyc, Text ''REC_MASK_DONE'', Text ''=== REC END ==='']
   in \<lparr>rr_lines = enc @ dec @ msk_lines, rr_sealed = sealed, rr_pt = pt, rr_drops = dropCount, rr_mask = msk\<rparr>)"

section \<open>main\<close>

record bench_area =
  hdr_magic :: u32
  hdr_out :: u32
  hdr_log :: bench_log
  hdr_done :: u32

definition HAL_HDR_MAGIC :: u32 where "HAL_HDR_MAGIC = 0x4D303032"
definition HAL_OUT_ADDR :: u32 where "HAL_OUT_ADDR = 0x2000E000"

text \<open>
  \<open>lib\<close> are the texts that wolfSSL's \<open>benchmark_test\<close> prints and \<open>render\<close> what a format
  makes of a line; the area is as it stands when the program stops the machine.
\<close>

definition bench_main :: "u8 list list \<Rightarrow> ('f bench_line \<Rightarrow> u8 list) \<Rightarrow> bool \<Rightarrow> 'f rec_result \<Rightarrow> bench_area \<Rightarrow> regs \<Rightarrow> bench_area \<times> regs" where
  "bench_main lib render dwt rr h r = (let
     h = h\<lparr>hdr_magic := HAL_HDR_MAGIC\<rparr>;
     h = h\<lparr>hdr_out := HAL_OUT_ADDR\<rparr>;
     h = h\<lparr>hdr_log := (hdr_log h)\<lparr>log_len := 0\<rparr>\<rparr>;
     h = h\<lparr>hdr_done := 0\<rparr>;
     h = h\<lparr>hdr_log := (hdr_log h)\<lparr>log_out := (log_out (hdr_log h))[0 := 0]\<rparr>\<rparr>;
     r = (if dwt then hal_enable dwt r else r\<lparr>SYST_RVR := 0x00FFFFFF, SYST_CVR := 0, SYST_CSR := 5\<rparr>);
     h = h\<lparr>hdr_log := foldl bench_xprintf (hdr_log h) lib\<rparr>;
     h = h\<lparr>hdr_log := foldl bench_xprintf (hdr_log h) (map render (rr_lines rr))\<rparr>;
     h = h\<lparr>hdr_done := 1\<rparr>
   in (h, r))"

section \<open>What the benchmark reports\<close>

text \<open>
  The counter: \<open>T k\<close> ticks after it read \<open>c\<close>, DWT counting up in 32 bits, SysTick down in
  24 bits. \<open>region T j\<close> is the true duration of the \<open>j\<close>-th timed region.
\<close>

definition counter_after :: "bool \<Rightarrow> u32 \<Rightarrow> nat \<Rightarrow> u32" where
  "counter_after dwt c t = (if dwt then dwt_after c t else systick_after c t)"

definition counter_period :: "bool \<Rightarrow> nat" where
  "counter_period dwt = (if dwt then 2 ^ 32 else 2 ^ 24)"

definition region :: "(nat \<Rightarrow> nat) \<Rightarrow> nat \<Rightarrow> nat" where
  "region T j = T (2 * j + 1) - T (2 * j)"

text \<open>A counter that runs on from a reading is the counter from the start.\<close>

lemma dwt_after_add: "dwt_after (dwt_after c s) d = dwt_after c (s + d)"
proof -
  have "unat (dwt_after c s) = (unat c + s) mod 2 ^ 32" by (simp add: dwt_after_def unat_of_nat)
  then show ?thesis by (simp only: dwt_after_def [of "dwt_after c s"]) (simp add: dwt_after_def mod_add_left_eq add.assoc)
qed

lemma unat_systick_after: "int (unat (systick_after c t)) = (int (unat c) - int t) mod 2 ^ 24"
proof -
  let ?m = "(int (unat c) - int t) mod 2 ^ 24"
  have m: "0 \<le> ?m" "?m < 2 ^ 24" by simp_all
  then have "take_bit 32 ?m = ?m" by (intro take_bit_int_eq_self) simp_all
  then have "uint (of_int ?m :: u32) = ?m" by (simp only: uint_word_of_int_eq) simp
  then show ?thesis using m(1) by (simp only: systick_after_def unat_eq_nat_uint [of "of_int _"] int_nat_eq if_True)
qed

lemma systick_after_add: "systick_after (systick_after c s) d = systick_after c (s + d)"
  unfolding systick_after_def [of "systick_after c s"] unat_systick_after
  by (simp add: systick_after_def mod_diff_left_eq algebra_simps)

text \<open>
  What the two macros compute is the true duration, if that is shorter than a period: also
  when the counter passes its end in between.
\<close>

lemma rec_elapsed_exact:
  assumes "s \<le> e" and "e - s < counter_period dwt"
  shows "unat (rec_elapsed dwt (counter_after dwt c s) (counter_after dwt c e)) = e - s"
proof -
  have e: "e = s + (e - s)" using assms(1) by simp
  show ?thesis
  proof (cases dwt)
    case True
    then have "counter_after dwt c e = dwt_after (counter_after dwt c s) (e - s)"
      using e by (simp add: counter_after_def dwt_after_add)
    with True assms(2) show ?thesis
      by (simp add: rec_elapsed_def hal_elapsed_cases hal_elapsed_dwt_after counter_period_def)
  next
    case False
    have after: "systick_after c e = systick_after (systick_after c s) (e - s)"
      using e by (simp add: systick_after_add)
    have "int (unat (systick_after c s)) < int (2 ^ 24)" unfolding unat_systick_after by simp
    then have "unat (systick_after c s) < 2 ^ 24" by (simp only: of_nat_less_iff)
    from hal_elapsed_systick_after [OF this, of "e - s"] False assms(2) show ?thesis
      by (simp add: rec_elapsed_def hal_elapsed_systick_def counter_after_def counter_period_def after)
  qed
qed

lemma rec_elapsed_hal: "rec_elapsed dwt s e = hal_elapsed dwt s e"
  by (simp add: rec_elapsed_def hal_elapsed_def)

text \<open>The sum of the regions fits 64 bits.\<close>

lemma spans_ticks:
  assumes "\<And>j. T (2 * j) \<le> T (2 * j + 1) \<and> region T j < counter_period dwt" and "n \<le> 2 ^ 30"
  shows "unat (spans (\<lambda>k. counter_after dwt c (T k)) dwt (2 * b) n) = (\<Sum>j<n. region T (b + j))"
  using assms(2)
proof (induction n)
  case 0
  then show ?case by (simp add: spans_def)
next
  case (Suc n)
  let ?clk = "\<lambda>k. counter_after dwt c (T k)"
  have d: "region T j < 2 ^ 32" for j using assms(1) [of j] by (simp add: counter_period_def split: if_splits)
  have "(\<Sum>j<n. region T (b + j)) \<le> (\<Sum>j<n. 2 ^ 32)" using d by (intro sum_mono) (simp add: less_imp_le)
  then have "(\<Sum>j<n. region T (b + j)) \<le> n * 2 ^ 32" by simp
  moreover have "n * 2 ^ 32 \<le> 2 ^ 30 * 2 ^ 32" using Suc.prems by (intro mult_le_mono) simp_all
  ultimately have small: "(\<Sum>j<n. region T (b + j)) + region T (b + n) < 2 ^ 64"
    using d [of "b + n"] by simp
  have "unat (rec_elapsed dwt (?clk (2 * (b + n))) (?clk (2 * (b + n) + 1))) = region T (b + n)"
    using rec_elapsed_exact [of "T (2 * (b + n))" "T (2 * (b + n) + 1)" dwt c] assms(1) [of "b + n"]
    by (simp only: region_def simp_thms)
  then have "unat (span ?clk dwt (2 * b) n) = region T (b + n)"
    by (simp only: span_def unat_widen distrib_left)
  moreover have "spans ?clk dwt (2 * b) (Suc n) = spans ?clk dwt (2 * b) n + span ?clk dwt (2 * b) n"
    by (simp add: spans_def)
  moreover have "unat (spans ?clk dwt (2 * b) n) = (\<Sum>j<n. region T (b + j))" using Suc by simp
  ultimately show ?case using small by (simp add: unat_word_ariths)
qed

definition rec_pt :: "u8 list" where
  "rec_pt = map of_nat [0..<32]"

definition average :: "(nat \<Rightarrow> nat) \<Rightarrow> nat \<Rightarrow> real" where
  "average d b = real (\<Sum>j<3000. d (b + j)) / 3000"

lemma record_bench_result:
  fixes shr :: "u32 \<Rightarrow> nat \<Rightarrow> u32" and mem :: "nat \<Rightarrow> nat \<Rightarrow> wc_AsconAEAD128" and c0 :: u32
  assumes "misc_ok M" and "length ct = 32" and "length tag = 16" and "length msk = 16"
    and "\<And>j. T (2 * j) \<le> T (2 * j + 1) \<and> region T j < counter_period dwt"
  defines "clk \<equiv> \<lambda>k. counter_after dwt c0 (T k)"
  defines "rr \<equiv> record_bench exact_floats M shr mem clk dwt ((ct, tag), msk)"
    and "nonce \<equiv> rec_nonce shr 2999"
  shows "rr_sealed rr = aead_seal trafficKey nonce rec_aad rec_pt" and "rr_pt rr = rec_pt"
    and "0 \<le> rr_drops rr" and "rr_drops rr \<le> 1000"
    and "rr_mask rr = snd (mask_prf_derive (Some snKey) (Some (replicate 32 (of_nat 2999))) PTR MASK_PRF_DOMSEP_RNDIMSK)"
    and "filter (\<lambda>l. \<nexists>t. l = Text t) (rr_lines rr) =
      [PerByte ''ascon-record-encrypt'' (average (region T) 0) (average (region T) 0 / 32),
       PerByte ''ascon-record-decrypt'' (average (region T) 3000) (average (region T) 3000 / 32),
       PerRecord ''ascon-record-mask'' (average (region T) 6000)]"
proof -
  have last: "[0..<3000] \<noteq> []" "last [0..<3000] = (2999 :: nat)" "length [0..<3000] = 3000" by (simp_all add: last_upt)
  have sz: "real REC_PT_SZ = 32" by simp
  have pt: "map of_nat [0..<REC_PT_SZ] = rec_pt" "length rec_pt = 32" by (simp_all add: rec_pt_def)
  obtain c t where seal: "aead_seal trafficKey nonce rec_aad rec_pt = (c, t)" by fastforce
  then have len: "length c = 32" "length t = 16" using aead_seal_length [OF seal] pt(2) by simp_all
  have enc: "enc_loop M shr (mem 0) clk dwt rec_pt [0..<3000] 0 ((ct, tag), 0) = ((c, t), spans clk dwt 0 3000)"
    using enc_loop_run [OF assms(1) pt(2), of "(ct, tag)"] assms(2,3) last seal by (simp add: nonce_def)
  obtain p n cyc where run: "dec_loop M shr (mem 1) clk dwt c t [0..<3000] 6000 (rec_pt, 0, 0) = (p, n, cyc)" by (metis prod_cases3)
  have "aead_open trafficKey nonce rec_aad c t = Some rec_pt" using seal by (simp add: aead_open_seal)
  then have dec: "p = rec_pt" "0 \<le> n" "n \<le> 1000" "cyc = spans clk dwt 6000 3000"
    using dec_loop_run [OF assms(1) len pt(2) _ _ run] last by (simp_all add: nonce_def)
  note msk = mask_loop_run [OF assms(4), of "mem 2" clk dwt "[0..<3000]" 12000 0]
  have ticks: "unat (spans clk dwt 0 3000) = (\<Sum>j<3000. region T (0 + j))" "unat (spans clk dwt 6000 3000) = (\<Sum>j<3000. region T (3000 + j))"
      "unat (spans clk dwt 12000 3000) = (\<Sum>j<3000. region T (6000 + j))"
    using spans_ticks [of T dwt 3000 c0 0, OF assms(5)] spans_ticks [of T dwt 3000 c0 3000, OF assms(5)] spans_ticks [of T dwt 3000 c0 6000, OF assms(5)]
    unfolding clk_def by simp_all
  have rr: "rr = \<lparr>rr_lines =
      [Text ''=== REC START ==='', Text ''REC_ENC_START'', PerByte ''ascon-record-encrypt'' (average (region T) 0) (average (region T) 0 / 32), Text ''REC_ENC_DONE'',
       Text ''REC_DEC_START'', PerByte ''ascon-record-decrypt'' (average (region T) 3000) (average (region T) 3000 / 32), Text ''REC_DEC_DONE'',
       Text ''REC_MASK_START'', PerRecord ''ascon-record-mask'' (average (region T) 6000), Text ''REC_MASK_DONE'', Text ''=== REC END ===''],
      rr_sealed = (c, t), rr_pt = rec_pt, rr_drops = n,
      rr_mask = snd (mask_prf_derive (Some snKey) (Some (replicate 32 (of_nat 2999))) PTR MASK_PRF_DOMSEP_RNDIMSK)\<rparr>"
    using msk last dec arg_cong [OF ticks(1), of real] arg_cong [OF ticks(2), of real] arg_cong [OF ticks(3), of real]
    by (simp add: rr_def record_bench_def pt REC_ITERS_def REC_MASK_ITERS_def enc run average_def sz del: upt_Suc REC_PT_SZ_def One_nat_def)
  show "rr_sealed rr = aead_seal trafficKey nonce rec_aad rec_pt" "rr_pt rr = rec_pt" "0 \<le> rr_drops rr" "rr_drops rr \<le> 1000"
    "rr_mask rr = snd (mask_prf_derive (Some snKey) (Some (replicate 32 (of_nat 2999))) PTR MASK_PRF_DOMSEP_RNDIMSK)"
    using dec by (simp_all add: rr seal)
  show "filter (\<lambda>l. \<nexists>t. l = Text t) (rr_lines rr) =
      [PerByte ''ascon-record-encrypt'' (average (region T) 0) (average (region T) 0 / 32),
       PerByte ''ascon-record-decrypt'' (average (region T) 3000) (average (region T) 3000 / 32),
       PerRecord ''ascon-record-mask'' (average (region T) 6000)]"
    by (simp add: rr)
qed

lemma bench_main_area:
  assumes "length (log_out (hdr_log h)) = 8192" and "bench_main lib render dwt rr h r = (h', r')"
  shows "hdr_magic h' = 0x4D303032 \<and> hdr_done h' = 1 \<and> r' = hal_enable dwt r \<and> log_ok (hdr_log h')
    \<and> log_text (hdr_log h') = take 8191 (concat lib @ concat (map render (rr_lines rr)))"
proof -
  define l where "l = (hdr_log h)\<lparr>log_len := 0, log_out := (log_out (hdr_log h))[0 := 0]\<rparr>"
  have l: "log_ok l" "log_text l = []" using assms(1) by (simp_all add: l_def log_ok_def log_text_def)
  have "foldl bench_xprintf (foldl bench_xprintf l lib) (map render (rr_lines rr)) = foldl bench_xprintf l (lib @ map render (rr_lines rr))"
    by simp
  then have "hdr_log h' = foldl bench_xprintf l (lib @ map render (rr_lines rr))"
    and "hdr_magic h' = 0x4D303032" and "hdr_done h' = 1" and "r' = hal_enable dwt r"
    using assms(2) by (auto simp: bench_main_def l_def HAL_HDR_MAGIC_def hal_enable_def hal_systick_enable_def
      HAL_SYST_CTRL_ENABLE_CLK_def Let_def)
  then show ?thesis using bench_xprintf_all [OF l(1), of "lib @ map render (rr_lines rr)"] l(2) by simp
qed

section \<open>The probe\<close>

text \<open>\<open>hello.c\<close>: the result block after \<open>main\<close>; \<open>start\<close> and \<open>now\<close> are the two readings.\<close>

record probe_result =
  pr_magic :: u32
  elapsed_ticks :: u32
  pr_done :: u32

definition RESULT_MAGIC :: u32 where "RESULT_MAGIC = 0x4D303031"

definition systick_init :: "regs \<Rightarrow> regs" where
  "systick_init r = r\<lparr>SYST_RVR := 0x00FFFFFF, SYST_CVR := 0, SYST_CSR := 5\<rparr>"

definition systick_elapsed :: "u32 \<Rightarrow> u32 \<Rightarrow> u32" where
  "systick_elapsed start now = (start - now) AND 0x00FFFFFF"

definition probe_main :: "u32 \<Rightarrow> u32 \<Rightarrow> probe_result \<Rightarrow> regs \<Rightarrow> probe_result \<times> regs" where
  "probe_main start now p r = (let
     p = p\<lparr>pr_magic := RESULT_MAGIC, elapsed_ticks := 0, pr_done := 0\<rparr>;
     r = systick_init r;
     p = p\<lparr>elapsed_ticks := systick_elapsed start now\<rparr>
   in (p\<lparr>pr_done := 1\<rparr>, r))"

end
