(* ===== verification/Wc_Aead_Memory.thy ===== *)
theory Wc_Aead_Memory
  imports Wc_Aead_Api
begin

text \<open>
  \<open>EncryptUpdate\<close> and \<open>DecryptUpdate\<close> again, with input and output as offsets into one
  memory, so that the two buffers may overlap: the record layer decrypts in place, and
  \<open>DecryptUpdate\<close> copies each block to its local \<open>ct\<close> for that. The lemmas show when
  the update of the memory is the output of the functions on separate buffers: when the
  output does not start behind the input, or lies behind its end.
\<close>

section \<open>The block loops on memory\<close>

function enc_loop_mem :: "wc_misc \<Rightarrow> AsconState \<Rightarrow> u8 list \<Rightarrow> nat \<Rightarrow> nat \<Rightarrow> nat
    \<Rightarrow> AsconState \<times> u8 list \<times> nat \<times> nat \<times> nat" where
  "enc_loop_mem M s mem out inp inSz =
     (if ASCON_AEAD128_RATE \<le> inSz then
        (let s = of_s8 (xorbuf M (s8 s) (drop inp mem) ASCON_AEAD128_RATE);
             mem = write_at out (read_at 0 ASCON_AEAD128_RATE (s8 s)) mem;
             s = permutation s ASCON_AEAD128_ROUNDS_PB
         in enc_loop_mem M s mem (out + ASCON_AEAD128_RATE) (inp + ASCON_AEAD128_RATE) (inSz - ASCON_AEAD128_RATE))
      else (s, mem, out, inp, inSz))"
  by pat_completeness auto
termination
  by (relation "measure (\<lambda>(M, s, mem, out, inp, inSz). inSz)") auto

declare enc_loop_mem.simps [simp del]

definition enc_blocks_mem :: "wc_misc \<Rightarrow> wc_AsconAEAD128 \<Rightarrow> u8 list \<Rightarrow> nat \<Rightarrow> nat \<Rightarrow> nat
    \<Rightarrow> wc_AsconAEAD128 \<times> u8 list" where
  "enc_blocks_mem M a mem out inp inSz =
     (let (s, mem, out, inp, inSz) = enc_loop_mem M (astate a) mem out inp inSz;
          s = of_s8 (xorbuf M (s8 s) (drop inp mem) inSz);
          mem = write_at out (read_at 0 inSz (s8 s)) mem
      in (a\<lparr>astate := s, alastBlkSz := inSz\<rparr>, mem))"

definition wc_AsconAEAD128_EncryptUpdate_mem ::
  "wc_misc \<Rightarrow> wc_AsconAEAD128 option \<Rightarrow> u8 list \<Rightarrow> nat \<Rightarrow> nat option \<Rightarrow> nat
    \<Rightarrow> wc_ret \<times> wc_AsconAEAD128 option \<times> u8 list" where
  "wc_AsconAEAD128_EncryptUpdate_mem M ap mem out inp inSz = (case ap of
     None \<Rightarrow> (BAD_FUNC_ARG, None, mem)
   | Some a \<Rightarrow>
      if inp = None \<and> 0 < inSz then (BAD_FUNC_ARG, Some a, mem)
      else if \<not> keySet a \<or> \<not> nonceSet a \<or> \<not> adSet a then (BAD_STATE_E, Some a, mem)
      else if aop a \<noteq> ASCON_AEAD128_NOTSET \<and> aop a \<noteq> ASCON_AEAD128_ENCRYPT then (BAD_STATE_E, Some a, mem)
      else let
        a = (if aop a = ASCON_AEAD128_NOTSET then a\<lparr>aop := ASCON_AEAD128_ENCRYPT\<rparr> else a);
        i = (case inp of None \<Rightarrow> 0 | Some p \<Rightarrow> p)
      in if alastBlkSz a \<noteq> 0 then
          (let toProcess = min32 M (ASCON_AEAD128_RATE - alastBlkSz a) inSz;
               a = a\<lparr>astate := of_s8 (xorbuf_at M (alastBlkSz a) (s8 (astate a)) (drop i mem) toProcess)\<rparr>;
               mem = write_at out (read_at (alastBlkSz a) toProcess (s8 (astate a))) mem;
               a = a\<lparr>alastBlkSz := alastBlkSz a + toProcess\<rparr>;
               i = i + toProcess;
               out = out + toProcess;
               inSz = inSz - toProcess
           in if alastBlkSz a < ASCON_AEAD128_RATE then (WC_OK, Some a, mem)
              else let a = a\<lparr>astate := permutation (astate a) ASCON_AEAD128_ROUNDS_PB\<rparr>;
                       a = a\<lparr>alastBlkSz := 0\<rparr>;
                       (a, mem) = enc_blocks_mem M a mem out i inSz
                   in (WC_OK, Some a, mem))
         else let (a, mem) = enc_blocks_mem M a mem out i inSz in (WC_OK, Some a, mem))"

function dec_loop_mem :: "wc_misc \<Rightarrow> AsconState \<Rightarrow> u8 list \<Rightarrow> nat \<Rightarrow> nat \<Rightarrow> nat
    \<Rightarrow> AsconState \<times> u8 list \<times> nat \<times> nat \<times> nat" where
  "dec_loop_mem M s mem out inp inSz =
     (if ASCON_AEAD128_RATE \<le> inSz then
        (let ct = read_at inp ASCON_AEAD128_RATE mem;
             mem = write_at out (xorbufout M (s8 s) ct ASCON_AEAD128_RATE) mem;
             s = of_s8 (write_at 0 ct (s8 s));
             s = permutation s ASCON_AEAD128_ROUNDS_PB
         in dec_loop_mem M s mem (out + ASCON_AEAD128_RATE) (inp + ASCON_AEAD128_RATE) (inSz - ASCON_AEAD128_RATE))
      else (s, mem, out, inp, inSz))"
  by pat_completeness auto
termination
  by (relation "measure (\<lambda>(M, s, mem, out, inp, inSz). inSz)") auto

declare dec_loop_mem.simps [simp del]

definition dec_blocks_mem :: "wc_misc \<Rightarrow> wc_AsconAEAD128 \<Rightarrow> u8 list \<Rightarrow> nat \<Rightarrow> nat \<Rightarrow> nat
    \<Rightarrow> wc_AsconAEAD128 \<times> u8 list" where
  "dec_blocks_mem M a mem out inp inSz =
     (let (s, mem, out, inp, inSz) = dec_loop_mem M (astate a) mem out inp inSz;
          ct = read_at inp inSz mem;
          mem = write_at out (xorbufout M (s8 s) ct inSz) mem;
          s = of_s8 (write_at 0 ct (s8 s))
      in (a\<lparr>astate := s, alastBlkSz := inSz\<rparr>, mem))"

definition wc_AsconAEAD128_DecryptUpdate_mem ::
  "wc_misc \<Rightarrow> wc_AsconAEAD128 option \<Rightarrow> u8 list \<Rightarrow> nat \<Rightarrow> nat option \<Rightarrow> nat
    \<Rightarrow> wc_ret \<times> wc_AsconAEAD128 option \<times> u8 list" where
  "wc_AsconAEAD128_DecryptUpdate_mem M ap mem out inp inSz = (case ap of
     None \<Rightarrow> (BAD_FUNC_ARG, None, mem)
   | Some a \<Rightarrow>
      if inp = None \<and> 0 < inSz then (BAD_FUNC_ARG, Some a, mem)
      else if \<not> keySet a \<or> \<not> nonceSet a \<or> \<not> adSet a then (BAD_STATE_E, Some a, mem)
      else if aop a \<noteq> ASCON_AEAD128_NOTSET \<and> aop a \<noteq> ASCON_AEAD128_DECRYPT then (BAD_STATE_E, Some a, mem)
      else let
        a = (if aop a = ASCON_AEAD128_NOTSET then a\<lparr>aop := ASCON_AEAD128_DECRYPT\<rparr> else a);
        i = (case inp of None \<Rightarrow> 0 | Some p \<Rightarrow> p)
      in if alastBlkSz a \<noteq> 0 then
          (let toProcess = min32 M (ASCON_AEAD128_RATE - alastBlkSz a) inSz;
               ct = read_at i toProcess mem;
               mem = write_at out (xorbufout M (drop (alastBlkSz a) (s8 (astate a))) ct toProcess) mem;
               a = a\<lparr>astate := of_s8 (write_at (alastBlkSz a) ct (s8 (astate a)))\<rparr>;
               i = i + toProcess;
               out = out + toProcess;
               inSz = inSz - toProcess;
               a = a\<lparr>alastBlkSz := alastBlkSz a + toProcess\<rparr>
           in if alastBlkSz a < ASCON_AEAD128_RATE then (WC_OK, Some a, mem)
              else let a = a\<lparr>astate := permutation (astate a) ASCON_AEAD128_ROUNDS_PB\<rparr>;
                       a = a\<lparr>alastBlkSz := 0\<rparr>;
                       (a, mem) = dec_blocks_mem M a mem out i inSz
                   in (WC_OK, Some a, mem))
         else let (a, mem) = dec_blocks_mem M a mem out i inSz in (WC_OK, Some a, mem))"

section \<open>Overlapping buffers\<close>

text \<open>Input of \<open>n\<close> bytes at \<open>inp\<close>, output at \<open>out\<close>, both inside the memory.\<close>

definition overlap_ok :: "u8 list \<Rightarrow> nat \<Rightarrow> nat \<Rightarrow> nat \<Rightarrow> bool" where
  "overlap_ok mem out inp n \<longleftrightarrow>
     inp + n \<le> length mem \<and> out + n \<le> length mem \<and> (out \<le> inp \<or> inp + n \<le> out)"

lemma write_at_append:
  "off + length (xs @ ys) \<le> length mem \<Longrightarrow>
    write_at (off + length xs) ys (write_at off xs mem) = write_at off (xs @ ys) mem"
  by (rule nth_equalityI) (auto simp: nth_write_at nth_append)

lemma read_after_write:
  assumes "off + length bs \<le> length mem" and "i + n \<le> length mem" and "off + length bs \<le> i \<or> i + n \<le> off"
  shows "read_at i n (write_at off bs mem) = read_at i n mem"
  using assms by (intro nth_equalityI) (auto simp: read_at_def nth_write_at)

text \<open>Writing the output of the first \<open>k\<close> input bytes leaves the rest of the input.\<close>

lemma overlap_step:
  assumes "overlap_ok mem out inp n" and "k \<le> n" and "length bs = k"
  shows "overlap_ok (write_at out bs mem) (out + k) (inp + k) (n - k)"
    and "read_at (inp + k) (n - k) (write_at out bs mem) = drop k (read_at inp n mem)"
proof -
  show "overlap_ok (write_at out bs mem) (out + k) (inp + k) (n - k)"
    using assms by (auto simp: overlap_ok_def)
  have "read_at (inp + k) (n - k) (write_at out bs mem) = read_at (inp + k) (n - k) mem"
    using assms by (intro read_after_write) (auto simp: overlap_ok_def)
  then show "read_at (inp + k) (n - k) (write_at out bs mem) = drop k (read_at inp n mem)"
    using assms(2) by (simp add: read_at_def drop_take add.commute)
qed

lemma xorbuf_cong:
  assumes "misc_ok M" and "k \<le> length b" and "k \<le> length d" and "take k d' = take k d"
  shows "xorbuf M b d' k = xorbuf M b d k"
proof -
  have "k \<le> length d'" using assms(3,4) by (metis length_take min.absorb2 min.cobounded1)
  with assms show ?thesis by (simp add: misc_ok_def)
qed

lemma xorbuf_at_cong:
  assumes "misc_ok M" and "off + k \<le> length b" and "k \<le> length d" and "take k d' = take k d"
  shows "xorbuf_at M off b d' k = xorbuf_at M off b d k"
  using xorbuf_cong [OF assms(1) _ assms(3,4), of "drop off b"] assms(2) by (simp add: xorbuf_at_def)

lemma overlap_input:
  assumes "overlap_ok mem out inp n" and "k \<le> n"
  shows "length (read_at inp n mem) = n" and "take k (drop inp mem) = take k (read_at inp n mem)"
    and "read_at inp k mem = read_at 0 k (read_at inp n mem)"
  using assms by (auto simp: overlap_ok_def read_at_def min_def)

lemma enc_loop_mem_eq:
  assumes "misc_ok M" and "overlap_ok mem out inp n"
    and "aead_encrypt_loop M s (read_at inp n mem) n = (s', d', n', bs)"
  shows "enc_loop_mem M s mem out inp n = (s', write_at out bs mem, out + length bs, inp + length bs, n')
    \<and> length bs + n' = n \<and> d' = drop (length bs) (read_at inp n mem)"
  using assms
proof (induction M s mem out inp n arbitrary: bs rule: enc_loop_mem.induct)
  case (1 M s mem out inp n)
  let ?d = "read_at inp n mem"
  show ?case
  proof (cases "16 \<le> n")
    case False
    then have "enc_loop_mem M s mem out inp n = (s, mem, out, inp, n)" and "aead_encrypt_loop M s ?d n = (s, ?d, n, [])"
      by (simp_all add: enc_loop_mem.simps [of M s] aead_encrypt_loop.simps [of M s])
    with 1(4) show ?thesis by (metis Pair_inject add.right_neutral add_0 drop0 list.size(3) write_at_Nil)
  next
    case True
    note inp = overlap_input [OF 1(3) True]
    let ?s = "of_s8 (xorbuf M (s8 s) (drop inp mem) 16)"
    let ?b = "read_at 0 16 (s8 ?s)"
    have x: "xorbuf M (s8 s) ?d 16 = xorbuf M (s8 s) (drop inp mem) 16"
      using xorbuf_cong [OF 1(2), of 16 "s8 s" ?d "drop inp mem"] inp True by simp
    have b: "length ?b = 16" by simp
    obtain t e m rest where rest: "aead_encrypt_loop M (permutation ?s 8) (drop 16 ?d) (n - 16) = (t, e, m, rest)"
      by (metis prod_cases4)
    have pure: "t = s'" "e = d'" "m = n'" "bs = ?b @ rest"
      using 1(4) True rest by (simp_all add: aead_encrypt_loop.simps [of M s ?d] x Let_def)
    note ov = overlap_step [OF 1(3) True b]
    have ih: "enc_loop_mem M (permutation ?s 8) (write_at out ?b mem) (out + 16) (inp + 16) (n - 16)
        = (s', write_at (out + 16) rest (write_at out ?b mem), out + 16 + length rest, inp + 16 + length rest, n')
      \<and> length rest + n' = n - 16 \<and> d' = drop (length rest) (drop 16 ?d)"
      using 1(1) [OF _ refl refl refl 1(2), of rest] True ov rest pure(1-3) by simp
    have len: "length (?b @ rest) + n' = n" using ih True b by auto
    have "out + n \<le> length mem" using 1(3) by (simp add: overlap_ok_def)
    then have "out + length (?b @ rest) \<le> length mem" using len by simp
    from write_at_append [OF this]
    have w: "write_at (out + 16) rest (write_at out ?b mem) = write_at out (?b @ rest) mem" by (simp only: b)
    have "enc_loop_mem M s mem out inp n
        = enc_loop_mem M (permutation ?s 8) (write_at out ?b mem) (out + 16) (inp + 16) (n - 16)"
      using True by (simp add: enc_loop_mem.simps [of M s] Let_def)
    with ih w len b show ?thesis by (simp add: pure(4) add.commute)
  qed
qed

lemma enc_blocks_mem_eq:
  assumes "misc_ok M" and "overlap_ok mem out inp n"
  shows "enc_blocks_mem M a mem out inp n
    = (case aead_encrypt_blocks M a (read_at inp n mem) n of (a', bs) \<Rightarrow> (a', write_at out bs mem))"
proof -
  let ?d = "read_at inp n mem"
  obtain s d' n' bs where l: "aead_encrypt_loop M (astate a) ?d n = (s, d', n', bs)" by (metis prod_cases4)
  note m = enc_loop_mem_eq [OF assms l]
  then have n': "length bs \<le> n" "n - length bs = n'" by auto
  note ov = overlap_step [OF assms(2) n'(1) refl]
  let ?mem = "write_at out bs mem" let ?s = "of_s8 (xorbuf M (s8 s) d' n')"
  have "n' < 16" using aead_encrypt_loop_run [OF assms(1) _ l] overlap_input(1) [OF assms(2) order_refl] by simp
  have ov': "overlap_ok ?mem (out + length bs) (inp + length bs) n'" using ov(1) n'(2) by simp
  have d': "read_at (inp + length bs) n' ?mem = d'" using ov(2) n'(2) m by simp
  have x: "xorbuf M (s8 s) (drop (inp + length bs) ?mem) n' = xorbuf M (s8 s) d' n'"
  proof (rule xorbuf_cong [OF assms(1)])
    show "n' \<le> length (s8 s)" using \<open>n' < 16\<close> by simp
    show "n' \<le> length d'" using overlap_input(1) [OF ov' order_refl] unfolding d' by simp
    show "take n' (drop (inp + length bs) ?mem) = take n' d'" using overlap_input(2) [OF ov' order_refl] unfolding d' .
  qed
  have w: "write_at (out + length bs) (read_at 0 n' (s8 ?s)) ?mem = write_at out (bs @ read_at 0 n' (s8 ?s)) mem"
  proof (rule write_at_append)
    have "out + n \<le> length mem" using assms(2) by (simp add: overlap_ok_def)
    with n' \<open>n' < 16\<close> show "out + length (bs @ read_at 0 n' (s8 ?s)) \<le> length mem" by simp
  qed
  show ?thesis
    unfolding enc_blocks_mem_def aead_encrypt_blocks_def m [THEN conjunct1] l Let_def prod.case x w by (rule refl)
qed

text \<open>The whole update: the output of the function on separate buffers, written to \<open>out\<close>.\<close>

lemma EncryptUpdate_mem_eq:
  assumes "misc_ok M" and "overlap_ok mem out inp n" and "alastBlkSz a < 16"
  shows "wc_AsconAEAD128_EncryptUpdate_mem M (Some a) mem out (Some inp) n
    = (case wc_AsconAEAD128_EncryptUpdate M (Some a) (Some (read_at inp n mem)) n of
         (r, a', bs) \<Rightarrow> (r, a', write_at out bs mem))"
proof (cases "aead_set a \<and> aop a \<noteq> ASCON_AEAD128_DECRYPT")
  case False
  then show ?thesis
    by (cases "aop a") (auto simp: wc_AsconAEAD128_EncryptUpdate_mem_def wc_AsconAEAD128_EncryptUpdate_def aead_set_def)
next
  case True
  let ?d = "read_at inp n mem" and ?a = "a\<lparr>aop := ASCON_AEAD128_ENCRYPT\<rparr>" and ?p = "alastBlkSz a"
  obtain k where k: "min32 M (16 - ?p) n = k" "k = min (16 - ?p) n" using min32_eq [OF assms(1)] by simp
  have b: "(if aop a = ASCON_AEAD128_NOTSET then ?a else a) = ?a" using True by (cases "aop a") simp_all
  define x where "x = of_s8 (xorbuf_at M ?p (s8 (astate a)) (drop inp mem) k)"
  have x': "of_s8 (xorbuf_at M ?p (s8 (astate a)) ?d k) = x"
    using xorbuf_at_cong [OF assms(1), of ?p k "s8 (astate a)" ?d "drop inp mem"]
      overlap_input [OF assms(2), of k] assms(3) k(2) by (simp add: x_def)
  define bs where "bs = read_at ?p k (s8 x)"
  have len: "k \<le> n" "length bs = k" using k(2) assms(3) by (simp_all add: bs_def)
  have sel: "keySet a" "nonceSet a" "adSet a" "\<not> (aop a \<noteq> ASCON_AEAD128_NOTSET \<and> aop a \<noteq> ASCON_AEAD128_ENCRYPT)"
    using True by (cases "aop a"; simp add: aead_set_def)+
  let ?c = "?a\<lparr>astate := permutation x 8, alastBlkSz := 0\<rparr>"
  have lhs: "wc_AsconAEAD128_EncryptUpdate_mem M (Some a) mem out (Some inp) n
    = (if ?p = 0 then (case enc_blocks_mem M ?a mem out inp n of (c, m) \<Rightarrow> (WC_OK, Some c, m))
       else if ?p + k < 16 then (WC_OK, Some (?a\<lparr>astate := x, alastBlkSz := ?p + k\<rparr>), write_at out bs mem)
       else (case enc_blocks_mem M ?c (write_at out bs mem) (out + k) (inp + k) (n - k) of (c, m) \<Rightarrow> (WC_OK, Some c, m)))"
    by (simp add: wc_AsconAEAD128_EncryptUpdate_mem_def b sel k(1) Let_def flip: x_def bs_def)
  have rhs: "wc_AsconAEAD128_EncryptUpdate M (Some a) (Some ?d) n
    = (if ?p = 0 then (case aead_encrypt_blocks M ?a ?d n of (c, e) \<Rightarrow> (WC_OK, Some c, e))
       else if ?p + k < 16 then (WC_OK, Some (?a\<lparr>astate := x, alastBlkSz := ?p + k\<rparr>), bs)
       else (case aead_encrypt_blocks M ?c (drop k ?d) (n - k) of (c, e) \<Rightarrow> (WC_OK, Some c, bs @ e)))"
    by (simp add: wc_AsconAEAD128_EncryptUpdate_def b sel k(1) x' Let_def flip: bs_def)
  note ov = overlap_step [OF assms(2) len]
  have full: "(case enc_blocks_mem M ?c (write_at out bs mem) (out + k) (inp + k) (n - k) of (c, m) \<Rightarrow> (WC_OK, Some c, m))
      = (case aead_encrypt_blocks M ?c (drop k ?d) (n - k) of (c, e) \<Rightarrow> (WC_OK, Some c, write_at out (bs @ e) mem))"
  proof -
    obtain c e where e: "aead_encrypt_blocks M ?c (drop k ?d) (n - k) = (c, e)" by fastforce
    have "length (drop k ?d) = n - k" using overlap_input(1) [OF assms(2) len(1)] by simp
    then have "length e = n - k"
      using e aead_encrypt_blocks_run [OF assms(1), of "n - k" "drop k ?d" ?c] by (auto simp: case_prod_unfold)
    moreover have "out + n \<le> length mem" using assms(2) by (simp add: overlap_ok_def)
    ultimately have "out + length (bs @ e) \<le> length mem" using len by simp
    from write_at_append [OF this]
    have "write_at (out + k) e (write_at out bs mem) = write_at out (bs @ e) mem" by (simp only: len(2))
    then show ?thesis by (simp only: enc_blocks_mem_eq [OF assms(1) ov(1)] ov(2) e prod.case)
  qed
  have whole: "(case enc_blocks_mem M ?a mem out inp n of (c, m) \<Rightarrow> (WC_OK, Some c, m))
      = (case aead_encrypt_blocks M ?a ?d n of (c, e) \<Rightarrow> (WC_OK, Some c, write_at out e mem))"
    by (simp only: enc_blocks_mem_eq [OF assms(1,2)] split_def fst_conv snd_conv)
  show ?thesis
    unfolding lhs rhs full whole by (cases "?p = 0"; cases "?p + k < 16") (simp_all add: split_def)
qed

section \<open>Decryption\<close>

lemma xorbufout_length: "misc_ok M \<Longrightarrow> n \<le> length xs \<Longrightarrow> n \<le> length d \<Longrightarrow> length (xorbufout M xs d n) = n"
  by (simp add: xorbufout_eq)

lemma dec_loop_mem_eq:
  assumes "misc_ok M" and "overlap_ok mem out inp n"
    and "aead_decrypt_loop M s (read_at inp n mem) n = (s', d', n', bs)"
  shows "dec_loop_mem M s mem out inp n = (s', write_at out bs mem, out + length bs, inp + length bs, n')
    \<and> length bs + n' = n \<and> d' = drop (length bs) (read_at inp n mem)"
  using assms
proof (induction M s mem out inp n arbitrary: bs rule: dec_loop_mem.induct)
  case (1 M s mem out inp n)
  let ?d = "read_at inp n mem"
  show ?case
  proof (cases "16 \<le> n")
    case False
    then have "dec_loop_mem M s mem out inp n = (s, mem, out, inp, n)" and "aead_decrypt_loop M s ?d n = (s, ?d, n, [])"
      by (simp_all add: dec_loop_mem.simps [of M s] aead_decrypt_loop.simps [of M s])
    with 1(4) show ?thesis by (metis Pair_inject add.right_neutral add_0 drop0 list.size(3) write_at_Nil)
  next
    case True
    note inp = overlap_input [OF 1(3) True]
    let ?ct = "read_at inp 16 mem"
    let ?b = "xorbufout M (s8 s) ?ct 16" and ?s = "of_s8 (write_at 0 ?ct (s8 s))"
    have ct: "length ?ct = 16" using 1(3) True by (simp add: overlap_ok_def)
    then have b: "length ?b = 16" using xorbufout_length [OF 1(2), of 16 "s8 s" ?ct] by simp
    obtain t e m rest where rest: "aead_decrypt_loop M (permutation ?s 8) (drop 16 ?d) (n - 16) = (t, e, m, rest)"
      by (metis prod_cases4)
    have pure: "t = s'" "e = d'" "m = n'" "bs = ?b @ rest"
      using 1(4) True rest by (simp_all add: aead_decrypt_loop.simps [of M s ?d] Let_def flip: inp(3))
    note ov = overlap_step [OF 1(3) True b]
    have ih: "dec_loop_mem M (permutation ?s 8) (write_at out ?b mem) (out + 16) (inp + 16) (n - 16)
        = (s', write_at (out + 16) rest (write_at out ?b mem), out + 16 + length rest, inp + 16 + length rest, n')
      \<and> length rest + n' = n - 16 \<and> d' = drop (length rest) (drop 16 ?d)"
      using 1(1) [OF _ refl refl refl refl 1(2), of rest] True ov rest pure(1-3) by simp
    have len: "length (?b @ rest) + n' = n" using ih True b by auto
    have "out + n \<le> length mem" using 1(3) by (simp add: overlap_ok_def)
    then have "out + length (?b @ rest) \<le> length mem" using len by simp
    from write_at_append [OF this]
    have w: "write_at (out + 16) rest (write_at out ?b mem) = write_at out (?b @ rest) mem" by (simp only: b)
    have "dec_loop_mem M s mem out inp n
        = dec_loop_mem M (permutation ?s 8) (write_at out ?b mem) (out + 16) (inp + 16) (n - 16)"
      using True by (simp add: dec_loop_mem.simps [of M s] Let_def)
    with ih w len b show ?thesis by (simp add: pure(4) add.commute)
  qed
qed

lemma dec_blocks_mem_eq:
  assumes "misc_ok M" and "overlap_ok mem out inp n"
  shows "dec_blocks_mem M a mem out inp n
    = (case aead_decrypt_blocks M a (read_at inp n mem) n of (a', bs) \<Rightarrow> (a', write_at out bs mem))"
proof -
  let ?d = "read_at inp n mem"
  obtain s d' n' bs where l: "aead_decrypt_loop M (astate a) ?d n = (s, d', n', bs)" by (metis prod_cases4)
  note m = dec_loop_mem_eq [OF assms l]
  then have n': "length bs \<le> n" "n - length bs = n'" by auto
  note ov = overlap_step [OF assms(2) n'(1) refl]
  let ?mem = "write_at out bs mem" let ?ct = "read_at 0 n' d'" let ?b = "xorbufout M (s8 s) ?ct n'"
  have "n' < 16" using aead_decrypt_loop_run [OF assms(1) _ l] overlap_input(1) [OF assms(2) order_refl] by simp
  have ov': "overlap_ok ?mem (out + length bs) (inp + length bs) n'" using ov(1) n'(2) by simp
  have "read_at (inp + length bs) n' ?mem = d'" using ov(2) n'(2) m by simp
  then have x: "read_at (inp + length bs) n' ?mem = ?ct" and ct: "length ?ct = n'"
    using overlap_input(1,3) [OF ov' order_refl] by simp_all
  have b: "length ?b = n'" using xorbufout_length [OF assms(1), of n' "s8 s" ?ct] ct \<open>n' < 16\<close> by simp
  have "out + n \<le> length mem" using assms(2) by (simp add: overlap_ok_def)
  then have "out + length (bs @ ?b) \<le> length mem" using n' b by simp
  then have w: "write_at (out + length bs) ?b ?mem = write_at out (bs @ ?b) mem" by (rule write_at_append)
  show ?thesis
    unfolding dec_blocks_mem_def aead_decrypt_blocks_def m [THEN conjunct1] l Let_def prod.case x w by (rule refl)
qed

lemma DecryptUpdate_mem_eq:
  assumes "misc_ok M" and "overlap_ok mem out inp n" and "alastBlkSz a < 16"
  shows "wc_AsconAEAD128_DecryptUpdate_mem M (Some a) mem out (Some inp) n
    = (case wc_AsconAEAD128_DecryptUpdate M (Some a) (Some (read_at inp n mem)) n of
         (r, a', bs) \<Rightarrow> (r, a', write_at out bs mem))"
proof (cases "aead_set a \<and> aop a \<noteq> ASCON_AEAD128_ENCRYPT")
  case False
  then show ?thesis
    by (cases "aop a") (auto simp: wc_AsconAEAD128_DecryptUpdate_mem_def wc_AsconAEAD128_DecryptUpdate_def aead_set_def)
next
  case True
  let ?d = "read_at inp n mem" and ?a = "a\<lparr>aop := ASCON_AEAD128_DECRYPT\<rparr>" and ?p = "alastBlkSz a"
  obtain k where k: "min32 M (16 - ?p) n = k" "k = min (16 - ?p) n" using min32_eq [OF assms(1)] by simp
  have b: "(if aop a = ASCON_AEAD128_NOTSET then ?a else a) = ?a" using True by (cases "aop a") simp_all
  have kn: "k \<le> n" using k(2) by simp
  define ct where "ct = read_at inp k mem"
  have ct': "read_at 0 k ?d = ct" using overlap_input(3) [OF assms(2) kn] by (simp add: ct_def)
  have ctl: "length ct = k" using assms(2) kn by (simp add: ct_def overlap_ok_def)
  define bs where "bs = xorbufout M (drop ?p (s8 (astate a))) ct k"
  define x where "x = of_s8 (write_at ?p ct (s8 (astate a)))"
  have len: "length bs = k" using xorbufout_length [OF assms(1), of k "drop ?p (s8 (astate a))" ct] ctl k(2) assms(3)
    by (simp add: bs_def)
  have sel: "keySet a" "nonceSet a" "adSet a" "\<not> (aop a \<noteq> ASCON_AEAD128_NOTSET \<and> aop a \<noteq> ASCON_AEAD128_DECRYPT)"
    using True by (cases "aop a"; simp add: aead_set_def)+
  let ?c = "?a\<lparr>astate := permutation x 8, alastBlkSz := 0\<rparr>"
  have lhs: "wc_AsconAEAD128_DecryptUpdate_mem M (Some a) mem out (Some inp) n
    = (if ?p = 0 then (case dec_blocks_mem M ?a mem out inp n of (c, m) \<Rightarrow> (WC_OK, Some c, m))
       else if ?p + k < 16 then (WC_OK, Some (?a\<lparr>astate := x, alastBlkSz := ?p + k\<rparr>), write_at out bs mem)
       else (case dec_blocks_mem M ?c (write_at out bs mem) (out + k) (inp + k) (n - k) of (c, m) \<Rightarrow> (WC_OK, Some c, m)))"
    by (simp add: wc_AsconAEAD128_DecryptUpdate_mem_def b sel k(1) Let_def flip: ct_def x_def bs_def)
  have rhs: "wc_AsconAEAD128_DecryptUpdate M (Some a) (Some ?d) n
    = (if ?p = 0 then (case aead_decrypt_blocks M ?a ?d n of (c, e) \<Rightarrow> (WC_OK, Some c, e))
       else if ?p + k < 16 then (WC_OK, Some (?a\<lparr>astate := x, alastBlkSz := ?p + k\<rparr>), bs)
       else (case aead_decrypt_blocks M ?c (drop k ?d) (n - k) of (c, e) \<Rightarrow> (WC_OK, Some c, bs @ e)))"
    by (simp add: wc_AsconAEAD128_DecryptUpdate_def b sel k(1) ct' Let_def flip: x_def bs_def)
  note ov = overlap_step [OF assms(2) kn len]
  have full: "(case dec_blocks_mem M ?c (write_at out bs mem) (out + k) (inp + k) (n - k) of (c, m) \<Rightarrow> (WC_OK, Some c, m))
      = (case aead_decrypt_blocks M ?c (drop k ?d) (n - k) of (c, e) \<Rightarrow> (WC_OK, Some c, write_at out (bs @ e) mem))"
  proof -
    obtain c e where e: "aead_decrypt_blocks M ?c (drop k ?d) (n - k) = (c, e)" by fastforce
    have "length (drop k ?d) = n - k" using overlap_input(1) [OF assms(2) kn] by simp
    then have "length e = n - k"
      using e aead_decrypt_blocks_run [OF assms(1), of "n - k" "drop k ?d" ?c] by (auto simp: case_prod_unfold)
    moreover have "out + n \<le> length mem" using assms(2) by (simp add: overlap_ok_def)
    ultimately have "out + length (bs @ e) \<le> length mem" using len kn by simp
    from write_at_append [OF this]
    have "write_at (out + k) e (write_at out bs mem) = write_at out (bs @ e) mem" by (simp only: len)
    then show ?thesis by (simp only: dec_blocks_mem_eq [OF assms(1) ov(1)] ov(2) e prod.case)
  qed
  have whole: "(case dec_blocks_mem M ?a mem out inp n of (c, m) \<Rightarrow> (WC_OK, Some c, m))
      = (case aead_decrypt_blocks M ?a ?d n of (c, e) \<Rightarrow> (WC_OK, Some c, write_at out e mem))"
    by (simp only: dec_blocks_mem_eq [OF assms(1,2)] split_def fst_conv snd_conv)
  show ?thesis
    unfolding lhs rhs full whole by (cases "?p = 0"; cases "?p + k < 16") (simp_all add: split_def)
qed

end
