(* ===== verification/Small_Tools.thy ===== *)
theory Small_Tools
  imports Wc_Aead_Memory Record_Kat Kats Hmac_Oracle
begin

text \<open>
  The small test programs of \<open>tools/\<close> on the wolfSSL API: \<open>empty_ascon.c\<close>,
  \<open>ascon_roundtrip.c\<close>, \<open>ascon_inplace.c\<close> (one buffer for input and output, so it
  runs on the functions of \<open>Wc_Aead_Memory\<close>), and the \<open>main\<close> functions of
  \<open>ascon_record_kat.c\<close> and \<open>ascon_mask_kat.c\<close>. Local contexts are uninitialised
  memory, given as arguments; what a program prints and returns is the result.
\<close>

section \<open>Sealing and opening inside one memory\<close>

definition seal_mem :: "wc_misc \<Rightarrow> wc_AsconAEAD128 \<Rightarrow> u8 list \<Rightarrow> u8 list \<Rightarrow> u8 list \<Rightarrow> u8 list \<Rightarrow> nat \<Rightarrow> nat \<Rightarrow> nat
    \<Rightarrow> wc_ret + u8 list \<times> u8 list" where
  "seal_mem M g key nonce ad mem out inp n =
     (case aead_setup M g key nonce ad of Inl e \<Rightarrow> Inl e | Inr a \<Rightarrow>
      wc_try (wc_AsconAEAD128_EncryptUpdate_mem M a mem out (Some inp) n) (\<lambda>(a, mem).
      wc_try (wc_AsconAEAD128_EncryptFinal a PTR) (\<lambda>(a, tag). Inr (mem, tag))))"

definition open_mem :: "wc_misc \<Rightarrow> wc_AsconAEAD128 \<Rightarrow> u8 list \<Rightarrow> u8 list \<Rightarrow> u8 list \<Rightarrow> u8 list \<Rightarrow> nat \<Rightarrow> nat \<Rightarrow> nat
    \<Rightarrow> u8 list \<Rightarrow> wc_ret \<times> u8 list" where
  "open_mem M g key nonce ad mem out inp n tag =
     (case aead_setup M g key nonce ad of Inl e \<Rightarrow> (e, mem) | Inr a \<Rightarrow>
      (case wc_AsconAEAD128_DecryptUpdate_mem M a mem out (Some inp) n of (r, a, mem) \<Rightarrow>
        if r \<noteq> WC_OK then (r, mem) else (fst (wc_AsconAEAD128_DecryptFinal M a (Some tag)), mem)))"

lemma seal_mem_eq:
  assumes "misc_ok M" and "length key = 16" and "length nonce = 16" and "overlap_ok mem out inp n"
  shows "seal_mem M g key nonce ad mem out inp n
    = (case aead_seal key nonce ad (read_at inp n mem) of (ct, tag) \<Rightarrow> Inr (write_at out ct mem, tag))"
proof -
  let ?d = "read_at inp n mem"
  have len: "length ?d = n" using overlap_input(1) [OF assms(4) order_refl] .
  obtain ct tag where s: "aead_seal key nonce ad ?d = (ct, tag)" by fastforce
  obtain a where a: "aead_setup M g key nonce ad = Inr (Some a)" "aead_at key ASCON_AEAD128_NOTSET (aead_ready key nonce ad, 0) a"
    using aead_setup_ready [OF assms(1-3)] by blast
  have last: "alastBlkSz a < 16" using aead_at_cfg [OF a(2)] by simp
  have "encrypt_calls M g key nonce ad [?d] = Inr (ct, tag)"
    using encrypt_calls_seal [OF assms(1-3), of "[?d]"] s by simp
  then obtain b c where "wc_AsconAEAD128_EncryptUpdate M (Some a) (Some ?d) n = (WC_OK, b, ct)"
    and "wc_AsconAEAD128_EncryptFinal b PTR = (WC_OK, c, tag)"
    by (auto simp: encrypt_calls_def a(1) wc_try_Inr len split: sum.splits)
  then show ?thesis
    by (simp add: seal_mem_def a(1) EncryptUpdate_mem_eq [OF assms(1,4) last] s)
qed

lemma open_mem_eq:
  assumes "misc_ok M" and "length key = 16" and "length nonce = 16" and "length tag = 16" and "overlap_ok mem out inp n"
    and "aead_open key nonce ad (read_at inp n mem) tag = Some pt"
  shows "open_mem M g key nonce ad mem out inp n tag = (WC_OK, write_at out pt mem)"
proof -
  let ?d = "read_at inp n mem"
  have len: "length ?d = n" using overlap_input(1) [OF assms(5) order_refl] .
  obtain a where a: "aead_setup M g key nonce ad = Inr (Some a)" "aead_at key ASCON_AEAD128_NOTSET (aead_ready key nonce ad, 0) a"
    using aead_setup_ready [OF assms(1-3)] by blast
  have last: "alastBlkSz a < 16" using aead_at_cfg [OF a(2)] by simp
  have "decrypt_calls M g key nonce ad [?d] tag = Inr pt"
    using decrypt_calls_open [OF assms(1-4), of "[?d]"] assms(6) by simp
  then obtain b c where "wc_AsconAEAD128_DecryptUpdate M (Some a) (Some ?d) n = (WC_OK, b, pt)"
    and "wc_AsconAEAD128_DecryptFinal M b (Some tag) = (WC_OK, c)"
    by (auto simp: decrypt_calls_def a(1) wc_try_Inr len split: sum.splits)
  then show ?thesis
    by (simp add: open_mem_def a(1) DecryptUpdate_mem_eq [OF assms(1,5) last])
qed

text \<open>Opening in place what was sealed into \<open>out\<close>.\<close>

lemma open_mem_sealed:
  assumes "misc_ok M" and "length key = 16" and "length nonce = 16" and "overlap_ok mem out inp n"
    and "aead_seal key nonce ad (read_at inp n mem) = (ct, tag)"
  shows "open_mem M g' key nonce ad (write_at out ct mem) out out n tag = (WC_OK, write_at out (read_at inp n mem) mem)"
proof -
  let ?d = "read_at inp n mem" and ?m = "write_at out ct mem"
  have len: "length ?d = n" "length ct = n" "length tag = 16"
    using overlap_input(1) [OF assms(4) order_refl] aead_seal_length [OF assms(5)] by simp_all
  have out: "out + n \<le> length mem" using assms(4) by (simp add: overlap_ok_def)
  then have ov: "overlap_ok ?m out out n" using len(2) by (simp add: overlap_ok_def)
  have r: "read_at out n ?m = ct" using len(2) out by (auto simp: read_at_def write_at_def)
  have "aead_open key nonce ad (read_at out n ?m) tag = Some ?d" using assms(5) by (simp add: r aead_open_seal)
  from open_mem_eq [OF assms(1-3) len(3) ov this]
  have "open_mem M g' key nonce ad ?m out out n tag = (WC_OK, write_at out ?d ?m)" .
  moreover have "write_at out ?d ?m = write_at out ?d mem"
    using out len(1,2) by (intro nth_equalityI) (auto simp: nth_write_at)
  ultimately show ?thesis by simp
qed

section \<open>The programs\<close>

text \<open>
  The tools call the API without looking at most return codes: a call is its context
  afterwards. The key, nonce, associated data and text are the initialisers of the sources.
\<close>

definition setup_calls :: "wc_misc \<Rightarrow> wc_AsconAEAD128 \<Rightarrow> u8 list \<Rightarrow> u8 list \<Rightarrow> u8 list \<Rightarrow> wc_AsconAEAD128 option" where
  "setup_calls M g key nonce ad = (let
     a = snd (wc_AsconAEAD128_Init (Some g));
     a = snd (wc_AsconAEAD128_SetKey a (Some key));
     a = snd (wc_AsconAEAD128_SetNonce a (Some nonce))
   in snd (wc_AsconAEAD128_SetAD M a (Some ad) (length ad)))"

text \<open>\<open>ascon_inplace.c\<close>: the two codes whose union it prints, and the buffer \<open>b\<close> at the end.\<close>

definition inplace_k :: "u8 list" where "inplace_k = 1 # replicate 15 0"
definition inplace_n :: "u8 list" where "inplace_n = 2 # replicate 15 0"
definition inplace_ad :: "u8 list" where "inplace_ad = 3 # replicate 4 0"
definition inplace_b :: "u8 list" where "inplace_b = 4 # replicate 14 0"

definition ascon_inplace :: "wc_misc \<Rightarrow> wc_AsconAEAD128 \<Rightarrow> wc_AsconAEAD128 \<Rightarrow> (wc_ret \<times> wc_ret) \<times> u8 list" where
  "ascon_inplace M e d = (let
     e = setup_calls M e inplace_k inplace_n inplace_ad;
     (_, e, b) = wc_AsconAEAD128_EncryptUpdate_mem M e inplace_b 0 (Some 0) 15;
     (_, e, tag) = wc_AsconAEAD128_EncryptFinal e PTR;
     d = setup_calls M d inplace_k inplace_n inplace_ad;
     (r, d, b) = wc_AsconAEAD128_DecryptUpdate_mem M d b 0 (Some 0) 15;
     (r', d) = wc_AsconAEAD128_DecryptFinal M d (Some tag)
   in ((r, r'), b))"

text \<open>\<open>ascon_roundtrip.c\<close>: the codes of the encryption, of the decryption, and \<open>equal\<close>.\<close>

definition roundtrip_key :: "u8 list" where
  "roundtrip_key = [0x92, 0xdb, 0x1a, 0x56, 0xb7, 0x58, 0xda, 0x79, 0x3c, 0xcd, 0x6a, 0x51, 0x55, 0x74, 0xb6, 0xfb]"
definition roundtrip_nonce :: "u8 list" where
  "roundtrip_nonce = [0xe1, 0xc6, 0x21, 0x9f, 0x1d, 0xd5, 0x9e, 0x1a, 0x98, 0x53, 0xf4, 0xad, 0x0e, 0xb2, 0xa6, 0xc1]"
definition roundtrip_ad :: "u8 list" where "roundtrip_ad = [0x2e, 0, 0, 0, 0x1f]"
definition roundtrip_pt :: "u8 list" where
  "roundtrip_pt = [8, 0, 0, 2, 0, 2, 0, 0, 0, 0, 0, 2, 0, 0, 0x16]"

definition ascon_roundtrip :: "wc_misc \<Rightarrow> wc_AsconAEAD128 \<Rightarrow> wc_AsconAEAD128
    \<Rightarrow> (wc_ret \<times> wc_ret) \<times> (wc_ret \<times> wc_ret) \<times> bool" where
  "ascon_roundtrip M e d = (let
     e = setup_calls M e roundtrip_key roundtrip_nonce roundtrip_ad;
     (r1, e, ct) = wc_AsconAEAD128_EncryptUpdate M e (Some roundtrip_pt) 15;
     (r2, e, tag) = wc_AsconAEAD128_EncryptFinal e PTR;
     d = setup_calls M d roundtrip_key roundtrip_nonce roundtrip_ad;
     (r3, d, out) = wc_AsconAEAD128_DecryptUpdate M d (Some ct) 15;
     (r4, d) = wc_AsconAEAD128_DecryptFinal M d (Some tag)
   in ((r1, r2), (r3, r4), roundtrip_pt = out))"

text \<open>\<open>empty_ascon.c\<close>: the digest it prints.\<close>

definition empty_ascon :: "wc_AsconHash256 \<Rightarrow> u8 list" where
  "empty_ascon h = snd (snd (wc_AsconHash256_Final (snd (wc_AsconHash256_Init (Some h))) PTR))"

text \<open>
  \<open>main\<close> of \<open>ascon_record_kat.c\<close>: the exit code and what the cases print, None when one of
  them is undefined.
\<close>

definition record_kat_main :: "wc_misc \<Rightarrow> (wc_AsconAEAD128 \<Rightarrow> wc_AsconAEAD128) \<Rightarrow> wc_AsconAEAD128 \<Rightarrow> wc_AsconAEAD128
    \<Rightarrow> (nat \<times> (wc_ret + (u8 list \<times> u8 list) option) list) option" where
  "record_kat_main M ForceZero g g' = (let
     failed = (\<lambda>r. (case r of Inl _ \<Rightarrow> True | Inr None \<Rightarrow> True | Inr (Some _) \<Rightarrow> False))
   in case run_case M ForceZero g kat_key kat_iv 0 kat_aad kat_pt of
      None \<Rightarrow> None
    | Some caseA \<Rightarrow> (case run_case M ForceZero g' kat_key kat_iv 1 aadFull record_pt2 of
        None \<Rightarrow> None
      | Some caseB \<Rightarrow> Some (if failed caseA \<or> failed caseB then 1 else 0, [caseA, caseB])))"

text \<open>\<open>main\<close> of \<open>ascon_mask_kat.c\<close>: the exit code and the masks printed so far.\<close>

definition mask_kat_snkey :: "u8 list" where "mask_kat_snkey = map of_nat [0..<16]"
definition mask_kat_ct1 :: "u8 list" where "mask_kat_ct1 = map (\<lambda>i. of_nat (0x10 + i)) [0..<16]"
definition mask_kat_ct2 :: "u8 list" where "mask_kat_ct2 = map (\<lambda>i. of_nat (0x20 + i)) [0..<16]"

fun mask_kat_cases :: "wc_AsconAEAD128 list \<Rightarrow> u8 list list \<Rightarrow> nat \<times> u8 list list" where
  "mask_kat_cases (g # gs) (ct # cts) = (case mask_one g mask_kat_snkey ct of
     Inl _ \<Rightarrow> (1, [])
   | Inr m \<Rightarrow> (case mask_kat_cases gs cts of (rc, ms) \<Rightarrow> (rc, m # ms)))"
| "mask_kat_cases _ _ = (0, [])"

definition mask_kat_main :: "wc_AsconAEAD128 \<Rightarrow> wc_AsconAEAD128 \<Rightarrow> wc_AsconAEAD128 \<Rightarrow> nat \<times> u8 list list" where
  "mask_kat_main g g' g'' =
     mask_kat_cases [g, g', g''] [mask_kat_ct1, mask_kat_ct2, replicate 16 0]"

section \<open>What they print\<close>

lemma setup_calls_eq: "aead_setup M g key nonce ad = Inr a \<Longrightarrow> setup_calls M g key nonce ad = a"
  by (simp add: setup_calls_def aead_setup_def wc_try_def split: if_splits)

lemma ascon_inplace_restores:
  assumes "misc_ok M"
  shows "ascon_inplace M e d = ((WC_OK, WC_OK), inplace_b)"
proof -
  have len: "length inplace_k = 16" "length inplace_n = 16" and ov: "overlap_ok inplace_b 0 0 15"
    and all: "read_at 0 15 inplace_b = inplace_b" "write_at 0 inplace_b inplace_b = inplace_b"
    by (simp_all add: inplace_k_def inplace_n_def inplace_b_def overlap_ok_def read_at_def write_at_def)
  obtain b tag where s: "aead_seal inplace_k inplace_n inplace_ad (read_at 0 15 inplace_b) = (b, tag)" by fastforce
  have "seal_mem M e inplace_k inplace_n inplace_ad inplace_b 0 0 15 = Inr (write_at 0 b inplace_b, tag)"
    using seal_mem_eq [OF assms len ov] s by simp
  then obtain a x y where "aead_setup M e inplace_k inplace_n inplace_ad = Inr a"
    and "wc_AsconAEAD128_EncryptUpdate_mem M a inplace_b 0 (Some 0) 15 = (WC_OK, x, write_at 0 b inplace_b)"
    and "wc_AsconAEAD128_EncryptFinal x PTR = (WC_OK, y, tag)"
    by (auto simp: seal_mem_def wc_try_Inr split: sum.splits)
  moreover from open_mem_sealed [OF assms len ov s]
  have "open_mem M d inplace_k inplace_n inplace_ad (write_at 0 b inplace_b) 0 0 15 tag = (WC_OK, inplace_b)"
    by (simp add: all)
  then obtain a' x' where "aead_setup M d inplace_k inplace_n inplace_ad = Inr a'"
    and "wc_AsconAEAD128_DecryptUpdate_mem M a' (write_at 0 b inplace_b) 0 (Some 0) 15 = (WC_OK, x', inplace_b)"
    and "fst (wc_AsconAEAD128_DecryptFinal M x' (Some tag)) = WC_OK"
    using aead_setup_ready [OF assms len, of d inplace_ad]
    by (auto simp: open_mem_def split: prod.splits if_splits)
  ultimately show ?thesis
    by (simp add: ascon_inplace_def setup_calls_eq case_prod_unfold Let_def)
qed

lemma ascon_roundtrip_equal:
  assumes "misc_ok M"
  shows "ascon_roundtrip M e d = ((WC_OK, WC_OK), (WC_OK, WC_OK), True)"
proof -
  have len: "length roundtrip_key = 16" "length roundtrip_nonce = 16" "length roundtrip_pt = 15"
    by (simp_all add: roundtrip_key_def roundtrip_nonce_def roundtrip_pt_def)
  obtain ct tag where s: "aead_seal roundtrip_key roundtrip_nonce roundtrip_ad roundtrip_pt = (ct, tag)" by fastforce
  have ct: "length ct = 15" "length tag = 16" using aead_seal_length [OF s] len by simp_all
  have "encrypt_calls M e roundtrip_key roundtrip_nonce roundtrip_ad [roundtrip_pt] = Inr (ct, tag)"
    using encrypt_calls_seal [OF assms len(1,2), of "[roundtrip_pt]"] s by simp
  then obtain a x y where "aead_setup M e roundtrip_key roundtrip_nonce roundtrip_ad = Inr a"
    and "wc_AsconAEAD128_EncryptUpdate M a (Some roundtrip_pt) 15 = (WC_OK, x, ct)"
    and "wc_AsconAEAD128_EncryptFinal x PTR = (WC_OK, y, tag)"
    by (auto simp: encrypt_calls_def wc_try_Inr len(3) split: sum.splits)
  moreover have "aead_open roundtrip_key roundtrip_nonce roundtrip_ad ct tag = Some roundtrip_pt"
    using s by (simp add: aead_open_seal)
  then have "decrypt_calls M d roundtrip_key roundtrip_nonce roundtrip_ad [ct] tag = Inr roundtrip_pt"
    using decrypt_calls_open [OF assms len(1,2) ct(2), of "[ct]"] by simp
  then obtain a' x' y' where "aead_setup M d roundtrip_key roundtrip_nonce roundtrip_ad = Inr a'"
    and "wc_AsconAEAD128_DecryptUpdate M a' (Some ct) 15 = (WC_OK, x', roundtrip_pt)"
    and "wc_AsconAEAD128_DecryptFinal M x' (Some tag) = (WC_OK, y')"
    by (auto simp: decrypt_calls_def wc_try_Inr ct(1) split: sum.splits)
  ultimately show ?thesis
    by (simp add: ascon_roundtrip_def setup_calls_eq Let_def)
qed

lemma empty_ascon_eq: "empty_ascon h = hash_spec []"
  by (simp add: empty_ascon_def h_init wc_AsconHash256_Final_absorbed [OF hash_absorbed_init])

lemma mask_kat_main_eq:
  "mask_kat_main g g' g'' = (0, map (\<lambda>ct. snd (mask_prf_derive (Some mask_kat_snkey) (Some ct) PTR MASK_PRF_DOMSEP_RNDIMSK))
     [mask_kat_ct1, mask_kat_ct2, replicate 16 0])"
  by (simp add: mask_kat_main_def mask_one_derive mask_kat_snkey_def mask_kat_ct1_def mask_kat_ct2_def)

lemma mask_kat_distinct:
  "mask_kat_ct1 \<noteq> mask_kat_ct2" "mask_kat_ct1 \<noteq> replicate 16 0" "mask_kat_ct2 \<noteq> replicate 16 0"
proof -
  have "hd mask_kat_ct1 = 0x10" "hd mask_kat_ct2 = 0x20" "hd (replicate 16 (0 :: u8)) = 0"
    and "(0x10 :: u8) \<noteq> 0x20" "(0x10 :: u8) \<noteq> 0" "(0x20 :: u8) \<noteq> 0"
    by (simp_all add: mask_kat_ct1_def mask_kat_ct2_def upt_rec)
  then show "mask_kat_ct1 \<noteq> mask_kat_ct2" "mask_kat_ct1 \<noteq> replicate 16 0" "mask_kat_ct2 \<noteq> replicate 16 0"
    by metis+
qed

lemma record_kat_main_eq:
  assumes "misc_ok M"
  shows "record_kat_main M ForceZero g g' = Some (0,
    [Inr (Some (aead_seal kat_key kat_iv kat_aad kat_pt)),
     Inr (Some (aead_seal kat_key (build_nonce kat_iv 1) aadFull record_pt2))])"
proof -
  have "length kat_pt \<le> 64" "length record_pt2 \<le> 64" by (simp_all add: kat_pt_def record_pt2_def)
  then show ?thesis
    by (simp add: record_kat_main_def run_case_seal [OF assms length_kat] kat_nonce Let_def)
qed

end
