(* ===== verification/Ssl_Servers.thy ===== *)
theory Ssl_Servers
  imports Ssl_Calls
begin

text \<open>
  The servers: \<open>dtls13_psk_server.c\<close>, \<open>dtls_std_server.c\<close>, \<open>tls13_psk_server.c\<close>,
  \<open>dtls13_cert_server.c\<close>, \<open>tls13_cert_server.c\<close>, and the datagram receiver
  \<open>raw_udp_recv.c\<close>. A program takes the libraries, the initial content of its stack buffer
  and the command line (with the program name), and yields the exit code.
\<close>

section \<open>The servers with a pre-shared key\<close>

definition echo_reply :: "ssl_lib \<Rightarrow> int \<Rightarrow> int \<Rightarrow> u8 list \<Rightarrow> unit ssl_prog" where
  "echo_reply L ssl rv buf = do {
     say L ''got: %s'' [PBuf buf];
     run (env L) (wolfSSL_write ssl (take (nat rv) buf))
   }"

function echo_loop :: "ssl_lib \<Rightarrow> int \<Rightarrow> int \<Rightarrow> int \<Rightarrow> int \<Rightarrow> u8 list \<Rightarrow> unit ssl_prog" where
  "echo_loop L ssl limit msgLoop i buf =
     (if i < msgLoop then do {
        (rv, buf) \<leftarrow> read_loop L ssl limit 0 buf;
        (if 0 < rv then echo_reply L ssl rv buf
         else do {
           err \<leftarrow> rcall (env L) (wolfSSL_get_error ssl rv);
           say L ''read fail [%d], err %d'' [PInt i, PInt err]
         });
        echo_loop L ssl limit msgLoop (i + 1) buf
      }
      else ret ())"
  by pat_completeness auto
termination
  by (relation "measure (\<lambda>(L, ssl, limit, msgLoop, i, buf). nat (msgLoop - i))") auto

declare echo_loop.simps [simp del]

text \<open>
  \<open>main\<close> of \<open>dtls13_psk_server.c\<close> and of \<open>dtls_std_server.c\<close>, which differ in the
  cipher suite, the size of the buffer and the default number of messages.
\<close>

definition dtls_psk_server_main :: "string \<Rightarrow> nat \<Rightarrow> int \<Rightarrow> ssl_lib \<Rightarrow> (nat \<Rightarrow> u8) \<Rightarrow> string list \<Rightarrow> int ssl_prog" where
  "dtls_psk_server_main suite bufSize msgDefault L stack argv = (let
     shortTimeout = (2 < length argv \<and> argv ! 2 = ''--short-timeout'');
     port = (if 1 < length argv then atoi (argv ! 1) else 11111)
   in do {
     startup L;
     ctx \<leftarrow> rcall (env L) (wolfSSL_CTX_new wolfDTLSv1_3_server_method);
     if ctx = 0 then fail L ''ctx fail'' else do {
     run (env L) (wolfSSL_CTX_set_psk_server_tls13_callback ctx);
     run (env L) (wolfSSL_CTX_set_psk_callback_ctx ctx suite);
     ok \<leftarrow> rcall (env L) (wolfSSL_CTX_set_cipher_list ctx suite);
     if ok \<noteq> WOLFSSL_SUCCESS L then fail L ''cipher list fail'' else do {
     sock \<leftarrow> udp_socket L shortTimeout;
     b \<leftarrow> rcall (env L) (bind_sock sock \<lparr>sin_port = to_port port, sin_addr = INADDR_ANY\<rparr>);
     if b < 0 then fail L ''bind fail'' else do {
     ssl \<leftarrow> rcall (env L) (wolfSSL_new ctx);
     run (env L) (wolfSSL_set_fd ssl (to_int sock));
     only_if shortTimeout (run (env L) (wolfSSL_dtls_set_using_nonblock ssl 1));
     say L ''listening on port %d sock=%llu'' [PInt port, PInt sock];
     up \<leftarrow> accept_loop L ssl (if shortTimeout then 20 else 200) 0;
     if \<not> up then ret 1 else do {
     handshake_ok L ssl;
     echo_loop L ssl (if shortTimeout then 20 else 100)
       (if 3 < length argv then atoi (argv ! 3) else msgDefault) 0 (map stack [0..<bufSize]);
     teardown L ssl ctx sock }}}}})"

definition dtls13_psk_server :: "ssl_lib \<Rightarrow> (nat \<Rightarrow> u8) \<Rightarrow> string list \<Rightarrow> int ssl_prog" where
  "dtls13_psk_server = dtls_psk_server_main ascon_suite 1200 30"

definition dtls_std_server :: "ssl_lib \<Rightarrow> (nat \<Rightarrow> u8) \<Rightarrow> string list \<Rightarrow> int ssl_prog" where
  "dtls_std_server = dtls_psk_server_main std_suite 64 20"

text \<open>The key callbacks of the three servers.\<close>

definition dtls13_server_cb :: "string option \<Rightarrow> string \<Rightarrow> nat \<times> u8 list \<times> string option" where
  "dtls13_server_cb = psk_server_cb ascon_suite"

definition dtls_std_server_cb :: "string option \<Rightarrow> string \<Rightarrow> nat \<times> u8 list \<times> string option" where
  "dtls_std_server_cb = psk_server_cb std_suite"

definition tls13_server_cb :: "string option \<Rightarrow> string \<Rightarrow> nat \<times> u8 list \<times> string option" where
  "tls13_server_cb = psk_server_cb ascon_suite"

text \<open>\<open>tls13_psk_server.c\<close>: over TCP, one connection; the listening socket is closed early.\<close>

definition tls13_psk_server :: "ssl_lib \<Rightarrow> (nat \<Rightarrow> u8) \<Rightarrow> string list \<Rightarrow> int ssl_prog" where
  "tls13_psk_server L stack argv = (let
     port = (if 1 < length argv then atoi (argv ! 1) else 11111)
   in do {
     startup L;
     ctx \<leftarrow> rcall (env L) (wolfSSL_CTX_new wolfTLSv1_3_server_method);
     if ctx = 0 then fail L ''ctx fail'' else do {
     run (env L) (wolfSSL_CTX_set_psk_server_tls13_callback ctx);
     run (env L) (wolfSSL_CTX_set_psk_callback_ctx ctx ascon_suite);
     ok \<leftarrow> rcall (env L) (wolfSSL_CTX_set_cipher_list ctx ascon_suite);
     if ok \<noteq> WOLFSSL_SUCCESS L then fail L ''cipher list fail'' else do {
     lsock \<leftarrow> rcall (env L) (socket SOCK_STREAM PROTOCOL_0);
     b \<leftarrow> rcall (env L) (bind_sock lsock \<lparr>sin_port = to_port port, sin_addr = INADDR_ANY\<rparr>);
     if b < 0 then fail L ''bind fail'' else do {
     l \<leftarrow> rcall (env L) (listen_sock lsock 1);
     if l < 0 then fail L ''listen fail'' else do {
     say L ''listening on port %d'' [PInt port];
     sock \<leftarrow> rcall (env L) (accept_sock lsock);
     if sock = INVALID_SOCKET L then fail L ''accept fail'' else do {
     run (env L) (closesocket lsock);
     ssl \<leftarrow> rcall (env L) (wolfSSL_new ctx);
     run (env L) (wolfSSL_set_fd ssl (to_int sock));
     up \<leftarrow> accept_loop L ssl 200 0;
     if \<not> up then ret 1 else do {
     handshake_ok L ssl;
     echo_loop L ssl 100 (if 2 < length argv then atoi (argv ! 2) else 20) 0 (map stack [0..<64]);
     teardown L ssl ctx sock }}}}}}})"

section \<open>The servers with certificates\<close>

definition server_certs :: "int \<Rightarrow> (ssl_call \<times> string) list" where
  "server_certs ctx =
    [(wolfSSL_CTX_use_certificate_chain_file ctx ''wolfssl/certs/server-cert.pem'', ''cert load fail''),
     (wolfSSL_CTX_use_PrivateKey_file ctx ''wolfssl/certs/server-key.pem'', ''key load fail''),
     (wolfSSL_CTX_check_private_key ctx, ''key mismatch''),
     (wolfSSL_CTX_load_verify_locations ctx ''wolfssl/certs/ca-cert.pem'', ''ca load fail''),
     (wolfSSL_CTX_load_verify_locations ctx ''wolfssl/certs/client-ca-cert.pem'', ''client-ca load fail'')]"

text \<open>One message is echoed.\<close>

definition echo_once :: "ssl_lib \<Rightarrow> int \<Rightarrow> int \<Rightarrow> u8 list \<Rightarrow> unit ssl_prog" where
  "echo_once L ssl limit buf = do {
     (rv, buf) \<leftarrow> read_loop L ssl limit 0 buf;
     if 0 < rv then echo_reply L ssl rv buf
     else do {
       err \<leftarrow> rcall (env L) (wolfSSL_get_error ssl rv);
       say L ''read fail, err %d'' [PInt err]
     }
   }"

definition dtls13_cert_server :: "ssl_lib \<Rightarrow> (nat \<Rightarrow> u8) \<Rightarrow> string list \<Rightarrow> int ssl_prog" where
  "dtls13_cert_server L stack argv = (let
     shortTimeout = (2 < length argv \<and> argv ! 2 = ''--short-timeout'');
     port = (if 1 < length argv then atoi (argv ! 1) else 11111)
   in do {
     startup L;
     ctx \<leftarrow> rcall (env L) (wolfSSL_CTX_new wolfDTLSv1_3_server_method);
     if ctx = 0 then fail L ''ctx fail'' else do {
     loaded \<leftarrow> checked L (server_certs ctx);
     if \<not> loaded then ret 1 else do {
     run (env L) (wolfSSL_CTX_set_verify ctx [WOLFSSL_VERIFY_PEER, WOLFSSL_VERIFY_FAIL_IF_NO_PEER_CERT]);
     ok \<leftarrow> rcall (env L) (wolfSSL_CTX_set_cipher_list ctx ascon_suite);
     if ok \<noteq> WOLFSSL_SUCCESS L then fail L ''cipher list fail'' else do {
     sock \<leftarrow> udp_socket L shortTimeout;
     b \<leftarrow> rcall (env L) (bind_sock sock \<lparr>sin_port = to_port port, sin_addr = INADDR_ANY\<rparr>);
     if b < 0 then fail L ''bind fail'' else do {
     ssl \<leftarrow> rcall (env L) (wolfSSL_new ctx);
     run (env L) (wolfSSL_set_fd ssl (to_int sock));
     only_if shortTimeout (run (env L) (wolfSSL_dtls_set_using_nonblock ssl 1));
     say L ''listening on port %d sock=%llu'' [PInt port, PInt sock];
     up \<leftarrow> accept_loop L ssl (if shortTimeout then 20 else 200) 0;
     if \<not> up then ret 1 else do {
     handshake_ok L ssl;
     echo_once L ssl (if shortTimeout then 20 else 100) (map stack [0..<64]);
     teardown L ssl ctx sock }}}}}})"

text \<open>Over TCP: one attempt at the handshake, and both sockets are closed at the end.\<close>

definition tls13_cert_server :: "ssl_lib \<Rightarrow> (nat \<Rightarrow> u8) \<Rightarrow> string list \<Rightarrow> int ssl_prog" where
  "tls13_cert_server L stack argv = (let
     port = (if 1 < length argv then atoi (argv ! 1) else 11111)
   in do {
     startup L;
     ctx \<leftarrow> rcall (env L) (wolfSSL_CTX_new wolfTLSv1_3_server_method);
     if ctx = 0 then fail L ''ctx fail'' else do {
     loaded \<leftarrow> checked L (server_certs ctx);
     if \<not> loaded then ret 1 else do {
     run (env L) (wolfSSL_CTX_set_verify ctx [WOLFSSL_VERIFY_PEER, WOLFSSL_VERIFY_FAIL_IF_NO_PEER_CERT]);
     ok \<leftarrow> rcall (env L) (wolfSSL_CTX_set_cipher_list ctx ascon_suite);
     if ok \<noteq> WOLFSSL_SUCCESS L then fail L ''cipher list fail'' else do {
     sock \<leftarrow> rcall (env L) (socket SOCK_STREAM IPPROTO_TCP);
     if sock = INVALID_SOCKET L then fail L ''socket fail'' else do {
     b \<leftarrow> rcall (env L) (bind_sock sock \<lparr>sin_port = to_port port, sin_addr = INADDR_ANY\<rparr>);
     if b < 0 then fail L ''bind fail'' else do {
     l \<leftarrow> rcall (env L) (listen_sock sock 1);
     if l < 0 then fail L ''listen fail'' else do {
     csock \<leftarrow> rcall (env L) (accept_sock sock);
     if csock = INVALID_SOCKET L then fail L ''accept fail'' else do {
     say L ''accepted on port %d sock=%llu'' [PInt port, PInt csock];
     ssl \<leftarrow> rcall (env L) (wolfSSL_new ctx);
     run (env L) (wolfSSL_set_fd ssl (to_int csock));
     rv \<leftarrow> rcall (env L) (wolfSSL_accept ssl);
     if rv \<noteq> WOLFSSL_SUCCESS L then do { accept_failed L ssl rv; ret 1 } else do {
     handshake_ok L ssl;
     echo_once L ssl 100 (map stack [0..<64]);
     run (env L) (wolfSSL_shutdown ssl);
     run (env L) (wolfSSL_free ssl);
     run (env L) (wolfSSL_CTX_free ctx);
     run (env L) wolfSSL_Cleanup;
     run (env L) (closesocket csock);
     run (env L) (closesocket sock);
     run (env L) WSACleanup;
     ret 0 }}}}}}}}})"

section \<open>The datagram receiver\<close>

definition raw_udp_recv :: "ssl_lib \<Rightarrow> string list \<Rightarrow> int ssl_prog" where
  "raw_udp_recv L argv = (let
     port = (if 1 < length argv then atoi (argv ! 1) else 11180)
   in do {
     run (env L) (WSAStartup 2 2);
     s \<leftarrow> rcall (env L) (socket SOCK_DGRAM IPPROTO_UDP);
     b \<leftarrow> rcall (env L) (bind_sock s \<lparr>sin_port = to_port port, sin_addr = INADDR_ANY\<rparr>);
     if b < 0
     then do {
       e \<leftarrow> rcall (env L) WSAGetLastError;
       say L ''bind fail %d'' [PInt e];
       ret 1
     }
     else do {
       say L ''raw receiver on %d'' [PInt port];
       n \<leftarrow> rcall (env L) (recvfrom s 1500);
       e \<leftarrow> rcall (env L) WSAGetLastError;
       say L ''recvfrom ret %d err %d'' [PInt n, PInt e];
       run (env L) (closesocket s);
       ret 0
     }
   })"

end
