(* ===== verification/Ssl_Clients.thy ===== *)
theory Ssl_Clients
  imports Ssl_Calls
begin

text \<open>
  The clients: \<open>dtls13_psk_client.c\<close> and \<open>dtls_std_client.c\<close> (which differ in the cipher
  suite), \<open>dtls13_cert_client.c\<close>, \<open>tls13_cert_client.c\<close>, and the check of the cipher suite
  name \<open>suite_test.c\<close>.
\<close>

section \<open>The clients with a pre-shared key\<close>

text \<open>The command line from \<open>argv[3]\<close> on: \<open>shortTimeout\<close>, \<open>msgCount\<close>, \<open>msgSize\<close>.\<close>

fun client_args :: "string list \<Rightarrow> bool \<times> int \<times> int \<Rightarrow> bool \<times> int \<times> int" where
  "client_args [] opts = opts"
| "client_args (a # rest) (shortTimeout, msgCount, msgSize) =
     (if a = ''--short-timeout'' then client_args rest (True, msgCount, msgSize)
      else if a = ''--size'' \<and> rest \<noteq> [] then client_args (tl rest) (shortTimeout, msgCount, atoi (hd rest))
      else if a = ''--msgs'' \<and> rest \<noteq> [] then client_args (tl rest) (shortTimeout, atoi (hd rest), msgSize)
      else client_args rest (shortTimeout, atoi a, msgSize))"

definition client_options :: "string list \<Rightarrow> bool \<times> int \<times> int" where
  "client_options argv = (let
     (shortTimeout, msgCount, msgSize) = client_args (drop 3 argv) (False, 1, 32);
     msgCount = (if msgCount < 1 then 1 else msgCount);
     msgSize = (if msgSize < 1 then 1 else msgSize);
     msgSize = (if 1080 < msgSize then 1080 else msgSize)
   in (shortTimeout, msgCount, msgSize))"

definition client_payload :: "int \<Rightarrow> u8 list" where
  "client_payload msgSize = map (\<lambda>j. of_nat (65 + j mod 26)) [0..<nat msgSize]"

function message_loop :: "ssl_lib \<Rightarrow> int \<Rightarrow> int \<Rightarrow> int \<Rightarrow> int \<Rightarrow> int \<Rightarrow> u8 list \<Rightarrow> unit ssl_prog" where
  "message_loop L ssl limit msgCount msgSize i buf =
     (if i < msgCount then do {
        payload \<leftarrow> rcall (env L) (malloc (msgSize + 1));
        run (env L) (wolfSSL_write ssl (client_payload msgSize));
        run (env L) (Sleep 20);
        (rv, buf) \<leftarrow> read_loop L ssl limit 0 buf;
        only_if (0 < rv) (say L ''echo ok [%d]: %.*s'' [PInt i, PPrefix rv buf]);
        run (env L) (free payload);
        message_loop L ssl limit msgCount msgSize (i + 1) buf
      }
      else ret ())"
  by pat_completeness auto
termination
  by (relation "measure (\<lambda>(L, ssl, limit, msgCount, msgSize, i, buf). nat (msgCount - i))") auto

declare message_loop.simps [simp del]

definition dtls_psk_client_main :: "string \<Rightarrow> ssl_lib \<Rightarrow> (nat \<Rightarrow> u8) \<Rightarrow> string list \<Rightarrow> int ssl_prog" where
  "dtls_psk_client_main suite L stack argv = (let
     (shortTimeout, msgCount, msgSize) = client_options argv;
     (host, port) = (if 2 < length argv then (argv ! 1, atoi (argv ! 2)) else (''127.0.0.1'', 11111))
   in do {
     startup L;
     ctx \<leftarrow> rcall (env L) (wolfSSL_CTX_new wolfDTLSv1_3_client_method);
     if ctx = 0 then fail L ''ctx fail'' else do {
     run (env L) (wolfSSL_CTX_set_psk_client_callback ctx);
     ok \<leftarrow> rcall (env L) (wolfSSL_CTX_set_cipher_list ctx suite);
     if ok \<noteq> WOLFSSL_SUCCESS L then fail L ''cipher list fail'' else do {
     sock \<leftarrow> udp_socket L shortTimeout;
     c \<leftarrow> rcall (env L) (connect_sock sock \<lparr>sin_port = to_port port, sin_addr = inet_addr host\<rparr>);
     if c < 0 then fail L ''connect fail'' else do {
     ssl \<leftarrow> rcall (env L) (wolfSSL_new ctx);
     run (env L) (wolfSSL_set_fd ssl (to_int sock));
     only_if shortTimeout (run (env L) (wolfSSL_dtls_set_using_nonblock ssl 1));
     up \<leftarrow> client_handshake L ssl;
     if \<not> up then ret 1 else do {
     message_loop L ssl (if shortTimeout then 10 else 100) msgCount msgSize 0 (map stack [0..<1100]);
     teardown L ssl ctx sock }}}}})"

definition dtls13_psk_client :: "ssl_lib \<Rightarrow> (nat \<Rightarrow> u8) \<Rightarrow> string list \<Rightarrow> int ssl_prog" where
  "dtls13_psk_client = dtls_psk_client_main ascon_suite"

definition dtls_std_client :: "ssl_lib \<Rightarrow> (nat \<Rightarrow> u8) \<Rightarrow> string list \<Rightarrow> int ssl_prog" where
  "dtls_std_client = dtls_psk_client_main std_suite"

text \<open>The copy of the key callback.\<close>

definition dtls_std_client_cb :: "nat \<Rightarrow> nat \<Rightarrow> nat \<times> u8 list \<times> char list" where
  "dtls_std_client_cb = psk_client_cb"

section \<open>The clients with certificates\<close>

definition client_certs :: "int \<Rightarrow> (ssl_call \<times> string) list" where
  "client_certs ctx =
    [(wolfSSL_CTX_use_certificate_chain_file ctx ''wolfssl/certs/client-cert.pem'', ''cert load fail''),
     (wolfSSL_CTX_use_PrivateKey_file ctx ''wolfssl/certs/client-key.pem'', ''key load fail''),
     (wolfSSL_CTX_load_verify_locations ctx ''wolfssl/certs/ca-cert.pem'', ''ca load fail'')]"

definition cert_message :: "u8 list" where
  "cert_message = c_bytes ''ascon-dtls cert message''"

definition cert_exchange :: "ssl_lib \<Rightarrow> int \<Rightarrow> int \<Rightarrow> u8 list \<Rightarrow> unit ssl_prog" where
  "cert_exchange L ssl limit buf = do {
     run (env L) (wolfSSL_write ssl cert_message);
     (rv, buf) \<leftarrow> read_loop L ssl limit 0 buf;
     if 0 < rv then say L ''echo ok: %s'' [PBuf buf]
     else do {
       err \<leftarrow> rcall (env L) (wolfSSL_get_error ssl rv);
       say L ''echo fail, err %d'' [PInt err]
     }
   }"

definition dtls13_cert_client :: "ssl_lib \<Rightarrow> (nat \<Rightarrow> u8) \<Rightarrow> string list \<Rightarrow> int ssl_prog" where
  "dtls13_cert_client L stack argv = (let
     shortTimeout = (3 < length argv \<and> argv ! 3 = ''--short-timeout'');
     (host, port) = (if 2 < length argv then (argv ! 1, atoi (argv ! 2)) else (''127.0.0.1'', 11111))
   in do {
     startup L;
     ctx \<leftarrow> rcall (env L) (wolfSSL_CTX_new wolfDTLSv1_3_client_method);
     if ctx = 0 then fail L ''ctx fail'' else do {
     loaded \<leftarrow> checked L (client_certs ctx);
     if \<not> loaded then ret 1 else do {
     run (env L) (wolfSSL_CTX_set_verify ctx [WOLFSSL_VERIFY_PEER]);
     ok \<leftarrow> rcall (env L) (wolfSSL_CTX_set_cipher_list ctx ascon_suite);
     if ok \<noteq> WOLFSSL_SUCCESS L then fail L ''cipher list fail'' else do {
     sock \<leftarrow> udp_socket L shortTimeout;
     c \<leftarrow> rcall (env L) (connect_sock sock \<lparr>sin_port = to_port port, sin_addr = inet_addr host\<rparr>);
     if c < 0 then fail L ''connect fail'' else do {
     ssl \<leftarrow> rcall (env L) (wolfSSL_new ctx);
     run (env L) (wolfSSL_set_fd ssl (to_int sock));
     only_if shortTimeout (run (env L) (wolfSSL_dtls_set_using_nonblock ssl 1));
     up \<leftarrow> client_handshake L ssl;
     if \<not> up then ret 1 else do {
     cert_exchange L ssl (if shortTimeout then 10 else 100) (map stack [0..<64]);
     teardown L ssl ctx sock }}}}}})"

definition tls13_cert_client :: "ssl_lib \<Rightarrow> (nat \<Rightarrow> u8) \<Rightarrow> string list \<Rightarrow> int ssl_prog" where
  "tls13_cert_client L stack argv = (let
     (host, port) = (if 2 < length argv then (argv ! 1, atoi (argv ! 2)) else (''127.0.0.1'', 11111))
   in do {
     startup L;
     ctx \<leftarrow> rcall (env L) (wolfSSL_CTX_new wolfTLSv1_3_client_method);
     if ctx = 0 then fail L ''ctx fail'' else do {
     loaded \<leftarrow> checked L (client_certs ctx);
     if \<not> loaded then ret 1 else do {
     run (env L) (wolfSSL_CTX_set_verify ctx [WOLFSSL_VERIFY_PEER]);
     ok \<leftarrow> rcall (env L) (wolfSSL_CTX_set_cipher_list ctx ascon_suite);
     if ok \<noteq> WOLFSSL_SUCCESS L then fail L ''cipher list fail'' else do {
     sock \<leftarrow> rcall (env L) (socket SOCK_STREAM IPPROTO_TCP);
     if sock = INVALID_SOCKET L then fail L ''socket fail'' else do {
     c \<leftarrow> rcall (env L) (connect_sock sock \<lparr>sin_port = to_port port, sin_addr = inet_addr host\<rparr>);
     if c < 0 then fail L ''connect fail'' else do {
     ssl \<leftarrow> rcall (env L) (wolfSSL_new ctx);
     run (env L) (wolfSSL_set_fd ssl (to_int sock));
     up \<leftarrow> client_handshake L ssl;
     if \<not> up then ret 1 else do {
     cert_exchange L ssl 100 (map stack [0..<64]);
     teardown L ssl ctx sock }}}}}}})"

section \<open>The cipher suite test\<close>

definition suite_test :: "ssl_lib \<Rightarrow> int ssl_prog" where
  "suite_test L = do {
     run (env L) wolfSSL_Init;
     ctx \<leftarrow> rcall (env L) (wolfSSL_CTX_new wolfDTLSv1_3_client_method);
     if ctx = 0 then fail L ''ctx fail'' else do {
     rv \<leftarrow> rcall (env L) (wolfSSL_CTX_set_cipher_list ctx ascon_suite);
     say L ''set_cipher_list ret: %d'' [PInt rv];
     run (env L) (wolfSSL_CTX_free ctx);
     run (env L) wolfSSL_Cleanup;
     ret 0 }
   }"

end
