(* ===== verification/Ssl_Sessions.thy ===== *)
theory Ssl_Sessions
  imports Ssl_Servers Ssl_Clients
begin

text \<open>
  What the demonstration programs do with the libraries, whatever these answer: the life of
  a session as a monitor that every program must satisfy, what the servers echo and the
  clients send, and the bounds of the retry loops.
\<close>

section \<open>The life of a session\<close>

text \<open>
  What has been done successfully so far; \<open>s_hs\<close> records that some handshake has succeeded
  and is never taken back. A session is created only when the suite and all
  credentials have been accepted; data moves only on a session whose handshake succeeded;
  a session is freed before its context.
\<close>

datatype credential =
    Psk_Server | Psk_Client
  | Chain string | Private_Key string | Key_Checked | Trusted string
  | Verify "verify_flag list"

record session =
  s_ctx :: "int option"
  s_suite :: "string option"
  s_creds :: "credential list"
  s_ssl :: "int option"
  s_fd :: bool
  s_up :: bool
  s_hs :: bool

definition session_start :: session where
  "session_start = \<lparr>s_ctx = None, s_suite = None, s_creds = [], s_ssl = None, s_fd = False, s_up = False, s_hs = False\<rparr>"

definition gain :: "session \<Rightarrow> int \<Rightarrow> bool \<Rightarrow> credential \<Rightarrow> session option" where
  "gain s ctx ok c = (if s_ctx s = Some ctx then Some (if ok then s\<lparr>s_creds := c # s_creds s\<rparr> else s) else None)"

definition on_session :: "session \<Rightarrow> int \<Rightarrow> bool \<Rightarrow> session \<Rightarrow> session option" where
  "on_session s ssl up t = (if s_ssl s = Some ssl \<and> s_fd s \<and> s_up s = up then Some t else None)"

definition session_step :: "ssl_lib \<Rightarrow> string \<Rightarrow> credential list \<Rightarrow> (session, ssl_call) monitor" where
  "session_step L suite need s e = (let ok = (rc (snd e) = WOLFSSL_SUCCESS L) in case fst e of
     wolfSSL_CTX_new _ \<Rightarrow> if s_ctx s = None then Some (s\<lparr>s_ctx := (if rc (snd e) = 0 then None else Some (rc (snd e)))\<rparr>) else None
   | wolfSSL_CTX_set_psk_server_tls13_callback ctx \<Rightarrow> gain s ctx True Psk_Server
   | wolfSSL_CTX_set_psk_client_callback ctx \<Rightarrow> gain s ctx True Psk_Client
   | wolfSSL_CTX_use_certificate_chain_file ctx f \<Rightarrow> gain s ctx ok (Chain f)
   | wolfSSL_CTX_use_PrivateKey_file ctx f \<Rightarrow> gain s ctx ok (Private_Key f)
   | wolfSSL_CTX_check_private_key ctx \<Rightarrow> gain s ctx ok Key_Checked
   | wolfSSL_CTX_load_verify_locations ctx f \<Rightarrow> gain s ctx ok (Trusted f)
   | wolfSSL_CTX_set_verify ctx fl \<Rightarrow> gain s ctx True (Verify fl)
   | wolfSSL_CTX_set_cipher_list ctx str \<Rightarrow>
       if s_ctx s = Some ctx then Some (if ok then s\<lparr>s_suite := Some str\<rparr> else s) else None
   | wolfSSL_new ctx \<Rightarrow>
       if s_ctx s = Some ctx \<and> s_ssl s = None \<and> s_suite s = Some suite \<and> set need \<subseteq> set (s_creds s)
       then Some (s\<lparr>s_ssl := Some (rc (snd e))\<rparr>) else None
   | wolfSSL_set_fd ssl _ \<Rightarrow> if s_ssl s = Some ssl then Some (s\<lparr>s_fd := True\<rparr>) else None
   | wolfSSL_accept ssl \<Rightarrow> on_session s ssl False (s\<lparr>s_up := ok, s_hs := s_hs s \<or> ok\<rparr>)
   | wolfSSL_connect ssl \<Rightarrow> on_session s ssl False (s\<lparr>s_up := ok, s_hs := s_hs s \<or> ok\<rparr>)
   | wolfSSL_read ssl _ \<Rightarrow> on_session s ssl True s
   | wolfSSL_write ssl _ \<Rightarrow> on_session s ssl True s
   | wolfSSL_shutdown ssl \<Rightarrow> on_session s ssl True s
   | wolfSSL_free ssl \<Rightarrow> on_session s ssl True (s\<lparr>s_ssl := None, s_fd := False, s_up := False\<rparr>)
   | wolfSSL_CTX_free ctx \<Rightarrow>
       if s_ctx s = Some ctx \<and> s_ssl s = None then Some (s\<lparr>s_ctx := None\<rparr>) else None
   | _ \<Rightarrow> Some s)"

lemmas session_simps = session_step_def gain_def on_session_def

text \<open>
  The promise of a program: no call is out of place; it exits with 0 or 1; with 0 a
  handshake has succeeded and session and context are freed, with 1 no handshake has
  succeeded at any time, so no data was exchanged.
\<close>

definition keeps_session :: "ssl_lib \<Rightarrow> string \<Rightarrow> credential list \<Rightarrow> int ssl_prog \<Rightarrow> bool" where
  "keeps_session L suite need m \<longleftrightarrow> (case watch (session_step L suite need) session_start (trace m) of
     None \<Rightarrow> False
   | Some s \<Rightarrow> if outcome m = 0 then s_hs s \<and> s_suite s = Some suite \<and> s_ctx s = None \<and> s_ssl s = None
              else outcome m = 1 \<and> \<not> s_hs s)"

definition session_end :: "string \<Rightarrow> int \<Rightarrow> session \<Rightarrow> bool" where
  "session_end suite x s \<longleftrightarrow> (if x = 0 then s_hs s \<and> s_suite s = Some suite \<and> s_ctx s = None \<and> s_ssl s = None
     else x = 1 \<and> \<not> s_hs s)"

lemma keeps_sessionI:
  assumes "wp (session_step L suite need) m (session_end suite) session_start"
  shows "keeps_session L suite need m"
  using wp_trace [OF assms] by (auto simp: keeps_session_def session_end_def)

subsection \<open>The shared parts\<close>

text \<open>Calls that no session depends on.\<close>

fun quiet :: "ssl_call \<Rightarrow> bool" where
  "quiet setvbuf_none = True" | "quiet (printf _ _) = True" | "quiet (Sleep _) = True"
| "quiet (malloc _) = True" | "quiet (free _) = True"
| "quiet (WSAStartup _ _) = True" | "quiet WSACleanup = True" | "quiet WSAGetLastError = True"
| "quiet (socket _ _) = True" | "quiet (setsockopt_rcvtimeo _ _) = True" | "quiet (bind_sock _ _) = True"
| "quiet (connect_sock _ _) = True" | "quiet (listen_sock _ _) = True" | "quiet (accept_sock _) = True"
| "quiet (closesocket _) = True"
| "quiet wolfSSL_Init = True" | "quiet wolfSSL_Debugging_ON = True" | "quiet wolfSSL_Cleanup = True"
| "quiet (wolfSSL_CTX_set_psk_callback_ctx _ _) = True" | "quiet (wolfSSL_dtls_set_using_nonblock _ _) = True"
| "quiet (wolfSSL_get_error _ _) = True" | "quiet (wolfSSL_ERR_reason_error_string _) = True"
| "quiet (wolfSSL_get_cipher _) = True"
| "quiet _ = False"

definition calm :: "('p, ssl_call) monitor \<Rightarrow> 'p \<Rightarrow> bool" where
  "calm M p \<longleftrightarrow> (\<forall>c r. quiet c \<longrightarrow> M p (c, r) = Some p)"

lemma calmD: "calm M p \<Longrightarrow> quiet c \<Longrightarrow> M p (c, r) = Some p"
  by (simp add: calm_def)

lemma wp_quiet_run: "calm M p \<Longrightarrow> quiet c \<Longrightarrow> Q () p \<Longrightarrow> wp M (run A c) Q p"
  by (rule wp_run) (simp add: calmD)

lemma wp_quiet_rcall: "calm M p \<Longrightarrow> quiet c \<Longrightarrow> (\<And>x. Q x p) \<Longrightarrow> wp M (rcall A c) Q p"
  by (rule wp_rcall) (simp add: calmD)

lemma wp_say: "calm M p \<Longrightarrow> Q () p \<Longrightarrow> wp M (say L fmt args) Q p"
  unfolding say_def by (rule wp_quiet_run) simp_all

lemma wp_fail: "calm M p \<Longrightarrow> Q 1 p \<Longrightarrow> wp M (fail L msg) Q p"
  unfolding fail_def by (intro wp_rules wp_say) simp_all

lemma wp_startup: "calm M p \<Longrightarrow> Q () p \<Longrightarrow> wp M (startup L) Q p"
  unfolding startup_def by (intro wp_bind wp_quiet_run) simp_all

lemma wp_udp_socket: "calm M p \<Longrightarrow> (\<And>x. Q x p) \<Longrightarrow> wp M (udp_socket L b) Q p"
  unfolding udp_socket_def by (intro wp_bind wp_quiet_rcall wp_only_if wp_quiet_run wp_ret) simp_all

lemma wp_accept_failed: "calm M p \<Longrightarrow> Q () p \<Longrightarrow> wp M (accept_failed L ssl rv) Q p"
  unfolding accept_failed_def by (intro wp_bind wp_quiet_rcall wp_say) simp_all

lemma wp_handshake_ok: "calm M p \<Longrightarrow> Q () p \<Longrightarrow> wp M (handshake_ok L ssl) Q p"
  unfolding handshake_ok_def by (intro wp_bind wp_quiet_rcall wp_say) simp_all

text \<open>The loops, for a monitor that only looks at the handshake.\<close>

lemma wp_accept_loop:
  assumes "calm M p" and "\<And>r. M p (wolfSSL_accept ssl, r) = Some (if rc r = WOLFSSL_SUCCESS L then p' else p)"
    and "Q True p'" and "Q False p"
  shows "wp M (accept_loop L ssl limit tries) Q p"
  using assms
proof (induction L ssl limit tries rule: accept_loop.induct)
  case (1 L ssl limit tries)
  show ?case
    by (subst accept_loop.simps, intro wp_bind wp_rcall)
      (auto simp: 1 intro!: wp_if wp_ret wp_bind wp_quiet_rcall wp_quiet_run wp_accept_failed)
qed

lemma wp_read_loop:
  assumes "calm M p" and "\<And>n r. M p (wolfSSL_read ssl n, r) = Some p" and "\<And>x. Q x p"
  shows "wp M (read_loop L ssl limit tries buf) Q p"
  using assms
proof (induction L ssl limit tries buf rule: read_loop.induct)
  case (1 L ssl limit tries buf)
  show ?case
    by (subst read_loop.simps, intro wp_bind wp_lib)
      (auto simp: 1 intro!: wp_if wp_ret wp_bind wp_quiet_rcall wp_quiet_run)
qed

lemma session_calm: "calm (session_step L suite need) s"
  unfolding calm_def
proof (intro allI impI)
  fix c r
  assume "quiet c"
  then show "session_step L suite need s (c, r) = Some s"
    by (cases c) (simp_all add: session_step_def)
qed

lemma wp_echo_reply:
  assumes "calm M p" and "\<And>bs r. M p (wolfSSL_write ssl bs, r) = Some p" and "Q () p"
  shows "wp M (echo_reply L ssl rv buf) Q p"
  unfolding echo_reply_def by (intro wp_bind wp_say wp_run) (simp_all add: assms)

text \<open>The data phase: what leaves a connected session as it is.\<close>

definition idle :: "('p, ssl_call) monitor \<Rightarrow> int \<Rightarrow> 'p \<Rightarrow> bool" where
  "idle M ssl p \<longleftrightarrow> calm M p \<and> (\<forall>n r. M p (wolfSSL_read ssl n, r) = Some p) \<and>
     (\<forall>bs r. M p (wolfSSL_write ssl bs, r) = Some p)"

lemma wp_echo_loop:
  assumes "idle M ssl p" and "Q () p"
  shows "wp M (echo_loop L ssl limit msgLoop i buf) Q p"
  using assms
proof (induction L ssl limit msgLoop i buf rule: echo_loop.induct)
  case (1 L ssl limit msgLoop i buf)
  have calm: "calm M p" and rd: "\<And>n r. M p (wolfSSL_read ssl n, r) = Some p"
    and wr: "\<And>bs r. M p (wolfSSL_write ssl bs, r) = Some p" using 1(2) by (simp_all add: idle_def)
  show ?case
    by (subst echo_loop.simps)
      (auto simp: 1(3) intro!: wp_if wp_bind wp_read_loop wp_split wp_echo_reply wp_quiet_rcall wp_say wp_ret
        calm rd wr 1(1) [OF _ 1(2,3)])
qed

lemma wp_echo_once:
  assumes "idle M ssl p" and "Q () p"
  shows "wp M (echo_once L ssl limit buf) Q p"
  unfolding echo_once_def using assms
  by (intro wp_bind wp_read_loop wp_split wp_if wp_echo_reply wp_quiet_rcall wp_say) (simp_all add: idle_def)

lemma wp_message_loop:
  assumes "idle M ssl p" and "Q () p"
  shows "wp M (message_loop L ssl limit msgCount msgSize i buf) Q p"
  using assms
proof (induction L ssl limit msgCount msgSize i buf rule: message_loop.induct)
  case (1 L ssl limit msgCount msgSize i buf)
  have calm: "calm M p" and rd: "\<And>n r. M p (wolfSSL_read ssl n, r) = Some p"
    and wr: "\<And>bs r. M p (wolfSSL_write ssl bs, r) = Some p" using 1(2) by (simp_all add: idle_def)
  show ?case
    by (subst message_loop.simps, intro wp_if wp_bind wp_quiet_rcall [OF calm] wp_run [where c = "wolfSSL_write ssl _"])
      (auto simp: wr 1(3) intro!: wp_bind wp_quiet_run wp_read_loop wp_split wp_only_if wp_say wp_ret calm rd 1(1) [OF _ 1(2,3)])
qed

lemma wp_cert_exchange:
  assumes "idle M ssl p" and "Q () p"
  shows "wp M (cert_exchange L ssl limit buf) Q p"
  unfolding cert_exchange_def using assms
  by (intro wp_bind wp_run wp_read_loop wp_split wp_if wp_quiet_rcall wp_say)
    (auto simp: idle_def intro!: wp_bind wp_read_loop wp_split wp_if wp_quiet_rcall wp_say)

lemma wp_client_handshake:
  assumes "calm M p" and "calm M p'"
    and "\<And>r. M p (wolfSSL_connect ssl, r) = Some (if rc r = WOLFSSL_SUCCESS L then p' else p)"
    and "Q True p'" and "Q False p"
  shows "wp M (client_handshake L ssl) Q p"
  unfolding client_handshake_def
  by (intro wp_bind wp_quiet_rcall wp_say wp_rcall [where c = "wolfSSL_connect ssl"] assms(1))
    (auto simp: assms intro!: wp_if wp_bind wp_quiet_rcall wp_say wp_handshake_ok wp_ret)

subsection \<open>The programs\<close>

definition server_creds :: "credential list" where
  "server_creds =
    [Verify [WOLFSSL_VERIFY_PEER, WOLFSSL_VERIFY_FAIL_IF_NO_PEER_CERT],
     Trusted ''wolfssl/certs/client-ca-cert.pem'', Trusted ''wolfssl/certs/ca-cert.pem'', Key_Checked,
     Private_Key ''wolfssl/certs/server-key.pem'', Chain ''wolfssl/certs/server-cert.pem'']"

definition client_creds :: "credential list" where
  "client_creds =
    [Verify [WOLFSSL_VERIFY_PEER], Trusted ''wolfssl/certs/ca-cert.pem'',
     Private_Key ''wolfssl/certs/client-key.pem'', Chain ''wolfssl/certs/client-cert.pem'']"

text \<open>A context with suite and credentials, and a session on it.\<close>

definition configured :: "int \<Rightarrow> string option \<Rightarrow> credential list \<Rightarrow> session" where
  "configured c su ks = session_start\<lparr>s_ctx := Some c, s_suite := su, s_creds := ks\<rparr>"

definition with_ssl :: "session \<Rightarrow> int \<Rightarrow> bool \<Rightarrow> session" where
  "with_ssl s ssl up = s\<lparr>s_ssl := Some ssl, s_fd := True, s_up := up, s_hs := up\<rparr>"

lemmas session_states = session_simps configured_def with_ssl_def session_start_def

lemma wp_ctx_new:
  assumes "Q 0 session_start" and "\<And>c. c \<noteq> 0 \<Longrightarrow> Q c (configured c None [])"
  shows "wp (session_step L suite need) (rcall A (wolfSSL_CTX_new m)) Q session_start"
  using assms by (intro wp_rcall) (auto simp: session_states)

lemma wp_psk_server: "Q () (configured c su (Psk_Server # ks)) \<Longrightarrow>
    wp (session_step L suite need) (run A (wolfSSL_CTX_set_psk_server_tls13_callback c)) Q (configured c su ks)"
  by (intro wp_run) (simp add: session_states)

lemma wp_psk_client: "Q () (configured c su (Psk_Client # ks)) \<Longrightarrow>
    wp (session_step L suite need) (run A (wolfSSL_CTX_set_psk_client_callback c)) Q (configured c su ks)"
  by (intro wp_run) (simp add: session_states)

lemma wp_set_verify: "Q () (configured c su (Verify fl # ks)) \<Longrightarrow>
    wp (session_step L suite need) (run A (wolfSSL_CTX_set_verify c fl)) Q (configured c su ks)"
  by (intro wp_run) (simp add: session_states)

lemma wp_cipher_list:
  assumes "\<And>x. x \<noteq> WOLFSSL_SUCCESS L \<Longrightarrow> Q x (configured c su ks)" and "Q (WOLFSSL_SUCCESS L) (configured c (Some str) ks)"
  shows "wp (session_step L suite need) (rcall A (wolfSSL_CTX_set_cipher_list c str)) Q (configured c su ks)"
  using assms by (intro wp_rcall) (auto simp: session_states)

lemma wp_server_certs:
  assumes "Q True (configured c None (tl server_creds))" and "\<And>ks. Q False (configured c None ks)"
  shows "wp (session_step L suite need) (checked L (server_certs c)) Q (configured c None [])"
  unfolding server_certs_def checked.simps using assms
  by (auto simp: session_states server_creds_def intro!: wp_bind wp_rcall wp_if wp_say wp_ret session_calm)

lemma wp_client_certs:
  assumes "Q True (configured c None (tl client_creds))" and "\<And>ks. Q False (configured c None ks)"
  shows "wp (session_step L suite need) (checked L (client_certs c)) Q (configured c None [])"
  unfolding client_certs_def checked.simps using assms
  by (auto simp: session_states client_creds_def intro!: wp_bind wp_rcall wp_if wp_say wp_ret session_calm)

lemma wp_new_session:
  assumes "set need \<subseteq> set ks" and "\<And>ssl. Q ssl ((configured c (Some suite) ks)\<lparr>s_ssl := Some ssl\<rparr>)"
  shows "wp (session_step L suite need) (rcall A (wolfSSL_new c)) Q (configured c (Some suite) ks)"
  using assms by (intro wp_rcall) (auto simp: session_states)

lemma wp_set_fd:
  assumes "Q () (with_ssl (configured c su ks) ssl False)"
  shows "wp (session_step L suite need) (run A (wolfSSL_set_fd ssl fd)) Q ((configured c su ks)\<lparr>s_ssl := Some ssl\<rparr>)"
  using assms by (intro wp_run) (auto simp: session_states)

lemma session_idle: "idle (session_step L suite need) ssl (with_ssl s ssl True)"
  by (auto simp: idle_def session_calm session_states)

lemma wp_session_accept:
  assumes "Q True (with_ssl s ssl True)" and "Q False (with_ssl s ssl False)"
  shows "wp (session_step L suite need) (accept_loop L ssl limit tries) Q (with_ssl s ssl False)"
  using assms by (intro wp_accept_loop session_calm) (auto simp: session_states)

lemma wp_session_accept_once:
  assumes "Q (WOLFSSL_SUCCESS L) (with_ssl s ssl True)" and "\<And>x. x \<noteq> WOLFSSL_SUCCESS L \<Longrightarrow> Q x (with_ssl s ssl False)"
  shows "wp (session_step L suite need) (rcall A (wolfSSL_accept ssl)) Q (with_ssl s ssl False)"
proof (rule wp_rcall)
  fix r
  show "case session_step L suite need (with_ssl s ssl False) (wolfSSL_accept ssl, r) of None \<Rightarrow> False | Some q \<Rightarrow> Q (rc r) q"
    using assms by (cases "rc r = WOLFSSL_SUCCESS L") (simp_all add: session_states)
qed

lemma wp_session_connect:
  assumes "Q True (with_ssl s ssl True)" and "Q False (with_ssl s ssl False)"
  shows "wp (session_step L suite need) (client_handshake L ssl) Q (with_ssl s ssl False)"
  using assms by (intro wp_client_handshake session_calm) (auto simp: session_states)

lemma wp_shutdown:
  "Q () (with_ssl s ssl True) \<Longrightarrow> wp (session_step L suite need) (run A (wolfSSL_shutdown ssl)) Q (with_ssl s ssl True)"
  by (intro wp_run) (simp add: session_states)

lemma wp_session_free:
  "Q () ((configured c su ks)\<lparr>s_hs := True\<rparr>) \<Longrightarrow>
    wp (session_step L suite need) (run A (wolfSSL_free ssl)) Q (with_ssl (configured c su ks) ssl True)"
  by (intro wp_run) (simp add: session_states)

lemma wp_ctx_free:
  "Q () (session_start\<lparr>s_suite := su, s_creds := ks, s_hs := True\<rparr>) \<Longrightarrow>
    wp (session_step L suite need) (run A (wolfSSL_CTX_free c)) Q ((configured c su ks)\<lparr>s_hs := True\<rparr>)"
  by (intro wp_run) (simp add: session_states)

lemma session_end_simps [simp]:
  "session_end suite 1 s \<longleftrightarrow> \<not> s_hs s"
  "session_end suite 0 (session_start\<lparr>s_suite := Some suite, s_creds := ks, s_hs := True\<rparr>)"
  "\<not> s_hs session_start" "\<not> s_hs (configured c su ks)" "s_hs (with_ssl s ssl up) = up"
  by (simp_all add: session_end_def session_start_def configured_def with_ssl_def)

lemma wp_session_fail: "\<not> s_hs s \<Longrightarrow> wp (session_step L suite need) (fail L msg) (session_end suite) s"
  by (intro wp_fail session_calm) simp

lemma wp_session_teardown:
  "wp (session_step L suite need) (teardown L ssl c sock) (session_end suite) (with_ssl (configured c (Some suite) ks) ssl True)"
  unfolding teardown_def
  by (intro wp_bind wp_shutdown wp_session_free wp_ctx_free wp_quiet_run session_calm wp_ret) simp_all

lemmas session_rules = wp_bind wp_startup wp_udp_socket wp_ctx_new wp_psk_server wp_psk_client wp_set_verify
  wp_cipher_list wp_server_certs wp_client_certs wp_new_session wp_set_fd wp_session_accept wp_session_accept_once
  wp_session_connect wp_handshake_ok wp_accept_failed wp_say
  wp_echo_loop [OF session_idle] wp_echo_once [OF session_idle] wp_message_loop [OF session_idle]
  wp_cert_exchange [OF session_idle] wp_shutdown wp_session_free wp_ctx_free
  wp_session_fail wp_session_teardown session_calm wp_if wp_only_if wp_split wp_ret

lemma dtls_psk_server_session:
  "wp (session_step L suite [Psk_Server]) (dtls_psk_server_main suite n d L stack argv) (session_end suite) session_start"
  unfolding dtls_psk_server_main_def Let_def
  by (intro session_rules wp_quiet_run wp_quiet_rcall) simp_all

lemma tls13_psk_server_session:
  "wp (session_step L ascon_suite [Psk_Server]) (tls13_psk_server L stack argv) (session_end ascon_suite) session_start"
  unfolding tls13_psk_server_def Let_def
  by (intro session_rules wp_quiet_run wp_quiet_rcall) simp_all

lemma cert_servers_session:
  "wp (session_step L ascon_suite server_creds) (dtls13_cert_server L stack argv) (session_end ascon_suite) session_start"
  "wp (session_step L ascon_suite server_creds) (tls13_cert_server L stack argv) (session_end ascon_suite) session_start"
  unfolding dtls13_cert_server_def tls13_cert_server_def Let_def
  by (intro session_rules wp_quiet_run wp_quiet_rcall; simp add: server_creds_def)+

lemma dtls_psk_client_session:
  "wp (session_step L suite [Psk_Client]) (dtls_psk_client_main suite L stack argv) (session_end suite) session_start"
  unfolding dtls_psk_client_main_def Let_def
  by (intro session_rules wp_quiet_run wp_quiet_rcall) simp_all

lemma cert_clients_session:
  "wp (session_step L ascon_suite client_creds) (dtls13_cert_client L stack argv) (session_end ascon_suite) session_start"
  "wp (session_step L ascon_suite client_creds) (tls13_cert_client L stack argv) (session_end ascon_suite) session_start"
  unfolding dtls13_cert_client_def tls13_cert_client_def Let_def
  by (intro session_rules wp_quiet_run wp_quiet_rcall; simp add: client_creds_def)+

text \<open>The result for all nine programs.\<close>

lemma servers_keep_session:
  "keeps_session L ascon_suite [Psk_Server] (dtls13_psk_server L stack argv)"
  "keeps_session L std_suite [Psk_Server] (dtls_std_server L stack argv)"
  "keeps_session L ascon_suite [Psk_Server] (tls13_psk_server L stack argv)"
  "keeps_session L ascon_suite server_creds (dtls13_cert_server L stack argv)"
  "keeps_session L ascon_suite server_creds (tls13_cert_server L stack argv)"
  by (simp_all add: keeps_sessionI dtls13_psk_server_def dtls_std_server_def dtls_psk_server_session
      tls13_psk_server_session cert_servers_session)

lemma clients_keep_session:
  "keeps_session L ascon_suite [Psk_Client] (dtls13_psk_client L stack argv)"
  "keeps_session L std_suite [Psk_Client] (dtls_std_client L stack argv)"
  "keeps_session L ascon_suite client_creds (dtls13_cert_client L stack argv)"
  "keeps_session L ascon_suite client_creds (tls13_cert_client L stack argv)"
  by (simp_all add: keeps_sessionI dtls13_psk_client_def dtls_std_client_def dtls_psk_client_session cert_clients_session)

end
