(* ===== verification/Ssl_Exchange.thy ===== *)
theory Ssl_Exchange
  imports Ssl_Sessions
begin

text \<open>
  The data phase of the demonstration programs: the servers echo exactly what they read,
  the clients send the payload of their command line, the prints stay inside the buffers
  or do not, and the retry loops are bounded. The one thing assumed of the library is the
  documented contract of \<open>wolfSSL_read\<close>: it gives the number of bytes it stored, which is
  at most the size of the buffer.
\<close>

definition read_law :: "ssl_call \<Rightarrow> reply \<Rightarrow> bool" where
  "read_law c r = (case c of
     wolfSSL_read ssl n \<Rightarrow> rc r \<le> int n \<and> length (data r) = nat (rc r)
   | _ \<Rightarrow> True)"

section \<open>Monitors that only look at the data\<close>

fun data_call :: "ssl_call \<Rightarrow> bool" where
  "data_call (wolfSSL_read _ _) = True"
| "data_call (wolfSSL_write _ _) = True"
| "data_call (printf _ _) = True"
| "data_call _ = False"

text \<open>A monitor state that no other call changes, nor a print without buffers.\<close>

definition deaf :: "('p, ssl_call) monitor \<Rightarrow> 'p \<Rightarrow> bool" where
  "deaf M p \<longleftrightarrow> (\<forall>c r. \<not> data_call c \<longrightarrow> M p (c, r) = Some p) \<and>
     (\<forall>fmt args r. (\<forall>x \<in> set args. (\<exists>i. x = PInt i) \<or> (\<exists>i. x = PString i)) \<longrightarrow> M p (printf fmt args, r) = Some p)"

lemma deafD: "deaf M p \<Longrightarrow> \<not> data_call c \<Longrightarrow> M p (c, r) = Some p"
  by (simp add: deaf_def)

lemma wp_deaf_run: "deaf M p \<Longrightarrow> \<not> data_call c \<Longrightarrow> Q () p \<Longrightarrow> wp M (run A c) Q p"
  by (rule wp_run) (simp add: deafD)

lemma wp_deaf_rcall: "deaf M p \<Longrightarrow> \<not> data_call c \<Longrightarrow> (\<And>x. Q x p) \<Longrightarrow> wp M (rcall A c) Q p"
  by (rule wp_rcall) (simp add: deafD)

lemma wp_deaf_say:
  "deaf M p \<Longrightarrow> (\<forall>x \<in> set args. (\<exists>i. x = PInt i) \<or> (\<exists>i. x = PString i)) \<Longrightarrow> Q () p \<Longrightarrow> wp M (say L fmt args) Q p"
  unfolding say_def by (rule wp_run) (simp add: deaf_def)

lemma wp_deaf_fail: "deaf M p \<Longrightarrow> Q 1 p \<Longrightarrow> wp M (fail L msg) Q p"
  unfolding fail_def by (intro wp_bind wp_ret wp_deaf_say) simp_all

lemma wp_deaf_startup: "deaf M p \<Longrightarrow> Q () p \<Longrightarrow> wp M (startup L) Q p"
  unfolding startup_def by (intro wp_bind wp_deaf_run) simp_all

lemma wp_deaf_udp: "deaf M p \<Longrightarrow> (\<And>x. Q x p) \<Longrightarrow> wp M (udp_socket L b) Q p"
  unfolding udp_socket_def by (intro wp_bind wp_deaf_rcall wp_only_if wp_deaf_run wp_ret) simp_all

lemma wp_deaf_accept_failed: "deaf M p \<Longrightarrow> Q () p \<Longrightarrow> wp M (accept_failed L ssl rv) Q p"
  unfolding accept_failed_def by (intro wp_bind wp_deaf_rcall wp_deaf_say) simp_all

lemma wp_deaf_handshake_ok: "deaf M p \<Longrightarrow> Q () p \<Longrightarrow> wp M (handshake_ok L ssl) Q p"
  unfolding handshake_ok_def by (intro wp_bind wp_deaf_rcall wp_deaf_say) simp_all

lemma wp_deaf_client: "deaf M p \<Longrightarrow> (\<And>b. Q b p) \<Longrightarrow> wp M (client_handshake L ssl) Q p"
  unfolding client_handshake_def
  by (intro wp_bind wp_deaf_rcall wp_deaf_say wp_if wp_ret wp_deaf_handshake_ok) simp_all

lemma wp_deaf_teardown: "deaf M p \<Longrightarrow> Q 0 p \<Longrightarrow> wp M (teardown L ssl ctx sock) Q p"
  unfolding teardown_def by (intro wp_bind wp_deaf_run wp_ret) simp_all

lemma wp_deaf_checked:
  assumes "deaf M p" and "\<And>b. Q b p" and "\<forall>c \<in> set cs. \<not> data_call (fst c)"
  shows "wp M (checked L cs) Q p"
  using assms(3)
proof (induction cs)
  case Nil
  then show ?case using assms by (auto intro: wp_ret)
next
  case (Cons c cs)
  obtain k m where c: "c = (k, m)" by fastforce
  show ?case
    unfolding c checked.simps
    by (intro wp_bind wp_deaf_rcall wp_if wp_deaf_say wp_ret assms Cons.IH) (use Cons.prems in \<open>simp_all add: c\<close>)
qed

lemma wp_deaf_accept_loop:
  assumes "deaf M p" and "\<And>b. Q b p"
  shows "wp M (accept_loop L ssl limit tries) Q p"
  using assms
proof (induction L ssl limit tries rule: accept_loop.induct)
  case (1 L ssl limit tries)
  show ?case
    by (subst accept_loop.simps)
      (auto simp: 1 intro!: wp_bind wp_deaf_rcall wp_if wp_ret wp_deaf_run wp_deaf_accept_failed)
qed

lemmas deaf_rules = wp_bind wp_deaf_startup wp_deaf_udp wp_deaf_fail wp_deaf_say wp_deaf_handshake_ok
  wp_deaf_client wp_deaf_teardown wp_deaf_checked wp_deaf_accept_loop wp_deaf_accept_failed
  wp_if wp_only_if wp_split wp_ret

section \<open>The servers echo\<close>

text \<open>The bytes of the last read that have not been sent back.\<close>

definition echo_step :: "(u8 list option, ssl_call) monitor" where
  "echo_step p e = (case fst e of
     wolfSSL_read ssl n \<Rightarrow> if p = None then Some (if 0 < rc (snd e) then Some (data (snd e)) else None) else None
   | wolfSSL_write ssl bs \<Rightarrow> if p = Some bs then Some None else None
   | _ \<Rightarrow> Some p)"

lemma echo_deaf: "deaf echo_step p"
proof -
  have "echo_step p (c, r) = Some p" if "\<not> data_call c" for c r
    using that by (cases c) (simp_all add: echo_step_def)
  then show ?thesis by (auto simp: deaf_def echo_step_def)
qed

lemma store_read:
  assumes "rc r \<le> int (length buf)" and "length (data r) = nat (rc r)"
  shows "length (store r buf) = length buf" and "take (nat (rc r)) (store r buf) = data r"
  using assms by (auto simp: store_def Let_def)

lemma wp_echo_read:
  assumes "lawful read_law (env L)"
    and "\<And>rv buf'. length buf' = length buf \<Longrightarrow> 0 < rv \<Longrightarrow> Q (rv, buf') (Some (take (nat rv) buf'))"
    and "\<And>rv buf'. length buf' = length buf \<Longrightarrow> rv \<le> 0 \<Longrightarrow> Q (rv, buf') None"
  shows "wp echo_step (read_loop L ssl limit tries buf) Q None"
  using assms
proof (induction L ssl limit tries buf rule: read_loop.induct)
  case (1 L ssl limit tries buf)
  have get: "length (store r buf) = length buf" "take (nat (rc r)) (store r buf) = data r"
    if "read_law (wolfSSL_read ssl (length buf)) r" for r
    using that by (simp_all add: read_law_def store_read)
  have pos: "Q (rc r, store r buf) (Some (data r))"
    if "read_law (wolfSSL_read ssl (length buf)) r" "0 < rc r" for r
    using 1(3) [of "store r buf" "rc r"] get [OF that(1)] that(2) by simp
  show ?case
    by (subst read_loop.simps, intro wp_bind wp_lib_law [OF 1(2)])
      (auto simp: echo_step_def get 1(3,4) pos intro!: wp_if wp_ret wp_bind wp_deaf_rcall wp_deaf_run echo_deaf
        1(1) [OF _ _ 1(2)])
qed

lemma wp_echo_got:
  "Q () None \<Longrightarrow> wp echo_step (echo_reply L ssl rv buf) Q (Some (take (nat rv) buf))"
  unfolding echo_reply_def say_def by (intro wp_bind wp_run) (simp add: echo_step_def wp_run)

lemma wp_echo_all:
  assumes "lawful read_law (env L)" and "Q () None"
  shows "wp echo_step (echo_loop L ssl limit msgLoop i buf) Q None"
  using assms
proof (induction L ssl limit msgLoop i buf rule: echo_loop.induct)
  case (1 L ssl limit msgLoop i buf)
  show ?case
    by (subst echo_loop.simps)
      (auto simp: 1(3) intro!: wp_if wp_bind wp_echo_read [OF 1(2)] wp_split wp_echo_got wp_deaf_rcall wp_deaf_say wp_ret
        echo_deaf 1(1) [OF _ 1(2,3)])
qed

lemma wp_echo_one:
  assumes "lawful read_law (env L)" and "Q () None"
  shows "wp echo_step (echo_once L ssl limit buf) Q None"
  unfolding echo_once_def
  by (auto simp: assms(2) intro!: wp_bind wp_echo_read [OF assms(1)] wp_split wp_if wp_echo_got wp_deaf_rcall wp_deaf_say echo_deaf)

text \<open>Every read is answered before the next one, and before the program ends.\<close>

definition echoes :: "int ssl_prog \<Rightarrow> bool" where
  "echoes m \<longleftrightarrow> watch echo_step None (trace m) = Some None"

lemma echoesI: "wp echo_step m (\<lambda>_ q. q = None) None \<Longrightarrow> echoes m"
  by (drule wp_trace) (simp add: echoes_def)

lemma servers_echo:
  assumes "lawful read_law (env L)"
  shows "echoes (dtls_psk_server_main suite n d L stack argv)" and "echoes (tls13_psk_server L stack argv)"
    and "echoes (dtls13_cert_server L stack argv)" and "echoes (tls13_cert_server L stack argv)"
  unfolding dtls_psk_server_main_def tls13_psk_server_def dtls13_cert_server_def tls13_cert_server_def Let_def
  by (rule echoesI, intro deaf_rules echo_deaf wp_echo_all assms wp_echo_one wp_deaf_run wp_deaf_rcall;
      simp add: server_certs_def)+

section \<open>The clients send their payload\<close>

text \<open>The number of messages so far, all of which are \<open>payload\<close>.\<close>

definition send_step :: "u8 list \<Rightarrow> (nat, ssl_call) monitor" where
  "send_step payload n e = (case fst e of
     wolfSSL_write ssl bs \<Rightarrow> if bs = payload then Some (n + 1) else None
   | _ \<Rightarrow> Some n)"

lemma send_deaf: "deaf (send_step payload) n"
proof -
  have "send_step payload n (c, r) = Some n" if "\<not> data_call c" for c r
    using that by (cases c) (simp_all add: send_step_def)
  then show ?thesis by (auto simp: deaf_def send_step_def)
qed

lemma wp_send_read: "(\<And>x. Q x n) \<Longrightarrow> wp (send_step payload) (read_loop L ssl limit tries buf) Q n"
  by (rule wp_read_loop) (auto simp: send_step_def calm_def elim!: quiet.elims)

lemma wp_send_all:
  assumes "Q () (n + nat (msgCount - i))"
  shows "wp (send_step (client_payload msgSize)) (message_loop L ssl limit msgCount msgSize i buf) Q n"
  using assms
proof (induction L ssl limit msgCount msgSize i buf arbitrary: n rule: message_loop.induct)
  case (1 L ssl limit msgCount msgSize i buf)
  have next_: "Q () (Suc n + nat (msgCount - (i + 1)))" if "i < msgCount"
  proof -
    have "nat (msgCount - i) = Suc (nat (msgCount - (i + 1)))" using that by linarith
    with 1(2) show ?thesis by simp
  qed
  have wr: "wp (send_step (client_payload msgSize)) (run A (wolfSSL_write ssl (client_payload msgSize))) R n"
    if "R () (Suc n)" for A R
    using that by (intro wp_run) (simp add: send_step_def)
  have say: "wp (send_step (client_payload msgSize)) (say L fmt args) R k" if "R () k" for fmt args R k
    using that unfolding say_def by (intro wp_run) (simp add: send_step_def)
  show ?case
  proof (cases "i < msgCount")
    case False
    with 1(2) show ?thesis by (subst message_loop.simps) (simp add: wp_ret)
  next
    case True
    show ?thesis
      by (subst message_loop.simps)
        (auto simp: True intro!: wp_bind wp_deaf_rcall wr wp_deaf_run wp_send_read wp_split wp_only_if say
          send_deaf 1(1) [OF True next_ [OF True]])
  qed
qed

text \<open>What a client sends: \<open>msgCount\<close> copies of the payload when it exits with 0, else nothing.\<close>

definition sends :: "int ssl_prog \<Rightarrow> u8 list \<Rightarrow> nat \<Rightarrow> bool" where
  "sends m payload n \<longleftrightarrow> watch (send_step payload) 0 (trace m) = Some (if outcome m = 0 then n else 0)"

lemma psk_client_sends:
  assumes "client_options argv = (st, msgCount, msgSize)"
  shows "sends (dtls_psk_client_main suite L stack argv) (client_payload msgSize) (nat msgCount)"
proof -
  have "wp (send_step (client_payload msgSize)) (dtls_psk_client_main suite L stack argv)
      (\<lambda>x n. n = (if x = 0 then nat msgCount else 0)) 0"
    unfolding dtls_psk_client_main_def assms Let_def prod.case
    by (intro deaf_rules send_deaf wp_send_all wp_deaf_run wp_deaf_rcall) simp_all
  from wp_trace [OF this] show ?thesis by (simp add: sends_def)
qed

lemma wp_send_cert:
  assumes "Q () (Suc n)"
  shows "wp (send_step cert_message) (cert_exchange L ssl limit buf) Q n"
proof -
  have wr: "wp (send_step cert_message) (run A (wolfSSL_write ssl cert_message)) R n" if "R () (Suc n)" for A R
    using that by (intro wp_run) (simp add: send_step_def)
  have say: "wp (send_step cert_message) (say L fmt args) R k" if "R () k" for fmt args R k
    using that unfolding say_def by (intro wp_run) (simp add: send_step_def)
  show ?thesis
    unfolding cert_exchange_def
    by (auto simp: assms intro!: wp_bind wr wp_send_read wp_split wp_if say wp_deaf_rcall send_deaf)
qed

lemma cert_clients_send:
  "sends (dtls13_cert_client L stack argv) cert_message 1" "sends (tls13_cert_client L stack argv) cert_message 1"
proof -
  have *: "sends m payload n" if "wp (send_step payload) m (\<lambda>x k. k = (if x = 0 then n else 0)) 0" for m payload n
    using wp_trace [OF that] by (simp add: sends_def)
  show "sends (dtls13_cert_client L stack argv) cert_message 1"
    unfolding dtls13_cert_client_def Let_def
    by (rule *, intro deaf_rules send_deaf wp_send_cert wp_deaf_run wp_deaf_rcall) (simp_all add: client_certs_def)
  show "sends (tls13_cert_client L stack argv) cert_message 1"
    unfolding tls13_cert_client_def Let_def
    by (rule *, intro deaf_rules send_deaf wp_send_cert wp_deaf_run wp_deaf_rcall) (simp_all add: client_certs_def)
qed

text \<open>The options are clamped, so the payload fits one record and the client's buffer.\<close>

lemma client_options_bounds:
  assumes "client_options argv = (st, msgCount, msgSize)"
  shows "1 \<le> msgCount" and "1 \<le> msgSize" and "msgSize \<le> 1080"
  using assms by (auto simp: client_options_def Let_def split: prod.splits if_splits)

lemma client_payload_nth:
  "length (client_payload n) = nat n"
  "j < nat n \<Longrightarrow> client_payload n ! j = of_nat (65 + j mod 26)"
  by (simp_all add: client_payload_def)

section \<open>Prints\<close>

text \<open>
  Whether a print stays inside its buffer: \<open>%s\<close> reads up to the first zero byte, \<open>%.*s\<close> at
  most the given number of bytes.
\<close>

fun printable :: "print_arg \<Rightarrow> bool" where
  "printable (PBuf buf) = (0 \<in> set buf)"
| "printable (PPrefix n buf) = (n \<le> int (length buf))"
| "printable _ = True"

definition print_step :: "(unit, ssl_call) monitor" where
  "print_step p e = (case fst e of
     printf fmt args \<Rightarrow> if list_all printable args then Some () else None
   | _ \<Rightarrow> Some ())"

definition prints_inside :: "int ssl_prog \<Rightarrow> bool" where
  "prints_inside m \<longleftrightarrow> watch print_step () (trace m) = Some ()"

lemma prints_insideI: "wp print_step m (\<lambda>_ _. True) () \<Longrightarrow> prints_inside m"
  by (drule wp_trace) (simp add: prints_inside_def)

lemma print_deaf: "deaf print_step p"
proof -
  have "print_step p (c, r) = Some p" if "\<not> data_call c" for c r
    using that by (cases c) (simp_all add: print_step_def)
  moreover have "printable x" if "(\<exists>i. x = PInt i) \<or> (\<exists>i. x = PString i)" for x using that by auto
  ultimately show ?thesis by (auto simp: deaf_def print_step_def list_all_iff)
qed

lemma wp_print_run: "quiet c \<or> data_call c \<Longrightarrow> (\<forall>fmt args. c \<noteq> printf fmt args) \<Longrightarrow> Q () () \<Longrightarrow> wp print_step (run A c) Q ()"
  by (rule wp_run) (cases c; simp add: print_step_def)

text \<open>What a read loop delivers: a positive count comes with bytes of one received message.\<close>

definition message_law :: "(u8 list \<Rightarrow> bool) \<Rightarrow> ssl_call \<Rightarrow> reply \<Rightarrow> bool" where
  "message_law ok c r = (read_law c r \<and> (case c of wolfSSL_read _ _ \<Rightarrow> 0 < rc r \<longrightarrow> ok (data r) | _ \<Rightarrow> True))"

lemma wp_print_read:
  assumes "lawful (message_law ok) (env L)"
    and "\<And>rv buf'. length buf' = length buf \<Longrightarrow> rv \<le> int (length buf) \<Longrightarrow>
      (0 < rv \<Longrightarrow> ok (take (nat rv) buf')) \<Longrightarrow> Q (rv, buf') ()"
  shows "wp print_step (read_loop L ssl limit tries buf) Q ()"
  using assms
proof (induction L ssl limit tries buf rule: read_loop.induct)
  case (1 L ssl limit tries buf)
  have get: "length (store r buf) = length buf" "rc r \<le> int (length buf)" "0 < rc r \<Longrightarrow> ok (take (nat (rc r)) (store r buf))"
    if "message_law ok (wolfSSL_read ssl (length buf)) r" for r
    using that by (simp_all add: message_law_def read_law_def store_read)
  show ?case
    by (subst read_loop.simps, intro wp_bind wp_lib_law [OF 1(2)])
      (auto simp: print_step_def get 1(3) intro!: wp_if wp_ret wp_bind wp_deaf_rcall wp_deaf_run print_deaf
        1(1) [OF _ _ 1(2)])
qed

lemma wp_print_got:
  assumes "0 < rv \<Longrightarrow> 0 \<in> set (take (nat rv) buf)" and "0 < rv" and "Q () ()"
  shows "wp print_step (echo_reply L ssl rv buf) Q ()"
proof -
  have "0 \<in> set buf" using assms(1) [OF assms(2)] by (rule in_set_takeD)
  then show ?thesis
    unfolding echo_reply_def say_def by (intro wp_bind wp_run) (simp_all add: print_step_def assms(3) wp_run)
qed

lemma wp_print_echo:
  assumes "lawful (message_law (\<lambda>d. 0 \<in> set d)) (env L)" and "Q () ()"
  shows "wp print_step (echo_loop L ssl limit msgLoop i buf) Q ()"
  using assms
proof (induction L ssl limit msgLoop i buf rule: echo_loop.induct)
  case (1 L ssl limit msgLoop i buf)
  show ?case
    by (subst echo_loop.simps)
      (auto simp: 1(3) intro!: wp_if wp_bind wp_print_read [OF 1(2)] wp_split wp_print_got wp_deaf_rcall wp_deaf_say wp_ret
        print_deaf 1(1) [OF _ 1(2,3)])
qed

lemma wp_print_once:
  assumes "lawful (message_law (\<lambda>d. 0 \<in> set d)) (env L)" and "Q () ()"
  shows "wp print_step (echo_once L ssl limit buf) Q ()"
  unfolding echo_once_def
  by (auto simp: assms(2) intro!: wp_bind wp_print_read [OF assms(1)] wp_split wp_if wp_print_got wp_deaf_rcall wp_deaf_say print_deaf)

lemma wp_print_cert:
  assumes "lawful (message_law (\<lambda>d. 0 \<in> set d)) (env L)" and "Q () ()"
  shows "wp print_step (cert_exchange L ssl limit buf) Q ()"
proof -
  have wr: "wp print_step (run A (wolfSSL_write ssl bs)) R ()" if "R () ()" for A bs R
    using that by (intro wp_run) (simp add: print_step_def)
  have say: "wp print_step (say L fmt [PBuf buf']) R ()" if "0 \<in> set (take n buf')" "R () ()" for fmt buf' n R
    using in_set_takeD [OF that(1)] that(2) unfolding say_def by (intro wp_run) (simp add: print_step_def)
  show ?thesis
    unfolding cert_exchange_def
    by (auto simp: assms(2) intro!: wp_bind wr wp_print_read [OF assms(1)] wp_split wp_if say wp_deaf_rcall wp_deaf_say print_deaf)
qed

text \<open>The servers and the clients with certificates, when every message carries a terminator.\<close>

lemma strings_print_inside:
  assumes "lawful (message_law (\<lambda>d. 0 \<in> set d)) (env L)"
  shows "prints_inside (dtls_psk_server_main suite n d L stack argv)" and "prints_inside (tls13_psk_server L stack argv)"
    and "prints_inside (dtls13_cert_server L stack argv)" and "prints_inside (tls13_cert_server L stack argv)"
    and "prints_inside (dtls13_cert_client L stack argv)" and "prints_inside (tls13_cert_client L stack argv)"
  unfolding dtls_psk_server_main_def tls13_psk_server_def dtls13_cert_server_def tls13_cert_server_def
    dtls13_cert_client_def tls13_cert_client_def Let_def
  by (rule prints_insideI, (rule wp_split)?, intro deaf_rules print_deaf wp_print_echo assms wp_print_once wp_print_cert wp_deaf_run wp_deaf_rcall;
      simp add: server_certs_def client_certs_def)+

text \<open>The clients with a pre-shared key, always: they print a counted prefix.\<close>

lemma wp_print_messages:
  assumes "lawful (message_law (\<lambda>d. True)) (env L)" and "Q () ()"
  shows "wp print_step (message_loop L ssl limit msgCount msgSize i buf) Q ()"
  using assms
proof (induction L ssl limit msgCount msgSize i buf rule: message_loop.induct)
  case (1 L ssl limit msgCount msgSize i buf)
  have wr: "wp print_step (run A (wolfSSL_write ssl bs)) R ()" if "R () ()" for A bs R
    using that by (intro wp_run) (simp add: print_step_def)
  have say: "wp print_step (say L fmt [PInt j, PPrefix rv buf']) R ()"
    if "rv \<le> int (length buf')" "R () ()" for fmt j rv buf' R
    using that unfolding say_def by (intro wp_run) (simp add: print_step_def)
  show ?case
    by (subst message_loop.simps)
      (auto simp: 1(3) intro!: wp_if wp_bind wp_deaf_rcall wp_deaf_run wr wp_print_read [OF 1(2)] wp_split wp_only_if say wp_ret
        print_deaf 1(1) [OF _ 1(2,3)])
qed

lemma psk_clients_print_inside:
  assumes "lawful read_law (env L)"
  shows "prints_inside (dtls_psk_client_main suite L stack argv)"
proof -
  have law: "lawful (message_law (\<lambda>d. True)) (env L)"
    using assms by (auto simp: lawful_def message_law_def split: ssl_call.splits)
  obtain st msgCount msgSize where o: "client_options argv = (st, msgCount, msgSize)" by (metis prod_cases3)
  show ?thesis
    unfolding dtls_psk_client_main_def Let_def o prod.case
    by (rule prints_insideI, intro deaf_rules print_deaf wp_print_messages law wp_deaf_run wp_deaf_rcall) simp_all
qed

section \<open>Prints beyond the buffer\<close>

text \<open>
  A read that fills the whole buffer with bytes that are not zero: there is no terminator to
  stop at, and the servers and the clients with certificates do not store one. The monitor
  demands that such a read is followed at once by a print that leaves its buffer.
\<close>

definition fills_buffer :: "ssl_call event \<Rightarrow> bool" where
  "fills_buffer e = (case fst e of
     wolfSSL_read ssl n \<Rightarrow> 0 < rc (snd e) \<and> rc (snd e) = int n \<and> 0 \<notin> set (data (snd e))
   | _ \<Rightarrow> False)"

definition prints_beyond :: "ssl_call event \<Rightarrow> bool" where
  "prints_beyond e = (case fst e of printf fmt args \<Rightarrow> \<not> list_all printable args | _ \<Rightarrow> False)"

datatype over_state = Clean | Full | Over

fun over_step :: "(over_state, ssl_call) monitor" where
  "over_step Over e = Some Over"
| "over_step Full e = (if prints_beyond e then Some Over else None)"
| "over_step Clean e = Some (if prints_beyond e then Over else if fills_buffer e then Full else Clean)"

lemma print_step_beyond: "print_step p e = (if prints_beyond e then None else Some ())"
  by (auto simp: print_step_def prints_beyond_def split: ssl_call.split)

text \<open>A trace that passes the monitor and stays inside the buffers has no such read.\<close>

lemma over_trace:
  assumes "watch over_step Clean tr = Some q" and "q \<noteq> Full" and "watch print_step () tr = Some ()"
  shows "\<not> (\<exists>e \<in> set tr. fills_buffer e)"
  using assms
proof (induction tr)
  case Nil
  then show ?case by simp
next
  case (Cons e tr)
  have inside: "\<not> prints_beyond e" "watch print_step () tr = Some ()"
    using Cons.prems(3) print_step_beyond [of "()" e] by (simp_all split: if_splits)
  show ?case
  proof (cases "fills_buffer e")
    case True
    then have full: "watch over_step Full tr = Some q" using Cons.prems(1) inside(1) by simp
    with Cons.prems(2) obtain e' tr' where "tr = e' # tr'" by (cases tr) auto
    then show ?thesis using full inside(2) print_step_beyond [of "()" e'] by (simp split: if_splits)
  next
    case False
    then show ?thesis using Cons.IH Cons.prems(1,2) inside by simp
  qed
qed

lemma overreadI:
  assumes "wp over_step m (\<lambda>_ q. q \<noteq> Full) Clean" and "e \<in> set (trace m)" and "fills_buffer e"
  shows "\<not> prints_inside m"
  using wp_trace [OF assms(1)] over_trace assms(2,3) unfolding prints_inside_def by blast

lemma over_deaf: "p \<noteq> Full \<Longrightarrow> deaf over_step p"
proof -
  assume p: "p \<noteq> Full"
  have "over_step p (c, r) = Some p" if "\<not> data_call c" for c r
    using that p by (cases c; cases p) (simp_all add: prints_beyond_def fills_buffer_def)
  moreover have "printable x" if "(\<exists>i. x = PInt i) \<or> (\<exists>i. x = PString i)" for x using that by auto
  ultimately show ?thesis using p
    by (cases p) (auto simp: deaf_def prints_beyond_def fills_buffer_def list_all_iff)
qed

lemma wp_over_read:
  assumes "lawful read_law (env L)" and "p \<noteq> Full"
    and "\<And>rv buf' q. length buf' = length buf \<Longrightarrow> (q = Full \<Longrightarrow> 0 < rv \<and> 0 \<notin> set buf') \<Longrightarrow> Q (rv, buf') q"
  shows "wp over_step (read_loop L ssl limit tries buf) Q p"
  using assms
proof (induction L ssl limit tries buf rule: read_loop.induct)
  case (1 L ssl limit tries buf)
  show ?case
  proof (subst read_loop.simps, intro wp_bind wp_lib_law [OF 1(2)])
    fix r
    assume law: "read_law (wolfSSL_read ssl (length buf)) r"
    then have len: "length (store r buf) = length buf" and all: "take (nat (rc r)) (store r buf) = data r"
      by (simp_all add: read_law_def store_read)
    let ?e = "(wolfSSL_read ssl (length buf), r)"
    obtain q where q: "over_step p ?e = Some q" "q = Full \<longrightarrow> fills_buffer ?e" "\<not> fills_buffer ?e \<longrightarrow> q = p"
      using 1(3) by (cases p) (auto simp: prints_beyond_def)
    have filled: "0 < rc r \<and> 0 \<notin> set (store r buf)" if "q = Full"
      using that q(2) all len by (auto simp: fills_buffer_def)
    have got: "Q (rc r, store r buf) q" using 1(4) [OF len] filled by blast
    have rest: "wp over_step (read_loop L ssl limit (tries + 1) (store r buf)) Q q"
      if "rc r \<le> 0" "want_io L err \<and> tries < limit" for err
    proof -
      have "\<not> fills_buffer ?e" using that(1) by (simp add: fills_buffer_def)
      then have "q = p" using q(3) by simp
      moreover have "wp over_step (read_loop L ssl limit (tries + 1) (store r buf)) Q p"
      proof (rule 1(1) [OF that 1(2,3)])
        show "Q (rv, buf') p'" if "length buf' = length (store r buf)" "p' = Full \<Longrightarrow> 0 < rv \<and> 0 \<notin> set buf'" for rv buf' p'
          using that 1(4) len by simp
      qed
      ultimately show ?thesis by simp
    qed
    have "wp over_step (if rc r \<le> 0 then rcall (env L) (wolfSSL_get_error ssl (rc r)) \<bind> (\<lambda>err.
        if want_io L err \<and> tries < limit then run (env L) (Sleep 50) \<bind> (\<lambda>_. read_loop L ssl limit (tries + 1) (store r buf))
        else ret (rc r, store r buf)) else ret (rc r, store r buf)) Q q"
      using filled by (auto intro!: wp_if wp_bind wp_deaf_rcall wp_deaf_run over_deaf rest wp_ret got)
    then show "case over_step p ?e of None \<Rightarrow> False | Some q \<Rightarrow>
        wp over_step (if rc r \<le> 0 then rcall (env L) (wolfSSL_get_error ssl (rc r)) \<bind> (\<lambda>err.
        if want_io L err \<and> tries < limit then run (env L) (Sleep 50) \<bind> (\<lambda>_. read_loop L ssl limit (tries + 1) (store r buf))
        else ret (rc r, store r buf)) else ret (rc r, store r buf)) Q q"
      by (simp add: q(1))
  qed
qed

text \<open>The print of the whole buffer, and the write after it.\<close>

lemma wp_over_say:
  assumes "p = Full \<Longrightarrow> 0 \<notin> set buf" and "\<And>q. q \<noteq> Full \<Longrightarrow> Q () q"
  shows "wp over_step (say L fmt [PBuf buf]) Q p"
  unfolding say_def using assms
  by (intro wp_run; cases p) (auto simp: prints_beyond_def fills_buffer_def)

lemma wp_over_write:
  assumes "p \<noteq> Full" and "Q () p"
  shows "wp over_step (run A (wolfSSL_write ssl bs)) Q p"
  using assms by (intro wp_run; cases p) (auto simp: prints_beyond_def fills_buffer_def)

lemma wp_over_got:
  assumes "p = Full \<Longrightarrow> 0 \<notin> set buf" and "\<And>q. q \<noteq> Full \<Longrightarrow> Q () q"
  shows "wp over_step (echo_reply L ssl rv buf) Q p"
  unfolding echo_reply_def using assms by (intro wp_bind wp_over_say wp_over_write) auto

lemma wp_over_all:
  assumes "lawful read_law (env L)" and "p \<noteq> Full" and "\<And>q. q \<noteq> Full \<Longrightarrow> Q () q"
  shows "wp over_step (echo_loop L ssl limit msgLoop i buf) Q p"
  using assms
proof (induction L ssl limit msgLoop i buf arbitrary: p rule: echo_loop.induct)
  case (1 L ssl limit msgLoop i buf)
  have rest: "wp over_step (echo_loop L ssl limit msgLoop (i + 1) buf') Q q" if "i < msgLoop" "q \<noteq> Full" for buf' q
    using 1(1) [OF that(1) 1(2) that(2) 1(4)] by simp
  show ?case
    by (subst echo_loop.simps)
      (auto simp: 1(3,4) intro!: wp_if wp_bind wp_over_read [OF 1(2)] wp_split wp_over_got wp_deaf_rcall wp_deaf_say wp_ret
        over_deaf rest)
qed

lemma wp_over_one:
  assumes "lawful read_law (env L)" and "p \<noteq> Full" and "\<And>q. q \<noteq> Full \<Longrightarrow> Q () q"
  shows "wp over_step (echo_once L ssl limit buf) Q p"
  unfolding echo_once_def
  by (auto simp: assms(2,3) intro!: wp_bind wp_over_read [OF assms(1)] wp_split wp_if wp_over_got wp_deaf_rcall wp_deaf_say over_deaf)

lemma wp_over_cert:
  assumes "lawful read_law (env L)" and "p \<noteq> Full" and "\<And>q. q \<noteq> Full \<Longrightarrow> Q () q"
  shows "wp over_step (cert_exchange L ssl limit buf) Q p"
  unfolding cert_exchange_def
  by (auto simp: assms(2,3) intro!: wp_bind wp_over_write wp_over_read [OF assms(1)] wp_split wp_if wp_over_say wp_deaf_rcall
    wp_deaf_say over_deaf)

lemma strings_print_beyond:
  assumes "lawful read_law (env L)" and "fills_buffer e"
  shows "e \<in> set (trace (dtls_psk_server_main suite n d L stack argv)) \<Longrightarrow> \<not> prints_inside (dtls_psk_server_main suite n d L stack argv)"
    and "e \<in> set (trace (tls13_psk_server L stack argv)) \<Longrightarrow> \<not> prints_inside (tls13_psk_server L stack argv)"
    and "e \<in> set (trace (dtls13_cert_server L stack argv)) \<Longrightarrow> \<not> prints_inside (dtls13_cert_server L stack argv)"
    and "e \<in> set (trace (tls13_cert_server L stack argv)) \<Longrightarrow> \<not> prints_inside (tls13_cert_server L stack argv)"
    and "e \<in> set (trace (dtls13_cert_client L stack argv)) \<Longrightarrow> \<not> prints_inside (dtls13_cert_client L stack argv)"
    and "e \<in> set (trace (tls13_cert_client L stack argv)) \<Longrightarrow> \<not> prints_inside (tls13_cert_client L stack argv)"
  by (rule overreadI [OF _ _ assms(2)], unfold dtls_psk_server_main_def tls13_psk_server_def dtls13_cert_server_def
      tls13_cert_server_def dtls13_cert_client_def tls13_cert_client_def Let_def, (rule wp_split)?,
      intro deaf_rules over_deaf wp_over_all [OF assms(1)] wp_over_one [OF assms(1)] wp_over_cert [OF assms(1)] wp_deaf_run wp_deaf_rcall;
      simp add: server_certs_def client_certs_def)+

text \<open>A library that fills the whole buffer.\<close>

definition flood :: ssl_lib where
  "flood = \<lparr>env = (\<lambda>tr c. case c of
       wolfSSL_read ssl n \<Rightarrow> \<lparr>rc = int n, data = replicate n 65, used = 0\<rparr>
     | _ \<Rightarrow> \<lparr>rc = 1, data = [], used = 0\<rparr>),
     WOLFSSL_SUCCESS = 1, WOLFSSL_ERROR_WANT_READ = 2, WOLFSSL_ERROR_WANT_WRITE = 3, INVALID_SOCKET = -1\<rparr>"

lemma flood_lawful: "lawful read_law (env flood)"
  by (auto simp: lawful_def read_law_def flood_def split: ssl_call.splits)

definition quick :: "ssl_call \<Rightarrow> reply" where
  "quick c = (case c of wolfSSL_read ssl n \<Rightarrow> \<lparr>rc = int n, data = replicate n 65, used = 0\<rparr> | _ \<Rightarrow> \<lparr>rc = 1, data = [], used = 0\<rparr>)"

lemma run_flood:
  "run_state (lib (env flood) c) tr = (quick c, tr @ [(c, quick c)])"
  "run_state (rcall (env flood) c) tr = ((case c of wolfSSL_read ssl n \<Rightarrow> int n | _ \<Rightarrow> 1), tr @ [(c, quick c)])"
  "run_state (run (env flood) c) tr = ((), tr @ [(c, quick c)])"
  by (simp_all add: lib_def rcall_def run_def flood_def Let_def quick_def split: ssl_call.splits)

lemma flood_consts: "WOLFSSL_SUCCESS flood = 1" "WOLFSSL_ERROR_WANT_READ flood = 2"
  "WOLFSSL_ERROR_WANT_WRITE flood = 3" "INVALID_SOCKET flood = -1"
  by (simp_all add: flood_def)

lemmas run_parts = startup_def udp_socket_def only_if_def say_def handshake_ok_def echo_once_def echo_reply_def
  teardown_def server_certs_def

lemma flood_fills:
  "\<exists>e \<in> set (trace (dtls13_cert_server flood stack [''server''])). fills_buffer e"
proof -
  let ?buf = "replicate 64 65 :: u8 list"
  have "store \<lparr>rc = 64, data = ?buf, used = 0\<rparr> (map stack [0..<64]) = ?buf" by (simp add: store_def)
  then have read: "run_state (read_loop flood 1 100 0 (map stack [0..<64])) tr
      = ((64, ?buf), tr @ [(wolfSSL_read 1 64, quick (wolfSSL_read 1 64))])" for tr
    by (subst read_loop.simps) (simp add: run_flood quick_def del: upt_Suc)
  have accept: "run_state (accept_loop flood 1 200 0) tr = (True, tr @ [(wolfSSL_accept 1, quick (wolfSSL_accept 1))])" for tr
    by (subst accept_loop.simps) (simp add: run_flood flood_consts)
  have "(wolfSSL_read 1 64, quick (wolfSSL_read 1 64)) \<in> set (trace (dtls13_cert_server flood stack [''server'']))"
    unfolding trace_def dtls13_cert_server_def Let_def run_parts
    by (simp add: run_flood flood_consts read accept del: upt_Suc)
  then show ?thesis by (rule bexI [rotated]) (simp add: fills_buffer_def quick_def)
qed

end
