(* ===== verification/Ssl_Bounds.thy ===== *)
theory Ssl_Bounds
  imports Ssl_Exchange
begin

text \<open>
  How long the demonstration programs can go on, whatever the libraries answer: the retry
  loops, counted in handshake attempts, reads and milliseconds of sleep.
\<close>

text \<open>Handshake attempts, reads and milliseconds of sleep of a trace, each with a weight.\<close>

definition effort :: "nat \<Rightarrow> nat \<Rightarrow> nat \<Rightarrow> ssl_call event \<Rightarrow> nat" where
  "effort wa wr ws e = (case fst e of
     wolfSSL_accept _ \<Rightarrow> wa
   | wolfSSL_connect _ \<Rightarrow> wa
   | wolfSSL_read _ _ \<Rightarrow> wr
   | Sleep ms \<Rightarrow> nat ms * ws
   | _ \<Rightarrow> 0)"

abbreviation effort_step :: "nat \<Rightarrow> nat \<Rightarrow> nat \<Rightarrow> (nat, ssl_call) monitor" where
  "effort_step wa wr ws \<equiv> cost_step (effort wa wr ws)"

fun costs :: "ssl_call \<Rightarrow> bool" where
  "costs (wolfSSL_accept _) = True" | "costs (wolfSSL_connect _) = True"
| "costs (wolfSSL_read _ _) = True" | "costs (Sleep _) = True" | "costs _ = False"

lemma effort_free: "\<not> costs c \<Longrightarrow> effort wa wr ws (c, r) = 0"
  by (cases c) (simp_all add: effort_def)

lemma wp_free_run: "\<not> costs c \<Longrightarrow> Q () n \<Longrightarrow> wp (effort_step wa wr ws) (run A c) Q n"
  by (rule wp_run) (simp add: cost_step_def effort_free)

lemma wp_free_rcall: "\<not> costs c \<Longrightarrow> (\<And>x. Q x n) \<Longrightarrow> wp (effort_step wa wr ws) (rcall A c) Q n"
  by (rule wp_rcall) (simp add: cost_step_def effort_free)

lemma wp_free_say: "Q () n \<Longrightarrow> wp (effort_step wa wr ws) (say L fmt args) Q n"
  unfolding say_def by (rule wp_free_run) simp_all

lemma wp_sleep: "Q () (n + 50 * ws) \<Longrightarrow> wp (effort_step wa wr ws) (run A (Sleep 50)) Q n"
  by (rule wp_run) (simp add: cost_step_def effort_def)

lemma wp_free_accept_failed: "Q () n \<Longrightarrow> wp (effort_step wa wr ws) (accept_failed L ssl rv) Q n"
  unfolding accept_failed_def by (intro wp_bind wp_free_rcall wp_free_say) simp_all

text \<open>A loop that is entered with \<open>tries\<close> makes at most \<open>limit - tries\<close> further attempts.\<close>

lemma wp_accept_bound:
  assumes "\<And>b k. k \<le> n + (nat (limit - tries) + 1) * wa + nat (limit - tries) * (50 * ws) \<Longrightarrow> Q b k"
  shows "wp (effort_step wa wr ws) (accept_loop L ssl limit tries) Q n"
  using assms
proof (induction L ssl limit tries arbitrary: n rule: accept_loop.induct)
  case (1 L ssl limit tries)
  have acc: "wp (effort_step wa wr ws) (rcall A (wolfSSL_accept ssl)) R n" if "\<And>x. R x (n + wa)" for A R
    using that by (intro wp_rcall) (simp add: cost_step_def effort_def)
  have again: "wp (effort_step wa wr ws) (accept_loop L ssl limit (tries + 1)) Q (n + wa + 50 * ws)" 
    if "x \<noteq> WOLFSSL_SUCCESS L" "want_io L err" "tries < limit" for x err
  proof (rule 1(1) [of x err])
    fix b k
    assume k: "k \<le> n + wa + 50 * ws + (nat (limit - (tries + 1)) + 1) * wa + nat (limit - (tries + 1)) * (50 * ws)"
    have "nat (limit - tries) = nat (limit - (tries + 1)) + 1" using that by linarith
    with k show "Q b k" by (intro 1(2)) (simp add: algebra_simps)
  qed (use that in simp_all)
  show ?case
    by (subst accept_loop.simps)
      (auto intro!: wp_bind acc wp_if wp_ret wp_free_rcall wp_sleep wp_free_accept_failed again 1(2))
qed

lemma wp_read_bound:
  assumes "\<And>x k. k \<le> n + (nat (limit - tries) + 1) * wr + nat (limit - tries) * (50 * ws) \<Longrightarrow> Q x k"
  shows "wp (effort_step wa wr ws) (read_loop L ssl limit tries buf) Q n"
  using assms
proof (induction L ssl limit tries buf arbitrary: n rule: read_loop.induct)
  case (1 L ssl limit tries buf)
  have rd: "wp (effort_step wa wr ws) (lib A (wolfSSL_read ssl m)) R n" if "\<And>x. R x (n + wr)" for A R m
    using that by (intro wp_lib) (simp add: cost_step_def effort_def)
  have again: "wp (effort_step wa wr ws) (read_loop L ssl limit (tries + 1) (store r buf)) Q (n + wr + 50 * ws)"
    if "rc r \<le> 0" "want_io L err" "tries < limit" for r err
  proof (rule 1(1) [of r err])
    fix x k
    assume k: "k \<le> n + wr + 50 * ws + (nat (limit - (tries + 1)) + 1) * wr + nat (limit - (tries + 1)) * (50 * ws)"
    have "nat (limit - tries) = nat (limit - (tries + 1)) + 1" using that by linarith
    with k show "Q x k" by (intro 1(2)) (simp add: algebra_simps)
  qed (use that in simp_all)
  show ?case
    by (subst read_loop.simps)
      (auto intro!: wp_bind rd wp_if wp_ret wp_free_rcall wp_sleep again 1(2))
qed

lemma wp_free_echo_reply: "Q () n \<Longrightarrow> wp (effort_step wa wr ws) (echo_reply L ssl rv buf) Q n"
  unfolding echo_reply_def by (intro wp_bind wp_free_say wp_free_run) simp_all

text \<open>The cost of reading one message.\<close>

abbreviation read_cost :: "int \<Rightarrow> nat \<Rightarrow> nat \<Rightarrow> nat" where
  "read_cost limit wr ws \<equiv> (nat limit + 1) * wr + nat limit * (50 * ws)"

lemma wp_echo_bound:
  assumes "\<And>k. k \<le> n + nat (msgLoop - i) * read_cost limit wr ws \<Longrightarrow> Q () k"
  shows "wp (effort_step wa wr ws) (echo_loop L ssl limit msgLoop i buf) Q n"
  using assms
proof (induction L ssl limit msgLoop i buf arbitrary: n rule: echo_loop.induct)
  case (1 L ssl limit msgLoop i buf)
  show ?case
  proof (cases "i < msgLoop")
    case False
    with 1(2) show ?thesis by (subst echo_loop.simps) (simp add: wp_ret)
  next
    case True
    then have i: "nat (msgLoop - i) = nat (msgLoop - (i + 1)) + 1" by linarith
    have rest: "wp (effort_step wa wr ws) (echo_loop L ssl limit msgLoop (i + 1) b) Q k"
      if "k \<le> n + (nat (limit - 0) + 1) * wr + nat (limit - 0) * (50 * ws)" for b k
    proof (rule 1(1) [OF True])
      fix k' assume "k' \<le> k + nat (msgLoop - (i + 1)) * read_cost limit wr ws"
      with that show "Q () k'" by (intro 1(2)) (simp add: i algebra_simps)
    qed
    show ?thesis
      by (subst echo_loop.simps)
        (use True in \<open>intro wp_bind wp_read_bound wp_split wp_if wp_free_echo_reply wp_free_rcall wp_free_say rest; simp\<close>)
  qed
qed

lemma wp_message_bound:
  assumes "\<And>k. k \<le> n + nat (msgCount - i) * (read_cost limit wr ws + 20 * ws) \<Longrightarrow> Q () k"
  shows "wp (effort_step wa wr ws) (message_loop L ssl limit msgCount msgSize i buf) Q n"
  using assms
proof (induction L ssl limit msgCount msgSize i buf arbitrary: n rule: message_loop.induct)
  case (1 L ssl limit msgCount msgSize i buf)
  show ?case
  proof (cases "i < msgCount")
    case False
    with 1(2) show ?thesis by (subst message_loop.simps) (simp add: wp_ret)
  next
    case True
    then have i: "nat (msgCount - i) = nat (msgCount - (i + 1)) + 1" by linarith
    have gap: "wp (effort_step wa wr ws) (run A (Sleep 20)) R n" if "R () (n + 20 * ws)" for A R
      using that by (intro wp_run) (simp add: cost_step_def effort_def)
    have rest: "wp (effort_step wa wr ws) (message_loop L ssl limit msgCount msgSize (i + 1) b) Q k"
      if "k \<le> n + 20 * ws + (nat (limit - 0) + 1) * wr + nat (limit - 0) * (50 * ws)" for b k
    proof (rule 1(1) [OF True])
      fix k' assume "k' \<le> k + nat (msgCount - (i + 1)) * (read_cost limit wr ws + 20 * ws)"
      with that show "Q () k'" by (intro 1(2)) (simp add: i algebra_simps)
    qed
    show ?thesis
      by (subst message_loop.simps)
        (use True in \<open>intro wp_bind gap wp_read_bound wp_split wp_if wp_only_if wp_free_run wp_free_rcall wp_free_say rest; simp\<close>)
  qed
qed

lemma wp_free_startup: "Q () n \<Longrightarrow> wp (effort_step wa wr ws) (startup L) Q n"
  unfolding startup_def by (intro wp_bind wp_free_run) simp_all

lemma wp_free_udp: "(\<And>x. Q x n) \<Longrightarrow> wp (effort_step wa wr ws) (udp_socket L b) Q n"
  unfolding udp_socket_def by (intro wp_bind wp_free_rcall wp_only_if wp_free_run wp_ret) simp_all

lemma wp_free_fail: "Q 1 n \<Longrightarrow> wp (effort_step wa wr ws) (fail L msg) Q n"
  unfolding fail_def by (intro wp_bind wp_free_say wp_ret)

lemma wp_free_handshake_ok: "Q () n \<Longrightarrow> wp (effort_step wa wr ws) (handshake_ok L ssl) Q n"
  unfolding handshake_ok_def by (intro wp_bind wp_free_rcall wp_free_say) simp_all

lemma wp_free_teardown: "Q 0 n \<Longrightarrow> wp (effort_step wa wr ws) (teardown L ssl ctx sock) Q n"
  unfolding teardown_def by (intro wp_bind wp_free_run wp_ret) simp_all

lemma wp_one_connect:
  assumes "\<And>b. Q b (n + wa)"
  shows "wp (effort_step wa wr ws) (client_handshake L ssl) Q n"
proof -
  have con: "wp (effort_step wa wr ws) (rcall A (wolfSSL_connect ssl)) R n" if "\<And>x. R x (n + wa)" for A R
    using that by (intro wp_rcall) (simp add: cost_step_def effort_def)
  show ?thesis
    unfolding client_handshake_def
    by (intro wp_bind wp_free_rcall [where c = "wolfSSL_get_cipher _"] wp_free_rcall [where c = "wolfSSL_get_error _ _"]
        wp_free_rcall [where c = "wolfSSL_ERR_reason_error_string _"] wp_free_say con wp_if wp_ret wp_free_handshake_ok assms) simp_all
qed

lemmas free_rules = wp_bind wp_free_startup wp_free_udp wp_free_fail wp_free_say wp_free_handshake_ok wp_free_teardown
  wp_if wp_only_if wp_split wp_ret

lemma dtls_server_effort:
  fixes argv :: "string list" and d :: int
  defines "limit \<equiv> (if 2 < length argv \<and> argv ! 2 = ''--short-timeout'' then 20 else 200 :: int)"
    and "rlimit \<equiv> (if 2 < length argv \<and> argv ! 2 = ''--short-timeout'' then 20 else 100 :: int)"
    and "msgs \<equiv> (if 3 < length argv then atoi (argv ! 3) else d)"
  shows "cost (effort wa wr ws) (trace (dtls_psk_server_main suite n d L stack argv))
    \<le> (nat limit + 1) * wa + nat limit * (50 * ws) + nat msgs * read_cost rlimit wr ws"
proof (rule wp_cost)
  show "wp (effort_step wa wr ws) (dtls_psk_server_main suite n d L stack argv)
    (\<lambda>x q. q \<le> (nat limit + 1) * wa + nat limit * (50 * ws) + nat msgs * read_cost rlimit wr ws) 0"
    unfolding dtls_psk_server_main_def Let_def limit_def [symmetric] rlimit_def [symmetric] msgs_def [symmetric]
    by (intro free_rules wp_free_run wp_free_rcall wp_accept_bound wp_echo_bound) simp_all
qed

lemma dtls_client_effort:
  assumes "client_options argv = (st, msgCount, msgSize)"
  defines "limit \<equiv> (if st then 10 else 100 :: int)"
  shows "cost (effort wa wr ws) (trace (dtls_psk_client_main suite L stack argv))
    \<le> wa + nat msgCount * (read_cost limit wr ws + 20 * ws)"
proof (rule wp_cost)
  show "wp (effort_step wa wr ws) (dtls_psk_client_main suite L stack argv)
    (\<lambda>x q. q \<le> wa + nat msgCount * (read_cost limit wr ws + 20 * ws)) 0"
    unfolding dtls_psk_client_main_def Let_def assms(1) prod.case limit_def [symmetric]
    by (intro free_rules wp_free_run wp_free_rcall wp_one_connect wp_message_bound) simp_all
qed

end
