(* ===== verification/Ptls_Client.thy ===== *)
theory Ptls_Client
  imports Ssl_Calls
begin

text \<open>
  The TLS 1.3 client on the picotls API, \<open>tools/picotls_psk_client.c\<close>: the handshake loop
  and the receive loop over one array of 65536 bytes, of which the first \<open>rlen\<close> bytes are
  waiting. The peer decides how often both loops turn, so they take fuel, and running
  out of it is the result \<open>Running\<close>. \<open>Ptls_Fuel\<close> says how much is enough: more than
  the number of bytes that are received. Format strings are written without their newlines.
\<close>

section \<open>The calls\<close>

datatype ptls_arg = AInt int | APtr int | ABytes "u8 list"

text \<open>The context that \<open>main\<close> fills in, and the objects of picotls it points to.\<close>

datatype ptls_object = ptls_minicrypto_random_bytes | ptls_minicrypto_cipher_suites | ptls_ascon_hash256 | ptls_get_time

record ptls_context =
  random_bytes :: ptls_object
  cipher_suites :: ptls_object
  key_exchanges :: "ptls_object option"
  psk_identity :: string
  psk_secret :: "u8 list"
  psk_hash :: ptls_object
  get_time :: ptls_object

definition psk_context :: "u8 list \<Rightarrow> ptls_context" where
  "psk_context key = \<lparr>random_bytes = ptls_minicrypto_random_bytes, cipher_suites = ptls_minicrypto_cipher_suites,
     key_exchanges = None, psk_identity = ''Client_identity'', psk_secret = key, psk_hash = ptls_ascon_hash256,
     get_time = ptls_get_time\<rparr>"

datatype ptls_call =
    unbuffered
  | put_out string "ptls_arg list"          \<comment> \<open>\<open>printf\<close>\<close>
  | wsa_startup nat nat | wsa_cleanup
  | tcp_socket | tcp_connect int sockaddr_in | tcp_close int
  | tcp_send int "u8 list"
  | tcp_recv int nat nat                \<comment> \<open>into \<open>rbuf\<close> from an offset on, at most so many bytes\<close>
  | ptls_new ptls_context | ptls_free int
  | ptls_handshake int "u8 list option" \<comment> \<open>the input, or \<open>NULL\<close>\<close>
  | ptls_get_cipher int | cipher_id int | cipher_name int
  | ptls_send int "u8 list"
  | ptls_receive int "u8 list"

text \<open>
  In an answer \<open>data\<close> is what the call appends to its output buffer, \<open>used\<close> the number of
  input bytes it consumed.
\<close>

record ptls_lib =
  ptls_env :: "ptls_call answers"
  PTLS_ERROR_IN_PROGRESS :: int

type_synonym 'a ptls_prog = "(ptls_call, 'a) prog"

datatype 'a pace = Running | Finished 'a

definition put :: "ptls_lib \<Rightarrow> string \<Rightarrow> ptls_arg list \<Rightarrow> unit ptls_prog" where
  "put L fmt args = run (ptls_env L) (put_out fmt args)"

section \<open>The program\<close>

text \<open>The loops that print a buffer in hexadecimal.\<close>

fun hex_dump :: "ptls_lib \<Rightarrow> u8 list \<Rightarrow> unit ptls_prog" where
  "hex_dump L [] = ret ()"
| "hex_dump L (b # bs) = do { put L ''%02x'' [AInt (uint b)]; hex_dump L bs }"

definition RBUF_SIZE :: nat where "RBUF_SIZE = 65536"

text \<open>\<open>memmove(rbuf, rbuf + c, rlen - c)\<close>\<close>

definition shift_down :: "u8 list \<Rightarrow> nat \<Rightarrow> nat \<Rightarrow> u8 list" where
  "shift_down rbuf c rlen = take (rlen - c) (drop c rbuf) @ drop (rlen - c) rbuf"

text \<open>\<open>recv\<close> behind the bytes that wait.\<close>

definition receive_more :: "u8 list \<Rightarrow> nat \<Rightarrow> reply \<Rightarrow> u8 list" where
  "receive_more rbuf rlen r = take rlen rbuf @ store r (drop rlen rbuf)"

definition send_flight :: "ptls_lib \<Rightarrow> int \<Rightarrow> u8 list \<Rightarrow> unit ptls_prog" where
  "send_flight L sock wbuf = only_if (wbuf \<noteq> []) (do {
     put L ''[DBG send-flight] off=%d: '' [AInt (int (length wbuf))];
     hex_dump L wbuf;
     put L [] [];
     run (ptls_env L) (tcp_send sock wbuf)
   })"

text \<open>
  The handshake loop: \<open>None\<close> when \<open>main\<close> returns 1, otherwise the array and the bytes that
  the handshake left in it.
\<close>

fun hs_loop :: "nat \<Rightarrow> ptls_lib \<Rightarrow> int \<Rightarrow> int \<Rightarrow> int \<Rightarrow> u8 list \<Rightarrow> nat \<Rightarrow> (u8 list \<times> nat) option pace ptls_prog" where
  "hs_loop fuel L sock tls rv rbuf rlen =
     (if rv \<noteq> PTLS_ERROR_IN_PROGRESS L then ret (Finished (Some (rbuf, rlen)))
      else case fuel of 0 \<Rightarrow> ret Running | Suc f \<Rightarrow> do {
        n \<leftarrow> lib (ptls_env L) (tcp_recv sock rlen (RBUF_SIZE - rlen));
        if rc n \<le> 0 then do { put L ''recv fail during handshake'' []; ret (Finished None) }
        else let rbuf = receive_more rbuf rlen n; rlen = rlen + nat (rc n) in do {
          h \<leftarrow> lib (ptls_env L) (ptls_handshake tls (Some (take rlen rbuf)));
          put L ''[iter] consumed=%u new_total=%u ret=%d first_type=0x%02x''
            [AInt (int (used h)), AInt (int rlen), AInt (rc h), AInt (if 0 < rlen then uint (rbuf ! 0) else 0)];
          send_flight L sock (data h);
          if rc h = 0 then ret (Finished (Some (shift_down rbuf (used h) rlen, rlen - used h)))
          else if rc h \<noteq> PTLS_ERROR_IN_PROGRESS L
          then do { put L ''handshake err %d'' [AInt (rc h)]; ret (Finished None) }
          else hs_loop f L sock tls (rc h) (shift_down rbuf (used h) rlen) (rlen - used h)
        }
      })"

declare hs_loop.simps [simp del]

text \<open>
  The inner receive loop: the offset where it stopped, \<open>got\<close>, and the decrypted bytes.
\<close>

fun records_loop :: "nat \<Rightarrow> ptls_lib \<Rightarrow> int \<Rightarrow> u8 list \<Rightarrow> nat \<Rightarrow> nat \<Rightarrow> u8 list \<Rightarrow> (nat \<times> bool \<times> u8 list) pace ptls_prog" where
  "records_loop fuel L tls rbuf rlen off dec =
     (if \<not> off < rlen then ret (Finished (off, False, dec))
      else case fuel of 0 \<Rightarrow> ret Running | Suc f \<Rightarrow> do {
        r \<leftarrow> lib (ptls_env L) (ptls_receive tls (take (rlen - off) (drop off rbuf)));
        let off = off + used r; dec = dec @ data r in
        if rc r = 0 then
          (if dec \<noteq> [] then do { put L ''ECHO: %.*s'' [AInt (int (length dec)), ABytes dec]; ret (Finished (off, True, dec)) }
           else records_loop f L tls rbuf rlen off dec)
        else if rc r \<noteq> PTLS_ERROR_IN_PROGRESS L
        then do { put L ''receive err %d'' [AInt (rc r)]; ret (Finished (off, False, dec)) }
        else records_loop f L tls rbuf rlen off dec
      })"

declare records_loop.simps [simp del]

text \<open>The first lines of the outer loop: \<open>None\<close> when it breaks.\<close>

definition refill :: "ptls_lib \<Rightarrow> int \<Rightarrow> u8 list \<Rightarrow> nat \<Rightarrow> (u8 list \<times> nat) option ptls_prog" where
  "refill L sock rbuf rlen =
     (if rlen = 0 then do {
        n \<leftarrow> lib (ptls_env L) (tcp_recv sock 0 RBUF_SIZE);
        if rc n \<le> 0 then do { put L ''recv echo fail'' []; ret None }
        else ret (Some (receive_more rbuf 0 n, nat (rc n)))
      } else ret (Some (rbuf, rlen)))"

fun ptls_echo_loop :: "nat \<Rightarrow> ptls_lib \<Rightarrow> int \<Rightarrow> int \<Rightarrow> u8 list \<Rightarrow> nat \<Rightarrow> u8 list \<Rightarrow> unit pace ptls_prog" where
  "ptls_echo_loop 0 L sock tls rbuf rlen dec = ret Running"
| "ptls_echo_loop (Suc f) L sock tls rbuf rlen dec = do {
     m \<leftarrow> refill L sock rbuf rlen;
     case m of None \<Rightarrow> ret (Finished ()) | Some (rbuf, rlen) \<Rightarrow> do {
       p \<leftarrow> records_loop (Suc f) L tls rbuf rlen 0 dec;
       case p of Running \<Rightarrow> ret Running
       | Finished (off, got, dec) \<Rightarrow>
           if got then ret (Finished ())
           else ptls_echo_loop f L sock tls (shift_down rbuf off rlen) (rlen - off) dec
     }
   }"

declare ptls_echo_loop.simps [simp del]

definition ping :: "u8 list" where "ping = [0x70, 0x69, 0x6E, 0x67]"

definition ptls_exchange :: "nat \<Rightarrow> ptls_lib \<Rightarrow> int \<Rightarrow> int \<Rightarrow> u8 list \<Rightarrow> nat \<Rightarrow> int pace ptls_prog" where
  "ptls_exchange fuel L sock tls rbuf rlen = do {
     cs \<leftarrow> rcall (ptls_env L) (ptls_get_cipher tls);
     i \<leftarrow> rcall (ptls_env L) (cipher_id cs);
     nm \<leftarrow> rcall (ptls_env L) (cipher_name cs);
     put L ''HANDSHAKE OK. cipher id=0x%04x name=%s'' [AInt i, APtr nm];
     s \<leftarrow> lib (ptls_env L) (ptls_send tls ping);
     if rc s \<noteq> 0 then do { put L ''send fail'' []; ret (Finished 1) } else do {
     run (ptls_env L) (tcp_send sock (data s));
     put L ''[DBG send] app record off=%d'' [AInt (int (length (data s)))];
     hex_dump L (data s);
     put L [] [];
     e \<leftarrow> ptls_echo_loop fuel L sock tls rbuf rlen [];
     case e of Running \<Rightarrow> ret Running | Finished _ \<Rightarrow> do {
     run (ptls_env L) (ptls_free tls);
     run (ptls_env L) (tcp_close sock);
     run (ptls_env L) wsa_cleanup;
     ret (Finished 0) }}
   }"

definition ptls_session :: "nat \<Rightarrow> ptls_lib \<Rightarrow> (nat \<Rightarrow> u8) \<Rightarrow> int \<Rightarrow> int pace ptls_prog" where
  "ptls_session fuel L stack sock = do {
     tls \<leftarrow> rcall (ptls_env L) (ptls_new (psk_context (psk_guarded_fill 0x01 32)));
     h \<leftarrow> lib (ptls_env L) (ptls_handshake tls None);
     only_if (data h \<noteq> []) (run (ptls_env L) (tcp_send sock (data h)));
     if rc h \<noteq> 0 \<and> rc h \<noteq> PTLS_ERROR_IN_PROGRESS L
     then do { put L ''clienthello fail %d'' [AInt (rc h)]; ret (Finished 1) }
     else do {
       p \<leftarrow> hs_loop fuel L sock tls (rc h) (map stack [0..<RBUF_SIZE]) 0;
       case p of Running \<Rightarrow> ret Running
       | Finished None \<Rightarrow> ret (Finished 1)
       | Finished (Some (rbuf, rlen)) \<Rightarrow> ptls_exchange fuel L sock tls rbuf rlen
     }
   }"

text \<open>\<open>main\<close>; \<open>stack\<close> is the initial content of the array.\<close>

definition picotls_psk_client :: "nat \<Rightarrow> ptls_lib \<Rightarrow> (nat \<Rightarrow> u8) \<Rightarrow> string list \<Rightarrow> int pace ptls_prog" where
  "picotls_psk_client fuel L stack argv = (let
       host = (if 1 < length argv then argv ! 1 else ''127.0.0.1'');
       port = (if 2 < length argv then atoi (argv ! 2) else 11111)
     in do {
       run (ptls_env L) unbuffered;
       run (ptls_env L) (wsa_startup 2 2);
       sock \<leftarrow> rcall (ptls_env L) tcp_socket;
       c \<leftarrow> rcall (ptls_env L) (tcp_connect sock \<lparr>sin_port = to_port port, sin_addr = inet_addr host\<rparr>);
       if c < 0 then do { put L ''connect fail'' []; ret (Finished 1) }
       else ptls_session fuel L stack sock
     })"

end
