(* ===== verification/Ptls_Buffer.thy ===== *)
theory Ptls_Buffer
  imports Ptls_Client
begin

text \<open>
  What the picotls client of \<open>Ptls_Client\<close> does with the bytes it receives. A monitor keeps
  the stream: the bytes that came from the socket and were not consumed yet. Every call of
  picotls must get exactly these bytes, the handshake calls before it is finished and the
  others after it, and \<open>recv\<close> must write behind them and inside the array. A second monitor
  counts bytes for the fuel.
\<close>

section \<open>The array\<close>

lemma length_store [simp]: "length (store r buf) = length buf"
  by (simp add: store_def Let_def)

lemma length_shift_down [simp]: "length (shift_down rbuf c n) = length rbuf"
  if "n \<le> length rbuf" for rbuf :: "u8 list"
  using that by (simp add: shift_down_def)

lemma take_shift_down:
  "n \<le> length rbuf \<Longrightarrow> take (n - c) (shift_down rbuf c n) = drop c (take n rbuf)" for rbuf :: "u8 list"
  by (simp add: shift_down_def drop_take)

lemma length_receive_more [simp]:
  "n \<le> length rbuf \<Longrightarrow> length (receive_more rbuf n r) = length rbuf"
  by (simp add: receive_more_def)

lemma take_receive_more:
  assumes "n \<le> length rbuf" and "length (data r) = nat (rc r)" and "nat (rc r) \<le> length rbuf - n"
  shows "take (n + nat (rc r)) (receive_more rbuf n r) = take n rbuf @ data r"
  using assms by (simp add: receive_more_def store_def Let_def)

section \<open>The stream\<close>

datatype hs_phase = Handshaking | Established | Broken

record stream =
  hsPhase :: hs_phase
  pending :: "u8 list"

text \<open>What is documented of the calls: no more bytes than fit are received or consumed.\<close>

definition ptls_law :: "ptls_call \<Rightarrow> reply \<Rightarrow> bool" where
  "ptls_law c r = (case c of
     tcp_recv s off n \<Rightarrow> rc r \<le> int n \<and> (0 < rc r \<longrightarrow> length (data r) = nat (rc r))
   | ptls_handshake t (Some bs) \<Rightarrow> used r \<le> length bs
   | ptls_receive t bs \<Rightarrow> used r \<le> length bs
   | _ \<Rightarrow> True)"

definition hs_result :: "int \<Rightarrow> int \<Rightarrow> hs_phase" where
  "hs_result progress x = (if x = 0 then Established else if x = progress then Handshaking else Broken)"

definition stream_step :: "int \<Rightarrow> (stream, ptls_call) monitor" where
  "stream_step progress st e = (let r = snd e in case fst e of
     tcp_recv s off n \<Rightarrow>
       if off = length (pending st) \<and> off + n \<le> RBUF_SIZE \<and> hsPhase st \<noteq> Broken
       then Some (if 0 < rc r then st\<lparr>pending := pending st @ data r\<rparr> else st) else None
   | ptls_handshake t inp \<Rightarrow>
       if hsPhase st = Handshaking \<and> case_option [] id inp = pending st
       then Some \<lparr>hsPhase = hs_result progress (rc r), pending = (if inp = None then [] else drop (used r) (pending st))\<rparr>
       else None
   | ptls_send t bs \<Rightarrow> if hsPhase st = Established then Some st else None
   | ptls_receive t bs \<Rightarrow>
       if hsPhase st = Established \<and> bs = pending st \<and> bs \<noteq> []
       then Some (st\<lparr>pending := drop (used r) bs\<rparr>) else None
   | ptls_get_cipher t \<Rightarrow> if hsPhase st = Established then Some st else None
   | _ \<Rightarrow> Some st)"

definition holds :: "u8 list \<Rightarrow> nat \<Rightarrow> hs_phase \<Rightarrow> stream \<Rightarrow> bool" where
  "holds rbuf rlen ph st \<longleftrightarrow> length rbuf = RBUF_SIZE \<and> rlen \<le> RBUF_SIZE \<and> st = \<lparr>hsPhase = ph, pending = take rlen rbuf\<rparr>"

lemma wp_put [wp_rules]:
  "Q () st \<Longrightarrow> wp (stream_step k) (put L fmt args) Q st"
  unfolding put_def by (intro wp_run) (simp add: stream_step_def)

lemma wp_hex_dump [wp_rules]:
  "Q () st \<Longrightarrow> wp (stream_step k) (hex_dump L bs) Q st"
  by (induction bs) (auto intro!: wp_rules)

lemma wp_send_flight [wp_rules]:
  "Q () st \<Longrightarrow> wp (stream_step k) (send_flight L sock bs) Q st"
  unfolding send_flight_def by (intro wp_rules) (simp_all add: stream_step_def)

lemma wp_recv:
  assumes "lawful ptls_law A" and "holds rbuf rlen ph st" and "ph \<noteq> Broken" and "n = RBUF_SIZE - rlen"
    and "\<And>r. rc r \<le> 0 \<Longrightarrow> Q r st"
    and "\<And>r st'. 0 < rc r \<Longrightarrow> holds (receive_more rbuf rlen r) (rlen + nat (rc r)) ph st' \<Longrightarrow> Q r st'"
  shows "wp (stream_step k) (lib A (tcp_recv s rlen n)) Q st"
proof (rule wp_lib_law [OF assms(1)])
  fix r
  assume law: "ptls_law (tcp_recv s rlen n) r"
  have "holds (receive_more rbuf rlen r) (rlen + nat (rc r)) ph (st\<lparr>pending := pending st @ data r\<rparr>)" if "0 < rc r"
    using law that assms(2,4) by (auto simp: holds_def ptls_law_def take_receive_more)
  then show "case stream_step k st (tcp_recv s rlen n, r) of None \<Rightarrow> False | Some q \<Rightarrow> Q r q"
    using assms(2-6) by (auto simp: stream_step_def holds_def)
qed

lemma wp_hs_call:
  assumes "lawful ptls_law A" and "holds rbuf rlen Handshaking st"
    and "\<And>r st'. used r \<le> rlen \<Longrightarrow> holds (shift_down rbuf (used r) rlen) (rlen - used r) (hs_result k (rc r)) st' \<Longrightarrow> Q r st'"
  shows "wp (stream_step k) (lib A (ptls_handshake t (Some (take rlen rbuf)))) Q st"
  using assms(2) by (intro wp_lib_law [OF assms(1)])
    (auto simp: stream_step_def holds_def ptls_law_def take_shift_down intro!: assms(3))

lemma wp_receive_call:
  assumes "lawful ptls_law A" and "st = \<lparr>hsPhase = Established, pending = bs\<rparr>" and "bs \<noteq> []"
    and "\<And>r. used r \<le> length bs \<Longrightarrow> Q r \<lparr>hsPhase = Established, pending = drop (used r) bs\<rparr>"
  shows "wp (stream_step k) (lib A (ptls_receive t bs)) Q st"
  using assms(2-) by (intro wp_lib_law [OF assms(1)]) (auto simp: stream_step_def ptls_law_def)

section \<open>The loops keep it\<close>

text \<open>The handshake loop ends with the handshake established or after a failure.\<close>

definition hs_post :: "(u8 list \<times> nat) option pace \<Rightarrow> stream \<Rightarrow> bool" where
  "hs_post x st = (case x of Finished (Some (rbuf, rlen)) \<Rightarrow> holds rbuf rlen Established st | _ \<Rightarrow> True)"

lemma hs_loop_stream:
  assumes "lawful ptls_law (ptls_env L)" and "holds rbuf rlen (hs_result (PTLS_ERROR_IN_PROGRESS L) rv) st"
    and "rv = 0 \<or> rv = PTLS_ERROR_IN_PROGRESS L" and "PTLS_ERROR_IN_PROGRESS L \<noteq> 0"
  shows "wp (stream_step (PTLS_ERROR_IN_PROGRESS L)) (hs_loop fuel L sock tls rv rbuf rlen) hs_post st"
  using assms(2,3)
proof (induction fuel arbitrary: rv rbuf rlen st)
  case 0
  then show ?case
    using assms(4) by (subst hs_loop.simps) (auto intro!: wp_rules simp: hs_post_def hs_result_def)
next
  case (Suc fuel)
  show ?case
  proof (cases "rv = PTLS_ERROR_IN_PROGRESS L")
    case False
    with Suc.prems show ?thesis
      by (subst hs_loop.simps) (auto intro!: wp_rules simp: hs_post_def hs_result_def)
  next
    case True
    then have "holds rbuf rlen Handshaking st" using Suc.prems assms(4) by (simp add: hs_result_def)
    with True show ?thesis
      by (subst hs_loop.simps)
        (auto simp: hs_post_def Let_def hs_result_def intro!: wp_bind wp_if wp_put wp_send_flight wp_ret
          wp_recv [OF assms(1)] wp_hs_call [OF assms(1)] intro: Suc.IH)
  qed
qed

text \<open>The receive loops keep the waiting bytes behind \<open>off\<close>.\<close>

definition records_post :: "u8 list \<Rightarrow> nat \<Rightarrow> (nat \<times> bool \<times> u8 list) pace \<Rightarrow> stream \<Rightarrow> bool" where
  "records_post rbuf rlen x st = (case x of Running \<Rightarrow> hsPhase st = Established
   | Finished (off, got, dec) \<Rightarrow> off \<le> rlen \<and> st = \<lparr>hsPhase = Established, pending = drop off (take rlen rbuf)\<rparr>)"

lemma records_loop_stream:
  assumes "lawful ptls_law (ptls_env L)" and "rlen \<le> length rbuf" and "off \<le> rlen"
    and "st = \<lparr>hsPhase = Established, pending = drop off (take rlen rbuf)\<rparr>"
  shows "wp (stream_step k) (records_loop fuel L tls rbuf rlen off dec) (records_post rbuf rlen) st"
  using assms(3,4)
proof (induction fuel arbitrary: off dec st)
  case 0
  then show ?case by (subst records_loop.simps) (auto simp: records_post_def intro!: wp_ret)
next
  case (Suc fuel)
  show ?case
  proof (cases "off < rlen")
    case False
    with Suc.prems show ?thesis by (subst records_loop.simps) (auto simp: records_post_def intro!: wp_ret)
  next
    case True
    have fit: "off + u \<le> rlen" if "u \<le> length (take (rlen - off) (drop off rbuf))" for u
      using that assms(2) Suc.prems(1) by simp
    have ne: "take (rlen - off) (drop off rbuf) \<noteq> []" using True assms(2) by simp
    show ?thesis
      using True Suc.prems ne
      by (subst records_loop.simps)
        (auto simp: Let_def records_post_def drop_take add.commute [of _ off] fit intro!: wp_bind wp_if wp_put wp_ret
          wp_receive_call [OF assms(1)] intro: Suc.IH)
  qed
qed

lemma wp_refill:
  assumes "lawful ptls_law (ptls_env L)" and "holds rbuf rlen Established st"
    and "Q None st"
    and "\<And>rbuf' rlen' st'. holds rbuf' rlen' Established st' \<Longrightarrow> Q (Some (rbuf', rlen')) st'"
  shows "wp (stream_step k) (refill L sock rbuf rlen) Q st"
proof (cases "rlen = 0")
  case True
  with assms(2-) show ?thesis
    unfolding refill_def
    by (auto intro!: wp_bind wp_if wp_put wp_ret wp_recv [OF assms(1), of rbuf 0 Established] assms(3))
next
  case False
  with assms(2-) show ?thesis by (auto simp: refill_def intro!: wp_ret)
qed

lemma ptls_echo_loop_stream:
  assumes "lawful ptls_law (ptls_env L)" and "holds rbuf rlen Established st"
  shows "wp (stream_step k) (ptls_echo_loop fuel L sock tls rbuf rlen dec) (\<lambda>x st'. hsPhase st' = Established) st"
  using assms(2)
proof (induction fuel arbitrary: rbuf rlen dec st)
  case 0
  then show ?case by (auto simp: ptls_echo_loop.simps holds_def intro!: wp_ret)
next
  case (Suc fuel)
  have body: "wp (stream_step k) (do {
       p \<leftarrow> records_loop (Suc fuel) L tls b n 0 dec;
       case p of Running \<Rightarrow> ret Running
       | Finished (off, got, dec) \<Rightarrow> if got then ret (Finished ())
           else ptls_echo_loop fuel L sock tls (shift_down b off n) (n - off) dec
     }) (\<lambda>x st'. hsPhase st' = Established) s"
    if h: "holds b n Established s" for b n s
    using h by (intro wp_bind wp_mono [OF records_loop_stream [OF assms(1)]])
      (auto simp: records_post_def holds_def take_shift_down split: pace.splits intro!: wp_if wp_ret Suc.IH)
  show ?case
    unfolding ptls_echo_loop.simps
    using Suc.prems body
    by (intro wp_bind wp_refill [OF assms(1)]) (auto simp: holds_def intro!: wp_ret)
qed

section \<open>The whole program\<close>

definition stream_end :: "int pace \<Rightarrow> stream \<Rightarrow> bool" where
  "stream_end x st = (case x of Running \<Rightarrow> True | Finished r \<Rightarrow> if r = 0 then hsPhase st = Established else r = 1)"

lemma ptls_exchange_stream:
  assumes "lawful ptls_law (ptls_env L)" and "holds rbuf rlen Established st"
  shows "wp (stream_step k) (ptls_exchange fuel L sock tls rbuf rlen) stream_end st"
proof -
  have end': "stream_end (Finished 1) s" "hsPhase s = Established \<Longrightarrow> stream_end (Finished 0) s" "stream_end Running s" for s
    by (simp_all add: stream_end_def)
  show ?thesis
    unfolding ptls_exchange_def
    using assms(2)
    by (intro wp_bind wp_rcall)
      (auto simp: stream_step_def holds_def end' split: pace.splits
        intro!: wp_bind wp_rcall wp_run wp_if wp_lib wp_put wp_hex_dump wp_ret wp_mono [OF ptls_echo_loop_stream [OF assms(1)]])
qed

lemma picotls_psk_client_stream:
  assumes "lawful ptls_law (ptls_env L)" and "PTLS_ERROR_IN_PROGRESS L \<noteq> 0"
  shows "wp (stream_step (PTLS_ERROR_IN_PROGRESS L)) (picotls_psk_client fuel L stack argv) stream_end \<lparr>hsPhase = Handshaking, pending = []\<rparr>"
proof -
  let ?M = "stream_step (PTLS_ERROR_IN_PROGRESS L)" and ?s = "\<lparr>hsPhase = Handshaking, pending = []\<rparr>"
  have loop: "wp ?M (hs_loop fuel L sock tls rv (map stack [0..<RBUF_SIZE]) 0)
      (\<lambda>p. wp ?M (case p of Running \<Rightarrow> ret Running
         | Finished None \<Rightarrow> ret (Finished 1)
         | Finished (Some (rbuf, rlen)) \<Rightarrow> ptls_exchange fuel L sock tls rbuf rlen) stream_end) st"
    if "st = \<lparr>hsPhase = hs_result (PTLS_ERROR_IN_PROGRESS L) rv, pending = []\<rparr>"
      and "rv = 0 \<or> rv = PTLS_ERROR_IN_PROGRESS L" for sock tls rv st
    using that by (intro wp_mono [OF hs_loop_stream [OF assms(1) _ _ assms(2)]])
      (auto simp: hs_post_def holds_def stream_end_def split: pace.splits option.splits
        intro!: wp_ret ptls_exchange_stream [OF assms(1)])
  have session: "wp ?M (ptls_session fuel L stack sock) stream_end ?s" for sock
    unfolding ptls_session_def
    by (intro wp_bind wp_rcall)
      (auto simp: stream_step_def stream_end_def intro!: loop wp_bind wp_lib wp_only_if wp_run wp_if wp_put wp_ret)
  show ?thesis
    unfolding picotls_psk_client_def Let_def
    by (intro wp_bind wp_run) (auto simp: stream_step_def stream_end_def intro!: session wp_bind wp_run wp_rcall wp_if wp_put wp_ret)
qed

text \<open>A peer and a picotls that keep to the law: the handshake takes one byte, then every byte is a record.\<close>

definition pong_lib :: ptls_lib where
  "pong_lib = \<lparr>ptls_env = (\<lambda>tr c. case c of
       tcp_recv s off n \<Rightarrow> \<lparr>rc = int (min 1 n), data = replicate (min 1 n) 7, used = 0\<rparr>
     | ptls_handshake t None \<Rightarrow> \<lparr>rc = 514, data = [1], used = 0\<rparr>
     | ptls_handshake t (Some bs) \<Rightarrow> \<lparr>rc = 0, data = [], used = length bs\<rparr>
     | ptls_receive t bs \<Rightarrow> \<lparr>rc = 0, data = bs, used = length bs\<rparr>
     | _ \<Rightarrow> \<lparr>rc = 0, data = [], used = 0\<rparr>), PTLS_ERROR_IN_PROGRESS = 514\<rparr>"

lemma pong_lawful: "lawful ptls_law (ptls_env pong_lib)" "PTLS_ERROR_IN_PROGRESS pong_lib = 514"
  by (auto simp: lawful_def pong_lib_def ptls_law_def split: ptls_call.splits option.splits)

end
