(* ===== verification/Ptls_Fuel.thy ===== *)
theory Ptls_Fuel
  imports Ptls_Client
begin

text \<open>
  The fuel of the picotls client. More fuel does not change a run that finished, and a run
  that uses up its fuel has received at least as many bytes, provided that picotls consumes
  something of every input it is given (\<open>ptls_progress\<close>): the loops end when the peer stops.
\<close>

section \<open>More fuel\<close>

definition extends :: "('c, 'a pace) prog \<Rightarrow> ('c, 'a pace) prog \<Rightarrow> bool" where
  "extends m m' \<longleftrightarrow> (\<forall>tr. fst (run_state m tr) = Running \<or> run_state m' tr = run_state m tr)"

named_theorems extends_rules "more fuel, construct by construct"

lemma extends_refl [extends_rules]: "extends m m"
  by (simp add: extends_def)

lemma extends_running [extends_rules]: "extends (ret Running) m"
  by (simp add: extends_def)

lemma extends_bind [extends_rules]: "(\<And>x. extends (f x) (g x)) \<Longrightarrow> extends (m \<bind> f) (m \<bind> g)"
  by (auto simp: extends_def case_prod_unfold)

lemma extends_if [extends_rules]: "(b \<Longrightarrow> extends m m') \<Longrightarrow> (\<not> b \<Longrightarrow> extends n n') \<Longrightarrow> extends (if b then m else n) (if b then m' else n')"
  by simp

lemma extends_pace:
  assumes "extends m m'" and "\<And>x. extends (f x) (g x)"
  shows "extends (m \<bind> case_pace (ret Running) f) (m' \<bind> case_pace (ret Running) g)"
  unfolding extends_def
proof
  fix tr
  show "fst (run_state (m \<bind> case_pace (ret Running) f) tr) = Running \<or>
    run_state (m' \<bind> case_pace (ret Running) g) tr = run_state (m \<bind> case_pace (ret Running) f) tr"
  proof (cases "fst (run_state m tr)")
    case Running
    then show ?thesis by (simp add: case_prod_unfold)
  next
    case (Finished x)
    with assms(1) have "run_state m' tr = run_state m tr" by (auto simp: extends_def dest: spec [of _ tr])
    with Finished show ?thesis
      using assms(2) [of x] by (auto simp: extends_def case_prod_unfold)
  qed
qed

lemma hs_loop_extends: "extends (hs_loop f L sock tls rv rbuf rlen) (hs_loop (Suc f) L sock tls rv rbuf rlen)"
proof (induction f arbitrary: rv rbuf rlen)
  case 0
  then show ?case
    by (subst (1 2) hs_loop.simps) (auto intro!: extends_refl extends_running)
next
  case (Suc f)
  show ?case
    by (subst (1 2) hs_loop.simps) (auto simp: Let_def intro!: extends_rules Suc.IH)
qed

lemma records_loop_extends:
  "extends (records_loop f L tls rbuf rlen off dec) (records_loop (Suc f) L tls rbuf rlen off dec)"
proof (induction f arbitrary: off dec)
  case 0
  then show ?case
    by (subst (1 2) records_loop.simps) (auto intro!: extends_refl extends_running)
next
  case (Suc f)
  show ?case
    by (subst (1 2) records_loop.simps) (auto simp: Let_def intro!: extends_rules Suc.IH)
qed

lemma ptls_echo_loop_extends: "extends (ptls_echo_loop f L sock tls rbuf rlen dec) (ptls_echo_loop (Suc f) L sock tls rbuf rlen dec)"
proof (induction f arbitrary: rbuf rlen dec)
  case 0
  then show ?case by (simp add: ptls_echo_loop.simps(1) extends_running)
next
  case (Suc f)
  show ?case
    by (subst (1 2) ptls_echo_loop.simps(2))
      (auto split: option.split intro!: extends_bind extends_refl extends_pace records_loop_extends extends_if Suc.IH)
qed

lemma ptls_exchange_extends: "extends (ptls_exchange f L sock tls rbuf rlen) (ptls_exchange (Suc f) L sock tls rbuf rlen)"
  unfolding ptls_exchange_def
  by (intro extends_rules extends_pace ptls_echo_loop_extends)

lemma picotls_psk_client_extends:
  "extends (picotls_psk_client f L stack argv) (picotls_psk_client (Suc f) L stack argv)"
  unfolding picotls_psk_client_def ptls_session_def Let_def
  by (intro extends_rules extends_pace hs_loop_extends)
    (auto split: option.split intro!: extends_refl ptls_exchange_extends)

lemma picotls_psk_client_more:
  assumes "outcome (picotls_psk_client f L stack argv) \<noteq> Running" and "f \<le> f'"
  shows "run_state (picotls_psk_client f' L stack argv) [] = run_state (picotls_psk_client f L stack argv) []"
  using assms(2)
proof (induction f' rule: dec_induct)
  case base
  show ?case ..
next
  case (step n)
  then show ?case
    using picotls_psk_client_extends [of n L stack argv] assms(1)
    by (auto simp: extends_def outcome_def dest: spec [of _ "[]"])
qed

section \<open>Enough fuel\<close>

definition received :: "ptls_call event \<Rightarrow> nat" where
  "received e = (case fst e of tcp_recv s off n \<Rightarrow> nat (rc (snd e)) | _ \<Rightarrow> 0)"

definition ptls_progress :: "ptls_call \<Rightarrow> reply \<Rightarrow> bool" where
  "ptls_progress c r = (case c of
     ptls_receive t bs \<Rightarrow> bs \<noteq> [] \<longrightarrow> 0 < used r
   | tcp_recv s off n \<Rightarrow> rc r \<le> int n
   | _ \<Rightarrow> True)"

abbreviation rx where "rx \<equiv> cost_step received"

lemma rx_simps [simp]:
  "rx q (tcp_recv s off n, r) = Some (q + nat (rc r))"
  "rx q (put_out fmt args, r) = Some q" "rx q (tcp_send s bs, r) = Some q" "rx q (ptls_handshake t i, r) = Some q"
  "rx q (ptls_receive t bs, r) = Some q" "rx q (ptls_send t bs, r) = Some q" "rx q (ptls_new p, r) = Some q"
  "rx q (ptls_free t, r) = Some q" "rx q (tcp_close s, r) = Some q" "rx q (wsa_cleanup, r) = Some q"
  "rx q (ptls_get_cipher t, r) = Some q" "rx q (cipher_id t, r) = Some q" "rx q (cipher_name t, r) = Some q"
  "rx q (unbuffered, r) = Some q" "rx q (wsa_startup a b, r) = Some q" "rx q (tcp_socket, r) = Some q"
  "rx q (tcp_connect s ad, r) = Some q"
  by (simp_all add: cost_step_def received_def)

lemma wp_rx_put: "Q () q \<Longrightarrow> wp rx (put L fmt args) Q q"
  unfolding put_def by (intro wp_run) simp

lemma wp_rx_call: "(\<And>r. Q r q) \<Longrightarrow> wp rx (lib A (ptls_handshake t i)) Q q" "(\<And>r. Q r q) \<Longrightarrow> wp rx (lib A (ptls_send t bs)) Q q"
  by (auto intro: wp_lib)

lemma wp_rx_dump: "Q () q \<Longrightarrow> wp rx (hex_dump L bs) Q q"
  by (induction bs) (auto intro!: wp_bind wp_ret wp_rx_put)

lemma wp_rx_flight: "Q () q \<Longrightarrow> wp rx (send_flight L sock bs) Q q"
  unfolding send_flight_def by (auto intro!: wp_only_if wp_bind wp_run wp_rx_put wp_rx_dump)

text \<open>\<open>k\<close> counts the turns of a loop so far.\<close>

definition full :: "u8 list \<Rightarrow> nat \<Rightarrow> nat \<Rightarrow> bool" where
  "full rbuf rlen q \<longleftrightarrow> length rbuf = RBUF_SIZE \<and> rlen \<le> RBUF_SIZE \<and> rlen \<le> q"

lemma full_shift: "full rbuf rlen q \<Longrightarrow> full (shift_down rbuf c rlen) (rlen - c) q"
  by (auto simp: full_def shift_down_def)

lemma wp_rx_recv:
  assumes "lawful ptls_progress A" and "length rbuf = RBUF_SIZE" and "rlen \<le> RBUF_SIZE" and "n = RBUF_SIZE - rlen" and "rlen \<le> q"
    and "\<And>r. rc r \<le> 0 \<Longrightarrow> Q r q"
    and "\<And>r. 0 < rc r \<Longrightarrow> full (receive_more rbuf rlen r) (rlen + nat (rc r)) (q + nat (rc r)) \<Longrightarrow> Q r (q + nat (rc r))"
  shows "wp rx (lib A (tcp_recv s rlen n)) Q q"
proof (rule wp_lib_law [OF assms(1)])
  fix r
  assume "ptls_progress (tcp_recv s rlen n) r"
  then have "full (receive_more rbuf rlen r) (rlen + nat (rc r)) (q + nat (rc r))" if "0 < rc r"
    using assms(2-5) that by (auto simp: full_def ptls_progress_def receive_more_def store_def Let_def)
  then show "case rx q (tcp_recv s rlen n, r) of None \<Rightarrow> False | Some q \<Rightarrow> Q r q"
    using assms(6) [of r] assms(7) [of r] by (cases "0 < rc r") simp_all
qed

definition hs_fuel_post :: "nat \<Rightarrow> (u8 list \<times> nat) option pace \<Rightarrow> nat \<Rightarrow> bool" where
  "hs_fuel_post k x q = (case x of Running \<Rightarrow> k \<le> q | Finished None \<Rightarrow> True | Finished (Some (rbuf, rlen)) \<Rightarrow> full rbuf rlen q)"

lemma hs_loop_fuel:
  assumes "lawful ptls_progress (ptls_env L)" and "k \<le> q" and "full rbuf rlen q"
  shows "wp rx (hs_loop f L sock tls rv rbuf rlen) (hs_fuel_post (k + f)) q"
  using assms(2,3)
proof (induction f arbitrary: k q rv rbuf rlen)
  case 0
  then show ?case by (subst hs_loop.simps) (auto simp: hs_fuel_post_def intro!: wp_ret)
next
  case (Suc f)
  have again: "wp rx (hs_loop f L sock tls x b n) (hs_fuel_post (Suc (k + f))) (q + nat i)"
    if "\<not> i \<le> 0" "full b n (q + nat i)" for x b n i
    using Suc.IH [of "Suc k" "q + nat i" b n x] that Suc.prems(1) by simp
  have full: "length rbuf = RBUF_SIZE" "rlen \<le> RBUF_SIZE" "rlen \<le> q" using Suc.prems(2) by (simp_all add: full_def)
  have [simp]: "hs_fuel_post j (Finished None) q'" "hs_fuel_post j (Finished (Some (b, n))) q' = full b n q'" for j b n q'
    by (simp_all add: hs_fuel_post_def)
  show ?case
    using Suc.prems by (subst hs_loop.simps)
      (auto simp: Let_def intro!: wp_bind wp_if wp_rx_put wp_rx_flight wp_ret wp_rx_recv [OF assms(1) full(1,2) refl full(3)] again full_shift wp_rx_call)
qed

lemma records_loop_fuel:
  assumes "lawful ptls_progress (ptls_env L)" and "rlen \<le> length rbuf" and "k + (rlen - off) \<le> q"
  shows "wp rx (records_loop f L tls rbuf rlen off dec)
    (\<lambda>x q'. q' = q \<and> (case x of Running \<Rightarrow> k + f \<le> q | Finished (off', _, _) \<Rightarrow> off \<le> off' \<and> (off < rlen \<longrightarrow> off < off'))) q"
  using assms(3)
proof (induction f arbitrary: k off dec)
  case 0
  then show ?case by (subst records_loop.simps) (auto intro!: wp_ret)
next
  case (Suc f)
  show ?case
  proof (cases "off < rlen")
    case False
    then show ?thesis by (subst records_loop.simps) (auto intro!: wp_ret)
  next
    case True
    let ?Q = "\<lambda>x q'. q' = q \<and> (case x of Running \<Rightarrow> k + Suc f \<le> q | Finished (off', _, _) \<Rightarrow> off \<le> off' \<and> (off < rlen \<longrightarrow> off < off'))"
    have ne: "take (rlen - off) (drop off rbuf) \<noteq> []" using True assms(2) by simp
    have again: "wp rx (records_loop f L tls rbuf rlen (off + u) d) ?Q q" if "0 < u" for u d
      using that True Suc.prems
      by (intro wp_mono [OF Suc.IH [of "Suc k"]]) (auto split: pace.splits)
    have call: "wp rx (lib (ptls_env L) (ptls_receive tls bs)) Q q"
      if "bs \<noteq> []" and "\<And>r. 0 < used r \<Longrightarrow> Q r q" for bs Q
      using that by (intro wp_lib_law [OF assms(1)]) (simp add: ptls_progress_def)
    show ?thesis
      using True ne by (subst records_loop.simps) (auto simp: Let_def intro!: wp_bind wp_if wp_rx_put wp_ret call again)
  qed
qed

lemma wp_rx_refill:
  assumes "lawful ptls_progress (ptls_env L)" and "k + rlen \<le> q" and "full rbuf rlen q"
    and "Q None q"
    and "\<And>b n q'. full b n q' \<Longrightarrow> k + n \<le> q' \<Longrightarrow> 0 < n \<Longrightarrow> Q (Some (b, n)) q'"
  shows "wp rx (refill L sock rbuf rlen) Q q"
proof (cases "rlen = 0")
  case False
  with assms(2-) show ?thesis by (auto simp: refill_def intro!: wp_ret)
next
  case True
  have len: "length rbuf = RBUF_SIZE" using assms(3) by (simp add: full_def)
  have recv: "wp rx (lib (ptls_env L) (tcp_recv sock 0 RBUF_SIZE)) Q' q"
    if "\<And>r. rc r \<le> 0 \<Longrightarrow> Q' r q"
      "\<And>r. 0 < rc r \<Longrightarrow> full (receive_more rbuf 0 r) (nat (rc r)) (q + nat (rc r)) \<Longrightarrow> Q' r (q + nat (rc r))" for Q'
    using wp_rx_recv [OF assms(1) len, of 0 RBUF_SIZE q Q' sock] that by simp
  show ?thesis
    using True assms(2,4,5) by (auto simp: refill_def intro!: wp_bind recv wp_if wp_rx_put wp_ret)
qed

lemma ptls_echo_loop_fuel:
  assumes "lawful ptls_progress (ptls_env L)" and "k + rlen \<le> q" and "full rbuf rlen q"
  shows "wp rx (ptls_echo_loop f L sock tls rbuf rlen dec) (\<lambda>x q. x = Running \<longrightarrow> k + f \<le> q) q"
  using assms(2,3)
proof (induction f arbitrary: k q rbuf rlen dec)
  case 0
  then show ?case by (auto simp: ptls_echo_loop.simps(1) intro!: wp_ret)
next
  case (Suc f)
  let ?Q = "\<lambda>x q. x = Running \<longrightarrow> Suc (k + f) \<le> q"
  have body: "wp rx (do {
       p \<leftarrow> records_loop (Suc f) L tls b n 0 dec;
       case p of Running \<Rightarrow> ret Running
       | Finished (off, got, dec) \<Rightarrow> if got then ret (Finished ())
           else ptls_echo_loop f L sock tls (shift_down b off n) (n - off) dec
     }) ?Q q'" if h: "full b n q'" "k + n \<le> q'" "0 < n" for b n q'
  proof (intro wp_bind wp_mono [OF records_loop_fuel [OF assms(1), of n b k 0]])
    show "n \<le> length b" "k + (n - 0) \<le> q'" using h by (simp_all add: full_def)
    fix p :: "(nat \<times> bool \<times> u8 list) pace" and q'' :: nat
    assume p: "q'' = q' \<and> (case p of Running \<Rightarrow> k + Suc f \<le> q' | Finished (off', _, _) \<Rightarrow> 0 \<le> off' \<and> (0 < n \<longrightarrow> 0 < off'))"
    have again: "wp rx (ptls_echo_loop f L sock tls (shift_down b off n) (n - off) d) ?Q q'"
      if "0 < off" for off d
      using Suc.IH [of "Suc k" "n - off" q' "shift_down b off n" d] h that full_shift [OF h(1), of off] by simp
    show "wp rx (case p of Running \<Rightarrow> ret Running
       | Finished (off, got, dec) \<Rightarrow> if got then ret (Finished ())
           else ptls_echo_loop f L sock tls (shift_down b off n) (n - off) dec) ?Q q''"
      using p h(3) by (auto split: pace.splits intro!: wp_ret wp_if again)
  qed
  show ?case
    unfolding ptls_echo_loop.simps
    by (intro wp_bind wp_rx_refill [OF assms(1) Suc.prems]) (auto intro!: wp_ret body)
qed

lemma ptls_exchange_fuel:
  assumes "lawful ptls_progress (ptls_env L)" and "full rbuf rlen q"
  shows "wp rx (ptls_exchange f L sock tls rbuf rlen) (\<lambda>x q. x = Running \<longrightarrow> f \<le> q) q"
proof -
  have echo: "wp rx (ptls_echo_loop f L sock tls rbuf rlen [])
      (\<lambda>e. wp rx (case e of Running \<Rightarrow> ret Running | Finished _ \<Rightarrow> do {
         run (ptls_env L) (ptls_free tls);
         run (ptls_env L) (tcp_close sock);
         run (ptls_env L) wsa_cleanup;
         ret (Finished 0) }) (\<lambda>x q. x = Running \<longrightarrow> f \<le> q)) q"
  proof (rule wp_mono [OF ptls_echo_loop_fuel [OF assms(1) _ assms(2), of 0]])
    show "0 + rlen \<le> q" using assms(2) by (simp add: full_def)
  qed (auto split: pace.splits intro!: wp_bind wp_run wp_ret)
  show ?thesis
    unfolding ptls_exchange_def
    by (intro wp_bind wp_rcall) (simp, intro wp_bind wp_rcall, simp, intro wp_bind wp_rcall, simp,
      intro wp_bind wp_rx_put wp_rx_call wp_if wp_ret wp_run, simp, simp, intro wp_rx_dump wp_rx_put wp_bind echo)
qed

lemma picotls_psk_client_fuel:
  assumes "lawful ptls_progress (ptls_env L)"
  shows "wp rx (picotls_psk_client f L stack argv) (\<lambda>x q. x = Running \<longrightarrow> f \<le> q) 0"
proof -
  let ?Q = "\<lambda>x q. x = Running \<longrightarrow> f \<le> q"
  have loop: "wp rx (hs_loop f L sock tls rv (map stack [0..<RBUF_SIZE]) 0)
      (\<lambda>p. wp rx (case p of Running \<Rightarrow> ret Running
         | Finished None \<Rightarrow> ret (Finished 1)
         | Finished (Some (rbuf, rlen)) \<Rightarrow> ptls_exchange f L sock tls rbuf rlen) ?Q) 0" for sock tls rv
  proof (intro wp_mono [OF hs_loop_fuel [OF assms, of 0]])
    show "full (map stack [0..<RBUF_SIZE]) 0 0" by (simp add: full_def)
  qed (auto simp: hs_fuel_post_def split: pace.splits option.splits intro!: wp_ret ptls_exchange_fuel [OF assms])
  show ?thesis
    unfolding picotls_psk_client_def ptls_session_def Let_def
    by (intro wp_bind wp_run) (auto intro!: loop wp_bind wp_rcall wp_rx_put wp_if wp_ret wp_run wp_only_if intro!: wp_rx_call)
qed

lemma picotls_psk_client_bytes:
  assumes "lawful ptls_progress (ptls_env L)" and "outcome (picotls_psk_client f L stack argv) = Running"
  shows "f \<le> cost received (trace (picotls_psk_client f L stack argv))"
  using wp_trace [OF picotls_psk_client_fuel [OF assms(1), of f stack argv]] assms(2) by (auto simp: watch_cost)

text \<open>A peer that is silent after the first flight.\<close>

definition quiet_lib :: ptls_lib where
  "quiet_lib = \<lparr>ptls_env = (\<lambda>tr c. \<lparr>rc = 0, data = [], used = 1\<rparr>), PTLS_ERROR_IN_PROGRESS = 514\<rparr>"

lemma quiet_lawful: "lawful ptls_progress (ptls_env quiet_lib)"
  unfolding lawful_def quiet_lib_def ptls_progress_def by (auto split: ptls_call.splits)

lemma quiet_calls:
  "run_state (lib (ptls_env quiet_lib) c) tr = (\<lparr>rc = 0, data = [], used = 1\<rparr>, tr @ [(c, \<lparr>rc = 0, data = [], used = 1\<rparr>)])"
  "run_state (rcall (ptls_env quiet_lib) c) tr = (0, tr @ [(c, \<lparr>rc = 0, data = [], used = 1\<rparr>)])"
  "run_state (run (ptls_env quiet_lib) c) tr = ((), tr @ [(c, \<lparr>rc = 0, data = [], used = 1\<rparr>)])"
  "PTLS_ERROR_IN_PROGRESS quiet_lib = 514"
  by (simp_all add: lib_def rcall_def run_def quiet_lib_def Let_def)

lemma quiet_trace:
  "cost received (trace (picotls_psk_client 1 quiet_lib stack argv)) = 0"
  by (simp add: trace_def picotls_psk_client_def ptls_session_def hs_loop.simps ptls_exchange_def ptls_echo_loop.simps refill_def
     quiet_calls put_def only_if_def Let_def cost_def received_def)

end
