(* ===== verification/Spec2Isabelle.thy ===== *)
theory Spec2Isabelle
  imports Record_Cipher Ossl_Api Verify_Tool Kat_Programs Dudect Bench_Main Small_Tools Ssl_Bounds Ossl_Client Ptls_Buffer Ptls_Fuel
begin

text \<open>
  Ascon for DTLS 1.3: the wolfSSL implementation of Ascon-Hash256, Ascon-AEAD128 and the
  record-number mask, the OpenSSL provider that is to interoperate with it, the tools that
  test both, the programs that demonstrate them on TLS and DTLS, and the harnesses that
  measure them.

  Parts of the program and the theories that model them.

  \<^item> \<open>wolfssl/wolfcrypt/src/ascon.c\<close>: the permutation in its three builds
    (\<open>Ascon_Perm\<close>: the loop over \<open>ascon_round\<close> and the unrolled macros \<open>p8\<close>, \<open>p12\<close>;
    \<open>Ascon_Perm32\<close>: the macros \<open>P32_ROUND\<close>, \<open>P32_8\<close>, \<open>P32_12\<close>), the hash API
    (\<open>Wc_Hash\<close>) and the AEAD API (\<open>Wc_Aead\<close>; \<open>Wc_Aead_Memory\<close>: the two updates again with
    input and output inside one memory). An API function takes the context as an
    option (None is the null pointer) and gives the return code, the context and the bytes
    written through its output pointer. A buffer argument is an option of a byte list, next
    to its length as in C; an output argument is only null or not (\<open>ptr\<close>).
  \<^item> \<open>wolfssl/wolfcrypt/src/mask_prf.c\<close> and its header: \<open>Mask_Prf\<close>; its function on
    \<open>double\<close>, \<open>mask_prf_check_bound\<close>, in \<open>Dudect_Stats\<close>.
  \<^item> \<open>openssl-ascon/.../prov/ascon_local.h\<close>: \<open>Ossl_Core\<close>; the provider's
    cipher and digest, \<open>cipher_ascon128.c\<close> and \<open>digest_ascon_hash256.c\<close>:
    \<open>Ossl_Provider\<close>; its parameter tables, its dispatch table and the calls in any order over
    all live contexts: \<open>Ossl_Api\<close>.
  \<^item> \<open>tools/\<close>, test programs: \<open>Verify_Tool\<close> (\<open>verify_ascon_32bit.c\<close>), \<open>Record_Kat\<close>
    (the functions of \<open>ascon_record_kat.c\<close> and \<open>ascon_mask_kat.c\<close>), \<open>Small_Tools\<close> (their
    \<open>main\<close>, \<open>ascon_inplace.c\<close>, \<open>ascon_roundtrip.c\<close>, \<open>empty_ascon.c\<close>), \<open>Hmac_Oracle\<close>
    (\<open>hmac_oracle.c\<close>, and the pre-shared keys of the TLS programs), \<open>Kat_Programs\<close>
    (\<open>ascon_hash_kat.c\<close>, \<open>ascon_hash_kat2.c\<close>, \<open>ascon_kat.c\<close>, \<open>ascon_kdf_kat.c\<close>).
  \<^item> The demonstration programs: \<open>Ssl_Calls\<close>, \<open>Ssl_Servers\<close>, \<open>Ssl_Clients\<close> (the DTLS and
    TLS servers and clients of \<open>tools/\<close>), \<open>Ptls_Client\<close> (\<open>tools/picotls_psk_client.c\<close>) and
    \<open>Ossl_Client\<close> (\<open>openssl-ascon/ascon_psk_client.c\<close>).
  \<^item> \<open>evaluation/\<close>: \<open>Bench_Support\<close> (counter arithmetic of \<open>common/hal.h\<close>, log and heap of
    \<open>renode/bench_main.c\<close>, generator and shuffle), \<open>Bench_Main\<close> (registers, clock and
    \<open>main\<close> of the device benchmark, \<open>renode/bench_record.c\<close>, \<open>renode/probe/hello.c\<close>),
    \<open>Dudect_Stats\<close> and \<open>Dudect\<close> (\<open>side-channel/ascon_mask_dudect.c\<close>).

  The sponge state \<open>AsconState\<close> (\<open>Ascon_State\<close>) is the union of five 64-bit words; its
  views \<open>s32\<close> and \<open>s8\<close> are functions with inverses \<open>of_s32\<close> and \<open>of_s8\<close>, in little-endian
  order, the only one \<open>ascon.c\<close> compiles for. All machine integers that enter the state are
  words of their width; lengths and block positions (below 40 throughout) are natural
  numbers, except in the OpenSSL context, whose 8-bit counters are kept as words. Loops over
  an index are functions with a measure, so every function is total. Only the picotls
  client takes fuel, for its two loops that the peer controls: \<open>Ptls_Fuel\<close> shows that more
  fuel than the number of received bytes is enough and that more changes nothing.

  Behaviour of code outside this repository is a parameter. \<open>wc_misc\<close> holds wolfSSL's
  helpers (\<open>xorbuf\<close>, \<open>xorbufout\<close>, \<open>ConstantCompare\<close>, \<open>min\<close>) and \<open>misc_ok\<close> what they
  are documented to do, with the instance \<open>misc_std\<close>; \<open>ossl_params_api\<close> holds the
  \<open>OSSL_PARAM\<close> functions, with \<open>params_ok\<close>, \<open>setters_ok\<close> and \<open>params_std\<close>; \<open>ptls_hash\<close> and
  \<open>ptls_aead\<close> are the objects of picotls, with \<open>ptls_hash_ok\<close>, \<open>ptls_aead_ok\<close> and instances on
  the code of this repository (\<open>wolfssl_hash\<close>, \<open>provider_hash\<close>, \<open>wolfssl_aead\<close>); \<open>floats\<close> holds
  the operations on \<open>double\<close>, with exact arithmetic (\<open>exact_floats\<close>) as the instance the
  theorems on figures speak about; \<open>ForceZero\<close>, wolfSSL's HMAC, the allocators, uninitialised memory,
  counter readings and the expansion of formats are arguments.

  A demonstration program is a computation over the trace of its library calls
  (\<open>Call_Trace\<close>): the libraries are an argument that answers each call from the calls before
  it, so a theorem on a program holds for every behaviour of library, network and peer.
  Monitors (\<open>Ssl_Sessions\<close>, \<open>Ssl_Exchange\<close>, \<open>Ssl_Bounds\<close>, \<open>Ptls_Buffer\<close>) read a trace and
  may reject it; the programs are proved against them with a weakest precondition. Assumed of
  a library is at most that a read gives no more bytes than it was asked for (\<open>read_law\<close>,
  \<open>ossl_read_law\<close>, \<open>ptls_law\<close>) and, for the end of the picotls client, that picotls consumes
  something of what it is given (\<open>ptls_progress\<close>).

  Specifications and interfaces. \<open>Ascon_Duplex\<close> defines the byte machine \<open>dx_run\<close>, one
  byte at a time with a permutation at each full block, and the locales \<open>duplex\<close>
  (absorbing in pieces is absorbing the concatenation), \<open>duplex_mirror\<close> (decryption runs
  encryption backwards), \<open>incremental_hash\<close> and \<open>resettable_hash\<close>. \<open>hash_spec\<close>,
  \<open>aead_seal\<close>, \<open>aead_open\<close> and \<open>ossl_seal\<close>, \<open>ossl_open\<close> are one-shot specifications
  over it. \<open>Wc_Hash\<close>, \<open>Wc_Aead_Correct\<close> and \<open>Wc_Aead_Api\<close> prove that the buffered block
  loops of \<open>ascon.c\<close> refine them, \<open>Ossl_Core_Correct\<close>, \<open>Ossl_Aead_Correct\<close> and
  \<open>Ossl_Provider_Correct\<close> the same for the provider. \<open>Record_Cipher\<close> states what a record
  layer needs (\<open>record_cipher\<close>, \<open>interoperable\<close>) and interprets it on both stacks.
  \<open>Wc_Aead_Machine\<close> lets the API functions be called in any order (\<open>aead_step\<close>,
  \<open>aead_reach\<close>) and refines an abstract machine of four facts (\<open>aead_phase\<close>); \<open>Ossl_Api\<close> does
  it for the provider (\<open>provider_step\<close>, \<open>provider_reach\<close>, invariant \<open>ctx_ok\<close>).
  The timing test is specified over one list of samples that every round shuffles
  (\<open>test_samples\<close>, \<open>round_samples\<close>, the walk \<open>fisher_yates\<close>), which the parallel arrays
  of the code refine (\<open>sample_list\<close>); the device benchmark over the true times of the
  counter's readings (\<open>counter_after\<close>, \<open>region\<close>).
  Known answers are evaluated in the kernel: \<open>Kat_Eval\<close> computes the permutation on lanes of
  sixteen 4-bit digits with proved tables, \<open>Kat_Perms\<close>, \<open>Kats\<close>, \<open>Hash_Words\<close>,
  \<open>Hash_Answers\<close>, \<open>Kdf_Answers\<close> and \<open>Aead_Answers\<close> hold the vectors that the repository quotes.

  Properties, in the sections below: the permutation, hashing, records through the wolfSSL
  API, the API as a state machine (errors included), masks, the provider and its agreement
  with wolfSSL, the test tools, the measurement harnesses, the demonstration programs.

  Not modelled: \<open>tools/enum_test.c\<close>, \<open>tools/sizebytype_test.c\<close> and \<open>tools/hmac_ascon_test.c\<close>,
  which print what wolfSSL's HMAC gives, and that is not in this repository; rounding of
  \<open>double\<close>; the text of formats beyond its arguments and final newlines, and progress output on stderr; \<open>atoi\<close> on numbers that do not fit an
  \<open>int\<close> and \<open>sscanf\<close> on white space, signs and prefixes; \<open>ERR_raise\<close>; the instructions that
  stop the device, and the choice among builds by the preprocessor.
\<close>

section \<open>Facts that several parts contribute to\<close>

lemma provider_digest:
  "snd (snd (ascon_hash256_final (foldl (\<lambda>h d. snd (ascon_hash256_update h d (length d)))
      (snd (ascon_hash256_init g)) ds))) = hash_spec (concat ds)"
proof -
  have upd: "(\<lambda>h d. snd (ascon_hash256_update h d (length d))) = ossl_hash_upd"
    by (simp add: fun_eq_iff ascon_hash256_update_def ossl_hash_upd_def)
  have fin: "snd (snd (ascon_hash256_final h)) = ossl_hash_fin h" for h
    by (simp add: ascon_hash256_final_def ossl_hash_fin_def split: prod.splits)
  show ?thesis
    unfolding upd fin by (simp add: ascon_hash256_init_def ossl_hash.fin_foldl)
qed

lemma mask_kat_prints:
  "mask_kat_main g g' g'' = (0, map (\<lambda>ct. read_at 0 16 (s8 (permutation (mask_state MASK_PRF_DOMSEP_RNDIMSK mask_kat_snkey ct) 12)))
     [mask_kat_ct1, mask_kat_ct2, replicate 16 0])"
  "distinct (map (\<lambda>ct. permutation (mask_state MASK_PRF_DOMSEP_RNDIMSK mask_kat_snkey ct) 12)
     [mask_kat_ct1, mask_kat_ct2, replicate 16 0])"
proof -
  have len: "length mask_kat_snkey = 16" "length mask_kat_ct1 = 16" "length mask_kat_ct2 = 16"
    by (simp_all add: mask_kat_snkey_def mask_kat_ct1_def mask_kat_ct2_def)
  note ne = mask_kat_distinct
  have inj: "permutation a 12 = permutation b 12 \<longleftrightarrow> a = b" for a b
    using bij_is_inj [OF permutation_bij, of 12] by (auto dest: injD)
  show "mask_kat_main g g' g'' = (0, map (\<lambda>ct. read_at 0 16 (s8 (permutation (mask_state MASK_PRF_DOMSEP_RNDIMSK mask_kat_snkey ct) 12)))
     [mask_kat_ct1, mask_kat_ct2, replicate 16 0])"
    "distinct (map (\<lambda>ct. permutation (mask_state MASK_PRF_DOMSEP_RNDIMSK mask_kat_snkey ct) 12)
     [mask_kat_ct1, mask_kat_ct2, replicate 16 0])"
    using ne by (simp_all add: mask_kat_main_eq mask_prf_derive_eq len inj mask_state_inj perm12_def)
qed

section \<open>The permutation\<close>

text \<open>C1: the 32-bit permutation of \<open>ascon.c\<close> (ten 32-bit lanes, rotations by pairs of
  shifts) computes the 64-bit permutation, for both numbers of rounds and every state.\<close>

theorem perm32_is_perm64:
  "permutation_32 a 8 = permutation a 8 \<and> permutation_32 a 12 = permutation a 12"
  by (simp add: permutation_32_eq)

text \<open>C2: with any number of rounds the permutation is a bijection on the 320-bit states, and
  its other copies in the repository agree with \<open>permutation\<close> of \<open>ascon.c\<close>: its unrolled
  macros, \<open>mask_prf.c\<close>, the OpenSSL core and the verification tool.\<close>

theorem permutation_copies_agree:
  "bij (\<lambda>a. permutation a rounds)
   \<and> p8 a = permutation a 8 \<and> p12 a = permutation a 12
   \<and> s_permutation a 8 = permutation a 8 \<and> s_permutation a 12 = permutation a 12
   \<and> ascon_permute a 8 = permutation a 8 \<and> ascon_permute a 12 = permutation a 12
   \<and> permutation_64 a 8 = permutation a 8 \<and> permutation_64 a 12 = permutation a 12
   \<and> v_permutation_32 a 8 = permutation a 8 \<and> v_permutation_32 a 12 = permutation a 12"
  by (simp add: p8_permutation p12_permutation s_permutation_eq ascon_permute_eq permutation_64_eq
      v_permutation_32_eq permutation_32_eq perm8_def perm12_def permutation_bij)

section \<open>Hashing\<close>

text \<open>C3: Ascon-Hash256, whatever pieces the message is fed in. Over the wolfSSL API every
  \<open>Update\<close> succeeds and \<open>Final\<close> gives the digest of the concatenation (the one-shot
  specification, one byte at a time) and leaves a freshly initialised context; the digest of
  the OpenSSL provider is the same.\<close>

theorem hash_any_pieces:
  assumes "misc_ok M"
  shows "(\<exists>a. hash_updates M (snd (wc_AsconHash256_Init (Some g))) ds = (WC_OK, Some a) \<and>
      wc_AsconHash256_Final (Some a) PTR = (WC_OK, snd (wc_AsconHash256_Init (Some g)), hash_spec (concat ds)))
    \<and> snd (snd (ascon_hash256_final (foldl (\<lambda>h d. snd (ascon_hash256_update h d (length d)))
      (snd (ascon_hash256_init h)) ds))) = hash_spec (concat ds)"
proof -
  obtain a where "hash_updates M (Some hash_init) ds = (WC_OK, Some a)" and "hash_absorbed a (concat ds)"
    using hash_updates_absorbed [OF assms hash_absorbed_init, of ds] by auto
  then show ?thesis by (auto simp: h_init wc_AsconHash256_Final_absorbed provider_digest)
qed

theorem hash_any_pieces_witness:
  "(\<exists>a. hash_updates misc_std (snd (wc_AsconHash256_Init (Some zero_hash))) [[1, 2, 3], [], [4]] = (WC_OK, Some a) \<and>
    wc_AsconHash256_Final (Some a) PTR
      = (WC_OK, snd (wc_AsconHash256_Init (Some zero_hash)), hash_spec (concat [[1, 2, 3], [], [4]])))
    \<and> snd (snd (ascon_hash256_final (foldl (\<lambda>h d. snd (ascon_hash256_update h d (length d)))
      (snd (ascon_hash256_init ascon_hash256_core_init)) [[1, 2, 3], [], [4]]))) = hash_spec (concat [[1, 2, 3], [], [4]])"
  by (rule hash_any_pieces) (rule misc_ok_std)

text \<open>C4: the known-answer programs pass. On any hash object that is Ascon-Hash256,
  \<open>tools/ascon_hash_kat.c\<close> prints its five quoted digests with PASS and exits with 0, and
  \<open>tools/ascon_hash_kat2.c\<close> finds all 32 rows of its table; on any AEAD object that is
  Ascon-AEAD128, \<open>tools/ascon_kat.c\<close> reports all of its tags as correct. The hashes of
  wolfSSL and of the OpenSSL provider are such objects.\<close>

theorem kat_programs_pass:
  assumes "ptls_hash_ok H" and "ptls_aead_ok P"
  shows "hash_kat_main H = (map (\<lambda>i. (i, hash_EXP ! i, True)) [0..<5], ''HASH KAT ALL PASS'', 0)
    \<and> hash_kat2_main H = ([], True, 0)
    \<and> ascon_kat_main P stack = (''ALL KAT PASS'', 0)"
  using hash_kat_passes [OF assms(1)] hash_kat2_passes [OF assms(1)] ascon_kat_passes [OF assms(2)] by blast

theorem kat_programs_pass_witness:
  "hash_kat2_main wolfssl_hash = ([], True, 0) \<and> hash_kat2_main provider_hash = ([], True, 0)
    \<and> ascon_kat_main wolfssl_aead [] = (''ALL KAT PASS'', 0)"
  using kat_programs_pass [OF ptls_hash_instances(1) wolfssl_aead_ok] kat_programs_pass [OF ptls_hash_instances(2) wolfssl_aead_ok]
  by blast

text \<open>C5: \<open>Final\<close> re-initialises the context, so the nested hash of an HMAC may go on in
  the same context: \<open>tools/hmac_oracle.c\<close> prints for its experiments CONT-REAL and MIXED-REPL
  the value of OUTER, which hashes everything in fresh contexts. The manual chain of
  \<open>tools/ascon_kdf_kat.c\<close> ends with the same value, its cross-call test matches, and for the
  pre-shared key of the programs the value is the one shown (not the PRK quoted there).\<close>

theorem hmac_variants_agree:
  assumes "misc_ok M" and "ptls_hash_ok H"
  shows "oracle_cont_real M g psk = oracle_outer M g psk \<and> oracle_mixed_repl M g psk = oracle_outer M g psk
    \<and> (let out = map_of (fst (oracle_main M g hmac)) in
         out ''CONT-REAL'' = out ''OUTER'' \<and> out ''MIXED-REPL'' = out ''OUTER'' \<and> out ''OUTER'' = Some (oracle_outer M g oracle_psk))
    \<and> last (kdf_manual_chain H psk) = HexLine ''OUTER'' (oracle_outer M g psk)
    \<and> last (kdf_cross_call H psk) = CrossCall True
    \<and> oracle_outer M g make_psk =
      [0x30, 0x3b, 0xaf, 0x98, 0xc9, 0xd0, 0x7a, 0x15, 0x4b, 0xb2, 0x0d, 0x5a, 0x98, 0xa8, 0x71, 0x20,
       0x1f, 0x5d, 0x71, 0xd8, 0x67, 0xe5, 0x70, 0xd8, 0x92, 0x28, 0xdd, 0xfa, 0x63, 0x5c, 0x8d, 0xcd]"
proof -
  have "wc_env M" by unfold_locales (rule assms)
  then show ?thesis
    by (simp add: wc_env.oracle_cont_real_hmac wc_env.oracle_mixed_repl_hmac wc_env.oracle_outer_hmac
        oracle_main_def Let_def kdf_chain_outer [OF assms(2)] kdf_cross_matches [OF assms(2)] kdf_outer_value)
qed

theorem hmac_variants_agree_witness:
  "oracle_cont_real misc_std zero_hash oracle_psk = oracle_outer misc_std zero_hash oracle_psk
    \<and> oracle_mixed_repl misc_std zero_hash oracle_psk = oracle_outer misc_std zero_hash oracle_psk
    \<and> last (kdf_manual_chain provider_hash oracle_psk) = HexLine ''OUTER'' (oracle_outer misc_std zero_hash oracle_psk)"
  using hmac_variants_agree [OF misc_ok_std ptls_hash_instances(2), of zero_hash oracle_psk "\<lambda>k d. []"] by blast

section \<open>Sealing and opening records\<close>

text \<open>C6: sealing through the wolfSSL API. \<open>Init\<close>, \<open>SetKey\<close>, \<open>SetNonce\<close>, \<open>SetAD\<close>, the
  plaintext in any (at least one, possibly empty) pieces and \<open>EncryptFinal\<close> succeed and give
  ciphertext and tag of the one-shot specification.\<close>

theorem seal_any_pieces:
  assumes "misc_ok M" and "length key = 16" and "length nonce = 16" and "pts \<noteq> []"
  shows "encrypt_calls M g key nonce ad pts = Inr (aead_seal key nonce ad (concat pts))"
  using assms by (rule encrypt_calls_seal)

theorem seal_any_pieces_witness:
  "encrypt_calls misc_std zero_aead (replicate 16 7) (replicate 16 9) [1, 2] [[3], [], [4, 5]]
    = Inr (aead_seal (replicate 16 7) (replicate 16 9) [1, 2] (concat [[3], [], [4, 5]]))"
  by (rule seal_any_pieces) (simp_all add: misc_ok_std)

text \<open>C7: the round trip. What one endpoint sealed in any pieces, the other opens in any
  pieces, to the same plaintext.\<close>

theorem open_after_seal:
  assumes "misc_ok M" and "length key = 16" and "length nonce = 16" and "pts \<noteq> []" and "cts \<noteq> []"
    and "encrypt_calls M g key nonce ad pts = Inr (concat cts, tag)"
  shows "decrypt_calls M g' key nonce ad cts tag = Inr (concat pts)"
proof -
  have s: "aead_seal key nonce ad (concat pts) = (concat cts, tag)"
    using assms(6) encrypt_calls_seal [OF assms(1-4)] by simp
  then have "length tag = 16" by (blast dest: aead_seal_length)
  moreover have "aead_open key nonce ad (concat cts) tag = Some (concat pts)" using s by (simp add: wc.opn_seal)
  ultimately show ?thesis using decrypt_calls_open [OF assms(1-3) _ assms(5)] by simp
qed

theorem open_after_seal_witness:
  "decrypt_calls misc_std zero_aead kat_key kat_iv kat_aad
     [[0x8e, 0x83, 0xf5], [0xa2, 0x55, 0x47, 0xb4, 0x95, 0x96, 0x7f, 0xe5, 0xcf, 0x6e, 0xdc]]
     [0xbc, 0x14, 0xa3, 0xaf, 0x8b, 0x1d, 0x92, 0xa7, 0x9a, 0x4d, 0x72, 0x2d, 0x6c, 0xf6, 0xbf, 0xe7]
   = Inr (concat [kat_pt])"
proof (rule open_after_seal)
  have "encrypt_calls misc_std zero_aead kat_key kat_iv kat_aad [kat_pt] = Inr (aead_seal kat_key kat_iv kat_aad (concat [kat_pt]))"
    by (rule encrypt_calls_seal) (simp_all add: misc_ok_std kat_key_def kat_iv_def)
  then show "encrypt_calls misc_std zero_aead kat_key kat_iv kat_aad [kat_pt] = Inr (concat
      [[0x8e, 0x83, 0xf5], [0xa2, 0x55, 0x47, 0xb4, 0x95, 0x96, 0x7f, 0xe5, 0xcf, 0x6e, 0xdc]],
     [0xbc, 0x14, 0xa3, 0xaf, 0x8b, 0x1d, 0x92, 0xa7, 0x9a, 0x4d, 0x72, 0x2d, 0x6c, 0xf6, 0xbf, 0xe7])"
    by (simp add: kat_record)
qed (simp_all add: misc_ok_std kat_key_def kat_iv_def)

text \<open>C8: a record is accepted exactly if it is the sealing of the plaintext that comes
  out; everything else ends with \<open>ASCON_AUTH_E\<close>.\<close>

theorem open_accepts_exactly_sealed:
  assumes "misc_ok M" and "length key = 16" and "length nonce = 16" and "length tag = 16" and "cts \<noteq> []"
  shows "(decrypt_calls M g key nonce ad cts tag = Inr pt \<longleftrightarrow> aead_seal key nonce ad pt = (concat cts, tag))
    \<and> (decrypt_calls M g key nonce ad cts tag \<noteq> Inl ASCON_AUTH_E \<longrightarrow>
        (\<exists>pt. aead_seal key nonce ad pt = (concat cts, tag)))"
  using decrypt_calls_open [OF assms, of g ad]
  by (cases "aead_open key nonce ad (concat cts) tag") (auto simp: wc.opn_seal [symmetric])

theorem open_accepts_exactly_sealed_witness:
  "decrypt_calls misc_std zero_aead kat_key kat_iv kat_aad
     [[0x8e, 0x83, 0xf5, 0xa2, 0x55, 0x47, 0xb4, 0x95, 0x96, 0x7f, 0xe5, 0xcf, 0x6e, 0xdc]]
     [0xbc, 0x14, 0xa3, 0xaf, 0x8b, 0x1d, 0x92, 0xa7, 0x9a, 0x4d, 0x72, 0x2d, 0x6c, 0xf6, 0xbf, 0xe7] = Inr kat_pt"
  by (subst open_accepts_exactly_sealed [THEN conjunct1]) (simp_all add: misc_ok_std length_kat kat_record)

text \<open>C9: sealing and opening inside one memory, as the record layer does. If the output does
  not start inside the input behind its first byte, sealing writes the ciphertext of the
  input to \<open>out\<close> and touches nothing else, and opening it in place puts the plaintext there;
  with \<open>out = inp\<close> the memory is as before. \<open>tools/ascon_inplace.c\<close> ends with its buffer intact.\<close>

theorem in_place_round_trip:
  assumes "misc_ok M" and "length key = 16" and "length nonce = 16" and "overlap_ok mem out inp n"
    and "aead_seal key nonce ad (read_at inp n mem) = (ct, tag)"
  shows "seal_mem M g key nonce ad mem out inp n = Inr (write_at out ct mem, tag)
    \<and> open_mem M g' key nonce ad (write_at out ct mem) out out n tag = (WC_OK, write_at out (read_at inp n mem) mem)
    \<and> ascon_inplace M g g' = ((WC_OK, WC_OK), inplace_b)"
  using seal_mem_eq [OF assms(1-4)] open_mem_sealed [OF assms] ascon_inplace_restores [OF assms(1)] assms(5) by simp

theorem in_place_round_trip_witness:
  "seal_mem misc_std zero_aead kat_key kat_iv kat_aad kat_pt 0 0 14 = Inr (write_at 0
     [0x8e, 0x83, 0xf5, 0xa2, 0x55, 0x47, 0xb4, 0x95, 0x96, 0x7f, 0xe5, 0xcf, 0x6e, 0xdc] kat_pt,
     [0xbc, 0x14, 0xa3, 0xaf, 0x8b, 0x1d, 0x92, 0xa7, 0x9a, 0x4d, 0x72, 0x2d, 0x6c, 0xf6, 0xbf, 0xe7])"
proof -
  have "overlap_ok kat_pt 0 0 14" "read_at 0 14 kat_pt = kat_pt" by (simp_all add: overlap_ok_def kat_pt_def read_at_def)
  then show ?thesis
    using in_place_round_trip [OF misc_ok_std length_kat, of kat_pt 0 0 14 kat_aad] kat_record by simp
qed

text \<open>C10: the record test \<open>run_case\<close> of \<open>tools/ascon_record_kat.c\<close>: for every key, IV,
  sequence number, associated data and plaintext of at most 64 bytes it succeeds, whatever
  \<open>ForceZero\<close> leaves in the context, and prints the sealing under the nonce it built. A longer
  plaintext does not fit its local arrays: then the first update stores beyond \<open>ct\<close>, which is
  undefined.\<close>

theorem record_test_within_buffers:
  assumes "misc_ok M" and "length key = 16" and "length iv = 16"
  shows "run_case M ForceZero g key iv seq aad pt
    = (if length pt \<le> 64 then Some (Inr (Some (aead_seal key (build_nonce iv seq) aad pt))) else None)"
  using assms by (rule run_case_seal)

theorem record_test_within_buffers_witness:
  "run_case misc_std (\<lambda>a. zero_aead) zero_aead (replicate 16 1) (replicate 16 2) 5 [1] (replicate 64 3)
     = Some (Inr (Some (aead_seal (replicate 16 1) (build_nonce (replicate 16 2) 5) [1] (replicate 64 3))))
   \<and> run_case misc_std (\<lambda>a. zero_aead) zero_aead (replicate 16 1) (replicate 16 2) 5 [1] (replicate 65 3) = None"
  using record_test_within_buffers [OF misc_ok_std, of "replicate 16 1" "replicate 16 2"] by simp

text \<open>C11: the record test tools print what is on file. \<open>main\<close> of the record test exits with
  0 and prints the ciphertexts and tags recorded in \<open>tools/ascon_record_kat.txt\<close> for its two
  records; \<open>main\<close> of the mask test exits with 0 and prints the mask function for the
  record-number separator on its three ciphertexts, from three different states.\<close>

theorem record_tools_print:
  assumes "misc_ok M"
  shows "record_kat_main M ForceZero g g' = Some (0,
  [Inr (Some ([0x8e, 0x83, 0xf5, 0xa2, 0x55, 0x47, 0xb4, 0x95, 0x96, 0x7f, 0xe5, 0xcf, 0x6e, 0xdc],
     [0xbc, 0x14, 0xa3, 0xaf, 0x8b, 0x1d, 0x92, 0xa7, 0x9a, 0x4d, 0x72, 0x2d, 0x6c, 0xf6, 0xbf, 0xe7])),
   Inr (Some ([0xec, 0x55, 0xfa, 0x4c, 0x5b, 0x6e, 0x24, 0x6d, 0xba, 0xb0, 0xe3, 0xb3, 0xc9, 0x89, 0xcd, 0x8b,
      0x09, 0x46, 0x43, 0x4b, 0x27, 0xae, 0xdf, 0x80, 0x71, 0x7f, 0x42, 0xca, 0xa5, 0xa4, 0x71, 0xce],
     [0x90, 0x6a, 0x00, 0x21, 0xbb, 0x26, 0xb2, 0xda, 0x26, 0x89, 0xc2, 0xde, 0x2c, 0x84, 0x74, 0xa8]))])
   \<and> mask_kat_main m m' m'' = (0, map (\<lambda>ct. read_at 0 16 (s8 (permutation (mask_state MASK_PRF_DOMSEP_RNDIMSK mask_kat_snkey ct) 12)))
     [mask_kat_ct1, mask_kat_ct2, replicate 16 0])
   \<and> distinct (map (\<lambda>ct. permutation (mask_state MASK_PRF_DOMSEP_RNDIMSK mask_kat_snkey ct) 12)
     [mask_kat_ct1, mask_kat_ct2, replicate 16 0])"
  by (simp only: record_kat_main_eq [OF assms] kat_record kat_record_second mask_kat_prints simp_thms)

theorem record_tools_print_witness:
  "map_option fst (record_kat_main misc_std (\<lambda>a. zero_aead) zero_aead zero_aead) = Some 0 \<and> fst (mask_kat_main zero_aead zero_aead zero_aead) = 0"
  by (simp only: record_tools_print [OF misc_ok_std] option.map fst_conv simp_thms)

text \<open>C12: under one write IV every sequence number has its own nonce.\<close>

theorem record_nonces_distinct:
  assumes "length iv = 16"
  shows "build_nonce iv seq = build_nonce iv seq' \<longleftrightarrow> seq = seq'"
  using assms by (rule build_nonce_inj)

theorem record_nonces_distinct_witness:
  "build_nonce (replicate 16 0x5a) 1 = build_nonce (replicate 16 0x5a) 2 \<longleftrightarrow> (1 :: u64) = 2"
  by (rule record_nonces_distinct) simp

section \<open>The AEAD API as a state machine\<close>

text \<open>C13: the API refines the abstract machine. For any sequence of calls with valid
  buffers on a context that satisfies the invariant, the return codes (an authentication
  failure counting as an accepted call) and the progress flags afterwards are those of the
  machine that knows only which of key, nonce and associated data are set and the direction.\<close>

theorem api_refines_phases:
  assumes "misc_ok M" and "aead_inv a" and "\<forall>c \<in> set cs. call_ok c"
  shows "\<exists>rs a'. aead_calls M cs (Some a) = (rs, Some a') \<and>
    phase_calls cs (phase a) = (map accepted rs, phase a')"
  using aead_calls_refine [OF assms] by blast

theorem api_refines_phases_witness:
  "\<exists>rs a'. aead_calls misc_std [CallInit, CallSetAD None 0, CallSetKey (Some (replicate 16 0))] (Some zero_aead) = (rs, Some a') \<and>
    phase_calls [CallInit, CallSetAD None 0, CallSetKey (Some (replicate 16 0))] (phase zero_aead) = (map accepted rs, phase a')"
  by (rule api_refines_phases) (simp_all add: misc_ok_std aead_inv_def zero_aead_def)

text \<open>C14: the invariant of all contexts reachable from \<open>Init\<close>: less than a block is pending,
  nothing is pending before a direction is chosen, a direction needs absorbed associated
  data, and that needs key and nonce.\<close>

theorem reachable_contexts:
  assumes "misc_ok M" and "aead_reach M a"
  shows "alastBlkSz a < 16 \<and> (adSet a \<longrightarrow> keySet a \<and> nonceSet a) \<and> (aop a \<noteq> ASCON_AEAD128_NOTSET \<longrightarrow> adSet a)
    \<and> (alastBlkSz a \<noteq> 0 \<longrightarrow> aop a \<noteq> ASCON_AEAD128_NOTSET)"
  using aead_reach_inv [OF assms(2,1)] by (simp add: aead_inv_def)

theorem reachable_contexts_witness:
  "\<exists>a. aead_reach misc_std a \<and> aop a = ASCON_AEAD128_ENCRYPT \<and> alastBlkSz a < 16 \<and> adSet a \<and> keySet a \<and> nonceSet a"
proof -
  obtain a where a: "aead_reach misc_std a" "aop a = ASCON_AEAD128_ENCRYPT" using sealing_calls_run by blast
  from reachable_contexts [OF misc_ok_std a(1)] a show ?thesis by auto
qed

text \<open>C15: a call that is rejected for its arguments or for the state of the context leaves
  the context as it was.\<close>

theorem rejected_call_no_effect:
  assumes "misc_ok M" and "aead_reach M a" and "aead_step M a c r a'" and "r = BAD_FUNC_ARG \<or> r = BAD_STATE_E"
  shows "a' = a"
  using aead_step_effect [OF assms(1) aead_reach_inv [OF assms(2,1)] assms(3)] assms(4)
  by (auto simp: call_effect_def)

theorem rejected_call_no_effect_witness:
  "the (snd (aead_call misc_std (CallEncryptUpdate (Some [1]) 1) (Some fresh_context))) = fresh_context"
proof (rule rejected_call_no_effect [OF misc_ok_std aead_reach.init [OF fresh_context_init]])
  show "aead_step misc_std fresh_context (CallEncryptUpdate (Some [1]) 1) BAD_STATE_E
     (the (snd (aead_call misc_std (CallEncryptUpdate (Some [1]) 1) (Some fresh_context))))"
    by (rule aead_step.call) (simp_all add: wc_AsconAEAD128_EncryptUpdate_def fresh_context_def zero_aead_def)
qed simp

text \<open>C16: a tag comes out only after key, nonce, associated data and at least one encryption
  update were accepted since \<open>Init\<close>.\<close>

theorem tag_needs_all_steps:
  assumes "misc_ok M" and "wc_AsconAEAD128_Init (Some g) = (WC_OK, Some a0)"
    and "\<forall>c \<in> set cs. call_ok c" and "CallInit \<notin> set cs" and "aead_calls M cs (Some a0) = (rs, Some a)"
    and "wc_AsconAEAD128_EncryptFinal (Some a) t = (WC_OK, a', tag)"
  shows "succeeded is_key (zip cs rs) \<and> succeeded is_nonce (zip cs rs) \<and>
    succeeded is_ad (zip cs rs) \<and> succeeded is_encrypt (zip cs rs)"
  using assms by (rule encrypt_final_needs)

theorem tag_needs_all_steps_witness:
  "let tr = zip sealing_calls (fst (aead_calls misc_std sealing_calls (Some fresh_context))) in
    succeeded is_key tr \<and> succeeded is_nonce tr \<and> succeeded is_ad tr \<and> succeeded is_encrypt tr"
proof -
  obtain rs a where run: "aead_calls misc_std sealing_calls (Some fresh_context) = (rs, Some a)"
    and a: "aop a = ASCON_AEAD128_ENCRYPT" "keySet a" "nonceSet a" "adSet a"
    using sealing_calls_run by blast
  obtain a' tag where "wc_AsconAEAD128_EncryptFinal (Some a) PTR = (WC_OK, a', tag)"
    by (simp add: wc_AsconAEAD128_EncryptFinal_def Let_def a)
  with sealing_calls_ok run show ?thesis
    by (simp add: tag_needs_all_steps [OF misc_ok_std fresh_context_init])
qed

section \<open>Record-number masks\<close>

text \<open>C17: for a 16-byte key and input \<open>mask_prf_derive\<close> gives the first 16 bytes of
  twelve rounds on the state separator, key, input, for every domain separator.\<close>

theorem mask_output:
  assumes "length k = 16" and "length x = 16"
  shows "mask_prf_derive (Some k) (Some x) PTR d = (WC_OK, read_at 0 16 (s8 (permutation (mask_state d k x) 12)))"
  using mask_prf_derive_eq [OF assms] by (simp add: perm12_def)

theorem mask_output_witness:
  "mask_prf_derive (Some (replicate 16 1)) (Some (replicate 16 2)) PTR MASK_PRF_DOMSEP_QUPNMSK
    = (WC_OK, read_at 0 16 (s8 (permutation (mask_state MASK_PRF_DOMSEP_QUPNMSK (replicate 16 1) (replicate 16 2)) 12)))"
  by (rule mask_output) simp_all

text \<open>C18: domain separation. Two mask queries of the protocols in the table reach the same
  permutation output only if protocol, key and input are the same, and none reaches the
  state that the AEAD or the hash starts from.\<close>

theorem mask_queries_separate:
  assumes "length k = 16" and "length k' = 16" and "length x = 16" and "length x' = 16"
  shows "(s_permutation (mask_state (mask_prf_domsep_table ! idx_val i) k x) 12
      = s_permutation (mask_state (mask_prf_domsep_table ! idx_val j) k' x') 12 \<longleftrightarrow> i = j \<and> k = k' \<and> x = x')
    \<and> s_permutation (mask_state (mask_prf_domsep_table ! idx_val i) k x) 12
      \<noteq> permutation \<lparr>s64_0 = ASCON_AEAD128_IV, s64_1 = k0, s64_2 = k1, s64_3 = n0, s64_4 = n1\<rparr> 12
    \<and> s_permutation (mask_state (mask_prf_domsep_table ! idx_val i) k x) 12 \<noteq> hstate hash_init"
proof -
  let ?d = "\<lambda>i. mask_prf_domsep_table ! idx_val i"
  have inj: "permutation a 12 = permutation b 12 \<longleftrightarrow> a = b" for a b
    using permutation_bij [of 12] by (auto simp: bij_def inj_def)
  have "?d i = ?d j \<longleftrightarrow> i = j" by (cases i; cases j) (simp_all add: domsep_defs)
  moreover have "?d i \<noteq> ASCON_AEAD128_IV" "?d i \<noteq> ASCON_HASH256_IV"
    by (cases i; simp add: domsep_defs ASCON_AEAD128_IV_def ASCON_HASH256_IV_def)+
  moreover have "hstate hash_init = permutation (zero_state\<lparr>s64_0 := ASCON_HASH256_IV\<rparr>) 12"
    by (simp add: hash_init_def hash_of_cfg_def hash_init_state_def perm12_def)
  moreover have "mask_state d k x \<noteq> zero_state\<lparr>s64_0 := e\<rparr>" if "d \<noteq> e" for d e
    using that by (simp add: mask_state_def zero_state_def)
  moreover have "mask_state d k x \<noteq> \<lparr>s64_0 = e, s64_1 = k0, s64_2 = k1, s64_3 = n0, s64_4 = n1\<rparr>" if "d \<noteq> e" for d e
    using that by (simp add: mask_state_def)
  ultimately show ?thesis
    using mask_state_inj [OF assms] by (simp add: s_permutation_eq inj)
qed

theorem mask_queries_separate_witness:
  "s_permutation (mask_state (mask_prf_domsep_table ! idx_val MASK_PRF_DTLS) (replicate 16 1) (replicate 16 2)) 12
   \<noteq> s_permutation (mask_state (mask_prf_domsep_table ! idx_val MASK_PRF_QUIC) (replicate 16 1) (replicate 16 2)) 12"
  using mask_queries_separate [where k = "replicate 16 1" and k' = "replicate 16 1" and x = "replicate 16 2"
      and x' = "replicate 16 2" and i = MASK_PRF_DTLS and j = MASK_PRF_QUIC] by (simp del: idx_val.simps)

section \<open>The OpenSSL provider\<close>

text \<open>C19: a record through the provider (init, associated data in one call, data in any
  pieces, final, tag) is the specification of the core and every call succeeds; what one
  endpoint sealed, the other opens in any pieces, to the same plaintext.\<close>

theorem provider_seals:
  assumes "params_ok A" and "(okey0 ctx, okey1 ctx) = key_words key" and "(okey0 ctx', okey1 ctx') = key_words key"
    and "length nonce = 16"
  shows "provider_seal A ctx nonce ad pts = Some (ossl_seal key nonce ad (concat pts))
    \<and> (provider_seal A ctx nonce ad pts = Some (concat cts, tag) \<longrightarrow> provider_open A ctx' nonce ad cts tag = Some (concat pts))"
proof (intro conjI impI)
  show s: "provider_seal A ctx nonce ad pts = Some (ossl_seal key nonce ad (concat pts))"
    by (rule provider_seal_eq [OF assms(1,2,4)])
  assume "provider_seal A ctx nonce ad pts = Some (concat cts, tag)"
  then have c: "ossl_seal key nonce ad (concat pts) = (concat cts, tag)" using s by simp
  then have "length tag = 16" by (rule ossl_seal_tag_length)
  with c show "provider_open A ctx' nonce ad cts tag = Some (concat pts)"
    using provider_open_eq [OF assms(1,3,4)] by (simp add: ossl.opn_seal)
qed

theorem provider_seals_witness:
  "provider_seal params_std keyed_ctx kat_iv kat_key [] = Some (ossl_seal kat_key kat_iv kat_key (concat []))
    \<and> provider_open params_std keyed_ctx kat_iv kat_key []
    [0xae, 0x75, 0xb0, 0x3a, 0xbf, 0xa1, 0x13, 0x87, 0xa7, 0x97, 0xb2, 0xb6, 0x43, 0x16, 0x27, 0x64] = Some (concat [])"
proof -
  note p = provider_seals [OF params_ok_std keyed_ctx_keys keyed_ctx_keys, of kat_iv kat_key "[]" "[]"
    "[0xae, 0x75, 0xb0, 0x3a, 0xbf, 0xa1, 0x13, 0x87, 0xa7, 0x97, 0xb2, 0xb6, 0x43, 0x16, 0x27, 0x64]"]
  then show ?thesis using kat_whole_block(2) by (simp add: length_kat)
qed

text \<open>C20: the two stacks produce the same record when the associated data is empty or not a
  whole number of blocks.\<close>

theorem stacks_agree:
  assumes "misc_ok M" and "params_ok A" and "length key = 16" and "(okey0 ctx, okey1 ctx) = key_words key"
    and "length nonce = 16" and "common_ad ad" and "pts \<noteq> []"
  shows "\<exists>ct tag. provider_seal A ctx nonce ad pts = Some (ct, tag) \<and> encrypt_calls M g key nonce ad pts = Inr (ct, tag)"
  using provider_seal_eq [OF assms(2,4,5)] encrypt_calls_seal [OF assms(1,3,5,7)] stacks.agree [OF assms(6)]
  by (cases "aead_seal key nonce ad (concat pts)") simp

theorem stacks_agree_witness:
  "\<exists>ct tag. provider_seal params_std keyed_ctx kat_iv kat_aad [kat_pt] = Some (ct, tag)
    \<and> encrypt_calls misc_std zero_aead kat_key kat_iv kat_aad [kat_pt] = Inr (ct, tag)"
  by (rule stacks_agree)
    (simp_all add: misc_ok_std params_ok_std keyed_ctx_def common_ad_def kat_key_def kat_iv_def kat_aad_def)

text \<open>C21: on one whole block of associated data they part: the same key, nonce and (empty)
  message give two different tags, so neither opens the record of the other.\<close>

theorem stacks_differ_on_whole_block:
  assumes "misc_ok M" and "params_ok A" and "(okey0 ctx, okey1 ctx) = key_words kat_key"
  shows "encrypt_calls M g kat_key kat_iv kat_key [[]] = Inr ([],
      [0x56, 0xfd, 0x0f, 0xad, 0xfc, 0x37, 0x51, 0xe9, 0x8f, 0xc2, 0xa1, 0x3e, 0xe4, 0x9f, 0x3b, 0xae])
    \<and> provider_seal A ctx kat_iv kat_key [[]] = Some ([],
      [0xae, 0x75, 0xb0, 0x3a, 0xbf, 0xa1, 0x13, 0x87, 0xa7, 0x97, 0xb2, 0xb6, 0x43, 0x16, 0x27, 0x64])
    \<and> provider_open A ctx kat_iv kat_key [[]]
      [0x56, 0xfd, 0x0f, 0xad, 0xfc, 0x37, 0x51, 0xe9, 0x8f, 0xc2, 0xa1, 0x3e, 0xe4, 0x9f, 0x3b, 0xae] = None"
proof -
  have len: "length kat_key = 16" "length kat_iv = 16" by (simp_all add: kat_key_def kat_iv_def)
  let ?t = "[0x56, 0xfd, 0x0f, 0xad, 0xfc, 0x37, 0x51, 0xe9, 0x8f, 0xc2, 0xa1, 0x3e, 0xe4, 0x9f, 0x3b, 0xae] :: u8 list"
  have "ossl_open kat_key kat_iv kat_key [] ?t = None"
    by (rule ossl.wrong_tag [OF kat_whole_block(2)]) simp
  moreover have "provider_open A ctx kat_iv kat_key [[]] ?t = ossl_open kat_key kat_iv kat_key (concat [[]]) ?t"
    by (rule provider_open_eq [OF assms(2,3) len(2)]) simp
  ultimately show ?thesis
    using encrypt_calls_seal [OF assms(1) len, of "[[]]" g kat_key] provider_seal_eq [OF assms(2,3) len(2), of kat_key "[[]]"]
    by (simp add: kat_whole_block)
qed

theorem stacks_differ_on_whole_block_witness:
  "encrypt_calls misc_std zero_aead kat_key kat_iv kat_key [[]] \<noteq> Inr (the (provider_seal params_std keyed_ctx kat_iv kat_key [[]]))"
proof -
  show ?thesis using stacks_differ_on_whole_block [OF misc_ok_std params_ok_std keyed_ctx_keys, of zero_aead] by simp
qed

text \<open>C22: but not elsewhere: when a second piece fills the buffered block and leaves \<open>r\<close>
  bytes, the result is that of one piece only if the block's bytes from \<open>r\<close> on were zero,
  because the buffer keeps them and the padding goes on top.\<close>

theorem aad_split_inside_block:
  assumes "aad_fresh a" and "0 < length d1" and "length d1 < 16"
    and "length d1 + length d2 = 16 + r" and "0 < r" and "r < 16"
  shows "os (ascon_aead128_aad_finalize (ascon_aead128_absorb_aad (ascon_aead128_absorb_aad a d1 (length d1)) d2 (length d2)))
       = os (ascon_aead128_aad_finalize (ascon_aead128_absorb_aad a (d1 @ d2) (length (d1 @ d2))))
    \<longleftrightarrow> drop r (take 16 (d1 @ d2)) = replicate (16 - r) 0"
  using assms by (rule stream_stale)

theorem aad_split_inside_block_witness:
  "os (ascon_aead128_aad_finalize (ascon_aead128_absorb_aad (ascon_aead128_absorb_aad zero_ctx (replicate 8 1) (length (replicate 8 (1 :: u8))))
       (replicate 12 1) (length (replicate 12 (1 :: u8)))))
     \<noteq> os (ascon_aead128_aad_finalize (ascon_aead128_absorb_aad zero_ctx (replicate 8 1 @ replicate 12 1)
          (length (replicate 8 1 @ replicate 12 (1 :: u8)))))"
proof -
  have "drop 4 (take 16 (replicate 8 1 @ replicate 12 1)) \<noteq> replicate (16 - 4) (0 :: u8)"
    by (simp add: numeral_eq_Suc)
  then show ?thesis
    by (subst aad_split_inside_block [where r = 4]) (simp_all add: aad_fresh_def zero_ctx_def)
qed

text \<open>C23: the contexts of the provider, whatever is called in whatever order (contexts
  duplicated and freed included): both counters stay below the block size and the buffers
  keep their size, so no access leaves them. On data \<open>ascon128_update\<close> fails only when the
  output buffer is too small, and then changes nothing; else it writes exactly as many
  bytes as it was given and reports that number. A call changes one context at most.\<close>

theorem provider_reachable_contexts:
  assumes "params_ok A" and "provider_reach A S" and "S h = Some ctx"
  shows "adPartSz ctx < 16 \<and> olast ctx < 16 \<and> length (adPart ctx) = 16 \<and> length (oct ctx) = 16 \<and> length (otag ctx) = 16
    \<and> (case ascon128_update ctx PTR outsize inp (length inp) of (ok, ctx', n, out) \<Rightarrow>
         (ok \<longleftrightarrow> inp = [] \<or> length inp \<le> outsize) \<and> (ok \<longrightarrow> n = Some (length inp) \<and> length out = length inp)
         \<and> (\<not> ok \<longrightarrow> ctx' = ctx \<and> out = []))
    \<and> (\<forall>f S'. provider_step A S f S' \<longrightarrow> (\<exists>h. \<forall>h'. h' \<noteq> h \<longrightarrow> S' h' = S h'))"
proof -
  have ok: "ctx_ok ctx" using provider_reach_ok [OF assms(2,1,3)] .
  obtain r ctx' n out where u: "ascon128_update ctx PTR outsize inp (length inp) = (r, ctx', n, out)" by (metis prod_cases4)
  show ?thesis using ok [unfolded ctx_ok_def] update_data_ok [OF ok u]
    by (auto simp: u intro: provider_step_local)
qed

theorem provider_reachable_contexts_witness:
  "case ascon128_update zero_ctx PTR 1 [5, 6] (length [5, 6 :: u8]) of (ok, ctx', n, out) \<Rightarrow> \<not> ok \<and> ctx' = zero_ctx \<and> out = []"
proof -
  have "provider_reach params_std ((\<lambda>h. None)(0 := Some zero_ctx))"
    by (rule provider_reach.step [OF provider_reach.start provider_step.new [where zalloc = True]])
      (simp_all add: ascon128_newctx_def)
  from provider_reachable_contexts [OF params_ok_std this, where h = 0 and ctx = zero_ctx and outsize = 1 and inp = "[5, 6]"] show ?thesis
    by (auto simp del: One_nat_def split: prod.splits)
qed

text \<open>C24: the parameter tables of the provider are true. \<open>get_params\<close> and \<open>get_ctx_params\<close> answer
  exactly the first entry of each announced name, with the setter of the announced type,
  and fail exactly if one of those fails; \<open>set_ctx_params\<close> looks at announced names only.\<close>

theorem parameter_tables:
  assumes "params_ok A" and "setters_ok A"
  shows "ascon128_get_params A ps = those (map (answered A ctx ascon128_gettable_params ps) [0..<length ps])
    \<and> ascon128_get_ctx_params A ctx ps = those (map (answered A ctx ascon128_gettable_ctx_params ps) [0..<length ps])
    \<and> ascon128_set_ctx_params A ctx ps = ascon128_set_ctx_params A ctx (filter (announced ascon128_settable_ctx_params) ps)"
  using get_params_table [OF assms] get_ctx_params_table [OF assms] set_ctx_params_table [OF assms(1)] by blast

theorem parameter_tables_witness:
  "ascon128_set_ctx_params params_std zero_ctx [\<lparr>pkey = PARAM_MODE, data_type = 0, pdata = None, data_size = 0, return_size = 0\<rparr>]
    = ascon128_set_ctx_params params_std zero_ctx []"
  using parameter_tables [OF params_ok_std setters_ok_std,
      of "[\<lparr>pkey = PARAM_MODE, data_type = 0, pdata = None, data_size = 0, return_size = 0\<rparr>]" zero_ctx]
  by (simp add: announced_def param_tables)

text \<open>C25: associated data that arrives after the data is accepted by the provider but not
  authenticated: up to 15 bytes of it leave ciphertext and tag as they are, so a receiver
  that never sees them opens the record.\<close>

theorem late_associated_data:
  assumes "params_ok A" and "(okey0 ctx, okey1 ctx) = key_words key" and "(okey0 ctx', okey1 ctx') = key_words key"
    and "length nonce = 16" and "ad \<noteq> []" and "concat pts \<noteq> []" and "length late < 16"
  shows "provider_seal_late A ctx nonce ad pts late = provider_seal A ctx nonce ad pts
    \<and> (\<exists>ct tag. provider_seal_late A ctx nonce ad pts late = Some (ct, tag)
         \<and> provider_open A ctx' nonce ad [ct] tag = Some (concat pts))"
proof -
  obtain ct tag where s: "ossl_seal key nonce ad (concat pts) = (ct, tag)" by fastforce
  have late: "provider_seal_late A ctx nonce ad pts late = Some (ct, tag)"
    using provider_seal_late_eq [OF assms(1,2,4-7)] s by simp
  have "length tag = 16" using s by (rule ossl_seal_tag_length)
  then have "provider_open A ctx' nonce ad [ct] tag = Some (concat pts)"
    using provider_open_eq [OF assms(1,3,4), of tag ad "[ct]"] s by (simp add: ossl.opn_seal)
  with late s show ?thesis using provider_seal_eq [OF assms(1,2,4), of ad pts] by simp
qed

theorem late_associated_data_witness:
  "provider_seal_late params_std keyed_ctx kat_iv [1] [[2]] [3, 4] = provider_seal params_std keyed_ctx kat_iv [1] [[2]]"
  using late_associated_data [OF params_ok_std keyed_ctx_keys keyed_ctx_keys, of kat_iv "[1]" "[[2]]" "[3, 4]"]
  by (simp add: length_kat)

section \<open>The tools\<close>

text \<open>C26: the drivers of \<open>tools/verify_ascon_32bit.c\<close> compute the digest and the record of
  the library with either permutation path, and its \<open>main\<close> exits with success.\<close>

theorem verify_drivers:
  assumes "length nonce = 16"
  shows "ascon_hash permutation_64 msg (length msg) = hash_spec msg
    \<and> ascon_hash v_permutation_32 msg (length msg) = hash_spec msg
    \<and> ascon_aead_encrypt permutation_64 key nonce ad (length ad) pt (length pt) = aead_seal key nonce ad pt
    \<and> ascon_aead_encrypt v_permutation_32 key nonce ad (length ad) pt (length pt) = aead_seal key nonce ad pt
    \<and> verify_main = 0"
  using ascon_perm_paths by (simp add: ascon_hash_spec ascon_aead_encrypt_seal assms verify_main_zero)

theorem verify_drivers_witness:
  "ascon_aead_encrypt v_permutation_32 kat_key kat_iv kat_aad (length kat_aad) kat_pt (length kat_pt) =
  ([0x8e, 0x83, 0xf5, 0xa2, 0x55, 0x47, 0xb4, 0x95, 0x96, 0x7f, 0xe5, 0xcf, 0x6e, 0xdc],
   [0xbc, 0x14, 0xa3, 0xaf, 0x8b, 0x1d, 0x92, 0xa7, 0x9a, 0x4d, 0x72, 0x2d, 0x6c, 0xf6, 0xbf, 0xe7])"
  by (simp only: verify_drivers [OF length_kat(2)] kat_record)

text \<open>C27: the pre-shared key callbacks fit together: the identity the client writes is one
  the server accepts exactly if the library gives it room for the terminator, both sides
  use the same 32 bytes, also those of the key-schedule test, and the server refuses any
  other identity.\<close>

theorem psk_same_on_both_sides:
  "(c_string (snd (snd (psk_client_cb id_max_len key_max_len))) = Some ''Client_identity'' \<longleftrightarrow> 15 < id_max_len)
    \<and> psk_server_cb dflt user ''Client_identity'' = (32, oracle_psk, Some (case user of Some c \<Rightarrow> c | None \<Rightarrow> dflt))
    \<and> fst (psk_client_cb id_max_len key_max_len) = min 32 key_max_len
    \<and> fst (snd (psk_client_cb id_max_len key_max_len)) = take key_max_len oracle_psk
    \<and> (fst (psk_server_cb dflt user identity) = 0 \<longleftrightarrow> identity \<noteq> ''Client_identity'')
    \<and> make_psk = oracle_psk"
proof -
  have "psk_fill b (min n k) = take k (psk_fill b n)" for b n k
    by (rule psk_fill_take)
  then show ?thesis
    by (simp add: psk_server_cb_def psk_client_cb_def psk_guarded_fill_eq oracle_psk_def client_identity
        make_psk_eq [unfolded oracle_psk_def] Let_def)
qed

section \<open>The measurement harnesses\<close>

text \<open>C28: the benchmark on the device, in both builds of its timer. \<open>T k\<close> is the true time of the
  \<open>k\<close>-th reading of a counter that started anywhere. If no timed region lasts a whole period
  (2^24 ticks of SysTick, which counts down, 2^32 of the DWT counter), then the averages that
  \<open>record_bench\<close> prints are those of the true durations, also when the counter passes its end
  within regions; what the benchmark computes on the SysTick register is \<open>hal_elapsed\<close>. The
  record it leaves is the sealing under the last nonce, and the last decryption gives the
  plaintext back; the drop counter stays within 0 and 1000. At the end \<open>main\<close> has started the
  counter with its full period and set the flag, and the output area holds the first 8191
  bytes of everything that was printed.\<close>

theorem benchmark_report:
  fixes shr :: "u32 \<Rightarrow> nat \<Rightarrow> u32" and mem :: "nat \<Rightarrow> nat \<Rightarrow> wc_AsconAEAD128" and c0 :: u32
  assumes "misc_ok M" and "length ct = 32" and "length tag = 16" and "length msk = 16"
    and "\<And>j. T (2 * j) \<le> T (2 * j + 1) \<and> T (2 * j + 1) - T (2 * j) < (if dwt then 2 ^ 32 else 2 ^ 24)"
    and "rr = record_bench exact_floats M shr mem (\<lambda>k. if dwt then dwt_after c0 (T k) else systick_after c0 (T k)) dwt ((ct, tag), msk)"
    and "length (log_out (hdr_log h)) = 8192" and "bench_main texts render dwt rr h r = (h', r')"
  shows "filter (\<lambda>l. \<nexists>t. l = Text t) (rr_lines rr) =
      [PerByte ''ascon-record-encrypt'' (average (region T) 0) (average (region T) 0 / 32),
       PerByte ''ascon-record-decrypt'' (average (region T) 3000) (average (region T) 3000 / 32),
       PerRecord ''ascon-record-mask'' (average (region T) 6000)]
    \<and> rec_elapsed dwt = hal_elapsed dwt
    \<and> rr_sealed rr = aead_seal trafficKey (rec_nonce shr 2999) rec_aad rec_pt \<and> rr_pt rr = rec_pt
    \<and> 0 \<le> rr_drops rr \<and> rr_drops rr \<le> 1000
    \<and> hdr_done h' = 1 \<and> r' = hal_enable dwt r \<and> log_ok (hdr_log h')
    \<and> log_text (hdr_log h') = take 8191 (concat texts @ concat (map render (rr_lines rr)))"
proof -
  have regions: "T (2 * j) \<le> T (2 * j + 1) \<and> region T j < counter_period dwt" for j
    using assms(5) [of j] by (simp only: region_def counter_period_def)
  have rr: "rr = record_bench exact_floats M shr mem (\<lambda>k. counter_after dwt c0 (T k)) dwt ((ct, tag), msk)"
    by (simp only: assms(6) counter_after_def)
  have "rec_elapsed dwt = hal_elapsed dwt" by (simp add: fun_eq_iff rec_elapsed_hal)
  with record_bench_result [where T = T and dwt = dwt and ?c0.0 = c0 and shr = shr and mem = mem, OF assms(1-4) regions, folded rr] bench_main_area [OF assms(7,8)]
  show ?thesis by blast
qed

theorem benchmark_report_witness:
  "let rr = record_bench exact_floats misc_std (\<lambda>x n. 0) (\<lambda>b i. zero_aead) (\<lambda>k. systick_after 5 (10 * k)) False
         ((replicate 32 0, replicate 16 0), replicate 16 0) in
    systick_after 5 10 = 0x00FFFFFB \<and> rr_pt rr = rec_pt \<and> PerRecord ''ascon-record-mask'' 10 \<in> set (rr_lines rr)"
proof -
  let ?rr = "record_bench exact_floats misc_std (\<lambda>x n. 0) (\<lambda>b i. zero_aead) (\<lambda>k. systick_after 5 (10 * k)) False
         ((replicate 32 0, replicate 16 0), replicate 16 0)"
  let ?h = "\<lparr>hdr_magic = 0, hdr_out = 0, hdr_log = \<lparr>log_len = 0, log_out = replicate 8192 0\<rparr>, hdr_done = 0\<rparr>"
  have wrap: "systick_after 5 10 = 0x00FFFFFB" by (simp add: systick_after_def)
  have rr: "?rr = record_bench exact_floats misc_std (\<lambda>x n. 0) (\<lambda>b i. zero_aead)
      (\<lambda>k. if False then dwt_after 5 (10 * k) else systick_after 5 (10 * k)) False ((replicate 32 0, replicate 16 0), replicate 16 0)"
    by (simp only: if_False)
  obtain h' r' where m: "bench_main [] (\<lambda>l. []) False ?rr ?h \<lparr>DEMCR = 0, DWT_CTRL = 0, DWT_CYCCNT = 0, SYST_CSR = 0, SYST_RVR = 0, SYST_CVR = 0\<rparr> = (h', r')" by fastforce
  have reg: "10 * (2 * j) \<le> 10 * (2 * j + 1) \<and> 10 * (2 * j + 1) - 10 * (2 * j) < (if False then 2 ^ 32 else 2 ^ 24)" for j :: nat
    by simp
  have ten: "average (region (\<lambda>k. 10 * k)) b = 10" for b by (simp add: average_def region_def)
  from benchmark_report [of misc_std "replicate 32 0" "replicate 16 0" "replicate 16 0" "\<lambda>k. 10 * k" False, OF misc_ok_std _ _ _ reg rr _ m]
  have pt: "rr_pt ?rr = rec_pt"
    and l: "filter (\<lambda>l. \<nexists>t. l = Text t) (rr_lines ?rr) =
      [PerByte ''ascon-record-encrypt'' 10 (10 / 32), PerByte ''ascon-record-decrypt'' 10 (10 / 32), PerRecord ''ascon-record-mask'' 10]"
    unfolding ten by simp_all
  have "PerRecord ''ascon-record-mask'' 10 \<in> set (filter (\<lambda>l. \<nexists>t. l = Text t) (rr_lines ?rr))" unfolding l by simp
  then have "PerRecord ''ascon-record-mask'' 10 \<in> set (rr_lines ?rr)" by (rule filter_is_subset [THEN subsetD])
  with pt wrap show ?thesis unfolding Let_def by blast
qed

text \<open>C29: the clock that the SysTick build gives to the benchmark library counts a period twice:
  a time span shorter than one period of the counter, measured with one reset and one
  reading, comes out a whole period (0.52 s) too long if the counter passed 0 in between.\<close>

theorem benchmark_clock:
  assumes "unat (SYST_CVR r) < 2 ^ 24" and "\<not> bit (SYST_CSR r) 16" and "d < 2 ^ 24"
    and "bench_current_time exact_floats False True r c = (c', r', t)"
  shows "snd (snd (bench_current_time exact_floats False False (systick_run d r') c'))
    = real (d + (if ticks_to_zero (SYST_CVR r) \<le> d then 2 ^ 24 else 0)) / 32000000"
  using assms by (rule clock_reading)

theorem benchmark_clock_witness:
  "\<exists>r c. snd (snd (bench_current_time exact_floats False False (systick_run 10 r) c)) = real (10 + 2 ^ 24) / 32000000"
proof -
  let ?r = "\<lparr>DEMCR = 0, DWT_CTRL = 0, DWT_CYCCNT = 0, SYST_CSR = 5, SYST_RVR = 0x00FFFFFF, SYST_CVR = 5\<rparr>"
  obtain c r t where b: "bench_current_time exact_floats False True ?r \<lparr>s_wraps = 0, s_start = 0, dwt_start = 0\<rparr> = (c, r, t)"
    by (metis prod_cases3)
  have "\<not> bit (5 :: u32) 16" by simp
  then show ?thesis
    using benchmark_clock [OF _ _ _ b, of 10] by (auto simp: ticks_to_zero_def)
qed

text \<open>C30: the timing test \<open>run_test\<close>. A test has one list of samples, each its class next to the
  ciphertext and the context it is measured with. Line \<open>r\<close> is the verdict on the times of all
  samples, each measured with its own inputs and judged under its own class, in an order that
  only permutes them: one more shuffle of the list in each round. The counter may depend on
  what was computed. The test reports a leak exactly if one line did; it prints at least three
  lines, and without a leak all eight (five in the control test). Every call of the mask
  function succeeds; only the ciphertext varies in mode 0, only the key in mode 1, and in
  both class 0 always computes the mask of the fixed key and ciphertext.\<close>

theorem timing_test:
  assumes "0 < n" and "n \<le> 2 ^ 63" and "run_test F rdtsc heap True True mode n xs k = (xs', k', lines, leak)"
    and "smp = test_samples heap mode n xs"
    and "order = (\<lambda>r. snd (round_samples n (warmup WARMUP (fst (gen_samples mode n xs))) smp r))"
  shows "(\<forall>r < length lines. mset (order r) = mset smp
      \<and> lines ! r = judge F n r
          (map (\<lambda>idx. case order r ! idx of (c, ct, a) \<Rightarrow>
             rdtsc (k + 2 * n * r + 2 * idx + 1) (Some (a, ct)) - rdtsc (k + 2 * n * r + 2 * idx) None) [0..<n])
          (map fst (order r)))
    \<and> (leak \<longleftrightarrow> (\<exists>line \<in> set lines. rl_leak line))
    \<and> length lines \<le> (if mode = 2 then 5 else 8) \<and> 3 \<le> length lines
    \<and> (\<not> leak \<longrightarrow> length lines = (if mode = 2 then 5 else 8)) \<and> k' = k + 2 * n * length lines
    \<and> (\<forall>(c, ct, a) \<in> set smp. fst (wc_AsconAEAD128_Mask (Some a) (Some ct) PTR) = WC_OK
        \<and> (mode = 1 \<longrightarrow> ct = fixed_ct) \<and> (mode \<noteq> 1 \<longrightarrow> key_of a = fixed_key)
        \<and> (mode < 2 \<and> c = 0 \<longrightarrow> snd (wc_AsconAEAD128_Mask (Some a) (Some ct) PTR)
             = snd (mask_prf_derive (Some fixed_key) (Some fixed_ct) PTR MASK_PRF_DOMSEP_RNDIMSK)))"
proof -
  note run = run_test_lines [OF assms(1-3), folded assms(4)]
  have len: "length smp = n" by (simp add: assms(4) test_samples_def Let_def)
  have "mset (order r) = mset smp" for r
    using round_samples_mset [OF len assms(1,2)] by (simp only: assms(5))
  moreover have "lines ! r = judge F n r
      (map (\<lambda>idx. case order r ! idx of (c, ct, a) \<Rightarrow>
         rdtsc (k + 2 * n * r + 2 * idx + 1) (Some (a, ct)) - rdtsc (k + 2 * n * r + 2 * idx) None) [0..<n])
      (map fst (order r))" if "r < length lines" for r
    using run that by (simp only: round_verdict_def sample_time_def assms(5) simp_thms)
  moreover have "fst (wc_AsconAEAD128_Mask (Some a) (Some ct) PTR) = WC_OK
      \<and> (mode = 1 \<longrightarrow> ct = fixed_ct) \<and> (mode \<noteq> 1 \<longrightarrow> key_of a = fixed_key)
      \<and> (mode < 2 \<and> c = 0 \<longrightarrow> snd (wc_AsconAEAD128_Mask (Some a) (Some ct) PTR)
           = snd (mask_prf_derive (Some fixed_key) (Some fixed_ct) PTR MASK_PRF_DOMSEP_RNDIMSK))"
    if "(c, ct, a) \<in> set smp" for c ct a
    using test_samples_masks [OF that [unfolded assms(4)]] by (metis sample_ok_def)
  ultimately show ?thesis using run by blast
qed

theorem timing_test_witness:
  "case run_test exact_floats (\<lambda>k inp. case inp of None \<Rightarrow> 0 | Some (a, ct) \<Rightarrow> ucast (ct ! 0)) (\<lambda>i. zero_aead) True True 2 1 1 1 of
     (xs, k, lines, leak) \<Rightarrow> 3 \<le> length lines \<and> length lines \<le> 5"
proof -
  obtain xs k lines leak where r: "run_test exact_floats (\<lambda>k inp. case inp of None \<Rightarrow> 0 | Some (a, ct) \<Rightarrow> ucast (ct ! 0)) (\<lambda>i. zero_aead)
      True True 2 1 1 1 = (xs, k, lines, leak)"
    by (metis prod_cases4)
  have "3 \<le> length lines \<and> length lines \<le> (if (2 :: nat) = 2 then 5 else 8)" using timing_test [OF _ _ r refl refl] by simp
  then show ?thesis unfolding r by simp
qed

text \<open>C31: with exact arithmetic, the two floating-point computations are the formulas they
  stand for: \<open>welch_t\<close> is Welch's statistic of the two classes below the threshold (0 if one has fewer
  than ten samples), and \<open>mask_prf_check_bound\<close> stores q^2/2^192 + q/2^128, which
  is below 2^(-63) for every 64-bit q.\<close>

theorem exact_statistics:
  "welch_t exact_floats tms classes thr = (let
     T0 = class_times (\<lambda>c. c = 0) thr (zip tms classes);
     T1 = class_times (\<lambda>c. c \<noteq> 0) thr (zip tms classes)
   in if length T0 < 10 \<or> length T1 < 10 then 0 else welch_statistic T0 T1)
   \<and> mask_prf_check_bound exact_floats q PTR = (True, Some ((real (unat q))\<^sup>2 / 2 ^ 192 + real (unat q) / 2 ^ 128))
   \<and> (real (unat q))\<^sup>2 / 2 ^ 192 + real (unat q) / 2 ^ 128 < 1 / 2 ^ 63"
  using welch_t_exact [OF refl refl, of tms classes thr] check_bound_exact check_bound_small by (simp only: Let_def simp_thms)

section \<open>The demonstration programs\<close>

text \<open>C32: the servers and clients, whatever the libraries answer: a session is created only
  on a context that has the cipher suite, and the credentials the program is about, accepted
  (certificate servers also demand a client certificate, certificate clients verify the
  server); data is read and written only on a session whose handshake succeeded. Exit code 0
  means that a handshake has succeeded and that session and context were freed in this order;
  the only other code is 1, and then no handshake has succeeded at any time.\<close>

theorem programs_keep_sessions:
  "keeps_session L ascon_suite [Psk_Server] (dtls13_psk_server L stack argv)
   \<and> keeps_session L ascon_suite [Psk_Server] (tls13_psk_server L stack argv)
   \<and> keeps_session L ascon_suite server_creds (dtls13_cert_server L stack argv)
   \<and> keeps_session L ascon_suite server_creds (tls13_cert_server L stack argv)
   \<and> keeps_session L std_suite [Psk_Server] (dtls_std_server L stack argv)
   \<and> keeps_session L ascon_suite [Psk_Client] (dtls13_psk_client L stack argv)
   \<and> keeps_session L ascon_suite client_creds (dtls13_cert_client L stack argv)
   \<and> keeps_session L ascon_suite client_creds (tls13_cert_client L stack argv)
   \<and> keeps_session L std_suite [Psk_Client] (dtls_std_client L stack argv)"
  by (simp add: servers_keep_session clients_keep_session)

text \<open>C33: the servers are echo servers: every message that was read is written back, exactly
  its bytes, before the next read and before the end, and nothing else is written.\<close>

theorem servers_echo_messages:
  assumes "lawful read_law (env L)"
  shows "echoes (dtls13_psk_server L stack argv) \<and> echoes (tls13_psk_server L stack argv)
   \<and> echoes (dtls13_cert_server L stack argv) \<and> echoes (tls13_cert_server L stack argv)
   \<and> echoes (dtls_std_server L stack argv)"
  using servers_echo [OF assms] by (simp add: dtls13_psk_server_def dtls_std_server_def)

theorem servers_echo_messages_witness:
  "echoes (dtls13_psk_server flood (\<lambda>i. 0) [''server'', ''11111''])"
  using servers_echo_messages [OF flood_lawful] by simp

text \<open>C34: a client with a pre-shared key that exits with 0 has sent \<open>--msgs\<close> messages, each
  the letters of the alphabet in turn up to \<open>--size\<close> bytes, with the number at least 1 and the size
  between 1 and 1080; with any other exit code it has sent nothing. The clients with certificates send
  their one message, terminator included.\<close>

theorem clients_send_payload:
  "(case client_options argv of (shortTimeout, msgCount, msgSize) \<Rightarrow>
     1 \<le> msgCount \<and> 1 \<le> msgSize \<and> msgSize \<le> 1080
     \<and> client_payload msgSize = map (\<lambda>j. of_nat (65 + j mod 26)) [0..<nat msgSize]
     \<and> sends (dtls13_psk_client L stack argv) (client_payload msgSize) (nat msgCount)
     \<and> sends (dtls_std_client L stack argv) (client_payload msgSize) (nat msgCount))
   \<and> sends (dtls13_cert_client L stack argv) cert_message 1 \<and> sends (tls13_cert_client L stack argv) cert_message 1"
proof -
  obtain st c n where o: "client_options argv = (st, c, n)" by (metis prod_cases3)
  show ?thesis
    unfolding o prod.case dtls13_psk_client_def dtls_std_client_def
    by (intro conjI client_options_bounds [OF o] psk_client_sends [OF o] cert_clients_send client_payload_def)
qed

text \<open>C35: prints of buffers. The clients with a pre-shared key print a counted prefix, which
  stays inside the buffer. The five servers and the clients with certificates print the
  buffer as a string without storing a terminator: inside it if every message carries one,
  and beyond it whenever, with any library, one of their reads fills the buffer with bytes
  that are not zero.\<close>

theorem prints_of_buffers:
  assumes "lawful read_law (env L)"
  shows "prints_inside (dtls13_psk_client L stack argv) \<and> prints_inside (dtls_std_client L stack argv)
   \<and> (\<forall>m \<in> {dtls13_psk_server L stack argv, dtls_std_server L stack argv, tls13_psk_server L stack argv,
            dtls13_cert_server L stack argv, tls13_cert_server L stack argv,
            dtls13_cert_client L stack argv, tls13_cert_client L stack argv}.
       (lawful (message_law (\<lambda>d. 0 \<in> set d)) (env L) \<longrightarrow> prints_inside m)
     \<and> ((\<exists>e \<in> set (trace m). fills_buffer e) \<longrightarrow> \<not> prints_inside m))"
  using psk_clients_print_inside [OF assms] strings_print_inside strings_print_beyond [OF assms]
  by (auto simp: dtls13_psk_client_def dtls_std_client_def dtls13_psk_server_def dtls_std_server_def)

theorem prints_of_buffers_witness:
  "prints_inside (dtls13_psk_client flood (\<lambda>i. 0) [''client'']) \<and> \<not> prints_inside (dtls13_cert_server flood (\<lambda>i. 0) [''server''])"
  using prints_of_buffers [OF flood_lawful, of "\<lambda>i. 0" "[''server'']"] prints_of_buffers [OF flood_lawful, of "\<lambda>i. 0" "[''client'']"]
    flood_fills [of "\<lambda>i. 0"] by simp

text \<open>C36: the retry loops end, whatever the libraries answer. The DTLS server tries the
  handshake at most 201 times and reads at most 101 times for a message (21 and 21 with
  \<open>--short-timeout\<close>), and the client, which tries it once, 101 (11) times; the milliseconds of
  \<open>Sleep\<close> are bounded in the same way.\<close>

theorem programs_give_up:
  "(let short = (2 < length argv \<and> argv ! 2 = ''--short-timeout'');
        msgs = nat (if 3 < length argv then atoi (argv ! 3) else 30);
        tr = trace (dtls13_psk_server L stack argv)
    in cost (effort 1 0 0) tr \<le> (if short then 21 else 201)
     \<and> cost (effort 0 1 0) tr \<le> msgs * (if short then 21 else 101)
     \<and> cost (effort 0 0 1) tr \<le> (if short then 1000 else 10000) + msgs * (if short then 1000 else 5000))
   \<and> (case client_options argv of (short, msgCount, msgSize) \<Rightarrow>
        cost (effort 1 0 0) (trace (dtls13_psk_client L stack argv)) \<le> 1
      \<and> cost (effort 0 1 0) (trace (dtls13_psk_client L stack argv)) \<le> nat msgCount * (if short then 11 else 101)
      \<and> cost (effort 0 0 1) (trace (dtls13_psk_client L stack argv)) \<le> nat msgCount * (if short then 520 else 5020))"
proof -
  obtain st c n where o: "client_options argv = (st, c, n)" by (metis prod_cases3)
  define short where "short \<longleftrightarrow> 2 < length argv \<and> argv ! 2 = ''--short-timeout''"
  define msgs where "msgs = nat (if 3 < length argv then atoi (argv ! 3) else 30)"
  note server = dtls_server_effort [where argv = argv and d = 30 and suite = ascon_suite and n = 1200 and L = L and stack = stack,
      folded short_def dtls13_psk_server_def msgs_def]
  note client = dtls_client_effort [OF o, where suite = ascon_suite and L = L and stack = stack, folded dtls13_psk_client_def]
  show ?thesis
    unfolding o prod.case short_def [symmetric] msgs_def [symmetric] Let_def
    using server [of 1 0 0] server [of 0 1 0] server [of 0 0 1] client [of 1 0 0] client [of 0 1 0] client [of 0 0 1]
    by (cases short; cases st) (simp_all add: mult.commute)
qed

text \<open>C37: the key argument of the OpenSSL client: hexadecimal digits are read in pairs into the
  front of the zeroed array, but nothing checks that they fit: with more than 64 pairs the
  program stores behind the array.\<close>

theorem openssl_client_key:
  assumes "list_all (\<lambda>c. hex_digit c \<noteq> None) (argv ! 3)" and "5 \<le> length argv"
  shows "parse_psk (argv ! 3) = (if length (argv ! 3) div 2 \<le> 64
      then Some (length (argv ! 3) div 2, hex_bytes (argv ! 3) @ replicate (64 - length (argv ! 3) div 2) 0) else None)
    \<and> (ascon_psk_client A stack argv = None \<longleftrightarrow> 64 < length (argv ! 3) div 2)"
  using parse_psk_hex [OF assms(1)] assms(2) by (simp add: ascon_psk_client_def)

theorem openssl_client_key_witness:
  "ascon_psk_client (\<lambda>tr c. \<lparr>rc = 0, data = [], used = 0\<rparr>) (\<lambda>i. 0) [''c'', ''h'', ''p'', replicate 130 (CHR ''a''), ''i''] = None"
proof -
  let ?argv = "[''c'', ''h'', ''p'', replicate 130 (CHR ''a''), ''i'']"
  have "list_all (\<lambda>c. hex_digit c \<noteq> None) (?argv ! 3)" by (auto simp: list_all_iff hex_digit_def Let_def)
  from openssl_client_key [OF this] show ?thesis by simp
qed

text \<open>C38: the OpenSSL client writes its message once, after a successful handshake, and reads
  once after that; it exits with 0 exactly if all seven steps succeeded (else with 1, before
  anything was read), and its prints of buffers find a terminator. Its session callback frees the session
  whenever it does not offer it.\<close>

theorem openssl_client_order:
  assumes "lawful ossl_read_law A"
  shows "(\<exists>ph. watch client_step 0 (trace (ascon_psk_session A stack host port)) = Some ph
      \<and> client_end (outcome (ascon_psk_session A stack host port)) ph)
    \<and> watch live_step None (trace (psk_use_session_cb A ssl g_psk g_psklen g_identity))
      = Some (map_option fst (snd (outcome (psk_use_session_cb A ssl g_psk g_psklen g_identity))))"
  using ascon_psk_session_end [OF assms] psk_use_session_no_leak by blast

theorem openssl_client_order_witness:
  "let A = (\<lambda>tr c. case c of SSL_read s n \<Rightarrow> \<lparr>rc = int (min 1 n), data = [65], used = 0\<rparr> | _ \<Rightarrow> \<lparr>rc = 1, data = [], used = 0\<rparr>) in
    \<exists>ph. watch client_step 0 (trace (ascon_psk_session A (\<lambda>i. 0) ''h'' ''p'')) = Some ph
      \<and> client_end (outcome (ascon_psk_session A (\<lambda>i. 0) ''h'' ''p'')) ph"
  unfolding Let_def
  by (rule openssl_client_order [THEN conjunct1]) (auto simp: lawful_def ossl_read_law_def split: ossl_call.splits)

text \<open>C39: the picotls client hands picotls exactly the bytes of the stream: every call gets the
  received bytes that were not consumed yet, in order and without loss, \<open>recv\<close> writes
  behind them inside the array, the handshake calls come before its end and the record calls
  after it, and after a failed handshake picotls is not called again and nothing more is
  received (a last flight may still be sent); exit code 0 means that the handshake succeeded.\<close>

theorem picotls_client_stream:
  assumes "lawful ptls_law (ptls_env L)" and "PTLS_ERROR_IN_PROGRESS L \<noteq> 0"
  shows "\<exists>st. watch (stream_step (PTLS_ERROR_IN_PROGRESS L)) \<lparr>hsPhase = Handshaking, pending = []\<rparr>
        (trace (picotls_psk_client fuel L stack argv)) = Some st
    \<and> stream_end (outcome (picotls_psk_client fuel L stack argv)) st"
  by (rule wp_trace [OF picotls_psk_client_stream [OF assms]])

theorem picotls_client_stream_witness:
  "\<exists>st. watch (stream_step 514) \<lparr>hsPhase = Handshaking, pending = []\<rparr> (trace (picotls_psk_client 3 pong_lib (\<lambda>i. 0) [''c''])) = Some st
    \<and> stream_end (outcome (picotls_psk_client 3 pong_lib (\<lambda>i. 0) [''c''])) st"
  using picotls_client_stream [of pong_lib 3 "\<lambda>i. 0" "[''c'']"] by (simp add: pong_lawful)

text \<open>C40: the picotls client comes to an end when its peer does: if fewer bytes were received than
  there was fuel, then the run has finished, and it is the run for any larger fuel too.\<close>

theorem picotls_client_returns:
  assumes "lawful ptls_progress (ptls_env L)"
    and "cost received (trace (picotls_psk_client fuel L stack argv)) < fuel"
  shows "\<exists>x. \<forall>more \<ge> fuel. outcome (picotls_psk_client more L stack argv) = Finished x
    \<and> trace (picotls_psk_client more L stack argv) = trace (picotls_psk_client fuel L stack argv)"
proof -
  let ?m = "\<lambda>f. picotls_psk_client f L stack argv"
  have fin: "outcome (?m fuel) \<noteq> Running"
    using picotls_psk_client_bytes [OF assms(1)] assms(2) by (metis leD)
  then obtain x where x: "outcome (?m fuel) = Finished x" by (cases "outcome (?m fuel)") auto
  have "outcome (?m f) = Finished x \<and> trace (?m f) = trace (?m fuel)" if "fuel \<le> f" for f
    using picotls_psk_client_more [OF fin that] x unfolding outcome_def trace_def by metis
  then show ?thesis by blast
qed

theorem picotls_client_returns_witness:
  "\<exists>x. outcome (picotls_psk_client 1 quiet_lib (\<lambda>i. 0) [''c'']) = Finished x"
proof -
  have "cost received (trace (picotls_psk_client 1 quiet_lib (\<lambda>i. 0) [''c''])) < 1"
    by (simp add: quiet_trace del: One_nat_def)
  from picotls_client_returns [OF quiet_lawful this] show ?thesis by blast
qed

end
